(* ===== verification/Prelude.thy ===== *)
theory Prelude
  imports Main "HOL-Library.Code_Target_Nat"
begin

text \<open>
  Shared vocabulary of the ts-bridge development. Go functions that return only an
  \<open>error\<close> become \<open>'e option\<close> (\<open>None\<close> is Go's \<open>nil\<close>); functions that return a value
  and an error become \<open>'e + 'a\<close> (\<open>Inl\<close> the error). \<open>and_then\<close> is the early return
  \<open>if err := f(); err != nil { return err }\<close>. The lemmas on lists that several
  components use are collected here.
\<close>

named_theorems go_eval \<open>equations that evaluate the model on concrete inputs\<close>

type_synonym ('e, 'a) result = "'e + 'a"

subsection \<open>Error values\<close>

definition and_then :: "'e option \<Rightarrow> 'e option \<Rightarrow> 'e option" where
  "and_then a b = (case a of Some e \<Rightarrow> Some e | None \<Rightarrow> b)"

lemma and_then_simps [simp]:
  "and_then None b = b"
  "and_then (Some e) b = Some e"
  by (simp_all add: and_then_def)

lemma and_then_None_iff [simp]: "and_then a b = None \<longleftrightarrow> a = None \<and> b = None"
  by (cases a) simp_all

lemma and_then_assoc: "and_then (and_then a b) c = and_then a (and_then b c)"
  by (cases a) simp_all

definition wrap :: "('e \<Rightarrow> 'f) \<Rightarrow> 'e option \<Rightarrow> 'f option" where
  "wrap f a = map_option f a"

lemma wrap_simps [simp]:
  "wrap f None = None"
  "wrap f (Some e) = Some (f e)"
  by (simp_all add: wrap_def)

lemma wrap_None_iff [simp]: "wrap f a = None \<longleftrightarrow> a = None"
  by (cases a) simp_all

definition when_err :: "bool \<Rightarrow> 'e \<Rightarrow> 'e option" where
  "when_err b e = (if b then Some e else None)"

lemma when_err_None_iff [simp]: "when_err b e = None \<longleftrightarrow> \<not> b"
  by (simp add: when_err_def)

lemma when_err_Some_iff [simp]: "when_err b e = Some x \<longleftrightarrow> b \<and> x = e"
  by (auto simp: when_err_def)

lemma when_err_simps [simp]:
  "when_err True e = Some e"
  "when_err False e = None"
  by (simp_all add: when_err_def)

text \<open>A \<open>for\<close> loop that returns the first error its body finds.\<close>

fun first_err :: "('a \<Rightarrow> 'e option) \<Rightarrow> 'a list \<Rightarrow> 'e option" where
  "first_err f [] = None"
| "first_err f (x # xs) = and_then (f x) (first_err f xs)"

lemma first_err_None_iff [simp]: "first_err f xs = None \<longleftrightarrow> (\<forall>x \<in> set xs. f x = None)"
  by (induction xs) auto

definition bind_res :: "('e, 'a) result \<Rightarrow> ('a \<Rightarrow> ('e, 'b) result) \<Rightarrow> ('e, 'b) result" where
  "bind_res r f = (case r of Inl e \<Rightarrow> Inl e | Inr x \<Rightarrow> f x)"

lemma bind_res_simps [simp]:
  "bind_res (Inl e) f = Inl e"
  "bind_res (Inr x) f = f x"
  by (simp_all add: bind_res_def)

lemma bind_res_Inr_iff: "bind_res r f = Inr y \<longleftrightarrow> (\<exists>x. r = Inr x \<and> f x = Inr y)"
  by (cases r) simp_all

definition check_res :: "'e option \<Rightarrow> ('e, 'a) result \<Rightarrow> ('e, 'a) result" where
  "check_res c r = (case c of Some e \<Rightarrow> Inl e | None \<Rightarrow> r)"

lemma check_res_simps [simp]:
  "check_res None r = r"
  "check_res (Some e) r = Inl e"
  by (simp_all add: check_res_def)

lemma check_res_Inr_iff: "check_res c r = Inr y \<longleftrightarrow> c = None \<and> r = Inr y"
  by (cases c) simp_all

definition err_of :: "('e, 'a) result \<Rightarrow> 'e option" where
  "err_of r = (case r of Inl e \<Rightarrow> Some e | Inr _ \<Rightarrow> None)"

lemma err_of_simps [simp]:
  "err_of (Inl e) = Some e"
  "err_of (Inr x) = None"
  by (simp_all add: err_of_def)

subsection \<open>Lists\<close>

fun index_of :: "'a \<Rightarrow> 'a list \<Rightarrow> nat option" where
  "index_of c [] = None"
| "index_of c (x # xs) = (if x = c then Some 0 else map_option Suc (index_of c xs))"

lemma index_of_None_iff [simp]: "index_of c xs = None \<longleftrightarrow> c \<notin> set xs"
  by (induction xs) auto

lemma index_of_SomeD:
  "index_of c xs = Some i \<Longrightarrow> i < length xs \<and> xs ! i = c \<and> c \<notin> set (take i xs)"
  by (induction xs arbitrary: i) (auto split: if_splits)

lemma index_of_append:
  "index_of c (xs @ ys) =
     (if c \<in> set xs then index_of c xs else map_option (\<lambda>i. length xs + i) (index_of c ys))"
  by (induction xs) (auto simp: option.map_comp comp_def option.map_ident_strong)


end
