(* ===== verification/Go_Strings.thy ===== *)
theory Go_Strings
  imports Prelude
begin

text \<open>
  The parts of Go's \<open>strings\<close> and \<open>strconv\<close> packages that ts-bridge calls, on byte strings
  (\<open>string\<close> is a list of 8-bit characters, as a Go string is a byte slice). White space is
  Go's \<open>unicode.IsSpace\<close>, recognised by its UTF-8 encoding; letter case is folded on ASCII
  only, which is what the host names, schemes and keys of the program are made of.
\<close>

subsection \<open>Prefixes, suffixes, substrings\<close>

fun HasPrefix :: "'a list \<Rightarrow> 'a list \<Rightarrow> bool" where
  "HasPrefix s [] = True"
| "HasPrefix [] (p # ps) = False"
| "HasPrefix (c # cs) (p # ps) = (c = p \<and> HasPrefix cs ps)"

lemma HasPrefix_iff: "HasPrefix s p \<longleftrightarrow> (\<exists>t. s = p @ t)"
  by (induction s p rule: HasPrefix.induct) auto

lemma HasPrefix_append [simp]: "HasPrefix (p @ t) p"
  by (auto simp: HasPrefix_iff)

lemma HasPrefix_refl [simp]: "HasPrefix p p"
  by (auto simp: HasPrefix_iff)

definition HasSuffix :: "'a list \<Rightarrow> 'a list \<Rightarrow> bool" where
  "HasSuffix s p = HasPrefix (rev s) (rev p)"

lemma HasSuffix_iff: "HasSuffix s p \<longleftrightarrow> (\<exists>t. s = t @ p)"
proof
  assume "HasSuffix s p"
  then obtain t where "rev s = rev p @ t" by (auto simp: HasSuffix_def HasPrefix_iff)
  then have "s = rev t @ p" by (metis rev_append rev_rev_ident)
  then show "\<exists>t. s = t @ p" ..
next
  assume "\<exists>t. s = t @ p"
  then show "HasSuffix s p" by (auto simp: HasSuffix_def)
qed

definition TrimPrefix :: "'a list \<Rightarrow> 'a list \<Rightarrow> 'a list" where
  "TrimPrefix s p = (if HasPrefix s p then drop (length p) s else s)"

definition TrimSuffix :: "'a list \<Rightarrow> 'a list \<Rightarrow> 'a list" where
  "TrimSuffix s p = (if HasSuffix s p then take (length s - length p) s else s)"

lemma TrimSuffix_append [simp]: "TrimSuffix (s @ p) p = s"
  by (simp add: TrimSuffix_def HasSuffix_iff)

fun Contains :: "'a list \<Rightarrow> 'a list \<Rightarrow> bool" where
  "Contains [] sub = (sub = [])"
| "Contains (c # cs) sub = (HasPrefix (c # cs) sub \<or> Contains cs sub)"

lemma Contains_iff: "Contains s sub \<longleftrightarrow> (\<exists>a b. s = a @ sub @ b)"
proof (induction s)
  case Nil
  show ?case by auto
next
  case (Cons c cs)
  show ?case
  proof
    assume "Contains (c # cs) sub"
    then consider "HasPrefix (c # cs) sub" | "Contains cs sub" by auto
    then show "\<exists>a b. c # cs = a @ sub @ b"
    proof cases
      case 1
      then obtain b where "c # cs = [] @ sub @ b" by (auto simp: HasPrefix_iff)
      then show ?thesis by blast
    next
      case 2
      then obtain a b where "cs = a @ sub @ b" using Cons.IH by blast
      then have "c # cs = (c # a) @ sub @ b" by simp
      then show ?thesis by blast
    qed
  next
    assume "\<exists>a b. c # cs = a @ sub @ b"
    then obtain a b where ab: "c # cs = a @ sub @ b" by blast
    show "Contains (c # cs) sub"
    proof (cases a)
      case Nil
      with ab have "HasPrefix (c # cs) sub" by simp
      then show ?thesis by simp
    next
      case (Cons x a')
      with ab have "cs = a' @ sub @ b" by simp
      then show ?thesis using Cons.IH by auto
    qed
  qed
qed

lemma HasPrefix_Contains: "HasPrefix s p \<Longrightarrow> Contains s p"
  by (fastforce simp: HasPrefix_iff Contains_iff intro: exI [where x = "[]"])

subsection \<open>Cutting, splitting, joining at one byte\<close>

fun cut :: "'a \<Rightarrow> 'a list \<Rightarrow> 'a list \<times> 'a list \<times> bool" where
  "cut c [] = ([], [], False)"
| "cut c (x # xs) =
     (if x = c then ([], xs, True)
      else (case cut c xs of (a, b, ok) \<Rightarrow> (x # a, b, ok)))"

lemma cut_absent: "c \<notin> set s \<Longrightarrow> cut c s = (s, [], False)"
  by (induction s) auto

lemma cut_found: "c \<notin> set a \<Longrightarrow> cut c (a @ c # b) = (a, b, True)"
  by (induction a) auto

lemma cut_cases:
  "(c \<notin> set s \<and> cut c s = (s, [], False)) \<or>
   (\<exists>a b. s = a @ c # b \<and> c \<notin> set a \<and> cut c s = (a, b, True))"
proof (cases "c \<in> set s")
  case True
  then obtain a b where "s = a @ c # b" "c \<notin> set a" by (metis split_list_first)
  then show ?thesis by (auto simp: cut_found)
qed (simp add: cut_absent)

fun split_on :: "'a \<Rightarrow> 'a list \<Rightarrow> 'a list list" where
  "split_on c [] = [[]]"
| "split_on c (x # xs) =
     (if x = c then [] # split_on c xs
      else (case split_on c xs of p # ps \<Rightarrow> (x # p) # ps | [] \<Rightarrow> [[x]]))"

lemma split_on_not_Nil [simp]: "split_on c s \<noteq> []"
  by (induction s) (auto split: list.splits)

lemma split_on_absent: "c \<notin> set s \<Longrightarrow> split_on c s = [s]"
  by (induction s) auto

lemma split_on_append: "c \<notin> set a \<Longrightarrow> split_on c (a @ c # b) = a # split_on c b"
  by (induction a) auto

lemma split_on_no_sep: "p \<in> set (split_on c s) \<Longrightarrow> c \<notin> set p"
proof (induction s arbitrary: p)
  case (Cons x xs)
  show ?case
  proof (cases "split_on c xs")
    case (Cons q qs)
    with Cons.IH have "\<And>r. r \<in> set (q # qs) \<Longrightarrow> c \<notin> set r" by metis
    with Cons Cons.prems show ?thesis by (auto split: if_splits)
  qed simp
qed simp

fun join :: "'a list \<Rightarrow> 'a list list \<Rightarrow> 'a list" where
  "join sep [] = []"
| "join sep [x] = x"
| "join sep (x # y # ys) = x @ sep @ join sep (y # ys)"

lemma join_Cons: "xs \<noteq> [] \<Longrightarrow> join sep (x # xs) = x @ sep @ join sep xs"
  by (cases xs) simp_all

lemma split_on_join:
  "xs \<noteq> [] \<Longrightarrow> \<forall>x \<in> set xs. c \<notin> set x \<Longrightarrow> split_on c (join [c] xs) = xs"
proof (induction xs)
  case (Cons x xs)
  then show ?case
    by (cases "xs = []") (auto simp: split_on_absent join_Cons split_on_append)
qed simp

lemma join_split_on: "join [c] (split_on c s) = s"
proof (induction s)
  case (Cons x xs)
  show ?case
  proof (cases "split_on c xs")
    case (Cons p ps)
    with Cons.IH show ?thesis by (cases ps) auto
  qed simp
qed simp

lemma length_split_on: "length (split_on c s) = Suc (count_list s c)"
  by (induction s) (auto split: list.splits)

subsection \<open>White space\<close>

text \<open>The UTF-8 encodings of the runes for which \<open>unicode.IsSpace\<close> holds.\<close>

definition ascii_spaces :: "nat list" where
  "ascii_spaces = [9, 10, 11, 12, 13, 32]"

definition wide_spaces :: "nat list list" where
  "wide_spaces =
     [[0xC2, 0x85], [0xC2, 0xA0], [0xE1, 0x9A, 0x80]] @
     map (\<lambda>i. [0xE2, 0x80, i]) ([0x80..<0x8B] @ [0xA8, 0xA9, 0xAF]) @
     [[0xE2, 0x81, 0x9F], [0xE3, 0x80, 0x80]]"

definition space_at :: "string \<Rightarrow> nat" where
  "space_at s =
     (case s of [] \<Rightarrow> 0
      | c # _ \<Rightarrow>
          if of_char c \<in> set ascii_spaces then 1
          else (case find (HasPrefix (map of_char s)) wide_spaces of
                  None \<Rightarrow> 0 | Some w \<Rightarrow> length w))"

definition space_end :: "string \<Rightarrow> nat" where
  "space_end s =
     (case rev s of [] \<Rightarrow> 0
      | c # _ \<Rightarrow>
          if of_char c \<in> set ascii_spaces then 1
          else (case find (HasSuffix (map of_char s)) wide_spaces of
                  None \<Rightarrow> 0 | Some w \<Rightarrow> length w))"

lemma space_at_Nil [simp]: "space_at [] = 0"
  by (simp add: space_at_def)

lemma space_end_Nil [simp]: "space_end [] = 0"
  by (simp add: space_end_def)

function trim_left :: "string \<Rightarrow> string" where
  "trim_left s = (if space_at s = 0 then s else trim_left (drop (space_at s) s))"
  by pat_completeness auto
termination
proof (relation "measure length")
  fix s :: string
  assume "space_at s \<noteq> 0"
  moreover from this have "s \<noteq> []" by auto
  ultimately show "(drop (space_at s) s, s) \<in> measure length" by simp
qed simp

function trim_right :: "string \<Rightarrow> string" where
  "trim_right s = (if space_end s = 0 then s else trim_right (take (length s - space_end s) s))"
  by pat_completeness auto
termination
proof (relation "measure length")
  fix s :: string
  assume "space_end s \<noteq> 0"
  moreover from this have "s \<noteq> []" by auto
  ultimately show "(take (length s - space_end s) s, s) \<in> measure length" by simp
qed simp

declare trim_left.simps [simp del] trim_right.simps [simp del]

definition TrimSpace :: "string \<Rightarrow> string" where
  "TrimSpace s = trim_right (trim_left s)"

text \<open>Bytes that no white-space rune contains: the printable ASCII characters but space.\<close>

definition graphic :: "char \<Rightarrow> bool" where
  "graphic c \<longleftrightarrow> 33 \<le> (of_char c :: nat) \<and> (of_char c :: nat) \<le> 126"

lemma wide_spaces_bytes: "\<forall>w \<in> set wide_spaces. w \<noteq> [] \<and> (\<forall>b \<in> set w. 128 \<le> b)"
  by (simp add: wide_spaces_def)

lemma wide_not_prefix: "graphic c \<Longrightarrow> find (HasPrefix (map of_char (c # cs))) wide_spaces = None"
proof -
  assume g: "graphic c"
  have "\<not> HasPrefix (map of_char (c # cs)) w" if "w \<in> set wide_spaces" for w :: "nat list"
  proof -
    have "w \<noteq> []" and b: "\<forall>b \<in> set w. 128 \<le> b" using wide_spaces_bytes that by blast+
    then obtain b w' where w: "w = b # w'" by (cases w) simp_all
    with b have "128 \<le> b" by simp
    with g show ?thesis by (auto simp: graphic_def w)
  qed
  then show ?thesis by (simp add: find_None_iff)
qed

lemma space_at_graphic [simp]: "graphic c \<Longrightarrow> space_at (c # cs) = 0"
  using wide_not_prefix [of c cs]
  by (auto simp: space_at_def graphic_def ascii_spaces_def split: option.splits)

lemma space_end_graphic: "graphic c \<Longrightarrow> space_end (cs @ [c]) = 0"
proof -
  assume g: "graphic c"
  have "\<not> HasSuffix (map of_char (cs @ [c])) w" if "w \<in> set wide_spaces" for w :: "nat list"
  proof
    assume "HasSuffix (map of_char (cs @ [c])) w"
    then obtain t where t: "map of_char cs @ [of_char c] = t @ w" by (auto simp: HasSuffix_iff)
    have w: "w \<noteq> []" "\<forall>b \<in> set w. 128 \<le> b" using wide_spaces_bytes that by blast+
    then have "last (t @ w) \<in> set w" by simp
    with t have "of_char c \<in> set w" by (metis last_snoc)
    with w g show False by (auto simp: graphic_def)
  qed
  then have "find (HasSuffix (map of_char (cs @ [c]))) wide_spaces = None"
    by (simp add: find_None_iff)
  with g show ?thesis by (auto simp: space_end_def graphic_def ascii_spaces_def)
qed

lemma trim_left_graphic [simp]: "graphic c \<Longrightarrow> trim_left (c # cs) = c # cs"
  by (subst trim_left.simps) simp

lemma trim_left_Nil [simp]: "trim_left [] = []"
  by (subst trim_left.simps) simp

lemma trim_right_Nil [simp]: "trim_right [] = []"
  by (subst trim_right.simps) simp

lemma trim_right_graphic: "graphic c \<Longrightarrow> trim_right (cs @ [c]) = cs @ [c]"
  by (subst trim_right.simps) (simp add: space_end_graphic)

text \<open>A string that begins and ends with a graphic byte is its own trimming.\<close>

lemma TrimSpace_id:
  assumes "s \<noteq> []" and "graphic (hd s)" and "graphic (last s)"
  shows "TrimSpace s = s"
proof -
  obtain c cs where c: "s = c # cs" using assms(1) by (cases s) auto
  have "trim_left s = s" using assms(2) by (simp add: c)
  moreover have "trim_right s = s"
    using trim_right_graphic [of "last s" "butlast s"] assms(1,3) by simp
  ultimately show ?thesis by (simp add: TrimSpace_def)
qed

lemma TrimSpace_Nil [simp]: "TrimSpace [] = []"
  by (simp add: TrimSpace_def)

lemma TrimSpace_graphic: "\<forall>c \<in> set s. graphic c \<Longrightarrow> TrimSpace s = s"
  by (cases "s = []") (auto intro!: TrimSpace_id)

lemma trim_left_done: "space_at (trim_left s) = 0"
  by (induction s rule: trim_left.induct) (subst trim_left.simps, simp)

lemma trim_right_done: "space_end (trim_right s) = 0"
  by (induction s rule: trim_right.induct) (subst trim_right.simps, simp)

lemma trim_right_prefix: "\<exists>t. s = trim_right s @ t"
proof (induction s rule: trim_right.induct)
  case (1 s)
  show ?case
  proof (cases "space_end s = 0")
    case False
    let ?u = "take (length s - space_end s) s"
    obtain t where "?u = trim_right ?u @ t" using 1 False by blast
    then have "s = trim_right ?u @ t @ drop (length s - space_end s) s"
      by (metis append.assoc append_take_drop_id)
    moreover have "trim_right s = trim_right ?u" using False by (subst trim_right.simps) simp
    ultimately show ?thesis by metis
  next
    case True
    then have "trim_right s = s" by (subst trim_right.simps) simp
    then show ?thesis by simp
  qed
qed

lemma space_at_prefix:
  assumes "space_at (p @ t) = 0" shows "space_at p = 0"
proof (cases p)
  case (Cons c cs)
  have "length w \<noteq> 0" if "w \<in> set wide_spaces" for w :: "nat list" using wide_spaces_bytes that by blast
  then have "find (HasPrefix (map of_char (p @ t))) wide_spaces = None"
    using assms Cons
    by (auto simp: space_at_def find_Some_iff split: if_splits option.splits) (metis nth_mem)
  then have n: "\<not> HasPrefix (map of_char (p @ t)) w" if "w \<in> set wide_spaces" for w :: "nat list"
    using that by (auto simp: find_None_iff)
  have "\<not> HasPrefix (map of_char p) w" if "w \<in> set wide_spaces" for w :: "nat list"
    using n [OF that] by (auto simp: HasPrefix_iff)
  then have "find (HasPrefix (map of_char p)) wide_spaces = None" by (simp add: find_None_iff)
  then show ?thesis using assms Cons by (auto simp: space_at_def split: if_splits)
qed simp

lemma TrimSpace_idem [simp]: "TrimSpace (TrimSpace s) = TrimSpace s"
proof -
  obtain t where t: "trim_left s = TrimSpace s @ t"
    using trim_right_prefix [of "trim_left s"] by (auto simp: TrimSpace_def)
  then have "space_at (TrimSpace s) = 0" using trim_left_done [of s] space_at_prefix by metis
  then have "trim_left (TrimSpace s) = TrimSpace s" by (subst trim_left.simps) simp
  moreover have "trim_right (TrimSpace s) = TrimSpace s"
    using trim_right_done [of "trim_left s"] by (subst trim_right.simps) (simp add: TrimSpace_def)
  ultimately show ?thesis by (simp add: TrimSpace_def)
qed

text \<open>\<open>strings.Fields\<close>: the maximal runs of bytes that start no white-space rune.\<close>

fun span_word :: "string \<Rightarrow> string \<times> string" where
  "span_word [] = ([], [])"
| "span_word (c # cs) =
     (if space_at (c # cs) \<noteq> 0 then ([], c # cs)
      else (case span_word cs of (t, r) \<Rightarrow> (c # t, r)))"

lemma span_word_length: "length (snd (span_word s)) \<le> length s"
  by (induction s) (auto split: prod.splits)

function Fields :: "string \<Rightarrow> string list" where
  "Fields s =
     (if s = [] then []
      else if space_at s \<noteq> 0 then Fields (drop (space_at s) s)
      else (case span_word s of (t, r) \<Rightarrow> t # Fields r))"
  by pat_completeness auto
termination
proof (relation "measure length", goal_cases)
  case 1 show ?case by simp
next
  case (2 s)
  then show ?case by (cases s) auto
next
  case (3 s t r)
  then obtain c cs where s: "s = c # cs" by (cases s) auto
  with 3 have "r = snd (span_word cs)" by (auto split: prod.splits)
  with span_word_length [of cs] s show ?case by simp
qed

declare Fields.simps [simp del]

lemma Fields_Nil [simp]: "Fields [] = []"
  by (subst Fields.simps) simp

lemma span_word_graphic:
  "\<forall>c \<in> set t. graphic c \<Longrightarrow> space_at r \<noteq> 0 \<or> r = [] \<Longrightarrow> span_word (t @ r) = (t, r)"
proof (induction t)
  case Nil
  then show ?case by (cases r) auto
qed auto

lemma Fields_word:
  assumes "t \<noteq> []" and "\<forall>c \<in> set t. graphic c" and "space_at r \<noteq> 0 \<or> r = []"
  shows "Fields (t @ r) = t # Fields r"
proof -
  obtain c cs where t: "t = c # cs" using assms(1) by (cases t) auto
  have "space_at (t @ r) = 0" using assms(2) by (simp add: t)
  moreover have "span_word (t @ r) = (t, r)" by (rule span_word_graphic [OF assms(2,3)])
  ultimately show ?thesis using t by (subst Fields.simps) simp
qed

lemma space_at_blank [simp]: "space_at (CHR '' '' # cs) = 1"
  by (simp add: space_at_def ascii_spaces_def)

lemma Fields_blank [simp]: "Fields (CHR '' '' # cs) = Fields cs"
  by (subst Fields.simps) simp

lemma Fields_join_blank:
  "\<forall>t \<in> set ts. t \<noteq> [] \<and> (\<forall>c \<in> set t. graphic c) \<Longrightarrow> Fields (join '' '' ts) = ts"
proof (induction ts)
  case (Cons t ts)
  then have t: "t \<noteq> []" "\<forall>c \<in> set t. graphic c" by auto
  show ?case
  proof (cases "ts = []")
    case True
    with t Fields_word [of t "[]"] show ?thesis by simp
  next
    case False
    have "Fields (t @ '' '' @ join '' '' ts) = t # Fields ('' '' @ join '' '' ts)"
      by (rule Fields_word [OF t]) simp
    also have "\<dots> = t # ts" using Cons by simp
    finally show ?thesis using False by (simp add: join_Cons)
  qed
qed simp

subsection \<open>Case folding and cutsets\<close>

definition to_lower_char :: "char \<Rightarrow> char" where
  "to_lower_char c =
     (let n = of_char c :: nat in if 65 \<le> n \<and> n \<le> 90 then char_of (n + 32) else c)"

definition ToLower :: "string \<Rightarrow> string" where
  "ToLower s = map to_lower_char s"

lemma to_lower_char_idem [simp]: "to_lower_char (to_lower_char c) = to_lower_char c"
  by (simp add: to_lower_char_def Let_def)

lemma ToLower_idem [simp]: "ToLower (ToLower s) = ToLower s"
  by (simp add: ToLower_def)

lemma ToLower_Nil [simp]: "ToLower [] = []"
  by (simp add: ToLower_def)

lemma ToLower_eq_Nil [simp]: "ToLower s = [] \<longleftrightarrow> s = []"
  by (simp add: ToLower_def)

definition to_upper_char :: "char \<Rightarrow> char" where
  "to_upper_char c =
     (let n = of_char c :: nat in if 97 \<le> n \<and> n \<le> 122 then char_of (n - 32) else c)"

definition ToUpper :: "string \<Rightarrow> string" where
  "ToUpper s = map to_upper_char s"

definition EqualFold :: "string \<Rightarrow> string \<Rightarrow> bool" where
  "EqualFold a b \<longleftrightarrow> ToLower a = ToLower b"

definition TrimRight :: "string \<Rightarrow> string \<Rightarrow> string" where
  "TrimRight s cutset = rev (dropWhile (\<lambda>c. c \<in> set cutset) (rev s))"

definition Trim :: "string \<Rightarrow> string \<Rightarrow> string" where
  "Trim s cutset = TrimRight (dropWhile (\<lambda>c. c \<in> set cutset) s) cutset"

definition ContainsAny :: "string \<Rightarrow> string \<Rightarrow> bool" where
  "ContainsAny s cutset \<longleftrightarrow> list_ex (\<lambda>c. c \<in> set cutset) s"

lemma TrimRight_last: "TrimRight s cs \<noteq> [] \<Longrightarrow> last (TrimRight s cs) \<notin> set cs"
  using hd_dropWhile [of "\<lambda>c. c \<in> set cs" "rev s"] by (auto simp: TrimRight_def last_rev)

lemma TrimRight_id: "s = [] \<or> last s \<notin> set cs \<Longrightarrow> TrimRight s cs = s"
  by (cases s rule: rev_cases) (auto simp: TrimRight_def)

lemma set_TrimRight: "set (TrimRight s cs) \<subseteq> set s"
  by (auto simp: TrimRight_def dest: set_dropWhileD)

lemma set_Trim: "set (Trim s cs) \<subseteq> set s"
  using set_TrimRight [of "dropWhile (\<lambda>c. c \<in> set cs) s" cs]
  by (auto simp: Trim_def dest: set_dropWhileD)

text \<open>The dash of the messages, in UTF-8.\<close>

definition em_dash :: string where "em_dash = [CHR 0xE2, CHR 0x80, CHR 0x94]"

end
