(* ===== verification/Go_Strconv.thy ===== *)
theory Go_Strconv
  imports Go_Strings "HOL-Library.Word"
begin

text \<open>
  Go's decimal conversions (\<open>strconv.Itoa\<close>, \<open>strconv.Atoi\<close> with its 64-bit range check),
  the port check that the program repeats at every address it accepts, and the 32-bit FNV-1a
  hash of \<open>hash/fnv\<close>.
\<close>

unbundle bit_operations_syntax

subsection \<open>Decimal printing and reading\<close>

definition digit_char :: "nat \<Rightarrow> char" where
  "digit_char n = char_of (48 + n)"

definition is_digit :: "char \<Rightarrow> bool" where
  "is_digit c \<longleftrightarrow> 48 \<le> (of_char c :: nat) \<and> (of_char c :: nat) \<le> 57"

definition digit_val :: "char \<Rightarrow> nat" where
  "digit_val c = of_char c - 48"

lemma digit_char_props [simp]:
  "n < 10 \<Longrightarrow> is_digit (digit_char n)"
  "n < 10 \<Longrightarrow> digit_val (digit_char n) = n"
  by (simp_all add: is_digit_def digit_char_def digit_val_def)

lemma is_digit_graphic: "is_digit c \<Longrightarrow> graphic c"
  by (simp add: is_digit_def graphic_def)

fun itoa_nat :: "nat \<Rightarrow> string" where
  "itoa_nat n = (if n < 10 then [digit_char n] else itoa_nat (n div 10) @ [digit_char (n mod 10)])"

declare itoa_nat.simps [simp del]

definition dec_val :: "string \<Rightarrow> nat" where
  "dec_val s = foldl (\<lambda>a c. 10 * a + digit_val c) 0 s"

lemma dec_val_snoc [simp]: "dec_val (s @ [c]) = 10 * dec_val s + digit_val c"
  by (simp add: dec_val_def)

lemma itoa_nat_digits: "\<forall>c \<in> set (itoa_nat n). is_digit c"
proof (induction n rule: itoa_nat.induct)
  case (1 n)
  then show ?case by (subst itoa_nat.simps) auto
qed

lemma itoa_nat_not_Nil [simp]: "itoa_nat n \<noteq> []"
  by (subst itoa_nat.simps) simp

lemma dec_val_itoa_nat [simp]: "dec_val (itoa_nat n) = n"
proof (induction n rule: itoa_nat.induct)
  case (1 n)
  show ?case
  proof (cases "n < 10")
    case True
    then show ?thesis by (subst itoa_nat.simps) (simp add: dec_val_def)
  next
    case False
    with 1 have "dec_val (itoa_nat (n div 10)) = n div 10" by simp
    with False show ?thesis by (subst itoa_nat.simps) simp
  qed
qed

lemma itoa_nat_inj: "itoa_nat a = itoa_nat b \<longleftrightarrow> a = b"
  by (metis dec_val_itoa_nat)

definition Itoa :: "int \<Rightarrow> string" where
  "Itoa i = (if i < 0 then CHR ''-'' # itoa_nat (nat (- i)) else itoa_nat (nat i))"

definition max_int64 :: int where "max_int64 = 2 ^ 63 - 1"
definition min_int64 :: int where "min_int64 = - (2 ^ 63)"

definition int64_range :: "int \<Rightarrow> bool" where
  "int64_range i \<longleftrightarrow> min_int64 \<le> i \<and> i \<le> max_int64"

text \<open>
  \<open>Atoi_full\<close> is \<open>strconv.Atoi\<close> with both results: a range error still returns the nearest
  64-bit value, a syntax error returns 0. \<open>Atoi\<close> is the value when there is no error.
\<close>

definition atoi_unsigned :: "string \<Rightarrow> nat option" where
  "atoi_unsigned s = (if s \<noteq> [] \<and> list_all is_digit s then Some (dec_val s) else None)"

definition atoi_signed :: "string \<Rightarrow> int option" where
  "atoi_signed s =
     (case s of
        [] \<Rightarrow> None
      | c # cs \<Rightarrow>
          if c = CHR ''-'' then map_option (\<lambda>n. - int n) (atoi_unsigned cs)
          else if c = CHR ''+'' then map_option int (atoi_unsigned cs)
          else map_option int (atoi_unsigned s))"

definition Atoi_full :: "string \<Rightarrow> int \<times> bool" where
  "Atoi_full s =
     (case atoi_signed s of
        None \<Rightarrow> (0, False)
      | Some v \<Rightarrow>
          if v < min_int64 then (min_int64, False)
          else if max_int64 < v then (max_int64, False)
          else (v, True))"

definition Atoi :: "string \<Rightarrow> int option" where
  "Atoi s = (if snd (Atoi_full s) then Some (fst (Atoi_full s)) else None)"

lemma digit_not_sign: "is_digit c \<Longrightarrow> c \<noteq> CHR ''-'' \<and> c \<noteq> CHR ''+''"
  by (auto simp: is_digit_def)

lemma atoi_unsigned_itoa [simp]: "atoi_unsigned (itoa_nat n) = Some n"
  using itoa_nat_digits by (simp add: atoi_unsigned_def list_all_iff)

lemma atoi_signed_itoa_nat: "atoi_signed (itoa_nat n) = Some (int n)"
proof -
  obtain c cs where c: "itoa_nat n = c # cs" by (cases "itoa_nat n") auto
  then have "is_digit c" using itoa_nat_digits [of n] by simp
  with c show ?thesis
    using digit_not_sign [of c] atoi_unsigned_itoa [of n] by (simp add: atoi_signed_def)
qed

lemma atoi_signed_Itoa: "atoi_signed (Itoa i) = Some i"
proof (cases "i < 0")
  case True
  then show ?thesis by (simp add: Itoa_def atoi_signed_def)
next
  case False
  then show ?thesis by (simp add: Itoa_def atoi_signed_itoa_nat)
qed

lemma Atoi_full_Itoa: "int64_range i \<Longrightarrow> Atoi_full (Itoa i) = (i, True)"
  by (simp add: Atoi_full_def atoi_signed_Itoa int64_range_def)

lemma Atoi_Itoa: "int64_range i \<Longrightarrow> Atoi (Itoa i) = Some i"
  by (simp add: Atoi_def Atoi_full_Itoa)

lemma Atoi_range: "Atoi s = Some i \<Longrightarrow> int64_range i"
  by (auto simp: Atoi_def Atoi_full_def int64_range_def max_int64_def min_int64_def
      split: option.splits if_splits)

lemma Itoa_not_Nil [simp]: "Itoa i \<noteq> []"
  by (simp add: Itoa_def)

lemma graphic_minus: "graphic (CHR ''-'')"
  by (simp add: graphic_def)

lemma itoa_nat_graphic: "c \<in> set (itoa_nat n) \<Longrightarrow> graphic c"
  using itoa_nat_digits is_digit_graphic by blast

lemma Itoa_graphic: "\<forall>c \<in> set (Itoa i). graphic c"
  by (auto simp: Itoa_def graphic_minus itoa_nat_graphic)

lemma Itoa_nonneg_digits: "0 \<le> i \<Longrightarrow> c \<in> set (Itoa i) \<Longrightarrow> is_digit c"
  using itoa_nat_digits by (auto simp: Itoa_def)

lemma Itoa_inj: "Itoa i = Itoa j \<longleftrightarrow> i = j"
  by (metis atoi_signed_Itoa option.inject)

subsection \<open>Ports\<close>

definition valid_port :: "int \<Rightarrow> bool" where
  "valid_port p \<longleftrightarrow> 1 \<le> p \<and> p \<le> 65535"

definition port_of :: "string \<Rightarrow> int option" where
  "port_of s = (case Atoi s of None \<Rightarrow> None | Some p \<Rightarrow> if valid_port p then Some p else None)"

lemma valid_port_int64: "valid_port p \<Longrightarrow> int64_range p"
  by (simp add: valid_port_def int64_range_def max_int64_def min_int64_def)

lemma port_of_Itoa: "valid_port p \<Longrightarrow> port_of (Itoa p) = Some p"
  by (simp add: port_of_def Atoi_Itoa valid_port_int64)

lemma port_of_valid: "port_of s = Some p \<Longrightarrow> valid_port p"
  by (auto simp: port_of_def split: option.splits if_splits)

subsection \<open>FNV-1a\<close>

definition fnv32a_step :: "32 word \<Rightarrow> char \<Rightarrow> 32 word" where
  "fnv32a_step h c = (h XOR of_nat (of_char c)) * 16777619"

definition fnv32a :: "string \<Rightarrow> 32 word" where
  "fnv32a s = foldl fnv32a_step 2166136261 s"

subsection \<open>Hexadecimal\<close>

definition hex_char :: "nat \<Rightarrow> char" where
  "hex_char n = (if n < 10 then char_of (48 + n) else char_of (87 + n))"

fun hex_digits :: "nat \<Rightarrow> nat \<Rightarrow> string" where
  "hex_digits 0 n = []"
| "hex_digits (Suc k) n = hex_digits k (n div 16) @ [hex_char (n mod 16)]"

lemma length_hex_digits [simp]: "length (hex_digits k n) = k"
  by (induction k arbitrary: n) auto

definition hex_val :: "char \<Rightarrow> nat option" where
  "hex_val c =
     (let n = of_char c :: nat in
      if 48 \<le> n \<and> n \<le> 57 then Some (n - 48)
      else if 97 \<le> n \<and> n \<le> 102 then Some (n - 87)
      else if 65 \<le> n \<and> n \<le> 70 then Some (n - 55)
      else None)"

end
