(* ===== verification/Go_Net.thy ===== *)
theory Go_Net
  imports Go_Strconv
begin

text \<open>
  The parts of Go's \<open>net\<close> and \<open>net/netip\<close> packages that ts-bridge calls: \<open>SplitHostPort\<close>,
  \<open>JoinHostPort\<close>, \<open>ParseIP\<close>, \<open>IP.IsLoopback\<close>, \<open>IP.Equal\<close>, \<open>IP.String\<close> and the prefix
  parser that the firewall reader uses. An address is its 16-byte form, as \<open>net.IP\<close> keeps
  it; an IPv4 address is stored in the mapped range \<open>::ffff:0:0/96\<close>.
\<close>

subsection \<open>host:port\<close>

datatype addr_error = MissingPort | TooManyColons | MissingBracket | UnexpectedOpen | UnexpectedClose

definition last_index :: "'a \<Rightarrow> 'a list \<Rightarrow> nat option" where
  "last_index c s = map_option (\<lambda>i. length s - 1 - i) (index_of c (rev s))"

definition SplitHostPort :: "string \<Rightarrow> (addr_error, string \<times> string) result" where
  "SplitHostPort hp =
     (case last_index CHR '':'' hp of
        None \<Rightarrow> Inl MissingPort
      | Some i \<Rightarrow>
          if hd hp = CHR ''['' then
            (case index_of CHR '']'' hp of
               None \<Rightarrow> Inl MissingBracket
             | Some e \<Rightarrow>
                 if e + 1 = length hp then Inl MissingPort
                 else if e + 1 \<noteq> i then
                   (if hp ! (e + 1) = CHR '':'' then Inl TooManyColons else Inl MissingPort)
                 else if CHR ''['' \<in> set (drop 1 hp) then Inl UnexpectedOpen
                 else if CHR '']'' \<in> set (drop (e + 1) hp) then Inl UnexpectedClose
                 else Inr (take (e - 1) (drop 1 hp), drop (i + 1) hp))
          else if CHR '':'' \<in> set (take i hp) then Inl TooManyColons
          else if CHR ''['' \<in> set hp then Inl UnexpectedOpen
          else if CHR '']'' \<in> set hp then Inl UnexpectedClose
          else Inr (take i hp, drop (i + 1) hp))"

definition JoinHostPort :: "string \<Rightarrow> string \<Rightarrow> string" where
  "JoinHostPort host port =
     (if CHR '':'' \<in> set host then ''['' @ host @ '']:'' @ port else host @ '':'' @ port)"

lemma last_index_append: "c \<notin> set b \<Longrightarrow> last_index c (a @ c # b) = Some (length a)"
  by (simp add: last_index_def index_of_append)

lemma last_index_None_iff [simp]: "last_index c s = None \<longleftrightarrow> c \<notin> set s"
  by (simp add: last_index_def)

lemma last_index_SomeE:
  assumes "last_index c s = Some i"
  obtains a b where "s = a @ c # b" and "c \<notin> set b" and "i = length a"
proof -
  have "c \<in> set s" using assms by (metis last_index_None_iff option.distinct(1))
  then obtain a b where ab: "s = a @ c # b" "c \<notin> set b" by (metis split_list_last)
  with assms last_index_append [of c b a] have "i = length a" by simp
  with ab that show thesis by blast
qed

definition host_chars :: "string \<Rightarrow> bool" where
  "host_chars h \<longleftrightarrow> CHR ''['' \<notin> set h \<and> CHR '']'' \<notin> set h"

definition port_chars :: "string \<Rightarrow> bool" where
  "port_chars p \<longleftrightarrow> CHR '':'' \<notin> set p \<and> CHR ''['' \<notin> set p \<and> CHR '']'' \<notin> set p"

lemma SplitHostPort_plain:
  assumes "CHR '':'' \<notin> set h" and "host_chars h" and "port_chars p"
  shows "SplitHostPort (h @ CHR '':'' # p) = Inr (h, p)"
proof -
  have "last_index CHR '':'' (h @ CHR '':'' # p) = Some (length h)"
    using assms(3) by (simp add: last_index_append port_chars_def)
  moreover have "hd (h @ CHR '':'' # p) \<noteq> CHR ''[''"
    using assms(2) by (cases h) (auto simp: host_chars_def)
  ultimately show ?thesis
    using assms by (simp add: SplitHostPort_def host_chars_def port_chars_def)
qed

lemma SplitHostPort_bracketed:
  assumes "host_chars h" and "port_chars p"
  shows "SplitHostPort (''['' @ h @ '']:'' @ p) = Inr (h, p)"
proof -
  let ?s = "''['' @ h @ '']:'' @ p"
  have "?s = (''['' @ h @ '']'') @ CHR '':'' # p" by simp
  then have i: "last_index CHR '':'' ?s = Some (length h + 2)"
    using assms(2) last_index_append [of "CHR '':''" p "''['' @ h @ '']''"]
    by (simp add: port_chars_def)
  have e: "index_of CHR '']'' ?s = Some (length h + 1)"
    using assms(1) by (simp add: index_of_append host_chars_def)
  show ?thesis
    using assms i [simplified] e [simplified]
    by (simp add: SplitHostPort_def host_chars_def port_chars_def)
qed

text \<open>Splitting undoes joining, IPv6 literals included.\<close>

lemma SplitHostPort_JoinHostPort:
  "host_chars h \<Longrightarrow> port_chars p \<Longrightarrow> SplitHostPort (JoinHostPort h p) = Inr (h, p)"
  by (cases "CHR '':'' \<in> set h")
    (simp_all add: JoinHostPort_def SplitHostPort_bracketed [simplified] SplitHostPort_plain)

lemma SplitHostPort_no_brackets:
  assumes "SplitHostPort s = Inr (h, p)"
  shows "host_chars h \<and> port_chars p"
proof -
  obtain i where i: "last_index CHR '':'' s = Some i"
    using assms by (auto simp: SplitHostPort_def split: option.splits)
  then obtain a b where ab: "s = a @ CHR '':'' # b" "CHR '':'' \<notin> set b" "i = length a"
    by (elim last_index_SomeE)
  show ?thesis
  proof (cases "hd s = CHR ''[''")
    case False
    with assms i ab show ?thesis
      by (auto simp: SplitHostPort_def host_chars_def port_chars_def split: if_splits)
  next
    case True
    then obtain e where e: "index_of CHR '']'' s = Some e"
      using assms i by (auto simp: SplitHostPort_def split: option.splits if_splits)
    with True assms i have se: "e + 1 = i" and o: "CHR ''['' \<notin> set (drop 1 s)"
      and c: "CHR '']'' \<notin> set (drop (e + 1) s)"
      and h: "h = take (e - 1) (drop 1 s)" and p: "p = drop (i + 1) s"
      by (auto simp: SplitHostPort_def split: if_splits)
    have "set p \<subseteq> set (drop 1 s)" "set p \<subseteq> set (drop (e + 1) s)" "p = b"
      using p se ab by (auto simp: set_drop_subset_set_drop)
    moreover have "CHR '']'' \<notin> set (take e s)" using index_of_SomeD [OF e] by blast
    moreover have "0 < e" using index_of_SomeD [OF e] True by (cases s; cases e) auto
    then have "h = drop 1 (take e s)" by (simp add: h take_drop)
    then have "set h \<subseteq> set (take e s)" by (auto dest: in_set_dropD)
    moreover have "set h \<subseteq> set (drop 1 s)" by (auto simp: h dest: in_set_takeD)
    ultimately show ?thesis using o c ab(2) by (auto simp: host_chars_def port_chars_def)
  qed
qed

lemma digits_port_chars: "\<forall>c \<in> set p. is_digit c \<Longrightarrow> port_chars p"
  by (auto simp: port_chars_def is_digit_def)

lemma Itoa_port_chars: "0 \<le> i \<Longrightarrow> port_chars (Itoa i)"
  by (rule digits_port_chars) (auto dest: Itoa_nonneg_digits)

subsection \<open>IP addresses\<close>

text \<open>\<open>octet_of\<close> and \<open>parse_ipv4\<close> are \<open>netip.parseIPv4Fields\<close>: no leading zero, at most 255.\<close>

definition octet_of :: "string \<Rightarrow> nat option" where
  "octet_of p =
     (if p \<noteq> [] \<and> list_all is_digit p \<and> (length p = 1 \<or> hd p \<noteq> CHR ''0'') \<and> dec_val p \<le> 255
      then Some (dec_val p) else None)"

definition parse_ipv4 :: "string \<Rightarrow> nat list option" where
  "parse_ipv4 s =
     (case map octet_of (split_on CHR ''.'' s) of
        [Some a, Some b, Some c, Some d] \<Rightarrow> Some [a, b, c, d]
      | _ \<Rightarrow> None)"

definition is_hex :: "char \<Rightarrow> bool" where
  "is_hex c \<longleftrightarrow> hex_val c \<noteq> None"

definition hex_num :: "string \<Rightarrow> nat" where
  "hex_num s = foldl (\<lambda>a c. 16 * a + (case hex_val c of None \<Rightarrow> 0 | Some v \<Rightarrow> v)) 0 s"

text \<open>
  The loop of \<open>netip.parseIPv6\<close>: remaining input, bytes stored so far, position of the
  ellipsis. Every round stores two bytes of at most sixteen, so it terminates.
\<close>

function parse6_groups ::
  "string \<Rightarrow> nat list \<Rightarrow> nat option \<Rightarrow> (string \<times> nat list \<times> nat option) option" where
  "parse6_groups s bs ell =
     (if 16 \<le> length bs then Some (s, bs, ell)
      else
        let ds = takeWhile is_hex s; rest = dropWhile is_hex s; v = hex_num ds;
            bs' = bs @ [v div 256, v mod 256]
        in if ds = [] \<or> 4 < length ds then None
           else if HasPrefix rest ''.'' then
             (if ell = None \<and> length bs \<noteq> 12 then None
              else if 16 < length bs + 4 then None
              else (case parse_ipv4 s of None \<Rightarrow> None | Some q \<Rightarrow> Some ([], bs @ q, ell)))
           else if rest = [] then Some ([], bs', ell)
           else if hd rest \<noteq> CHR '':'' \<or> length rest = 1 then None
           else if hd (tl rest) = CHR '':'' then
             (if ell \<noteq> None then None
              else if tl (tl rest) = [] then Some ([], bs', Some (length bs'))
              else parse6_groups (tl (tl rest)) bs' (Some (length bs')))
           else parse6_groups (tl rest) bs' ell)"
  by pat_completeness auto
termination
  by (relation "measure (\<lambda>(s, bs, ell). 16 - length bs)") auto

declare parse6_groups.simps [simp del]

definition parse_ipv6 :: "string \<Rightarrow> nat list option" where
  "parse_ipv6 s =
     (let lead = HasPrefix s ''::''; s' = (if lead then drop 2 s else s) in
      if lead \<and> s' = [] then Some (replicate 16 0)
      else (case parse6_groups s' [] (if lead then Some 0 else None) of
              None \<Rightarrow> None
            | Some (rest, bs, ell) \<Rightarrow>
                if rest \<noteq> [] then None
                else if length bs < 16 then
                  (case ell of None \<Rightarrow> None
                   | Some e \<Rightarrow> Some (take e bs @ replicate (16 - length bs) 0 @ drop e bs))
                else if ell \<noteq> None then None else Some bs))"

definition v4_mapped_prefix :: "nat list" where
  "v4_mapped_prefix = replicate 10 0 @ [255, 255]"

text \<open>\<open>parse_addr\<close> is \<open>netip.ParseAddr\<close> without zones: (is IPv4, 16-byte form).\<close>

definition parse_addr :: "string \<Rightarrow> (bool \<times> nat list) option" where
  "parse_addr s =
     (case find (\<lambda>c. c \<in> set ''.:%'') s of
        None \<Rightarrow> None
      | Some c \<Rightarrow>
          if CHR ''%'' \<in> set s then None
          else if c = CHR ''.'' then map_option (\<lambda>q. (True, v4_mapped_prefix @ q)) (parse_ipv4 s)
          else map_option (\<lambda>b. (False, b)) (parse_ipv6 s))"

definition ParseIP :: "string \<Rightarrow> nat list option" where
  "ParseIP s = map_option snd (parse_addr s)"

definition is_v4 :: "nat list \<Rightarrow> bool" where
  "is_v4 ip \<longleftrightarrow> length ip = 16 \<and> take 12 ip = v4_mapped_prefix"

definition IsLoopback :: "nat list \<Rightarrow> bool" where
  "IsLoopback ip \<longleftrightarrow> (if is_v4 ip then ip ! 12 = 127 else ip = replicate 15 0 @ [1])"

definition ParsePrefix :: "string \<Rightarrow> (nat list \<times> int) option" where
  "ParsePrefix s =
     (case last_index CHR ''/'' s of
        None \<Rightarrow> None
      | Some i \<Rightarrow>
          (case parse_addr (take i s) of
             None \<Rightarrow> None
           | Some (v4, ip) \<Rightarrow>
               let bits = drop (i + 1) s in
               if 1 < length bits \<and> \<not> (is_digit (hd bits) \<and> hd bits \<noteq> CHR ''0'') then None
               else (case Atoi bits of
                       None \<Rightarrow> None
                     | Some n \<Rightarrow>
                         if n < 0 \<or> (if v4 then 32 else 128) < n then None else Some (ip, n))))"

text \<open>The address forms the loopback listeners accept.\<close>

definition loopback_host :: "string \<Rightarrow> bool" where
  "loopback_host h \<longleftrightarrow>
     h = ''localhost'' \<or> (case ParseIP h of None \<Rightarrow> False | Some ip \<Rightarrow> IsLoopback ip)"

subsection \<open>Printing addresses\<close>

definition dotted :: "nat list \<Rightarrow> string" where
  "dotted bs = join ''.'' (map itoa_nat bs)"

fun hex_nat :: "nat \<Rightarrow> string" where
  "hex_nat n = (if n < 16 then [hex_char n] else hex_nat (n div 16) @ [hex_char (n mod 16)])"

declare hex_nat.simps [simp del]

fun groups16 :: "nat list \<Rightarrow> nat list" where
  "groups16 (a # b # bs) = (256 * a + b) # groups16 bs"
| "groups16 _ = []"

definition zero_run :: "nat list \<Rightarrow> nat \<Rightarrow> nat" where
  "zero_run gs i = length (takeWhile (\<lambda>g. g = 0) (drop i gs))"

definition best_run :: "nat list \<Rightarrow> (nat \<times> nat) option" where
  "best_run gs =
     foldl (\<lambda>best i. let l = zero_run gs i in
              if 2 \<le> l \<and> (case best of None \<Rightarrow> True | Some (_, l') \<Rightarrow> l' < l) then Some (i, l) else best)
       None [0..<length gs]"

definition print6 :: "nat list \<Rightarrow> string" where
  "print6 bs =
     (let gs = groups16 bs in
      case best_run gs of
        None \<Rightarrow> join '':'' (map hex_nat gs)
      | Some (i, l) \<Rightarrow>
          join '':'' (map hex_nat (take i gs)) @ ''::'' @ join '':'' (map hex_nat (drop (i + l) gs)))"

text \<open>\<open>net.IP.String\<close> on the 4- and 16-byte slices the SOCKS reader builds.\<close>

definition ip_string :: "nat list \<Rightarrow> string" where
  "ip_string bs =
     (if length bs = 4 then dotted bs
      else if is_v4 bs then dotted (drop 12 bs)
      else print6 bs)"

lemma loopback_host_localhost [simp]: "loopback_host ''localhost''"
  by (simp add: loopback_host_def)

lemma loopback_host_127 [simp]: "loopback_host ''127.0.0.1''"
  by code_simp

lemma loopback_host_wildcard [simp]: "\<not> loopback_host ''0.0.0.0''" "\<not> loopback_host []"
  by code_simp+

lemma loopback_host_ip6 [simp]: "loopback_host ''::1''"
  by code_simp

end
