(* ===== verification/Go_Path.thy ===== *)
theory Go_Path
  imports Go_Strings
begin

text \<open>
  The parts of Go's \<open>path/filepath\<close> that ts-bridge calls, for the Unix separator: \<open>Clean\<close>,
  \<open>Join\<close>, \<open>Dir\<close>, \<open>Base\<close>, \<open>Ext\<close> and \<open>IsAbs\<close>.
\<close>

definition IsAbs :: "string \<Rightarrow> bool" where
  "IsAbs p = HasPrefix p ''/''"

text \<open>One component of \<open>Clean\<close>, on the stack of components kept so far (last one first).\<close>

definition clean_step :: "bool \<Rightarrow> string \<Rightarrow> string list \<Rightarrow> string list" where
  "clean_step rooted c st =
     (if c = [] \<or> c = ''.'' then st
      else if c = ''..'' then
        (case st of
           [] \<Rightarrow> if rooted then [] else [''..'']
         | t # rest \<Rightarrow> if t = ''..'' then ''..'' # st else rest)
      else c # st)"

definition clean_parts :: "string \<Rightarrow> string list" where
  "clean_parts p = rev (fold (clean_step (IsAbs p)) (split_on CHR ''/'' p) [])"

definition Clean :: "string \<Rightarrow> string" where
  "Clean p =
     (if IsAbs p then CHR ''/'' # join ''/'' (clean_parts p)
      else if clean_parts p = [] then ''.''
      else join ''/'' (clean_parts p))"

definition Join :: "string list \<Rightarrow> string" where
  "Join elems =
     (let es = dropWhile (\<lambda>e. e = []) elems in if es = [] then [] else Clean (join ''/'' es))"

definition up_to_last_slash :: "string \<Rightarrow> string" where
  "up_to_last_slash p = rev (dropWhile (\<lambda>c. c \<noteq> CHR ''/'') (rev p))"

definition Dir :: "string \<Rightarrow> string" where
  "Dir p = Clean (up_to_last_slash p)"

definition Base :: "string \<Rightarrow> string" where
  "Base p =
     (if p = [] then ''.''
      else
        let q = TrimRight p ''/''; b = rev (takeWhile (\<lambda>c. c \<noteq> CHR ''/'') (rev q))
        in if b = [] then ''/'' else b)"

definition Ext :: "string \<Rightarrow> string" where
  "Ext p =
     (let b = rev (takeWhile (\<lambda>c. c \<noteq> CHR ''/'') (rev p)) in
      case dropWhile (\<lambda>c. c \<noteq> CHR ''.'') (rev b) of
        [] \<Rightarrow> []
      | _ \<Rightarrow> rev (takeWhile (\<lambda>c. c \<noteq> CHR ''.'') (rev b) @ ''.''))"

lemma IsAbs_Clean [simp]: "IsAbs p \<Longrightarrow> IsAbs (Clean p)"
  by (simp add: Clean_def IsAbs_def HasPrefix_iff)

lemma IsAbs_append: "IsAbs a \<Longrightarrow> IsAbs (a @ b)"
  by (auto simp: IsAbs_def HasPrefix_iff)

lemma Join_abs:
  assumes "IsAbs a" shows "IsAbs (Join (a # es))"
proof -
  have "a \<noteq> []" using assms by (auto simp: IsAbs_def HasPrefix_iff)
  moreover have "IsAbs (join ''/'' (a # es))"
    using assms by (cases es) (auto simp: IsAbs_append)
  ultimately show ?thesis by (simp add: Join_def)
qed

subsection \<open>Joining a plain file name\<close>

definition plain_name :: "string \<Rightarrow> bool" where
  "plain_name c \<longleftrightarrow> c \<noteq> [] \<and> c \<noteq> ''.'' \<and> c \<noteq> ''..'' \<and> CHR ''/'' \<notin> set c"

lemma split_on_sep: "split_on c (a @ c # b) = split_on c a @ split_on c b"
  by (induction a) (auto split: list.splits)

lemma clean_parts_snoc:
  assumes "plain_name c" and "a \<noteq> []"
  shows "clean_parts (a @ CHR ''/'' # c) = clean_parts a @ [c]"
proof -
  have "IsAbs (a @ CHR ''/'' # c) = IsAbs a" using assms(2) by (cases a) (auto simp: IsAbs_def HasPrefix_iff)
  then show ?thesis
    using assms(1)
    by (simp add: clean_parts_def split_on_sep split_on_absent plain_name_def clean_step_def)
qed

lemma join_snoc: "xs \<noteq> [] \<Longrightarrow> join sep (xs @ [x]) = join sep xs @ sep @ x"
proof (induction xs rule: induct_list012)
  case (3 x y zs)
  then show ?case by simp
qed auto

lemma Join_plain:
  assumes "plain_name c"
  shows "\<exists>pre. Join [a, c] = pre @ c \<and> (\<forall>c'. plain_name c' \<longrightarrow> Join [a, c'] = pre @ c')"
proof -
  define pre where "pre = (if a = [] then [] else if IsAbs a then (if clean_parts a = [] then ''/''
      else CHR ''/'' # join ''/'' (clean_parts a) @ ''/'')
    else if clean_parts a = [] then [] else join ''/'' (clean_parts a) @ ''/'')"
  have "Join [a, x] = pre @ x" if "plain_name x" for x
  proof (cases "a = []")
    case True
    have "\<not> IsAbs x" using that by (auto simp: plain_name_def IsAbs_def HasPrefix_iff)
    then have "clean_parts x = [x]"
      using that by (simp add: clean_parts_def split_on_absent plain_name_def clean_step_def)
    then show ?thesis
      using True that \<open>\<not> IsAbs x\<close> by (simp add: Join_def pre_def Clean_def plain_name_def)
  next
    case False
    then have "IsAbs (a @ CHR ''/'' # x) = IsAbs a" by (cases a) (auto simp: IsAbs_def HasPrefix_iff)
    then show ?thesis
      using False clean_parts_snoc [OF that False]
      by (auto simp: Join_def pre_def Clean_def join_snoc)
  qed
  with assms show ?thesis by blast
qed

lemma Join_three:
  assumes "IsAbs a" and "plain_name b" and "plain_name c"
  shows "Join [a, b, c] = Join [a, b] @ ''/'' @ c"
proof -
  have n: "a \<noteq> []" using assms(1) by (auto simp: IsAbs_def HasPrefix_iff)
  have ab: "IsAbs (a @ CHR ''/'' # b)" "IsAbs (a @ CHR ''/'' # b @ CHR ''/'' # c)"
    using IsAbs_append [OF assms(1)] by auto
  have 1: "clean_parts (a @ CHR ''/'' # b) = clean_parts a @ [b]" by (rule clean_parts_snoc [OF assms(2) n])
  have "clean_parts ((a @ CHR ''/'' # b) @ CHR ''/'' # c) = clean_parts (a @ CHR ''/'' # b) @ [c]"
    by (rule clean_parts_snoc [OF assms(3)]) simp
  then have 2: "clean_parts (a @ CHR ''/'' # b @ CHR ''/'' # c) = (clean_parts a @ [b]) @ [c]" by (simp add: 1)
  show ?thesis
    using n ab by (simp add: Join_def Clean_def 1 2 join_snoc del: append_assoc)
qed

end
