(* ===== verification/Instance.thy ===== *)
theory Instance
  imports Go_Net Go_Path
begin

text \<open>
  The parts of \<open>internal/config\<close> that derive names, ports and directories:
  \<open>config.go\<close> (labels, automatic hostname and listener) and \<open>statedir.go\<close>. What the operating
  system answers (host name, process id, which ports are free, the temporary directory, the
  platform, the environment) is a record.
\<close>

record os_env =
  Getenv :: "string \<Rightarrow> string"
  Hostname :: "string option"
  Getpid :: int
  port_free :: "int \<Rightarrow> bool"
  TempDir :: string
  GOOS :: string

definition defaultHostname :: string where "defaultHostname = ''ts-bridge''"

definition parseBoolEnv :: "string \<Rightarrow> bool" where
  "parseBoolEnv v = (ToLower (TrimSpace v) \<in> set [''1'', ''true'', ''yes'', ''on''])"

subsection \<open>Labels\<close>

definition label_char :: "char \<Rightarrow> bool" where
  "label_char r \<longleftrightarrow>
     (97 \<le> (of_char r :: nat) \<and> (of_char r :: nat) \<le> 122) \<or> (48 \<le> (of_char r :: nat) \<and> (of_char r :: nat) \<le> 57)"

fun sanitize_runes :: "bool \<Rightarrow> string \<Rightarrow> string" where
  "sanitize_runes previousDash [] = []"
| "sanitize_runes previousDash (r # rs) =
     (if label_char r then r # sanitize_runes False rs
      else if \<not> previousDash then CHR ''-'' # sanitize_runes True rs
      else sanitize_runes True rs)"

definition SanitizeHostnameLabel :: "string \<Rightarrow> string" where
  "SanitizeHostnameLabel value = Trim (sanitize_runes False (ToLower (TrimSpace value))) ''-''"

definition host_or_unknown :: "os_env \<Rightarrow> string" where
  "host_or_unknown E = (case Hostname E of None \<Rightarrow> ''unknown-host'' | Some h \<Rightarrow> if h = [] then ''unknown-host'' else h)"

definition deriveAutoHostname :: "os_env \<Rightarrow> string \<Rightarrow> string \<Rightarrow> string" where
  "deriveAutoHostname E target instanceName =
     (let machine = SanitizeHostnameLabel (host_or_unknown E);
          inst0 = SanitizeHostnameLabel instanceName;
          inst1 = (if inst0 = [] then machine else inst0);
          inst2 = (if inst1 = [] then ''bridge'' else inst1);
          base0 = ''tsb-'' @ inst2;
          base1 = (if 30 < length base0 then Trim (take 30 base0) ''-'' else base0);
          base2 = (if base1 = [] then ''tsb-bridge'' else base1);
          sum = unat (fnv32a (machine @ ''|'' @ target @ ''|'' @ instanceName) AND 0xffffff);
          hostname = base2 @ ''-'' @ hex_digits 6 sum @ ''-'' @ Itoa (Getpid E);
          short = (if 63 < length hostname then Trim (take 63 hostname) ''-'' else hostname)
      in if short = [] then defaultHostname else short)"

subsection \<open>Ports\<close>

datatype port_error =
    PortRangeFormat string
  | PortRangeStart
  | PortRangeEnd
  | PortRangeBounds int int
  | PortRangeSpan int
  | NoFreePort int int

definition parsePortRange :: "string \<Rightarrow> (port_error, int \<times> int) result" where
  "parsePortRange value =
     (case split_on CHR ''-'' value of
        [a, b] \<Rightarrow>
          (case Atoi (TrimSpace a) of
             None \<Rightarrow> Inl PortRangeStart
           | Some start \<Rightarrow>
               (case Atoi (TrimSpace b) of
                  None \<Rightarrow> Inl PortRangeEnd
                | Some end1 \<Rightarrow>
                    if start < 1 \<or> 65535 < end1 \<or> end1 < start then Inl (PortRangeBounds start end1)
                    else Inr (start, end1)))
      | _ \<Rightarrow> Inl (PortRangeFormat value))"

text \<open>The probe of \<open>selectAvailablePortImpl\<close>: the ports of the range from the seed's offset on, cyclically.\<close>

definition probe_order :: "string \<Rightarrow> int \<Rightarrow> int \<Rightarrow> int list" where
  "probe_order seed start end1 =
     (let span = end1 - start + 1; offset = uint (fnv32a seed) mod span
      in map (\<lambda>i. start + (offset + int i) mod span) [0..<nat span])"

definition selectAvailablePort :: "os_env \<Rightarrow> string \<Rightarrow> int \<Rightarrow> int \<Rightarrow> (port_error, int) result" where
  "selectAvailablePort E seed start end1 =
     (if end1 - start + 1 \<le> 0 then Inl (PortRangeSpan (end1 - start + 1))
      else (case find (port_free E) (probe_order seed start end1) of
              None \<Rightarrow> Inl (NoFreePort start end1)
            | Some p \<Rightarrow> Inr p))"

definition deriveAutoLocalAddr :: "os_env \<Rightarrow> string \<Rightarrow> string \<Rightarrow> string \<Rightarrow> (port_error, string) result" where
  "deriveAutoLocalAddr E target instanceName portRange =
     bind_res (parsePortRange portRange) (\<lambda>(start, end1).
       bind_res (selectAvailablePort E (host_or_unknown E @ ''|'' @ target @ ''|'' @ instanceName) start end1)
         (\<lambda>port. Inr (''127.0.0.1:'' @ Itoa port)))"

subsection \<open>State directories\<close>

definition appDirName :: string where "appDirName = ''ts-bridge''"
definition stateDirLeaf :: string where "stateDirLeaf = ''state''"

definition platformStateBase :: "string \<Rightarrow> (string \<Rightarrow> string) \<Rightarrow> string" where
  "platformStateBase goos getenv =
     (if goos = ''windows'' then Join [getenv ''LOCALAPPDATA'', appDirName, stateDirLeaf]
      else if goos = ''darwin'' then
        Join [getenv ''HOME'', ''Library'', ''Application Support'', appDirName, stateDirLeaf]
      else
        let base0 = getenv ''XDG_STATE_HOME'';
            base = (if base0 = [] then Join [getenv ''HOME'', ''.local'', stateDirLeaf] else base0)
        in Join [base, appDirName, stateDirLeaf])"

definition stateDirFor :: "os_env \<Rightarrow> string \<Rightarrow> (string \<Rightarrow> string) \<Rightarrow> string" where
  "stateDirFor E goos getenv =
     (let dir = platformStateBase goos getenv in
      if \<not> IsAbs dir then Join [TempDir E, appDirName, stateDirLeaf] else dir)"

definition StateDirForPlatform :: "os_env \<Rightarrow> string" where
  "StateDirForPlatform E = stateDirFor E (GOOS E) (Getenv E)"

definition stateDirIsCWDRelative :: "string \<Rightarrow> bool" where
  "stateDirIsCWDRelative dir \<longleftrightarrow> dir \<noteq> [] \<and> \<not> IsAbs dir"

definition ephemeralSegment :: "string \<Rightarrow> string" where
  "ephemeralSegment hostname =
     (let seg = SanitizeHostnameLabel hostname in if seg \<noteq> [] then seg else ''instance'')"

definition EphemeralStateDir :: "os_env \<Rightarrow> string \<Rightarrow> string" where
  "EphemeralStateDir E hostname = Join [TempDir E, appDirName, ephemeralSegment hostname]"

definition ProfileStorePath :: "os_env \<Rightarrow> string" where
  "ProfileStorePath E = Join [Dir (StateDirForPlatform E), ''profiles.yaml'']"

definition CredentialStoreDir :: "os_env \<Rightarrow> string" where
  "CredentialStoreDir E = Join [Dir (ProfileStorePath E), ''credentials'']"

subsection \<open>Properties\<close>

text \<open>\<open>dashed s\<close>: label characters and single dashes.\<close>

fun dashed :: "string \<Rightarrow> bool" where
  "dashed [] = True"
| "dashed [c] = (label_char c \<or> c = CHR ''-'')"
| "dashed (c # d # s) =
     ((label_char c \<or> c = CHR ''-'') \<and> \<not> (c = CHR ''-'' \<and> d = CHR ''-'') \<and> dashed (d # s))"

definition dns_label :: "string \<Rightarrow> bool" where
  "dns_label s \<longleftrightarrow> dashed s \<and> (s \<noteq> [] \<longrightarrow> hd s \<noteq> CHR ''-'' \<and> last s \<noteq> CHR ''-'')"

lemma label_char_not_dash: "label_char c \<Longrightarrow> c \<noteq> CHR ''-''"
  by (auto simp: label_char_def)

lemma dashed_Cons: "dashed (c # s) \<longleftrightarrow> (label_char c \<or> c = CHR ''-'') \<and>
  (s \<noteq> [] \<longrightarrow> \<not> (c = CHR ''-'' \<and> hd s = CHR ''-'')) \<and> dashed s"
  by (cases s) auto

lemma sanitize_dashed:
  "dashed (sanitize_runes b s) \<and> (b \<longrightarrow> sanitize_runes b s \<noteq> [] \<longrightarrow> hd (sanitize_runes b s) \<noteq> CHR ''-'')"
  by (induction b s rule: sanitize_runes.induct) (auto simp: dashed_Cons dest: label_char_not_dash)

lemma dashed_append: "dashed (a @ b) \<Longrightarrow> dashed a \<and> dashed b"
  by (induction a) (auto simp: dashed_Cons split: if_splits)

lemma Trim_dashes:
  assumes "dashed s"
  shows "dns_label (Trim s ''-'')"
proof -
  define t where "t = dropWhile (\<lambda>c. c \<in> set ''-'') s"
  obtain a where a: "s = a @ t" unfolding t_def by (metis takeWhile_dropWhile_id)
  obtain b where b: "t = Trim s ''-'' @ b"
    unfolding Trim_def TrimRight_def t_def [symmetric]
    by (metis rev_append rev_rev_ident takeWhile_dropWhile_id)
  have "dashed (Trim s ''-'')" using assms a b dashed_append by metis
  moreover have "last (Trim s ''-'') \<noteq> CHR ''-''" if "Trim s ''-'' \<noteq> []"
    using TrimRight_last [of t "''-''"] that by (simp add: Trim_def t_def)
  moreover have "hd (Trim s ''-'') \<noteq> CHR ''-''" if n: "Trim s ''-'' \<noteq> []"
  proof -
    have "t \<noteq> []" using b n by auto
    then have "hd t \<noteq> CHR ''-''" using hd_dropWhile [of "\<lambda>c. c \<in> set ''-''" s] by (simp add: t_def)
    then show ?thesis using b n by (metis hd_append2)
  qed
  ultimately show ?thesis by (simp add: dns_label_def)
qed

lemma SanitizeHostnameLabel_dns: "dns_label (SanitizeHostnameLabel v)"
  unfolding SanitizeHostnameLabel_def using sanitize_dashed Trim_dashes by blast

lemma dashed_chars: "dashed s \<Longrightarrow> c \<in> set s \<Longrightarrow> label_char c \<or> c = CHR ''-''"
  by (induction s) (auto simp: dashed_Cons)

lemma sanitize_id: "dashed s \<Longrightarrow> (b \<longrightarrow> s \<noteq> [] \<longrightarrow> hd s \<noteq> CHR ''-'') \<Longrightarrow> sanitize_runes b s = s"
  by (induction s arbitrary: b) (auto simp: dashed_Cons label_char_def)

lemma Trim_id: "s \<noteq> [] \<longrightarrow> hd s \<notin> set cs \<and> last s \<notin> set cs \<Longrightarrow> Trim s cs = s"
proof (cases "s = []")
  case False
  assume "s \<noteq> [] \<longrightarrow> hd s \<notin> set cs \<and> last s \<notin> set cs"
  then have "hd s \<notin> set cs" "hd (rev s) \<notin> set cs" using False by (auto simp: hd_rev)
  then have "dropWhile (\<lambda>c. c \<in> set cs) s = s" "dropWhile (\<lambda>c. c \<in> set cs) (rev s) = rev s"
    using False by (cases s; simp; cases "rev s"; simp)+
  then show ?thesis by (simp add: Trim_def TrimRight_def)
qed (simp add: Trim_def TrimRight_def)

lemma label_lower_graphic: "label_char c \<or> c = CHR ''-'' \<Longrightarrow> to_lower_char c = c \<and> graphic c"
  by (auto simp: label_char_def to_lower_char_def graphic_def Let_def)

lemma SanitizeHostnameLabel_id:
  assumes "dns_label s" shows "SanitizeHostnameLabel s = s"
proof -
  have c: "\<forall>c \<in> set s. to_lower_char c = c \<and> graphic c"
    using assms dashed_chars label_lower_graphic by (auto simp: dns_label_def)
  have "TrimSpace s = s" using c by (intro TrimSpace_graphic) auto
  moreover have "ToLower s = s" using c by (simp add: ToLower_def map_idI)
  moreover have "sanitize_runes False s = s" using assms by (intro sanitize_id) (auto simp: dns_label_def)
  moreover have "Trim s ''-'' = s" using assms by (intro Trim_id) (auto simp: dns_label_def)
  ultimately show ?thesis by (simp add: SanitizeHostnameLabel_def)
qed

text \<open>
  a sanitised name is a host-name label: lower-case letters, digits and single dashes, with
  no dash at either end; and sanitising is idempotent.
\<close>

lemma SanitizeHostnameLabel_is_label:
  "dns_label (SanitizeHostnameLabel v) \<and>
   SanitizeHostnameLabel (SanitizeHostnameLabel v) = SanitizeHostnameLabel v"
  using SanitizeHostnameLabel_dns SanitizeHostnameLabel_id by blast

lemma set_probe_order:
  assumes "start \<le> end1"
  shows "set (probe_order seed start end1) = {start..end1}"
proof -
  define span where "span = end1 - start + 1"
  define off where "off = uint (fnv32a seed) mod span"
  have sp: "0 < span" using assms by (simp add: span_def)
  have "set (probe_order seed start end1) = (\<lambda>i. start + (off + int i) mod span) ` {0..<nat span}"
    by (simp add: probe_order_def Let_def span_def off_def)
  also have "\<dots> = {start..end1}"
  proof
    show "(\<lambda>i. start + (off + int i) mod span) ` {0..<nat span} \<subseteq> {start..end1}"
    proof
      fix x assume "x \<in> (\<lambda>i. start + (off + int i) mod span) ` {0..<nat span}"
      then obtain i where x: "x = start + (off + int i) mod span" by blast
      have "0 \<le> (off + int i) mod span" "(off + int i) mod span < span"
        using sp by (auto intro: pos_mod_sign pos_mod_bound)
      then show "x \<in> {start..end1}" using x by (simp add: span_def)
    qed
    show "{start..end1} \<subseteq> (\<lambda>i. start + (off + int i) mod span) ` {0..<nat span}"
    proof
      fix p assume p: "p \<in> {start..end1}"
      define i where "i = nat ((p - start - off) mod span)"
      have i: "int i = (p - start - off) mod span" using sp by (simp add: i_def)
      then have "(off + int i) mod span = (p - start) mod span" by (simp add: mod_add_right_eq)
      also have "\<dots> = p - start" using p sp by (intro mod_pos_pos_trivial) (auto simp: span_def)
      finally have "p = start + (off + int i) mod span" by simp
      moreover have "i < nat span" using i sp by (metis nat_less_iff of_nat_nat pos_mod_bound i_def pos_mod_sign zless_nat_conj nat_mono_iff)
      ultimately show "p \<in> (\<lambda>i. start + (off + int i) mod span) ` {0..<nat span}" by auto
    qed
  qed
  finally show ?thesis .
qed

lemma find_SomeD: "find P xs = Some x \<Longrightarrow> P x \<and> x \<in> set xs"
  by (induction xs) (auto split: if_splits)

text \<open>
  the port probe is exact. For a range that is not empty, a returned port lies in the range
  and was free, and the error is returned only when no port of the range is free: starting at
  the seed's offset the probe visits every port.
\<close>

lemma selectAvailablePort_exact:
  assumes "start \<le> end1"
  shows "case selectAvailablePort E seed start end1 of
      Inr p \<Rightarrow> start \<le> p \<and> p \<le> end1 \<and> port_free E p
    | Inl e \<Rightarrow> e = NoFreePort start end1 \<and> (\<forall>p \<in> {start..end1}. \<not> port_free E p)"
  using assms set_probe_order [OF assms, of seed]
  by (auto simp: selectAvailablePort_def find_None_iff dest!: find_SomeD split: option.splits)

definition sample_env :: os_env where
  "sample_env = \<lparr>Getenv = (\<lambda>_. []), Hostname = Some ''Box 1'', Getpid = 42, port_free = (\<lambda>p. p = 101),
     TempDir = ''/tmp'', GOOS = ''linux''\<rparr>"

lemma state_dirs_abs:
  assumes "IsAbs (TempDir E)"
  shows "IsAbs (StateDirForPlatform E)" "IsAbs (EphemeralStateDir E h)"
  using Join_abs [OF assms] by (simp_all add: StateDirForPlatform_def stateDirFor_def EphemeralStateDir_def Let_def)

text \<open>
  the node identity never lands in the working directory. With an absolute temporary
  directory the default and the ephemeral state directory are absolute paths whatever the
  environment holds (no home directory, no XDG or local data directory), and the ephemeral one
  is a single safe segment, never a dot-dot or a path with separators, below the ts-bridge
  directory.
\<close>

lemma state_dirs_absolute:
  assumes "IsAbs (TempDir E)"
  shows "IsAbs (StateDirForPlatform E) \<and> IsAbs (EphemeralStateDir E hostname) \<and>
    (\<exists>seg. plain_name seg \<and> EphemeralStateDir E hostname = Join [TempDir E, appDirName] @ ''/'' @ seg)"
proof -
  have seg: "plain_name (ephemeralSegment hostname)"
  proof -
    have "dns_label (ephemeralSegment hostname)"
      using SanitizeHostnameLabel_dns [of hostname]
      by (auto simp: ephemeralSegment_def Let_def dns_label_def label_char_def)
    moreover have "ephemeralSegment hostname \<noteq> []" by (simp add: ephemeralSegment_def Let_def)
    ultimately show ?thesis
      using dashed_chars [of "ephemeralSegment hostname" "CHR ''/''"]
      by (auto simp: plain_name_def dns_label_def label_char_def)
  qed
  moreover have "EphemeralStateDir E hostname = Join [TempDir E, appDirName] @ ''/'' @ ephemeralSegment hostname"
    unfolding EphemeralStateDir_def
    by (rule Join_three [OF assms _ seg]) (simp add: plain_name_def appDirName_def)
  ultimately show ?thesis using state_dirs_abs [OF assms] by blast
qed

end
