(* ===== verification/Go_Time.thy ===== *)
theory Go_Time
  imports Go_Strconv
begin

text \<open>
  \<open>time.ParseDuration\<close>, in nanoseconds. The fraction of a number is rounded down exactly where
  the Go library multiplies in floating point.
\<close>

definition unit_ns :: "string \<Rightarrow> int option" where
  "unit_ns u =
     (if u = ''ns'' then Some 1
      else if u = ''us'' \<or> u = [char_of (194 :: nat), char_of (181 :: nat), CHR ''s'']
              \<or> u = [char_of (206 :: nat), char_of (188 :: nat), CHR ''s''] then Some 1000
      else if u = ''ms'' then Some 1000000
      else if u = ''s'' then Some 1000000000
      else if u = ''m'' then Some 60000000000
      else if u = ''h'' then Some 3600000000000
      else None)"

definition number_char :: "char \<Rightarrow> bool" where
  "number_char c \<longleftrightarrow> c = CHR ''.'' \<or> is_digit c"

text \<open>\<open>leadingFraction\<close>: digits that would overflow are read and ignored.\<close>

fun leading_fraction :: "string \<Rightarrow> int \<Rightarrow> int \<Rightarrow> bool \<Rightarrow> int \<times> int" where
  "leading_fraction [] f scale overflow = (f, scale)"
| "leading_fraction (c # s) f scale overflow =
     (if overflow \<or> 922337203685477580 < f \<or> 2 ^ 63 < f * 10 + int (dec_val [c])
      then leading_fraction s f scale True
      else leading_fraction s (f * 10 + int (dec_val [c])) (scale * 10) False)"

text \<open>One number with its unit: its value and the rest of the text.\<close>

definition duration_part :: "string \<Rightarrow> (int \<times> string) option" where
  "duration_part s =
     (let ds = takeWhile is_digit s; s1 = dropWhile is_digit s; v = int (dec_val ds);
          dot = HasPrefix s1 ''.'';
          fs = (if dot then takeWhile is_digit (drop 1 s1) else []);
          s2 = (if dot then dropWhile is_digit (drop 1 s1) else s1);
          u = takeWhile (\<lambda>c. \<not> number_char c) s2;
          rest = dropWhile (\<lambda>c. \<not> number_char c) s2
      in if s = [] \<or> \<not> number_char (hd s) \<or> 2 ^ 63 < v \<or> (ds = [] \<and> fs = []) \<or> u = [] then None
         else (case unit_ns u of
                 None \<Rightarrow> None
               | Some un \<Rightarrow>
                   if 2 ^ 63 div un < v then None
                   else
                     let (f, scale) = leading_fraction fs 0 1 False;
                         t = v * un + (f * un) div scale
                     in if 2 ^ 63 < t then None else Some (t, rest)))"

function duration_sum :: "string \<Rightarrow> int \<Rightarrow> int option" where
  "duration_sum s d =
     (if s = [] then Some d
      else (case duration_part s of
              None \<Rightarrow> None
            | Some (t, rest) \<Rightarrow>
                if length rest < length s then
                  (if 2 ^ 63 < d + t then None else duration_sum rest (d + t))
                else None))"
  by pat_completeness auto
termination
  by (relation "measure (\<lambda>(s, d). length s)") auto

declare duration_sum.simps [simp del]

text \<open>A part always consumes its unit, so the guard on the length never fires.\<close>

lemma duration_part_shrinks: "duration_part s = Some (t, rest) \<Longrightarrow> length rest < length s"
proof -
  assume a: "duration_part s = Some (t, rest)"
  define s1 where "s1 = dropWhile is_digit s"
  define s2 where "s2 = (if HasPrefix s1 ''.'' then dropWhile is_digit (drop 1 s1) else s1)"
  define u where "u = takeWhile (\<lambda>c. \<not> number_char c) s2"
  have r: "rest = dropWhile (\<lambda>c. \<not> number_char c) s2" and u: "u \<noteq> []"
    using a by (auto simp: duration_part_def Let_def s1_def s2_def u_def split: if_splits option.splits prod.splits)
  have "length s2 \<le> length s1" using length_dropWhile_le [of is_digit "drop 1 s1"] by (auto simp: s2_def)
  moreover have "length s1 \<le> length s" by (simp add: s1_def length_dropWhile_le)
  moreover have "length u + length rest = length s2"
    unfolding u_def r by (metis length_append takeWhile_dropWhile_id)
  ultimately show ?thesis using u by (cases u) auto
qed

definition ParseDuration :: "string \<Rightarrow> int option" where
  "ParseDuration s0 =
     (let sign = s0 \<noteq> [] \<and> (hd s0 = CHR ''-'' \<or> hd s0 = CHR ''+'');
          neg = s0 \<noteq> [] \<and> hd s0 = CHR ''-'';
          s = (if sign then tl s0 else s0)
      in if s = ''0'' then Some 0
         else if s = [] then None
         else (case duration_sum s 0 of
                 None \<Rightarrow> None
               | Some d \<Rightarrow> if neg then Some (- d) else if max_int64 < d then None else Some d))"

end
