(* ===== verification/Go_Url.thy ===== *)
theory Go_Url
  imports Go_Net
begin

text \<open>
  The parts of Go's \<open>net/url\<close> that ts-bridge calls: \<open>Parse\<close> with its authority, host and
  escape checks, \<open>Hostname\<close>, \<open>Port\<close>, \<open>Query\<close>, \<open>QueryEscape\<close> and \<open>String\<close> for a URL with a
  host and a query. Strings are byte strings. Several colons outside brackets are refused for
  http and https hosts; other schemes take the text after the last colon as the port.
\<close>

subsection \<open>Escaping\<close>

datatype escape_mode = EncodePath | EncodeHost | EncodeZone | EncodeUserPassword | EncodeQueryComponent | EncodeFragment

definition is_alpha :: "char \<Rightarrow> bool" where
  "is_alpha c \<longleftrightarrow> (97 \<le> (of_char c :: nat) \<and> (of_char c :: nat) \<le> 122) \<or>
     (65 \<le> (of_char c :: nat) \<and> (of_char c :: nat) \<le> 90)"

definition unreserved :: "char \<Rightarrow> bool" where
  "unreserved c \<longleftrightarrow> is_alpha c \<or> is_digit c \<or> c \<in> set ''-_.~''"

text \<open>The bytes a host may hold unescaped besides the unreserved ones.\<close>

definition host_extra :: string where
  "host_extra = ''!$&'' @ [CHR 39] @ ''()*+,;=:[]<>'' @ [CHR 34]"

definition host_byte :: "char \<Rightarrow> bool" where
  "host_byte c \<longleftrightarrow> unreserved c \<or> c \<in> set host_extra"

definition hex_byte :: "char \<Rightarrow> char \<Rightarrow> nat option" where
  "hex_byte a b =
     (case (hex_val a, hex_val b) of (Some x, Some y) \<Rightarrow> Some (16 * x + y) | _ \<Rightarrow> None)"

fun url_unescape :: "escape_mode \<Rightarrow> string \<Rightarrow> string option" where
  "url_unescape mode [] = Some []"
| "url_unescape mode (c # s) =
     (if c = CHR ''%'' then
        (case s of
           a # b # rest \<Rightarrow>
             (case hex_byte a b of
                None \<Rightarrow> None
              | Some v \<Rightarrow>
                  if mode = EncodeHost \<and> v < 128 \<and> v \<noteq> 37 then None
                  else if mode = EncodeZone \<and> v \<noteq> 37 \<and> v \<noteq> 32 \<and> \<not> host_byte (char_of v) then None
                  else map_option (\<lambda>r. char_of v # r) (url_unescape mode rest))
         | _ \<Rightarrow> None)
      else if c = CHR ''+'' \<and> mode = EncodeQueryComponent then
        map_option (\<lambda>r. CHR '' '' # r) (url_unescape mode s)
      else if (mode = EncodeHost \<or> mode = EncodeZone) \<and> (of_char c :: nat) < 128 \<and> \<not> host_byte c then None
      else map_option (\<lambda>r. c # r) (url_unescape mode s))"

definition path_byte :: "char \<Rightarrow> bool" where
  "path_byte c \<longleftrightarrow> unreserved c \<or> c \<in> set ''$&+,/:;=@''"

definition user_byte :: "char \<Rightarrow> bool" where
  "user_byte c \<longleftrightarrow> unreserved c \<or> c \<in> set ''$&+,;=''"

definition fragment_byte :: "char \<Rightarrow> bool" where
  "fragment_byte c \<longleftrightarrow> unreserved c \<or> c \<in> set ''$&+,/:;=?@!()*''"

definition pct :: "char \<Rightarrow> string" where
  "pct c = (let n = (of_char c :: nat) in
     [CHR ''%'', ToUpper [hex_char (n div 16)] ! 0, ToUpper [hex_char (n mod 16)] ! 0])"

definition QueryEscape :: "string \<Rightarrow> string" where
  "QueryEscape s =
     concat (map (\<lambda>c. if unreserved c then [c] else if c = CHR '' '' then ''+'' else pct c) s)"

definition escape_with :: "(char \<Rightarrow> bool) \<Rightarrow> string \<Rightarrow> string" where
  "escape_with keep s = concat (map (\<lambda>c. if keep c then [c] else pct c) s)"

text \<open>\<open>validEncoded\<close>: an escaped form that may be kept as it was written.\<close>

definition valid_encoded :: "(char \<Rightarrow> bool) \<Rightarrow> string \<Rightarrow> bool" where
  "valid_encoded keep s =
     list_all (\<lambda>c. keep c \<or> c \<in> set (''!$&'' @ [CHR 39] @ ''()*+,;=:@[]%'')) s"

subsection \<open>Parsing\<close>

record url =
  u_scheme :: string
  u_opaque :: string
  u_user :: "(string \<times> string option) option"
  u_host :: string
  u_path :: string
  u_raw_path :: string
  u_query :: string
  u_force_query :: bool
  u_fragment :: string
  u_raw_fragment :: string

definition url_ctl :: "char \<Rightarrow> bool" where
  "url_ctl c \<longleftrightarrow> (of_char c :: nat) < 32 \<or> (of_char c :: nat) = 127"

text \<open>\<open>getScheme\<close>: \<open>None\<close> is the error for a leading colon.\<close>

fun scheme_scan :: "string \<Rightarrow> string \<Rightarrow> string \<Rightarrow> (string \<times> string) option" where
  "scheme_scan raw acc [] = Some ([], raw)"
| "scheme_scan raw acc (c # s) =
     (if is_alpha c then scheme_scan raw (acc @ [c]) s
      else if is_digit c \<or> c \<in> set ''+-.'' then
        (if acc = [] then Some ([], raw) else scheme_scan raw (acc @ [c]) s)
      else if c = CHR '':'' then (if acc = [] then None else Some (acc, s))
      else Some ([], raw))"

definition getScheme :: "string \<Rightarrow> (string \<times> string) option" where
  "getScheme raw = scheme_scan raw [] raw"

definition validOptionalPort :: "string \<Rightarrow> bool" where
  "validOptionalPort p \<longleftrightarrow> p = [] \<or> (hd p = CHR '':'' \<and> list_all is_digit (tl p))"

definition ip6_literal :: "string \<Rightarrow> bool" where
  "ip6_literal s \<longleftrightarrow>
     (case index_of CHR ''%'' s of
        None \<Rightarrow> parse_ipv6 s \<noteq> None
      | Some i \<Rightarrow> drop (i + 1) s \<noteq> [] \<and> parse_ipv6 (take i s) \<noteq> None)"

fun find_sub :: "string \<Rightarrow> string \<Rightarrow> nat option" where
  "find_sub p [] = (if p = [] then Some 0 else None)"
| "find_sub p (c # s) = (if HasPrefix (c # s) p then Some 0 else map_option Suc (find_sub p s))"

definition parse_ip_literal :: "string \<Rightarrow> string option" where
  "parse_ip_literal host =
     (case last_index CHR '']'' host of
        None \<Rightarrow> None
      | Some i \<Rightarrow>
          let colonPort = drop (i + 1) host; hostname = take (i - 1) (drop 1 host) in
          if \<not> validOptionalPort colonPort then None
          else
            (case (case find_sub ''%25'' hostname of
                     None \<Rightarrow> url_unescape EncodeHost hostname
                   | Some z \<Rightarrow>
                       (case (url_unescape EncodeHost (take z hostname), url_unescape EncodeZone (drop z hostname)) of
                          (Some a, Some b) \<Rightarrow> Some (a @ b)
                        | _ \<Rightarrow> None)) of
               None \<Rightarrow> None
             | Some h \<Rightarrow> if ip6_literal h then Some (''['' @ h @ '']'' @ colonPort) else None))"

definition parseHost :: "string \<Rightarrow> string \<Rightarrow> string option" where
  "parseHost scheme host =
     (case last_index CHR ''['' host of
        Some b \<Rightarrow> if 0 < b then None else parse_ip_literal host
      | None \<Rightarrow>
          let i = (if scheme = ''http'' \<or> scheme = ''https'' then index_of CHR '':'' host
                   else last_index CHR '':'' host)
          in if (case i of None \<Rightarrow> True | Some k \<Rightarrow> validOptionalPort (drop k host))
             then url_unescape EncodeHost host else None)"

definition validUserinfo :: "string \<Rightarrow> bool" where
  "validUserinfo s = list_all (\<lambda>c. is_alpha c \<or> is_digit c \<or>
     c \<in> set (''-._:~!$&'' @ [CHR 39] @ ''()*+,;=%@'')) s"

definition parse_userinfo :: "string \<Rightarrow> (string \<times> string option) option" where
  "parse_userinfo userinfo =
     (if \<not> validUserinfo userinfo then None
      else if CHR '':'' \<notin> set userinfo then
        map_option (\<lambda>u. (u, None)) (url_unescape EncodeUserPassword userinfo)
      else case cut CHR '':'' userinfo of
        (name, pw, _) \<Rightarrow>
          (case (url_unescape EncodeUserPassword name, url_unescape EncodeUserPassword pw) of
             (Some u, Some w) \<Rightarrow> Some (u, Some w)
           | _ \<Rightarrow> None))"

definition parseAuthority ::
  "string \<Rightarrow> string \<Rightarrow> ((string \<times> string option) option \<times> string) option" where
  "parseAuthority scheme authority =
     (case last_index CHR ''@'' authority of
        None \<Rightarrow> map_option (\<lambda>h. (None, h)) (parseHost scheme authority)
      | Some i \<Rightarrow>
          (case parseHost scheme (drop (i + 1) authority) of
             None \<Rightarrow> None
           | Some h \<Rightarrow>
               (case parse_userinfo (take i authority) of
                  None \<Rightarrow> None
                | Some u \<Rightarrow> Some (Some u, h))))"

definition empty_url :: url where
  "empty_url = \<lparr>u_scheme = [], u_opaque = [], u_user = None, u_host = [], u_path = [],
     u_raw_path = [], u_query = [], u_force_query = False, u_fragment = [], u_raw_fragment = []\<rparr>"

definition split_query :: "string \<Rightarrow> string \<times> string \<times> bool" where
  "split_query rest =
     (if HasSuffix rest ''?'' \<and> length (filter (\<lambda>c. c = CHR ''?'') rest) = 1
      then (take (length rest - 1) rest, [], True)
      else case cut CHR ''?'' rest of (a, b, _) \<Rightarrow> (a, b, False))"

definition set_path :: "string \<Rightarrow> url \<Rightarrow> url option" where
  "set_path p u =
     (case url_unescape EncodePath p of
        None \<Rightarrow> None
      | Some path \<Rightarrow>
          Some (u\<lparr>u_path := path, u_raw_path := (if p = escape_with path_byte path then [] else p)\<rparr>))"

definition set_fragment :: "string \<Rightarrow> url \<Rightarrow> url option" where
  "set_fragment f u =
     (case url_unescape EncodeFragment f of
        None \<Rightarrow> None
      | Some frag \<Rightarrow>
          Some (u\<lparr>u_fragment := frag,
                   u_raw_fragment := (if f = escape_with fragment_byte frag then [] else f)\<rparr>))"

definition parse_no_frag :: "string \<Rightarrow> url option" where
  "parse_no_frag raw =
     (if list_ex url_ctl raw then None
      else if raw = ''*'' then Some (empty_url\<lparr>u_path := ''*''\<rparr>)
      else (case getScheme raw of
              None \<Rightarrow> None
            | Some (sch, rest0) \<Rightarrow>
                (case split_query rest0 of
                   (rest, q, fq) \<Rightarrow>
                     let sc = ToLower sch;
                         base = empty_url\<lparr>u_scheme := sc, u_query := q, u_force_query := fq\<rparr>
                     in if \<not> HasPrefix rest ''/'' \<and> sc \<noteq> [] then Some (base\<lparr>u_opaque := rest\<rparr>)
                        else if \<not> HasPrefix rest ''/'' \<and> CHR '':'' \<in> set (fst (cut CHR ''/'' rest)) then None
                        else if (sc \<noteq> [] \<or> \<not> HasPrefix rest ''///'') \<and> HasPrefix rest ''//'' then
                          let auth = takeWhile (\<lambda>c. c \<noteq> CHR ''/'') (drop 2 rest);
                              path = dropWhile (\<lambda>c. c \<noteq> CHR ''/'') (drop 2 rest)
                          in (case parseAuthority sc auth of
                                None \<Rightarrow> None
                              | Some (user, h) \<Rightarrow>
                                  set_path path (base\<lparr>u_user := user, u_host := h\<rparr>))
                        else set_path rest base)))"

definition url_Parse :: "string \<Rightarrow> url option" where
  "url_Parse raw =
     (case cut CHR ''#'' raw of
        (u, frag, _) \<Rightarrow>
          (case parse_no_frag u of
             None \<Rightarrow> None
           | Some r \<Rightarrow> if frag = [] then Some r else set_fragment frag r))"

definition split_host_port :: "string \<Rightarrow> string \<times> string" where
  "split_host_port hp =
     (let (host, port) =
        (case last_index CHR '':'' hp of
           None \<Rightarrow> (hp, [])
         | Some i \<Rightarrow> if validOptionalPort (drop i hp) then (take i hp, drop (i + 1) hp) else (hp, []))
      in (if HasPrefix host ''['' \<and> HasSuffix host '']'' then take (length host - 2) (drop 1 host) else host,
          port))"

definition u_Hostname :: "url \<Rightarrow> string" where "u_Hostname u = fst (split_host_port (u_host u))"
definition u_Port :: "url \<Rightarrow> string" where "u_Port u = snd (split_host_port (u_host u))"

subsection \<open>Printing\<close>

definition escaped_path :: "url \<Rightarrow> string" where
  "escaped_path u =
     (if u_raw_path u \<noteq> [] \<and> valid_encoded path_byte (u_raw_path u) \<and>
         url_unescape EncodePath (u_raw_path u) = Some (u_path u)
      then u_raw_path u
      else if u_path u = ''*'' then ''*''
      else escape_with path_byte (u_path u))"

definition escaped_fragment :: "url \<Rightarrow> string" where
  "escaped_fragment u =
     (if u_raw_fragment u \<noteq> [] \<and> valid_encoded fragment_byte (u_raw_fragment u) \<and>
         url_unescape EncodeFragment (u_raw_fragment u) = Some (u_fragment u)
      then u_raw_fragment u
      else escape_with fragment_byte (u_fragment u))"

definition user_text :: "string \<times> string option \<Rightarrow> string" where
  "user_text u = (case u of
     (name, None) \<Rightarrow> escape_with user_byte name
   | (name, Some pw) \<Rightarrow> escape_with user_byte name @ '':'' @ escape_with user_byte pw)"

text \<open>\<open>URL.String\<close>; the \<open>OmitHost\<close> flag, which no caller here sets, is left out.\<close>

definition url_String :: "url \<Rightarrow> string" where
  "url_String u =
     (let pre = (if u_scheme u = [] then [] else u_scheme u @ '':'');
          path = escaped_path u;
          auth = (if u_scheme u = [] \<and> u_host u = [] \<and> u_user u = None then []
                  else (if u_host u \<noteq> [] \<or> u_path u \<noteq> [] \<or> u_user u \<noteq> None then ''//'' else []) @
                       (case u_user u of None \<Rightarrow> [] | Some w \<Rightarrow> user_text w @ ''@'') @
                       escape_with host_byte (u_host u));
          slash = (if path \<noteq> [] \<and> hd path \<noteq> CHR ''/'' \<and> u_host u \<noteq> [] then ''/'' else []);
          dot = (if pre @ auth @ slash = [] \<and> CHR '':'' \<in> set (fst (cut CHR ''/'' path)) then ''./'' else [])
      in pre @ (if u_opaque u \<noteq> [] then u_opaque u else auth @ slash @ dot @ path) @
         (if u_force_query u \<or> u_query u \<noteq> [] then ''?'' @ u_query u else []) @
         (if u_fragment u \<noteq> [] then ''#'' @ escaped_fragment u else []))"

text \<open>\<open>Query\<close>: malformed pairs are dropped; more than 10000 parameters give no value at all.\<close>

definition query_pair :: "string \<Rightarrow> (string \<times> string) list" where
  "query_pair kv =
     (if CHR '';'' \<in> set kv \<or> kv = [] then []
      else case cut CHR ''='' kv of
        (k, v, _) \<Rightarrow>
          (case (url_unescape EncodeQueryComponent k, url_unescape EncodeQueryComponent v) of
             (Some k', Some v') \<Rightarrow> [(k', v')]
           | _ \<Rightarrow> []))"

definition parse_query :: "string \<Rightarrow> (string \<times> string) list" where
  "parse_query q =
     (let parts = split_on CHR ''&'' q in
      if 10000 < length parts then [] else concat (map query_pair parts))"

subsection \<open>The shape of what parses\<close>

lemma last_index_absent [simp]: "c \<notin> set s \<Longrightarrow> last_index c s = None"
  by simp

lemma scheme_scan_shape:
  "scheme_scan raw acc s = Some (sch, rest) \<Longrightarrow> raw = acc @ s \<Longrightarrow>
   sch = [] \<and> rest = raw \<or> sch \<noteq> [] \<and> raw = sch @ '':'' @ rest"
  by (induction raw acc s rule: scheme_scan.induct) (auto split: if_splits)

lemma getScheme_shape:
  "getScheme raw = Some (sch, rest) \<Longrightarrow>
   sch = [] \<and> rest = raw \<or> sch \<noteq> [] \<and> raw = sch @ '':'' @ rest"
  using scheme_scan_shape [of raw "[]" raw] by (simp add: getScheme_def)

lemma scheme_scan_alpha:
  "\<forall>c \<in> set sch. is_alpha c \<Longrightarrow> acc @ sch \<noteq> [] \<Longrightarrow>
   scheme_scan raw acc (sch @ CHR '':'' # rest) = Some (acc @ sch, rest)"
proof (induction sch arbitrary: acc)
  case Nil
  then show ?case by (simp add: is_alpha_def is_digit_def)
qed simp

lemma getScheme_alpha:
  "\<forall>c \<in> set sch. is_alpha c \<Longrightarrow> sch \<noteq> [] \<Longrightarrow> getScheme (sch @ CHR '':'' # rest) = Some (sch, rest)"
  using scheme_scan_alpha [of sch "[]"] by (simp add: getScheme_def)

lemma split_query_shape:
  "split_query s = (a, q, fq) \<Longrightarrow> \<exists>t. s = a @ t \<and> (t = [] \<or> hd t = CHR ''?'')"
proof -
  assume e: "split_query s = (a, q, fq)"
  show ?thesis
  proof (cases "HasSuffix s ''?'' \<and> length (filter (\<lambda>c. c = CHR ''?'') s) = 1")
    case True
    then obtain r where "s = r @ ''?''" by (auto simp: HasSuffix_iff)
    with True e show ?thesis by (auto simp: split_query_def)
  next
    case False
    then show ?thesis using e cut_cases [of "CHR ''?''" s] by (auto simp: split_query_def)
  qed
qed

lemma parseAuthority_user_None:
  "parseAuthority sc auth = Some (user, h) \<Longrightarrow> user = None \<longleftrightarrow> CHR ''@'' \<notin> set auth"
  by (auto simp: parseAuthority_def Let_def split: option.splits if_splits)

lemma parse_no_frag_authority:
  assumes "parse_no_frag u = Some r" and "u_scheme r \<noteq> []" and "u_host r \<noteq> []"
  shows "\<exists>sch auth t. u = sch @ ''://'' @ auth @ t \<and> ToLower sch = u_scheme r \<and>
    (t = [] \<or> hd t \<in> set ''/?'') \<and> CHR ''/'' \<notin> set auth \<and>
    parseAuthority (u_scheme r) auth = Some (u_user r, u_host r)"
proof -
  obtain sch rest0 where g: "getScheme u = Some (sch, rest0)"
    using assms by (auto simp: parse_no_frag_def empty_url_def split: if_splits option.splits)
  obtain rest q fq where sq: "split_query rest0 = (rest, q, fq)" by (metis prod_cases3)
  define auth where "auth = takeWhile (\<lambda>c. c \<noteq> CHR ''/'') (drop 2 rest)"
  define path where "path = dropWhile (\<lambda>c. c \<noteq> CHR ''/'') (drop 2 rest)"
  define base where "base = empty_url\<lparr>u_scheme := ToLower sch, u_query := q, u_force_query := fq\<rparr>"
  have pl: "list_ex url_ctl u = False" "(u = ''*'') = False"
    using assms(1,2) by (auto simp: parse_no_frag_def empty_url_def split: if_splits)
  have e: "(if \<not> HasPrefix rest ''/'' \<and> ToLower sch \<noteq> [] then Some (base\<lparr>u_opaque := rest\<rparr>)
      else if \<not> HasPrefix rest ''/'' \<and> CHR '':'' \<in> set (fst (cut CHR ''/'' rest)) then None
      else if (ToLower sch \<noteq> [] \<or> \<not> HasPrefix rest ''///'') \<and> HasPrefix rest ''//'' then
        (case parseAuthority (ToLower sch) auth of
           None \<Rightarrow> None
         | Some (user, h) \<Rightarrow>
             set_path path (base\<lparr>u_user := user, u_host := h\<rparr>))
      else set_path rest base) = Some r"
    using assms(1) unfolding parse_no_frag_def g option.case prod.case sq Let_def
      auth_def [symmetric] path_def [symmetric] base_def [symmetric]
    by (simp only: pl if_False)
  have nb: "u_host base = []" by (simp add: base_def empty_url_def)
  have c: "(ToLower sch \<noteq> [] \<or> \<not> HasPrefix rest ''///'') \<and> HasPrefix rest ''//'' \<and>
    (case parseAuthority (ToLower sch) auth of
           None \<Rightarrow> None
         | Some (user, h) \<Rightarrow>
             set_path path (base\<lparr>u_user := user, u_host := h\<rparr>)) = Some r"
    using e assms(3) nb by (force simp: set_path_def split: if_split_asm option.splits)
  then obtain user h p rp where
    pa: "parseAuthority (ToLower sch) auth = Some (user, h)" and
    r: "r = base\<lparr>u_user := user, u_host := h, u_path := p, u_raw_path := rp\<rparr>"
    by (auto simp: set_path_def split: option.splits)
  have us: "u_scheme r = ToLower sch" "u_user r = user" "u_host r = h" by (simp_all add: r base_def)
  have facts: "ToLower sch = u_scheme r" "HasPrefix rest ''//''"
    "parseAuthority (u_scheme r) auth = Some (u_user r, u_host r)"
    using c pa us by simp_all
  from facts(2) have rest: "rest = ''//'' @ auth @ path"
    by (auto simp: HasPrefix_iff auth_def path_def)
  from split_query_shape [OF sq] obtain t where t: "rest0 = rest @ t" "t = [] \<or> hd t = CHR ''?''" by blast
  have "sch \<noteq> []" using facts(1) assms(2) by auto
  with getScheme_shape [OF g] have "u = sch @ ''://'' @ auth @ path @ t" by (simp add: t rest)
  moreover have "path = [] \<or> hd path = CHR ''/''"
    unfolding path_def using hd_dropWhile [of "\<lambda>c. c \<noteq> CHR ''/''" "drop 2 rest"] by auto
  then have "path @ t = [] \<or> hd (path @ t) \<in> set ''/?''" using t(2) by (cases path) auto
  moreover have "CHR ''/'' \<notin> set auth" by (auto simp: auth_def dest: set_takeWhileD)
  ultimately show ?thesis using facts by blast
qed

lemma url_Parse_authority:
  assumes "url_Parse raw = Some r" and "u_scheme r \<noteq> []" and "u_host r \<noteq> []"
  shows "\<exists>sch auth t. raw = sch @ ''://'' @ auth @ t \<and> ToLower sch = u_scheme r \<and>
    (t = [] \<or> hd t \<in> set ''/?#'') \<and> CHR ''/'' \<notin> set auth \<and>
    parseAuthority (u_scheme r) auth = Some (u_user r, u_host r)"
proof -
  obtain u frag ok where c: "cut CHR ''#'' raw = (u, frag, ok)" by (metis prod_cases3)
  obtain r0 where r0: "parse_no_frag u = Some r0" "u_scheme r = u_scheme r0" "u_user r = u_user r0"
    "u_host r = u_host r0"
    using assms(1) by (auto simp: url_Parse_def c set_fragment_def split: option.splits if_splits)
  obtain sch auth t where s: "u = sch @ ''://'' @ auth @ t" "ToLower sch = u_scheme r"
    "t = [] \<or> hd t \<in> set ''/?''" "CHR ''/'' \<notin> set auth"
    "parseAuthority (u_scheme r) auth = Some (u_user r, u_host r)"
    using parse_no_frag_authority [OF r0(1)] assms(2,3) unfolding r0(2-4) by blast
  have "\<exists>t'. raw = u @ t' \<and> (t' = [] \<or> hd t' = CHR ''#'')"
    using cut_cases [of "CHR ''#''" raw] c by auto
  then obtain t' where "raw = u @ t'" "t' = [] \<or> hd t' = CHR ''#''" by blast
  then show ?thesis
    using s by (intro exI [of _ sch] exI [of _ auth] exI [of _ "t @ t'"]) (cases t; auto)
qed

subsection \<open>Parsing a URL that was put together\<close>

definition plain_in_url :: "string \<Rightarrow> bool" where
  "plain_in_url s \<longleftrightarrow> (\<forall>c \<in> set s. c \<notin> set ''/?#'' \<and> \<not> url_ctl c)"

lemma is_alpha_plain: "is_alpha c \<Longrightarrow> c \<notin> set ''/?#:'' \<and> \<not> url_ctl c"
  by (auto simp: is_alpha_def url_ctl_def)

lemma split_query_built:
  assumes "CHR ''?'' \<notin> set a" and "CHR ''?'' \<notin> set q"
  shows "split_query (a @ (if q = [] then [] else CHR ''?'' # q)) = (a, q, False)"
proof (cases "q = []")
  case True
  have "\<not> HasSuffix a ''?''" using assms(1) by (auto simp: HasSuffix_iff)
  then show ?thesis using True assms by (simp add: split_query_def cut_absent)
next
  case False
  have "\<not> HasSuffix (a @ CHR ''?'' # q) ''?''"
  proof
    assume "HasSuffix (a @ CHR ''?'' # q) ''?''"
    then obtain t where "a @ CHR ''?'' # q = t @ [CHR ''?'']" by (auto simp: HasSuffix_iff)
    from arg_cong [OF this, of last] have "last q = CHR ''?''" using False by simp
    then show False using False assms(2) last_in_set by metis
  qed
  then show ?thesis using False assms by (simp add: split_query_def cut_found)
qed

lemma url_Parse_built:
  assumes sch: "\<forall>c \<in> set sch. is_alpha c" "sch \<noteq> []" and auth: "plain_in_url auth"
    and q: "plain_in_url q"
  shows "url_Parse (sch @ ''://'' @ auth @ (if q = [] then [] else CHR ''?'' # q)) =
    map_option (\<lambda>(user, h). empty_url\<lparr>u_scheme := ToLower sch, u_query := q, u_user := user, u_host := h\<rparr>)
      (parseAuthority (ToLower sch) auth)"
proof -
  define qs where "qs = (if q = [] then [] else CHR ''?'' # q)"
  define rst where "rst = ''//'' @ auth"
  define u where "u = sch @ CHR '':'' # rst @ qs"
  have "\<not> url_ctl CHR ''?''" "\<not> url_ctl CHR ''/''" "\<not> url_ctl CHR '':''" by (simp_all add: url_ctl_def)
  moreover have "\<forall>c \<in> set sch. c \<noteq> CHR ''#'' \<and> \<not> url_ctl c" using sch(1) is_alpha_plain by simp
  ultimately have "\<forall>c \<in> set u. c \<noteq> CHR ''#'' \<and> \<not> url_ctl c"
    using auth q by (simp add: u_def rst_def qs_def plain_in_url_def ball_Un)
  then have nf: "cut CHR ''#'' u = (u, [], False)" and nc: "\<not> list_ex url_ctl u"
    by (auto simp: list_ex_iff intro!: cut_absent)
  have ns: "u \<noteq> ''*''" using sch(2) by (cases sch) (auto simp: u_def)
  have g: "getScheme u = Some (sch, rst @ qs)"
    unfolding u_def using sch by (rule getScheme_alpha)
  have sq: "split_query (rst @ qs) = (rst, q, False)"
    unfolding qs_def using auth q by (intro split_query_built) (auto simp: plain_in_url_def rst_def)
  have pre: "HasPrefix rst ''/''" "HasPrefix rst ''//''" "drop 2 rst = auth"
    by (auto simp: HasPrefix_iff rst_def)
  have tw: "takeWhile (\<lambda>c. c \<noteq> CHR ''/'') auth = auth" "dropWhile (\<lambda>c. c \<noteq> CHR ''/'') auth = []"
    using auth by (auto simp: plain_in_url_def takeWhile_eq_all_conv dropWhile_eq_Nil_conv)
  have "url_Parse u = map_option (\<lambda>(user, h).
      empty_url\<lparr>u_scheme := ToLower sch, u_query := q, u_user := user, u_host := h\<rparr>)
      (parseAuthority (ToLower sch) auth)"
    using sch(2) pre
    by (cases "parseAuthority (ToLower sch) auth")
      (auto simp: url_Parse_def nf parse_no_frag_def nc ns g sq tw empty_url_def set_path_def
        escape_with_def)
  then show ?thesis by (simp add: u_def qs_def rst_def)
qed

definition reg_name :: "string \<Rightarrow> bool" where
  "reg_name h \<longleftrightarrow> h \<noteq> [] \<and> (\<forall>c \<in> set h. unreserved c)"

lemma unreserved_plain:
  "unreserved c \<Longrightarrow> c \<notin> set ''/?#:@[]%&=;+ '' \<and> \<not> url_ctl c"
  by (auto simp: unreserved_def is_alpha_def is_digit_def url_ctl_def)

lemma digit_unreserved: "is_digit c \<Longrightarrow> unreserved c"
  by (simp add: unreserved_def)

lemma unescape_host_id:
  "\<forall>c \<in> set h. unreserved c \<or> c = CHR '':'' \<Longrightarrow> url_unescape EncodeHost h = Some h"
proof (induction h)
  case (Cons c h)
  have "c \<noteq> CHR ''%''" "host_byte c"
    using Cons.prems unreserved_plain [of c] by (auto simp: host_byte_def host_extra_def)
  with Cons show ?case by simp
qed simp

lemma parseHost_port:
  assumes "reg_name h" and "\<forall>c \<in> set p. is_digit c"
  shows "parseHost sc (h @ CHR '':'' # p) = Some (h @ CHR '':'' # p)"
proof -
  have h: "CHR '':'' \<notin> set h" "CHR ''['' \<notin> set h"
    using assms(1) unreserved_plain by (auto simp: reg_name_def)
  have p: "CHR '':'' \<notin> set p" "CHR ''['' \<notin> set p" using assms(2) by (auto simp: is_digit_def)
  have "last_index CHR ''['' (h @ CHR '':'' # p) = None" using h p by simp
  moreover have "index_of CHR '':'' (h @ CHR '':'' # p) = Some (length h)"
    using h by (simp add: index_of_append)
  moreover have "last_index CHR '':'' (h @ CHR '':'' # p) = Some (length h)"
    using p by (simp add: last_index_append)
  moreover have "validOptionalPort (CHR '':'' # p)"
    using assms(2) by (simp add: validOptionalPort_def list_all_iff)
  moreover have "url_unescape EncodeHost (h @ CHR '':'' # p) = Some (h @ CHR '':'' # p)"
    using assms by (intro unescape_host_id) (auto simp: reg_name_def digit_unreserved)
  ultimately show ?thesis by (simp add: parseHost_def)
qed

lemma parseAuthority_port:
  assumes "reg_name h" and "\<forall>c \<in> set p. is_digit c"
  shows "parseAuthority sc (h @ CHR '':'' # p) = Some (None, h @ CHR '':'' # p)"
proof -
  have "CHR ''@'' \<notin> set (h @ CHR '':'' # p)"
    using assms unreserved_plain by (auto simp: reg_name_def is_digit_def)
  then have "last_index CHR ''@'' (h @ CHR '':'' # p) = None" by simp
  then show ?thesis by (simp add: parseAuthority_def parseHost_port [OF assms])
qed

lemma split_host_port_plain:
  assumes "reg_name h" and "\<forall>c \<in> set p. is_digit c"
  shows "split_host_port (h @ CHR '':'' # p) = (h, p)"
proof -
  have p: "CHR '':'' \<notin> set p" using assms(2) by (auto simp: is_digit_def)
  then have "last_index CHR '':'' (h @ CHR '':'' # p) = Some (length h)" by (simp add: last_index_append)
  moreover have "validOptionalPort (CHR '':'' # p)"
    using assms(2) by (simp add: validOptionalPort_def list_all_iff)
  moreover have "\<not> HasPrefix h ''[''"
    using assms(1) unreserved_plain [of "CHR ''[''"] by (auto simp: reg_name_def HasPrefix_iff)
  ultimately show ?thesis by (simp add: split_host_port_def)
qed

lemma host_port_plain:
  "reg_name h \<Longrightarrow> \<forall>c \<in> set p. is_digit c \<Longrightarrow> plain_in_url (h @ CHR '':'' # p)"
  using unreserved_plain
  by (auto simp: plain_in_url_def reg_name_def url_ctl_def dest: digit_unreserved)

subsection \<open>Query escaping\<close>

lemma hex_upper: "k < 16 \<Longrightarrow> hex_val (ToUpper [hex_char k] ! 0) = Some k \<and> unreserved (ToUpper [hex_char k] ! 0)"
proof -
  have "\<forall>k \<in> set [0..<16]. hex_val (ToUpper [hex_char k] ! 0) = Some k \<and> unreserved (ToUpper [hex_char k] ! 0)"
    by code_simp
  then show "k < 16 \<Longrightarrow> ?thesis" by simp
qed

lemma char_nibbles: "(of_char c :: nat) div 16 < 16" "char_of (16 * ((of_char c :: nat) div 16) + of_char c mod 16) = c"
proof -
  have "(of_char c :: nat) < 256" by simp
  then show "(of_char c :: nat) div 16 < 16" by (simp add: less_mult_imp_div_less)
  show "char_of (16 * ((of_char c :: nat) div 16) + of_char c mod 16) = c" by simp
qed

lemma unescape_pct: "url_unescape EncodeQueryComponent (pct c @ s) = map_option (\<lambda>r. c # r) (url_unescape EncodeQueryComponent s)"
  using hex_upper [of "of_char c div 16"] hex_upper [of "of_char c mod 16"] char_nibbles [of c]
  by (simp add: pct_def Let_def hex_byte_def)

lemma query_unescape_cons:
  "unreserved c \<Longrightarrow> url_unescape EncodeQueryComponent (c # s) = map_option (\<lambda>r. c # r) (url_unescape EncodeQueryComponent s)"
  using unreserved_plain [of c] by simp

lemma QueryUnescape_QueryEscape: "url_unescape EncodeQueryComponent (QueryEscape s) = Some s"
proof (induction s)
  case (Cons c s)
  have "QueryEscape (c # s) = (if unreserved c then [c] else if c = CHR '' '' then ''+'' else pct c) @ QueryEscape s"
    by (simp add: QueryEscape_def)
  then show ?case
    using Cons query_unescape_cons [of c "QueryEscape s"] unescape_pct [of c "QueryEscape s"] by simp
qed (simp add: QueryEscape_def)

lemma QueryEscape_chars: "c \<in> set (QueryEscape s) \<Longrightarrow> unreserved c \<or> c = CHR ''+'' \<or> c = CHR ''%''"
proof (induction s)
  case (Cons a s)
  have "set (pct a) \<subseteq> {c. unreserved c} \<union> {CHR ''%''}"
    using hex_upper [of "of_char a div 16"] hex_upper [of "of_char a mod 16"] char_nibbles(1) [of a]
    by (simp add: pct_def Let_def)
  then show ?case using Cons by (auto simp: QueryEscape_def split: if_splits)
qed (simp add: QueryEscape_def)

lemma QueryEscape_plain: "c \<in> set (QueryEscape s) \<Longrightarrow> c \<notin> set ''&;=/?#'' \<and> \<not> url_ctl c"
  using QueryEscape_chars [of c s] unreserved_plain [of c] by (auto simp: url_ctl_def)

lemma query_pair_escaped:
  assumes "\<forall>c \<in> set k. unreserved c" and "k \<noteq> []"
  shows "query_pair (k @ ''='' @ QueryEscape v) = [(k, v)]"
proof -
  have k: "CHR ''='' \<notin> set k" "CHR '';'' \<notin> set k" using assms(1) unreserved_plain by auto
  have "CHR '';'' \<notin> set (QueryEscape v)" using QueryEscape_plain by auto
  moreover have "url_unescape EncodeQueryComponent k = Some k"
    using assms(1)
  proof (induction k)
    case (Cons c k)
    then show ?case using query_unescape_cons [of c k] by simp
  qed simp
  ultimately show ?thesis
    using k assms(2) by (simp add: query_pair_def cut_found QueryUnescape_QueryEscape)
qed

lemma escape_with_id: "\<forall>c \<in> set s. keep c \<Longrightarrow> escape_with keep s = s"
  by (induction s) (auto simp: escape_with_def)

end
