(* ===== verification/Control_Url.thy ===== *)
theory Control_Url
  imports Go_Url
begin

text \<open>
  \<open>internal/controlurl/controlurl.go\<close>: the one validation of a control-plane URL. Its errors
  are constants, so none can carry the input.
\<close>

datatype control_url_error = ErrNotURL | ErrCredentials | ErrScheme | ErrPort

definition validPort :: "string \<Rightarrow> bool" where
  "validPort p =
     (if p = [] then True
      else (case Atoi p of None \<Rightarrow> False | Some n \<Rightarrow> 1 \<le> n \<and> n \<le> 65535))"

definition Validate :: "string \<Rightarrow> control_url_error option" where
  "Validate raw =
     (case url_Parse raw of
        None \<Rightarrow> Some ErrNotURL
      | Some u \<Rightarrow>
          if u_user u \<noteq> None then Some ErrCredentials
          else if (u_scheme u \<noteq> ''http'' \<and> u_scheme u \<noteq> ''https'') \<or> u_Hostname u = [] then Some ErrScheme
          else if \<not> validPort (u_Port u) then Some ErrPort
          else None)"

fun control_url_text :: "control_url_error \<Rightarrow> string" where
  "control_url_text ErrNotURL = ''not a valid URL''"
| "control_url_text ErrCredentials = ''must not carry credentials''"
| "control_url_text ErrScheme = ''must be an http or https URL with a host''"
| "control_url_text ErrPort = ''port must be between 1 and 65535''"

lemma validPort_Itoa: "validPort (Itoa p) \<longleftrightarrow> valid_port p" if "int64_range p"
proof -
  have "Itoa p \<noteq> []" by (auto simp: Itoa_def)
  then show ?thesis using that by (simp add: validPort_def Atoi_Itoa valid_port_def)
qed

lemma Validate_parts:
  assumes "Validate raw = None"
  obtains u where "url_Parse raw = Some u" "u_user u = None"
    "u_scheme u = ''http'' \<or> u_scheme u = ''https''" "u_Hostname u \<noteq> []" "validPort (u_Port u)"
  using assms by (auto simp: Validate_def simp del: not_None_eq split: option.splits if_splits)

lemma split_host_port_Nil: "split_host_port [] = ([], [])"
  by (simp add: split_host_port_def)

lemma Validate_authority:
  assumes "Validate raw = None"
  shows "\<exists>sch auth rest. raw = sch @ ''://'' @ auth @ rest \<and>
    (ToLower sch = ''http'' \<or> ToLower sch = ''https'') \<and> auth \<noteq> [] \<and>
    CHR ''@'' \<notin> set auth \<and> CHR ''/'' \<notin> set auth \<and> (rest = [] \<or> hd rest \<in> set ''/?#'')"
proof -
  obtain u where u: "url_Parse raw = Some u" "u_user u = None"
    "u_scheme u = ''http'' \<or> u_scheme u = ''https''" "u_Hostname u \<noteq> []"
    using assms by (rule Validate_parts)
  have "u_host u \<noteq> []" using u(4) by (auto simp: u_Hostname_def split_host_port_Nil)
  moreover have "u_scheme u \<noteq> []" using u(3) by auto
  ultimately obtain sch auth t where
    s: "raw = sch @ ''://'' @ auth @ t" "ToLower sch = u_scheme u" "t = [] \<or> hd t \<in> set ''/?#''"
      "CHR ''/'' \<notin> set auth" "parseAuthority (u_scheme u) auth = Some (u_user u, u_host u)"
    using url_Parse_authority [OF u(1)] by blast
  have "CHR ''@'' \<notin> set auth" using parseAuthority_user_None [OF s(5)] u(2) by simp
  moreover have "auth \<noteq> []"
    using s(5) \<open>u_host u \<noteq> []\<close> by (auto simp: parseAuthority_def parseHost_def split: if_splits)
  ultimately show ?thesis using s u(3) by (intro exI [of _ sch] exI [of _ auth] exI [of _ t]) auto
qed

lemma Validate_host_port:
  assumes "sch = ''http'' \<or> sch = ''https''" and "reg_name host" and "0 \<le> p" and "int64_range p"
  shows "Validate (sch @ ''://'' @ host @ '':'' @ Itoa p) = (if valid_port p then None else Some ErrPort)"
proof -
  have d: "\<forall>c \<in> set (Itoa p). is_digit c" using Itoa_nonneg_digits [OF assms(3)] by blast
  have a: "\<forall>c \<in> set sch. is_alpha c" "sch \<noteq> []" "ToLower sch = sch"
    using assms(1) by (auto simp: is_alpha_def ToLower_def to_lower_char_def)
  have "plain_in_url (host @ CHR '':'' # Itoa p)" by (rule host_port_plain [OF assms(2) d])
  then have "url_Parse (sch @ ''://'' @ host @ '':'' @ Itoa p) =
      Some (empty_url\<lparr>u_scheme := sch, u_host := host @ CHR '':'' # Itoa p\<rparr>)"
    using url_Parse_built [OF a(1,2), of "host @ CHR '':'' # Itoa p" "[]"] a(3)
    by (simp add: parseAuthority_port [OF assms(2) d] plain_in_url_def empty_url_def)
  moreover have "host \<noteq> []" using assms(2) by (simp add: reg_name_def)
  ultimately show ?thesis
    using assms(1) validPort_Itoa [OF assms(4)]
    by (auto simp: Validate_def u_Hostname_def u_Port_def split_host_port_plain [OF assms(2) d]
        empty_url_def)
qed

end
