(* ===== verification/Secret_File.thy ===== *)
theory Secret_File
  imports Prelude Go_Path
begin

text \<open>
  \<open>internal/secretfile\<close> on a file-system model. Every system call may fail: the disk carries a
  fault plan, a function of the number of calls made so far, and a failing write leaves a
  prefix of the data. So a statement for every disk is a statement for every pattern of
  failures and for a crash after any call.
\<close>

subsection \<open>Disk\<close>

datatype fs_error = NotExist | IOFault

record disk_file =
  f_data :: string
  f_mode :: nat

record disk =
  files :: "string \<rightharpoonup> disk_file"
  dirs :: "string \<rightharpoonup> nat"
  tick :: nat
  faults :: "nat \<Rightarrow> bool"
  partial_len :: "nat \<Rightarrow> nat"
  temp_suffix :: "nat \<Rightarrow> string"

definition syscall :: "(disk \<Rightarrow> fs_error option \<times> disk) \<Rightarrow> disk \<Rightarrow> fs_error option \<times> disk" where
  "syscall f d =
     (let d' = d\<lparr>tick := Suc (tick d)\<rparr> in if faults d (tick d) then (Some IOFault, d') else f d')"

definition set_mode :: "string \<Rightarrow> nat \<Rightarrow> disk \<Rightarrow> disk" where
  "set_mode p m d =
     (case files d p of
        Some f \<Rightarrow> d\<lparr>files := (files d)(p \<mapsto> f\<lparr>f_mode := m\<rparr>)\<rparr>
      | None \<Rightarrow> d\<lparr>dirs := (dirs d)(p \<mapsto> m)\<rparr>)"

definition os_Chmod :: "string \<Rightarrow> nat \<Rightarrow> disk \<Rightarrow> fs_error option \<times> disk" where
  "os_Chmod p m = syscall (\<lambda>d.
     if files d p = None \<and> dirs d p = None then (Some NotExist, d) else (None, set_mode p m d))"

definition os_Remove :: "string \<Rightarrow> disk \<Rightarrow> fs_error option \<times> disk" where
  "os_Remove p = syscall (\<lambda>d.
     if files d p = None then (Some NotExist, d) else (None, d\<lparr>files := (files d)(p := None)\<rparr>))"

definition os_Rename :: "string \<Rightarrow> string \<Rightarrow> disk \<Rightarrow> fs_error option \<times> disk" where
  "os_Rename src dst = syscall (\<lambda>d.
     case files d src of
       None \<Rightarrow> (Some NotExist, d)
     | Some f \<Rightarrow> (None, d\<lparr>files := ((files d)(src := None))(dst \<mapsto> f)\<rparr>))"

text \<open>A failing write has stored a prefix of the data.\<close>

definition file_Write :: "string \<Rightarrow> string \<Rightarrow> disk \<Rightarrow> fs_error option \<times> disk" where
  "file_Write p s d =
     (let d' = d\<lparr>tick := Suc (tick d)\<rparr>;
          put = (\<lambda>x. case files d p of
                   None \<Rightarrow> d'
                 | Some f \<Rightarrow> d'\<lparr>files := (files d)(p \<mapsto> f\<lparr>f_data := f_data f @ x\<rparr>)\<rparr>)
      in if faults d (tick d) then (Some IOFault, put (take (partial_len d (tick d)) s))
         else (None, put s))"

definition file_Sync :: "disk \<Rightarrow> fs_error option \<times> disk" where
  "file_Sync = syscall (\<lambda>d. (None, d))"

definition file_Close :: "disk \<Rightarrow> fs_error option \<times> disk" where
  "file_Close = syscall (\<lambda>d. (None, d))"

definition os_ReadFile :: "string \<Rightarrow> disk \<Rightarrow> (fs_error, string) result \<times> disk" where
  "os_ReadFile p d =
     (let d' = d\<lparr>tick := Suc (tick d)\<rparr> in
      if faults d (tick d) then (Inl IOFault, d')
      else (case files d p of None \<Rightarrow> (Inl NotExist, d') | Some f \<Rightarrow> (Inr (f_data f), d')))"

definition os_Stat :: "string \<Rightarrow> disk \<Rightarrow> fs_error option \<times> disk" where
  "os_Stat p = syscall (\<lambda>d.
     if files d p = None \<and> dirs d p = None then (Some NotExist, d) else (None, d))"

text \<open>\<open>MkdirAll\<close>: the directory and its missing parents, with the given mode; a file in the way is an error.\<close>

fun ancestors :: "nat \<Rightarrow> string \<Rightarrow> string list" where
  "ancestors 0 p = [p]"
| "ancestors (Suc n) p = (if Dir p = p then [p] else p # ancestors n (Dir p))"

definition os_MkdirAll :: "string \<Rightarrow> nat \<Rightarrow> disk \<Rightarrow> fs_error option \<times> disk" where
  "os_MkdirAll p m = syscall (\<lambda>d.
     if \<exists>a \<in> set (ancestors (length p) p). files d a \<noteq> None then (Some IOFault, d)
     else (None, d\<lparr>dirs := foldr (\<lambda>a ds. if ds a = None then ds(a \<mapsto> m) else ds) (ancestors (length p) p) (dirs d)\<rparr>))"

text \<open>\<open>CreateTemp\<close> tries random names until one is free, at most 10000 times.\<close>

fun fresh_name :: "nat \<Rightarrow> (nat \<Rightarrow> string) \<Rightarrow> nat \<Rightarrow> (string \<Rightarrow> bool) \<Rightarrow> string option" where
  "fresh_name 0 name i used = None"
| "fresh_name (Suc n) name i used =
     (if used (name i) then fresh_name n name (Suc i) used else Some (name i))"

definition temp_name :: "string \<Rightarrow> string \<Rightarrow> string" where
  "temp_name path suffix = Dir path @ ''/.'' @ Base path @ ''-'' @ suffix @ ''.tmp''"

definition CreateTemp_as :: "(string \<Rightarrow> string) \<Rightarrow> string \<Rightarrow> disk \<Rightarrow> (fs_error, string) result \<times> disk" where
  "CreateTemp_as name dir d =
     (let d' = d\<lparr>tick := Suc (tick d)\<rparr> in
      if faults d (tick d) then (Inl IOFault, d')
      else if dirs d dir = None then (Inl NotExist, d')
      else (case fresh_name 10000 (\<lambda>i. name (temp_suffix d (tick d + i))) 0 (\<lambda>p. files d p \<noteq> None) of
              None \<Rightarrow> (Inl IOFault, d')
            | Some p \<Rightarrow> (Inr p, d'\<lparr>files := (files d)(p \<mapsto> \<lparr>f_data = [], f_mode = 384\<rparr>)\<rparr>)))"

definition os_CreateTemp :: "string \<Rightarrow> disk \<Rightarrow> (fs_error, string) result \<times> disk" where
  "os_CreateTemp path = CreateTemp_as (temp_name path) (Dir path)"

subsection \<open>Writing a secret\<close>

datatype write_error =
    CreateTempFailed fs_error | SetPermsFailed fs_error | WriteFailed fs_error | SyncFailed fs_error
  | CloseFailed fs_error | SecureTempFailed fs_error | ReplaceFailed fs_error | SecureFailed fs_error

text \<open>Modes 0600 and 0700.\<close>

definition Harden :: "string \<Rightarrow> bool \<Rightarrow> disk \<Rightarrow> fs_error option \<times> disk" where
  "Harden p directory = os_Chmod p (if directory then 448 else 384)"

definition writeTemp :: "string \<Rightarrow> string \<Rightarrow> disk \<Rightarrow> write_error option \<times> disk" where
  "writeTemp p s d =
     (case os_Chmod p 384 d of
        (Some e, d1) \<Rightarrow> (Some (SetPermsFailed e), snd (file_Close d1))
      | (None, d1) \<Rightarrow>
          (case file_Write p s d1 of
             (Some e, d2) \<Rightarrow> (Some (WriteFailed e), snd (file_Close d2))
           | (None, d2) \<Rightarrow>
               (case file_Sync d2 of
                  (Some e, d3) \<Rightarrow> (Some (SyncFailed e), snd (file_Close d3))
                | (None, d3) \<Rightarrow>
                    (case file_Close d3 of (Some e, d4) \<Rightarrow> (Some (CloseFailed e), d4) | (None, d4) \<Rightarrow> (None, d4)))))"

type_synonym rename_fun = "string \<Rightarrow> string \<Rightarrow> disk \<Rightarrow> fs_error option \<times> disk"

definition write_and_replace ::
  "string \<Rightarrow> string \<Rightarrow> string \<Rightarrow> rename_fun \<Rightarrow> disk \<Rightarrow> write_error option \<times> disk" where
  "write_and_replace temp path s rename d1 =
     (case writeTemp temp s d1 of
        (Some e, d2) \<Rightarrow> (Some e, d2)
      | (None, d2) \<Rightarrow>
          (case Harden temp False d2 of
             (Some e, d3) \<Rightarrow> (Some (SecureTempFailed e), d3)
           | (None, d3) \<Rightarrow>
               (case rename temp path d3 of
                  (Some e, d4) \<Rightarrow> (Some (ReplaceFailed e), d4)
                | (None, d4) \<Rightarrow>
                    (case Harden path False d4 of
                       (Some e, d5) \<Rightarrow> (Some (SecureFailed e), d5)
                     | (None, d5) \<Rightarrow> (None, d5)))))"

text \<open>The deferred removal of the temporary file runs on every return after its creation.\<close>

definition WriteFileWith :: "string \<Rightarrow> string \<Rightarrow> rename_fun \<Rightarrow> disk \<Rightarrow> write_error option \<times> disk" where
  "WriteFileWith path s rename d =
     (case os_CreateTemp path d of
        (Inl e, d1) \<Rightarrow> (Some (CreateTempFailed e), d1)
      | (Inr temp, d1) \<Rightarrow>
          (case write_and_replace temp path s rename d1 of
             (r, d2) \<Rightarrow> (r, snd (os_Remove temp d2))))"

definition WriteFile :: "string \<Rightarrow> string \<Rightarrow> disk \<Rightarrow> write_error option \<times> disk" where
  "WriteFile path s = WriteFileWith path s os_Rename"

text \<open>
  \<open>retrying\<close>: the rename of the profile store, up to five times. The sleeps between the
  attempts change nothing on the disk.
\<close>

fun retry_rename :: "nat \<Rightarrow> rename_fun \<Rightarrow> rename_fun" where
  "retry_rename 0 rename src dst d = (None, d)"
| "retry_rename (Suc 0) rename src dst d = rename src dst d"
| "retry_rename (Suc (Suc n)) rename src dst d =
     (case rename src dst d of
        (None, d') \<Rightarrow> (None, d')
      | (Some e, d') \<Rightarrow> retry_rename (Suc n) rename src dst d')"

definition retrying :: "rename_fun \<Rightarrow> rename_fun" where
  "retrying rename = retry_rename 5 rename"

subsection \<open>What the calls keep\<close>

text \<open>Directories and the plan of failures and names stay as they are.\<close>

definition same_plan :: "disk \<Rightarrow> disk \<Rightarrow> bool" where
  "same_plan d d' \<longleftrightarrow> dirs d' = dirs d \<and> faults d' = faults d \<and> partial_len d' = partial_len d \<and>
     temp_suffix d' = temp_suffix d"

lemma same_plan_refl [simp]: "same_plan d d"
  by (simp add: same_plan_def)

lemma same_plan_trans: "same_plan a b \<Longrightarrow> same_plan b c \<Longrightarrow> same_plan a c"
  by (simp add: same_plan_def)

definition disk_ok :: "disk \<Rightarrow> bool" where
  "disk_ok d \<longleftrightarrow> (\<forall>n. CHR ''/'' \<notin> set (temp_suffix d n))"

lemma disk_ok_same_plan: "same_plan d d' \<Longrightarrow> disk_ok d' = disk_ok d"
  by (simp add: same_plan_def disk_ok_def)

definition last_part :: "string \<Rightarrow> string" where
  "last_part p = rev (takeWhile (\<lambda>c. c \<noteq> CHR ''/'') (rev p))"

lemma last_part_append: "CHR ''/'' \<notin> set b \<Longrightarrow> last_part (a @ CHR ''/'' # b) = b"
proof -
  assume "CHR ''/'' \<notin> set b"
  then have "takeWhile (\<lambda>c. c \<noteq> CHR ''/'') (rev b @ CHR ''/'' # rev a) = rev b"
    by (simp add: takeWhile_append)
  then show ?thesis by (simp add: last_part_def)
qed

lemma last_part_no_slash: "CHR ''/'' \<notin> set (last_part p)"
  by (auto simp: last_part_def dest: set_takeWhileD)

lemma sibling_neq:
  assumes "CHR ''/'' \<notin> set pre" and "CHR ''/'' \<notin> set post" and "post \<noteq> []"
  shows "Dir path @ CHR ''/'' # pre @ Base path @ post \<noteq> path"
proof
  let ?b = "pre @ Base path @ post"
  assume eq: "Dir path @ CHR ''/'' # ?b = path"
  have "path \<noteq> []" using eq by auto
  have "hd (rev path) = last post"
    using arg_cong [OF eq, of "\<lambda>x. hd (rev x)"] assms(3) by (simp add: hd_rev)
  then have h: "hd (rev path) \<noteq> CHR ''/''" using assms(2,3) last_in_set by metis
  then have "TrimRight path ''/'' = path" using \<open>path \<noteq> []\<close>
    by (cases "rev path") (auto simp: TrimRight_def)
  then have base: "Base path = (if last_part path = [] then ''/'' else last_part path)"
    using \<open>path \<noteq> []\<close> by (simp add: Base_def last_part_def Let_def)
  have lp: "last_part path \<noteq> []"
    using h \<open>path \<noteq> []\<close> by (cases "rev path") (auto simp: last_part_def)
  have "CHR ''/'' \<notin> set ?b" using assms base lp last_part_no_slash [of path] by simp
  then have "last_part path = ?b" using eq by (metis last_part_append)
  then have "length (last_part path) = length ?b" by simp
  then show False using base lp assms(3) by simp
qed

lemma temp_name_neq: "CHR ''/'' \<notin> set suffix \<Longrightarrow> temp_name path suffix \<noteq> path"
  using sibling_neq [of "''.''" "''-'' @ suffix @ ''.tmp''" path] by (simp add: temp_name_def)

lemma fresh_name_SomeD: "fresh_name n name i used = Some p \<Longrightarrow> \<not> used p \<and> (\<exists>j. p = name j)"
  by (induction n arbitrary: i) (auto split: if_splits)

lemma CreateTemp_as_Inr:
  assumes "CreateTemp_as name dir d = (Inr temp, d')"
  shows "files d temp = None \<and> same_plan d d' \<and> files d' = (files d)(temp \<mapsto> \<lparr>f_data = [], f_mode = 384\<rparr>) \<and>
    (\<exists>i. temp = name (temp_suffix d i))"
  using assms
  by (auto simp: CreateTemp_as_def Let_def same_plan_def split: if_splits option.splits
      dest!: fresh_name_SomeD)

lemma CreateTemp_as_Inl:
  "CreateTemp_as name dir d = (Inl e, d') \<Longrightarrow> files d' = files d \<and> same_plan d d'"
  by (auto simp: CreateTemp_as_def Let_def same_plan_def split: if_splits option.splits)

lemma os_CreateTemp_Inr:
  assumes "os_CreateTemp path d = (Inr temp, d')" and "disk_ok d"
  shows "files d temp = None \<and> temp \<noteq> path \<and> same_plan d d' \<and>
    files d' = (files d)(temp \<mapsto> \<lparr>f_data = [], f_mode = 384\<rparr>) \<and> (\<exists>sfx. temp = temp_name path sfx)"
  using CreateTemp_as_Inr [OF assms(1) [unfolded os_CreateTemp_def]] assms(2) temp_name_neq
  by (auto simp: disk_ok_def)

lemma os_CreateTemp_Inl:
  "os_CreateTemp path d = (Inl e, d') \<Longrightarrow> files d' = files d \<and> same_plan d d'"
  unfolding os_CreateTemp_def by (rule CreateTemp_as_Inl)

lemma os_Remove_effect:
  "os_Remove p d = (r, d') \<Longrightarrow> same_plan d d' \<and> (\<forall>q. q \<noteq> p \<longrightarrow> files d' q = files d q) \<and>
   (r = None \<longrightarrow> files d p \<noteq> None \<and> files d' p = None) \<and> (r \<noteq> None \<longrightarrow> files d' = files d)"
  by (auto simp: os_Remove_def syscall_def Let_def same_plan_def split: if_splits)

lemma os_Chmod_file:
  assumes "os_Chmod p m d = (r, d')" and "files d p = Some f"
  shows "same_plan d d' \<and> (r = None \<longrightarrow> files d' = (files d)(p \<mapsto> f\<lparr>f_mode := m\<rparr>)) \<and>
    (r \<noteq> None \<longrightarrow> files d' = files d)"
  using assms by (auto simp: os_Chmod_def syscall_def set_mode_def Let_def same_plan_def split: if_splits)

lemma file_Write_effect:
  assumes "file_Write p s d = (r, d')" and "files d p = Some f"
  shows "same_plan d d' \<and> (r = None \<longrightarrow> files d' = (files d)(p \<mapsto> f\<lparr>f_data := f_data f @ s\<rparr>)) \<and>
    (\<exists>g. files d' = (files d)(p \<mapsto> g))"
  using assms by (auto simp: file_Write_def Let_def same_plan_def split: if_splits)

lemma plain_syscalls:
  "file_Sync d = (r, d') \<Longrightarrow> files d' = files d \<and> same_plan d d'"
  "file_Close d = (r, d') \<Longrightarrow> files d' = files d \<and> same_plan d d'"
  "files (snd (file_Close d)) = files d" "same_plan d (snd (file_Close d))"
  by (auto simp: file_Sync_def file_Close_def syscall_def Let_def same_plan_def split: if_splits)

lemma writeTemp_effect:
  assumes "writeTemp p s d = (r, d')" and "files d p = Some \<lparr>f_data = [], f_mode = 384\<rparr>"
  shows "same_plan d d' \<and> (\<exists>g. files d' = (files d)(p \<mapsto> g)) \<and>
    (r = None \<longrightarrow> files d' = (files d)(p \<mapsto> \<lparr>f_data = s, f_mode = 384\<rparr>))"
proof -
  obtain r1 d1 where c: "os_Chmod p 384 d = (r1, d1)" by (metis surj_pair)
  have c1: "same_plan d d1" "files d1 = files d"
    using os_Chmod_file [OF c assms(2)] assms(2) by (cases r1; auto)+
  show ?thesis
  proof (cases r1)
    case (Some e)
    then show ?thesis
      using assms c c1 plain_syscalls(3,4) [of d1]
      by (auto simp: writeTemp_def intro: same_plan_trans intro!: exI [of _ "the (files d p)"])
  next
    case None
    obtain r2 d2 where w: "file_Write p s d1 = (r2, d2)" by (metis surj_pair)
    have f1: "files d1 p = Some \<lparr>f_data = [], f_mode = 384\<rparr>" using assms(2) c1 by simp
    from file_Write_effect [OF w f1] obtain g where w1: "same_plan d1 d2" "files d2 = (files d)(p \<mapsto> g)"
      "r2 = None \<longrightarrow> g = \<lparr>f_data = s, f_mode = 384\<rparr>" using c1 by (auto simp: fun_upd_def fun_eq_iff split: if_splits)
    obtain r3 d3 where y: "file_Sync d2 = (r3, d3)" by (metis surj_pair)
    obtain r4 d4 where z: "file_Close d3 = (r4, d4)" by (metis surj_pair)
    have p3: "files d3 = files d2" "same_plan d2 d3" "files d4 = files d2" "same_plan d3 d4"
      using plain_syscalls(1) [OF y] plain_syscalls(2) [OF z] by simp_all
    have "files d' = files d2 \<and> same_plan d d' \<and> (r = None \<longrightarrow> r2 = None)"
      using assms(1) None c w y z c1(1) w1(1) p3 plain_syscalls(3,4) [of d2] plain_syscalls(3,4) [of d3]
      by (auto simp: writeTemp_def split: option.splits intro: same_plan_trans)
    with w1 show ?thesis by auto
  qed
qed

subsection \<open>The rename a writer relies on\<close>

locale atomic_rename =
  fixes rename :: rename_fun
  assumes rename_done: "rename src dst d = (None, d') \<Longrightarrow> src \<noteq> dst \<Longrightarrow>
      \<exists>f. files d src = Some f \<and> files d' = ((files d)(src := None))(dst \<mapsto> f)"
    and rename_failed: "rename src dst d = (Some e, d') \<Longrightarrow> files d' = files d"
    and rename_plan: "rename src dst d = (r, d') \<Longrightarrow> same_plan d d'"
begin

lemma replace_outcome:
  assumes "write_and_replace temp path s rename d = (r, d')" and "temp \<noteq> path"
    and "files d temp = Some \<lparr>f_data = [], f_mode = 384\<rparr>"
  shows "same_plan d d' \<and> (\<forall>q. q \<noteq> temp \<longrightarrow> q \<noteq> path \<longrightarrow> files d' q = files d q) \<and>
    (files d' path = files d path \<and> r \<noteq> None \<or>
     files d' path = Some \<lparr>f_data = s, f_mode = 384\<rparr> \<and> (r = None \<or> (\<exists>e. r = Some (SecureFailed e))))"
proof -
  obtain r2 d2 where w: "writeTemp temp s d = (r2, d2)" by (metis surj_pair)
  obtain r3 d3 where h: "Harden temp False d2 = (r3, d3)" by (metis surj_pair)
  obtain r4 d4 where m: "rename temp path d3 = (r4, d4)" by (metis surj_pair)
  obtain r5 d5 where k: "Harden path False d4 = (r5, d5)" by (metis surj_pair)
  have w2: "same_plan d d2" "\<forall>q. q \<noteq> temp \<longrightarrow> files d2 q = files d q" "files d2 temp \<noteq> None"
    "r2 = None \<longrightarrow> files d2 temp = Some \<lparr>f_data = s, f_mode = 384\<rparr>"
    using writeTemp_effect [OF w assms(3)] by auto
  then obtain g where g: "files d2 temp = Some g" by auto
  have h3: "same_plan d2 d3" "\<forall>q. q \<noteq> temp \<longrightarrow> files d3 q = files d2 q"
    "files d3 temp = Some g \<or> files d3 temp = Some (g\<lparr>f_mode := 384\<rparr>)"
    using os_Chmod_file [OF h [unfolded Harden_def] g] g by (cases r3; auto)+
  have m4: "same_plan d3 d4" "r4 \<noteq> None \<longrightarrow> files d4 = files d3"
    "r4 = None \<longrightarrow> files d4 path = files d3 temp \<and> (\<forall>q. q \<noteq> temp \<longrightarrow> q \<noteq> path \<longrightarrow> files d4 q = files d3 q)"
    using rename_plan [OF m] rename_failed [of temp path d3 _ d4] rename_done [of temp path d3 d4] m assms(2)
    by (cases r4; auto)+
  have k5: "same_plan d4 d5" "\<forall>q. q \<noteq> path \<longrightarrow> files d5 q = files d4 q"
    "files d4 path = Some \<lparr>f_data = s, f_mode = 384\<rparr> \<longrightarrow> files d5 path = files d4 path"
    if "files d4 path \<noteq> None"
    using that os_Chmod_file [OF k [unfolded Harden_def]] by (cases r5; auto)+
  consider "r2 \<noteq> None" "d' = d2" "r = r2" | "r2 = None" "r3 \<noteq> None" "d' = d3" "r = map_option SecureTempFailed r3"
    | "r2 = None" "r3 = None" "r4 \<noteq> None" "d' = d4" "r = map_option ReplaceFailed r4"
    | "r2 = None" "r3 = None" "r4 = None" "d' = d5" "r = map_option SecureFailed r5"
    using assms(1) w h m k by (auto simp: write_and_replace_def split: option.splits)
  then show ?thesis
  proof cases
    case 4
    have f: "files d4 path = Some \<lparr>f_data = s, f_mode = 384\<rparr>" using 4 w2(4) g h3(3) m4(3) by auto
    then have p: "same_plan d d'" using 4 k5(1) w2(1) h3(1) m4(1) by (auto intro: same_plan_trans)
    show ?thesis using 4 f p k5 w2 h3 m4 by (cases r5) auto
  next
    case 1
    then show ?thesis using w2 assms(2) by simp
  next
    case 2
    then have "same_plan d d'" using same_plan_trans [OF w2(1) h3(1)] by simp
    then show ?thesis using 2 w2 h3 assms(2) by simp
  next
    case 3
    then have "same_plan d d'" using same_plan_trans [OF w2(1) same_plan_trans [OF h3(1) m4(1)]] by simp
    then show ?thesis using 3 w2 h3 m4 assms(2) by simp
  qed
qed

text \<open>
  Whatever fails: the file is the old one or, complete and owner-only, the new one; no other
  file that existed is touched; success means the new one; and the only error after the
  replacement is the one of the last permission change.
\<close>

lemma write_outcome:
  assumes "WriteFileWith path s rename d = (r, d')" and "disk_ok d"
  shows "same_plan d d' \<and> (\<forall>q. q \<noteq> path \<longrightarrow> files d q \<noteq> None \<longrightarrow> files d' q = files d q) \<and>
    (files d' path = files d path \<or> files d' path = Some \<lparr>f_data = s, f_mode = 384\<rparr>) \<and>
    (r = None \<longrightarrow> files d' path = Some \<lparr>f_data = s, f_mode = 384\<rparr>) \<and>
    (files d' path \<noteq> files d path \<longrightarrow> r = None \<or> (\<exists>e. r = Some (SecureFailed e))) \<and>
    (\<forall>q. q \<noteq> path \<longrightarrow> files d' q \<noteq> files d q \<longrightarrow> (\<exists>sfx. q = temp_name path sfx))"
proof (cases "os_CreateTemp path d")
  case (Pair r1 d1)
  show ?thesis
  proof (cases r1)
    case (Inl e)
    then show ?thesis using assms Pair os_CreateTemp_Inl [of path d e d1] by (auto simp: WriteFileWith_def)
  next
    case (Inr temp)
    have t: "files d temp = None" "temp \<noteq> path" "same_plan d d1"
      "files d1 = (files d)(temp \<mapsto> \<lparr>f_data = [], f_mode = 384\<rparr>)" "\<exists>sfx. temp = temp_name path sfx"
      using os_CreateTemp_Inr [of path d temp d1] Pair Inr assms(2) by simp_all
    obtain r2 d2 where w: "write_and_replace temp path s rename d1 = (r2, d2)" by (metis surj_pair)
    have rm: "os_Remove temp d2 = (fst (os_Remove temp d2), d')" and r: "r = r2"
      using assms(1) Pair Inr w by (auto simp: WriteFileWith_def)
    have "files d1 temp = Some \<lparr>f_data = [], f_mode = 384\<rparr>" using t(4) by simp
    note ro = replace_outcome [OF w t(2) this]
    note re = os_Remove_effect [OF rm]
    have p: "same_plan d d'" "\<forall>q. q \<noteq> temp \<longrightarrow> files d' q = files d2 q"
      using same_plan_trans [OF t(3) same_plan_trans [OF ro [THEN conjunct1] re [THEN conjunct1]]] re by simp_all
    have d1: "\<forall>q. q \<noteq> temp \<longrightarrow> files d1 q = files d q" using t(4) by simp
    have o: "\<forall>q. q \<noteq> temp \<longrightarrow> q \<noteq> path \<longrightarrow> files d' q = files d q"
      and c: "files d' path = files d path \<and> r \<noteq> None \<or>
        files d' path = Some \<lparr>f_data = s, f_mode = 384\<rparr> \<and> (r = None \<or> (\<exists>e. r = Some (SecureFailed e)))"
      using ro d1 t(2) p(2) r by simp_all
    from o t(1) have "\<forall>q. q \<noteq> path \<longrightarrow> files d q \<noteq> None \<longrightarrow> files d' q = files d q" by metis
    with o c p(1) t(5) show ?thesis by metis
  qed
qed

lemma retry_outcome:
  "retry_rename (Suc n) rename src dst d = (r, d') \<Longrightarrow> same_plan d d' \<and>
   (r = None \<longrightarrow> src \<noteq> dst \<longrightarrow> (\<exists>f. files d src = Some f \<and> files d' = ((files d)(src := None))(dst \<mapsto> f))) \<and>
   (r \<noteq> None \<longrightarrow> files d' = files d)"
proof (induction n arbitrary: d)
  case 0
  then show ?case
    using rename_done [of src dst d d'] rename_failed [of src dst d _ d'] rename_plan [of src dst d r d']
    by (cases r) (auto simp: fun_eq_iff)
next
  case (Suc n)
  obtain r1 d1 where r1: "rename src dst d = (r1, d1)" by (metis surj_pair)
  show ?case
  proof (cases r1)
    case None
    then show ?thesis
      using Suc.prems r1 rename_done [of src dst d d'] rename_plan [of src dst d r d']
      by (auto simp: fun_eq_iff)
  next
    case (Some e)
    then show ?thesis
      using Suc.prems r1 Suc.IH [of d1] rename_failed [of src dst d e d1] rename_plan [OF r1]
      by (auto intro: same_plan_trans)
  qed
qed

end

interpretation os_rename: atomic_rename os_Rename
  by unfold_locales
    (auto simp: os_Rename_def syscall_def Let_def same_plan_def split: if_splits option.splits)

interpretation retried_rename: atomic_rename "retrying os_Rename"
proof (unfold_locales, goal_cases)
  case (1 src dst d d')
  then show ?case using os_rename.retry_outcome [of 4 src dst d None d'] by (simp add: retrying_def)
next
  case (2 src dst d e d')
  then show ?case using os_rename.retry_outcome [of 4 src dst d "Some e" d'] by (simp add: retrying_def)
next
  case (3 src dst d r d')
  then show ?case using os_rename.retry_outcome [of 4 src dst d r d'] by (simp add: retrying_def)
qed

text \<open>
  C38: a secret file is replaced atomically under every pattern of failing system calls. After
  \<open>WriteFile\<close> the file is either exactly what it was or the complete new data with mode 0600,
  never a part of it; success means the new data; and no other existing file changes.
\<close>

theorem WriteFile_atomic:
  assumes "disk_ok d" and "WriteFile path s d = (r, d')"
  shows "(files d' path = files d path \<or> files d' path = Some \<lparr>f_data = s, f_mode = 384\<rparr>) \<and>
    (r = None \<longrightarrow> files d' path = Some \<lparr>f_data = s, f_mode = 384\<rparr>) \<and>
    (\<forall>q. q \<noteq> path \<longrightarrow> files d q \<noteq> None \<longrightarrow> files d' q = files d q)"
  using os_rename.write_outcome [OF assms(2) [unfolded WriteFile_def] assms(1)] by blast

definition sample_disk :: "(nat \<Rightarrow> bool) \<Rightarrow> disk" where
  "sample_disk plan =
     \<lparr>files = [''/c/a.key'' \<mapsto> \<lparr>f_data = ''old'', f_mode = 420\<rparr>], dirs = [''/c'' \<mapsto> 448], tick = 0,
      faults = plan, partial_len = (\<lambda>_. 1), temp_suffix = (\<lambda>n. replicate n CHR ''7'')\<rparr>"

lemma sample_disk_ok: "disk_ok (sample_disk plan)"
  by (simp add: disk_ok_def sample_disk_def)

text \<open>The third call, the write, fails half way: the old key is still there.\<close>

theorem WriteFile_atomic_witness:
  "\<exists>r d'. WriteFile ''/c/a.key'' ''new'' (sample_disk (\<lambda>n. n = 2)) = (r, d') \<and>
     r = Some (WriteFailed IOFault) \<and>
     (files d' ''/c/a.key'' = Some \<lparr>f_data = ''old'', f_mode = 420\<rparr> \<or>
      files d' ''/c/a.key'' = Some \<lparr>f_data = ''new'', f_mode = 384\<rparr>)"
proof -
  obtain r d' where w: "WriteFile ''/c/a.key'' ''new'' (sample_disk (\<lambda>n. n = 2)) = (r, d')"
    by (metis surj_pair)
  have "fst (WriteFile ''/c/a.key'' ''new'' (sample_disk (\<lambda>n. n = 2))) = Some (WriteFailed IOFault)"
    by code_simp
  with w WriteFile_atomic [OF sample_disk_ok w] show ?thesis by (auto simp: sample_disk_def)
qed

end
