(* ===== verification/Credential.thy ===== *)
theory Credential
  imports Secret_File
begin

text \<open>
  \<open>internal/credential/store.go\<close>: names and keys of managed credentials and the file-backed
  store, on the disk model of the secret-file theory. A store is its directory.
\<close>

subsection \<open>Names and keys\<close>

datatype key_error = KeyEmpty | KeyWhitespace | KeyIncomplete | KeyForbidden | KeyUnknown

definition isNameRune :: "char \<Rightarrow> bool" where
  "isNameRune r \<longleftrightarrow>
     (97 \<le> (of_char r :: nat) \<and> (of_char r :: nat) \<le> 122) \<or>
     (65 \<le> (of_char r :: nat) \<and> (of_char r :: nat) \<le> 90) \<or>
     (48 \<le> (of_char r :: nat) \<and> (of_char r :: nat) \<le> 57) \<or>
     r = CHR ''.'' \<or> r = CHR ''-'' \<or> r = CHR ''_''"

definition ValidateName :: "string \<Rightarrow> bool" where
  "ValidateName name \<longleftrightarrow>
     \<not> (name = [] \<or> hd name = CHR ''.'' \<or> 64 < length name) \<and> list_all isNameRune name"

definition containsCredentialWhitespace :: "string \<Rightarrow> bool" where
  "containsCredentialWhitespace key = list_ex (\<lambda>r. r \<in> set [CHR 13, CHR 10, CHR '' '', CHR 9]) key"

definition validateTailscaleKey :: "string \<Rightarrow> key_error option" where
  "validateTailscaleKey key =
     (if HasPrefix key ''tskey-api-'' \<or> HasPrefix key ''tskey-client-'' then Some KeyForbidden
      else if \<not> HasPrefix key ''tskey-auth-'' then Some KeyUnknown
      else
        let parts = split_on CHR ''-'' key in
        if length parts \<noteq> 4 \<or> parts ! 0 \<noteq> ''tskey'' \<or> parts ! 1 \<noteq> ''auth'' then Some KeyUnknown
        else if list_ex (\<lambda>part. part = []) (drop 2 parts) then Some KeyUnknown
        else None)"

definition ValidateKey :: "string \<Rightarrow> key_error option" where
  "ValidateKey key =
     (if key = [] then Some KeyEmpty
      else if containsCredentialWhitespace key then Some KeyWhitespace
      else if HasPrefix key ''hskey-'' then
        (if length key = length ''hskey-'' then Some KeyIncomplete else None)
      else validateTailscaleKey key)"

definition normalizeKey :: "string \<Rightarrow> (key_error, string) result" where
  "normalizeKey key =
     (let k = TrimRight key [CHR 13, CHR 10] in
      case ValidateKey k of Some e \<Rightarrow> Inl e | None \<Rightarrow> Inr k)"

subsection \<open>The store\<close>

datatype cred_error =
    BadName
  | BadKey key_error
  | CreateCredDir fs_error
  | SecureCredDir fs_error
  | CredentialExists string
  | StatCredential string fs_error
  | WriteCredential string write_error
  | ReadCredential string fs_error
  | StoredInvalid string key_error
  | RemoveCredential string fs_error

definition cred_path :: "string \<Rightarrow> string \<Rightarrow> string" where
  "cred_path dir name = Join [dir, name @ ''.key'']"

definition ensureDir :: "string \<Rightarrow> disk \<Rightarrow> cred_error option \<times> disk" where
  "ensureDir dir d =
     (case os_MkdirAll dir 448 d of
        (Some e, d1) \<Rightarrow> (Some (CreateCredDir e), d1)
      | (None, d1) \<Rightarrow>
          (case Harden dir True d1 of (Some e, d2) \<Rightarrow> (Some (SecureCredDir e), d2) | (None, d2) \<Rightarrow> (None, d2)))"

definition cred_write :: "string \<Rightarrow> string \<Rightarrow> string \<Rightarrow> disk \<Rightarrow> cred_error option \<times> disk" where
  "cred_write dir name key d =
     (case WriteFileWith (cred_path dir name) key os_Rename d of
        (Some e, d1) \<Rightarrow> (Some (WriteCredential name e), d1)
      | (None, d1) \<Rightarrow> (None, d1))"

definition cred_Set :: "string \<Rightarrow> string \<Rightarrow> string \<Rightarrow> bool \<Rightarrow> disk \<Rightarrow> cred_error option \<times> disk" where
  "cred_Set dir name rawKey replace d =
     (if \<not> ValidateName name then (Some BadName, d)
      else (case normalizeKey rawKey of
              Inl e \<Rightarrow> (Some (BadKey e), d)
            | Inr key \<Rightarrow>
                (case ensureDir dir d of
                   (Some e, d1) \<Rightarrow> (Some e, d1)
                 | (None, d1) \<Rightarrow>
                     if replace then cred_write dir name key d1
                     else (case os_Stat (cred_path dir name) d1 of
                             (None, d2) \<Rightarrow> (Some (CredentialExists name), d2)
                           | (Some NotExist, d2) \<Rightarrow> cred_write dir name key d2
                           | (Some e, d2) \<Rightarrow> (Some (StatCredential name e), d2)))))"

definition cred_Get :: "string \<Rightarrow> string \<Rightarrow> disk \<Rightarrow> (cred_error, string) result \<times> disk" where
  "cred_Get dir name d =
     (if \<not> ValidateName name then (Inl BadName, d)
      else (case os_ReadFile (cred_path dir name) d of
              (Inl e, d1) \<Rightarrow> (Inl (ReadCredential name e), d1)
            | (Inr raw, d1) \<Rightarrow>
                (case normalizeKey raw of
                   Inl e \<Rightarrow> (Inl (StoredInvalid name e), d1)
                 | Inr key \<Rightarrow> (Inr key, d1))))"

definition cred_Remove :: "string \<Rightarrow> string \<Rightarrow> disk \<Rightarrow> cred_error option \<times> disk" where
  "cred_Remove dir name d =
     (if \<not> ValidateName name then (Some BadName, d)
      else (case os_Remove (cred_path dir name) d of
              (Some e, d1) \<Rightarrow> (Some (RemoveCredential name e), d1)
            | (None, d1) \<Rightarrow> (None, d1)))"

text \<open>
  \<open>List\<close> over what \<open>ReadDir\<close> returned: name, is a directory, and the modification time or the
  error of \<open>Info\<close>. The result is sorted by name.
\<close>

record cred_entry =
  Name :: string
  Updated :: int

fun str_le :: "string \<Rightarrow> string \<Rightarrow> bool" where
  "str_le [] t = True"
| "str_le (c # s) [] = False"
| "str_le (c # s) (d # t) =
     ((of_char c :: nat) < of_char d \<or> (c = d \<and> str_le s t))"

fun list_entries :: "(string \<times> bool \<times> int option) list \<Rightarrow> cred_entry list option" where
  "list_entries [] = Some []"
| "list_entries ((nm, isdir, info) # items) =
     (if isdir \<or> Ext nm \<noteq> ''.key'' then list_entries items
      else (case info of
              None \<Rightarrow> None
            | Some t \<Rightarrow>
                map_option (\<lambda>es. \<lparr>Name = TrimSuffix nm ''.key'', Updated = t\<rparr> # es) (list_entries items)))"

fun insert_entry :: "cred_entry \<Rightarrow> cred_entry list \<Rightarrow> cred_entry list" where
  "insert_entry e [] = [e]"
| "insert_entry e (x # xs) = (if str_le (Name e) (Name x) then e # x # xs else x # insert_entry e xs)"

definition cred_List :: "(string \<times> bool \<times> int option) list \<Rightarrow> cred_entry list option" where
  "cred_List items = map_option (\<lambda>es. foldr insert_entry es []) (list_entries items)"

subsection \<open>Keys\<close>

definition auth_key_shape :: "string \<Rightarrow> bool" where
  "auth_key_shape key \<longleftrightarrow>
     (\<exists>r. r \<noteq> [] \<and> key = ''hskey-'' @ r) \<or>
     (\<exists>a b. a \<noteq> [] \<and> b \<noteq> [] \<and> CHR ''-'' \<notin> set a \<and> CHR ''-'' \<notin> set b \<and>
        key = ''tskey-auth-'' @ a @ ''-'' @ b)"

lemma split_on_4: "split_on c s = [w, x, y, z] \<Longrightarrow> s = w @ [c] @ x @ [c] @ y @ [c] @ z \<and>
  c \<notin> set w \<and> c \<notin> set x \<and> c \<notin> set y \<and> c \<notin> set z"
  using join_split_on [of c s] split_on_no_sep [of _ c s] by force

lemma validateTailscaleKey_None:
  "validateTailscaleKey key = None \<longleftrightarrow>
   (\<exists>a b. a \<noteq> [] \<and> b \<noteq> [] \<and> CHR ''-'' \<notin> set a \<and> CHR ''-'' \<notin> set b \<and>
      key = ''tskey-auth-'' @ a @ ''-'' @ b)" (is "?L \<longleftrightarrow> ?R")
proof
  assume l: ?L
  define parts where "parts = split_on CHR ''-'' key"
  have p: "length parts = 4" "parts ! 0 = ''tskey''" "parts ! 1 = ''auth''"
    "\<forall>x \<in> set (drop 2 parts). x \<noteq> []"
    using l by (auto simp: validateTailscaleKey_def parts_def Let_def list_ex_iff split: if_splits)
  then obtain w x y z where e: "parts = [w, x, y, z]"
    by (auto simp: numeral_eq_Suc length_Suc_conv)
  with p have "w = ''tskey''" "x = ''auth''" "y \<noteq> []" "z \<noteq> []" by auto
  with split_on_4 [of "CHR ''-''" key w x y z] e show ?R
    by (intro exI [of _ y] exI [of _ z]) (simp add: parts_def)
next
  assume ?R
  then obtain a b where ab: "a \<noteq> []" "b \<noteq> []" "CHR ''-'' \<notin> set a" "CHR ''-'' \<notin> set b"
    "key = ''tskey'' @ CHR ''-'' # ''auth'' @ CHR ''-'' # a @ CHR ''-'' # b" by auto
  then have "split_on CHR ''-'' key = [''tskey'', ''auth'', a, b]"
    by (simp only: split_on_append split_on_absent) (simp add: split_on_append split_on_absent)
  with ab show ?L by (auto simp: validateTailscaleKey_def HasPrefix_iff Let_def)
qed

lemma ValidateKey_shape:
  "ValidateKey key = None \<longleftrightarrow> \<not> containsCredentialWhitespace key \<and> auth_key_shape key"
proof (cases "HasPrefix key ''hskey-''")
  case True
  then obtain r where "key = ''hskey-'' @ r" by (auto simp: HasPrefix_iff)
  then show ?thesis by (auto simp: ValidateKey_def auth_key_shape_def HasPrefix_iff)
next
  case False
  then have "\<nexists>r. key = ''hskey-'' @ r" by (auto simp: HasPrefix_iff)
  then show ?thesis
    using False validateTailscaleKey_None [of key]
    by (auto simp: ValidateKey_def auth_key_shape_def)
qed

subsection \<open>Paths\<close>

lemma key_name_plain: "ValidateName name \<Longrightarrow> plain_name (name @ ''.key'')"
proof -
  assume v: "ValidateName name"
  then obtain c cs where n: "name = c # cs" "c \<noteq> CHR ''.''" by (cases name) (auto simp: ValidateName_def)
  have "\<not> isNameRune CHR ''/''" by (simp add: isNameRune_def)
  then have "CHR ''/'' \<notin> set name" using v by (auto simp: ValidateName_def list_all_iff)
  then show ?thesis using n by (auto simp: plain_name_def)
qed

lemma cred_path_shape: "\<exists>pre. \<forall>name. ValidateName name \<longrightarrow> cred_path dir name = pre @ name @ ''.key''"
proof (cases "\<exists>n. ValidateName n")
  case True
  then obtain n where "ValidateName n" by blast
  then show ?thesis
    using Join_plain [OF key_name_plain, of n dir] key_name_plain by (metis cred_path_def)
qed simp

lemma cred_path_inj:
  "ValidateName a \<Longrightarrow> ValidateName b \<Longrightarrow> cred_path dir a = cred_path dir b \<longleftrightarrow> a = b"
  using cred_path_shape [of dir] by auto

lemma cred_path_not_temp: "ValidateName a \<Longrightarrow> cred_path dir a \<noteq> temp_name p sfx"
proof
  assume "ValidateName a" and e: "cred_path dir a = temp_name p sfx"
  then obtain pre where "cred_path dir a = pre @ a @ ''.key''" using cred_path_shape by metis
  with e have "last (pre @ a @ ''.key'') = last (temp_name p sfx)" by metis
  then show False by (simp add: temp_name_def)
qed

subsection \<open>The interface of a key store\<close>

text \<open>
  \<open>view s name\<close> is the key that reading \<open>name\<close> yields when the read itself succeeds. A
  failed write may still have replaced the key (its very last step, restoring permissions,
  failed), which is the one way an error leaves a change behind.
\<close>

locale key_store =
  fixes view :: "'s \<Rightarrow> string \<Rightarrow> string option"
    and invar :: "'s \<Rightarrow> bool"
    and norm :: "string \<Rightarrow> string option"
    and store :: "string \<Rightarrow> string \<Rightarrow> bool \<Rightarrow> 's \<Rightarrow> 'e option \<times> 's"
    and fetch :: "string \<Rightarrow> 's \<Rightarrow> ('e, string) result \<times> 's"
    and discard :: "string \<Rightarrow> 's \<Rightarrow> 'e option \<times> 's"
    and late :: "'e \<Rightarrow> bool"
    and valid :: "string \<Rightarrow> bool"
  assumes store_done: "invar s \<Longrightarrow> store n raw rep s = (None, s') \<Longrightarrow>
        \<exists>k. norm raw = Some k \<and> (\<forall>m. valid m \<longrightarrow> view s' m = (if m = n then Some k else view s m))"
    and store_failed: "invar s \<Longrightarrow> store n raw rep s = (Some e, s') \<Longrightarrow> \<not> late e \<Longrightarrow>
        (\<forall>m. valid m \<longrightarrow> view s' m = view s m)"
    and store_invar: "invar s \<Longrightarrow> store n raw rep s = (r, s') \<Longrightarrow> invar s'"
    and fetch_view: "invar s \<Longrightarrow> fetch n s = (q, s') \<Longrightarrow> invar s' \<and> (\<forall>m. view s' m = view s m)"
    and fetch_done: "fetch n s = (Inr k, s') \<Longrightarrow> view s n = Some k \<and> norm k = Some k"
    and discard_done: "invar s \<Longrightarrow> discard n s = (None, s') \<Longrightarrow>
        (\<forall>m. valid m \<longrightarrow> view s' m = (if m = n then None else view s m))"
    and discard_failed: "invar s \<Longrightarrow> discard n s = (Some e, s') \<Longrightarrow> (\<forall>m. valid m \<longrightarrow> view s' m = view s m)"
    and discard_invar: "invar s \<Longrightarrow> discard n s = (r, s') \<Longrightarrow> invar s'"
begin

text \<open>Putting a key back after it was replaced restores the view.\<close>

lemma store_undone:
  assumes "invar s" and "fetch n s = (Inr old, s1)" and "store n raw rep s1 = (None, s2)"
    and "\<forall>m. valid m \<longrightarrow> view s3 m = view s2 m" and "invar s3" and "store n old True s3 = (None, s4)"
  shows "\<forall>m. valid m \<longrightarrow> view s4 m = view s m"
proof -
  have v1: "invar s1" "\<forall>m. view s1 m = view s m" using fetch_view [OF assms(1,2)] by auto
  have o: "view s n = Some old" "norm old = Some old" using fetch_done [OF assms(2)] by auto
  show ?thesis
    using store_done [OF v1(1) assms(3)] store_done [OF assms(5,6)] v1(2) o assms(4) by auto
qed

text \<open>Removing a key that was not there before restores the view.\<close>

lemma insert_undone:
  assumes "invar s" and "view s n = None" and "store n raw rep s = (None, s2)"
    and "\<forall>m. valid m \<longrightarrow> view s3 m = view s2 m" and "invar s3" and "discard n s3 = (None, s4)"
  shows "\<forall>m. valid m \<longrightarrow> view s4 m = view s m"
  using store_done [OF assms(1,3)] discard_done [OF assms(5,6)] assms(2,4) by auto

end

definition cred_view :: "string \<Rightarrow> disk \<Rightarrow> string \<Rightarrow> string option" where
  "cred_view dir d name =
     (case files d (cred_path dir name) of
        None \<Rightarrow> None
      | Some f \<Rightarrow> (case normalizeKey (f_data f) of Inl _ \<Rightarrow> None | Inr k \<Rightarrow> Some k))"

definition norm_key :: "string \<Rightarrow> string option" where
  "norm_key raw = (case normalizeKey raw of Inl _ \<Rightarrow> None | Inr k \<Rightarrow> Some k)"

definition late_error :: "cred_error \<Rightarrow> bool" where
  "late_error e = (case e of WriteCredential _ (SecureFailed _) \<Rightarrow> True | _ \<Rightarrow> False)"

lemma cred_view_files: "files d' = files d \<Longrightarrow> cred_view dir d' = cred_view dir d"
  by (simp add: cred_view_def fun_eq_iff)

lemma TrimRight_idem: "TrimRight (TrimRight s cs) cs = TrimRight s cs"
  by (simp add: TrimRight_def dropWhile_idem)

lemma normalizeKey_idem: "normalizeKey raw = Inr k \<Longrightarrow> normalizeKey k = Inr k"
  by (auto simp: normalizeKey_def Let_def TrimRight_idem split: option.splits)

lemma ancestors_self: "p \<in> set (ancestors n p)"
  by (cases n) auto

lemma ensureDir_files:
  assumes "ensureDir dir d = (r, d')"
  shows "files d' = files d \<and> temp_suffix d' = temp_suffix d"
proof -
  obtain r1 d1 where m: "os_MkdirAll dir 448 d = (r1, d1)" by (metis surj_pair)
  have m1: "files d1 = files d" "temp_suffix d1 = temp_suffix d" "r1 = None \<Longrightarrow> files d dir = None"
    using m ancestors_self [of dir "length dir"]
    by (auto simp: os_MkdirAll_def syscall_def Let_def split: if_splits)
  show ?thesis
  proof (cases r1)
    case None
    then show ?thesis
      using assms m m1
      by (auto simp: ensureDir_def Harden_def os_Chmod_def syscall_def set_mode_def Let_def split: if_splits)
  next
    case (Some e)
    then show ?thesis using assms m m1 by (simp add: ensureDir_def)
  qed
qed

lemma disk_ok_suffix: "temp_suffix d' = temp_suffix d \<Longrightarrow> disk_ok d' = disk_ok d"
  by (simp add: disk_ok_def)

lemma os_Stat_files: "os_Stat p d = (r, d') \<Longrightarrow> files d' = files d \<and> temp_suffix d' = temp_suffix d"
  by (auto simp: os_Stat_def syscall_def Let_def split: if_splits)

text \<open>What one write of a valid name does to the views.\<close>

lemma cred_write_view:
  assumes "cred_write dir n k d = (r, d')" and "disk_ok d" and "ValidateName n"
    and "normalizeKey k = Inr k"
  shows "disk_ok d' \<and>
    (r = None \<longrightarrow> (\<forall>m. ValidateName m \<longrightarrow> cred_view dir d' m = (if m = n then Some k else cred_view dir d m))) \<and>
    (\<forall>e. r = Some e \<longrightarrow> \<not> late_error e \<longrightarrow> (\<forall>m. ValidateName m \<longrightarrow> cred_view dir d' m = cred_view dir d m))"
proof -
  obtain r1 where w: "WriteFileWith (cred_path dir n) k os_Rename d = (r1, d')"
    and r: "r = map_option (WriteCredential n) r1"
    using assms(1) by (auto simp: cred_write_def split: prod.splits option.splits)
  note o = os_rename.write_outcome [OF w assms(2)]
  have other: "files d' (cred_path dir m) = files d (cred_path dir m)" if "ValidateName m" "m \<noteq> n" for m
    using o that cred_path_inj [OF that(1) assms(3)] cred_path_not_temp [OF that(1)] by metis
  have ok: "disk_ok d'" using o assms(2) disk_ok_same_plan by blast
  have "cred_view dir d' m = (if m = n then Some k else cred_view dir d m)" if "r1 = None" "ValidateName m" for m
    using o that other [of m] assms(4) by (simp add: cred_view_def)
  moreover have "cred_view dir d' m = cred_view dir d m"
    if "r1 = Some e" "\<not> late_error (WriteCredential n e)" "ValidateName m" for m e
  proof (cases "m = n")
    case True
    have "files d' (cred_path dir n) = files d (cred_path dir n)"
      using o that(1,2) by (auto simp: late_error_def)
    then show ?thesis using True by (simp add: cred_view_def)
  next
    case False
    then show ?thesis using other [OF that(3)] by (simp add: cred_view_def)
  qed
  ultimately show ?thesis using r ok by (cases r1) auto
qed

lemma cred_Set_branches:
  assumes "ValidateName n" and "normalizeKey raw = Inr k" and "ensureDir dir d = (r1, d1)"
    and "os_Stat (cred_path dir n) d1 = (r2, d2)"
  shows "cred_Set dir n raw rep d = cred_write dir n k d1 \<or> cred_Set dir n raw rep d = cred_write dir n k d2 \<or>
    (\<exists>e. cred_Set dir n raw rep d = (Some e, d1)) \<or> (\<exists>e. cred_Set dir n raw rep d = (Some e, d2))"
proof (cases r1)
  case None
  show ?thesis
  proof (cases rep)
    case False
    show ?thesis
    proof (cases r2)
      case (Some e)
      then show ?thesis using assms None False by (cases e) (simp_all add: cred_Set_def)
    qed (use assms None False in \<open>simp add: cred_Set_def\<close>)
  qed (use assms None in \<open>simp add: cred_Set_def\<close>)
qed (use assms in \<open>simp add: cred_Set_def\<close>)

lemma cred_Set_view:
  assumes "cred_Set dir n raw rep d = (r, d')" and "disk_ok d"
  shows "disk_ok d' \<and>
    (r = None \<longrightarrow> (\<exists>k. norm_key raw = Some k \<and>
       (\<forall>m. ValidateName m \<longrightarrow> cred_view dir d' m = (if m = n then Some k else cred_view dir d m)))) \<and>
    (\<forall>e. r = Some e \<longrightarrow> \<not> late_error e \<longrightarrow> (\<forall>m. ValidateName m \<longrightarrow> cred_view dir d' m = cred_view dir d m))"
proof (cases "ValidateName n \<and> (\<exists>k. normalizeKey raw = Inr k)")
  case False
  then show ?thesis using assms by (auto simp: cred_Set_def split: if_splits sum.splits)
next
  case True
  then obtain k where v: "ValidateName n" and k: "normalizeKey raw = Inr k" by blast
  obtain r1 d1 where e: "ensureDir dir d = (r1, d1)" by (metis surj_pair)
  have d1: "files d1 = files d" "disk_ok d1" "cred_view dir d1 = cred_view dir d"
    using ensureDir_files [OF e] assms(2) cred_view_files [of d1 d] disk_ok_suffix [of d1 d] by auto
  have wr: ?thesis if "cred_write dir n k x = (r, d')" "disk_ok x" "cred_view dir x = cred_view dir d" for x
    using cred_write_view [OF that(1,2) v normalizeKey_idem [OF k]] that(3) k by (auto simp: norm_key_def)
  obtain r2 d2 where s: "os_Stat (cred_path dir n) d1 = (r2, d2)" by (metis surj_pair)
  have d2: "disk_ok d2" "cred_view dir d2 = cred_view dir d"
    using os_Stat_files [OF s] d1 cred_view_files [of d2 d1] disk_ok_suffix [of d2 d1] by auto
  consider "cred_write dir n k d1 = (r, d')" | "cred_write dir n k d2 = (r, d')"
    | "r \<noteq> None" "d' = d1" | "r \<noteq> None" "d' = d2"
    using cred_Set_branches [OF v k e s, of rep, unfolded assms(1)] by (metis option.distinct(1) prod.inject)
  then show ?thesis
  proof cases
    case 1
    then show ?thesis using d1 by (intro wr [of d1])
  next
    case 2
    then show ?thesis using d2 by (intro wr [of d2])
  qed (use d1 d2 in auto)
qed

lemma cred_Set_writes:
  assumes "disk_ok d" and "cred_Set dir n raw rep d = (None, d')" and "norm_key raw = Some k"
  shows "\<exists>x. WriteFileWith (cred_path dir n) k os_Rename x = (None, d') \<and> disk_ok x"
proof -
  have v: "ValidateName n" and k: "normalizeKey raw = Inr k"
    using assms(2,3) by (auto simp: cred_Set_def norm_key_def split: if_splits sum.splits)
  obtain r1 d1 where e: "ensureDir dir d = (r1, d1)" by (metis surj_pair)
  have d1: "disk_ok d1" using ensureDir_files [OF e] assms(1) disk_ok_suffix [of d1 d] by auto
  obtain r2 d2 where s: "os_Stat (cred_path dir n) d1 = (r2, d2)" by (metis surj_pair)
  have d2: "disk_ok d2" using os_Stat_files [OF s] d1 disk_ok_suffix [of d2 d1] by auto
  have "cred_write dir n k d1 = (None, d') \<or> cred_write dir n k d2 = (None, d')"
    using cred_Set_branches [OF v k e s, of rep, unfolded assms(2)] by (metis option.distinct(1) prod.inject)
  then show ?thesis using d1 d2 by (auto simp: cred_write_def split: prod.splits option.splits)
qed

interpretation creds: key_store "cred_view dir" disk_ok norm_key "cred_Set dir" "cred_Get dir"
  "cred_Remove dir" late_error ValidateName for dir
proof (unfold_locales, goal_cases)
  case (1 s n raw rep s')
  then show ?case using cred_Set_view by blast
next
  case (2 s n raw rep e s')
  then show ?case using cred_Set_view by blast
next
  case (3 s n raw rep r s')
  then show ?case using cred_Set_view by blast
next
  case (4 s n q s')
  have "files s' = files s \<and> temp_suffix s' = temp_suffix s"
    using 4(2) by (auto simp: cred_Get_def os_ReadFile_def Let_def split: if_splits option.splits sum.splits)
  then show ?case using 4(1) cred_view_files disk_ok_suffix by metis
next
  case (5 n s k s')
  then show ?case
    by (auto simp: cred_Get_def cred_view_def norm_key_def os_ReadFile_def Let_def normalizeKey_idem
        split: if_splits option.splits sum.splits)
next
  case (6 s n s')
  then have v: "ValidateName n" and r: "os_Remove (cred_path dir n) s = (None, s')"
    by (auto simp: cred_Remove_def split: if_splits prod.splits option.splits)
  have "files s' (cred_path dir m) = (if m = n then None else files s (cred_path dir m))" if "ValidateName m" for m
    using os_Remove_effect [OF r] cred_path_inj [OF that v] by auto
  then show ?case by (simp add: cred_view_def)
next
  case (7 s n e s')
  then have "files s' = files s"
    by (auto simp: cred_Remove_def dest!: os_Remove_effect split: if_splits prod.splits option.splits)
  then show ?case using cred_view_files by metis
next
  case (8 s n r s')
  then show ?case
    by (auto simp: cred_Remove_def disk_ok_same_plan dest!: os_Remove_effect
        split: if_splits prod.splits option.splits)
qed

text \<open>
  which keys are accepted. A key is stored or sent exactly when it holds no blank, tab or
  line break and is either \<open>hskey-\<close> with something after it or \<open>tskey-auth-\<close> followed by two
  non-empty parts; every API token, OAuth secret or malformed key is refused.
\<close>

lemma ValidateKey_characterised:
  "ValidateKey key = None \<longleftrightarrow>
   (\<forall>c \<in> set key. c \<notin> {CHR '' '', CHR 9, CHR 10, CHR 13}) \<and>
   ((\<exists>r. r \<noteq> [] \<and> key = ''hskey-'' @ r) \<or>
    (\<exists>a b. a \<noteq> [] \<and> b \<noteq> [] \<and> CHR ''-'' \<notin> set a \<and> CHR ''-'' \<notin> set b \<and>
       key = ''tskey-auth-'' @ a @ ''-'' @ b))"
  unfolding ValidateKey_shape auth_key_shape_def
  by (auto simp: containsCredentialWhitespace_def list_ex_iff)

text \<open>
  storing a key makes exactly that key, without its trailing line breaks, readable under
  its name, in a file with mode 0600, and leaves the key of every other name as it was.
\<close>

lemma cred_Set_Get:
  assumes "disk_ok d" and "cred_Set dir name raw replace d = (None, d')"
    and "\<not> faults d' (tick d')"
  shows "fst (cred_Get dir name d') = Inr (TrimRight raw [CHR 13, CHR 10]) \<and>
    map_option f_mode (files d' (cred_path dir name)) = Some 384 \<and>
    (\<forall>m. ValidateName m \<longrightarrow> m \<noteq> name \<longrightarrow> cred_view dir d' m = cred_view dir d m)"
proof -
  obtain k where k: "norm_key raw = Some k" "\<forall>m. ValidateName m \<longrightarrow> cred_view dir d' m = (if m = name then Some k else cred_view dir d m)"
    using creds.store_done [OF assms(1,2)] by blast
  have t: "k = TrimRight raw [CHR 13, CHR 10]"
    using k(1) by (auto simp: norm_key_def normalizeKey_def Let_def split: sum.splits option.splits)
  have v: "ValidateName name" using assms(2) by (auto simp: cred_Set_def split: if_splits)
  obtain x where x: "WriteFileWith (cred_path dir name) k os_Rename x = (None, d')" "disk_ok x"
    using cred_Set_writes [OF assms(1,2) k(1)] by blast
  have f: "files d' (cred_path dir name) = Some \<lparr>f_data = k, f_mode = 384\<rparr>"
    using os_rename.write_outcome [OF x] by simp
  have "normalizeKey k = Inr k"
    using k(1) normalizeKey_idem by (auto simp: norm_key_def split: sum.splits)
  then have "fst (cred_Get dir name d') = Inr k"
    using v f assms(3) by (simp add: cred_Get_def os_ReadFile_def Let_def)
  then show ?thesis using f t k(2) by simp
qed

definition sample_keys :: disk where
  "sample_keys = (sample_disk (\<lambda>_. False))\<lparr>files := Map.empty\<rparr>"

lemma sample_keys_stored:
  "cred_Set ''/c'' ''home'' (''hskey-abc'' @ [CHR 10]) False sample_keys = (r, d') \<Longrightarrow>
   r = None \<and> \<not> faults d' (tick d')"
proof -
  have "(case cred_Set ''/c'' ''home'' (''hskey-abc'' @ [CHR 10]) False sample_keys of
      (r, d') \<Rightarrow> r = None \<and> \<not> faults d' (tick d'))"
    by code_simp
  then show "cred_Set ''/c'' ''home'' (''hskey-abc'' @ [CHR 10]) False sample_keys = (r, d') \<Longrightarrow>
   r = None \<and> \<not> faults d' (tick d')" by auto
qed

end
