(* ===== verification/Bridge_Config.thy ===== *)
theory Bridge_Config
  imports Instance Go_Time Control_Url Credential "HOL-Library.AList"
begin

text \<open>
  \<open>internal/config/merge.go\<close>, \<open>config.go\<close> and \<open>health.go\<close>: the precedence chain flags, then
  environment, then YAML, then defaults, with every validation of the merged configuration.
  Durations are nanoseconds. A Go pointer that tells unset from zero is an option. The route
  map is an association list with one entry per source.
\<close>

subsection \<open>Records\<close>

record Config =
  c_LocalAddr :: string
  c_SOCKS5Addr :: string
  c_SOCKS5Routes :: "(string \<times> string) list"
  c_Target :: string
  c_AuthKey :: string
  c_Hostname :: string
  c_StateDir :: string
  c_ControlURL :: string
  c_BootstrapSSH :: string
  c_BootstrapSOCKSAddr :: string
  c_ConnectTimeout :: int
  c_DialTimeout :: int
  c_DrainTimeout :: int
  c_IdleTimeout :: int
  c_DialRetries :: int
  c_DialBackoffBase :: int
  c_DialBackoffMax :: int
  c_MaxConnections :: int
  c_HealthAddr :: string
  c_HealthAllowRemote :: bool
  c_Verbose :: bool
  c_Quiet :: bool
  c_LogFormat :: string
  c_AutoInstance :: bool
  c_EphemeralState :: bool

record PartialConfig =
  y_Version :: int
  y_Target :: string
  y_LocalAddr :: string
  y_SOCKS5Addr :: string
  y_SOCKS5Routes :: "(string \<times> string) list"
  y_Hostname :: string
  y_ControlURL :: string
  y_BootstrapSSH :: string
  y_BootstrapSOCKSAddr :: string
  y_StateDir :: string
  y_HealthAddr :: string
  y_LogFormat :: string
  y_AuthKey :: string
  y_Timeout :: int
  y_DialTimeout :: int
  y_DrainTimeout :: int
  y_IdleTimeout :: int
  y_DialRetries :: int
  y_DialBackoffBase :: int
  y_DialBackoffMax :: int
  y_MaxConnections :: int
  y_AutoInstance :: "bool option"

record FlagSet =
  g_Target :: string
  g_SOCKS5Addr :: string
  g_SOCKS5Routes :: "string list"
  g_AuthKey :: string
  g_AuthKeyFile :: string
  g_ProfileAuthKey :: string
  g_Instance :: string
  g_LocalAddr :: string
  g_Hostname :: string
  g_StateDir :: string
  g_ControlURL :: string
  g_BootstrapSSH :: string
  g_BootstrapSOCKSAddr :: string
  g_Timeout :: int
  g_DialTimeout :: int
  g_DrainTimeout :: int
  g_IdleTimeout :: "int option"
  g_MaxConns :: int
  g_DialRetries :: "int option"
  g_DialBackoffBase :: int
  g_DialBackoffMax :: int
  g_HealthAddr :: string
  g_LogFormat :: string
  g_ManualMode :: bool
  g_PortRange :: string
  g_Config :: string
  g_Reset :: bool
  g_HealthAllowRemote :: "bool option"
  g_Verbose :: "bool option"

definition zero_config :: Config where
  "zero_config = \<lparr>c_LocalAddr = [], c_SOCKS5Addr = [], c_SOCKS5Routes = [], c_Target = [], c_AuthKey = [],
     c_Hostname = [], c_StateDir = [], c_ControlURL = [], c_BootstrapSSH = [], c_BootstrapSOCKSAddr = [],
     c_ConnectTimeout = 0, c_DialTimeout = 0, c_DrainTimeout = 0, c_IdleTimeout = 0, c_DialRetries = 0,
     c_DialBackoffBase = 0, c_DialBackoffMax = 0, c_MaxConnections = 0, c_HealthAddr = [],
     c_HealthAllowRemote = False, c_Verbose = False, c_Quiet = False, c_LogFormat = [],
     c_AutoInstance = False, c_EphemeralState = False\<rparr>"

definition zero_partial :: PartialConfig where
  "zero_partial = \<lparr>y_Version = 0, y_Target = [], y_LocalAddr = [], y_SOCKS5Addr = [], y_SOCKS5Routes = [],
     y_Hostname = [], y_ControlURL = [], y_BootstrapSSH = [], y_BootstrapSOCKSAddr = [], y_StateDir = [],
     y_HealthAddr = [], y_LogFormat = [], y_AuthKey = [], y_Timeout = 0, y_DialTimeout = 0,
     y_DrainTimeout = 0, y_IdleTimeout = 0, y_DialRetries = 0, y_DialBackoffBase = 0,
     y_DialBackoffMax = 0, y_MaxConnections = 0, y_AutoInstance = None\<rparr>"

definition zero_flags :: FlagSet where
  "zero_flags = \<lparr>g_Target = [], g_SOCKS5Addr = [], g_SOCKS5Routes = [], g_AuthKey = [], g_AuthKeyFile = [],
     g_ProfileAuthKey = [], g_Instance = [], g_LocalAddr = [], g_Hostname = [], g_StateDir = [],
     g_ControlURL = [], g_BootstrapSSH = [], g_BootstrapSOCKSAddr = [], g_Timeout = 0,
     g_DialTimeout = 0, g_DrainTimeout = 0, g_IdleTimeout = None, g_MaxConns = 0, g_DialRetries = None,
     g_DialBackoffBase = 0, g_DialBackoffMax = 0, g_HealthAddr = [], g_LogFormat = [],
     g_ManualMode = False, g_PortRange = [], g_Config = [], g_Reset = False,
     g_HealthAllowRemote = None, g_Verbose = None\<rparr>"

subsection \<open>Errors\<close>

datatype config_error =
    YAMLAuthKey
  | ModeConflict string
  | TargetFormat addr_error
  | TargetEmptyHost
  | TargetPort string
  | ListenerFormat string addr_error
  | ListenerNotLoopback string string
  | ListenerPort string string
  | RouteSource string
  | RouteDestination string
  | RoutesNeedSOCKS5
  | TargetRequired
  | AuthKeyRequired
  | AuthKeyFormat key_error
  | HeadscaleNeedsURL
  | ControlURLInvalid control_url_error
  | BootstrapNeedsSSH
  | BootstrapNeedsControlURL
  | NegativeDialRetries int
  | NegativeIdleTimeout int
  | DeriveLocalAddr port_error
  | BootstrapBridgeConflict string
  | BootstrapHealthConflict string
  | HealthAddrFormat addr_error
  | HealthNotLoopback string

subsection \<open>Defaults and layers\<close>

definition defaultLocalAddr :: string where "defaultLocalAddr = ''127.0.0.1:33389''"
definition defaultAutoPortRange :: string where "defaultAutoPortRange = ''33389-34388''"
definition defaultBootstrapSOCKS :: string where "defaultBootstrapSOCKS = ''127.0.0.1:1055''"

definition defaults :: Config where
  "defaults = zero_config\<lparr>c_ConnectTimeout := 30000000000, c_DialTimeout := 5000000000,
     c_DrainTimeout := 15000000000, c_DialRetries := 3, c_DialBackoffBase := 1000000000,
     c_DialBackoffMax := 30000000000, c_MaxConnections := 1000, c_LogFormat := ''text'',
     c_AutoInstance := True\<rparr>"

text \<open>\<open>applyFlagString\<close> and \<open>applyEnvString\<close>: a non-empty value wins.\<close>

definition overlay :: "string \<Rightarrow> string \<Rightarrow> string" where
  "overlay dst v = (if v \<noteq> [] then v else dst)"

definition if_pos :: "int \<Rightarrow> int \<Rightarrow> int" where
  "if_pos dst v = (if 0 < v then v else dst)"

definition put_routes :: "(string \<times> string) list \<Rightarrow> (string \<times> string) list \<Rightarrow> (string \<times> string) list" where
  "put_routes new old = fold (\<lambda>(k, v). AList.update k v) new old"

definition applyStringFields :: "PartialConfig \<Rightarrow> Config \<Rightarrow> Config" where
  "applyStringFields y cfg =
     cfg\<lparr>c_Target := overlay (c_Target cfg) (y_Target y),
         c_SOCKS5Addr := overlay (c_SOCKS5Addr cfg) (y_SOCKS5Addr y),
         c_Hostname := overlay (c_Hostname cfg) (y_Hostname y),
         c_ControlURL := overlay (c_ControlURL cfg) (y_ControlURL y),
         c_StateDir := overlay (c_StateDir cfg) (y_StateDir y),
         c_HealthAddr := overlay (c_HealthAddr cfg) (y_HealthAddr y),
         c_LogFormat := overlay (c_LogFormat cfg) (y_LogFormat y)\<rparr>"

definition applyDurationFields :: "PartialConfig \<Rightarrow> Config \<Rightarrow> Config" where
  "applyDurationFields y cfg =
     cfg\<lparr>c_ConnectTimeout := if_pos (c_ConnectTimeout cfg) (y_Timeout y),
         c_DialTimeout := if_pos (c_DialTimeout cfg) (y_DialTimeout y),
         c_DrainTimeout := if_pos (c_DrainTimeout cfg) (y_DrainTimeout y),
         c_IdleTimeout := (if 0 \<le> y_IdleTimeout y then y_IdleTimeout y else c_IdleTimeout cfg),
         c_DialBackoffBase := if_pos (c_DialBackoffBase cfg) (y_DialBackoffBase y),
         c_DialBackoffMax := if_pos (c_DialBackoffMax cfg) (y_DialBackoffMax y)\<rparr>"

definition applyYAML :: "PartialConfig \<Rightarrow> Config \<Rightarrow> Config" where
  "applyYAML y cfg0 =
     (let cfg1 = applyStringFields y cfg0;
          cfg2 = cfg1\<lparr>c_LocalAddr := overlay (c_LocalAddr cfg1) (y_LocalAddr y),
                      c_BootstrapSSH := overlay (c_BootstrapSSH cfg1) (y_BootstrapSSH y),
                      c_BootstrapSOCKSAddr := overlay (c_BootstrapSOCKSAddr cfg1) (y_BootstrapSOCKSAddr y),
                      c_SOCKS5Routes := put_routes (y_SOCKS5Routes y) (c_SOCKS5Routes cfg1)\<rparr>;
          cfg3 = applyDurationFields y cfg2
      in cfg3\<lparr>c_DialRetries := if_pos (c_DialRetries cfg3) (y_DialRetries y),
              c_MaxConnections := if_pos (c_MaxConnections cfg3) (y_MaxConnections y),
              c_AutoInstance := (case y_AutoInstance y of None \<Rightarrow> c_AutoInstance cfg3 | Some b \<Rightarrow> b)\<rparr>)"

definition applyEnvProxyMode :: "os_env \<Rightarrow> Config \<Rightarrow> Config" where
  "applyEnvProxyMode E cfg =
     (if Getenv E ''TS_TARGET'' \<noteq> [] then cfg\<lparr>c_Target := Getenv E ''TS_TARGET'', c_SOCKS5Addr := []\<rparr>
      else if Getenv E ''TS_SOCKS5_ADDR'' \<noteq> [] then cfg\<lparr>c_SOCKS5Addr := Getenv E ''TS_SOCKS5_ADDR'', c_Target := []\<rparr>
      else cfg)"

text \<open>\<open>applyEnvParsed\<close>: an empty, unparsable or invalid value leaves the field alone.\<close>

definition applyEnvParsed :: "os_env \<Rightarrow> string \<Rightarrow> (string \<Rightarrow> 'a option) \<Rightarrow> ('a \<Rightarrow> bool) \<Rightarrow> 'a \<Rightarrow> 'a" where
  "applyEnvParsed E key parse validate dst =
     (if Getenv E key = [] then dst
      else (case parse (Getenv E key) of None \<Rightarrow> dst | Some n \<Rightarrow> if validate n then n else dst))"

definition env_bool :: "os_env \<Rightarrow> string \<Rightarrow> bool \<Rightarrow> bool" where
  "env_bool E key dst = (if Getenv E key \<noteq> [] then parseBoolEnv (Getenv E key) else dst)"

definition env_auto_instance :: "os_env \<Rightarrow> bool \<Rightarrow> bool" where
  "env_auto_instance E dst =
     (if Getenv E ''TS_MANUAL_MODE'' \<noteq> [] then \<not> parseBoolEnv (Getenv E ''TS_MANUAL_MODE'')
      else if Getenv E ''TS_AUTO_INSTANCE'' \<noteq> [] then parseBoolEnv (Getenv E ''TS_AUTO_INSTANCE'')
      else dst)"

definition applyEnv :: "os_env \<Rightarrow> Config \<Rightarrow> Config" where
  "applyEnv E cfg0 =
     (let cfg = applyEnvProxyMode E cfg0; e = (\<lambda>dst key. overlay dst (Getenv E key)) in
      cfg\<lparr>c_AuthKey := e (c_AuthKey cfg) ''TS_AUTHKEY'',
          c_LocalAddr := e (c_LocalAddr cfg) ''TS_LOCAL_ADDR'',
          c_Hostname := e (c_Hostname cfg) ''TS_HOSTNAME'',
          c_StateDir := e (c_StateDir cfg) ''TS_STATE_DIR'',
          c_ControlURL := e (c_ControlURL cfg) ''TS_CONTROL_URL'',
          c_BootstrapSSH := e (c_BootstrapSSH cfg) ''TS_BOOTSTRAP_SSH'',
          c_BootstrapSOCKSAddr := e (c_BootstrapSOCKSAddr cfg) ''TS_BOOTSTRAP_SOCKS_ADDR'',
          c_HealthAddr := e (c_HealthAddr cfg) ''TS_HEALTH_ADDR'',
          c_HealthAllowRemote := env_bool E ''TS_HEALTH_ALLOW_REMOTE'' (c_HealthAllowRemote cfg),
          c_LogFormat := e (c_LogFormat cfg) ''TS_LOG_FORMAT'',
          c_AutoInstance := env_auto_instance E (c_AutoInstance cfg),
          c_Verbose := env_bool E ''TS_VERBOSE'' (c_Verbose cfg),
          c_ConnectTimeout := applyEnvParsed E ''TS_TIMEOUT'' ParseDuration (\<lambda>_. True) (c_ConnectTimeout cfg),
          c_DrainTimeout := applyEnvParsed E ''TS_DRAIN_TIMEOUT'' ParseDuration (\<lambda>_. True) (c_DrainTimeout cfg),
          c_IdleTimeout := applyEnvParsed E ''TS_IDLE_TIMEOUT'' ParseDuration (\<lambda>d. 0 \<le> d) (c_IdleTimeout cfg),
          c_DialTimeout := applyEnvParsed E ''TS_DIAL_TIMEOUT'' ParseDuration (\<lambda>d. 0 < d) (c_DialTimeout cfg),
          c_DialBackoffBase := applyEnvParsed E ''TS_DIAL_BACKOFF_BASE'' ParseDuration (\<lambda>d. 0 \<le> d) (c_DialBackoffBase cfg),
          c_DialBackoffMax := applyEnvParsed E ''TS_DIAL_BACKOFF_MAX'' ParseDuration (\<lambda>d. 0 \<le> d) (c_DialBackoffMax cfg),
          c_DialRetries := applyEnvParsed E ''TS_DIAL_RETRIES'' Atoi (\<lambda>n. 0 \<le> n) (c_DialRetries cfg),
          c_MaxConnections := applyEnvParsed E ''TS_MAX_CONNECTIONS'' Atoi (\<lambda>n. 0 < n) (c_MaxConnections cfg)\<rparr>)"

definition applyFlagProxyMode :: "FlagSet \<Rightarrow> Config \<Rightarrow> Config" where
  "applyFlagProxyMode g cfg =
     (if g_Target g \<noteq> [] then cfg\<lparr>c_Target := g_Target g, c_SOCKS5Addr := []\<rparr>
      else if g_SOCKS5Addr g \<noteq> [] then cfg\<lparr>c_SOCKS5Addr := g_SOCKS5Addr g, c_Target := []\<rparr>
      else cfg)"

text \<open>A route flag without an equals sign becomes a route to the empty address, which validation refuses.\<close>

definition flag_route :: "string \<Rightarrow> string \<times> string" where
  "flag_route r = (case cut CHR ''='' r of (source, destination, ok) \<Rightarrow> if ok then (source, destination) else (r, []))"

definition opt_or :: "'a \<Rightarrow> 'a option \<Rightarrow> 'a" where
  "opt_or dst v = (case v of None \<Rightarrow> dst | Some x \<Rightarrow> x)"

definition applyFlags :: "FlagSet \<Rightarrow> Config \<Rightarrow> Config" where
  "applyFlags g cfg0 =
     (let cfg = applyFlagProxyMode g cfg0 in
      cfg\<lparr>c_AuthKey := overlay (c_AuthKey cfg) (g_AuthKey g),
          c_LocalAddr := overlay (c_LocalAddr cfg) (g_LocalAddr g),
          c_Hostname := overlay (c_Hostname cfg) (g_Hostname g),
          c_StateDir := overlay (c_StateDir cfg) (g_StateDir g),
          c_ControlURL := overlay (c_ControlURL cfg) (g_ControlURL g),
          c_BootstrapSSH := overlay (c_BootstrapSSH cfg) (g_BootstrapSSH g),
          c_BootstrapSOCKSAddr := overlay (c_BootstrapSOCKSAddr cfg) (g_BootstrapSOCKSAddr g),
          c_HealthAddr := overlay (c_HealthAddr cfg) (g_HealthAddr g),
          c_LogFormat := overlay (c_LogFormat cfg) (g_LogFormat g),
          c_SOCKS5Routes := put_routes (map flag_route (g_SOCKS5Routes g)) (c_SOCKS5Routes cfg),
          c_ConnectTimeout := if_pos (c_ConnectTimeout cfg) (g_Timeout g),
          c_DialTimeout := if_pos (c_DialTimeout cfg) (g_DialTimeout g),
          c_DrainTimeout := if_pos (c_DrainTimeout cfg) (g_DrainTimeout g),
          c_IdleTimeout := opt_or (c_IdleTimeout cfg) (g_IdleTimeout g),
          c_DialBackoffBase := if_pos (c_DialBackoffBase cfg) (g_DialBackoffBase g),
          c_DialBackoffMax := if_pos (c_DialBackoffMax cfg) (g_DialBackoffMax g),
          c_MaxConnections := if_pos (c_MaxConnections cfg) (g_MaxConns g),
          c_DialRetries := opt_or (c_DialRetries cfg) (g_DialRetries g),
          c_HealthAllowRemote := opt_or (c_HealthAllowRemote cfg) (g_HealthAllowRemote g),
          c_Verbose := opt_or (c_Verbose cfg) (g_Verbose g)\<rparr>)"

subsection \<open>Validation\<close>

definition ValidateControlPlane :: "string \<Rightarrow> string \<Rightarrow> config_error option" where
  "ValidateControlPlane authKey controlURL =
     (let trimmed = TrimSpace controlURL in
      if HasPrefix authKey ''hskey-'' \<and> trimmed = [] then Some HeadscaleNeedsURL
      else if trimmed \<noteq> [] then map_option ControlURLInvalid (Validate trimmed)
      else None)"

definition validateYAMLAuthKey :: "PartialConfig \<Rightarrow> config_error option" where
  "validateYAMLAuthKey y = (if y_AuthKey y \<noteq> [] then Some YAMLAuthKey else None)"

definition validateModeLayer :: "string \<Rightarrow> string \<Rightarrow> bool" where
  "validateModeLayer target socks5Addr \<longleftrightarrow> \<not> (target \<noteq> [] \<and> socks5Addr \<noteq> [])"

definition validateModeInputs :: "os_env \<Rightarrow> PartialConfig \<Rightarrow> FlagSet \<Rightarrow> config_error option" where
  "validateModeInputs E y g =
     first_err (\<lambda>(name, target, socks). if validateModeLayer target socks then None else Some (ModeConflict name))
       [(''YAML config'', y_Target y, y_SOCKS5Addr y),
        (''environment'', Getenv E ''TS_TARGET'', Getenv E ''TS_SOCKS5_ADDR''),
        (''flags'', g_Target g, g_SOCKS5Addr g)]"

definition validateTarget :: "string \<Rightarrow> config_error option" where
  "validateTarget target =
     (if target = [] then None
      else (case SplitHostPort target of
              Inl e \<Rightarrow> Some (TargetFormat e)
            | Inr (host, portStr) \<Rightarrow>
                if host = [] then Some TargetEmptyHost
                else (case Atoi portStr of
                        None \<Rightarrow> Some (TargetPort portStr)
                      | Some port \<Rightarrow> if port < 1 \<or> 65535 < port then Some (TargetPort portStr) else None)))"

definition validateLoopbackListener :: "string \<Rightarrow> string \<Rightarrow> config_error option" where
  "validateLoopbackListener addr label =
     (if addr = [] then None
      else (case SplitHostPort addr of
              Inl e \<Rightarrow> Some (ListenerFormat label e)
            | Inr (host, port) \<Rightarrow>
                if \<not> loopback_host host then Some (ListenerNotLoopback label host)
                else (case Atoi port of
                        None \<Rightarrow> Some (ListenerPort label port)
                      | Some n \<Rightarrow> if n < 1 \<or> 65535 < n then Some (ListenerPort label port) else None)))"

definition validateSOCKS5Addr :: "string \<Rightarrow> config_error option" where
  "validateSOCKS5Addr addr = validateLoopbackListener addr ''SOCKS5''"

definition validateRouteAddress :: "string \<Rightarrow> bool" where
  "validateRouteAddress address =
     (case SplitHostPort address of
        Inl e \<Rightarrow> False
      | Inr (host, port) \<Rightarrow>
          host \<noteq> [] \<and> (case Atoi port of None \<Rightarrow> False | Some n \<Rightarrow> 1 \<le> n \<and> n \<le> 65535))"

definition validateSOCKS5Routes :: "(string \<times> string) list \<Rightarrow> config_error option" where
  "validateSOCKS5Routes routes =
     first_err (\<lambda>(source, destination).
       if \<not> validateRouteAddress source then Some (RouteSource source)
       else if \<not> validateRouteAddress destination then Some (RouteDestination destination)
       else None) routes"

definition validateRequiredFields :: "Config \<Rightarrow> config_error option" where
  "validateRequiredFields cfg =
     (if c_Target cfg = [] \<and> c_SOCKS5Addr cfg = [] then Some TargetRequired
      else if c_AuthKey cfg = [] then Some AuthKeyRequired
      else map_option AuthKeyFormat (ValidateKey (c_AuthKey cfg)))"

definition validateMergedProxyConfig :: "Config \<Rightarrow> config_error option" where
  "validateMergedProxyConfig cfg =
     and_then (validateTarget (c_Target cfg))
    (and_then (validateSOCKS5Addr (c_SOCKS5Addr cfg))
    (and_then (validateSOCKS5Routes (c_SOCKS5Routes cfg))
    (and_then (if c_Target cfg \<noteq> [] \<and> 0 < length (c_SOCKS5Routes cfg) then Some RoutesNeedSOCKS5 else None)
      (validateRequiredFields cfg))))"

definition validateDialRetries :: "os_env \<Rightarrow> FlagSet \<Rightarrow> Config \<Rightarrow> config_error option" where
  "validateDialRetries E g cfg =
     and_then (case g_DialRetries g of None \<Rightarrow> None | Some n \<Rightarrow> if n < 0 then Some (NegativeDialRetries n) else None)
    (and_then (if Getenv E ''TS_DIAL_RETRIES'' \<noteq> [] then
                 (case Atoi (Getenv E ''TS_DIAL_RETRIES'') of
                    None \<Rightarrow> None | Some n \<Rightarrow> if n < 0 then Some (NegativeDialRetries n) else None)
               else None)
      (if c_DialRetries cfg < 0 then Some (NegativeDialRetries (c_DialRetries cfg)) else None))"

definition validateIdleTimeout :: "Config \<Rightarrow> config_error option" where
  "validateIdleTimeout cfg =
     (if c_IdleTimeout cfg < 0 then Some (NegativeIdleTimeout (c_IdleTimeout cfg)) else None)"

definition normalizeBootstrapConfig :: "Config \<Rightarrow> (config_error, Config) result" where
  "normalizeBootstrapConfig cfg0 =
     (let cfg = cfg0\<lparr>c_BootstrapSSH := TrimSpace (c_BootstrapSSH cfg0),
                     c_BootstrapSOCKSAddr := TrimSpace (c_BootstrapSOCKSAddr cfg0)\<rparr>
      in if c_BootstrapSSH cfg = [] then
           (if c_BootstrapSOCKSAddr cfg \<noteq> [] then Inl BootstrapNeedsSSH else Inr cfg)
         else if c_ControlURL cfg = [] then Inl BootstrapNeedsControlURL
         else
           let cfg2 = (if c_BootstrapSOCKSAddr cfg = [] then cfg\<lparr>c_BootstrapSOCKSAddr := defaultBootstrapSOCKS\<rparr> else cfg)
           in check_res (validateLoopbackListener (c_BootstrapSOCKSAddr cfg2) ''bootstrap SOCKS'') (Inr cfg2))"

definition sameListenerEndpoint :: "string \<Rightarrow> string \<Rightarrow> bool" where
  "sameListenerEndpoint left right =
     (if left = [] \<or> right = [] then False
      else (case (SplitHostPort left, SplitHostPort right) of
              (Inr (lh, lp), Inr (rh, rp)) \<Rightarrow>
                (case (Atoi lp, Atoi rp) of
                   (Some l, Some r) \<Rightarrow>
                     if l < 1 \<or> 65535 < l \<or> r < 1 \<or> 65535 < r \<or> l \<noteq> r then False
                     else EqualFold lh rh \<or> (ParseIP lh \<noteq> None \<and> ParseIP lh = ParseIP rh)
                 | _ \<Rightarrow> False)
            | _ \<Rightarrow> False))"

definition validateBootstrapListenerCollision :: "Config \<Rightarrow> config_error option" where
  "validateBootstrapListenerCollision cfg =
     (let b = c_BootstrapSOCKSAddr cfg in
      if sameListenerEndpoint b (c_LocalAddr cfg) \<or> sameListenerEndpoint b (c_SOCKS5Addr cfg)
      then Some (BootstrapBridgeConflict b)
      else if sameListenerEndpoint b (c_HealthAddr cfg) then Some (BootstrapHealthConflict b)
      else None)"

subsection \<open>Automatic instance\<close>

definition resolveAutoInstance :: "os_env \<Rightarrow> PartialConfig \<Rightarrow> FlagSet \<Rightarrow> Config \<Rightarrow> Config" where
  "resolveAutoInstance E y g cfg =
     (if g_ManualMode g then cfg\<lparr>c_AutoInstance := False\<rparr>
      else if Getenv E ''TS_MANUAL_MODE'' \<noteq> [] then
        cfg\<lparr>c_AutoInstance := \<not> parseBoolEnv (Getenv E ''TS_MANUAL_MODE'')\<rparr>
      else if Getenv E ''TS_AUTO_INSTANCE'' \<noteq> [] then
        cfg\<lparr>c_AutoInstance := parseBoolEnv (Getenv E ''TS_AUTO_INSTANCE'')\<rparr>
      else (case y_AutoInstance y of None \<Rightarrow> cfg | Some b \<Rightarrow> cfg\<lparr>c_AutoInstance := b\<rparr>))"

definition instance_name :: "os_env \<Rightarrow> FlagSet \<Rightarrow> string" where
  "instance_name E g = (if g_Instance g = [] then Getenv E ''TS_INSTANCE_NAME'' else g_Instance g)"

definition deriveFlagLocalAddr :: "os_env \<Rightarrow> Config \<Rightarrow> FlagSet \<Rightarrow> (port_error, string) result" where
  "deriveFlagLocalAddr E cfg g =
     (let r0 = g_PortRange g;
          r1 = (if r0 = [] then Getenv E ''TS_PORT_RANGE'' else r0);
          r2 = (if r1 = [] then defaultAutoPortRange else r1)
      in deriveAutoLocalAddr E (c_Target cfg) (instance_name E g) r2)"

definition applyAutoInstance :: "os_env \<Rightarrow> FlagSet \<Rightarrow> Config \<Rightarrow> (config_error, Config) result" where
  "applyAutoInstance E g cfg =
     (if \<not> c_AutoInstance cfg then Inr cfg
      else bind_res
        (if c_LocalAddr cfg = [] \<and> c_SOCKS5Addr cfg = [] then
           (case deriveFlagLocalAddr E cfg g of
              Inl e \<Rightarrow> Inl (DeriveLocalAddr e)
            | Inr a \<Rightarrow> Inr (cfg\<lparr>c_LocalAddr := a\<rparr>))
         else Inr cfg)
        (\<lambda>cfg1.
           let cfg2 = (if c_Hostname cfg1 = [] \<and> instance_name E g \<noteq> []
                       then cfg1\<lparr>c_Hostname := deriveAutoHostname E (c_Target cfg1) (instance_name E g)\<rparr> else cfg1);
               cfg3 = (if c_StateDir cfg2 = [] \<and> c_Hostname cfg2 \<noteq> []
                       then cfg2\<lparr>c_StateDir := EphemeralStateDir E (c_Hostname cfg2), c_EphemeralState := True\<rparr>
                       else cfg2)
           in Inr cfg3))"

subsection \<open>Merge\<close>

definition layered :: "os_env \<Rightarrow> PartialConfig \<Rightarrow> FlagSet \<Rightarrow> Config" where
  "layered E y g =
     (let cfg1 = applyEnv E (applyYAML y defaults);
          cfg2 = (if c_AuthKey cfg1 = [] then cfg1\<lparr>c_AuthKey := g_ProfileAuthKey g\<rparr> else cfg1)
      in applyFlags g cfg2)"

definition finish_defaults :: "os_env \<Rightarrow> Config \<Rightarrow> Config" where
  "finish_defaults E cfg =
     (let cfg1 = (if c_Hostname cfg = [] then cfg\<lparr>c_Hostname := defaultHostname\<rparr> else cfg)
      in if c_StateDir cfg1 = [] then cfg1\<lparr>c_StateDir := StateDirForPlatform E\<rparr> else cfg1)"

definition default_listener :: "Config \<Rightarrow> Config" where
  "default_listener cfg =
     (if c_SOCKS5Addr cfg = [] \<and> c_LocalAddr cfg = [] then cfg\<lparr>c_LocalAddr := defaultLocalAddr\<rparr> else cfg)"

definition Merge :: "os_env \<Rightarrow> PartialConfig \<Rightarrow> FlagSet \<Rightarrow> (config_error, Config) result" where
  "Merge E y g =
     check_res (validateYAMLAuthKey y)
    (check_res (validateModeInputs E y g)
    (let cfg = layered E y g in
     check_res (validateMergedProxyConfig cfg)
    (let cfg1 = cfg\<lparr>c_ControlURL := TrimSpace (c_ControlURL cfg)\<rparr> in
     check_res (ValidateControlPlane (c_AuthKey cfg1) (c_ControlURL cfg1))
    (bind_res (normalizeBootstrapConfig cfg1) (\<lambda>cfg2.
     check_res (validateDialRetries E g cfg2)
    (check_res (validateIdleTimeout cfg2)
    (bind_res (applyAutoInstance E g (resolveAutoInstance E y g cfg2)) (\<lambda>cfg3.
     let cfg4 = default_listener cfg3 in
     check_res (validateBootstrapListenerCollision cfg4)
       (Inr (finish_defaults E cfg4))))))))))"

subsection \<open>The health listener\<close>

definition HealthExposed :: "Config \<Rightarrow> bool" where
  "HealthExposed cfg =
     (if c_HealthAddr cfg = [] then False
      else (case SplitHostPort (c_HealthAddr cfg) of
              Inl _ \<Rightarrow> True
            | Inr (host, _) \<Rightarrow>
                if host = ''localhost'' then False
                else (case ParseIP host of None \<Rightarrow> True | Some ip \<Rightarrow> \<not> IsLoopback ip)))"

definition ValidateHealthListener :: "Config \<Rightarrow> config_error option" where
  "ValidateHealthListener cfg =
     (case (if c_HealthAddr cfg \<noteq> [] then err_of (SplitHostPort (c_HealthAddr cfg)) else None) of
        Some e \<Rightarrow> Some (HealthAddrFormat e)
      | None \<Rightarrow>
          if \<not> HealthExposed cfg \<or> c_HealthAllowRemote cfg then None
          else Some (HealthNotLoopback (c_HealthAddr cfg)))"

end
