(* ===== verification/Config_Laws.thy ===== *)
theory Config_Laws
  imports Bridge_Config
begin

text \<open>
  What the merged configuration promises: the precedence of every layered field, the validity
  of everything the bridge then uses, and the safety of its listeners.
\<close>

subsection \<open>Precedence of the string fields\<close>

fun first_nonempty :: "string list \<Rightarrow> string" where
  "first_nonempty [] = []"
| "first_nonempty (v # vs) = (if v \<noteq> [] then v else first_nonempty vs)"

lemma first_nonempty_overlay: "first_nonempty (v # vs) = overlay (first_nonempty vs) v"
  by (simp add: overlay_def)

locale layered_field =
  fixes get :: "Config \<Rightarrow> string"
    and yaml :: "PartialConfig \<Rightarrow> string"
    and key :: string
    and flag :: "FlagSet \<Rightarrow> string"
    and dflt :: string
  assumes get_defaults: "get defaults = dflt"
    and get_yaml: "get (applyYAML y c) = overlay (get c) (yaml y)"
    and get_env: "get (applyEnv E c) = overlay (get c) (Getenv E key)"
    and get_key: "get (c\<lparr>c_AuthKey := k\<rparr>) = get c"
    and get_flags: "get (applyFlags g c) = overlay (get c) (flag g)"
begin

lemma layered_value: "get (layered E y g) = first_nonempty [flag g, Getenv E key, yaml y, dflt]"
proof -
  have "get (if c_AuthKey c = [] then c\<lparr>c_AuthKey := k\<rparr> else c) = get c" for c k by (simp add: get_key)
  then have "get (layered E y g) = overlay (get (applyEnv E (applyYAML y defaults))) (flag g)"
    unfolding layered_def Let_def get_flags by simp
  also have "\<dots> = first_nonempty [flag g, Getenv E key, yaml y, dflt]"
    by (simp add: get_env get_yaml get_defaults overlay_def)
  finally show ?thesis .
qed

end

lemmas layer_defs = applyYAML_def applyStringFields_def applyDurationFields_def applyEnv_def
  applyEnvProxyMode_def applyFlags_def applyFlagProxyMode_def defaults_def zero_config_def Let_def

interpretation local_addr: layered_field c_LocalAddr y_LocalAddr "''TS_LOCAL_ADDR''" g_LocalAddr "[]"
  by unfold_locales (simp_all add: layer_defs)

interpretation hostname_field: layered_field c_Hostname y_Hostname "''TS_HOSTNAME''" g_Hostname "[]"
  by unfold_locales (simp_all add: layer_defs)

interpretation state_dir: layered_field c_StateDir y_StateDir "''TS_STATE_DIR''" g_StateDir "[]"
  by unfold_locales (simp_all add: layer_defs)

interpretation control_url: layered_field c_ControlURL y_ControlURL "''TS_CONTROL_URL''" g_ControlURL "[]"
  by unfold_locales (simp_all add: layer_defs)

interpretation bootstrap_ssh: layered_field c_BootstrapSSH y_BootstrapSSH "''TS_BOOTSTRAP_SSH''" g_BootstrapSSH "[]"
  by unfold_locales (simp_all add: layer_defs)

interpretation bootstrap_socks: layered_field c_BootstrapSOCKSAddr y_BootstrapSOCKSAddr
  "''TS_BOOTSTRAP_SOCKS_ADDR''" g_BootstrapSOCKSAddr "[]"
  by unfold_locales (simp_all add: layer_defs)

interpretation health_addr: layered_field c_HealthAddr y_HealthAddr "''TS_HEALTH_ADDR''" g_HealthAddr "[]"
  by unfold_locales (simp_all add: layer_defs)

interpretation log_format: layered_field c_LogFormat y_LogFormat "''TS_LOG_FORMAT''" g_LogFormat "''text''"
  by unfold_locales (simp_all add: layer_defs)

lemma layered_auth_key:
  "c_AuthKey (layered E y g) = first_nonempty [g_AuthKey g, Getenv E ''TS_AUTHKEY'', g_ProfileAuthKey g]"
proof -
  have "c_AuthKey (applyEnv E (applyYAML y defaults)) = Getenv E ''TS_AUTHKEY''"
    by (simp add: layer_defs overlay_def)
  moreover have "c_AuthKey (applyFlags g c) = overlay (c_AuthKey c) (g_AuthKey g)" for c
    by (simp add: applyFlags_def applyFlagProxyMode_def Let_def)
  ultimately show ?thesis by (simp add: layered_def Let_def overlay_def)
qed

text \<open>The mode is decided by the highest layer that names one.\<close>

fun first_mode :: "(string \<times> string) list \<Rightarrow> string \<times> string" where
  "first_mode [] = ([], [])"
| "first_mode ((t, a) # ms) = (if t \<noteq> [] then (t, []) else if a \<noteq> [] then ([], a) else first_mode ms)"

lemma layered_mode:
  assumes "validateModeInputs E y g = None"
  shows "(c_Target (layered E y g), c_SOCKS5Addr (layered E y g)) =
    first_mode [(g_Target g, g_SOCKS5Addr g), (Getenv E ''TS_TARGET'', Getenv E ''TS_SOCKS5_ADDR''),
      (y_Target y, y_SOCKS5Addr y)]"
proof -
  have y: "y_Target y = [] \<or> y_SOCKS5Addr y = []"
    using assms by (auto simp: validateModeInputs_def validateModeLayer_def split: if_splits)
  have 1: "(c_Target (applyYAML y defaults), c_SOCKS5Addr (applyYAML y defaults)) = first_mode [(y_Target y, y_SOCKS5Addr y)]"
    using y by (auto simp: applyYAML_def applyStringFields_def applyDurationFields_def defaults_def
        zero_config_def Let_def overlay_def)
  have 2: "(c_Target (applyEnv E c), c_SOCKS5Addr (applyEnv E c)) =
      (if Getenv E ''TS_TARGET'' \<noteq> [] then (Getenv E ''TS_TARGET'', [])
       else if Getenv E ''TS_SOCKS5_ADDR'' \<noteq> [] then ([], Getenv E ''TS_SOCKS5_ADDR'')
       else (c_Target c, c_SOCKS5Addr c))" for c
    by (simp add: applyEnv_def applyEnvProxyMode_def Let_def)
  have 3: "(c_Target (applyFlags g c), c_SOCKS5Addr (applyFlags g c)) =
      (if g_Target g \<noteq> [] then (g_Target g, []) else if g_SOCKS5Addr g \<noteq> [] then ([], g_SOCKS5Addr g)
       else (c_Target c, c_SOCKS5Addr c))" for c
    by (simp add: applyFlags_def applyFlagProxyMode_def Let_def)
  show ?thesis
    using 1 2 [of "applyYAML y defaults"] 3
    by (auto simp: layered_def Let_def split: if_splits)
qed

lemma first_mode_exclusive: "first_mode ms = (t, a) \<Longrightarrow> t = [] \<or> a = []"
  by (induction ms rule: first_mode.induct) (auto split: if_splits)

subsection \<open>What the later steps keep\<close>

text \<open>The configuration without the fields that the steps after layering may set.\<close>

definition core :: "Config \<Rightarrow> Config" where
  "core cfg = cfg\<lparr>c_LocalAddr := [], c_Hostname := [], c_StateDir := [], c_EphemeralState := False,
     c_AutoInstance := False, c_BootstrapSSH := [], c_BootstrapSOCKSAddr := []\<rparr>"

lemma core_fields:
  assumes "core a = core b"
  shows "c_Target a = c_Target b" "c_SOCKS5Addr a = c_SOCKS5Addr b" "c_AuthKey a = c_AuthKey b"
    "c_ControlURL a = c_ControlURL b" "c_DialRetries a = c_DialRetries b" "c_IdleTimeout a = c_IdleTimeout b"
    "c_HealthAddr a = c_HealthAddr b" "c_LogFormat a = c_LogFormat b" "c_SOCKS5Routes a = c_SOCKS5Routes b"
    "c_MaxConnections a = c_MaxConnections b"
  using arg_cong [OF assms, of c_Target] arg_cong [OF assms, of c_SOCKS5Addr] arg_cong [OF assms, of c_AuthKey]
    arg_cong [OF assms, of c_ControlURL] arg_cong [OF assms, of c_DialRetries] arg_cong [OF assms, of c_IdleTimeout]
    arg_cong [OF assms, of c_HealthAddr] arg_cong [OF assms, of c_LogFormat] arg_cong [OF assms, of c_SOCKS5Routes]
    arg_cong [OF assms, of c_MaxConnections]
  by (simp_all add: core_def)

lemma normalizeBootstrap_keeps:
  "normalizeBootstrapConfig c = Inr d \<Longrightarrow> core d = core c \<and> c_LocalAddr d = c_LocalAddr c \<and>
   c_Hostname d = c_Hostname c \<and> c_StateDir d = c_StateDir c"
  by (auto simp: normalizeBootstrapConfig_def core_def Let_def check_res_Inr_iff split: if_splits)

lemma normalizeBootstrap_valid:
  "normalizeBootstrapConfig c = Inr d \<Longrightarrow> c_BootstrapSSH d \<noteq> [] \<Longrightarrow>
   c_ControlURL c \<noteq> [] \<and> c_BootstrapSOCKSAddr d \<noteq> [] \<and>
   validateLoopbackListener (c_BootstrapSOCKSAddr d) ''bootstrap SOCKS'' = None"
  by (auto simp: normalizeBootstrapConfig_def Let_def check_res_Inr_iff defaultBootstrapSOCKS_def split: if_splits)

lemma resolveAutoInstance_keeps:
  "core (resolveAutoInstance E y g c) = core c" "c_LocalAddr (resolveAutoInstance E y g c) = c_LocalAddr c"
  "c_Hostname (resolveAutoInstance E y g c) = c_Hostname c" "c_StateDir (resolveAutoInstance E y g c) = c_StateDir c"
  "c_BootstrapSSH (resolveAutoInstance E y g c) = c_BootstrapSSH c"
  "c_BootstrapSOCKSAddr (resolveAutoInstance E y g c) = c_BootstrapSOCKSAddr c"
  by (auto simp: resolveAutoInstance_def core_def split: option.splits)

lemma applyAutoInstance_keeps:
  "applyAutoInstance E g c = Inr d \<Longrightarrow> core d = core c \<and> c_BootstrapSSH d = c_BootstrapSSH c \<and>
   c_BootstrapSOCKSAddr d = c_BootstrapSOCKSAddr c \<and> (c_LocalAddr c \<noteq> [] \<longrightarrow> c_LocalAddr d = c_LocalAddr c) \<and>
   (c_StateDir d = c_StateDir c \<or> (\<exists>h. c_StateDir d = EphemeralStateDir E h)) \<and>
   (c_LocalAddr d = c_LocalAddr c \<or> (\<exists>p. c_SOCKS5Addr c = [] \<and> deriveFlagLocalAddr E c g = Inr p \<and> c_LocalAddr d = p))"
  by (auto simp: applyAutoInstance_def core_def bind_res_Inr_iff Let_def split: if_splits sum.splits)

lemma default_listener_keeps:
  "core (default_listener c) = core c" "c_StateDir (default_listener c) = c_StateDir c"
  "c_BootstrapSSH (default_listener c) = c_BootstrapSSH c"
  "c_BootstrapSOCKSAddr (default_listener c) = c_BootstrapSOCKSAddr c"
  "c_SOCKS5Addr c = [] \<Longrightarrow> c_LocalAddr (default_listener c) = overlay defaultLocalAddr (c_LocalAddr c)"
  by (auto simp: default_listener_def core_def overlay_def)

lemma finish_defaults_keeps:
  "core (finish_defaults E c) = core c" "c_LocalAddr (finish_defaults E c) = c_LocalAddr c"
  "c_BootstrapSSH (finish_defaults E c) = c_BootstrapSSH c"
  "c_BootstrapSOCKSAddr (finish_defaults E c) = c_BootstrapSOCKSAddr c"
  "c_Hostname (finish_defaults E c) \<noteq> []"
  "c_StateDir (finish_defaults E c) = overlay (StateDirForPlatform E) (c_StateDir c)"
  by (auto simp: finish_defaults_def core_def overlay_def defaultHostname_def Let_def)

lemma Merge_steps:
  assumes "Merge E y g = Inr cfg"
  obtains c2 c3 where
    "validateYAMLAuthKey y = None" "validateModeInputs E y g = None"
    "validateMergedProxyConfig (layered E y g) = None"
    "ValidateControlPlane (c_AuthKey (layered E y g)) (TrimSpace (c_ControlURL (layered E y g))) = None"
    "normalizeBootstrapConfig ((layered E y g)\<lparr>c_ControlURL := TrimSpace (c_ControlURL (layered E y g))\<rparr>) = Inr c2"
    "validateDialRetries E g c2 = None" "validateIdleTimeout c2 = None"
    "applyAutoInstance E g (resolveAutoInstance E y g c2) = Inr c3"
    "validateBootstrapListenerCollision (default_listener c3) = None"
    "cfg = finish_defaults E (default_listener c3)"
  using assms by (auto simp: Merge_def Let_def check_res_Inr_iff bind_res_Inr_iff)

lemma Merge_core:
  assumes "Merge E y g = Inr cfg"
  shows "core cfg = core ((layered E y g)\<lparr>c_ControlURL := TrimSpace (c_ControlURL (layered E y g))\<rparr>)"
proof -
  obtain c2 c3 where
    b: "normalizeBootstrapConfig ((layered E y g)\<lparr>c_ControlURL := TrimSpace (c_ControlURL (layered E y g))\<rparr>) = Inr c2"
    and a: "applyAutoInstance E g (resolveAutoInstance E y g c2) = Inr c3"
    and f: "cfg = finish_defaults E (default_listener c3)"
    using assms by (rule Merge_steps)
  show ?thesis
    using normalizeBootstrap_keeps [OF b] applyAutoInstance_keeps [OF a]
    by (simp add: f finish_defaults_keeps(1) default_listener_keeps(1) resolveAutoInstance_keeps(1))
qed

subsection \<open>Validity of the merged configuration\<close>

text \<open>The specification: an endpoint is a host and a port in range; a sound configuration has
  exactly one mode, every listener that must be local on loopback, and a key the control plane
  it names can take.\<close>

definition endpoint :: "(string \<Rightarrow> bool) \<Rightarrow> string \<Rightarrow> bool" where
  "endpoint P a \<longleftrightarrow> (\<exists>h p. SplitHostPort a = Inr (h, p) \<and> P h \<and> port_of p \<noteq> None)"

definition sound_mode :: "Config \<Rightarrow> bool" where
  "sound_mode cfg \<longleftrightarrow>
     (if c_Target cfg \<noteq> []
      then c_SOCKS5Addr cfg = [] \<and> endpoint (\<lambda>h. h \<noteq> []) (c_Target cfg) \<and> c_SOCKS5Routes cfg = [] \<and> c_LocalAddr cfg \<noteq> []
      else endpoint loopback_host (c_SOCKS5Addr cfg) \<and>
        (\<forall>(s, d) \<in> set (c_SOCKS5Routes cfg). endpoint (\<lambda>h. h \<noteq> []) s \<and> endpoint (\<lambda>h. h \<noteq> []) d))"

definition sound_control :: "Config \<Rightarrow> bool" where
  "sound_control cfg \<longleftrightarrow>
     ValidateKey (c_AuthKey cfg) = None \<and> TrimSpace (c_ControlURL cfg) = c_ControlURL cfg \<and>
     (if c_ControlURL cfg = [] then \<not> HasPrefix (c_AuthKey cfg) ''hskey-'' else Validate (c_ControlURL cfg) = None)"

definition sound_bootstrap :: "Config \<Rightarrow> bool" where
  "sound_bootstrap cfg \<longleftrightarrow>
     (c_BootstrapSSH cfg = [] \<and> c_BootstrapSOCKSAddr cfg = [] \<or>
      c_BootstrapSSH cfg \<noteq> [] \<and> c_ControlURL cfg \<noteq> [] \<and> endpoint loopback_host (c_BootstrapSOCKSAddr cfg) \<and>
      \<not> (\<exists>a \<in> {c_LocalAddr cfg, c_SOCKS5Addr cfg, c_HealthAddr cfg}. sameListenerEndpoint (c_BootstrapSOCKSAddr cfg) a))"

lemma validateTarget_None: "validateTarget t = None \<longleftrightarrow> t = [] \<or> endpoint (\<lambda>h. h \<noteq> []) t"
  by (auto simp: validateTarget_def endpoint_def port_of_def valid_port_def split: sum.splits option.splits if_splits)

lemma validateRouteAddress_iff: "validateRouteAddress a \<longleftrightarrow> endpoint (\<lambda>h. h \<noteq> []) a"
  by (auto simp: validateRouteAddress_def endpoint_def port_of_def valid_port_def split: sum.splits option.splits if_splits)

lemma validateLoopback_None: "validateLoopbackListener a l = None \<longleftrightarrow> a = [] \<or> endpoint loopback_host a"
  by (auto simp: validateLoopbackListener_def endpoint_def port_of_def valid_port_def split: sum.splits option.splits if_splits)

lemma validateRoutes_None: "validateSOCKS5Routes rs = None \<longleftrightarrow>
    (\<forall>(s, d) \<in> set rs. endpoint (\<lambda>h. h \<noteq> []) s \<and> endpoint (\<lambda>h. h \<noteq> []) d)"
  by (auto simp: validateSOCKS5Routes_def validateRouteAddress_iff split: if_splits)

lemma Merge_mode:
  assumes "Merge E y g = Inr cfg"
  shows "(c_Target cfg, c_SOCKS5Addr cfg) =
    first_mode [(g_Target g, g_SOCKS5Addr g), (Getenv E ''TS_TARGET'', Getenv E ''TS_SOCKS5_ADDR''),
      (y_Target y, y_SOCKS5Addr y)]"
proof -
  have "validateModeInputs E y g = None" using assms by (rule Merge_steps)
  from layered_mode [OF this] show ?thesis
    using core_fields(1,2) [OF Merge_core [OF assms]] by simp
qed

lemma Merge_local_addr:
  assumes "Merge E y g = Inr cfg" "c_SOCKS5Addr cfg = []"
  shows "c_LocalAddr cfg \<noteq> []"
proof -
  obtain c3 where f: "cfg = finish_defaults E (default_listener c3)" using assms(1) by (rule Merge_steps)
  then have "c_SOCKS5Addr c3 = []"
    using assms(2) core_fields(2) [of cfg c3]
    by (simp add: finish_defaults_keeps(1) default_listener_keeps(1))
  then show ?thesis
    by (simp add: f finish_defaults_keeps default_listener_keeps(5) overlay_def defaultLocalAddr_def)
qed

lemma Merge_sound_mode:
  assumes "Merge E y g = Inr cfg"
  shows "sound_mode cfg"
proof -
  have v: "validateMergedProxyConfig (layered E y g) = None" using assms by (rule Merge_steps)
  have c: "c_Target cfg = c_Target (layered E y g)" "c_SOCKS5Addr cfg = c_SOCKS5Addr (layered E y g)"
    "c_SOCKS5Routes cfg = c_SOCKS5Routes (layered E y g)"
    using core_fields(1,2,9) [OF Merge_core [OF assms]] by simp_all
  have one: "c_Target cfg = [] \<or> c_SOCKS5Addr cfg = []"
    using Merge_mode [OF assms] by (metis first_mode_exclusive)
  show ?thesis
    using v one Merge_local_addr [OF assms]
    by (auto simp: sound_mode_def c validateMergedProxyConfig_def validateTarget_None validateSOCKS5Addr_def
        validateLoopback_None validateRoutes_None validateRequiredFields_def split: if_splits)
qed

lemma Merge_sound_control:
  assumes "Merge E y g = Inr cfg"
  shows "sound_control cfg"
proof -
  let ?L = "layered E y g"
  have v: "validateMergedProxyConfig ?L = None" using assms by (rule Merge_steps)
  have u: "ValidateControlPlane (c_AuthKey ?L) (TrimSpace (c_ControlURL ?L)) = None" using assms by (rule Merge_steps)
  have c: "c_AuthKey cfg = c_AuthKey ?L" "c_ControlURL cfg = TrimSpace (c_ControlURL ?L)"
    using core_fields(3,4) [OF Merge_core [OF assms]] by simp_all
  show ?thesis
    using v u by (auto simp: sound_control_def c ValidateControlPlane_def validateMergedProxyConfig_def
        validateRequiredFields_def Let_def split: if_splits)
qed

lemma normalizeBootstrap_sound:
  "normalizeBootstrapConfig c = Inr d \<Longrightarrow>
   c_BootstrapSSH d = [] \<and> c_BootstrapSOCKSAddr d = [] \<or>
   c_BootstrapSSH d \<noteq> [] \<and> c_ControlURL c \<noteq> [] \<and> endpoint loopback_host (c_BootstrapSOCKSAddr d)"
  using normalizeBootstrap_valid [of c d] validateLoopback_None [of "c_BootstrapSOCKSAddr d"]
  by (auto simp: normalizeBootstrapConfig_def Let_def check_res_Inr_iff split: if_splits)

lemma Merge_sound_bootstrap:
  assumes "Merge E y g = Inr cfg"
  shows "sound_bootstrap cfg"
proof -
  let ?L = "(layered E y g)\<lparr>c_ControlURL := TrimSpace (c_ControlURL (layered E y g))\<rparr>"
  obtain c2 c3 where b: "normalizeBootstrapConfig ?L = Inr c2"
    and a: "applyAutoInstance E g (resolveAutoInstance E y g c2) = Inr c3"
    and l: "validateBootstrapListenerCollision (default_listener c3) = None"
    and f: "cfg = finish_defaults E (default_listener c3)"
    using assms by (rule Merge_steps)
  have keep: "c_BootstrapSSH cfg = c_BootstrapSSH c2" "c_BootstrapSOCKSAddr cfg = c_BootstrapSOCKSAddr c2"
    using applyAutoInstance_keeps [OF a]
    by (simp_all add: f finish_defaults_keeps default_listener_keeps resolveAutoInstance_keeps)
  have c: "c_ControlURL cfg = c_ControlURL ?L"
    using core_fields(4) [OF Merge_core [OF assms]] by simp
  have same: "c_SOCKS5Addr cfg = c_SOCKS5Addr (default_listener c3)" "c_HealthAddr cfg = c_HealthAddr (default_listener c3)"
    "c_LocalAddr cfg = c_LocalAddr (default_listener c3)"
    "c_BootstrapSOCKSAddr cfg = c_BootstrapSOCKSAddr (default_listener c3)"
    using core_fields(2,7) [of cfg "default_listener c3"] by (simp_all add: f finish_defaults_keeps)
  have "validateBootstrapListenerCollision cfg = None"
    using l by (simp only: validateBootstrapListenerCollision_def same Let_def)
  then show ?thesis
    using normalizeBootstrap_sound [OF b]
    by (auto simp: sound_bootstrap_def keep c validateBootstrapListenerCollision_def Let_def split: if_splits)
qed

lemma Merge_state_dir:
  assumes "Merge E y g = Inr cfg"
  shows "c_StateDir cfg = first_nonempty [g_StateDir g, Getenv E ''TS_STATE_DIR'', y_StateDir y] \<and> c_StateDir cfg \<noteq> []
    \<or> c_StateDir cfg = StateDirForPlatform E \<or> (\<exists>h. c_StateDir cfg = EphemeralStateDir E h)"
proof -
  obtain c2 c3 where b: "normalizeBootstrapConfig ((layered E y g)\<lparr>c_ControlURL := TrimSpace (c_ControlURL (layered E y g))\<rparr>) = Inr c2"
    and a: "applyAutoInstance E g (resolveAutoInstance E y g c2) = Inr c3"
    and f: "cfg = finish_defaults E (default_listener c3)"
    using assms by (rule Merge_steps)
  have "c_StateDir c2 = first_nonempty [g_StateDir g, Getenv E ''TS_STATE_DIR'', y_StateDir y]"
    using normalizeBootstrap_keeps [OF b] state_dir.layered_value [of E y g] by simp
  then show ?thesis
    using applyAutoInstance_keeps [OF a]
    by (auto simp: f finish_defaults_keeps default_listener_keeps resolveAutoInstance_keeps overlay_def)
qed

lemma Merge_finished:
  assumes "Merge E y g = Inr cfg"
  shows "c_Hostname cfg \<noteq> []" and "0 \<le> c_DialRetries cfg" and "0 \<le> c_IdleTimeout cfg"
proof -
  let ?L = "(layered E y g)\<lparr>c_ControlURL := TrimSpace (c_ControlURL (layered E y g))\<rparr>"
  obtain c2 c3 where b: "normalizeBootstrapConfig ?L = Inr c2"
    and r: "validateDialRetries E g c2 = None" and i: "validateIdleTimeout c2 = None"
    and f: "cfg = finish_defaults E (default_listener c3)"
    using assms by (rule Merge_steps)
  show "c_Hostname cfg \<noteq> []" by (simp add: f finish_defaults_keeps)
  have "core cfg = core c2"
    using Merge_core [OF assms] normalizeBootstrap_keeps [OF b] by simp
  from core_fields(5,6) [OF this] r i show "0 \<le> c_DialRetries cfg" and "0 \<le> c_IdleTimeout cfg"
    by (auto simp: validateDialRetries_def validateIdleTimeout_def split: if_splits)
qed

lemma deriveAutoLocalAddr_loopback:
  "deriveAutoLocalAddr E t n r = Inr a \<Longrightarrow> \<exists>p. valid_port p \<and> port_free E p \<and> a = ''127.0.0.1:'' @ Itoa p"
proof -
  assume "deriveAutoLocalAddr E t n r = Inr a"
  then obtain s u p seed where pr: "parsePortRange r = Inr (s, u)"
    and sel: "selectAvailablePort E seed s u = Inr p" and a: "a = ''127.0.0.1:'' @ Itoa p"
    by (auto simp: deriveAutoLocalAddr_def bind_res_Inr_iff)
  from pr have "1 \<le> s" "u \<le> 65535" "s \<le> u"
    by (auto simp: parsePortRange_def split: list.splits option.splits if_splits)
  with sel set_probe_order [OF \<open>s \<le> u\<close>, of seed] have "valid_port p" "port_free E p"
    by (auto simp: selectAvailablePort_def valid_port_def find_None_iff dest!: find_SomeD split: option.splits if_splits)
  then show ?thesis using a by blast
qed

lemma loopback_endpoint: "valid_port p \<Longrightarrow> endpoint (\<lambda>h. h = ''127.0.0.1'') (''127.0.0.1:'' @ Itoa p)"
proof -
  assume p: "valid_port p"
  have "port_chars (Itoa p)" using Itoa_port_chars [of p] p by (simp add: valid_port_def)
  moreover have "host_chars ''127.0.0.1''" by code_simp
  ultimately have "SplitHostPort (''127.0.0.1'' @ CHR '':'' # Itoa p) = Inr (''127.0.0.1'', Itoa p)"
    by (intro SplitHostPort_plain) (auto simp: host_chars_def)
  then show ?thesis using port_of_Itoa [OF p] by (auto simp: endpoint_def)
qed

lemma itoa_33389: "Itoa 33389 = ''33389''"
  by code_simp

subsection \<open>The promises of the configuration\<close>

definition key_env :: os_env where
  "key_env = sample_env\<lparr>Getenv := (\<lambda>k. if k = ''TS_AUTHKEY'' then ''tskey-auth-abc-1'' else []), port_free := (\<lambda>p. p = 33400)\<rparr>"

definition sample_yaml :: PartialConfig where
  "sample_yaml = zero_partial\<lparr>y_SOCKS5Addr := ''127.0.0.1:1080'', y_ControlURL := '' https://hs.example.com '', y_LogFormat := ''json''\<rparr>"

definition sample_flags :: FlagSet where
  "sample_flags = zero_flags\<lparr>g_Target := ''desk:3389'', g_PortRange := ''33399-33401''\<rparr>"

text \<open>The configuration the sample layers merge to, computed.\<close>

lemma sample_merge:
  "map_sum id (\<lambda>c. (c_Target c, c_SOCKS5Addr c, c_LocalAddr c, c_AuthKey c, c_ControlURL c)) (Merge key_env sample_yaml sample_flags) =
   Inr (''desk:3389'', [], ''127.0.0.1:33400'', ''tskey-auth-abc-1'', ''https://hs.example.com'')"
  by code_simp

lemma sample_merge_Inr: "\<exists>cfg. Merge key_env sample_yaml sample_flags = Inr cfg \<and> c_Target cfg = ''desk:3389'' \<and>
    c_LocalAddr cfg = ''127.0.0.1:33400'' \<and> c_AuthKey cfg = ''tskey-auth-abc-1'' \<and> c_ControlURL cfg = ''https://hs.example.com''"
  using sample_merge by (cases "Merge key_env sample_yaml sample_flags") auto

text \<open>
  C36: a configuration that \<open>Merge\<close> accepts is sound whatever the YAML file, the environment and
  the flags hold: exactly one of TCP and SOCKS5 mode with a usable target or a loopback SOCKS5
  listener, routes only in SOCKS5 mode and all of them host and port, an accepted key, a trimmed
  control URL that is a valid URL (and present for a Headscale key), a bootstrap tunnel only with a
  control URL and on a loopback port no other listener has, non-negative retries and idle timeout,
  a host name, and a state directory that is the configured one or an absolute one.
\<close>

theorem Merge_sound:
  assumes "Merge E y g = Inr cfg" and "IsAbs (TempDir E)"
  shows "sound_mode cfg \<and> sound_control cfg \<and> sound_bootstrap cfg \<and>
    0 \<le> c_DialRetries cfg \<and> 0 \<le> c_IdleTimeout cfg \<and> c_Hostname cfg \<noteq> [] \<and>
    (c_StateDir cfg \<noteq> [] \<and> c_StateDir cfg \<in> {g_StateDir g, Getenv E ''TS_STATE_DIR'', y_StateDir y} \<or>
     IsAbs (c_StateDir cfg))"
  using Merge_sound_mode [OF assms(1)] Merge_sound_control [OF assms(1)] Merge_sound_bootstrap [OF assms(1)]
    Merge_finished [OF assms(1)] Merge_state_dir [OF assms(1)] state_dirs_abs [OF assms(2)]
  by (auto split: if_splits)

theorem Merge_sound_witness:
  "\<exists>cfg. Merge key_env sample_yaml sample_flags = Inr cfg \<and> sound_mode cfg \<and> sound_control cfg \<and>
     c_Target cfg = ''desk:3389'' \<and> IsAbs (c_StateDir cfg)"
proof -
  obtain cfg where m: "Merge key_env sample_yaml sample_flags = Inr cfg" "c_Target cfg = ''desk:3389''"
    using sample_merge_Inr by blast
  have "IsAbs (TempDir key_env)" "g_StateDir sample_flags = []" "Getenv key_env ''TS_STATE_DIR'' = []"
    "y_StateDir sample_yaml = []" by code_simp+
  then show ?thesis using m Merge_sound [OF m(1)] by auto
qed

text \<open>
  the precedence chain. In an accepted configuration the auth key is the one of the flags,
  else of the environment, else of the profile, and never one of the YAML file; the control URL,
  the health address and the log format are the first non-empty value of flag, environment, YAML
  and default; and the mode is decided as a whole by the highest layer that names a target or a
  SOCKS5 listener, so that a target flag displaces a SOCKS5 listener of a lower layer and the
  other way round.
\<close>

lemma Merge_precedence:
  assumes "Merge E y g = Inr cfg"
  shows "c_AuthKey cfg = first_nonempty [g_AuthKey g, Getenv E ''TS_AUTHKEY'', g_ProfileAuthKey g] \<and> y_AuthKey y = [] \<and>
    c_ControlURL cfg = TrimSpace (first_nonempty [g_ControlURL g, Getenv E ''TS_CONTROL_URL'', y_ControlURL y]) \<and>
    c_HealthAddr cfg = first_nonempty [g_HealthAddr g, Getenv E ''TS_HEALTH_ADDR'', y_HealthAddr y] \<and>
    c_LogFormat cfg = first_nonempty [g_LogFormat g, Getenv E ''TS_LOG_FORMAT'', y_LogFormat y, ''text''] \<and>
    (c_Target cfg, c_SOCKS5Addr cfg) =
      first_mode [(g_Target g, g_SOCKS5Addr g), (Getenv E ''TS_TARGET'', Getenv E ''TS_SOCKS5_ADDR''), (y_Target y, y_SOCKS5Addr y)]"
proof -
  have "validateYAMLAuthKey y = None" using assms by (rule Merge_steps)
  then have "y_AuthKey y = []" by (auto simp: validateYAMLAuthKey_def split: if_splits)
  then show ?thesis
    using core_fields [OF Merge_core [OF assms]] Merge_mode [OF assms] layered_auth_key [of E y g]
      control_url.layered_value [of E y g] health_addr.layered_value [of E y g] log_format.layered_value [of E y g]
    by (simp only: Config.simps first_nonempty.simps) simp
qed

text \<open>
  C37: in TCP mode with no listen address from any layer the bridge never binds the wildcard
  address: the listener is 127.0.0.1 with a port in range, in automatic mode one that was probed
  free, otherwise the fixed default.
\<close>

theorem Merge_listener_loopback:
  assumes "Merge E y g = Inr cfg" and "c_Target cfg \<noteq> []"
    and "g_LocalAddr g = []" "Getenv E ''TS_LOCAL_ADDR'' = []" "y_LocalAddr y = []"
  shows "endpoint (\<lambda>h. h = ''127.0.0.1'') (c_LocalAddr cfg) \<and>
    (c_LocalAddr cfg = defaultLocalAddr \<or> (\<exists>p. port_free E p \<and> c_LocalAddr cfg = ''127.0.0.1:'' @ Itoa p))"
proof -
  let ?L = "(layered E y g)\<lparr>c_ControlURL := TrimSpace (c_ControlURL (layered E y g))\<rparr>"
  obtain c2 c3 where b: "normalizeBootstrapConfig ?L = Inr c2"
    and a: "applyAutoInstance E g (resolveAutoInstance E y g c2) = Inr c3"
    and f: "cfg = finish_defaults E (default_listener c3)"
    using assms(1) by (rule Merge_steps)
  have "c_LocalAddr c2 = []"
    using normalizeBootstrap_keeps [OF b] local_addr.layered_value [of E y g] assms(3-5) by simp
  then have c3: "c_LocalAddr c3 = [] \<or> (\<exists>p. valid_port p \<and> port_free E p \<and> c_LocalAddr c3 = ''127.0.0.1:'' @ Itoa p)"
    using applyAutoInstance_keeps [OF a] deriveAutoLocalAddr_loopback
    by (auto simp: resolveAutoInstance_keeps deriveFlagLocalAddr_def Let_def)
  have "c_SOCKS5Addr cfg = []" using Merge_sound_mode [OF assms(1)] assms(2) by (simp add: sound_mode_def)
  then have "c_SOCKS5Addr c3 = []"
    using core_fields(2) [of cfg c3] by (simp add: f finish_defaults_keeps(1) default_listener_keeps(1))
  then have "c_LocalAddr cfg = overlay defaultLocalAddr (c_LocalAddr c3)"
    by (simp add: f finish_defaults_keeps default_listener_keeps(5))
  moreover have "endpoint (\<lambda>h. h = ''127.0.0.1'') defaultLocalAddr"
    using loopback_endpoint [of 33389] by (simp add: defaultLocalAddr_def valid_port_def itoa_33389)
  ultimately show ?thesis using c3 loopback_endpoint by (auto simp: overlay_def)
qed

theorem Merge_listener_loopback_witness:
  "\<exists>cfg. Merge key_env sample_yaml sample_flags = Inr cfg \<and> c_LocalAddr cfg = ''127.0.0.1:33400'' \<and>
     endpoint (\<lambda>h. h = ''127.0.0.1'') (c_LocalAddr cfg)"
proof -
  obtain cfg where m: "Merge key_env sample_yaml sample_flags = Inr cfg" "c_Target cfg = ''desk:3389''"
    "c_LocalAddr cfg = ''127.0.0.1:33400''" using sample_merge_Inr by blast
  have "g_LocalAddr sample_flags = []" "Getenv key_env ''TS_LOCAL_ADDR'' = []" "y_LocalAddr sample_yaml = []" by code_simp+
  then show ?thesis using m Merge_listener_loopback [OF m(1)] by auto
qed

text \<open>
  the health endpoint is never exposed by accident. The listener check passes exactly when
  there is no health address, or the address is a host and a port and either its host is
  localhost or a loopback address or remote exposure was asked for.
\<close>

lemma ValidateHealthListener_iff:
  "ValidateHealthListener cfg = None \<longleftrightarrow>
     c_HealthAddr cfg = [] \<or>
     (\<exists>h p. SplitHostPort (c_HealthAddr cfg) = Inr (h, p) \<and> (loopback_host h \<or> c_HealthAllowRemote cfg))"
  by (auto simp: ValidateHealthListener_def HealthExposed_def loopback_host_def err_of_def
      split: sum.splits option.splits if_splits)

end
