(* ===== verification/Descriptor.thy ===== *)
theory Descriptor
  imports Control_Url
begin

text \<open>
  \<open>internal/profile/descriptor.go\<close>: the shareable \<open>tsb://\<close> connection descriptor, its printer,
  its parser and the redaction of what the parse error quotes.
\<close>

definition scheme :: string where "scheme = ''tsb''"
definition cpSaas :: string where "cpSaas = ''saas''"
definition maxPort :: int where "maxPort = 65535"

record Descriptor =
  Host :: string
  Port :: int
  ControlURL :: string
  Version :: int

record ParseError =
  Input :: string
  Reason :: string

text \<open>\<open>url.Values.Encode\<close> on the keys \<open>cp\<close> and \<open>v\<close>, which sort in this order.\<close>

definition descriptor_query :: "Descriptor \<Rightarrow> string" where
  "descriptor_query d =
     ''cp='' @ QueryEscape (if ControlURL d \<noteq> [] then ControlURL d else cpSaas) @
     (if 1 < Version d then ''&v='' @ QueryEscape (Itoa (Version d)) else [])"

definition descriptor_String :: "Descriptor \<Rightarrow> string" where
  "descriptor_String d =
     url_String (empty_url\<lparr>u_scheme := scheme, u_host := Host d @ '':'' @ Itoa (Port d),
                           u_query := descriptor_query d\<rparr>)"

text \<open>The ellipsis is the three bytes of its UTF-8 encoding.\<close>

definition ellipsis :: string where "ellipsis = [char_of (226 :: nat), char_of (128 :: nat), char_of (166 :: nat)]"

definition redactDescriptor :: "string \<Rightarrow> string" where
  "redactDescriptor raw =
     (case url_Parse raw of
        None \<Rightarrow> ''(unparseable)''
      | Some u \<Rightarrow>
          if u_opaque u \<noteq> [] then ''(unparseable)''
          else url_String (empty_url\<lparr>u_scheme := u_scheme u, u_host := u_host u\<rparr>) @
               (if u_path u \<noteq> [] \<and> u_path u \<noteq> ''/'' then ''/'' @ ellipsis else []) @
               (if u_query u \<noteq> [] \<or> u_force_query u then ''?'' @ ellipsis else []))"

definition singleParam ::
  "(string \<times> string) list \<Rightarrow> string \<Rightarrow> (string, string \<times> bool) result" where
  "singleParam q key =
     (case map snd (filter (\<lambda>kv. fst kv = key) q) of
        [] \<Rightarrow> Inr ([], False)
      | [v] \<Rightarrow> Inr (v, True)
      | _ \<Rightarrow> Inl (''query param '' @ key @ '' given more than once''))"

definition controlURLFromParam :: "string \<Rightarrow> (string, string) result" where
  "controlURLFromParam cp =
     (if EqualFold cp cpSaas then Inr []
      else (case Validate cp of
              Some e \<Rightarrow> Inl (''query param cp: '' @ control_url_text e)
            | None \<Rightarrow> Inr cp))"

definition versionFromParam :: "string \<Rightarrow> (string, int) result" where
  "versionFromParam vs =
     (if vs = [] then Inr 1
      else (case Atoi vs of
              None \<Rightarrow> Inl ''invalid version (must be a positive integer)''
            | Some v \<Rightarrow>
                if v < 1 then Inl ''invalid version (must be a positive integer)'' else Inr v))"

definition parse_reason :: "string \<Rightarrow> (string, Descriptor) result" where
  "parse_reason raw =
     (if raw = [] then Inl ''empty input''
      else (case url_Parse raw of
              None \<Rightarrow> Inl ''malformed URL''
            | Some u \<Rightarrow>
                let host = u_Hostname u; portStr = u_Port u in
                if u_scheme u \<noteq> scheme then Inl ''expected scheme \"tsb\"''
                else if host = [] then Inl ''missing host''
                else if portStr = [] then Inl ''missing port''
                else (case Atoi portStr of
                        None \<Rightarrow> Inl (''invalid port \"'' @ portStr @ ''\" (must be 1-65535)'')
                      | Some port \<Rightarrow>
                          if port \<le> 0 \<or> maxPort < port then
                            Inl (''invalid port \"'' @ portStr @ ''\" (must be 1-65535)'')
                          else
                            let q = parse_query (u_query u) in
                            bind_res (singleParam q ''cp'') (\<lambda>(cp, present).
                              if \<not> present then Inl ''missing required query param cp''
                              else bind_res (controlURLFromParam cp) (\<lambda>controlURL.
                                bind_res (singleParam q ''v'') (\<lambda>(vs, _).
                                  bind_res (versionFromParam vs) (\<lambda>version.
                                    Inr \<lparr>Host = host, Port = port, ControlURL = controlURL,
                                         Version = version\<rparr>)))))))"

definition Parse :: "string \<Rightarrow> (ParseError, Descriptor) result" where
  "Parse raw =
     (case parse_reason raw of
        Inl reason \<Rightarrow> Inl \<lparr>Input = redactDescriptor raw, Reason = reason\<rparr>
      | Inr d \<Rightarrow> Inr d)"

subsection \<open>Printing and parsing\<close>

definition descriptor_ok :: "Descriptor \<Rightarrow> bool" where
  "descriptor_ok d \<longleftrightarrow>
     reg_name (Host d) \<and> valid_port (Port d) \<and> 1 \<le> Version d \<and> int64_range (Version d) \<and>
     (ControlURL d = [] \<or> Validate (ControlURL d) = None)"

lemma Itoa_digits_port: "valid_port p \<Longrightarrow> \<forall>c \<in> set (Itoa p). is_digit c"
  using Itoa_nonneg_digits [of p] by (auto simp: valid_port_def)

lemma descriptor_String_text:
  assumes "reg_name (Host d)" and "valid_port (Port d)"
  shows "descriptor_String d =
    ''tsb'' @ ''://'' @ (Host d @ CHR '':'' # Itoa (Port d)) @ CHR ''?'' # descriptor_query d"
proof -
  have "escape_with host_byte (Host d @ CHR '':'' # Itoa (Port d)) = Host d @ CHR '':'' # Itoa (Port d)"
    using assms(1) Itoa_digits_port [OF assms(2)]
    by (intro escape_with_id) (auto simp: host_byte_def reg_name_def host_extra_def digit_unreserved)
  moreover have "descriptor_query d \<noteq> []" by (simp add: descriptor_query_def)
  ultimately show ?thesis
    by (simp add: descriptor_String_def url_String_def empty_url_def scheme_def escaped_path_def
        escape_with_def [of path_byte] Let_def)
qed

lemma descriptor_query_plain: "plain_in_url (descriptor_query d)"
  using QueryEscape_plain by (auto simp: plain_in_url_def descriptor_query_def url_ctl_def)

lemma unreserved_letters: "unreserved (CHR ''c'')" "unreserved (CHR ''p'')" "unreserved (CHR ''v'')"
  by (simp_all add: unreserved_def is_alpha_def)

lemma parse_descriptor_query:
  "parse_query (descriptor_query d) =
    (''cp'', if ControlURL d \<noteq> [] then ControlURL d else cpSaas) #
    (if 1 < Version d then [(''v'', Itoa (Version d))] else [])"
proof -
  let ?cp = "''cp='' @ QueryEscape (if ControlURL d \<noteq> [] then ControlURL d else cpSaas)"
  let ?v = "''v='' @ QueryEscape (Itoa (Version d))"
  have amp: "CHR ''&'' \<notin> set ?cp" "CHR ''&'' \<notin> set ?v" using QueryEscape_plain by auto
  have "split_on CHR ''&'' (descriptor_query d) = ?cp # (if 1 < Version d then [?v] else [])"
  proof (cases "1 < Version d")
    case True
    then have "descriptor_query d = ?cp @ CHR ''&'' # ?v" by (simp add: descriptor_query_def)
    then show ?thesis
      using True split_on_append [OF amp(1), of ?v] split_on_absent [OF amp(2)] by simp
  next
    case False
    then have "descriptor_query d = ?cp" by (simp add: descriptor_query_def)
    then show ?thesis using False split_on_absent [OF amp(1)] by simp
  qed
  then show ?thesis
    using query_pair_escaped [of "''cp''"] query_pair_escaped [of "''v''"] unreserved_letters
    by (simp add: parse_query_def)
qed

lemma Validate_not_saas: "Validate cp = None \<Longrightarrow> \<not> EqualFold cp cpSaas"
proof
  assume "Validate cp = None" and e: "EqualFold cp cpSaas"
  then obtain sch auth rest where "cp = sch @ ''://'' @ auth @ rest" using Validate_authority by blast
  then have "to_lower_char CHR '':'' \<in> set (ToLower cp)" by (simp add: ToLower_def)
  moreover have "to_lower_char CHR '':'' = CHR '':''" "ToLower cpSaas = ''saas''" by code_simp+
  ultimately show False using e by (simp add: EqualFold_def)
qed

lemma controlURLFromParam_printed:
  "ControlURL d = [] \<or> Validate (ControlURL d) = None \<Longrightarrow>
   controlURLFromParam (if ControlURL d \<noteq> [] then ControlURL d else cpSaas) = Inr (ControlURL d)"
  using Validate_not_saas [of "ControlURL d"] by (auto simp: controlURLFromParam_def EqualFold_def)

lemma Parse_descriptor_String:
  assumes "descriptor_ok d"
  shows "Parse (descriptor_String d) = Inr d"
proof -
  have ok: "reg_name (Host d)" "valid_port (Port d)" "1 \<le> Version d" "int64_range (Version d)"
    "ControlURL d = [] \<or> Validate (ControlURL d) = None"
    using assms by (simp_all add: descriptor_ok_def)
  let ?auth = "Host d @ CHR '':'' # Itoa (Port d)"
  have dg: "\<forall>c \<in> set (Itoa (Port d)). is_digit c" using ok Itoa_digits_port by blast
  have tx: "descriptor_String d = ''tsb'' @ ''://'' @ ?auth @ CHR ''?'' # descriptor_query d"
    using ok descriptor_String_text by blast
  have ne: "descriptor_query d \<noteq> []" by (simp add: descriptor_query_def)
  have "url_Parse (descriptor_String d) =
      Some (empty_url\<lparr>u_scheme := ''tsb'', u_query := descriptor_query d, u_host := ?auth\<rparr>)"
    using url_Parse_built [of "''tsb''" ?auth "descriptor_query d"] ne ok
      host_port_plain [of "Host d" "Itoa (Port d)"] dg descriptor_query_plain
      parseAuthority_port [of "Host d" "Itoa (Port d)"]
    by (simp add: tx is_alpha_def ToLower_def to_lower_char_def empty_url_def)
  moreover have "Itoa (Port d) \<noteq> []" "Itoa (Version d) \<noteq> []" by (auto simp: Itoa_def)
  moreover have "Atoi (Itoa (Port d)) = Some (Port d)" "Atoi (Itoa (Version d)) = Some (Version d)"
    using ok by (simp_all add: Atoi_Itoa valid_port_int64)
  moreover have "descriptor_String d \<noteq> []" by (simp add: tx)
  moreover have "split_host_port ?auth = (Host d, Itoa (Port d))"
    using ok dg by (simp add: split_host_port_plain)
  moreover have "Host d \<noteq> []" using ok by (simp add: reg_name_def)
  moreover have "controlURLFromParam (if ControlURL d \<noteq> [] then ControlURL d else cpSaas) = Inr (ControlURL d)"
    using ok controlURLFromParam_printed by blast
  ultimately show ?thesis
    using ok
    by (auto simp: Parse_def parse_reason_def u_Hostname_def u_Port_def scheme_def maxPort_def
        parse_descriptor_query singleParam_def versionFromParam_def valid_port_def Let_def empty_url_def
        simp del: if_not_P not_None_eq)
qed

text \<open>
  C39: a descriptor survives sharing. Printing a descriptor with a registered-name host, a port
  in range, a positive version and a control URL that is empty (Tailscale SaaS) or valid, and
  parsing the text, yields the same descriptor.
\<close>

theorem descriptor_roundtrip:
  assumes "descriptor_ok d"
  shows "Parse (descriptor_String d) = Inr d"
  using assms by (rule Parse_descriptor_String)

definition sample_descriptor :: Descriptor where
  "sample_descriptor =
     \<lparr>Host = ''host-1.tail.net'', Port = 3389, ControlURL = ''https://hs.example:8443/a b'', Version = 2\<rparr>"

theorem descriptor_roundtrip_witness:
  "Parse (descriptor_String sample_descriptor) = Inr sample_descriptor"
proof -
  have "descriptor_ok sample_descriptor" by code_simp
  then show ?thesis by (rule descriptor_roundtrip)
qed

text \<open>
  what \<open>import\<close> stores is usable. Every descriptor that parses has a host, a port in range,
  a positive version, and a control URL that is empty or that the shared validation accepts,
  so \<open>connect\<close> and the host file will not refuse it later.
\<close>

lemma parsed_descriptor_valid:
  assumes "Parse raw = Inr d"
  shows "Host d \<noteq> [] \<and> valid_port (Port d) \<and> 1 \<le> Version d \<and>
    (ControlURL d = [] \<or> Validate (ControlURL d) = None)"
  using assms
  by (auto simp: Parse_def parse_reason_def Let_def bind_res_Inr_iff maxPort_def valid_port_def
      versionFromParam_def controlURLFromParam_def
      split: sum.splits option.splits if_splits prod.splits)

subsection \<open>Redaction\<close>

definition plain_userinfo :: "string \<Rightarrow> bool" where
  "plain_userinfo u \<longleftrightarrow> (\<forall>c \<in> set u. unreserved c \<or> c = CHR '':'')"

lemma unescape_user_id:
  "\<forall>c \<in> set u. c \<noteq> CHR ''%'' \<Longrightarrow> url_unescape EncodeUserPassword u = Some u"
  by (induction u) auto

lemma parse_userinfo_plain: "plain_userinfo u \<Longrightarrow> \<exists>w. parse_userinfo u = Some w"
proof -
  assume p: "plain_userinfo u"
  then have np: "\<forall>c \<in> set u. c \<noteq> CHR ''%''" using unreserved_plain by (auto simp: plain_userinfo_def)
  have v: "validUserinfo u"
    using p by (auto simp: validUserinfo_def list_all_iff plain_userinfo_def unreserved_def)
  show ?thesis
  proof (cases "CHR '':'' \<in> set u")
    case True
    then obtain a b where ab: "u = a @ CHR '':'' # b" "CHR '':'' \<notin> set a" by (metis split_list_first)
    then have "url_unescape EncodeUserPassword a = Some a" "url_unescape EncodeUserPassword b = Some b"
      using np by (auto intro!: unescape_user_id)
    then show ?thesis using v ab by (simp add: parse_userinfo_def cut_found)
  next
    case False
    then show ?thesis using v unescape_user_id [OF np] by (simp add: parse_userinfo_def)
  qed
qed

lemma userinfo_plain: "plain_userinfo u \<Longrightarrow> plain_in_url u"
  unfolding plain_in_url_def plain_userinfo_def
proof
  fix c
  assume "\<forall>c \<in> set u. unreserved c \<or> c = CHR '':''" and "c \<in> set u"
  then have "unreserved c \<or> c = CHR '':''" by blast
  then show "c \<notin> set ''/?#'' \<and> \<not> url_ctl c" using unreserved_plain [of c] by (auto simp: url_ctl_def)
qed



end
