(* ===== verification/Profiles.thy ===== *)
theory Profiles
  imports Descriptor Credential "HOL-Library.AList"
begin

text \<open>
  \<open>internal/profile/store.go\<close>, \<open>transaction.go\<close>, \<open>lock.go\<close>, \<open>credential_share.go\<close> and
  \<open>credential_transition.go\<close>: the file-backed store of named profiles, its lock, and the
  transitions that keep profiles and managed credentials consistent. The YAML library is a
  parameter (\<open>yaml_codec\<close>); what the code relies on is that decoding what it encoded gives the
  document back (\<open>codec_ok\<close>). The map of profiles is an association list with one entry per
  name.
\<close>

subsection \<open>Documents\<close>

record runtime =
  rt_BootstrapSSH :: string
  rt_BootstrapSOCKSAddr :: string
  rt_Hostname :: string
  rt_StateDir :: string
  rt_LocalAddr :: string
  rt_HealthAddr :: string

definition empty_runtime :: runtime where
  "empty_runtime = \<lparr>rt_BootstrapSSH = [], rt_BootstrapSOCKSAddr = [], rt_Hostname = [], rt_StateDir = [],
     rt_LocalAddr = [], rt_HealthAddr = []\<rparr>"

record profileEntry =
  pe_Target :: string
  pe_ControlURL :: string
  pe_Credential :: string
  pe_Runtime :: runtime

definition zero_entry :: profileEntry where
  "zero_entry = \<lparr>pe_Target = [], pe_ControlURL = [], pe_Credential = [], pe_Runtime = empty_runtime\<rparr>"

record storeFile =
  DescriptorVersion :: int
  Profiles :: "(string \<times> profileEntry) list"

definition empty_store :: storeFile where
  "empty_store = \<lparr>DescriptorVersion = 0, Profiles = []\<rparr>"

record yaml_codec =
  yaml_Marshal :: "storeFile \<Rightarrow> string option"
  yaml_Unmarshal :: "string \<Rightarrow> storeFile option"

definition codec_ok :: "yaml_codec \<Rightarrow> bool" where
  "codec_ok y \<longleftrightarrow> (\<forall>f s. yaml_Marshal y f = Some s \<longrightarrow> yaml_Unmarshal y s = Some f)"

text \<open>A missing map key reads as the zero value.\<close>

definition entry_of :: "storeFile \<Rightarrow> string \<Rightarrow> profileEntry" where
  "entry_of data name = (case map_of (Profiles data) name of None \<Rightarrow> zero_entry | Some e \<Rightarrow> e)"

definition put_entry :: "string \<Rightarrow> profileEntry \<Rightarrow> storeFile \<Rightarrow> storeFile" where
  "put_entry name e data = data\<lparr>Profiles := AList.update name e (Profiles data)\<rparr>"

subsection \<open>Control planes\<close>

definition saasHosts :: "string list" where
  "saasHosts = [''controlplane.tailscale.com'', ''login.tailscale.com'', ''control.tailscale.com'']"

definition normalizeControlURL :: "string \<Rightarrow> string" where
  "normalizeControlURL raw0 =
     (let raw = TrimRight (TrimSpace raw0) ''/'' in
      case url_Parse raw of
        None \<Rightarrow> raw
      | Some u \<Rightarrow>
          if u_host u = [] then raw
          else
            let u1 = u\<lparr>u_scheme := ToLower (u_scheme u), u_host := ToLower (u_host u)\<rparr>;
                p = u_Port u1;
                u2 = (if (u_scheme u1 = ''https'' \<and> p = ''443'') \<or> (u_scheme u1 = ''http'' \<and> p = ''80'')
                      then u1\<lparr>u_host := TrimSuffix (u_host u1) ('':'' @ p)\<rparr> else u1)
            in if u_scheme u2 = ''https'' \<and> u_host u2 \<in> set saasHosts \<and> u_path u2 = [] \<and> u_query u2 = []
               then [] else url_String u2)"

definition SameControlURL :: "string \<Rightarrow> string \<Rightarrow> bool" where
  "SameControlURL a b \<longleftrightarrow> normalizeControlURL a = normalizeControlURL b"

lemma SameControlURL_refl [simp]: "SameControlURL a a"
  and SameControlURL_sym: "SameControlURL a b \<Longrightarrow> SameControlURL b a"
  and SameControlURL_trans: "SameControlURL a b \<Longrightarrow> SameControlURL b c \<Longrightarrow> SameControlURL a c"
  by (simp_all add: SameControlURL_def)

subsection \<open>Errors\<close>

datatype store_error =
    ReadStore fs_error
  | ParseStore
  | CreateStoreDir fs_error
  | MarshalStore
  | WriteStore write_error
  | ProfileNotFound string
  | ControlPlaneChange string string string string
  | EmptyProfileName
  | SecretInTarget string
  | SecretInConfiguration
  | LoadStore store_error
  | SaveStore store_error
  | InvalidCredentialReference
  | CredentialShared string string string
  | StoreBusy
  | LockStore fs_error
  | LockRelease "store_error option"
  | ProfileMoved string string string
  | HeadscaleNeedsControlURL
  | UnreadableCredential string cred_error
  | StoreCredential string cred_error
  | AssociationRestored store_error
  | RestoreFailed store_error cred_error
  | NoManagedCredential string
  | LoadProfile string store_error
  | StillReferenced string "string list"
  | RemoveKeyFailed cred_error

subsection \<open>Reading and writing the store file\<close>

record store =
  st_path :: string
  st_yaml :: yaml_codec

definition load :: "store \<Rightarrow> disk \<Rightarrow> (store_error, storeFile) result \<times> disk" where
  "load s d =
     (case os_ReadFile (st_path s) d of
        (Inl NotExist, d1) \<Rightarrow> (Inr empty_store, d1)
      | (Inl e, d1) \<Rightarrow> (Inl (ReadStore e), d1)
      | (Inr raw, d1) \<Rightarrow>
          (case yaml_Unmarshal (st_yaml s) raw of
             None \<Rightarrow> (Inl ParseStore, d1)
           | Some f \<Rightarrow> (Inr f, d1)))"

definition save :: "store \<Rightarrow> storeFile \<Rightarrow> disk \<Rightarrow> store_error option \<times> disk" where
  "save s data d =
     (case os_MkdirAll (Dir (st_path s)) 448 d of
        (Some e, d1) \<Rightarrow> (Some (CreateStoreDir e), d1)
      | (None, d1) \<Rightarrow>
          (case yaml_Marshal (st_yaml s) data of
             None \<Rightarrow> (Some MarshalStore, d1)
           | Some raw \<Rightarrow>
               (case WriteFileWith (st_path s) raw (retrying os_Rename) d1 of
                  (Some e, d2) \<Rightarrow> (Some (WriteStore e), d2)
                | (None, d2) \<Rightarrow> (None, d2))))"

subsection \<open>Binding a credential to its control plane\<close>

definition bindCredential ::
  "string \<Rightarrow> profileEntry \<Rightarrow> string \<Rightarrow> bool \<Rightarrow> (store_error, string \<times> bool) result" where
  "bindCredential name existing controlURL force =
     (if pe_Credential existing = [] \<or> SameControlURL (pe_ControlURL existing) controlURL
      then Inr (pe_Credential existing, False)
      else if \<not> force
      then Inl (ControlPlaneChange name (pe_ControlURL existing) controlURL (pe_Credential existing))
      else Inr ([], True))"

definition importEntry ::
  "store \<Rightarrow> string \<Rightarrow> Descriptor \<Rightarrow> bool \<Rightarrow> disk \<Rightarrow> (store_error, bool) result \<times> disk" where
  "importEntry s name desc force d =
     (case load s d of
        (Inl e, d1) \<Rightarrow> (Inl e, d1)
      | (Inr data, d1) \<Rightarrow>
          let existing = entry_of data name in
          (case bindCredential name existing (ControlURL desc) force of
             Inl e \<Rightarrow> (Inl e, d1)
           | Inr (credentialName, cleared) \<Rightarrow>
               let e = \<lparr>pe_Target = Host desc @ '':'' @ Itoa (Port desc), pe_ControlURL = ControlURL desc,
                        pe_Credential = credentialName, pe_Runtime = pe_Runtime existing\<rparr>;
                   data' = (put_entry name e data)\<lparr>DescriptorVersion := 1\<rparr>
               in (case save s data' d1 of
                     (Some e, d2) \<Rightarrow> (Inl e, d2)
                   | (None, d2) \<Rightarrow> (Inr cleared, d2))))"

definition secretPrefixes :: "string list" where
  "secretPrefixes = [''tskey-'', ''hskey-'']"

definition setEntry ::
  "store \<Rightarrow> string \<Rightarrow> string \<Rightarrow> string \<Rightarrow> runtime option \<Rightarrow> bool \<Rightarrow> disk \<Rightarrow> (store_error, bool) result \<times> disk" where
  "setEntry s name target controlURL settings force d =
     (if TrimSpace name = [] then (Inl EmptyProfileName, d)
      else (case find (Contains target) secretPrefixes of
              Some pfx \<Rightarrow> (Inl (SecretInTarget pfx), d)
            | None \<Rightarrow>
                (case load s d of
                   (Inl e, d1) \<Rightarrow> (Inl (LoadStore e), d1)
                 | (Inr data, d1) \<Rightarrow>
                     let existing = entry_of data name in
                     (case bindCredential name existing controlURL force of
                        Inl e \<Rightarrow> (Inl e, d1)
                      | Inr (credentialName, cleared) \<Rightarrow>
                          let rt = (case settings of None \<Rightarrow> pe_Runtime existing | Some r \<Rightarrow> r);
                              e = \<lparr>pe_Target = target, pe_ControlURL = controlURL,
                                   pe_Credential = credentialName, pe_Runtime = rt\<rparr>;
                              data' = (put_entry name e data)\<lparr>DescriptorVersion := 1\<rparr>
                          in (case save s data' d1 of
                                (Some e, d2) \<Rightarrow> (Inl (SaveStore e), d2)
                              | (None, d2) \<Rightarrow> (Inr cleared, d2))))))"

definition profile_Get :: "store \<Rightarrow> string \<Rightarrow> disk \<Rightarrow> (store_error, profileEntry) result \<times> disk" where
  "profile_Get s name d =
     (case load s d of
        (Inl e, d1) \<Rightarrow> (Inl e, d1)
      | (Inr data, d1) \<Rightarrow>
          (case map_of (Profiles data) name of
             None \<Rightarrow> (Inl (ProfileNotFound name), d1)
           | Some e \<Rightarrow> (Inr e, d1)))"

definition ListProfiles :: "store \<Rightarrow> disk \<Rightarrow> (store_error, (string \<times> profileEntry) list) result \<times> disk" where
  "ListProfiles s d =
     (case load s d of (Inl e, d1) \<Rightarrow> (Inl e, d1) | (Inr data, d1) \<Rightarrow> (Inr (Profiles data), d1))"

definition updateCredential :: "store \<Rightarrow> string \<Rightarrow> string \<Rightarrow> disk \<Rightarrow> store_error option \<times> disk" where
  "updateCredential s profileName credentialName d =
     (case load s d of
        (Inl e, d1) \<Rightarrow> (Some e, d1)
      | (Inr data, d1) \<Rightarrow>
          (case map_of (Profiles data) profileName of
             None \<Rightarrow> (Some (ProfileNotFound profileName), d1)
           | Some entry \<Rightarrow> save s (put_entry profileName (entry\<lparr>pe_Credential := credentialName\<rparr>) data) d1))"

subsection \<open>Sharing a credential name\<close>

fun insert_name :: "string \<Rightarrow> string list \<Rightarrow> string list" where
  "insert_name n [] = [n]"
| "insert_name n (x # xs) = (if str_le n x then n # x # xs else x # insert_name n xs)"

definition sort_names :: "string list \<Rightarrow> string list" where
  "sort_names ns = foldr insert_name ns []"

lemma insert_name_set [simp]: "set (insert_name n xs) = insert n (set xs)"
  by (induction xs) auto

lemma sort_names_set [simp]: "set (sort_names ns) = set ns"
  by (induction ns) (auto simp: sort_names_def)

text \<open>The order of \<open>sort.Strings\<close>: bytes compared from the left.\<close>

lemma str_le_total: "str_le a b \<or> str_le b a"
  by (induction a b rule: str_le.induct) (auto simp: nat_neq_iff dest: of_char_eq_iff [THEN iffD1])

lemma str_le_Cons_left: "str_le (c # s) t \<longleftrightarrow> (\<exists>d u. t = d # u \<and> ((of_char c :: nat) < of_char d \<or> c = d \<and> str_le s u))"
  by (cases t) simp_all

lemma str_le_trans: "str_le a b \<Longrightarrow> str_le b c \<Longrightarrow> str_le a c"
proof (induction a b arbitrary: c rule: str_le.induct)
  case (3 x s y t)
  then obtain z u where "c = z # u" "(of_char y :: nat) < of_char z \<or> y = z \<and> str_le t u"
    by (auto simp: str_le_Cons_left)
  then show ?case using 3 by (auto simp del: of_char_Char)
qed auto

lemma sort_names_sorted: "sorted_wrt str_le (sort_names ns)"
proof -
  have "sorted_wrt str_le xs \<Longrightarrow> sorted_wrt str_le (insert_name n xs)" for n xs
    by (induction xs) (use str_le_total [of n] in \<open>auto intro: str_le_trans\<close>)
  then show ?thesis by (induction ns) (auto simp: sort_names_def)
qed

lemma distinct_insert_name: "distinct (insert_name n ns) \<longleftrightarrow> n \<notin> set ns \<and> distinct ns"
  by (induction ns) auto

lemma distinct_sort_names [simp]: "distinct (sort_names ns) \<longleftrightarrow> distinct ns"
proof (induction ns)
  case (Cons n ns)
  then show ?case using sort_names_set [of ns] by (simp add: sort_names_def distinct_insert_name)
qed (simp add: sort_names_def)

definition sharedConflict :: "storeFile \<Rightarrow> string \<Rightarrow> string \<Rightarrow> string \<Rightarrow> store_error option" where
  "sharedConflict data profileName name controlURL =
     (case find (\<lambda>other. other \<noteq> profileName \<and> pe_Credential (entry_of data other) = name \<and>
                   \<not> SameControlURL (pe_ControlURL (entry_of data other)) controlURL)
              (sort_names (map fst (Profiles data))) of
        None \<Rightarrow> None
      | Some other \<Rightarrow> Some (CredentialShared name other (pe_ControlURL (entry_of data other))))"

definition CheckCredentialShare :: "store \<Rightarrow> string \<Rightarrow> string \<Rightarrow> disk \<Rightarrow> store_error option \<times> disk" where
  "CheckCredentialShare s profileName credentialName d =
     (case load s d of
        (Inl e, d1) \<Rightarrow> (Some e, d1)
      | (Inr data, d1) \<Rightarrow>
          (case map_of (Profiles data) profileName of
             None \<Rightarrow> (Some (ProfileNotFound profileName), d1)
           | Some entry \<Rightarrow> (sharedConflict data profileName credentialName (pe_ControlURL entry), d1)))"

definition associate :: "store \<Rightarrow> string \<Rightarrow> string \<Rightarrow> disk \<Rightarrow> store_error option \<times> disk" where
  "associate s profileName credentialName d =
     (if \<not> ValidateName credentialName then (Some InvalidCredentialReference, d)
      else (case load s d of
              (Inl e, d1) \<Rightarrow> (Some e, d1)
            | (Inr data, d1) \<Rightarrow>
                (case map_of (Profiles data) profileName of
                   None \<Rightarrow> (Some (ProfileNotFound profileName), d1)
                 | Some entry \<Rightarrow>
                     (case sharedConflict data profileName credentialName (pe_ControlURL entry) of
                        Some e \<Rightarrow> (Some e, d1)
                      | None \<Rightarrow>
                          save s (put_entry profileName (entry\<lparr>pe_Credential := credentialName\<rparr>) data) d1))))"

subsection \<open>The lock\<close>

text \<open>
  One attempt at the store lock, with the time read after it. \<open>lockStore\<close> goes through the
  attempts that the run makes; \<open>None\<close> is a caller that is still waiting.
\<close>

datatype lock_try = Locked | LockHeld | LockError fs_error

definition storeLockWait :: int where "storeLockWait = 10000000000"

fun lockStore :: "int \<Rightarrow> (lock_try \<times> int) list \<Rightarrow> (store_error, unit) result option" where
  "lockStore deadline [] = None"
| "lockStore deadline ((try, now) # rest) =
     (case try of
        Locked \<Rightarrow> Some (Inr ())
      | LockError e \<Rightarrow> Some (Inl (LockStore e))
      | LockHeld \<Rightarrow> if \<not> now < deadline then Some (Inl StoreBusy) else lockStore deadline rest)"

record lock_run =
  lr_start :: int
  lr_tries :: "(lock_try \<times> int) list"
  lr_close_ok :: bool

definition Update ::
  "lock_run \<Rightarrow> (disk \<Rightarrow> (store_error, 'a) result \<times> disk) \<Rightarrow> disk \<Rightarrow>
   ((store_error, 'a) result \<times> disk) option" where
  "Update lr fn d =
     (case lockStore (lr_start lr + storeLockWait) (lr_tries lr) of
        None \<Rightarrow> None
      | Some (Inl e) \<Rightarrow> Some (Inl e, d)
      | Some (Inr _) \<Rightarrow>
          (case fn d of
             (r, d1) \<Rightarrow> Some (if lr_close_ok lr then r else Inl (LockRelease (err_of r)), d1)))"

definition unit_res :: "'e option \<Rightarrow> ('e, unit) result" where
  "unit_res e = (case e of None \<Rightarrow> Inr () | Some x \<Rightarrow> Inl x)"

definition Import ::
  "store \<Rightarrow> lock_run \<Rightarrow> string \<Rightarrow> Descriptor \<Rightarrow> bool \<Rightarrow> disk \<Rightarrow> ((store_error, bool) result \<times> disk) option" where
  "Import s lr name desc force d = Update lr (importEntry s name desc force) d"

definition profile_set ::
  "store \<Rightarrow> lock_run \<Rightarrow> string \<Rightarrow> string \<Rightarrow> string \<Rightarrow> runtime option \<Rightarrow> bool \<Rightarrow> disk \<Rightarrow>
   ((store_error, bool) result \<times> disk) option" where
  "profile_set s lr name target controlURL settings force d =
     Update lr (setEntry s name target controlURL settings force) d"

definition profile_Set ::
  "store \<Rightarrow> lock_run \<Rightarrow> string \<Rightarrow> string \<Rightarrow> string \<Rightarrow> disk \<Rightarrow> ((store_error, bool) result \<times> disk) option" where
  "profile_Set s lr name target controlURL d = profile_set s lr name target controlURL None False d"

definition Configure ::
  "store \<Rightarrow> lock_run \<Rightarrow> string \<Rightarrow> profileEntry \<Rightarrow> bool \<Rightarrow> disk \<Rightarrow> ((store_error, bool) result \<times> disk) option" where
  "Configure s lr name selected force d =
     (let r = pe_Runtime selected;
          vals = [pe_ControlURL selected, rt_BootstrapSSH r, rt_BootstrapSOCKSAddr r, rt_Hostname r,
                  rt_StateDir r, rt_LocalAddr r, rt_HealthAddr r]
      in if list_ex (\<lambda>v. list_ex (Contains v) secretPrefixes) vals then Some (Inl SecretInConfiguration, d)
         else profile_set s lr name (pe_Target selected) (pe_ControlURL selected) (Some r) force d)"

definition SetCredential ::
  "store \<Rightarrow> lock_run \<Rightarrow> string \<Rightarrow> string \<Rightarrow> disk \<Rightarrow> ((store_error, unit) result \<times> disk) option" where
  "SetCredential s lr profileName credentialName d =
     Update lr (\<lambda>d. case associate s profileName credentialName d of (e, d1) \<Rightarrow> (unit_res e, d1)) d"

definition ClearCredential ::
  "store \<Rightarrow> lock_run \<Rightarrow> string \<Rightarrow> disk \<Rightarrow> ((store_error, unit) result \<times> disk) option" where
  "ClearCredential s lr profileName d =
     Update lr (\<lambda>d. case updateCredential s profileName [] d of (e, d1) \<Rightarrow> (unit_res e, d1)) d"

subsection \<open>What the store file holds\<close>

definition store_data :: "store \<Rightarrow> disk \<Rightarrow> storeFile option" where
  "store_data s d =
     (case files d (st_path s) of None \<Rightarrow> Some empty_store | Some f \<Rightarrow> yaml_Unmarshal (st_yaml s) (f_data f))"

lemma store_data_files: "files d' = files d \<Longrightarrow> store_data s d' = store_data s d"
  by (simp add: store_data_def)

lemma load_effect:
  assumes "load s d = (r, d')"
  shows "files d' = files d \<and> temp_suffix d' = temp_suffix d \<and> (\<forall>data. r = Inr data \<longrightarrow> store_data s d = Some data)"
  using assms
  by (auto simp: load_def os_ReadFile_def store_data_def Let_def
      split: if_splits option.splits sum.splits fs_error.splits)

lemma MkdirAll_files: "os_MkdirAll p m d = (r, d') \<Longrightarrow> files d' = files d \<and> temp_suffix d' = temp_suffix d"
  by (auto simp: os_MkdirAll_def syscall_def Let_def split: if_splits)

text \<open>Saving replaces the document or leaves it; other existing files stay.\<close>

lemma save_effect:
  assumes "save s data d = (r, d')" and "disk_ok d" and "codec_ok (st_yaml s)"
  shows "disk_ok d' \<and> (store_data s d' = store_data s d \<or> store_data s d' = Some data) \<and>
    (r = None \<longrightarrow> store_data s d' = Some data) \<and>
    (\<forall>e. r = Some e \<longrightarrow> (\<forall>x. e \<noteq> WriteStore (SecureFailed x)) \<longrightarrow> store_data s d' = store_data s d) \<and>
    (\<forall>q. q \<noteq> st_path s \<longrightarrow> (\<forall>sfx. q \<noteq> temp_name (st_path s) sfx) \<longrightarrow> files d' q = files d q)"
proof -
  obtain r1 d1 where m: "os_MkdirAll (Dir (st_path s)) 448 d = (r1, d1)" by (metis surj_pair)
  have d1: "files d1 = files d" "disk_ok d1" "store_data s d1 = store_data s d"
    using MkdirAll_files [OF m] assms(2) disk_ok_suffix [of d1 d] store_data_files [of d1 d] by auto
  show ?thesis
  proof (cases "r1 = None \<and> yaml_Marshal (st_yaml s) data \<noteq> None")
    case False
    then show ?thesis using assms(1) m d1 by (cases r1) (auto simp: save_def split: option.splits)
  next
    case True
    then obtain raw where raw: "r1 = None" "yaml_Marshal (st_yaml s) data = Some raw" by auto
    obtain r2 where w: "WriteFileWith (st_path s) raw (retrying os_Rename) d1 = (r2, d')"
      and r: "r = map_option WriteStore r2"
      using assms(1) m raw by (auto simp: save_def split: prod.splits option.splits)
    note o = retried_rename.write_outcome [OF w d1(2)]
    have u: "yaml_Unmarshal (st_yaml s) raw = Some data" using assms(3) raw(2) by (auto simp: codec_ok_def)
    have "disk_ok d'" using o d1(2) disk_ok_same_plan by blast
    moreover have "files d' (st_path s) = files d1 (st_path s) \<longrightarrow> store_data s d' = store_data s d"
      using d1 by (simp add: store_data_def)
    moreover have "files d' (st_path s) = Some \<lparr>f_data = raw, f_mode = 384\<rparr> \<longrightarrow> store_data s d' = Some data"
      using u by (simp add: store_data_def)
    ultimately show ?thesis using o r d1(1) by (cases r2) auto
  qed
qed

end
