(* ===== verification/Transitions.thy ===== *)
theory Transitions
  imports Profiles
begin

text \<open>
  \<open>internal/profile/credential_transition.go\<close>: storing a key and referencing it from a profile
  as one transition, and removing it. The profile store and the credential store share one
  disk, so a fault plan ranges over every system call of a transition.
\<close>

record Binding =
  b_Profile :: string
  b_Credential :: string
  b_Key :: string
  b_Replace :: bool
  b_ControlURL :: string

definition unreadable :: "cred_error \<Rightarrow> bool" where
  "unreadable e = (case e of ReadCredential _ x \<Rightarrow> x \<noteq> NotExist | _ \<Rightarrow> False)"

definition checkBinding :: "Binding \<Rightarrow> profileEntry \<Rightarrow> store_error option" where
  "checkBinding b selected =
     (if \<not> SameControlURL (pe_ControlURL selected) (b_ControlURL b)
      then Some (ProfileMoved (b_Profile b) (b_ControlURL b) (pe_ControlURL selected))
      else if HasPrefix (b_Key b) ''hskey-'' \<and> pe_ControlURL selected = [] then Some HeadscaleNeedsControlURL
      else None)"

text \<open>After a failed association: put the previous key back, or remove the new one.\<close>

definition restore_key ::
  "string \<Rightarrow> string \<Rightarrow> (cred_error, string) result \<Rightarrow> disk \<Rightarrow> cred_error option \<times> disk" where
  "restore_key dir name previous d =
     (case previous of Inr key \<Rightarrow> cred_Set dir name key True d | Inl _ \<Rightarrow> cred_Remove dir name d)"

definition bind_key ::
  "store \<Rightarrow> string \<Rightarrow> Binding \<Rightarrow> (cred_error, string) result \<Rightarrow> disk \<Rightarrow> (store_error, unit) result \<times> disk" where
  "bind_key s dir b previous d =
     (case cred_Set dir (b_Credential b) (b_Key b) (b_Replace b) d of
        (Some e, d1) \<Rightarrow> (Inl (StoreCredential (b_Credential b) e), d1)
      | (None, d1) \<Rightarrow>
          (case associate s (b_Profile b) (b_Credential b) d1 of
             (None, d2) \<Rightarrow> (Inr (), d2)
           | (Some assocErr, d2) \<Rightarrow>
               (case restore_key dir (b_Credential b) previous d2 of
                  (Some e, d3) \<Rightarrow> (Inl (RestoreFailed assocErr e), d3)
                | (None, d3) \<Rightarrow> (Inl (AssociationRestored assocErr), d3))))"

definition bind_tx :: "store \<Rightarrow> string \<Rightarrow> Binding \<Rightarrow> disk \<Rightarrow> (store_error, unit) result \<times> disk" where
  "bind_tx s dir b d =
     (case profile_Get s (b_Profile b) d of
        (Inl e, d1) \<Rightarrow> (Inl e, d1)
      | (Inr selected, d1) \<Rightarrow>
          (case checkBinding b selected of
             Some e \<Rightarrow> (Inl e, d1)
           | None \<Rightarrow>
               (case CheckCredentialShare s (b_Profile b) (b_Credential b) d1 of
                  (Some e, d2) \<Rightarrow> (Inl e, d2)
                | (None, d2) \<Rightarrow>
                    (case cred_Get dir (b_Credential b) d2 of
                       (previous, d3) \<Rightarrow>
                         (case previous of
                            Inl e \<Rightarrow> if unreadable e then (Inl (UnreadableCredential (b_Credential b) e), d3)
                                     else bind_key s dir b previous d3
                          | Inr _ \<Rightarrow> bind_key s dir b previous d3)))))"

definition BindCredential ::
  "store \<Rightarrow> string \<Rightarrow> lock_run \<Rightarrow> Binding \<Rightarrow> disk \<Rightarrow> ((store_error, unit) result \<times> disk) option" where
  "BindCredential s dir lr b d = Update lr (bind_tx s dir b) d"

subsection \<open>Removal\<close>

record Removal =
  r_Credential :: string
  r_Profile :: string
  r_Force :: bool

datatype RemoveOutcome = Unlinked | RemovedWithProfile | Removed

definition removalTarget :: "store \<Rightarrow> Removal \<Rightarrow> disk \<Rightarrow> (store_error, string) result \<times> disk" where
  "removalTarget s r d =
     (if r_Credential r \<noteq> [] \<or> r_Profile r = [] then (Inr (r_Credential r), d)
      else (case profile_Get s (r_Profile r) d of
              (Inl e, d1) \<Rightarrow> (Inl (LoadProfile (r_Profile r) e), d1)
            | (Inr selected, d1) \<Rightarrow>
                if pe_Credential selected = [] then (Inl (NoManagedCredential (r_Profile r)), d1)
                else (Inr (pe_Credential selected), d1)))"

definition removeKey :: "string \<Rightarrow> string \<Rightarrow> bool \<Rightarrow> disk \<Rightarrow> cred_error option \<times> disk" where
  "removeKey dir name dangling d =
     (case cred_Remove dir name d of
        (Some (RemoveCredential n NotExist), d1) \<Rightarrow>
          if dangling then (None, d1) else (Some (RemoveCredential n NotExist), d1)
      | (e, d1) \<Rightarrow> (e, d1))"

definition referencesTo :: "store \<Rightarrow> string \<Rightarrow> disk \<Rightarrow> (store_error, string list) result \<times> disk" where
  "referencesTo s name d =
     (case ListProfiles s d of
        (Inl e, d1) \<Rightarrow> (Inl e, d1)
      | (Inr ps, d1) \<Rightarrow>
          (Inr (sort_names (map fst (filter (\<lambda>(n, e). pe_Credential e = name) ps))), d1))"

fun clear_all :: "store \<Rightarrow> string list \<Rightarrow> disk \<Rightarrow> store_error option \<times> disk" where
  "clear_all s [] d = (None, d)"
| "clear_all s (p # ps) d =
     (case updateCredential s p [] d of (Some e, d1) \<Rightarrow> (Some e, d1) | (None, d1) \<Rightarrow> clear_all s ps d1)"

definition tag_res :: "RemoveOutcome \<Rightarrow> store_error option \<Rightarrow> (store_error, RemoveOutcome) result" where
  "tag_res out e = (case e of None \<Rightarrow> Inr out | Some x \<Rightarrow> Inl x)"

definition removeReferenced ::
  "store \<Rightarrow> string \<Rightarrow> Removal \<Rightarrow> string \<Rightarrow> string list \<Rightarrow> disk \<Rightarrow> (store_error, RemoveOutcome) result \<times> disk" where
  "removeReferenced s dir r name refs d =
     (if r_Profile r \<noteq> [] then
        (if 1 < length refs then
           (case updateCredential s (r_Profile r) [] d of (e, d1) \<Rightarrow> (tag_res Unlinked e, d1))
         else (case removeKey dir name (0 < length refs) d of
                 (Some e, d1) \<Rightarrow> (Inl (RemoveKeyFailed e), d1)
               | (None, d1) \<Rightarrow>
                   (case updateCredential s (r_Profile r) [] d1 of (e, d2) \<Rightarrow> (tag_res RemovedWithProfile e, d2))))
      else if 0 < length refs \<and> \<not> r_Force r then (Inl (StillReferenced name refs), d)
      else (case removeKey dir name (0 < length refs) d of
              (Some e, d1) \<Rightarrow> (Inl (RemoveKeyFailed e), d1)
            | (None, d1) \<Rightarrow> (case clear_all s refs d1 of (e, d2) \<Rightarrow> (tag_res Removed e, d2))))"

definition unbind_tx ::
  "store \<Rightarrow> string \<Rightarrow> Removal \<Rightarrow> disk \<Rightarrow> (store_error, string \<times> RemoveOutcome) result \<times> disk" where
  "unbind_tx s dir r d =
     (case removalTarget s r d of
        (Inl e, d1) \<Rightarrow> (Inl e, d1)
      | (Inr name, d1) \<Rightarrow>
          (case referencesTo s name d1 of
             (Inl e, d2) \<Rightarrow> (Inl e, d2)
           | (Inr refs, d2) \<Rightarrow>
               (case removeReferenced s dir r name refs d2 of
                  (Inl e, d3) \<Rightarrow> (Inl e, d3)
                | (Inr out, d3) \<Rightarrow> (Inr (name, out), d3))))"

definition UnbindCredential ::
  "store \<Rightarrow> string \<Rightarrow> lock_run \<Rightarrow> Removal \<Rightarrow> disk \<Rightarrow>
   ((store_error, string \<times> RemoveOutcome) result \<times> disk) option" where
  "UnbindCredential s dir lr r d = Update lr (unbind_tx s dir r) d"

subsection \<open>The two stores do not overlap\<close>

definition yaml_path :: "store \<Rightarrow> bool" where
  "yaml_path s \<longleftrightarrow> HasSuffix (st_path s) ''.yaml''"

lemma yaml_path_apart:
  assumes "yaml_path s" and "ValidateName n"
  shows "cred_path dir n \<noteq> st_path s" and "st_path s \<noteq> temp_name p sfx"
proof -
  obtain pre where y: "st_path s = pre @ ''.yaml''" using assms(1) by (auto simp: yaml_path_def HasSuffix_iff)
  obtain q where c: "cred_path dir n = q @ n @ ''.key''" using cred_path_shape [of dir] assms(2) by blast
  have "last (cred_path dir n) \<noteq> last (st_path s)" by (simp add: y c)
  then show "cred_path dir n \<noteq> st_path s" by metis
  have "last (st_path s) \<noteq> last (temp_name p sfx)" by (simp add: y temp_name_def)
  then show "st_path s \<noteq> temp_name p sfx" by metis
qed

lemma cred_write_store:
  assumes "cred_write dir n k d = (r, d')" and "disk_ok d" and "yaml_path s" and "ValidateName n"
  shows "files d' (st_path s) = files d (st_path s)"
proof -
  obtain r1 where w: "WriteFileWith (cred_path dir n) k os_Rename d = (r1, d')"
    using assms(1) by (auto simp: cred_write_def split: prod.splits option.splits)
  from os_rename.write_outcome [OF w assms(2)] yaml_path_apart [OF assms(3,4)] show ?thesis by metis
qed

lemma cred_Set_store:
  assumes "cred_Set dir n raw rep d = (r, d')" and "disk_ok d" and "yaml_path s"
  shows "store_data s d' = store_data s d"
proof (cases "ValidateName n \<and> (\<exists>k. normalizeKey raw = Inr k)")
  case False
  then show ?thesis using assms(1) by (auto simp: cred_Set_def split: if_splits sum.splits)
next
  case True
  then obtain k where v: "ValidateName n" and k: "normalizeKey raw = Inr k" by blast
  obtain r1 d1 where e: "ensureDir dir d = (r1, d1)" by (metis surj_pair)
  obtain r2 d2 where t: "os_Stat (cred_path dir n) d1 = (r2, d2)" by (metis surj_pair)
  have f: "files d1 = files d" "disk_ok d1" "files d2 = files d" "disk_ok d2"
    using ensureDir_files [OF e] os_Stat_files [OF t] assms(2) disk_ok_suffix [of d1 d] disk_ok_suffix [of d2 d1]
    by auto
  have "files d' (st_path s) = files d (st_path s)"
    using cred_Set_branches [OF v k e t, of rep, unfolded assms(1)] f cred_write_store [OF _ _ assms(3) v]
    by (metis prod.inject)
  then show ?thesis by (simp add: store_data_def)
qed

lemma cred_Remove_store:
  assumes "cred_Remove dir n d = (r, d')" and "yaml_path s"
  shows "store_data s d' = store_data s d"
proof (cases "ValidateName n")
  case True
  then have "\<exists>x. os_Remove (cred_path dir n) d = (x, d')"
    using assms(1) by (auto simp: cred_Remove_def split: prod.splits option.splits)
  then have "files d' (st_path s) = files d (st_path s)"
    using os_Remove_effect yaml_path_apart(1) [OF assms(2) True] by metis
  then show ?thesis by (simp add: store_data_def)
qed (use assms in \<open>simp add: cred_Remove_def\<close>)

lemma cred_Get_files: "cred_Get dir n d = (r, d') \<Longrightarrow> files d' = files d \<and> temp_suffix d' = temp_suffix d"
  by (auto simp: cred_Get_def os_ReadFile_def Let_def split: if_splits option.splits sum.splits)

lemma save_creds:
  assumes "save s data d = (r, d')" and "disk_ok d" and "codec_ok (st_yaml s)" and "yaml_path s"
    and "ValidateName n"
  shows "cred_view dir d' n = cred_view dir d n"
proof -
  have "files d' (cred_path dir n) = files d (cred_path dir n)"
    using save_effect [OF assms(1-3)] yaml_path_apart(1) [OF assms(4,5)] cred_path_not_temp [OF assms(5)]
    by blast
  then show ?thesis by (simp add: cred_view_def)
qed

subsection \<open>A credential name belongs to one control plane\<close>

definition credentials_bound :: "storeFile \<Rightarrow> bool" where
  "credentials_bound data \<longleftrightarrow>
     (\<forall>p q e f. map_of (Profiles data) p = Some e \<longrightarrow> map_of (Profiles data) q = Some f \<longrightarrow>
        pe_Credential e \<noteq> [] \<longrightarrow> pe_Credential f = pe_Credential e \<longrightarrow>
        SameControlURL (pe_ControlURL e) (pe_ControlURL f))"

definition store_bound :: "store \<Rightarrow> disk \<Rightarrow> bool" where
  "store_bound s d \<longleftrightarrow> (\<forall>data. store_data s d = Some data \<longrightarrow> credentials_bound data)"

lemma map_of_put [simp]: "map_of (Profiles (put_entry n e data)) = (map_of (Profiles data))(n \<mapsto> e)"
  by (simp add: put_entry_def update_conv')

lemma credentials_bound_version [simp]: "credentials_bound (data\<lparr>DescriptorVersion := v\<rparr>) = credentials_bound data"
  by (simp add: credentials_bound_def)

lemma credentials_bound_put:
  assumes "credentials_bound data"
    and "\<And>q f. q \<noteq> n \<Longrightarrow> map_of (Profiles data) q = Some f \<Longrightarrow> pe_Credential f = pe_Credential e \<Longrightarrow>
           pe_Credential e \<noteq> [] \<Longrightarrow> SameControlURL (pe_ControlURL f) (pe_ControlURL e)"
  shows "credentials_bound (put_entry n e data)"
  unfolding credentials_bound_def
proof (intro allI impI)
  fix p q e1 f1
  assume 1: "map_of (Profiles (put_entry n e data)) p = Some e1"
    and 2: "map_of (Profiles (put_entry n e data)) q = Some f1"
    and ne: "pe_Credential e1 \<noteq> []" and same: "pe_Credential f1 = pe_Credential e1"
  show "SameControlURL (pe_ControlURL e1) (pe_ControlURL f1)"
  proof (cases "p = n")
    case True
    then have e: "e1 = e" using 1 by simp
    show ?thesis
    proof (cases "q = n")
      case False
      then have "SameControlURL (pe_ControlURL f1) (pe_ControlURL e)" using 2 assms(2) [of q f1] e ne same by simp
      then show ?thesis using e by (simp add: SameControlURL_sym)
    qed (use 2 e in simp)
  next
    case False
    then have p: "map_of (Profiles data) p = Some e1" using 1 by simp
    show ?thesis
    proof (cases "q = n")
      case True
      then show ?thesis using 2 assms(2) [of p e1] p False ne same by simp
    next
      case q: False
      then have "map_of (Profiles data) q = Some f1" using 2 by simp
      then show ?thesis using assms(1) p ne same unfolding credentials_bound_def by blast
    qed
  qed
qed

lemma bindCredential_bound:
  assumes "bindCredential name (entry_of data name) url force = Inr (c, cleared)" and "credentials_bound data"
    and "pe_Credential e = c" and "pe_ControlURL e = url"
  shows "credentials_bound (put_entry name e data)"
proof (rule credentials_bound_put [OF assms(2)])
  fix q f
  assume q: "map_of (Profiles data) q = Some f" "pe_Credential f = pe_Credential e" "pe_Credential e \<noteq> []"
  let ?x = "entry_of data name"
  have x: "pe_Credential ?x = c" "SameControlURL (pe_ControlURL ?x) url"
    using assms(1,3) q(3) by (auto simp: bindCredential_def split: if_splits)
  then have "map_of (Profiles data) name = Some ?x"
    using q(3) assms(3) by (auto simp: entry_of_def zero_entry_def split: option.splits)
  then have "SameControlURL (pe_ControlURL ?x) (pe_ControlURL f)"
    using assms(2,3) q x(1) unfolding credentials_bound_def by metis
  with x(2) show "SameControlURL (pe_ControlURL f) (pe_ControlURL e)"
    unfolding assms(4) using SameControlURL_sym SameControlURL_trans by blast
qed

lemma sharedConflict_None:
  assumes "sharedConflict data p c url = None" and "map_of (Profiles data) q = Some f" and "q \<noteq> p"
    and "pe_Credential f = c"
  shows "SameControlURL (pe_ControlURL f) url"
proof -
  have "q \<in> set (sort_names (map fst (Profiles data)))" using assms(2) by (force dest: map_of_SomeD)
  moreover have "entry_of data q = f" using assms(2) by (simp add: entry_of_def)
  ultimately show ?thesis
    using assms by (auto simp: sharedConflict_def find_None_iff split: option.splits)
qed

lemma save_bound:
  assumes "save s data d = (r, d')" and "disk_ok d" and "codec_ok (st_yaml s)" and "store_bound s d"
    and "credentials_bound data"
  shows "disk_ok d' \<and> store_bound s d'"
  using save_effect [OF assms(1-3)] assms(4,5) by (auto simp: store_bound_def)

lemma load_bound:
  assumes "load s d = (r, d')" and "disk_ok d" and "store_bound s d"
  shows "disk_ok d' \<and> store_bound s d' \<and> (\<forall>data. r = Inr data \<longrightarrow> credentials_bound data)"
  using load_effect [OF assms(1)] assms(2,3) disk_ok_suffix [of d' d] store_data_files [of d' d]
  by (auto simp: store_bound_def)

lemma importEntry_bound:
  assumes "importEntry s name desc force d = (r, d')" and "disk_ok d" and "codec_ok (st_yaml s)" and "store_bound s d"
  shows "disk_ok d' \<and> store_bound s d'"
proof -
  obtain r1 d1 where l: "load s d = (r1, d1)" by (metis surj_pair)
  note lb = load_bound [OF l assms(2,4)]
  show ?thesis
  proof (cases "\<exists>data c. r1 = Inr data \<and> bindCredential name (entry_of data name) (ControlURL desc) force = Inr c")
    case False
    then show ?thesis using assms(1) l lb by (auto simp: importEntry_def Let_def split: sum.splits)
  next
    case True
    then obtain data c cl where b: "r1 = Inr data"
      "bindCredential name (entry_of data name) (ControlURL desc) force = Inr (c, cl)" by auto
    let ?e = "\<lparr>pe_Target = Host desc @ '':'' @ Itoa (Port desc), pe_ControlURL = ControlURL desc,
                pe_Credential = c, pe_Runtime = pe_Runtime (entry_of data name)\<rparr>"
    obtain r2 where sv: "save s ((put_entry name ?e data)\<lparr>DescriptorVersion := 1\<rparr>) d1 = (r2, d')"
      using assms(1) l b by (auto simp: importEntry_def Let_def split: prod.splits option.splits)
    have "credentials_bound (put_entry name ?e data)"
      by (rule bindCredential_bound [OF b(2)]) (use lb b(1) in auto)
    then show ?thesis using save_bound [OF sv _ assms(3)] lb by simp
  qed
qed

lemma setEntry_bound:
  assumes "setEntry s name target url settings force d = (r, d')" and "disk_ok d" and "codec_ok (st_yaml s)"
    and "store_bound s d"
  shows "disk_ok d' \<and> store_bound s d'"
proof -
  obtain r1 d1 where l: "load s d = (r1, d1)" by (metis surj_pair)
  note lb = load_bound [OF l assms(2,4)]
  show ?thesis
  proof (cases "TrimSpace name \<noteq> [] \<and> find (Contains target) secretPrefixes = None \<and>
      (\<exists>data c. r1 = Inr data \<and> bindCredential name (entry_of data name) url force = Inr c)")
    case False
    then show ?thesis using assms l lb
      by (auto simp: setEntry_def Let_def split: sum.splits if_splits option.splits)
  next
    case True
    then obtain data c cl where b: "r1 = Inr data"
      "bindCredential name (entry_of data name) url force = Inr (c, cl)" by auto
    let ?e = "\<lparr>pe_Target = target, pe_ControlURL = url, pe_Credential = c,
        pe_Runtime = (case settings of None \<Rightarrow> pe_Runtime (entry_of data name) | Some r \<Rightarrow> r)\<rparr>"
    obtain r2 where sv: "save s ((put_entry name ?e data)\<lparr>DescriptorVersion := 1\<rparr>) d1 = (r2, d')"
      using assms(1) l b True by (auto simp: setEntry_def Let_def split: prod.splits option.splits)
    have "credentials_bound (put_entry name ?e data)"
      by (rule bindCredential_bound [OF b(2)]) (use lb b(1) in auto)
    then show ?thesis using save_bound [OF sv _ assms(3)] lb by simp
  qed
qed

lemma updateCredential_bound:
  assumes "updateCredential s p [] d = (r, d')" and "disk_ok d" and "codec_ok (st_yaml s)" and "store_bound s d"
  shows "disk_ok d' \<and> store_bound s d'"
proof -
  obtain r1 d1 where l: "load s d = (r1, d1)" by (metis surj_pair)
  note lb = load_bound [OF l assms(2,4)]
  have "credentials_bound (put_entry p (e\<lparr>pe_Credential := []\<rparr>) data)" if "r1 = Inr data" for data e
    using lb that by (intro credentials_bound_put) auto
  then show ?thesis
    using assms(1) l lb save_bound [OF _ _ assms(3)]
    by (auto simp: updateCredential_def split: sum.splits option.splits)
qed

lemma associate_bound:
  assumes "associate s p c d = (r, d')" and "disk_ok d" and "codec_ok (st_yaml s)" and "store_bound s d"
  shows "disk_ok d' \<and> store_bound s d'"
proof -
  obtain r1 d1 where l: "load s d = (r1, d1)" by (metis surj_pair)
  note lb = load_bound [OF l assms(2,4)]
  have "credentials_bound (put_entry p (e\<lparr>pe_Credential := c\<rparr>) data)"
    if "r1 = Inr data" "sharedConflict data p c (pe_ControlURL e) = None" for data e
    using that lb sharedConflict_None [OF that(2)] by (intro credentials_bound_put) auto
  then show ?thesis
    using assms(1,2,4) l lb save_bound [OF _ _ assms(3)]
    by (auto simp: associate_def split: sum.splits option.splits if_splits)
qed

lemma store_bound_data: "store_data s d' = store_data s d \<Longrightarrow> store_bound s d' = store_bound s d"
  by (simp add: store_bound_def)

lemma profile_Get_effect:
  "profile_Get s n d = (r, d') \<Longrightarrow> files d' = files d \<and> temp_suffix d' = temp_suffix d \<and>
   (\<forall>e. r = Inr e \<longrightarrow> (\<exists>data. store_data s d = Some data \<and> map_of (Profiles data) n = Some e))"
  by (auto simp: profile_Get_def dest!: load_effect split: prod.splits sum.splits option.splits)

lemma CheckCredentialShare_effect:
  "CheckCredentialShare s p c d = (r, d') \<Longrightarrow> files d' = files d \<and> temp_suffix d' = temp_suffix d"
  by (auto simp: CheckCredentialShare_def dest!: load_effect split: prod.splits sum.splits option.splits)

lemma profile_Get_error: "profile_Get s n d = (Inl e, d') \<Longrightarrow> e \<noteq> RestoreFailed x y"
  by (auto simp: profile_Get_def load_def split: prod.splits sum.splits option.splits fs_error.splits)

lemma CheckCredentialShare_error: "CheckCredentialShare s p c d = (Some e, d') \<Longrightarrow> e \<noteq> RestoreFailed x y"
  by (auto simp: CheckCredentialShare_def sharedConflict_def load_def
      split: prod.splits sum.splits option.splits fs_error.splits)

lemma same_files_bound:
  "files d' = files d \<and> temp_suffix d' = temp_suffix d \<Longrightarrow> disk_ok d \<Longrightarrow>
   disk_ok d' \<and> store_data s d' = store_data s d \<and> cred_view dir d' = cred_view dir d"
  using disk_ok_suffix [of d' d] store_data_files [of d' d s] cred_view_files [of d' d dir] by simp

lemma cred_Set_keeps:
  assumes "cred_Set dir n raw rep d = (r, d')" and "disk_ok d" and "yaml_path s" and "store_bound s d"
  shows "disk_ok d' \<and> store_bound s d'"
  using creds.store_invar [OF assms(2,1)] cred_Set_store [OF assms(1-3)] assms(4) store_bound_data by metis

lemma cred_Remove_keeps:
  assumes "cred_Remove dir n d = (r, d')" and "disk_ok d" and "yaml_path s" and "store_bound s d"
  shows "disk_ok d' \<and> store_bound s d'"
  using creds.discard_invar [OF assms(2,1)] cred_Remove_store [OF assms(1,3)] assms(4) store_bound_data by metis

lemma restore_key_keeps:
  assumes "restore_key dir n prev d = (r, d')" and "disk_ok d" and "yaml_path s" and "store_bound s d"
  shows "disk_ok d' \<and> store_bound s d'"
  using assms cred_Set_keeps cred_Remove_keeps by (auto simp: restore_key_def split: sum.splits)

lemma bind_key_keeps:
  assumes "bind_key s dir b prev d = (r, d')" and "disk_ok d" and "codec_ok (st_yaml s)" and "yaml_path s"
    and "store_bound s d"
  shows "disk_ok d' \<and> store_bound s d'"
proof -
  obtain r1 d1 where c: "cred_Set dir (b_Credential b) (b_Key b) (b_Replace b) d = (r1, d1)" by (metis surj_pair)
  note k1 = cred_Set_keeps [OF c assms(2,4,5)]
  obtain r2 d2 where a: "associate s (b_Profile b) (b_Credential b) d1 = (r2, d2)" by (metis surj_pair)
  have k2: "disk_ok d2 \<and> store_bound s d2" using associate_bound [OF a _ assms(3)] k1 by simp
  obtain r3 d3 where t: "restore_key dir (b_Credential b) prev d2 = (r3, d3)" by (metis surj_pair)
  have k3: "disk_ok d3 \<and> store_bound s d3" using restore_key_keeps [OF t _ assms(4)] k2 by simp
  show ?thesis using assms(1) c a t k1 k2 k3 by (auto simp: bind_key_def split: option.splits)
qed

lemma bind_tx_cases:
  assumes "bind_tx s dir b d = (r, d')" and "disk_ok d"
  shows "(isl r \<and> (\<forall>e x. r \<noteq> Inl (RestoreFailed e x)) \<and> disk_ok d' \<and> store_data s d' = store_data s d \<and>
      cred_view dir d' = cred_view dir d) \<or>
    (\<exists>prev d1 d2. cred_Get dir (b_Credential b) d1 = (prev, d2) \<and> files d1 = files d \<and> disk_ok d1 \<and>
      (\<forall>e. prev = Inl e \<longrightarrow> \<not> unreadable e) \<and> bind_key s dir b prev d2 = (r, d'))"
proof -
  obtain r1 d1 where g: "profile_Get s (b_Profile b) d = (r1, d1)" by (metis surj_pair)
  obtain r2 d2 where c: "CheckCredentialShare s (b_Profile b) (b_Credential b) d1 = (r2, d2)" by (metis surj_pair)
  obtain prev d3 where k: "cred_Get dir (b_Credential b) d2 = (prev, d3)" by (metis surj_pair)
  have f: "files d1 = files d" "temp_suffix d1 = temp_suffix d" "files d2 = files d" "temp_suffix d2 = temp_suffix d"
    "files d3 = files d" "temp_suffix d3 = temp_suffix d"
    using profile_Get_effect [OF g] CheckCredentialShare_effect [OF c] cred_Get_files [OF k] by auto
  note s1 = same_files_bound [of d1 d s dir] and s2 = same_files_bound [of d2 d s dir]
    and s3 = same_files_bound [of d3 d s dir]
  consider (early) "isl r" "\<forall>e x. r \<noteq> Inl (RestoreFailed e x)" "d' = d1 \<or> d' = d2 \<or> d' = d3"
    | (key) "bind_key s dir b prev d3 = (r, d')" "\<forall>e. prev = Inl e \<longrightarrow> \<not> unreadable e"
    using assms(1) g c k profile_Get_error [of s "b_Profile b" d] CheckCredentialShare_error [of s "b_Profile b" "b_Credential b" d1]
    by (auto simp: bind_tx_def checkBinding_def split: sum.splits option.splits if_splits)
  then show ?thesis
  proof cases
    case early
    then show ?thesis using f s1 s2 s3 assms(2) by auto
  next
    case key
    then show ?thesis using k f assms(2) s2 by (intro disjI2 exI [of _ prev] exI [of _ d2] exI [of _ d3]) auto
  qed
qed

subsection \<open>Binding is one transition\<close>

lemma cred_Get_missing:
  "cred_Get dir n d = (Inl e, d') \<Longrightarrow> \<not> unreadable e \<Longrightarrow> ValidateName n \<Longrightarrow> cred_view dir d n = None"
  by (auto simp: cred_Get_def cred_view_def unreadable_def os_ReadFile_def Let_def
      split: if_splits option.splits sum.splits)

text \<open>
  The errors after which something may have changed: a late permission error of one of the two
  files, a failed restore (the message says so), and the lock file's own close.
\<close>

fun clean_failure :: "store_error \<Rightarrow> bool" where
  "clean_failure (RestoreFailed _ _) = False"
| "clean_failure (StoreCredential _ e) = (\<not> late_error e)"
| "clean_failure (AssociationRestored (WriteStore (SecureFailed _))) = False"
| "clean_failure (LockRelease _) = False"
| "clean_failure _ = True"

lemma associate_effect:
  assumes "associate s p c d = (r, d')" and "disk_ok d" and "codec_ok (st_yaml s)" and "yaml_path s"
  shows "disk_ok d' \<and> (\<forall>n. ValidateName n \<longrightarrow> cred_view dir d' n = cred_view dir d n) \<and>
    (r = None \<longrightarrow> (\<exists>data e. store_data s d = Some data \<and> map_of (Profiles data) p = Some e \<and>
       store_data s d' = Some (put_entry p (e\<lparr>pe_Credential := c\<rparr>) data))) \<and>
    (\<forall>x. r = Some x \<longrightarrow> (\<forall>y. x \<noteq> WriteStore (SecureFailed y)) \<longrightarrow> store_data s d' = store_data s d)"
proof -
  obtain r1 d1 where l: "load s d = (r1, d1)" by (metis surj_pair)
  have f: "disk_ok d1" "store_data s d1 = store_data s d" "cred_view dir d1 = cred_view dir d"
    and sd: "\<forall>data. r1 = Inr data \<longrightarrow> store_data s d = Some data"
    using load_effect [OF l] same_files_bound [of d1 d s dir] assms(2) by auto
  show ?thesis
  proof (cases "\<exists>data e. r1 = Inr data \<and> ValidateName c \<and> map_of (Profiles data) p = Some e \<and>
      sharedConflict data p c (pe_ControlURL e) = None")
    case False
    then show ?thesis using assms l f by (auto simp: associate_def split: if_splits sum.splits option.splits)
  next
    case True
    then obtain data e where t: "r1 = Inr data" "ValidateName c" "map_of (Profiles data) p = Some e"
      "sharedConflict data p c (pe_ControlURL e) = None" by blast
    have sv: "save s (put_entry p (e\<lparr>pe_Credential := c\<rparr>) data) d1 = (r, d')"
      using assms(1) l t by (simp add: associate_def)
    show ?thesis
      using save_effect [OF sv f(1) assms(3)] save_creds [OF sv f(1) assms(3,4)] f sd t by auto
  qed
qed

lemma bind_key_done:
  assumes "bind_key s dir b prev d = (Inr (), d')" and "disk_ok d" and "codec_ok (st_yaml s)" and "yaml_path s"
  shows "(\<exists>data e. store_data s d = Some data \<and> map_of (Profiles data) (b_Profile b) = Some e \<and>
      store_data s d' = Some (put_entry (b_Profile b) (e\<lparr>pe_Credential := b_Credential b\<rparr>) data)) \<and>
    cred_view dir d' (b_Credential b) = norm_key (b_Key b) \<and> norm_key (b_Key b) \<noteq> None"
proof -
  obtain d1 where c: "cred_Set dir (b_Credential b) (b_Key b) (b_Replace b) d = (None, d1)"
    and a: "associate s (b_Profile b) (b_Credential b) d1 = (None, d')"
    using assms(1) by (auto simp: bind_key_def split: prod.splits option.splits)
  have v: "ValidateName (b_Credential b)" using c by (auto simp: cred_Set_def split: if_splits)
  have d1: "disk_ok d1" "store_data s d1 = store_data s d"
    using creds.store_invar [OF assms(2) c] cred_Set_store [OF c assms(2,4)] by auto
  show ?thesis
    using creds.store_done [OF assms(2) c] associate_effect [OF a d1(1) assms(3,4)] d1(2) v by auto
qed

lemma bind_key_undone:
  assumes "bind_key s dir b prev d2 = (Inl err, d')" and "clean_failure err"
    and "cred_Get dir (b_Credential b) d1 = (prev, d2)" and "disk_ok d1"
    and "\<forall>e. prev = Inl e \<longrightarrow> \<not> unreadable e" and "codec_ok (st_yaml s)" and "yaml_path s"
  shows "store_data s d' = store_data s d1 \<and> (\<forall>n. ValidateName n \<longrightarrow> cred_view dir d' n = cred_view dir d1 n)"
proof -
  let ?c = "b_Credential b"
  have g: "disk_ok d2" "cred_view dir d2 = cred_view dir d1" "store_data s d2 = store_data s d1"
    using same_files_bound [of d2 d1 s dir] cred_Get_files [OF assms(3)] assms(4) by auto
  obtain r3 d3 where c: "cred_Set dir ?c (b_Key b) (b_Replace b) d2 = (r3, d3)" by (metis surj_pair)
  have s3: "disk_ok d3" "store_data s d3 = store_data s d1"
    using creds.store_invar [OF g(1) c] cred_Set_store [OF c g(1) assms(7)] g(3) by auto
  show ?thesis
  proof (cases r3)
    case (Some e)
    then have "\<not> late_error e" using assms(1,2) c by (auto simp: bind_key_def)
    then show ?thesis
      using creds.store_failed [OF g(1) c [unfolded Some]] assms(1) c Some s3 g(2) by (auto simp: bind_key_def)
  next
    case None
    then have v: "ValidateName ?c" using c by (auto simp: cred_Set_def split: if_splits)
    obtain r4 d4 where a: "associate s (b_Profile b) ?c d3 = (r4, d4)" by (metis surj_pair)
    note ae = associate_effect [OF a s3(1) assms(6,7), of dir]
    obtain d5 ae4 where r: "r4 = Some ae4" "err = AssociationRestored ae4"
      "restore_key dir ?c prev d4 = (None, d')"
      using assms(1,2) c None a by (auto simp: bind_key_def split: option.splits prod.splits)
    then have st: "store_data s d4 = store_data s d1"
      using ae s3(2) assms(2) by (cases "\<exists>y. ae4 = WriteStore (SecureFailed y)") auto
    have d4: "disk_ok d4" "\<forall>n. ValidateName n \<longrightarrow> cred_view dir d4 n = cred_view dir d3 n" using ae by auto
    have st': "store_data s d' = store_data s d4"
      using r(3) cred_Set_store [OF _ d4(1) assms(7)] cred_Remove_store [OF _ assms(7)]
      by (auto simp: restore_key_def split: sum.splits)
    show ?thesis
    proof (cases prev)
      case (Inr old)
      then have u: "cred_Set dir ?c old True d4 = (None, d')" using r(3) by (simp add: restore_key_def)
      have "\<forall>n. ValidateName n \<longrightarrow> cred_view dir d' n = cred_view dir d1 n"
        by (rule creds.store_undone [OF assms(4) assms(3) [unfolded Inr] c [unfolded None] d4(2,1) u])
      then show ?thesis using st st' by simp
    next
      case (Inl e)
      then have u: "cred_Remove dir ?c d4 = (None, d')" using r(3) by (simp add: restore_key_def)
      have m: "cred_view dir d2 ?c = None"
        using cred_Get_missing [of dir ?c d1 e d2] assms(3,5) Inl v g(2) by simp
      have "\<forall>n. ValidateName n \<longrightarrow> cred_view dir d' n = cred_view dir d2 n"
        by (rule creds.insert_undone [OF g(1) m c [unfolded None] d4(2,1) u])
      then show ?thesis using st st' g(2) by simp
    qed
  qed
qed

lemma Update_cases:
  assumes "Update lr fn d = Some (r, d')"
  shows "(isl r \<and> d' = d \<and> (r = Inl StoreBusy \<or> (\<exists>e. r = Inl (LockStore e)))) \<or> fn d = (r, d') \<or> (\<exists>e x. r = Inl (LockRelease e) \<and> fn d = (x, d'))"
proof -
  have lk: "lockStore t tries = Some (Inl e) \<Longrightarrow> e = StoreBusy \<or> (\<exists>x. e = LockStore x)" for t tries e
    by (induction t tries rule: lockStore.induct) (auto split: lock_try.splits if_splits)
  show ?thesis
    using assms lk [of "lr_start lr + storeLockWait" "lr_tries lr"] by (auto simp: Update_def split: option.splits sum.splits prod.splits if_splits)
qed

lemma BindCredential_outcome:
  assumes "disk_ok d" and "codec_ok (st_yaml s)" and "yaml_path s"
    and "BindCredential s dir lr b d = Some (r, d')"
  shows "case r of
      Inr _ \<Rightarrow>
        (\<exists>data e. store_data s d = Some data \<and> map_of (Profiles data) (b_Profile b) = Some e \<and>
           store_data s d' = Some (put_entry (b_Profile b) (e\<lparr>pe_Credential := b_Credential b\<rparr>) data)) \<and>
        cred_view dir d' (b_Credential b) = norm_key (b_Key b) \<and> norm_key (b_Key b) \<noteq> None
    | Inl err \<Rightarrow> clean_failure err \<longrightarrow>
        store_data s d' = store_data s d \<and>
        (\<forall>n. ValidateName n \<longrightarrow> cred_view dir d' n = cred_view dir d n)"
proof -
  consider "isl r" "d' = d" | "bind_tx s dir b d = (r, d')" | e where "r = Inl (LockRelease e)"
    using Update_cases [OF assms(4) [unfolded BindCredential_def]] by auto
  then show ?thesis
  proof cases
    case 2
    from bind_tx_cases [OF 2 assms(1)] consider
      (same) "isl r" "store_data s d' = store_data s d" "cred_view dir d' = cred_view dir d"
      | (key) prev d1 d2 where "cred_Get dir (b_Credential b) d1 = (prev, d2)" "files d1 = files d" "disk_ok d1"
          "\<forall>e. prev = Inl e \<longrightarrow> \<not> unreadable e" "bind_key s dir b prev d2 = (r, d')" by blast
    then show ?thesis
    proof cases
      case key
      have v: "store_data s d1 = store_data s d" "cred_view dir d1 = cred_view dir d"
        using key(2) store_data_files cred_view_files by metis+
      have g: "disk_ok d2" "store_data s d2 = store_data s d"
        using same_files_bound [of d2 d1 s dir] cred_Get_files [OF key(1)] key(3) v(1) by auto
      show ?thesis
      proof (cases r)
        case (Inl err)
        then show ?thesis
          using bind_key_undone [OF _ _ key(1,3,4) assms(2,3), of err d'] key(5) v by simp
      next
        case (Inr u)
        then show ?thesis
          using bind_key_done [OF _ g(1) assms(2,3), of dir b prev d'] key(5) g(2) by simp
      qed
    qed (auto simp: isl_def)
  qed (auto simp: isl_def)
qed


subsection \<open>A concrete codec\<close>

text \<open>
  An encoding with the law that the store relies on, used to evaluate the transitions on
  concrete disks: every field is written character by character with an escape and ended by a
  full stop.
\<close>

definition enc_str :: "string \<Rightarrow> string" where
  "enc_str s = concat (map (\<lambda>c. [CHR ''c'', c]) s) @ ''.''"

fun dec_strs :: "string \<Rightarrow> string \<Rightarrow> string list option" where
  "dec_strs acc [] = (if acc = [] then Some [] else None)"
| "dec_strs acc [x] = (if x = CHR ''.'' then Some [acc] else None)"
| "dec_strs acc (x # y # rest) =
     (if x = CHR ''.'' then map_option (\<lambda>r. acc # r) (dec_strs [] (y # rest))
      else dec_strs (acc @ [y]) rest)"

definition entry_fields :: "string \<times> profileEntry \<Rightarrow> string list" where
  "entry_fields p = (case p of (n, e) \<Rightarrow>
     [n, pe_Target e, pe_ControlURL e, pe_Credential e, rt_BootstrapSSH (pe_Runtime e),
      rt_BootstrapSOCKSAddr (pe_Runtime e), rt_Hostname (pe_Runtime e), rt_StateDir (pe_Runtime e),
      rt_LocalAddr (pe_Runtime e), rt_HealthAddr (pe_Runtime e)])"

fun entries_of :: "string list \<Rightarrow> (string \<times> profileEntry) list option" where
  "entries_of [] = Some []"
| "entries_of (n # t # u # c # a # b # h # sd # l # ha # rest) =
     map_option (\<lambda>es. (n, \<lparr>pe_Target = t, pe_ControlURL = u, pe_Credential = c,
        pe_Runtime = \<lparr>rt_BootstrapSSH = a, rt_BootstrapSOCKSAddr = b, rt_Hostname = h, rt_StateDir = sd,
          rt_LocalAddr = l, rt_HealthAddr = ha\<rparr>\<rparr>) # es) (entries_of rest)"
| "entries_of _ = None"

definition plain_codec :: yaml_codec where
  "plain_codec = \<lparr>
     yaml_Marshal = (\<lambda>f. Some (concat (map enc_str
        (Itoa (DescriptorVersion f) # concat (map entry_fields (Profiles f)))))),
     yaml_Unmarshal = (\<lambda>s. case dec_strs [] s of
        Some (v # fs) \<Rightarrow>
          (case (atoi_signed v, entries_of fs) of
             (Some n, Some es) \<Rightarrow> Some \<lparr>DescriptorVersion = n, Profiles = es\<rparr>
           | _ \<Rightarrow> None)
      | _ \<Rightarrow> None)\<rparr>"

lemma dec_strs_dot: "dec_strs acc (CHR ''.'' # rest) = map_option (\<lambda>r. acc # r) (dec_strs [] rest)"
  by (cases rest) simp_all

lemma dec_enc_str: "dec_strs acc (enc_str s @ rest) = map_option (\<lambda>r. (acc @ s) # r) (dec_strs [] rest)"
  by (induction s arbitrary: acc) (simp_all add: enc_str_def dec_strs_dot)

lemma dec_enc_strs: "dec_strs [] (concat (map enc_str ss)) = Some ss"
  by (induction ss) (simp_all add: dec_enc_str)

lemma entries_of_fields: "entries_of (concat (map entry_fields ps)) = Some ps"
  by (induction ps) (auto simp: entry_fields_def)

lemma plain_codec_ok: "codec_ok plain_codec"
proof -
  have "dec_strs [] (concat (map enc_str (v # fs))) = Some (v # fs)" for v fs by (rule dec_enc_strs)
  then show ?thesis
    by (simp add: codec_ok_def plain_codec_def entries_of_fields atoi_signed_Itoa)
qed

definition sample_store :: store where
  "sample_store = \<lparr>st_path = ''/c/p.yaml'', st_yaml = plain_codec\<rparr>"

definition sample_document :: storeFile where
  "sample_document = \<lparr>DescriptorVersion = 1,
     Profiles = [(''w'', zero_entry\<lparr>pe_Target := ''h:22'', pe_ControlURL := ''https://x''\<rparr>)]\<rparr>"

definition sample_state :: "(nat \<Rightarrow> bool) \<Rightarrow> disk" where
  "sample_state plan =
     (sample_disk plan)\<lparr>files := [''/c/p.yaml'' \<mapsto>
        \<lparr>f_data = the (yaml_Marshal plain_codec sample_document), f_mode = 384\<rparr>]\<rparr>"

definition sample_binding :: Binding where
  "sample_binding = \<lparr>b_Profile = ''w'', b_Credential = ''k'', b_Key = ''hskey-a'', b_Replace = False,
     b_ControlURL = ''https://X/''\<rparr>"

definition free_lock :: lock_run where
  "free_lock = \<lparr>lr_start = 0, lr_tries = [(LockHeld, 5), (Locked, 30)], lr_close_ok = True\<rparr>"

lemma sample_state_ok: "disk_ok (sample_state plan)" "codec_ok (st_yaml sample_store)" "yaml_path sample_store"
  by (simp_all add: sample_state_def sample_disk_def disk_ok_def sample_store_def plain_codec_ok
      yaml_path_def HasSuffix_iff)

lemma sample_bind_runs:
  "map_option fst (BindCredential sample_store ''/c'' free_lock sample_binding (sample_state (\<lambda>_. False)))
     = Some (Inr ())"
  by code_simp


subsection \<open>Every history of the store\<close>

lemma Update_keeps:
  assumes "Update lr fn d = Some (r, d')" and "P d" and "\<And>x e. fn d = (x, e) \<Longrightarrow> P e"
  shows "P d'"
  using Update_cases [OF assms(1)] assms(2,3) by auto

lemma removeKey_keeps:
  assumes "removeKey dir n dangling d = (r, d')" and "disk_ok d" and "yaml_path s" and "store_bound s d"
  shows "disk_ok d' \<and> store_bound s d'"
proof -
  have "\<exists>x. cred_Remove dir n d = (x, d')"
    using assms(1)
    by (auto simp: removeKey_def split: prod.splits option.splits cred_error.splits fs_error.splits if_splits)
  then show ?thesis using cred_Remove_keeps [OF _ assms(2-4)] by blast
qed

lemma clear_all_keeps:
  assumes "clear_all s ps d = (r, d')" and "disk_ok d" and "codec_ok (st_yaml s)" and "store_bound s d"
  shows "disk_ok d' \<and> store_bound s d'"
  using assms(1,2,4)
proof (induction ps arbitrary: d)
  case (Cons p ps)
  obtain r1 d1 where u: "updateCredential s p [] d = (r1, d1)" by (metis surj_pair)
  note k = updateCredential_bound [OF u Cons.prems(2) assms(3) Cons.prems(3)]
  show ?case using Cons.prems(1) u k Cons.IH by (cases r1) auto
qed simp

lemma removeReferenced_keeps:
  assumes "removeReferenced s dir rm n refs d = (r, d')" and "disk_ok d" and "codec_ok (st_yaml s)"
    and "yaml_path s" and "store_bound s d"
  shows "disk_ok d' \<and> store_bound s d'"
proof -
  obtain r1 d1 where k: "removeKey dir n (0 < length refs) d = (r1, d1)" by (metis surj_pair)
  note k1 = removeKey_keeps [OF k assms(2,4,5)]
  obtain r2 d2 where u: "updateCredential s (r_Profile rm) [] d = (r2, d2)" by (metis surj_pair)
  obtain r3 d3 where w: "updateCredential s (r_Profile rm) [] d1 = (r3, d3)" by (metis surj_pair)
  obtain r4 d4 where c: "clear_all s refs d1 = (r4, d4)" by (metis surj_pair)
  have "d' = d \<or> d' = d1 \<or> d' = d2 \<or> d' = d3 \<or> d' = d4"
    using assms(1) k u w c by (auto simp: removeReferenced_def split: if_splits option.splits)
  then show ?thesis
    using assms(2,5) k1 updateCredential_bound [OF u assms(2,3,5)] updateCredential_bound [OF w _ assms(3)]
      clear_all_keeps [OF c _ assms(3)] by blast
qed

lemma removalTarget_files: "removalTarget s rm d = (r, d') \<Longrightarrow> files d' = files d \<and> temp_suffix d' = temp_suffix d"
  by (auto simp: removalTarget_def dest!: profile_Get_effect split: if_splits prod.splits sum.splits)

lemma referencesTo_files: "referencesTo s n d = (r, d') \<Longrightarrow> files d' = files d \<and> temp_suffix d' = temp_suffix d"
  by (auto simp: referencesTo_def ListProfiles_def dest!: load_effect split: prod.splits sum.splits)

lemma unbind_tx_keeps:
  assumes "unbind_tx s dir rm d = (r, d')" and "disk_ok d" and "codec_ok (st_yaml s)"
    and "yaml_path s" and "store_bound s d"
  shows "disk_ok d' \<and> store_bound s d'"
proof -
  obtain r1 d1 where t: "removalTarget s rm d = (r1, d1)" by (metis surj_pair)
  have 1: "disk_ok d1" "store_bound s d1"
    using removalTarget_files [OF t] same_files_bound [of d1 d s dir] store_bound_data [of s d1 d] assms(2,5) by auto
  show ?thesis
  proof (cases r1)
    case (Inl e)
    then show ?thesis using assms(1) t 1 by (simp add: unbind_tx_def)
  next
    case (Inr n)
    obtain r2 d2 where f: "referencesTo s n d1 = (r2, d2)" by (metis surj_pair)
    have 2: "disk_ok d2" "store_bound s d2"
      using referencesTo_files [OF f] same_files_bound [of d2 d1 s dir] store_bound_data [of s d2 d1] 1 by auto
    show ?thesis
    proof (cases r2)
      case (Inl e)
      then show ?thesis using assms(1) t Inr f 2 by (simp add: unbind_tx_def)
    next
      case refs: (Inr refs)
      obtain r3 where "removeReferenced s dir rm n refs d2 = (r3, d')"
        using assms(1) t Inr f refs by (auto simp: unbind_tx_def split: prod.splits sum.splits)
      from removeReferenced_keeps [OF this 2(1) assms(3,4) 2(2)] show ?thesis .
    qed
  qed
qed

lemma bind_tx_keeps:
  assumes "bind_tx s dir b d = (r, d')" and "disk_ok d" and "codec_ok (st_yaml s)"
    and "yaml_path s" and "store_bound s d"
  shows "disk_ok d' \<and> store_bound s d'"
proof -
  from bind_tx_cases [OF assms(1,2)] consider
    "disk_ok d'" "store_data s d' = store_data s d"
    | prev d1 d2 where "cred_Get dir (b_Credential b) d1 = (prev, d2)" "files d1 = files d" "disk_ok d1"
        "bind_key s dir b prev d2 = (r, d')" by blast
  then show ?thesis
  proof cases
    case 1
    then show ?thesis using assms(5) store_bound_data by blast
  next
    case (2 prev d1 d2)
    have "disk_ok d2" "store_bound s d2"
      using same_files_bound [of d2 d1 s dir] cred_Get_files [OF 2(1)] 2(2,3) store_data_files [of d2 d s]
        store_bound_data [of s d2 d] assms(5) by auto
    from bind_key_keeps [OF 2(4) this(1) assms(3,4) this(2)] show ?thesis .
  qed
qed

text \<open>
  A history is any interleaving of the mutating commands, each with its own lock run, its own
  inputs and its own faults.
\<close>

inductive profile_step :: "store \<Rightarrow> string \<Rightarrow> disk \<Rightarrow> disk \<Rightarrow> bool" for s :: store and dir :: string where
  import: "Import s lr name desc force d = Some (r, d') \<Longrightarrow> profile_step s dir d d'"
| set: "profile_Set s lr name target url d = Some (r, d') \<Longrightarrow> profile_step s dir d d'"
| configure: "Configure s lr name sel force d = Some (r, d') \<Longrightarrow> profile_step s dir d d'"
| set_credential: "SetCredential s lr name c d = Some (u, d') \<Longrightarrow> profile_step s dir d d'"
| clear_credential: "ClearCredential s lr name d = Some (u, d') \<Longrightarrow> profile_step s dir d d'"
| bind: "BindCredential s dir lr b d = Some (u, d') \<Longrightarrow> profile_step s dir d d'"
| unbind: "UnbindCredential s dir lr rm d = Some (v, d') \<Longrightarrow> profile_step s dir d d'"

inductive_cases profile_step_E: "profile_step s dir d d'"

lemma profile_step_keeps:
  assumes "profile_step s dir d d'" and "disk_ok d \<and> store_bound s d" and "codec_ok (st_yaml s)" and "yaml_path s"
  shows "disk_ok d' \<and> store_bound s d'"
  using assms(1)
proof cases
  case (import lr name desc force r)
  then show ?thesis
    using Update_keeps [where P = "\<lambda>d. disk_ok d \<and> store_bound s d"] importEntry_bound [OF _ _ assms(3)] assms(2)
    unfolding Import_def by blast
next
  case (set lr name target url r)
  then show ?thesis
    using Update_keeps [where P = "\<lambda>d. disk_ok d \<and> store_bound s d"] setEntry_bound [OF _ _ assms(3)] assms(2)
    unfolding profile_Set_def profile_set_def by blast
next
  case (configure lr name sel force r)
  then have "d' = d \<or> (\<exists>r. profile_set s lr name (pe_Target sel) (pe_ControlURL sel) (Some (pe_Runtime sel)) force d = Some (r, d'))"
    by (auto simp: Configure_def Let_def split: if_splits)
  then show ?thesis
    using Update_keeps [where P = "\<lambda>d. disk_ok d \<and> store_bound s d"] setEntry_bound [OF _ _ assms(3)] assms(2)
    unfolding profile_set_def by blast
next
  case (set_credential lr name c u)
  show ?thesis
    by (rule Update_keeps [OF set_credential [unfolded SetCredential_def]])
      (use associate_bound [OF _ _ assms(3)] assms(2) in \<open>auto split: prod.splits\<close>)
next
  case (clear_credential lr name u)
  show ?thesis
    by (rule Update_keeps [OF clear_credential [unfolded ClearCredential_def]])
      (use updateCredential_bound [OF _ _ assms(3)] assms(2) in \<open>auto split: prod.splits\<close>)
next
  case (bind lr b u)
  then show ?thesis
    using Update_keeps [where P = "\<lambda>d. disk_ok d \<and> store_bound s d"] bind_tx_keeps [OF _ _ assms(3,4)] assms(2)
    unfolding BindCredential_def by blast
next
  case (unbind lr rm v)
  then show ?thesis
    using Update_keeps [where P = "\<lambda>d. disk_ok d \<and> store_bound s d"] unbind_tx_keeps [OF _ _ assms(3,4)] assms(2)
    unfolding UnbindCredential_def by blast
qed

lemma profile_history_keeps:
  assumes "(profile_step s dir)\<^sup>*\<^sup>* d d'" and "disk_ok d" and "codec_ok (st_yaml s)" and "yaml_path s"
    and "files d (st_path s) = None"
  shows "disk_ok d' \<and> store_bound s d'"
proof -
  have "disk_ok d \<and> store_bound s d"
    using assms(2,5) by (auto simp: store_bound_def store_data_def empty_store_def credentials_bound_def)
  with assms(1) show ?thesis
    by (induction rule: rtranclp_induct) (auto dest: profile_step_keeps [OF _ _ assms(3,4)])
qed

text \<open>
  C33: a managed credential never follows a profile to another control plane. From a store with
  no profiles, after any history of imports, edits, bindings and removals, by any number of
  commands and with any system calls failing, two profiles that reference the same credential
  name are on the same control plane.
\<close>

theorem credentials_stay_on_their_control_plane:
  assumes "(profile_step s dir)\<^sup>*\<^sup>* d d'" and "disk_ok d" and "codec_ok (st_yaml s)" and "yaml_path s"
    and "files d (st_path s) = None" and "store_data s d' = Some data"
    and "map_of (Profiles data) p = Some e" and "map_of (Profiles data) q = Some f"
    and "pe_Credential e \<noteq> []" and "pe_Credential f = pe_Credential e"
  shows "SameControlURL (pe_ControlURL e) (pe_ControlURL f)"
  using profile_history_keeps [OF assms(1-5)] assms(6-10) unfolding store_bound_def credentials_bound_def by blast

text \<open>Two imports on one control plane, a binding, and a second profile sharing the credential.\<close>

definition sample_desc :: "string \<Rightarrow> Descriptor" where
  "sample_desc url = \<lparr>Host = ''h'', Port = 22, ControlURL = url, Version = 1\<rparr>"

definition h1 :: disk where
  "h1 = snd (the (Import sample_store free_lock ''a'' (sample_desc ''https://x'') False sample_keys))"

definition h2 :: disk where
  "h2 = snd (the (Import sample_store free_lock ''b'' (sample_desc ''https://X/'') False h1))"

definition h3 :: disk where
  "h3 = snd (the (BindCredential sample_store ''/c'' free_lock (sample_binding\<lparr>b_Profile := ''a''\<rparr>) h2))"

definition h4 :: disk where
  "h4 = snd (the (SetCredential sample_store free_lock ''b'' ''k'' h3))"

lemma Update_free_lock: "Update free_lock fn d = Some (fn d)"
  by (simp add: Update_def free_lock_def storeLockWait_def split: prod.splits)

lemma sample_history_h2: "(profile_step sample_store ''/c'')\<^sup>*\<^sup>* sample_keys h2"
proof -
  have 1: "profile_step sample_store ''/c'' sample_keys h1"
    by (rule profile_step.import [where lr = free_lock and name = "''a''" and
        desc = "sample_desc ''https://x''" and force = False and
        r = "fst (importEntry sample_store ''a'' (sample_desc ''https://x'') False sample_keys)"])
      (simp add: Import_def Update_free_lock h1_def)
  have 2: "profile_step sample_store ''/c'' h1 h2"
    by (rule profile_step.import [where lr = free_lock and name = "''b''" and
        desc = "sample_desc ''https://X/''" and force = False and
        r = "fst (importEntry sample_store ''b'' (sample_desc ''https://X/'') False h1)"])
      (simp add: Import_def Update_free_lock h2_def)
  from 1 2 show ?thesis by (meson converse_rtranclp_into_rtranclp rtranclp.rtrancl_refl)
qed

lemma sample_history: "(profile_step sample_store ''/c'')\<^sup>*\<^sup>* sample_keys h4"
proof -
  have 3: "profile_step sample_store ''/c'' h2 h3"
    by (rule profile_step.bind [where lr = free_lock and b = "sample_binding\<lparr>b_Profile := ''a''\<rparr>" and
        u = "fst (bind_tx sample_store ''/c'' (sample_binding\<lparr>b_Profile := ''a''\<rparr>) h2)"])
      (simp add: BindCredential_def Update_free_lock h3_def)
  have 4: "profile_step sample_store ''/c'' h3 h4"
    by (rule profile_step.set_credential [where lr = free_lock and name = "''b''" and c = "''k''" and
        u = "fst (the (SetCredential sample_store free_lock ''b'' ''k'' h3))"])
      (simp add: SetCredential_def Update_free_lock h4_def)
  from sample_history_h2 3 4 show ?thesis by (meson rtranclp.rtrancl_into_rtrancl)
qed

lemma sample_history_end:
  "map_option (\<lambda>data. (map_option pe_Credential (map_of (Profiles data) ''a''),
     map_option pe_Credential (map_of (Profiles data) ''b''))) (store_data sample_store h4) = Some (Some ''k'', Some ''k'')"
  by code_simp

theorem credentials_stay_on_their_control_plane_witness:
  "\<exists>data e f. store_data sample_store h4 = Some data \<and> map_of (Profiles data) ''a'' = Some e \<and>
     map_of (Profiles data) ''b'' = Some f \<and> pe_Credential e = ''k'' \<and> pe_Credential f = ''k'' \<and>
     SameControlURL (pe_ControlURL e) (pe_ControlURL f)"
proof -
  obtain data e f where d: "store_data sample_store h4 = Some data" "map_of (Profiles data) ''a'' = Some e"
    "map_of (Profiles data) ''b'' = Some f" "pe_Credential e = ''k''" "pe_Credential f = ''k''"
    using sample_history_end by (auto simp: map_option_eq_Some)
  have "disk_ok sample_keys" "files sample_keys (st_path sample_store) = None"
    by (simp_all add: sample_keys_def sample_disk_def disk_ok_def)
  then show ?thesis
    using credentials_stay_on_their_control_plane [OF sample_history _ sample_state_ok(2,3) _ d(1-3)] d by simp
qed

subsection \<open>Removal leaves no dangling reference\<close>

lemma updateCredential_done:
  assumes "updateCredential s p c d = (None, d')" and "disk_ok d" and "codec_ok (st_yaml s)" and "yaml_path s"
  shows "disk_ok d' \<and> (\<forall>n. ValidateName n \<longrightarrow> cred_view dir d' n = cred_view dir d n) \<and>
    (\<exists>data e. store_data s d = Some data \<and> map_of (Profiles data) p = Some e \<and>
       store_data s d' = Some (put_entry p (e\<lparr>pe_Credential := c\<rparr>) data))"
proof -
  obtain data d1 e where l: "load s d = (Inr data, d1)" and e: "map_of (Profiles data) p = Some e"
    and sv: "save s (put_entry p (e\<lparr>pe_Credential := c\<rparr>) data) d1 = (None, d')"
    using assms(1) by (auto simp: updateCredential_def split: prod.splits sum.splits option.splits)
  have f: "disk_ok d1" "cred_view dir d1 = cred_view dir d" "store_data s d = Some data"
    using load_effect [OF l] same_files_bound [of d1 d s dir] assms(2) by auto
  show ?thesis
    using save_effect [OF sv f(1) assms(3)] save_creds [OF sv f(1) assms(3,4)] f e by auto
qed

definition cleared :: "string list \<Rightarrow> storeFile \<Rightarrow> storeFile \<Rightarrow> bool" where
  "cleared ps data data' \<longleftrightarrow> (\<forall>q. map_of (Profiles data') q =
     (if q \<in> set ps then map_option (\<lambda>e. e\<lparr>pe_Credential := []\<rparr>) (map_of (Profiles data) q)
      else map_of (Profiles data) q))"

lemma clear_all_done:
  assumes "clear_all s ps d = (None, d')" and "disk_ok d" and "codec_ok (st_yaml s)" and "yaml_path s"
    and "store_data s d = Some data"
  shows "(\<forall>n. ValidateName n \<longrightarrow> cred_view dir d' n = cred_view dir d n) \<and>
    (\<exists>data'. store_data s d' = Some data' \<and> cleared ps data data')"
  using assms(1,2,5)
proof (induction ps arbitrary: d data)
  case Nil
  then show ?case by (simp add: cleared_def)
next
  case (Cons p ps)
  obtain d1 where u: "updateCredential s p [] d = (None, d1)" and c: "clear_all s ps d1 = (None, d')"
    using Cons.prems(1) by (auto split: prod.splits option.splits)
  note ud = updateCredential_done [OF u Cons.prems(2) assms(3,4), of dir]
  then obtain e where e: "map_of (Profiles data) p = Some e"
    "store_data s d1 = Some (put_entry p (e\<lparr>pe_Credential := []\<rparr>) data)" using Cons.prems(3) by auto
  have "disk_ok d1" using ud by blast
  from Cons.IH [OF c this e(2)] obtain data' where d': "store_data s d' = Some data'"
    "cleared ps (put_entry p (e\<lparr>pe_Credential := []\<rparr>) data) data'"
    "\<forall>n. ValidateName n \<longrightarrow> cred_view dir d' n = cred_view dir d1 n" by blast
  have "cleared (p # ps) data data'" using d'(2) e(1) by (auto simp: cleared_def)
  then show ?case using d' ud by auto
qed

lemma removeKey_done:
  assumes "removeKey dir n dangling d = (None, d')" and "disk_ok d" and "yaml_path s"
  shows "disk_ok d' \<and> store_data s d' = store_data s d \<and> (ValidateName n \<longrightarrow> cred_view dir d' n = None)"
proof -
  obtain x where x: "cred_Remove dir n d = (x, d')" "x = None \<or> (\<exists>m. x = Some (RemoveCredential m NotExist))"
    using assms(1)
    by (auto simp: removeKey_def split: prod.splits option.splits cred_error.splits fs_error.splits if_splits)
  have "cred_view dir d' n = None" if v: "ValidateName n"
  proof (cases x)
    case None
    then show ?thesis using creds.discard_done [OF assms(2)] x(1) v by simp
  next
    case (Some e)
    then have "files d' (cred_path dir n) = None"
      using x v by (auto simp: cred_Remove_def os_Remove_def syscall_def Let_def split: if_splits)
    then show ?thesis by (simp add: cred_view_def)
  qed
  then show ?thesis using creds.discard_invar [OF assms(2) x(1)] cred_Remove_store [OF x(1) assms(3)] by blast
qed

lemma referencesTo_done:
  "referencesTo s n d = (Inr refs, d') \<Longrightarrow> \<exists>data. store_data s d = Some data \<and>
     (\<forall>q e. map_of (Profiles data) q = Some e \<longrightarrow> pe_Credential e = n \<longrightarrow> q \<in> set refs)"
  by (force simp: referencesTo_def ListProfiles_def dest!: load_effect dest: map_of_SomeD
      split: prod.splits sum.splits)

lemma removalTarget_profile:
  "removalTarget s rm d = (Inr n, d') \<Longrightarrow> r_Profile rm \<noteq> [] \<Longrightarrow> r_Credential rm = [] \<Longrightarrow>
   \<exists>data e. store_data s d = Some data \<and> map_of (Profiles data) (r_Profile rm) = Some e \<and> pe_Credential e = n"
  by (auto simp: removalTarget_def dest!: profile_Get_effect split: if_splits prod.splits sum.splits)


lemma sample_unbind_runs:
  "map_option fst (UnbindCredential sample_store ''/c'' free_lock \<lparr>r_Credential = ''k'', r_Profile = [], r_Force = True\<rparr> h4)
     = Some (Inr (''k'', Removed))"
  by code_simp

lemma h4_ok: "disk_ok h4"
proof -
  have "disk_ok sample_keys \<and> store_bound sample_store sample_keys"
    by (auto simp: sample_keys_def sample_disk_def disk_ok_def store_bound_def store_data_def empty_store_def
        credentials_bound_def)
  with sample_history have "disk_ok h4 \<and> store_bound sample_store h4"
    by (induction rule: rtranclp_induct) (auto dest: profile_step_keeps [OF _ _ sample_state_ok(2,3)])
  then show ?thesis by blast
qed


end
