(* ===== verification/Env_File.thy ===== *)
theory Env_File
  imports Profiles Instance
begin

text \<open>
  \<open>internal/config/envfile/envfile.go\<close>: the \<open>.env\<close> reader and loader. The file is read in one
  step of the disk; \<open>bufio.Scanner\<close> gives its lines without the line feed and one carriage
  return before it, and fails on a line of 64 KiB or more. The map of values is an association
  list with one entry per key.
\<close>

subsection \<open>Lines\<close>

definition LF :: char where "LF = CHR 10"

definition dropCR :: "string \<Rightarrow> string" where
  "dropCR l = (if l \<noteq> [] \<and> last l = CHR 13 then butlast l else l)"

definition raw_lines :: "string \<Rightarrow> string list" where
  "raw_lines s = (let ls = split_on LF s in if last ls = [] then butlast ls else ls)"

definition maxToken :: nat where "maxToken = 65536"

subsection \<open>Values and Load\<close>

datatype env_error = EnvOpen fs_error | LineTooLong

definition strip_quotes :: "string \<Rightarrow> string" where
  "strip_quotes v =
     (if 2 \<le> length v \<and> (hd v = CHR 34 \<and> last v = CHR 34 \<or> hd v = CHR 39 \<and> last v = CHR 39)
      then butlast (tl v) else v)"

text \<open>One line of the loop: a key and its value, or nothing for a blank, a comment or a line whose
  first equals sign is missing or at the start.\<close>

definition env_line :: "string \<Rightarrow> (string \<times> string) option" where
  "env_line l =
     (let line = TrimSpace l in
      if line = [] \<or> HasPrefix line ''#'' then None
      else (case cut CHR ''='' line of
              (k, v, found) \<Rightarrow>
                if \<not> found \<or> k = [] then None
                else Some (TrimSpace k, strip_quotes (TrimSpace v))))"

fun env_lines :: "string list \<Rightarrow> (string \<times> string) list \<Rightarrow> (string \<times> string) list" where
  "env_lines [] values = values"
| "env_lines (l # ls) values =
     env_lines ls (case env_line l of None \<Rightarrow> values | Some (k, v) \<Rightarrow> AList.update k v values)"

definition Values_of :: "string \<Rightarrow> (env_error, (string \<times> string) list) result" where
  "Values_of content =
     (let ls = raw_lines content in
      if list_ex (\<lambda>l. maxToken \<le> length l) ls then Inl LineTooLong else Inr (env_lines (map dropCR ls) []))"

definition Values :: "string \<Rightarrow> disk \<Rightarrow> (env_error, (string \<times> string) list) result \<times> disk" where
  "Values path d =
     (case os_ReadFile path d of
        (Inl NotExist, d1) \<Rightarrow> (Inr [], d1)
      | (Inl e, d1) \<Rightarrow> (Inl (EnvOpen e), d1)
      | (Inr content, d1) \<Rightarrow> (Values_of content, d1))"

text \<open>\<open>os.Setenv\<close> fails on an empty key, a key with an equals sign or a NUL byte, or a value with a
  NUL byte; the loader ignores that.\<close>

definition Setenv :: "string \<times> string \<Rightarrow> os_env \<Rightarrow> os_env" where
  "Setenv kv E =
     (case kv of (k, v) \<Rightarrow>
        if k = [] \<or> CHR ''='' \<in> set k \<or> CHR 0x00 \<in> set k \<or> CHR 0x00 \<in> set v then E
        else E\<lparr>Getenv := (Getenv E)(k := v)\<rparr>)"

definition envfile_Load :: "string \<Rightarrow> os_env \<Rightarrow> disk \<Rightarrow> (env_error, os_env) result \<times> disk" where
  "envfile_Load path E d =
     (case Values path d of
        (Inl e, d1) \<Rightarrow> (Inl e, d1)
      | (Inr values, d1) \<Rightarrow> (Inr (fold Setenv values E), d1))"

subsection \<open>Reading back written lines\<close>

definition unlines :: "string list \<Rightarrow> string" where
  "unlines ls = concat (map (\<lambda>l. l @ [LF]) ls)"

lemma unlines_simps [simp]:
  "unlines [] = []" "unlines (l # ls) = l @ LF # unlines ls" "unlines (as @ bs) = unlines as @ unlines bs"
  by (simp_all add: unlines_def)

lemma split_unlines: "\<forall>l \<in> set ls. LF \<notin> set l \<Longrightarrow> split_on LF (unlines ls) = ls @ [[]]"
  by (induction ls) (simp_all add: split_on_append)

lemma raw_lines_unlines: "\<forall>l \<in> set ls. LF \<notin> set l \<Longrightarrow> raw_lines (unlines ls) = ls"
  by (simp add: raw_lines_def split_unlines)

definition clean_key :: "string \<Rightarrow> bool" where
  "clean_key k \<longleftrightarrow> k \<noteq> [] \<and> graphic (hd k) \<and> graphic (last k) \<and> hd k \<noteq> CHR ''#'' \<and> CHR ''='' \<notin> set k \<and> LF \<notin> set k"

definition clean_value :: "string \<Rightarrow> bool" where
  "clean_value v \<longleftrightarrow> (v \<noteq> [] \<longrightarrow> graphic (hd v) \<and> graphic (last v)) \<and> strip_quotes v = v \<and> LF \<notin> set v"

definition kv_line :: "string \<times> string \<Rightarrow> string" where
  "kv_line kv = fst kv @ CHR ''='' # snd kv"

lemma graphic_not_CR: "graphic c \<Longrightarrow> c \<noteq> CHR 13"
  by (auto simp: graphic_def)

lemma graphic_eq [simp]: "graphic CHR ''=''"
  by (simp add: graphic_def)

lemma kv_line_ends:
  assumes "clean_key k" "clean_value v"
  shows "kv_line (k, v) \<noteq> []" "graphic (hd (kv_line (k, v)))" "graphic (last (kv_line (k, v)))"
    "hd (kv_line (k, v)) = hd k" "LF \<notin> set (kv_line (k, v))"
  using assms by (auto simp: kv_line_def clean_key_def clean_value_def LF_def)

lemma env_line_kv:
  assumes "clean_key k" "clean_value v"
  shows "env_line (kv_line (k, v)) = Some (k, v)" and "dropCR (kv_line (k, v)) = kv_line (k, v)"
proof -
  note e = kv_line_ends [OF assms]
  have t: "TrimSpace (kv_line (k, v)) = kv_line (k, v)" by (rule TrimSpace_id [OF e(1-3)])
  have "\<not> HasPrefix (kv_line (k, v)) ''#''"
    using e(1,4) assms(1) by (cases "kv_line (k, v)") (auto simp: clean_key_def)
  moreover have "cut CHR ''='' (kv_line (k, v)) = (k, v, True)"
    using assms(1) by (simp add: kv_line_def cut_found clean_key_def)
  moreover have "TrimSpace k = k" using assms(1) by (simp add: TrimSpace_id clean_key_def)
  moreover have "TrimSpace v = v" using assms(2) by (cases "v = []") (auto simp: TrimSpace_id clean_value_def)
  ultimately show "env_line (kv_line (k, v)) = Some (k, v)"
    using e(1) assms by (simp add: env_line_def t clean_key_def clean_value_def)
  show "dropCR (kv_line (k, v)) = kv_line (k, v)"
    using e graphic_not_CR by (auto simp: dropCR_def)
qed

lemma env_line_comment: "env_line (CHR ''#'' # l) = None"
proof -
  have "graphic CHR ''#''" by (simp add: graphic_def)
  then have t: "trim_left (CHR ''#'' # l) = CHR ''#'' # l" by simp
  obtain t where t2: "CHR ''#'' # l = TrimSpace (CHR ''#'' # l) @ t"
    using trim_right_prefix [of "CHR ''#'' # l"] t by (auto simp: TrimSpace_def)
  show ?thesis
  proof (cases "TrimSpace (CHR ''#'' # l)")
    case (Cons c cs)
    then have "c = CHR ''#''" using t2 by simp
    then show ?thesis by (simp add: env_line_def Let_def Cons)
  qed (simp add: env_line_def Let_def)
qed

lemma env_line_Nil [simp]: "env_line [] = None"
  by (simp add: env_line_def)

lemma env_line_dropCR_comment: "env_line (dropCR (CHR ''#'' # l)) = None"
  by (cases "l = []") (auto simp: dropCR_def env_line_comment)

text \<open>A file of comments, blanks and clean assignments gives back the assignments, the last one of
  a key winning.\<close>

definition inert :: "string \<Rightarrow> bool" where
  "inert l \<longleftrightarrow> LF \<notin> set l \<and> (l = [] \<or> hd l = CHR ''#'')"

definition clean_pair :: "string \<times> string \<Rightarrow> bool" where
  "clean_pair kv \<longleftrightarrow> clean_key (fst kv) \<and> clean_value (snd kv)"

datatype text_line = Inert string | Assign "string \<times> string"

fun show_line :: "text_line \<Rightarrow> string" where
  "show_line (Inert l) = l"
| "show_line (Assign kv) = kv_line kv"

fun line_ok :: "text_line \<Rightarrow> bool" where
  "line_ok (Inert l) = inert l"
| "line_ok (Assign kv) = clean_pair kv"

fun assigns :: "text_line list \<Rightarrow> (string \<times> string) list" where
  "assigns [] = []"
| "assigns (Inert l # ls) = assigns ls"
| "assigns (Assign kv # ls) = kv # assigns ls"

lemma assigns_append [simp]: "assigns (as @ bs) = assigns as @ assigns bs"
  by (induction as rule: assigns.induct) auto

lemma assigns_map_Assign [simp]: "assigns (map Assign kvs) = kvs"
  by (induction kvs) auto

lemma env_line_show:
  "line_ok t \<Longrightarrow> env_line (dropCR (show_line t)) = (case t of Inert _ \<Rightarrow> None | Assign kv \<Rightarrow> Some kv)"
proof (cases t)
  case (Inert l)
  assume "line_ok t"
  with Inert have "l = [] \<or> (\<exists>m. l = CHR ''#'' # m)" by (cases l) (auto simp: inert_def)
  with Inert show ?thesis by (auto simp: env_line_dropCR_comment) (simp add: dropCR_def)
next
  case (Assign kv)
  assume "line_ok t"
  with Assign show ?thesis
    by (cases kv) (auto simp: clean_pair_def env_line_kv)
qed

lemma env_lines_show:
  "\<forall>t \<in> set ts. line_ok t \<Longrightarrow>
   map_of (env_lines (map dropCR (map show_line ts)) vs) = map_of vs ++ map_of (rev (assigns ts))"
proof (induction ts arbitrary: vs)
  case (Cons t ts)
  then show ?case
    using env_line_show [of t]
    by (cases t) (auto simp: update_conv' map_add_def split: option.splits)
qed simp

lemma show_line_no_LF: "line_ok t \<Longrightarrow> LF \<notin> set (show_line t)"
  using kv_line_ends(5) by (cases t) (auto simp: inert_def clean_pair_def)

lemma Values_of_written:
  assumes "\<forall>t \<in> set ts. line_ok t \<and> length (show_line t) < maxToken"
  shows "\<exists>vs. Values_of (unlines (map show_line ts)) = Inr vs \<and> map_of vs = map_of (rev (assigns ts))"
proof -
  have "raw_lines (unlines (map show_line ts)) = map show_line ts"
    using assms show_line_no_LF by (intro raw_lines_unlines) auto
  moreover have "\<not> list_ex (\<lambda>l. maxToken \<le> length l) (map show_line ts)"
    using assms by (auto simp: list_ex_iff)
  ultimately show ?thesis using env_lines_show [of ts "[]"] assms by (auto simp: Values_of_def Let_def)
qed

end
