(* ===== verification/Connect.thy ===== *)
theory Connect
  imports Config_Laws Transitions Env_File
begin

text \<open>
  \<open>cmd/cli/connect.go\<close>, \<open>cmd/cli/profile_credentials.go\<close> and \<open>internal/config/yaml.go\<close>: how a
  connect command turns its flags, the \<open>.env\<close> file, the YAML file and the selected profile into
  one configuration, and when it reads the managed credential of the profile. The YAML library
  is a parameter; printed warnings are part of the model only where a definition returns them.
\<close>

subsection \<open>The YAML file\<close>

text \<open>
  What the YAML library gives for a file: the top-level map, where only a string value matters,
  and the document decoded into \<open>PartialConfig\<close>.
\<close>

datatype yaml_value = YString string | YOther

record config_codec =
  cfg_raw :: "string \<Rightarrow> (string \<times> yaml_value) list option"
  cfg_struct :: "string \<Rightarrow> PartialConfig option"

datatype yaml_error = ReadYAML fs_error | ParseYAML | AuthKeyInYAML | DecodeYAML

definition knownFields :: "string list" where
  "knownFields =
     [''version'', ''target'', ''local_addr'', ''socks5_addr'', ''socks5_routes'', ''hostname'',
      ''control_url'', ''bootstrap_ssh'', ''bootstrap_socks_addr'', ''state_dir'', ''health_addr'',
      ''log_format'', ''auth_key'', ''timeout'', ''dial_timeout'', ''drain_timeout'', ''idle_timeout'',
      ''dial_retries'', ''dial_backoff_base'', ''dial_backoff_max'', ''max_connections'', ''auto_instance'']"

definition unknown_fields :: "(string \<times> yaml_value) list \<Rightarrow> string list" where
  "unknown_fields raw = filter (\<lambda>k. ToLower k \<notin> set knownFields) (map fst raw)"

definition decodeYAML :: "config_codec \<Rightarrow> string \<Rightarrow> (yaml_error, PartialConfig) result" where
  "decodeYAML y content =
     (case cfg_raw y content of
        None \<Rightarrow> Inl ParseYAML
      | Some raw \<Rightarrow>
          (case map_of raw ''auth_key'' of
             Some (YString (c # cs)) \<Rightarrow> Inl AuthKeyInYAML
           | _ \<Rightarrow>
               (case cfg_struct y content of None \<Rightarrow> Inl DecodeYAML | Some cfg \<Rightarrow> Inr cfg)))"

definition LoadYAMLConfig ::
  "config_codec \<Rightarrow> string \<Rightarrow> disk \<Rightarrow> (yaml_error, PartialConfig) result \<times> disk" where
  "LoadYAMLConfig y path d =
     (if path = [] then (Inr zero_partial, d)
      else (case os_ReadFile path d of
              (Inl e, d1) \<Rightarrow> (Inl (ReadYAML e), d1)
            | (Inr content, d1) \<Rightarrow> (case os_Stat path d1 of (_, d2) \<Rightarrow> (decodeYAML y content, d2))))"

subsection \<open>Errors of the command\<close>

datatype connect_error =
    AuthFileStat fs_error
  | AuthFileRead fs_error
  | AuthFileEmpty string
  | AuthFileLineBreak string
  | LoadEnvFile env_error
  | LoadYAMLFile yaml_error
  | ProfileLoad string store_error bool
  | CredentialElsewhere string string string string string
  | ManagedCredential string string cred_error
  | MergeError config_error "string option"
  | HealthError config_error
  | EmptyLockName
  | ProfileInUse string
  | ProfileLockError string fs_error

record cmd_ctx =
  x_store :: store
  x_creds :: string
  x_cwd :: string
  x_yaml :: config_codec
  x_lock :: lock_try

text \<open>The path the operating system opens: a relative one is relative to the working directory.\<close>

definition os_path :: "cmd_ctx \<Rightarrow> string \<Rightarrow> string" where
  "os_path x p = (if IsAbs p then Clean p else Join [x_cwd x, p])"

subsection \<open>The key file\<close>

function trimTrailingNewline :: "string \<Rightarrow> string" where
  "trimTrailingNewline s =
     (if s \<noteq> [] \<and> (last s = LF \<or> last s = CHR 13) then trimTrailingNewline (butlast s) else s)"
  by auto
termination by (relation "measure length") auto

declare trimTrailingNewline.simps [simp del]

definition readAuthKeyFile :: "cmd_ctx \<Rightarrow> string \<Rightarrow> disk \<Rightarrow> (connect_error, string) result \<times> disk" where
  "readAuthKeyFile x path d =
     (let absPath = os_path x path in
      case os_Stat absPath d of
        (Some e, d1) \<Rightarrow> (Inl (AuthFileStat e), d1)
      | (None, d1) \<Rightarrow>
          (case os_ReadFile absPath d1 of
             (Inl e, d2) \<Rightarrow> (Inl (AuthFileRead e), d2)
           | (Inr content, d2) \<Rightarrow>
               let key = trimTrailingNewline content in
               if key = [] then (Inl (AuthFileEmpty absPath), d2)
               else if CHR 13 \<in> set key \<or> LF \<in> set key then (Inl (AuthFileLineBreak absPath), d2)
               else (Inr key, d2)))"

subsection \<open>The profile of the command\<close>

definition fill :: "string \<Rightarrow> string \<Rightarrow> string" where
  "fill dst v = (if dst = [] then v else dst)"

definition applyProfileRuntime :: "PartialConfig \<Rightarrow> profileEntry \<Rightarrow> PartialConfig" where
  "applyProfileRuntime dst selected =
     (let r = pe_Runtime selected in
      dst\<lparr>y_BootstrapSSH := fill (y_BootstrapSSH dst) (rt_BootstrapSSH r),
          y_BootstrapSOCKSAddr := fill (y_BootstrapSOCKSAddr dst) (rt_BootstrapSOCKSAddr r),
          y_Hostname := fill (y_Hostname dst) (rt_Hostname r),
          y_StateDir := fill (y_StateDir dst) (rt_StateDir r),
          y_LocalAddr := fill (y_LocalAddr dst) (rt_LocalAddr r),
          y_HealthAddr := fill (y_HealthAddr dst) (rt_HealthAddr r)\<rparr>)"

text \<open>\<open>profileLoadError\<close>: the third component says whether the hint that names the import command is added.\<close>

definition profileLoadError :: "string \<Rightarrow> store_error \<Rightarrow> connect_error" where
  "profileLoadError name e = ProfileLoad name e (case e of ProfileNotFound _ \<Rightarrow> True | _ \<Rightarrow> False)"

definition loadCommandProfile ::
  "cmd_ctx \<Rightarrow> string \<Rightarrow> disk \<Rightarrow> (connect_error, profileEntry) result \<times> disk" where
  "loadCommandProfile x name d =
     (if name = [] then (Inr zero_entry, d)
      else (case profile_Get (x_store x) name d of
              (Inl e, d1) \<Rightarrow> (Inl (profileLoadError name e), d1)
            | (Inr p, d1) \<Rightarrow> (Inr p, d1)))"

definition layerFlag :: string where "layerFlag = ''--control-url''"
definition layerEnv :: string where "layerEnv = ''TS_CONTROL_URL (environment or ./.env)''"
definition layerYAML :: string where "layerYAML = ''the YAML config''"

definition overridingControlURL :: "os_env \<Rightarrow> FlagSet \<Rightarrow> PartialConfig \<Rightarrow> string \<times> string" where
  "overridingControlURL E g y =
     (case find (\<lambda>(v, l). v \<noteq> [])
        [(g_ControlURL g, layerFlag), (Getenv E ''TS_CONTROL_URL'', layerEnv), (y_ControlURL y, layerYAML)] of
        None \<Rightarrow> ([], [])
      | Some (v, l) \<Rightarrow> (TrimSpace v, l))"

definition displayControlURL :: "string \<Rightarrow> string" where
  "displayControlURL raw = (if raw = [] then ''(Tailscale SaaS)'' else raw)"

definition loadManagedProfileCredential ::
  "cmd_ctx \<Rightarrow> profileEntry \<Rightarrow> disk \<Rightarrow> (string \<times> cred_error, string) result \<times> disk" where
  "loadManagedProfileCredential x selected d =
     (if pe_Credential selected = [] then (Inr [], d)
      else (case cred_Get (x_creds x) (pe_Credential selected) d of
              (Inl e, d1) \<Rightarrow> (Inl (pe_Credential selected, e), d1)
            | (Inr key, d1) \<Rightarrow> (Inr key, d1)))"

definition loadBoundProfileCredential ::
  "cmd_ctx \<Rightarrow> os_env \<Rightarrow> string \<Rightarrow> profileEntry \<Rightarrow> FlagSet \<Rightarrow> PartialConfig \<Rightarrow> disk \<Rightarrow>
   (connect_error, string) result \<times> disk" where
  "loadBoundProfileCredential x E name selected g y d =
     (if pe_Credential selected = [] then (Inr [], d)
      else (case overridingControlURL E g y of
              (resolved, layer) \<Rightarrow>
                if layer \<noteq> [] \<and> \<not> SameControlURL resolved (pe_ControlURL selected)
                then (Inl (CredentialElsewhere name (pe_Credential selected)
                        (displayControlURL (pe_ControlURL selected)) layer (displayControlURL resolved)), d)
                else (case loadManagedProfileCredential x selected d of
                        (Inl (c, e), d1) \<Rightarrow> (Inl (ManagedCredential name c e), d1)
                      | (Inr key, d1) \<Rightarrow> (Inr key, d1))))"

text \<open>\<open>applyConnectProfile\<close> returns the YAML layer and the flags it updated, and the profile's target.\<close>

definition profile_layer :: "PartialConfig \<Rightarrow> profileEntry \<Rightarrow> PartialConfig" where
  "profile_layer y selected =
     applyProfileRuntime
       (y\<lparr>y_Target := fill (y_Target y) (pe_Target selected),
          y_ControlURL := fill (y_ControlURL y) (pe_ControlURL selected)\<rparr>) selected"

definition applyConnectProfile ::
  "cmd_ctx \<Rightarrow> os_env \<Rightarrow> PartialConfig \<Rightarrow> FlagSet \<Rightarrow> string \<Rightarrow> disk \<Rightarrow>
   (connect_error, PartialConfig \<times> FlagSet \<times> string) result \<times> disk" where
  "applyConnectProfile x E y g profileName d =
     (case loadCommandProfile x profileName d of
        (Inl e, d1) \<Rightarrow> (Inl e, d1)
      | (Inr selected, d1) \<Rightarrow>
          (case (if g_AuthKey g = [] \<and> g_AuthKeyFile g = [] \<and> Getenv E ''TS_AUTHKEY'' = []
                 then loadBoundProfileCredential x E profileName selected g y d1
                 else (Inr (g_ProfileAuthKey g), d1)) of
             (Inl e, d2) \<Rightarrow> (Inl e, d2)
           | (Inr key, d2) \<Rightarrow>
               (Inr (profile_layer y selected, g\<lparr>g_ProfileAuthKey := key\<rparr>, pe_Target selected), d2)))"

subsection \<open>Ownership of a profile\<close>

definition profile_Lock :: "string \<Rightarrow> lock_try \<Rightarrow> connect_error option" where
  "profile_Lock name try =
     (if TrimSpace name = [] then Some EmptyLockName
      else (case try of
              Locked \<Rightarrow> None
            | LockHeld \<Rightarrow> Some (ProfileInUse name)
            | LockError e \<Rightarrow> Some (ProfileLockError name e)))"

definition lockCommandProfile :: "cmd_ctx \<Rightarrow> string \<Rightarrow> connect_error option" where
  "lockCommandProfile x name = (if name = [] then None else profile_Lock name (x_lock x))"

subsection \<open>The target warning\<close>

definition sameConnectHost :: "string \<Rightarrow> string \<Rightarrow> bool" where
  "sameConnectHost a b =
     (case (cut CHR ''%'' a, cut CHR ''%'' b) of
        ((addrA, zoneA, _), (addrB, zoneB, _)) \<Rightarrow> EqualFold addrA addrB \<and> zoneA = zoneB)"

definition sameConnectTarget :: "string \<Rightarrow> string \<Rightarrow> bool" where
  "sameConnectTarget a b =
     (case (SplitHostPort a, SplitHostPort b) of
        (Inr (hostA, portA), Inr (hostB, portB)) \<Rightarrow> sameConnectHost hostA hostB \<and> portA = portB
      | _ \<Rightarrow> sameConnectHost a b)"

text \<open>The source and the target of the warning, when there is one.\<close>

definition warnConnectTargetOverride ::
  "os_env \<Rightarrow> string \<Rightarrow> string \<Rightarrow> string \<Rightarrow> string \<Rightarrow> (string \<times> string) option" where
  "warnConnectTargetOverride E profileName profileTarget target flagTarget =
     (if profileName = [] \<or> profileTarget = [] \<or> target = [] \<or> sameConnectTarget target profileTarget then None
      else Some (if flagTarget \<noteq> [] then ''--target''
                 else if Getenv E ''TS_TARGET'' \<noteq> [] then ''TS_TARGET'' else ''YAML'', target))"

subsection \<open>The command\<close>

definition withAuthSetHint :: "config_error \<Rightarrow> string \<Rightarrow> connect_error" where
  "withAuthSetHint e profileName =
     MergeError e (if profileName = [] \<or> e \<noteq> AuthKeyRequired then None else Some profileName)"

text \<open>The configuration handed to the bridge runner, with the override warning logged before it.\<close>

definition finish_connect ::
  "cmd_ctx \<Rightarrow> os_env \<Rightarrow> PartialConfig \<Rightarrow> FlagSet \<Rightarrow> string \<Rightarrow> string \<Rightarrow> bool \<Rightarrow>
   (connect_error, Config \<times> (string \<times> string) option) result" where
  "finish_connect x E y g profileName profileTarget quiet =
     (case Merge E y g of
        Inl e \<Rightarrow> Inl (withAuthSetHint e profileName)
      | Inr cfg \<Rightarrow>
          (case ValidateHealthListener cfg of
             Some e \<Rightarrow> Inl (HealthError e)
           | None \<Rightarrow>
               (case lockCommandProfile x profileName of
                  Some e \<Rightarrow> Inl e
                | None \<Rightarrow>
                    Inr (cfg\<lparr>c_Quiet := quiet\<rparr>,
                         warnConnectTargetOverride E profileName profileTarget (c_Target cfg) (g_Target g)))))"

definition runConnect ::
  "cmd_ctx \<Rightarrow> os_env \<Rightarrow> FlagSet \<Rightarrow> string \<Rightarrow> bool \<Rightarrow> disk \<Rightarrow>
   (connect_error, Config \<times> (string \<times> string) option) result \<times> disk" where
  "runConnect x E g0 profileName quiet d =
     (case (if g_AuthKeyFile g0 = [] then (Inr g0, d)
            else (case readAuthKeyFile x (g_AuthKeyFile g0) d of
                    (Inl e, d1) \<Rightarrow> (Inl e, d1)
                  | (Inr key, d1) \<Rightarrow> (Inr (g0\<lparr>g_AuthKey := key\<rparr>), d1))) of
        (Inl e, d1) \<Rightarrow> (Inl e, d1)
      | (Inr g, d1) \<Rightarrow>
          (case envfile_Load (os_path x ''.env'') E d1 of
             (Inl e, d2) \<Rightarrow> (Inl (LoadEnvFile e), d2)
           | (Inr E', d2) \<Rightarrow>
               (case LoadYAMLConfig (x_yaml x) (if g_Config g = [] then [] else os_path x (g_Config g)) d2 of
                  (Inl e, d3) \<Rightarrow> (Inl (LoadYAMLFile e), d3)
                | (Inr y, d3) \<Rightarrow>
                    (case applyConnectProfile x E' y g profileName d3 of
                       (Inl e, d4) \<Rightarrow> (Inl e, d4)
                     | (Inr (y', g', profileTarget), d4) \<Rightarrow>
                         (finish_connect x E' y' g' profileName profileTarget quiet, d4)))))"

subsection \<open>The command only reads\<close>

lemma ReadFile_files: "os_ReadFile p d = (r, d') \<Longrightarrow> files d' = files d"
  by (auto simp: os_ReadFile_def Let_def split: if_splits option.splits)

lemma Stat_files: "os_Stat p d = (r, d') \<Longrightarrow> files d' = files d"
  by (auto simp: os_Stat_def syscall_def Let_def split: if_splits)

lemma Values_files: "Values p d = (r, d') \<Longrightarrow> files d' = files d"
  using ReadFile_files by (fastforce simp: Values_def split: prod.splits sum.splits fs_error.splits)

lemma envfile_Load_files: "envfile_Load p E d = (r, d') \<Longrightarrow> files d' = files d"
  using Values_files by (fastforce simp: envfile_Load_def split: prod.splits sum.splits)

lemma LoadYAML_files: "LoadYAMLConfig y p d = (r, d') \<Longrightarrow> files d' = files d"
  using ReadFile_files Stat_files
  by (fastforce simp: LoadYAMLConfig_def split: prod.splits sum.splits if_splits)

lemma readAuthKeyFile_files: "readAuthKeyFile x p d = (r, d') \<Longrightarrow> files d' = files d"
  using ReadFile_files Stat_files
  by (fastforce simp: readAuthKeyFile_def Let_def split: prod.splits sum.splits option.splits if_splits)

lemma cred_Get_view:
  "cred_Get dir n d = (r, d') \<Longrightarrow> files d' = files d \<and> (\<forall>k. r = Inr k \<longrightarrow> cred_view dir d n = Some k)"
  by (auto simp: cred_Get_def cred_view_def os_ReadFile_def Let_def split: if_splits option.splits sum.splits)

lemma profile_Get_entry:
  "profile_Get s n d = (r, d') \<Longrightarrow> files d' = files d \<and>
   (\<forall>e. r = Inr e \<longrightarrow> (\<exists>data. store_data s d = Some data \<and> map_of (Profiles data) n = Some e))"
  using load_effect [of s d]
  by (fastforce simp: profile_Get_def split: prod.splits sum.splits option.splits)

lemma loadCommandProfile_entry:
  assumes "loadCommandProfile x n d = (r, d')"
  shows "files d' = files d" and
    "n \<noteq> [] \<Longrightarrow> r = Inr e \<Longrightarrow> \<exists>data. store_data (x_store x) d = Some data \<and> map_of (Profiles data) n = Some e"
  using assms profile_Get_entry [of "x_store x" n d]
  by (fastforce simp: loadCommandProfile_def split: prod.splits sum.splits if_splits)+

lemma loadManaged_view:
  assumes "loadManagedProfileCredential x sel d = (r, d')"
  shows "files d' = files d" and
    "pe_Credential sel \<noteq> [] \<Longrightarrow> r = Inr k \<Longrightarrow> cred_view (x_creds x) d (pe_Credential sel) = Some k"
  using assms cred_Get_view [of "x_creds x" "pe_Credential sel" d]
  by (fastforce simp: loadManagedProfileCredential_def split: prod.splits sum.splits if_splits)+

lemma loadBound_files: "loadBoundProfileCredential x E n sel g y d = (r, d') \<Longrightarrow> files d' = files d"
  using loadManaged_view(1)
  by (fastforce simp: loadBoundProfileCredential_def split: prod.splits sum.splits if_splits)

lemma loadBound_key:
  assumes "loadBoundProfileCredential x E n sel g y d = (Inr k, d')" and "pe_Credential sel \<noteq> []"
  shows "cred_view (x_creds x) d (pe_Credential sel) = Some k"
    and "snd (overridingControlURL E g y) \<noteq> [] \<Longrightarrow>
      SameControlURL (fst (overridingControlURL E g y)) (pe_ControlURL sel)"
  using assms loadManaged_view(2) [of x sel d _ _ k]
  by (fastforce simp: loadBoundProfileCredential_def split: prod.splits sum.splits if_splits)+

lemma applyConnectProfile_files: "applyConnectProfile x E y g n d = (r, d') \<Longrightarrow> files d' = files d"
  using loadCommandProfile_entry(1) loadBound_files
  by (fastforce simp: applyConnectProfile_def split: prod.splits sum.splits if_splits)

subsection \<open>Where the managed key goes\<close>

lemma SameControlURL_trimmed: "SameControlURL (TrimSpace u) u"
  by (simp add: SameControlURL_def normalizeControlURL_def)

text \<open>The control URL of the merge is the one of the overriding layer, or else the profile's.\<close>

lemma overriding_value:
  "overridingControlURL E g y =
     (let v = first_nonempty [g_ControlURL g, Getenv E ''TS_CONTROL_URL'', y_ControlURL y]
      in (TrimSpace v, snd (overridingControlURL E g y)))"
  "snd (overridingControlURL E g y) = [] \<longleftrightarrow>
     first_nonempty [g_ControlURL g, Getenv E ''TS_CONTROL_URL'', y_ControlURL y] = []"
  by (auto simp: overridingControlURL_def layerFlag_def layerEnv_def layerYAML_def)

lemma first_nonempty_fill:
  "first_nonempty [a, b, fill c v] = (if first_nonempty [a, b, c] = [] then v else first_nonempty [a, b, c])"
  by (simp add: fill_def)

lemma profile_layer_url: "y_ControlURL (profile_layer y sel) = fill (y_ControlURL y) (pe_ControlURL sel)"
  by (simp add: profile_layer_def applyProfileRuntime_def Let_def)

lemma Merge_values:
  assumes "Merge E y g = Inr cfg"
  shows "c_AuthKey cfg = first_nonempty [g_AuthKey g, Getenv E ''TS_AUTHKEY'', g_ProfileAuthKey g]"
    and "c_ControlURL cfg = TrimSpace (first_nonempty [g_ControlURL g, Getenv E ''TS_CONTROL_URL'', y_ControlURL y])"
  using core_fields(3,4) [OF Merge_core [OF assms]] layered_auth_key [of E y g] control_url.layered_value [of E y g]
  by simp_all

lemma merged_plane:
  assumes b: "loadBoundProfileCredential x E n sel g y d = (Inr k, d')" and c: "pe_Credential sel \<noteq> []"
    and m: "Merge E y' g' = Inr cfg"
    and l: "y_ControlURL y' = fill (y_ControlURL y) (pe_ControlURL sel)" "g_ControlURL g' = g_ControlURL g"
  shows "SameControlURL (c_ControlURL cfg) (pe_ControlURL sel)"
proof -
  let ?v = "first_nonempty [g_ControlURL g, Getenv E ''TS_CONTROL_URL'', y_ControlURL y]"
  have url: "c_ControlURL cfg = TrimSpace (if ?v = [] then pe_ControlURL sel else ?v)"
    using Merge_values(2) [OF m] first_nonempty_fill [of "g_ControlURL g" "Getenv E ''TS_CONTROL_URL''"]
    by (simp add: l)
  show ?thesis
  proof (cases "?v = []")
    case True
    then have "c_ControlURL cfg = TrimSpace (pe_ControlURL sel)" using url by metis
    then show ?thesis using SameControlURL_trimmed by simp
  next
    case False
    then have "snd (overridingControlURL E g y) \<noteq> []" using overriding_value(2) [of E g y] by blast
    from loadBound_key(2) [OF b c this] have "SameControlURL (TrimSpace ?v) (pe_ControlURL sel)"
      using overriding_value(1) [of E g y] by (metis fst_conv)
    then show ?thesis using url False by (simp only: if_False)
  qed
qed

lemma merged_key_and_plane:
  assumes b: "loadBoundProfileCredential x E n sel g y d = (Inr k, d')" and c: "pe_Credential sel \<noteq> []"
    and m: "Merge E (profile_layer y sel) (g\<lparr>g_ProfileAuthKey := k\<rparr>) = Inr cfg"
    and e: "g_AuthKey g = []" "Getenv E ''TS_AUTHKEY'' = []"
  shows "cred_view (x_creds x) d (pe_Credential sel) = Some (c_AuthKey cfg) \<and>
    SameControlURL (c_ControlURL cfg) (pe_ControlURL sel)"
proof -
  have "SameControlURL (c_ControlURL cfg) (pe_ControlURL sel)"
    by (rule merged_plane [OF b c m]) (simp_all add: profile_layer_url)
  moreover have "c_AuthKey cfg = k" using Merge_values(1) [OF m] e by simp
  ultimately show ?thesis using loadBound_key(1) [OF b c] by simp
qed

text \<open>What an accepted run has gone through when no key was given explicitly.\<close>

lemma runConnect_managed:
  assumes r: "runConnect x E g n q d = (Inr (cfg, w), d')"
    and e: "fst (envfile_Load (os_path x ''.env'') E d) = Inr E'"
    and k: "g_AuthKey g = []" "g_AuthKeyFile g = []" "Getenv E' ''TS_AUTHKEY'' = []"
    and p: "n \<noteq> []" "store_data (x_store x) d = Some data" "map_of (Profiles data) n = Some sel" "pe_Credential sel \<noteq> []"
  shows "cred_view (x_creds x) d (pe_Credential sel) = Some (c_AuthKey cfg) \<and>
    SameControlURL (c_ControlURL cfg) (pe_ControlURL sel)"
proof -
  obtain d1 where l: "envfile_Load (os_path x ''.env'') E d = (Inr E', d1)" using e by (metis prod.collapse)
  obtain y d2 where y: "LoadYAMLConfig (x_yaml x) (if g_Config g = [] then [] else os_path x (g_Config g)) d1 = (Inr y, d2)"
    using r k(2) l by (auto simp: runConnect_def split: prod.splits sum.splits)
  obtain y' g' t d3 where a: "applyConnectProfile x E' y g n d2 = (Inr (y', g', t), d3)"
    and f: "finish_connect x E' y' g' n t q = Inr (cfg, w)"
    using r k(2) l y by (auto simp: runConnect_def split: prod.splits sum.splits)
  obtain sel' d4 where lp: "loadCommandProfile x n d2 = (Inr sel', d4)"
    using a by (auto simp: applyConnectProfile_def split: prod.splits sum.splits)
  obtain key d5 where b: "loadBoundProfileCredential x E' n sel' g y d4 = (Inr key, d5)"
    and y': "y' = profile_layer y sel'" and g': "g' = g\<lparr>g_ProfileAuthKey := key\<rparr>"
    using a lp k by (auto simp: applyConnectProfile_def split: prod.splits sum.splits)
  obtain c0 where m: "Merge E' y' g' = Inr c0" and c: "cfg = c0\<lparr>c_Quiet := q\<rparr>"
    using f by (auto simp: finish_connect_def split: sum.splits option.splits)
  have fl: "files d4 = files d" "files d2 = files d"
    using loadCommandProfile_entry(1) [OF lp] LoadYAML_files [OF y] envfile_Load_files [OF l] by simp_all
  have "sel' = sel"
    using loadCommandProfile_entry(2) [OF lp p(1)] store_data_files [OF fl(2)] p(2,3) by auto
  then show ?thesis
    using merged_key_and_plane [OF b _ _ k(1,3)] p(4) m c cred_view_files [OF fl(1)] by (simp add: y' g')
qed

definition sample_ctx :: cmd_ctx where
  "sample_ctx = \<lparr>x_store = sample_store, x_creds = ''/c'', x_cwd = ''/w'',
     x_yaml = \<lparr>cfg_raw = (\<lambda>_. None), cfg_struct = (\<lambda>_. None)\<rparr>, x_lock = Locked\<rparr>"

definition manual_flags :: FlagSet where
  "manual_flags = zero_flags\<lparr>g_ManualMode := True\<rparr>"

lemma envfile_Load_missing:
  "files d p = None \<Longrightarrow> \<not> faults d (tick d) \<Longrightarrow> envfile_Load p E d = (Inr E, d\<lparr>tick := Suc (tick d)\<rparr>)"
  by (simp add: envfile_Load_def Values_def os_ReadFile_def)

text \<open>A command with no \<open>.env\<close> file, no YAML file and no key file comes down to the profile and the merge.\<close>

lemma runConnect_plain:
  assumes "files d (os_path x ''.env'') = None" "\<not> faults d (tick d)" "g_AuthKeyFile g = []" "g_Config g = []"
    and "fst (applyConnectProfile x E zero_partial g n (d\<lparr>tick := Suc (tick d)\<rparr>)) = Inr (y, g', t)"
  shows "fst (runConnect x E g n q d) = finish_connect x E y g' n t q"
  using assms by (simp add: runConnect_def envfile_Load_missing LoadYAMLConfig_def) (auto split: prod.splits)

definition sample_layer :: "string \<Rightarrow> PartialConfig" where
  "sample_layer url = zero_partial\<lparr>y_Target := ''h:22'', y_ControlURL := url\<rparr>"

lemma sample_profile_applied:
  "fst (applyConnectProfile sample_ctx sample_env zero_partial manual_flags ''a'' (h4\<lparr>tick := Suc (tick h4)\<rparr>)) =
     Inr (sample_layer ''https://x'', manual_flags\<lparr>g_ProfileAuthKey := ''hskey-a''\<rparr>, ''h:22'')"
  "fst (applyConnectProfile sample_ctx sample_env zero_partial manual_flags ''b'' (h4\<lparr>tick := Suc (tick h4)\<rparr>)) =
     Inr (sample_layer ''https://X/'', manual_flags\<lparr>g_ProfileAuthKey := ''hskey-a''\<rparr>, ''h:22'')"
  by code_simp+

lemma sample_finish:
  "\<not> isl (finish_connect sample_ctx sample_env (sample_layer ''https://x'') (manual_flags\<lparr>g_ProfileAuthKey := ''hskey-a''\<rparr>) ''a'' ''h:22'' True)"
  "\<not> isl (finish_connect sample_ctx sample_env (sample_layer ''https://X/'') (manual_flags\<lparr>g_ProfileAuthKey := ''hskey-a''\<rparr>) ''b'' ''h:22'' True)"
  by code_simp+

lemma sample_connect_runs:
  "\<exists>c w d'. runConnect sample_ctx sample_env manual_flags ''a'' True h4 = (Inr (c, w), d')"
  "\<exists>c w d'. runConnect sample_ctx sample_env manual_flags ''b'' True h4 = (Inr (c, w), d')"
proof -
  have e: "files h4 (os_path sample_ctx ''.env'') = None" "\<not> faults h4 (tick h4)" "g_AuthKeyFile manual_flags = []"
    "g_Config manual_flags = []" by code_simp+
  show "\<exists>c w d'. runConnect sample_ctx sample_env manual_flags ''a'' True h4 = (Inr (c, w), d')"
    "\<exists>c w d'. runConnect sample_ctx sample_env manual_flags ''b'' True h4 = (Inr (c, w), d')"
    using sample_finish runConnect_plain [OF e sample_profile_applied(1), of True]
      runConnect_plain [OF e sample_profile_applied(2), of True]
    by (metis isl_def obj_sumE prod.collapse)+
qed

lemma sample_env_kept: "fst (envfile_Load (os_path sample_ctx ''.env'') sample_env h4) = Inr sample_env"
proof -
  have "files h4 (os_path sample_ctx ''.env'') = None" "\<not> faults h4 (tick h4)" by code_simp+
  then show ?thesis by (simp add: envfile_Load_missing)
qed

text \<open>
  C7: the whole life of a credential. Start from a disk with no profile store and run any
  history of profile and credential commands, with any system calls failing. If two connect
  commands, with two profiles that share a managed credential and with whatever flags,
  environments and \<open>.env\<close> files but no key of their own, are both accepted, they send the same
  key to the same control plane.
\<close>

theorem shared_key_reaches_one_control_plane:
  assumes "(profile_step (x_store x) (x_creds x))\<^sup>*\<^sup>* d0 d" and "disk_ok d0" and "codec_ok (st_yaml (x_store x))"
    and "yaml_path (x_store x)" and "files d0 (st_path (x_store x)) = None"
    and "store_data (x_store x) d = Some data"
    and "map_of (Profiles data) p = Some e" "map_of (Profiles data) p' = Some e'" "p \<noteq> []" "p' \<noteq> []"
    and "pe_Credential e \<noteq> []" "pe_Credential e' = pe_Credential e"
    and "runConnect x E g p q d = (Inr (cfg, w), d1)" "runConnect x F f p' q' d = (Inr (cfg', w'), d2)"
    and "fst (envfile_Load (os_path x ''.env'') E d) = Inr E'" "fst (envfile_Load (os_path x ''.env'') F d) = Inr F'"
    and "g_AuthKey g = []" "g_AuthKeyFile g = []" "Getenv E' ''TS_AUTHKEY'' = []"
    and "g_AuthKey f = []" "g_AuthKeyFile f = []" "Getenv F' ''TS_AUTHKEY'' = []"
  shows "c_AuthKey cfg = c_AuthKey cfg' \<and> SameControlURL (c_ControlURL cfg) (c_ControlURL cfg')"
proof -
  note one = runConnect_managed [OF assms(13,15,17-19,9,6,7,11)]
  have "pe_Credential e' \<noteq> []" using assms(11,12) by simp
  note two = runConnect_managed [OF assms(14,16,20-22,10,6,8) this]
  have "store_bound (x_store x) d" using profile_history_keeps [OF assms(1-5)] by simp
  then have "SameControlURL (pe_ControlURL e) (pe_ControlURL e')"
    using assms(6-8,11,12) unfolding store_bound_def credentials_bound_def by blast
  then show ?thesis
    using one two assms(12) SameControlURL_trans SameControlURL_sym by (metis option.inject)
qed

theorem shared_key_reaches_one_control_plane_witness:
  "\<exists>cfg w d1 cfg' w' d2. runConnect sample_ctx sample_env manual_flags ''a'' True h4 = (Inr (cfg, w), d1) \<and>
     runConnect sample_ctx sample_env manual_flags ''b'' True h4 = (Inr (cfg', w'), d2) \<and>
     c_AuthKey cfg = c_AuthKey cfg' \<and> SameControlURL (c_ControlURL cfg) (c_ControlURL cfg')"
proof -
  obtain cfg w d1 where r1: "runConnect sample_ctx sample_env manual_flags ''a'' True h4 = (Inr (cfg, w), d1)"
    using sample_connect_runs(1) by blast
  obtain cfg' w' d2 where r2: "runConnect sample_ctx sample_env manual_flags ''b'' True h4 = (Inr (cfg', w'), d2)"
    using sample_connect_runs(2) by blast
  obtain data e f where d: "store_data (x_store sample_ctx) h4 = Some data" "map_of (Profiles data) ''a'' = Some e"
    "map_of (Profiles data) ''b'' = Some f" "pe_Credential e = ''k''" "pe_Credential f = ''k''"
    using sample_history_end by (auto simp: map_option_eq_Some sample_ctx_def)
  have h: "(profile_step (x_store sample_ctx) (x_creds sample_ctx))\<^sup>*\<^sup>* sample_keys h4"
    using sample_history by (simp add: sample_ctx_def)
  have "c_AuthKey cfg = c_AuthKey cfg' \<and> SameControlURL (c_ControlURL cfg) (c_ControlURL cfg')"
    by (rule shared_key_reaches_one_control_plane [OF h _ _ _ _ d(1-3) _ _ _ _ r1 r2 sample_env_kept sample_env_kept])
      (use d sample_state_ok in \<open>simp_all add: manual_flags_def zero_flags_def sample_env_def sample_ctx_def
        sample_keys_def sample_disk_def disk_ok_def\<close>)
  then show ?thesis using r1 r2 by blast
qed

end
