(* ===== verification/Init_Cmd.thy ===== *)
theory Init_Cmd
  imports Connect
begin

text \<open>
  \<open>cmd/cli/init.go\<close>, \<open>cmd/cli/confirm_overwrite.go\<close> and the profile import of
  \<open>cmd/cli/profile_credentials.go\<close>: the command that writes a first configuration, as an
  environment file, as a YAML file with an environment file beside it, or as a profile. The
  terminal is a list of the lines the user types; no line left is end of input. Printed prompts
  and next steps are not part of the model.
\<close>

subsection \<open>Flags and errors\<close>

record initFlags =
  i_AuthKey :: string
  i_AuthKeyFile :: string
  i_Target :: string
  i_Instance :: string
  i_PortRange :: string
  i_Format :: string
  i_Config :: string
  i_Force :: bool
  i_Profile :: string
  i_ControlURL :: string

record init_ctx =
  n_cmd :: cmd_ctx
  n_tty :: bool
  n_now :: string
  n_masked :: "string option"
  n_changed :: "string list"
  n_lock :: lock_run
  n_profile_doc :: "string \<Rightarrow> (int \<times> profileEntry \<times> bool) option"

definition formatYAML :: string where "formatYAML = ''yaml''"
definition formatENV :: string where "formatENV = ''env''"

datatype init_error =
    InvalidFormat string
  | EmptyKeyFileFlag
  | IncompatibleFlag string
  | KeyWithoutTarget
  | KeyFileError connect_error
  | NotATerminal
  | InputClosed
  | ValueRequired
  | InitAuthKeyRequired
  | InitAuthKeyFormat key_error bool
  | InitTargetRequired
  | InitTarget config_error
  | InitPortRange port_error
  | ReadEnvFile env_error
  | PairingRefused config_error string
  | Aborted string
  | FileExists string
  | WriteYAMLFile write_error
  | WriteEnvFile write_error
  | ReadProfileConfig fs_error
  | DecodeProfileConfig
  | ProfileConfigVersion int
  | ProfileConfigDocuments
  | LoadProfileStore store_error
  | ProfileExists string
  | WriteProfile string store_error

subsection \<open>Validation\<close>

definition validateAuthKey :: "string \<Rightarrow> init_error option" where
  "validateAuthKey key =
     (case ValidateKey key of
        None \<Rightarrow> None
      | Some e \<Rightarrow>
          if key = [] then Some InitAuthKeyRequired
          else Some (InitAuthKeyFormat e (HasPrefix key ''http://'' \<or> HasPrefix key ''https://'')))"

definition init_validateTarget :: "string \<Rightarrow> init_error option" where
  "init_validateTarget target =
     (if target = [] then Some InitTargetRequired
      else (case SplitHostPort target of
              Inl e \<Rightarrow> Some (InitTarget (TargetFormat e))
            | Inr (host, portStr) \<Rightarrow>
                if host = [] then Some (InitTarget TargetEmptyHost)
                else (case Atoi portStr of
                        None \<Rightarrow> Some (InitTarget (TargetPort portStr))
                      | Some port \<Rightarrow> if port < 1 \<or> 65535 < port then Some (InitTarget (TargetPort portStr)) else None)))"

definition validatePortRange :: "string \<Rightarrow> init_error option" where
  "validatePortRange pr =
     (case split_on CHR ''-'' pr of
        [a, b] \<Rightarrow>
          (case Atoi (TrimSpace a) of
             None \<Rightarrow> Some (InitPortRange PortRangeStart)
           | Some start \<Rightarrow>
               (case Atoi (TrimSpace b) of
                  None \<Rightarrow> Some (InitPortRange PortRangeEnd)
                | Some end1 \<Rightarrow>
                    if start < 1 \<or> 65535 < end1 \<or> end1 < start then Some (InitPortRange (PortRangeBounds start end1))
                    else None))
      | _ \<Rightarrow> Some (InitPortRange (PortRangeFormat pr)))"

subsection \<open>Reading from the terminal\<close>

definition readRequiredInput :: "string list \<Rightarrow> (init_error, string) result \<times> string list" where
  "readRequiredInput ls =
     (case ls of
        [] \<Rightarrow> (Inl InputClosed, [])
      | l # rest \<Rightarrow> if TrimSpace l = [] then (Inl ValueRequired, rest) else (Inr (TrimSpace l), rest))"

definition readOptionalInput :: "string list \<Rightarrow> (init_error, string) result \<times> string list" where
  "readOptionalInput ls = (case ls of [] \<Rightarrow> (Inl InputClosed, []) | l # rest \<Rightarrow> (Inr (TrimSpace l), rest))"

fun readChoiceInput :: "string list \<Rightarrow> string list \<Rightarrow> (init_error, string) result \<times> string list" where
  "readChoiceInput choices [] = (Inl InputClosed, [])"
| "readChoiceInput choices (l # rest) =
     (let value = TrimSpace (ToLower l) in
      if value = [] then (Inr (choices ! 0), rest)
      else if value \<in> set choices then (Inr value, rest)
      else readChoiceInput choices rest)"

fun confirmOverwrite :: "string list \<Rightarrow> bool \<times> string list" where
  "confirmOverwrite [] = (False, [])"
| "confirmOverwrite (l # rest) =
     (let answer = TrimSpace (ToLower l) in
      if answer = ''y'' \<or> answer = ''yes'' then (True, rest)
      else if answer = [] \<or> answer = ''n'' \<or> answer = ''no'' then (False, rest)
      else confirmOverwrite rest)"

definition collectInteractiveInputs ::
  "init_ctx \<Rightarrow> initFlags \<Rightarrow> string list \<Rightarrow> (init_error, initFlags) result \<times> string list" where
  "collectInteractiveInputs c f ls0 =
     (case n_masked c of
        None \<Rightarrow> (Inl InputClosed, ls0)
      | Some authKey \<Rightarrow>
          (case validateAuthKey authKey of
             Some e \<Rightarrow> (Inl e, ls0)
           | None \<Rightarrow>
               (case readRequiredInput ls0 of
                  (Inl e, ls1) \<Rightarrow> (Inl e, ls1)
                | (Inr target, ls1) \<Rightarrow>
                    (case init_validateTarget target of
                       Some e \<Rightarrow> (Inl e, ls1)
                     | None \<Rightarrow>
                         (case readOptionalInput ls1 of
                            (Inl e, ls2) \<Rightarrow> (Inl e, ls2)
                          | (Inr inst, ls2) \<Rightarrow>
                              (case (if inst = []
                                     then (case readOptionalInput ls2 of
                                             (Inl e, ls3) \<Rightarrow> (Inl e, ls3)
                                           | (Inr pr, ls3) \<Rightarrow>
                                               if pr = [] then (Inr (i_PortRange f), ls3)
                                               else (case validatePortRange pr of
                                                       Some e \<Rightarrow> (Inl e, ls3)
                                                     | None \<Rightarrow> (Inr pr, ls3)))
                                     else (Inr (i_PortRange f), ls2)) of
                                 (Inl e, ls3) \<Rightarrow> (Inl e, ls3)
                               | (Inr pr, ls3) \<Rightarrow>
                                   (case readChoiceInput [formatYAML, formatENV] ls3 of
                                      (Inl e, ls4) \<Rightarrow> (Inl e, ls4)
                                    | (Inr fmt, ls4) \<Rightarrow>
                                        (Inr (f\<lparr>i_AuthKey := authKey, i_Target := target, i_Instance := inst,
                                                i_PortRange := pr, i_Format := fmt\<rparr>), ls4))))))))"

subsection \<open>File contents\<close>

text \<open>The box-drawing line and the arrow of the comments, in UTF-8.\<close>

definition box_line :: "nat \<Rightarrow> string" where
  "box_line n = concat (replicate n [CHR 0xE2, CHR 0x94, CHR 0x80])"
definition right_arrow :: string where "right_arrow = [CHR 0xE2, CHR 0x86, CHR 0x92]"

definition opt_line :: "string \<Rightarrow> string \<Rightarrow> string list" where
  "opt_line key v = (if v \<noteq> [] then [key @ v] else [])"

definition buildYAMLContent :: "string \<Rightarrow> initFlags \<Rightarrow> string" where
  "buildYAMLContent now f = unlines
     ([''# ts-bridge YAML configuration'',
       ''# Non-sensitive settings only '' @ em_dash @ '' auth key is stored in .env'',
       ''# Generated by ts-bridge init on '' @ now, [],
       ''version: 1'', ''target: '' @ i_Target f] @
      opt_line ''control_url: '' (i_ControlURL f) @
      (if i_Instance f \<noteq> [] then [''hostname: tsb-'' @ SanitizeHostnameLabel (i_Instance f)] else []) @
      opt_line ''port_range: '' (i_PortRange f))"

definition buildEnvConfigContent :: "initFlags \<Rightarrow> string" where
  "buildEnvConfigContent f = unlines
     ([''# '' @ box_line 2 @ '' Required '' @ box_line 49, ''#'',
       ''# Auth key (tskey- for Tailscale SaaS, hskey- for Headscale)'',
       ''#   Tailscale: https://login.tailscale.com/admin/settings/keys'',
       ''#   Headscale: headscale preauthkeys create --user <ID> --reusable --ephemeral --expiration 8760h'',
       ''#'',
       ''# Note: Keys in .env/environment are visible to child processes.'',
       ''# For hardened setups, consider omitting TS_AUTHKEY and passing --auth-key-file /path/to/key'',
       ''TS_AUTHKEY='' @ i_AuthKey f, [],
       ''# Target host:port on the Tailscale/Headscale network'',
       ''TS_TARGET='' @ i_Target f, [],
       ''# '' @ box_line 2 @ '' Optional (sensible defaults) '' @ box_line 29,
       ''# See README.md '' @ right_arrow @ '' Configuration Reference for all options.''] @
      opt_line ''TS_INSTANCE_NAME='' (i_Instance f) @
      opt_line ''TS_PORT_RANGE='' (i_PortRange f) @
      [''#'', ''# TS_LOCAL_ADDR=127.0.0.1:33389   # Local bind address''] @
      (if i_ControlURL f \<noteq> [] then [''TS_CONTROL_URL='' @ i_ControlURL f]
       else [''# TS_CONTROL_URL=                  # Custom control plane'']) @
      [''# TS_BOOTSTRAP_SSH=                # OpenSSH endpoint for blocked control plane'',
       ''# TS_BOOTSTRAP_SOCKS_ADDR=127.0.0.1:1055 # Loopback SOCKS listener'',
       ''# TS_IDLE_TIMEOUT=                 # Close idle conns after this duration'',
       ''# TS_DIAL_TIMEOUT=5s               # Per-connection target dial timeout'',
       ''# TS_DIAL_RETRIES=3                # Max retries for transient dial failures'',
       ''# TS_DIAL_BACKOFF_BASE=1s          # Base backoff for retries'',
       ''# TS_DIAL_BACKOFF_MAX=30s          # Cap on backoff duration per retry''])"

definition envKeyOrder :: "string list" where
  "envKeyOrder =
     [''TS_TARGET'', ''TS_INSTANCE_NAME'', ''TS_PORT_RANGE'', ''TS_LOCAL_ADDR'', ''TS_HOSTNAME'', ''TS_STATE_DIR'',
      ''TS_CONTROL_URL'', ''TS_BOOTSTRAP_SSH'', ''TS_BOOTSTRAP_SOCKS_ADDR'', ''TS_HEALTH_ADDR'', ''TS_LOG_FORMAT'',
      ''TS_IDLE_TIMEOUT'', ''TS_DIAL_TIMEOUT'', ''TS_DIAL_RETRIES'', ''TS_DIAL_BACKOFF_BASE'',
      ''TS_DIAL_BACKOFF_MAX'', ''TS_MAX_CONNECTIONS'', ''TS_TIMEOUT'', ''TS_DRAIN_TIMEOUT'', ''TS_VERBOSE'']"

text \<open>The loop over the known keys: the pairs it writes and the values it leaves.\<close>

fun write_known :: "string list \<Rightarrow> (string \<times> string) list \<Rightarrow> (string \<times> string) list \<times> (string \<times> string) list" where
  "write_known [] values = ([], values)"
| "write_known (key # keys) values =
     (case write_known keys (AList.delete key values) of
        (ps, rest) \<Rightarrow> (case map_of values key of None \<Rightarrow> (ps, rest) | Some v \<Rightarrow> ((key, v) # ps, rest)))"

definition env_pairs :: "initFlags \<Rightarrow> (string \<times> string) list \<Rightarrow> (string \<times> string) list" where
  "env_pairs f values0 =
     (let values1 = AList.update ''TS_TARGET'' (i_Target f) values0;
          values2 = (if i_ControlURL f \<noteq> [] then AList.update ''TS_CONTROL_URL'' (i_ControlURL f) values1 else values1);
          values3 = AList.delete ''TS_AUTHKEY'' values2
      in case write_known envKeyOrder values3 of
           (known, rest) \<Rightarrow>
             (''TS_AUTHKEY'', i_AuthKey f) # known @
             map (\<lambda>k. (k, the (map_of rest k))) (sort_names (map fst rest)))"

definition buildEnvContent :: "string \<Rightarrow> initFlags \<Rightarrow> (string \<times> string) list \<Rightarrow> string" where
  "buildEnvContent now f values = unlines
     ([''# ts-bridge environment configuration'',
       ''# Auth key '' @ em_dash @ '' DO NOT commit this file (visible to child processes)'',
       ''# Secure alternative: pass --auth-key-file /path/to/key (chmod 0600)'',
       ''# Generated by ts-bridge init on '' @ now, []] @
      map kv_line (env_pairs f values))"

subsection \<open>Writing the files\<close>

definition writeFileWithPerms :: "string \<Rightarrow> string \<Rightarrow> disk \<Rightarrow> write_error option \<times> disk" where
  "writeFileWithPerms path content d = WriteFile path content d"

definition ensureWritable ::
  "string \<Rightarrow> bool \<Rightarrow> bool \<Rightarrow> string list \<Rightarrow> disk \<Rightarrow> init_error option \<times> string list \<times> disk" where
  "ensureWritable path force nonInteractive ls d =
     (case os_Stat path d of
        (Some _, d1) \<Rightarrow> (None, ls, d1)
      | (None, d1) \<Rightarrow>
          if \<not> force \<and> \<not> nonInteractive then
            (case confirmOverwrite ls of
               (yes, ls1) \<Rightarrow> (if yes then None else Some (Aborted path), ls1, d1))
          else if \<not> force then (Some (FileExists path), ls, d1)
          else (None, ls, d1))"

definition isNonInteractive :: "init_ctx \<Rightarrow> bool" where
  "isNonInteractive c \<longleftrightarrow> \<not> n_tty c"

definition writeYAMLConfig :: "init_ctx \<Rightarrow> initFlags \<Rightarrow> string list \<Rightarrow> disk \<Rightarrow> init_error option \<times> disk" where
  "writeYAMLConfig c f ls d =
     (let yamlPath = os_path (n_cmd c) (i_Config f);
          envPath = Join [Dir yamlPath, ''.env''] in
      case ensureWritable yamlPath (i_Force f) (isNonInteractive c) ls d of
        (Some e, ls1, d1) \<Rightarrow> (Some e, d1)
      | (None, ls1, d1) \<Rightarrow>
          (case ensureWritable envPath (i_Force f) (isNonInteractive c) ls1 d1 of
             (Some e, ls2, d2) \<Rightarrow> (Some e, d2)
           | (None, ls2, d2) \<Rightarrow>
               (case Values envPath d2 of
                  (Inl e, d3) \<Rightarrow> (Some (ReadEnvFile e), d3)
                | (Inr existing, d3) \<Rightarrow>
                    (case writeFileWithPerms yamlPath (buildYAMLContent (n_now c) f) d3 of
                       (Some e, d4) \<Rightarrow> (Some (WriteYAMLFile e), d4)
                     | (None, d4) \<Rightarrow>
                         (case writeFileWithPerms envPath (buildEnvContent (n_now c) f existing) d4 of
                            (Some e, d5) \<Rightarrow> (Some (WriteEnvFile e), d5)
                          | (None, d5) \<Rightarrow> (None, d5))))))"

definition writeEnvConfig :: "init_ctx \<Rightarrow> initFlags \<Rightarrow> string list \<Rightarrow> disk \<Rightarrow> init_error option \<times> disk" where
  "writeEnvConfig c f ls d =
     (let envPath = os_path (n_cmd c) (i_Config f) in
      case ensureWritable envPath (i_Force f) (isNonInteractive c) ls d of
        (Some e, ls1, d1) \<Rightarrow> (Some e, d1)
      | (None, ls1, d1) \<Rightarrow>
          (case writeFileWithPerms envPath (buildEnvConfigContent f) d1 of
             (Some e, d2) \<Rightarrow> (Some (WriteEnvFile e), d2)
           | (None, d2) \<Rightarrow> (None, d2)))"

definition effectiveControlURL ::
  "init_ctx \<Rightarrow> initFlags \<Rightarrow> disk \<Rightarrow> (init_error, string \<times> string) result \<times> disk" where
  "effectiveControlURL c f d =
     (if i_ControlURL f \<noteq> [] \<or> i_Format f \<noteq> formatYAML then (Inr (i_ControlURL f, ''--control-url''), d)
      else
        let envPath = Join [Dir (os_path (n_cmd c) (i_Config f)), ''.env''] in
        (case Values envPath d of
           (Inl e, d1) \<Rightarrow> (Inl (ReadEnvFile e), d1)
         | (Inr values, d1) \<Rightarrow>
             (Inr (case map_of values ''TS_CONTROL_URL'' of None \<Rightarrow> [] | Some v \<Rightarrow> v, envPath), d1)))"

definition writeConfig :: "init_ctx \<Rightarrow> initFlags \<Rightarrow> string list \<Rightarrow> disk \<Rightarrow> init_error option \<times> disk" where
  "writeConfig c f ls d =
     (case init_validateTarget (i_Target f) of
        Some e \<Rightarrow> (Some e, d)
      | None \<Rightarrow>
          (case effectiveControlURL c f d of
             (Inl e, d1) \<Rightarrow> (Some e, d1)
           | (Inr (controlURL, source), d1) \<Rightarrow>
               (case ValidateControlPlane (i_AuthKey f) controlURL of
                  Some e \<Rightarrow> (Some (PairingRefused e source), d1)
                | None \<Rightarrow>
                    if i_Format f = formatYAML then writeYAMLConfig c f ls d1 else writeEnvConfig c f ls d1)))"

definition defaultConfigPath :: "string \<Rightarrow> string" where
  "defaultConfigPath format = (if format = formatYAML then ''ts-bridge.yaml'' else ''.env'')"

definition with_config_path :: "initFlags \<Rightarrow> initFlags" where
  "with_config_path f = (if i_Config f = [] then f\<lparr>i_Config := defaultConfigPath (i_Format f)\<rparr> else f)"

definition runInitInteractive :: "init_ctx \<Rightarrow> initFlags \<Rightarrow> string list \<Rightarrow> disk \<Rightarrow> init_error option \<times> disk" where
  "runInitInteractive c f ls d =
     (if isNonInteractive c then (Some NotATerminal, d)
      else (case collectInteractiveInputs c f ls of
              (Inl e, ls1) \<Rightarrow> (Some e, d)
            | (Inr f1, ls1) \<Rightarrow> writeConfig c (with_config_path f1) ls1 d))"

definition runInitNonInteractive :: "init_ctx \<Rightarrow> initFlags \<Rightarrow> string list \<Rightarrow> disk \<Rightarrow> init_error option \<times> disk" where
  "runInitNonInteractive c f0 ls d =
     (let f1 = with_config_path f0 in
      case validateAuthKey (i_AuthKey f1) of
        Some e \<Rightarrow> (Some e, d)
      | None \<Rightarrow>
          (case init_validateTarget (i_Target f1) of
             Some e \<Rightarrow> (Some e, d)
           | None \<Rightarrow>
               let f2 = (if i_Instance f1 \<noteq> [] then f1\<lparr>i_Instance := TrimSpace (i_Instance f1)\<rparr> else f1) in
               (case (if i_PortRange f2 \<noteq> [] then validatePortRange (i_PortRange f2) else None) of
                  Some e \<Rightarrow> (Some e, d)
                | None \<Rightarrow> writeConfig c f2 ls d)))"

subsection \<open>Profiles\<close>

definition validateProfileModeFlags :: "init_ctx \<Rightarrow> init_error option" where
  "validateProfileModeFlags c =
     first_err (\<lambda>flag. if flag \<in> set (n_changed c) then Some (IncompatibleFlag flag) else None)
       [''auth-key'', ''auth-key-file'', ''instance'', ''port-range'', ''format'']"

text \<open>The decoder gives the version, the document as an entry, and whether a second document follows.\<close>

definition readProfileConfig ::
  "init_ctx \<Rightarrow> string \<Rightarrow> disk \<Rightarrow> (init_error, profileEntry) result \<times> disk" where
  "readProfileConfig c path d =
     (case os_ReadFile (os_path (n_cmd c) path) d of
        (Inl e, d1) \<Rightarrow> (Inl (ReadProfileConfig e), d1)
      | (Inr raw, d1) \<Rightarrow>
          (case n_profile_doc c raw of
             None \<Rightarrow> (Inl DecodeProfileConfig, d1)
           | Some (version, entry, second) \<Rightarrow>
               if version \<noteq> 0 \<and> version \<noteq> 1 then (Inl (ProfileConfigVersion version), d1)
               else if second then (Inl ProfileConfigDocuments, d1)
               else (Inr (entry\<lparr>pe_Credential := []\<rparr>), d1)))"

definition overlay_runtime :: "runtime \<Rightarrow> runtime \<Rightarrow> runtime" where
  "overlay_runtime r v =
     \<lparr>rt_BootstrapSSH = overlay (rt_BootstrapSSH r) (rt_BootstrapSSH v),
      rt_BootstrapSOCKSAddr = overlay (rt_BootstrapSOCKSAddr r) (rt_BootstrapSOCKSAddr v),
      rt_Hostname = overlay (rt_Hostname r) (rt_Hostname v),
      rt_StateDir = overlay (rt_StateDir r) (rt_StateDir v),
      rt_LocalAddr = overlay (rt_LocalAddr r) (rt_LocalAddr v),
      rt_HealthAddr = overlay (rt_HealthAddr r) (rt_HealthAddr v)\<rparr>"

definition importProfileConfig ::
  "init_ctx \<Rightarrow> string \<Rightarrow> profileEntry \<Rightarrow> disk \<Rightarrow> (init_error, profileEntry) result \<times> disk" where
  "importProfileConfig c path selected d =
     (case readProfileConfig c path d of
        (Inl e, d1) \<Rightarrow> (Inl e, d1)
      | (Inr imported, d1) \<Rightarrow>
          (Inr (selected\<lparr>pe_Target := overlay (pe_Target selected) (pe_Target imported),
                         pe_ControlURL := overlay (pe_ControlURL selected) (pe_ControlURL imported),
                         pe_Runtime := overlay_runtime (pe_Runtime selected) (pe_Runtime imported)\<rparr>), d1))"

definition runInitProfile :: "init_ctx \<Rightarrow> initFlags \<Rightarrow> disk \<Rightarrow> (init_error option \<times> disk) option" where
  "runInitProfile c f d =
     (let s = x_store (n_cmd c) in
      case ListProfiles s d of
        (Inl e, d1) \<Rightarrow> Some (Some (LoadProfileStore e), d1)
      | (Inr profiles, d1) \<Rightarrow>
          let exist = map_of profiles (i_Profile f);
              selected0 = (case exist of None \<Rightarrow> zero_entry | Some e \<Rightarrow> e) in
          if exist \<noteq> None \<and> \<not> i_Force f then Some (Some (ProfileExists (i_Profile f)), d1)
          else (case (if i_Config f \<noteq> [] then importProfileConfig c (i_Config f) selected0 d1 else (Inr selected0, d1)) of
                  (Inl e, d2) \<Rightarrow> Some (Some e, d2)
                | (Inr selected1, d2) \<Rightarrow>
                    let selected = selected1\<lparr>pe_Target := overlay (pe_Target selected1) (i_Target f),
                                             pe_ControlURL := overlay (pe_ControlURL selected1) (i_ControlURL f)\<rparr> in
                    (case init_validateTarget (pe_Target selected) of
                       Some e \<Rightarrow> Some (Some e, d2)
                     | None \<Rightarrow>
                         (case Configure s (n_lock c) (i_Profile f) selected (i_Force f) d2 of
                            None \<Rightarrow> None
                          | Some (Inl e, d3) \<Rightarrow> Some (Some (WriteProfile (i_Profile f) e), d3)
                          | Some (Inr dropped, d3) \<Rightarrow> Some (None, d3)))))"

subsection \<open>The command\<close>

definition parseInitFormat :: "initFlags \<Rightarrow> (init_error, initFlags) result" where
  "parseInitFormat f =
     (let fmt = ToLower (i_Format f) in
      if fmt = formatYAML \<or> fmt = formatENV then Inr (f\<lparr>i_Format := fmt\<rparr>) else Inl (InvalidFormat (i_Format f)))"

definition runInit :: "init_ctx \<Rightarrow> initFlags \<Rightarrow> string list \<Rightarrow> disk \<Rightarrow> (init_error option \<times> disk) option" where
  "runInit c f0 ls d =
     (case parseInitFormat f0 of
        Inl e \<Rightarrow> Some (Some e, d)
      | Inr f \<Rightarrow>
          if ''auth-key-file'' \<in> set (n_changed c) \<and> TrimSpace (i_AuthKeyFile f) = [] then Some (Some EmptyKeyFileFlag, d)
          else if i_Profile f \<noteq> [] then
            (case validateProfileModeFlags c of
               Some e \<Rightarrow> Some (Some e, d)
             | None \<Rightarrow> runInitProfile c f d)
          else if (''auth-key'' \<in> set (n_changed c) \<or> ''auth-key-file'' \<in> set (n_changed c)) \<and> i_Target f = []
          then Some (Some KeyWithoutTarget, d)
          else (case (if i_AuthKeyFile f = [] then (Inr f, d)
                      else (case readAuthKeyFile (n_cmd c) (i_AuthKeyFile f) d of
                              (Inl e, d1) \<Rightarrow> (Inl (KeyFileError e), d1)
                            | (Inr key, d1) \<Rightarrow> (Inr (f\<lparr>i_AuthKey := key\<rparr>), d1))) of
                  (Inl e, d1) \<Rightarrow> Some (Some e, d1)
                | (Inr f1, d1) \<Rightarrow>
                    Some (if i_AuthKey f1 = [] \<or> i_Target f1 = [] then runInitInteractive c f1 ls d1
                          else runInitNonInteractive c f1 ls d1)))"

end
