(* ===== verification/Init_Laws.thy ===== *)
theory Init_Laws
  imports Init_Cmd
begin

text \<open>
  What init writes is what connect reads: the environment file in both formats, the values kept
  from an earlier one, and the run of a connect command after an init command.
\<close>

subsection \<open>The environment after loading a file\<close>

definition settable :: "string \<times> string \<Rightarrow> bool" where
  "settable kv \<longleftrightarrow> fst kv \<noteq> [] \<and> CHR ''='' \<notin> set (fst kv) \<and> CHR 0x00 \<notin> set (fst kv) \<and> CHR 0x00 \<notin> set (snd kv)"

lemma fold_Setenv:
  "distinct (map fst vs) \<Longrightarrow> \<forall>kv \<in> set vs. settable kv \<Longrightarrow>
   Getenv (fold Setenv vs E) k = (case map_of vs k of None \<Rightarrow> Getenv E k | Some v \<Rightarrow> v)"
proof (induction vs arbitrary: E)
  case (Cons kv vs)
  obtain a b where kv: "kv = (a, b)" by fastforce
  have "Getenv (fold Setenv vs (Setenv kv E)) k = (case map_of vs k of None \<Rightarrow> Getenv (Setenv kv E) k | Some v \<Rightarrow> v)"
    using Cons by simp
  moreover have "map_of vs a = None" using Cons.prems(1) by (simp add: kv map_of_eq_None_iff)
  moreover have "Setenv kv E = E\<lparr>Getenv := (Getenv E)(a := b)\<rparr>"
    using Cons.prems(2) by (simp add: kv Setenv_def settable_def)
  ultimately show ?case by (auto simp: kv split: option.splits)
qed simp

lemma map_of_rev_distinct: "distinct (map fst xs) \<Longrightarrow> map_of (rev xs) = map_of xs"
  by (subst map_of_inject_set) (auto simp: rev_map [symmetric])

lemma env_lines_distinct: "distinct (map fst vs) \<Longrightarrow> distinct (map fst (env_lines ls vs))"
  by (induction ls vs rule: env_lines.induct) (auto simp: distinct_update split: option.splits)

lemma Values_of_distinct: "Values_of s = Inr vs \<Longrightarrow> distinct (map fst vs)"
  using env_lines_distinct [of "[]"] by (auto simp: Values_of_def Let_def split: if_splits)

text \<open>A plain value: printable, with no surrounding quotes, short enough for a line.\<close>

definition plain_value :: "string \<Rightarrow> bool" where
  "plain_value v \<longleftrightarrow> (\<forall>c \<in> set v. graphic c) \<and> strip_quotes v = v \<and> length v < 65000"

lemma graphic_not_LF: "\<not> graphic LF" "\<not> graphic CHR 0x00"
  by (simp_all add: graphic_def LF_def)

lemma plain_value_clean: "plain_value v \<Longrightarrow> clean_value v \<and> CHR 0x00 \<notin> set v"
  using graphic_not_LF by (auto simp: plain_value_def clean_value_def)

lemma clean_key_known: "k \<in> set (''TS_AUTHKEY'' # envKeyOrder) \<Longrightarrow>
    clean_key k \<and> CHR 0x00 \<notin> set k \<and> length k < 30"
proof -
  have "list_all (\<lambda>k. clean_key k \<and> CHR 0x00 \<notin> set k \<and> length k < 30) (''TS_AUTHKEY'' # envKeyOrder)" by code_simp
  then show "k \<in> set (''TS_AUTHKEY'' # envKeyOrder) \<Longrightarrow> clean_key k \<and> CHR 0x00 \<notin> set k \<and> length k < 30"
    by (auto simp: list_all_iff)
qed

subsection \<open>The env format\<close>

definition env_config_pairs :: "initFlags \<Rightarrow> (string \<times> string) list" where
  "env_config_pairs f =
     [(''TS_AUTHKEY'', i_AuthKey f), (''TS_TARGET'', i_Target f)] @
     (if i_Instance f \<noteq> [] then [(''TS_INSTANCE_NAME'', i_Instance f)] else []) @
     (if i_PortRange f \<noteq> [] then [(''TS_PORT_RANGE'', i_PortRange f)] else []) @
     (if i_ControlURL f \<noteq> [] then [(''TS_CONTROL_URL'', i_ControlURL f)] else [])"

definition env_config_lines :: "initFlags \<Rightarrow> text_line list" where
  "env_config_lines f =
     (let opt = (\<lambda>k v. if v \<noteq> [] then [Assign (k, v)] else []) in
      map Inert [''# '' @ box_line 2 @ '' Required '' @ box_line 49, ''#'',
       ''# Auth key (tskey- for Tailscale SaaS, hskey- for Headscale)'',
       ''#   Tailscale: https://login.tailscale.com/admin/settings/keys'',
       ''#   Headscale: headscale preauthkeys create --user <ID> --reusable --ephemeral --expiration 8760h'',
       ''#'',
       ''# Note: Keys in .env/environment are visible to child processes.'',
       ''# For hardened setups, consider omitting TS_AUTHKEY and passing --auth-key-file /path/to/key''] @
      [Assign (''TS_AUTHKEY'', i_AuthKey f), Inert [],
       Inert ''# Target host:port on the Tailscale/Headscale network'',
       Assign (''TS_TARGET'', i_Target f), Inert [],
       Inert (''# '' @ box_line 2 @ '' Optional (sensible defaults) '' @ box_line 29),
       Inert (''# See README.md '' @ right_arrow @ '' Configuration Reference for all options.'')] @
      opt ''TS_INSTANCE_NAME'' (i_Instance f) @ opt ''TS_PORT_RANGE'' (i_PortRange f) @
      map Inert [''#'', ''# TS_LOCAL_ADDR=127.0.0.1:33389   # Local bind address''] @
      (if i_ControlURL f \<noteq> [] then [Assign (''TS_CONTROL_URL'', i_ControlURL f)]
       else [Inert ''# TS_CONTROL_URL=                  # Custom control plane'']) @
      map Inert [''# TS_BOOTSTRAP_SSH=                # OpenSSH endpoint for blocked control plane'',
       ''# TS_BOOTSTRAP_SOCKS_ADDR=127.0.0.1:1055 # Loopback SOCKS listener'',
       ''# TS_IDLE_TIMEOUT=                 # Close idle conns after this duration'',
       ''# TS_DIAL_TIMEOUT=5s               # Per-connection target dial timeout'',
       ''# TS_DIAL_RETRIES=3                # Max retries for transient dial failures'',
       ''# TS_DIAL_BACKOFF_BASE=1s          # Base backoff for retries'',
       ''# TS_DIAL_BACKOFF_MAX=30s          # Cap on backoff duration per retry''])"

lemma env_config_shown: "buildEnvConfigContent f = unlines (map show_line (env_config_lines f))"
  by (simp add: buildEnvConfigContent_def env_config_lines_def opt_line_def kv_line_def Let_def)

lemma env_config_assigns: "assigns (env_config_lines f) = env_config_pairs f"
  by (simp add: env_config_lines_def env_config_pairs_def Let_def)

text \<open>The comments do not depend on the flags, so they are checked by computation.\<close>

definition comment_ok :: "text_line \<Rightarrow> bool" where
  "comment_ok t = (case t of Inert l \<Rightarrow> inert l \<and> length l < maxToken | Assign _ \<Rightarrow> True)"

lemma env_config_comments: "\<forall>t \<in> set (env_config_lines f). comment_ok t"
proof -
  have "list_all comment_ok (env_config_lines \<lparr>i_AuthKey = [], i_AuthKeyFile = [], i_Target = [], i_Instance = [],
      i_PortRange = [], i_Format = [], i_Config = [], i_Force = False, i_Profile = [], i_ControlURL = []\<rparr>)"
    by code_simp
  then show ?thesis by (auto simp: env_config_lines_def comment_ok_def list_all_iff Let_def)
qed

lemma assigns_set: "Assign kv \<in> set ts \<longleftrightarrow> kv \<in> set (assigns ts)"
  by (induction ts rule: assigns.induct) auto

lemma lines_ok:
  assumes "\<forall>t \<in> set ts. comment_ok t"
    and "\<forall>kv \<in> set (assigns ts). clean_pair kv \<and> length (fst kv) + length (snd kv) < 65535"
  shows "\<forall>t \<in> set ts. line_ok t \<and> length (show_line t) < maxToken"
proof
  fix t assume t: "t \<in> set ts"
  show "line_ok t \<and> length (show_line t) < maxToken"
  proof (cases t)
    case (Inert l)
    then show ?thesis using assms(1) t by (auto simp: comment_ok_def)
  next
    case (Assign kv)
    then show ?thesis using assms(2) t assigns_set [of kv ts] by (auto simp: kv_line_def maxToken_def)
  qed
qed

lemma plain_pair:
  assumes "k \<in> set (''TS_AUTHKEY'' # envKeyOrder)" "plain_value v"
  shows "clean_pair (k, v) \<and> length k + length v < 65535 \<and> settable (k, v)"
  using clean_key_known [OF assms(1)] plain_value_clean [OF assms(2)] assms(2)
  by (auto simp: clean_pair_def settable_def clean_key_def plain_value_def)

definition plain_flags :: "initFlags \<Rightarrow> bool" where
  "plain_flags f \<longleftrightarrow> plain_value (i_AuthKey f) \<and> plain_value (i_Target f) \<and> plain_value (i_Instance f) \<and>
     plain_value (i_PortRange f) \<and> plain_value (i_ControlURL f)"

lemma env_config_pairs_ok:
  assumes "plain_flags f"
  shows "\<forall>kv \<in> set (env_config_pairs f). clean_pair kv \<and> length (fst kv) + length (snd kv) < 65535 \<and> settable kv"
    and "distinct (map fst (env_config_pairs f))"
proof -
  have "\<forall>(k, v) \<in> set (env_config_pairs f). k \<in> set (''TS_AUTHKEY'' # envKeyOrder) \<and> plain_value v"
    using assms by (auto simp: env_config_pairs_def plain_flags_def envKeyOrder_def)
  then show "\<forall>kv \<in> set (env_config_pairs f). clean_pair kv \<and> length (fst kv) + length (snd kv) < 65535 \<and> settable kv"
    using plain_pair by fastforce
  show "distinct (map fst (env_config_pairs f))" by (simp add: env_config_pairs_def)
qed

lemma env_config_read:
  assumes "plain_flags f"
  shows "\<exists>vs. Values_of (buildEnvConfigContent f) = Inr vs \<and> map_of vs = map_of (env_config_pairs f)"
proof -
  have "\<forall>t \<in> set (env_config_lines f). line_ok t \<and> length (show_line t) < maxToken"
    using env_config_pairs_ok(1) [OF assms] by (intro lines_ok env_config_comments) (simp add: env_config_assigns)
  from Values_of_written [OF this] show ?thesis
    using env_config_pairs_ok(2) [OF assms]
    by (auto simp: env_config_shown env_config_assigns map_of_rev_distinct)
qed


subsection \<open>The environment file beside a YAML file\<close>

lemma map_of_delete [simp]: "map_of (AList.delete k vs) = (map_of vs)(k := None)"
  by (simp add: delete_conv')

lemma write_known_pairs:
  "write_known keys vs = (ps, rest) \<Longrightarrow> distinct keys \<Longrightarrow>
   map_of ps = (map_of vs) |` set keys \<and> map_of rest = (map_of vs) |` (- set keys) \<and> map fst ps = filter (\<lambda>k. k \<in> dom (map_of vs)) keys"
proof (induction keys arbitrary: vs ps rest)
  case Nil
  then show ?case by (auto simp: restrict_map_def)
next
  case (Cons k ks)
  obtain qs where w: "write_known ks (AList.delete k vs) = (qs, rest)"
    and ps: "ps = (case map_of vs k of None \<Rightarrow> qs | Some v \<Rightarrow> (k, v) # qs)"
    using Cons.prems(1) by (auto split: prod.splits option.splits)
  have k: "k \<notin> set ks" "distinct ks" using Cons.prems(2) by auto
  have "filter (\<lambda>j. j \<in> dom ((map_of vs)(k := None))) ks = filter (\<lambda>j. j \<in> dom (map_of vs)) ks"
    using k(1) by (intro filter_cong) auto
  then show ?case
    using Cons.IH [OF w k(2)] ps k(1)
    by (auto simp: restrict_map_def fun_eq_iff dom_def split: option.splits)
qed

lemma write_known_rest_distinct:
  "write_known keys vs = (ps, rest) \<Longrightarrow> distinct (map fst vs) \<Longrightarrow> distinct (map fst rest)"
proof (induction keys arbitrary: vs ps rest)
  case (Cons k ks)
  then show ?case by (auto split: prod.splits option.splits simp: distinct_delete)
qed simp

lemma map_of_sorted_rest: "map_of (map (\<lambda>k. (k, the (map_of rest k))) (sort_names (map fst rest))) = map_of rest"
proof
  fix k
  have "map_of (map (\<lambda>k. (k, the (map_of rest k))) ks) k = (if k \<in> set ks then Some (the (map_of rest k)) else None)" for ks
    by (induction ks) auto
  moreover have "k \<in> set (sort_names (map fst rest)) \<longleftrightarrow> map_of rest k \<noteq> None"
    by (simp add: map_of_eq_None_iff)
  ultimately show "map_of (map (\<lambda>k. (k, the (map_of rest k))) (sort_names (map fst rest))) k = map_of rest k"
    by (cases "map_of rest k") simp_all
qed

definition env_values :: "initFlags \<Rightarrow> (string \<rightharpoonup> string) \<Rightarrow> (string \<rightharpoonup> string)" where
  "env_values f m =
     (if i_ControlURL f \<noteq> [] then m(''TS_TARGET'' \<mapsto> i_Target f, ''TS_CONTROL_URL'' \<mapsto> i_ControlURL f)
      else m(''TS_TARGET'' \<mapsto> i_Target f))(''TS_AUTHKEY'' \<mapsto> i_AuthKey f)"

lemma env_pairs_map:
  assumes "distinct (map fst vs)"
  shows "map_of (env_pairs f vs) = env_values f (map_of vs)" and "distinct (map fst (env_pairs f vs))"
proof -
  define v3 where "v3 = AList.delete ''TS_AUTHKEY''
    (if i_ControlURL f \<noteq> [] then AList.update ''TS_CONTROL_URL'' (i_ControlURL f) (AList.update ''TS_TARGET'' (i_Target f) vs)
     else AList.update ''TS_TARGET'' (i_Target f) vs)"
  obtain known rest where w: "write_known envKeyOrder v3 = (known, rest)" by fastforce
  have ko: "distinct envKeyOrder" "''TS_AUTHKEY'' \<notin> set envKeyOrder" by code_simp+
  note k = write_known_pairs [OF w ko(1)]
  let ?tail = "map (\<lambda>k. (k, the (map_of rest k))) (sort_names (map fst rest))"
  have e: "env_pairs f vs = (''TS_AUTHKEY'', i_AuthKey f) # known @ ?tail"
    using w by (simp add: env_pairs_def v3_def Let_def)
  have a: "map_of v3 ''TS_AUTHKEY'' = None" by (simp add: v3_def)
  have m: "map_of (known @ ?tail) = map_of v3"
    using k map_of_sorted_rest [of rest] by (auto simp: fun_eq_iff map_add_def restrict_map_def split: option.splits)
  show "map_of (env_pairs f vs) = env_values f (map_of vs)"
    unfolding e using m by (auto simp: env_values_def v3_def update_conv' fun_eq_iff)
  have d3: "distinct (map fst v3)" using assms by (simp add: v3_def distinct_update distinct_delete)
  have t: "map fst ?tail = sort_names (map fst rest)" by (simp add: comp_def)
  have dt: "distinct (sort_names (map fst rest))" using write_known_rest_distinct [OF w d3] by simp
  have kn: "map fst known = filter (\<lambda>k. k \<in> dom (map_of v3)) envKeyOrder" using k by blast
  have rn: "x \<notin> set envKeyOrder \<and> x \<in> dom (map_of v3)" if "x \<in> fst ` set rest" for x
  proof -
    have "x \<in> dom (map_of rest)" using that by (simp add: dom_map_of_conv_image_fst)
    then show ?thesis using k by (auto simp: restrict_map_def split: if_splits)
  qed
  have "''TS_AUTHKEY'' \<notin> fst ` set rest" using rn a by (metis domIff)
  moreover have "set (map fst known) \<inter> fst ` set rest = {}" using rn by (auto simp: kn)
  moreover have "distinct (map fst known)" "''TS_AUTHKEY'' \<notin> set (map fst known)" using ko by (simp_all add: kn)
  ultimately show "distinct (map fst (env_pairs f vs))"
    unfolding e list.map map_append t using dt by auto
qed

definition env_lines_of :: "string \<Rightarrow> initFlags \<Rightarrow> (string \<times> string) list \<Rightarrow> text_line list" where
  "env_lines_of now f vs =
     map Inert [''# ts-bridge environment configuration'',
       ''# Auth key '' @ em_dash @ '' DO NOT commit this file (visible to child processes)'',
       ''# Secure alternative: pass --auth-key-file /path/to/key (chmod 0600)'',
       ''# Generated by ts-bridge init on '' @ now, []] @
     map Assign (env_pairs f vs)"

lemma env_content_shown: "buildEnvContent now f vs = unlines (map show_line (env_lines_of now f vs))"
  by (simp add: buildEnvContent_def env_lines_of_def comp_def)

text \<open>A pair that survives being written and read again.\<close>

definition kept_pair :: "string \<times> string \<Rightarrow> bool" where
  "kept_pair kv \<longleftrightarrow> clean_pair kv \<and> length (fst kv) + length (snd kv) < 65535"

lemma env_values_ran:
  "env_values f m k = Some v \<Longrightarrow> m k = Some v \<or>
   k \<in> set (''TS_AUTHKEY'' # envKeyOrder) \<and> v \<in> {i_AuthKey f, i_Target f, i_ControlURL f}"
  by (auto simp: env_values_def envKeyOrder_def split: if_splits)

lemma env_content_read:
  assumes "plain_flags f" and "distinct (map fst vs)" and "\<forall>kv \<in> set vs. kept_pair kv"
    and "LF \<notin> set now" and "length now < 100"
  shows "\<exists>ws. Values_of (buildEnvContent now f vs) = Inr ws \<and> map_of ws = env_values f (map_of vs)"
proof -
  have "kept_pair (k, v)" if "(k, v) \<in> set (env_pairs f vs)" for k v
  proof -
    have "env_values f (map_of vs) k = Some v" using that env_pairs_map [OF assms(2)] by (metis map_of_is_SomeI)
    from env_values_ran [OF this] show ?thesis
    proof
      assume "map_of vs k = Some v"
      then show ?thesis using assms(3) by (auto dest: map_of_SomeD)
    next
      assume a: "k \<in> set (''TS_AUTHKEY'' # envKeyOrder) \<and> v \<in> {i_AuthKey f, i_Target f, i_ControlURL f}"
      then have "plain_value v" using assms(1) by (auto simp: plain_flags_def)
      then show ?thesis using plain_pair [of k v] a by (auto simp: kept_pair_def)
    qed
  qed
  then have kept: "\<forall>kv \<in> set (env_pairs f vs). kept_pair kv" by auto
  have "list_all comment_ok (map Inert [''# ts-bridge environment configuration'',
       ''# Auth key '' @ em_dash @ '' DO NOT commit this file (visible to child processes)'',
       ''# Secure alternative: pass --auth-key-file /path/to/key (chmod 0600)'', []])" by code_simp
  moreover have "comment_ok (Inert (''# Generated by ts-bridge init on '' @ now))"
    using assms(4,5) by (simp add: comment_ok_def inert_def maxToken_def LF_def)
  ultimately have "\<forall>t \<in> set (env_lines_of now f vs). comment_ok t"
    by (auto simp: env_lines_of_def comment_ok_def)
  then have "\<forall>t \<in> set (env_lines_of now f vs). line_ok t \<and> length (show_line t) < maxToken"
    using kept by (intro lines_ok) (auto simp: env_lines_of_def kept_pair_def)
  from Values_of_written [OF this] show ?thesis
    using env_pairs_map [OF assms(2), of f]
    by (auto simp: env_content_shown env_lines_of_def map_of_rev_distinct)
qed

subsection \<open>Init and then connect\<close>

lemma Stat_disk: "os_Stat p d = (r, d') \<Longrightarrow> files d' = files d \<and> (disk_ok d \<longrightarrow> disk_ok d')"
  by (auto simp: os_Stat_def syscall_def disk_ok_def Let_def split: if_splits)

lemma ensureWritable_disk:
  "ensureWritable p fc ni ls d = (e, ls1, d1) \<Longrightarrow> files d1 = files d \<and> (disk_ok d \<longrightarrow> disk_ok d1)"
  using Stat_disk by (fastforce simp: ensureWritable_def split: prod.splits option.splits if_splits)

lemma writeEnvConfig_writes:
  assumes "writeEnvConfig c f ls d = (None, d')" "disk_ok d"
  shows "files d' (os_path (n_cmd c) (i_Config f)) = Some \<lparr>f_data = buildEnvConfigContent f, f_mode = 384\<rparr>"
proof -
  let ?p = "os_path (n_cmd c) (i_Config f)"
  obtain ls1 d1 where e: "ensureWritable ?p (i_Force f) (isNonInteractive c) ls d = (None, ls1, d1)"
    and w: "WriteFile ?p (buildEnvConfigContent f) d1 = (None, d')"
    using assms(1) by (auto simp: writeEnvConfig_def writeFileWithPerms_def Let_def split: prod.splits option.splits)
  have "disk_ok d1" using ensureWritable_disk [OF e] assms(2) by blast
  then show ?thesis using os_rename.write_outcome [OF w [unfolded WriteFile_def]] by blast
qed

lemma init_env_written:
  assumes "runInitNonInteractive c f ls d = (None, d')" "disk_ok d" "i_Format f = formatENV" "i_Config f = []"
  shows "\<exists>h. files d' (os_path (n_cmd c) ''.env'') = Some \<lparr>f_data = buildEnvConfigContent h, f_mode = 384\<rparr> \<and>
    i_AuthKey h = i_AuthKey f \<and> i_Target h = i_Target f \<and> i_ControlURL h = i_ControlURL f \<and>
    i_Instance h = TrimSpace (i_Instance f) \<and> i_PortRange h = i_PortRange f"
proof -
  define h where "h = (let f1 = with_config_path f in
    if i_Instance f1 \<noteq> [] then f1\<lparr>i_Instance := TrimSpace (i_Instance f1)\<rparr> else f1)"
  have h: "i_AuthKey h = i_AuthKey f" "i_Target h = i_Target f" "i_ControlURL h = i_ControlURL f"
    "i_Instance h = TrimSpace (i_Instance f)" "i_PortRange h = i_PortRange f" "i_Config h = ''.env''" "i_Format h = formatENV"
    using assms(3,4) by (auto simp: h_def with_config_path_def Let_def defaultConfigPath_def formatENV_def formatYAML_def)
  have "writeConfig c h ls d = (None, d')"
    using assms(1) by (auto simp: runInitNonInteractive_def h_def Let_def split: option.splits if_splits)
  then have "writeEnvConfig c h ls d = (None, d')"
    using h(7) by (auto simp: writeConfig_def effectiveControlURL_def formatENV_def formatYAML_def split: option.splits)
  from writeEnvConfig_writes [OF this assms(2)] h show ?thesis by auto
qed

lemma Load_written:
  assumes "files d p = Some \<lparr>f_data = buildEnvConfigContent h, f_mode = m\<rparr>" "plain_flags h"
    and "envfile_Load p E d = (Inr E', d')"
  shows "Getenv E' k = (case map_of (env_config_pairs h) k of None \<Rightarrow> Getenv E k | Some v \<Rightarrow> v)"
proof -
  obtain vs where v: "Values_of (buildEnvConfigContent h) = Inr vs" "map_of vs = map_of (env_config_pairs h)"
    using env_config_read [OF assms(2)] by blast
  have "E' = fold Setenv vs E"
    using assms(1,3) v(1) by (auto simp: envfile_Load_def Values_def os_ReadFile_def Let_def split: if_splits)
  moreover have "\<forall>kv \<in> set vs. settable kv"
  proof
    fix kv assume "kv \<in> set vs"
    then have "map_of vs (fst kv) = Some (snd kv)" using Values_of_distinct [OF v(1)] by simp
    then have "kv \<in> set (env_config_pairs h)" using v(2) by (metis map_of_SomeD prod.collapse)
    then show "settable kv" using env_config_pairs_ok(1) [OF assms(2)] by blast
  qed
  ultimately show ?thesis using fold_Setenv [OF Values_of_distinct [OF v(1)]] v(2) by simp
qed

lemma flags_same: "g\<lparr>g_ProfileAuthKey := g_ProfileAuthKey g\<rparr> = g"
  by simp

text \<open>An accepted command with no key file merges the environment it loaded, below the flags.\<close>

lemma runConnect_merges:
  assumes "runConnect x E g [] q d = (Inr (cfg, w), d')" "g_AuthKeyFile g = []"
  shows "\<exists>E' y d1. envfile_Load (os_path x ''.env'') E d = (Inr E', d1) \<and>
    (\<exists>c k. Merge E' (profile_layer y zero_entry) (g\<lparr>g_ProfileAuthKey := k\<rparr>) = Inr c \<and> cfg = c\<lparr>c_Quiet := q\<rparr>)"
  using assms
  by (auto simp: runConnect_def applyConnectProfile_def loadCommandProfile_def finish_connect_def
      split: prod.splits sum.splits option.splits if_splits) (metis flags_same)+

lemma config_pairs_lookup:
  "map_of (env_config_pairs h) ''TS_AUTHKEY'' = Some (i_AuthKey h)"
  "map_of (env_config_pairs h) ''TS_TARGET'' = Some (i_Target h)"
  "i_ControlURL h \<noteq> [] \<Longrightarrow> map_of (env_config_pairs h) ''TS_CONTROL_URL'' = Some (i_ControlURL h)"
  by (simp_all add: env_config_pairs_def)


definition sample_init :: initFlags where
  "sample_init = \<lparr>i_AuthKey = ''tskey-auth-a-b'', i_AuthKeyFile = [], i_Target = ''desk:3389'', i_Instance = [],
     i_PortRange = [], i_Format = formatENV, i_Config = [], i_Force = False, i_Profile = [], i_ControlURL = []\<rparr>"

definition sample_init_ctx :: init_ctx where
  "sample_init_ctx = \<lparr>n_cmd = sample_ctx\<lparr>x_cwd := ''/c''\<rparr>, n_tty = False, n_now = ''2025-01-01'', n_masked = None,
     n_changed = [], n_lock = free_lock, n_profile_doc = (\<lambda>_. None)\<rparr>"

lemma sample_init_runs: "fst (runInitNonInteractive sample_init_ctx sample_init [] sample_keys) = None"
  by code_simp

lemma sample_init_values:
  "Values_of (buildEnvConfigContent sample_init) = Inr [(''TS_AUTHKEY'', ''tskey-auth-a-b''), (''TS_TARGET'', ''desk:3389'')]"
  by code_simp

definition sample_after_init :: disk where
  "sample_after_init = snd (runInitNonInteractive sample_init_ctx sample_init [] sample_keys)"

lemma sample_after_init_file:
  "files sample_after_init ''/c/.env'' = Some \<lparr>f_data = buildEnvConfigContent sample_init, f_mode = 384\<rparr>"
  "\<not> faults sample_after_init (tick sample_after_init)"
  by code_simp+

definition sample_init_env :: os_env where
  "sample_init_env = sample_env\<lparr>Getenv := (\<lambda>_. [])(''TS_AUTHKEY'' := ''tskey-auth-a-b'', ''TS_TARGET'' := ''desk:3389'')\<rparr>"

lemma sample_init_load:
  "envfile_Load (os_path (n_cmd sample_init_ctx) ''.env'') sample_env sample_after_init =
     (Inr sample_init_env, sample_after_init\<lparr>tick := Suc (tick sample_after_init)\<rparr>)"
proof -
  have p: "os_path (n_cmd sample_init_ctx) ''.env'' = ''/c/.env''" by code_simp
  show ?thesis
    by (simp add: p envfile_Load_def Values_def os_ReadFile_def sample_after_init_file sample_init_values Setenv_def
        sample_init_env_def sample_env_def)
qed

lemma runConnect_no_profile:
  assumes "envfile_Load (os_path x ''.env'') E d = (Inr E', d1)" "g_AuthKeyFile g = []" "g_Config g = []"
    and "Getenv E' ''TS_AUTHKEY'' \<noteq> []"
  shows "runConnect x E g [] q d = (finish_connect x E' (profile_layer zero_partial zero_entry) g [] [] q, d1)"
proof -
  have "pe_Target zero_entry = []" by (simp add: zero_entry_def)
  then show ?thesis
    using assms by (simp add: runConnect_def LoadYAMLConfig_def applyConnectProfile_def loadCommandProfile_def flags_same)
qed

lemma sample_init_finish:
  "\<not> isl (finish_connect (n_cmd sample_init_ctx) sample_init_env (profile_layer zero_partial zero_entry) manual_flags [] [] True)"
  by code_simp


text \<open>
  an init in the YAML format keeps the environment file that was there. Reading the file it
  writes beside the YAML file gives exactly the previous values, with the target and the key,
  and the control URL when one was given, replaced by the ones of this run. The previous values
  have to be ones that a line can carry: trimmed, on one line, and not quoted again.
\<close>

lemma init_keeps_env_values:
  assumes "plain_flags f" and "distinct (map fst vs)" and "\<forall>kv \<in> set vs. kept_pair kv"
    and "LF \<notin> set now" and "length now < 100"
  shows "\<exists>ws. Values_of (buildEnvContent now f vs) = Inr ws \<and>
    (\<forall>k. map_of ws k =
       (if k = ''TS_AUTHKEY'' then Some (i_AuthKey f) else if k = ''TS_TARGET'' then Some (i_Target f)
        else if k = ''TS_CONTROL_URL'' \<and> i_ControlURL f \<noteq> [] then Some (i_ControlURL f) else map_of vs k))"
  using env_content_read [OF assms] by (auto simp: env_values_def fun_eq_iff)

subsection \<open>Where init and the rest disagree\<close>

text \<open>Pressing Enter at the format prompt, which announces env as the default, selects YAML.\<close>

lemma format_prompt_default: "readChoiceInput [formatYAML, formatENV] ([] # rest) = (Inr formatYAML, rest)"
  by simp

text \<open>The port range that init writes to the YAML file is a field the YAML reader does not know.\<close>

lemma yaml_port_range_unknown: "unknown_fields [(''port_range'', YString r)] = [''port_range'']"
  by (simp add: unknown_fields_def knownFields_def ToLower_def to_lower_char_def)

text \<open>A value that was quoted twice loses a level of quotes each time init rewrites the file.\<close>

lemma rewritten_quotes:
  "env_line ([CHR ''A'', CHR ''='', CHR 34, CHR 39, CHR ''x'', CHR 39, CHR 34]) = Some (''A'', [CHR 39, CHR ''x'', CHR 39])"
  "env_line (kv_line (''A'', [CHR 39, CHR ''x'', CHR 39])) = Some (''A'', ''x'')"
  by code_simp+

end
