(* ===== verification/Auth_Cmd.thy ===== *)
theory Auth_Cmd
  imports Connect
begin

text \<open>
  \<open>cmd/cli/auth.go\<close> and \<open>cmd/cli/import.go\<close>: the commands that store, show, list and remove
  managed credentials and that import a profile from a descriptor. What the terminal gives is a
  parameter of the run; a result that prints a line carries what it prints.
\<close>

subsection \<open>Errors and input\<close>

datatype auth_error =
    ProfileFlagRequired
  | AuthProfileLoad connect_error
  | ReadKey bool
  | AuthStore store_error
  | BothSelections
  | NoSelection
  | AuthLoadProfile string store_error
  | NoCredentialFor string
  | NotAvailable string cred_error
  | ListCredentials
  | BadDescriptor ParseError
  | ImportFailed string store_error

datatype masked_read = MaskedKey string | NotTerminal | MaskedError

text \<open>
  \<open>ReadString\<close> returns what was read up to and including the first line feed; at the end of input
  it returns what there is. The flag is whether reading failed otherwise.
\<close>

record auth_input =
  a_stdin_flag :: bool
  a_masked :: masked_read
  a_stdin :: string
  a_stdin_fails :: bool

definition first_line :: "string \<Rightarrow> string" where
  "first_line s = (case cut LF s of (l, _, found) \<Rightarrow> if found then l @ [LF] else l)"

definition readAuthInput :: "auth_input \<Rightarrow> (auth_error, string) result" where
  "readAuthInput i =
     (if \<not> a_stdin_flag i then
        (case a_masked i of
           MaskedKey k \<Rightarrow> Inr k
         | NotTerminal \<Rightarrow> Inl (ReadKey True)
         | MaskedError \<Rightarrow> Inl (ReadKey False))
      else if a_stdin_fails i \<and> LF \<notin> set (a_stdin i) then Inl (ReadKey False)
      else Inr (first_line (a_stdin i)))"

subsection \<open>auth set\<close>

text \<open>The positional arguments are a list of at most one credential name.\<close>

definition runAuthSet ::
  "cmd_ctx \<Rightarrow> lock_run \<Rightarrow> string \<Rightarrow> string list \<Rightarrow> auth_input \<Rightarrow> bool \<Rightarrow> disk \<Rightarrow>
   ((auth_error, string) result \<times> disk) option" where
  "runAuthSet x lr profileName args i force d =
     (if profileName = [] then Some (Inl ProfileFlagRequired, d)
      else (case profile_Get (x_store x) profileName d of
              (Inl e, d1) \<Rightarrow> Some (Inl (AuthProfileLoad (profileLoadError profileName e)), d1)
            | (Inr selected, d1) \<Rightarrow>
                let credentialName = (case args of [a] \<Rightarrow> a | _ \<Rightarrow> profileName) in
                (case readAuthInput i of
                   Inl e \<Rightarrow> Some (Inl e, d1)
                 | Inr key \<Rightarrow>
                     (case BindCredential (x_store x) (x_creds x) lr
                             \<lparr>b_Profile = profileName, b_Credential = credentialName, b_Key = key,
                              b_Replace = force, b_ControlURL = pe_ControlURL selected\<rparr> d1 of
                        None \<Rightarrow> None
                      | Some (Inl e, d2) \<Rightarrow> Some (Inl (AuthStore e), d2)
                      | Some (Inr _, d2) \<Rightarrow> Some (Inr credentialName, d2)))))"

subsection \<open>auth status and auth list\<close>

definition resolveAuthSelection ::
  "cmd_ctx \<Rightarrow> string \<Rightarrow> string list \<Rightarrow> disk \<Rightarrow> (auth_error, string \<times> string) result \<times> disk" where
  "resolveAuthSelection x profileName args d =
     (case args of
        [a] \<Rightarrow> if profileName \<noteq> [] then (Inl BothSelections, d) else (Inr (a, []), d)
      | _ \<Rightarrow>
          if profileName = [] then (Inl NoSelection, d)
          else (case profile_Get (x_store x) profileName d of
                  (Inl e, d1) \<Rightarrow> (Inl (AuthLoadProfile profileName e), d1)
                | (Inr selected, d1) \<Rightarrow>
                    if pe_Credential selected = [] then (Inl (NoCredentialFor profileName), d1)
                    else (Inr (pe_Credential selected, profileName), d1)))"

definition runAuthStatus ::
  "cmd_ctx \<Rightarrow> string \<Rightarrow> string list \<Rightarrow> disk \<Rightarrow> (auth_error, string \<times> string) result \<times> disk" where
  "runAuthStatus x profileName args d =
     (case resolveAuthSelection x profileName args d of
        (Inl e, d1) \<Rightarrow> (Inl e, d1)
      | (Inr (name, p), d1) \<Rightarrow>
          (case cred_Get (x_creds x) name d1 of
             (Inl e, d2) \<Rightarrow> (Inl (NotAvailable name e), d2)
           | (Inr _, d2) \<Rightarrow> (Inr (name, p), d2)))"

fun add_reference :: "string \<Rightarrow> string \<Rightarrow> (string \<times> string list) list \<Rightarrow> (string \<times> string list) list" where
  "add_reference c n [] = [(c, [n])]"
| "add_reference c n ((c', ns) # rs) = (if c' = c then (c', ns @ [n]) # rs else (c', ns) # add_reference c n rs)"

definition credentialReferences ::
  "cmd_ctx \<Rightarrow> disk \<Rightarrow> (store_error, (string \<times> string list) list) result \<times> disk" where
  "credentialReferences x d =
     (case ListProfiles (x_store x) d of
        (Inl e, d1) \<Rightarrow> (Inl e, d1)
      | (Inr profiles, d1) \<Rightarrow>
          (Inr (map (\<lambda>(c, ns). (c, sort_names ns))
            (fold (\<lambda>(n, sel) m. if pe_Credential sel \<noteq> [] then add_reference (pe_Credential sel) n m else m) profiles [])), d1))"

text \<open>The printed table: a credential name and the profiles that reference it.\<close>

definition runAuthList ::
  "cmd_ctx \<Rightarrow> (string \<times> bool \<times> int option) list \<Rightarrow> disk \<Rightarrow> (auth_error, (string \<times> string) list) result \<times> disk" where
  "runAuthList x items d =
     (case cred_List items of
        None \<Rightarrow> (Inl ListCredentials, d)
      | Some entries \<Rightarrow>
          (case credentialReferences x d of
             (Inl e, d1) \<Rightarrow> (Inl (AuthStore e), d1)
           | (Inr refs, d1) \<Rightarrow>
               (Inr (map (\<lambda>en. (Name en, join '','' (case map_of refs (Name en) of None \<Rightarrow> [] | Some ns \<Rightarrow> ns))) entries), d1)))"

subsection \<open>auth remove and import\<close>

definition runAuthRemove ::
  "cmd_ctx \<Rightarrow> lock_run \<Rightarrow> string \<Rightarrow> string list \<Rightarrow> bool \<Rightarrow> disk \<Rightarrow>
   ((auth_error, string \<times> RemoveOutcome) result \<times> disk) option" where
  "runAuthRemove x lr profileName args force d =
     (if length args = 1 \<and> profileName \<noteq> [] then Some (Inl BothSelections, d)
      else if args = [] \<and> profileName = [] then Some (Inl NoSelection, d)
      else
        let r = \<lparr>r_Credential = (case args of [a] \<Rightarrow> a | _ \<Rightarrow> []), r_Profile = profileName, r_Force = force\<rparr> in
        (case UnbindCredential (x_store x) (x_creds x) lr r d of
           None \<Rightarrow> None
         | Some (Inl e, d1) \<Rightarrow> Some (Inl (AuthStore e), d1)
         | Some (Inr res, d1) \<Rightarrow> Some (Inr res, d1)))"

definition runImportDirect ::
  "cmd_ctx \<Rightarrow> lock_run \<Rightarrow> string \<Rightarrow> string \<Rightarrow> bool \<Rightarrow> disk \<Rightarrow> ((auth_error, bool \<times> string) result \<times> disk) option" where
  "runImportDirect x lr name rawDescriptor force d =
     (case Parse rawDescriptor of
        Inl e \<Rightarrow> Some (Inl (BadDescriptor e), d)
      | Inr desc \<Rightarrow>
          (case Import (x_store x) lr name desc force d of
             None \<Rightarrow> None
           | Some (Inl e, d1) \<Rightarrow> Some (Inl (ImportFailed name e), d1)
           | Some (Inr dropped, d1) \<Rightarrow> Some (Inr (dropped, descriptor_String desc), d1)))"

subsection \<open>Storing a key and connecting with it\<close>

lemma runAuthSet_binds:
  assumes "runAuthSet x lr p args i force d = Some (Inr c, d')" and "disk_ok d"
  shows "p \<noteq> [] \<and> (\<exists>key url d1. readAuthInput i = Inr key \<and> files d1 = files d \<and> disk_ok d1 \<and>
    BindCredential (x_store x) (x_creds x) lr
      \<lparr>b_Profile = p, b_Credential = c, b_Key = key, b_Replace = force, b_ControlURL = url\<rparr> d1 = Some (Inr (), d'))"
proof -
  obtain selected d1 where g: "profile_Get (x_store x) p d = (Inr selected, d1)" and p: "p \<noteq> []"
    using assms(1) by (auto simp: runAuthSet_def split: if_splits prod.splits sum.splits)
  have "files d1 = files d" "temp_suffix d1 = temp_suffix d" using profile_Get_effect [OF g] by auto
  moreover from this have "disk_ok d1" using assms(2) disk_ok_suffix [of d1 d] by auto
  ultimately have fl: "files d1 = files d \<and> disk_ok d1" by blast
  let ?c = "case args of [a] \<Rightarrow> a | _ \<Rightarrow> p"
  obtain key where k: "readAuthInput i = Inr key"
    using assms(1) g p by (cases "readAuthInput i") (auto simp: runAuthSet_def Let_def)
  have b: "BindCredential (x_store x) (x_creds x) lr
      \<lparr>b_Profile = p, b_Credential = ?c, b_Key = key, b_Replace = force, b_ControlURL = pe_ControlURL selected\<rparr> d1 = Some (Inr (), d')"
    "c = ?c"
    using assms(1) g p k by (auto simp: runAuthSet_def Let_def split: option.splits prod.splits sum.splits)
  show ?thesis using p k fl b(1) [folded b(2)] by blast
qed

text \<open>
  C21: a stored key is the key that connects. After a successful auth set, whatever was stored
  before and with or without replacing, a connect command with that profile and no key of its
  own that is accepted uses the key the user typed, without its line ending.
\<close>

theorem auth_set_then_connect:
  assumes "runAuthSet x lr p args i force d = Some (Inr c, d')" and "disk_ok d"
    and "codec_ok (st_yaml (x_store x))" "yaml_path (x_store x)" and "c \<noteq> []"
    and "runConnect x E g p q d' = (Inr (cfg, w), d'')"
    and "fst (envfile_Load (os_path x ''.env'') E d') = Inr E'"
    and "g_AuthKey g = []" "g_AuthKeyFile g = []" "Getenv E' ''TS_AUTHKEY'' = []"
  shows "\<exists>key. readAuthInput i = Inr key \<and> c_AuthKey cfg = TrimRight key [CHR 13, CHR 10]"
proof -
  obtain key url d1 where p: "p \<noteq> []" and k: "readAuthInput i = Inr key" "disk_ok d1"
    and b: "BindCredential (x_store x) (x_creds x) lr
      \<lparr>b_Profile = p, b_Credential = c, b_Key = key, b_Replace = force, b_ControlURL = url\<rparr> d1 = Some (Inr (), d')"
    using runAuthSet_binds [OF assms(1,2)] by blast
  from BindCredential_outcome [OF k(2) assms(3,4) b] obtain data e where
    s: "store_data (x_store x) d' = Some (put_entry p (e\<lparr>pe_Credential := c\<rparr>) data)"
    and v: "cred_view (x_creds x) d' c = norm_key key" by auto
  have "map_of (Profiles (put_entry p (e\<lparr>pe_Credential := c\<rparr>) data)) p = Some (e\<lparr>pe_Credential := c\<rparr>)" by simp
  from runConnect_managed [OF assms(6-10) p s this] assms(5)
  have "cred_view (x_creds x) d' c = Some (c_AuthKey cfg)" by simp
  then have "norm_key key = Some (c_AuthKey cfg)" using v by simp
  then show ?thesis
    using k(1) by (auto simp: norm_key_def normalizeKey_def Let_def split: option.splits)
qed

definition sample_input :: auth_input where
  "sample_input = \<lparr>a_stdin_flag = True, a_masked = NotTerminal, a_stdin = ''hskey-a'' @ [LF], a_stdin_fails = False\<rparr>"

text \<open>The profile of the sample history that has no credential yet, and the disk after storing its key.\<close>

definition h2_bound :: disk where
  "h2_bound = snd (the (runAuthSet sample_ctx free_lock ''b'' [''k''] sample_input False h2))"

lemma h2_bound_run: "map_option fst (runAuthSet sample_ctx free_lock ''b'' [''k''] sample_input False h2) = Some (Inr ''k'')"
  by code_simp

lemma h2_bound_env: "files h2_bound (os_path sample_ctx ''.env'') = None" "\<not> faults h2_bound (tick h2_bound)"
  by code_simp+

lemma h2_bound_applied:
  "fst (applyConnectProfile sample_ctx sample_env zero_partial manual_flags ''b'' (h2_bound\<lparr>tick := Suc (tick h2_bound)\<rparr>)) =
     Inr (sample_layer ''https://X/'', manual_flags\<lparr>g_ProfileAuthKey := ''hskey-a''\<rparr>, ''h:22'')"
  by code_simp

lemma h2_ok: "disk_ok h2"
proof -
  have "(profile_step sample_store ''/c'')\<^sup>*\<^sup>* sample_keys h2" by (rule sample_history_h2)
  then show ?thesis
    using profile_history_keeps [of sample_store "''/c''" sample_keys h2] sample_state_ok
    by (simp add: sample_keys_def sample_disk_def disk_ok_def sample_store_def)
qed

theorem auth_set_then_connect_witness:
  "\<exists>cfg w d''. runConnect sample_ctx sample_env manual_flags ''b'' True h2_bound = (Inr (cfg, w), d'') \<and> c_AuthKey cfg = ''hskey-a''"
proof -
  have a: "runAuthSet sample_ctx free_lock ''b'' [''k''] sample_input False h2 = Some (Inr ''k'', h2_bound)"
    using h2_bound_run by (auto simp: map_option_eq_Some h2_bound_def)
  have f: "g_AuthKeyFile manual_flags = []" "g_Config manual_flags = []" by (simp_all add: manual_flags_def zero_flags_def)
  obtain cfg w d'' where r: "runConnect sample_ctx sample_env manual_flags ''b'' True h2_bound = (Inr (cfg, w), d'')"
    using sample_finish(2) runConnect_plain [OF h2_bound_env f h2_bound_applied, of True]
    by (metis isl_def obj_sumE prod.collapse)
  have e: "fst (envfile_Load (os_path sample_ctx ''.env'') sample_env h2_bound) = Inr sample_env"
    using h2_bound_env by (simp add: envfile_Load_missing)
  have i: "readAuthInput sample_input = Inr (''hskey-a'' @ [LF])" "TrimRight (''hskey-a'' @ [LF]) [CHR 13, CHR 10] = ''hskey-a''"
    by code_simp+
  have "\<exists>key. readAuthInput sample_input = Inr key \<and> c_AuthKey cfg = TrimRight key [CHR 13, CHR 10]"
    by (rule auth_set_then_connect [OF a h2_ok _ _ _ r e])
      (use sample_state_ok in \<open>simp_all add: sample_ctx_def manual_flags_def zero_flags_def sample_env_def\<close>)
  then show ?thesis using r i by auto
qed

end
