(* ===== verification/Env_Update.thy ===== *)
theory Env_Update
  imports Env_File
begin

text \<open>
  \<open>internal/discover/env.go\<close>: the rewrite of a \<open>.env\<close> file that sets \<open>TS_TARGET\<close>. Maps are
  association lists; Go visits a map in no particular order, so the order of the variables that
  are not in the fixed list is the argument \<open>ord\<close>.
\<close>

datatype update_error = MkdirFailed string fs_error | EnvRead fs_error | EnvWrite write_error

definition parseEnvLine :: "string \<Rightarrow> string \<times> string" where
  "parseEnvLine line =
     (case cut (CHR ''='') line of
        (k, v, found) \<Rightarrow> if \<not> found \<or> k = [] then ([], []) else (TrimSpace k, TrimSpace v))"

fun read_lines :: "string list \<Rightarrow> (string \<times> string) list \<times> string list \<Rightarrow> (string \<times> string) list \<times> string list" where
  "read_lines [] acc = acc"
| "read_lines (l # ls) (vars, other) =
     (let line = TrimSuffix l [CHR 13]; trimmed = TrimSpace line in
      if trimmed = [] \<or> HasPrefix trimmed ''#'' then read_lines ls (vars, other @ [line])
      else (case parseEnvLine line of
              (key, val) \<Rightarrow> read_lines ls (if key \<noteq> [] then AList.update key val vars else vars, other)))"

definition read_content :: "string \<Rightarrow> (string \<times> string) list \<times> string list" where
  "read_content data = (if data = [] then ([], []) else read_lines (split_on LF (TrimSuffix data [LF])) ([], []))"

definition readEnvFile :: "string \<Rightarrow> disk \<Rightarrow> (update_error, (string \<times> string) list \<times> string list) result \<times> disk" where
  "readEnvFile path d =
     (case os_ReadFile path d of
        (Inl NotExist, d1) \<Rightarrow> (Inr ([], []), d1)
      | (Inl e, d1) \<Rightarrow> (Inl (EnvRead e), d1)
      | (Inr data, d1) \<Rightarrow> (Inr (read_content data), d1))"

definition knownTSKeys :: "string list" where
  "knownTSKeys =
     [''TS_AUTHKEY'', ''TS_TARGET'', ''TS_INSTANCE_NAME'', ''TS_PORT_RANGE'', ''TS_LOCAL_ADDR'', ''TS_HOSTNAME'', ''TS_STATE_DIR'',
      ''TS_CONTROL_URL'', ''TS_HEALTH_ADDR'', ''TS_LOG_FORMAT'', ''TS_IDLE_TIMEOUT'', ''TS_DIAL_TIMEOUT'', ''TS_DIAL_RETRIES'',
      ''TS_DIAL_BACKOFF_BASE'', ''TS_DIAL_BACKOFF_MAX'', ''TS_MAX_CONNECTIONS'', ''TS_TIMEOUT'', ''TS_DRAIN_TIMEOUT'', ''TS_VERBOSE'']"

definition written_keys :: "(string list \<Rightarrow> string list) \<Rightarrow> (string \<times> string) list \<Rightarrow> string list" where
  "written_keys ord vars =
     filter (\<lambda>k. k \<in> fst ` set vars) knownTSKeys @
     filter (\<lambda>k. HasPrefix k ''TS_'') (ord (filter (\<lambda>k. k \<notin> set knownTSKeys) (map fst vars)))"

definition env_content :: "(string list \<Rightarrow> string list) \<Rightarrow> (string \<times> string) list \<Rightarrow> string list \<Rightarrow> string" where
  "env_content ord vars comments =
     unlines (comments @ map (\<lambda>k. kv_line (k, case map_of vars k of Some v \<Rightarrow> v | None \<Rightarrow> [])) (written_keys ord vars))"

definition writeEnvFile :: "(string list \<Rightarrow> string list) \<Rightarrow> string \<Rightarrow> (string \<times> string) list \<Rightarrow> string list \<Rightarrow> disk \<Rightarrow> update_error option \<times> disk" where
  "writeEnvFile ord path vars comments d =
     (case WriteFile path (env_content ord vars comments) d of
        (Some e, d1) \<Rightarrow> (Some (EnvWrite e), d1)
      | (None, d1) \<Rightarrow> (None, d1))"

definition ensure_parent :: "string \<Rightarrow> disk \<Rightarrow> update_error option \<times> disk" where
  "ensure_parent path d =
     (let dir = Dir path in
      if dir = [] \<or> dir = ''.'' then (None, d)
      else (case os_Stat dir d of
              (Some NotExist, d1) \<Rightarrow>
                (case os_MkdirAll dir 488 d1 of (Some e, d2) \<Rightarrow> (Some (MkdirFailed dir e), d2) | (None, d2) \<Rightarrow> (None, d2))
            | (_, d1) \<Rightarrow> (None, d1)))"

definition UpdateEnv :: "(string list \<Rightarrow> string list) \<Rightarrow> string \<Rightarrow> string \<Rightarrow> int \<Rightarrow> disk \<Rightarrow> update_error option \<times> disk" where
  "UpdateEnv ord path target port d =
     (case ensure_parent path d of
        (Some e, d1) \<Rightarrow> (Some e, d1)
      | (None, d1) \<Rightarrow>
          (case readEnvFile path d1 of
             (Inl e, d2) \<Rightarrow> (Some e, d2)
           | (Inr (vars, other), d2) \<Rightarrow>
               writeEnvFile ord path (AList.update ''TS_TARGET'' (target @ '':'' @ Itoa port) vars) other d2))"

subsection \<open>Reading what was written\<close>

text \<open>Go may visit the keys in any order, each once.\<close>

definition visits :: "(string list \<Rightarrow> string list) \<Rightarrow> bool" where
  "visits ord \<longleftrightarrow> (\<forall>ks. distinct ks \<longrightarrow> distinct (ord ks) \<and> set (ord ks) = set ks)"

definition trimmed :: "string \<Rightarrow> bool" where
  "trimmed s \<longleftrightarrow> TrimSpace s = s \<and> LF \<notin> set s"

text \<open>What a reading of a file looks like.\<close>

definition reading_ok :: "(string \<times> string) list \<times> string list \<Rightarrow> bool" where
  "reading_ok vc \<longleftrightarrow>
     distinct (map fst (fst vc)) \<and>
     (\<forall>kv \<in> set (fst vc). fst kv \<noteq> [] \<and> trimmed (fst kv) \<and> trimmed (snd kv) \<and> CHR ''='' \<notin> set (fst kv)) \<and>
     (\<forall>l \<in> set (snd vc). LF \<notin> set l \<and> (TrimSpace l = [] \<or> HasPrefix (TrimSpace l) ''#''))"

lemma trim_right_starts:
  assumes "graphic c"
  shows "\<exists>t. trim_right (c # s) = c # t"
proof -
  have "trim_right (c # s) \<noteq> []"
  proof (induction "c # s" arbitrary: s rule: trim_right.induct)
    case 1
    show ?case
    proof (cases "space_end (c # s) = 0")
      case True
      then show ?thesis by (subst trim_right.simps) simp
    next
      case False
      let ?k = "space_end (c # s)"
      have "?k < length (c # s)"
      proof (cases "s = []")
        case True
        then show ?thesis using False space_end_graphic [OF assms, of "[]"] by simp
      next
        case s: False
        have "length w < length (c # s)" if w: "w \<in> set wide_spaces" and sfx: "HasSuffix (map of_char (c # s)) w" for w :: "nat list"
        proof -
          obtain t where t: "map of_char (c # s) = t @ w" using sfx by (auto simp: HasSuffix_iff)
          have "t \<noteq> []"
          proof
            assume "t = []"
            then have "of_char c \<in> set w" using t [symmetric] by simp
            then show False using bspec [OF wide_spaces_bytes w] assms by (fastforce simp: graphic_def)
          qed
          then show ?thesis using arg_cong [OF t, of length] by (cases t) auto
        qed
        then show ?thesis using s by (auto simp: space_end_def Let_def split: list.splits option.splits dest!: find_SomeD)
      qed
      then obtain s' where s': "take (length (c # s) - ?k) (c # s) = c # s'" by (cases "length (c # s) - ?k") auto
      have "trim_right (c # s') \<noteq> []" using 1 [OF False s'] by blast
      then show ?thesis using False s' by (subst trim_right.simps) simp
    qed
  qed
  then show ?thesis using trim_right_prefix [of "c # s"] by (cases "trim_right (c # s)") auto
qed

lemma trimmed_last: "TrimSpace v = v \<Longrightarrow> v \<noteq> [] \<Longrightarrow> last v \<noteq> CHR 13"
proof
  assume v: "TrimSpace v = v" "v \<noteq> []" "last v = CHR 13"
  then have "space_end v = 0" using trim_right_done [of "trim_left v"] by (simp add: TrimSpace_def)
  moreover have "rev v = CHR 13 # rev (butlast v)" using v by (metis append_butlast_last_id rev_eq_Cons_iff rev_rev_ident)
  ultimately show False by (simp add: space_end_def ascii_spaces_def)
qed

lemma TrimSuffix_char: "l = [] \<or> last l \<noteq> c \<Longrightarrow> TrimSuffix l [c] = l"
  by (auto simp: TrimSuffix_def HasSuffix_iff)

text \<open>One line of a rewritten file: a variable and a comment.\<close>

definition ts_pair :: "string \<times> string \<Rightarrow> bool" where
  "ts_pair kv \<longleftrightarrow> HasPrefix (fst kv) ''TS_'' \<and> trimmed (fst kv) \<and> trimmed (snd kv) \<and> CHR ''='' \<notin> set (fst kv)"

lemma read_pair_line:
  assumes "ts_pair (k, v)"
  shows "read_lines (kv_line (k, v) # ls) (vars, other) = read_lines ls (AList.update k v vars, other)"
proof -
  obtain k' where k: "k = CHR ''T'' # k'" using assms by (auto simp: ts_pair_def HasPrefix_iff)
  have g: "graphic (CHR ''T'')" by (simp add: graphic_def)
  have "last (kv_line (k, v)) \<noteq> CHR 13"
    using trimmed_last [of v] assms by (cases "v = []") (auto simp: kv_line_def ts_pair_def trimmed_def)
  then have l: "TrimSuffix (kv_line (k, v)) [CHR 13] = kv_line (k, v)" by (simp add: TrimSuffix_char)
  obtain t where t: "TrimSpace (kv_line (k, v)) = CHR ''T'' # t"
    using trim_right_starts [OF g] trim_left_graphic [OF g] by (auto simp: kv_line_def k TrimSpace_def)
  have p: "parseEnvLine (kv_line (k, v)) = (k, v)"
    using assms k by (simp add: parseEnvLine_def kv_line_def cut_found ts_pair_def trimmed_def)
  have "k \<noteq> []" using k by simp
  then show ?thesis unfolding read_lines.simps Let_def l t p by simp
qed

lemma read_comment_line:
  assumes "l = [] \<or> last l \<noteq> CHR 13" and "TrimSpace l = [] \<or> HasPrefix (TrimSpace l) ''#''"
  shows "read_lines (l # ls) (vars, other) = read_lines ls (vars, other @ [l])"
  using assms by (simp add: TrimSuffix_char Let_def)

lemma read_comments:
  "\<forall>l \<in> set cs. (l = [] \<or> last l \<noteq> CHR 13) \<and> (TrimSpace l = [] \<or> HasPrefix (TrimSpace l) ''#'') \<Longrightarrow>
   read_lines (cs @ ls) (vars, other) = read_lines ls (vars, other @ cs)"
proof (induction cs arbitrary: other)
  case (Cons c cs)
  then show ?case using read_comment_line [of c "cs @ ls" vars other] by simp
qed simp

lemma read_pairs:
  "\<forall>kv \<in> set kvs. ts_pair kv \<Longrightarrow> read_lines (map kv_line kvs) (vars, other) = (fold (\<lambda>(k, v). AList.update k v) kvs vars, other)"
proof (induction kvs arbitrary: vars)
  case (Cons kv kvs)
  then show ?case using read_pair_line [of "fst kv" "snd kv"] by (cases kv) simp
qed simp

lemma read_written:
  assumes "\<forall>l \<in> set cs. LF \<notin> set l \<and> (l = [] \<or> last l \<noteq> CHR 13) \<and> (TrimSpace l = [] \<or> HasPrefix (TrimSpace l) ''#'')"
    and "\<forall>kv \<in> set kvs. ts_pair kv" and "kvs \<noteq> []"
  shows "read_content (unlines (cs @ map kv_line kvs)) = (fold (\<lambda>(k, v). AList.update k v) kvs [], cs)"
proof -
  let ?ls = "cs @ map kv_line kvs"
  have nl: "\<forall>l \<in> set ?ls. LF \<notin> set l"
    using assms(1,2) by (auto simp: kv_line_def ts_pair_def trimmed_def LF_def)
  obtain init z where ls: "?ls = init @ [z]" using assms(3) by (metis append_is_Nil_conv map_is_Nil_conv rev_exhaust)
  have "unlines ?ls = (unlines init @ z) @ [LF]" unfolding ls by simp
  moreover have "split_on LF (unlines init @ z) = ?ls"
    using nl unfolding ls by (induction init) (auto simp: split_on_append split_on_absent)
  ultimately have "read_content (unlines ?ls) = read_lines ?ls ([], [])"
    by (simp add: read_content_def del: append_assoc)
  also have "\<dots> = (fold (\<lambda>(k, v). AList.update k v) kvs [], cs)"
    using read_comments [of cs "map kv_line kvs" "[]" "[]"] read_pairs [OF assms(2), of "[]" cs] assms(1) by simp
  finally show ?thesis .
qed

lemma map_of_fold_update: "map_of (fold (\<lambda>(k, v). AList.update k v) kvs al) = map_of al ++ map_of (rev kvs)"
  by (induction kvs arbitrary: al) (auto simp: update_conv' map_add_def fun_eq_iff split: option.splits)

text \<open>A reading has one value for a key, and keys and values are trimmed.\<close>

lemma set_TrimSpace: "set (TrimSpace s) \<subseteq> set s"
proof -
  have "set (trim_left s) \<subseteq> set s"
  proof (induction s rule: trim_left.induct)
    case (1 s)
    then show ?case by (subst trim_left.simps) (auto dest: in_set_dropD)
  qed
  moreover have "set (trim_right u) \<subseteq> set u" for u using trim_right_prefix [of u] by (metis Un_iff set_append subsetI)
  ultimately show ?thesis unfolding TrimSpace_def by blast
qed

lemma set_TrimSuffix: "set (TrimSuffix s t) \<subseteq> set s"
  by (auto simp: TrimSuffix_def dest: in_set_takeD)

lemma set_update: "kv \<in> set (AList.update k v al) \<Longrightarrow> kv = (k, v) \<or> kv \<in> set al"
  by (induction al) (auto split: if_splits)

lemma parseEnvLine_ok:
  assumes "parseEnvLine line = (key, val)" and "key \<noteq> []" and "LF \<notin> set line"
  shows "trimmed key \<and> trimmed val \<and> CHR ''='' \<notin> set key"
proof -
  obtain k v where c: "cut (CHR ''='') line = (k, v, True)" and kv: "key = TrimSpace k" "val = TrimSpace v"
    using assms(1,2) by (auto simp: parseEnvLine_def split: prod.splits if_splits)
  have "line = k @ CHR ''='' # v \<and> CHR ''='' \<notin> set k" using cut_cases [of "CHR ''=''" line] c by auto
  then show ?thesis using assms(3) set_TrimSpace [of k] set_TrimSpace [of v] by (auto simp: kv trimmed_def)
qed

lemma read_lines_ok:
  "\<forall>l \<in> set ls. LF \<notin> set l \<Longrightarrow> reading_ok acc \<Longrightarrow> reading_ok (read_lines ls acc)"
proof (induction ls acc rule: read_lines.induct)
  case (2 l ls vars other)
  let ?line = "TrimSuffix l [CHR 13]"
  have lf: "LF \<notin> set ?line" using 2(3) set_TrimSuffix [of l "[CHR 13]"] by auto
  show ?case
  proof (cases "TrimSpace ?line = [] \<or> HasPrefix (TrimSpace ?line) ''#''")
    case True
    then have "reading_ok (vars, other @ [?line])" using 2(4) lf by (auto simp: reading_ok_def)
    then show ?thesis using 2(1) [OF refl refl True] 2(3) True by (simp add: Let_def)
  next
    case False
    obtain key val where p: "parseEnvLine ?line = (key, val)" by fastforce
    have "reading_ok (if key \<noteq> [] then AList.update key val vars else vars, other)"
      using 2(4) parseEnvLine_ok [OF p _ lf] by (auto simp: reading_ok_def distinct_update dest!: set_update)
    then show ?thesis using 2(2) [OF refl refl False p [symmetric]] 2(3) False p by (simp add: Let_def)
  qed
qed simp

lemma read_content_ok: "reading_ok (read_content data)"
proof -
  have "\<forall>l \<in> set (split_on LF x). LF \<notin> set l" for x by (simp add: split_on_no_sep)
  moreover have "reading_ok ([], [])" by (simp add: reading_ok_def)
  ultimately show ?thesis unfolding read_content_def using read_lines_ok by presburger
qed

subsection \<open>The rewritten file\<close>

lemma ensure_parent_files:
  assumes "ensure_parent path d = (e, d')"
  shows "files d' = files d \<and> temp_suffix d' = temp_suffix d"
  using assms
  by (auto simp: ensure_parent_def os_Stat_def os_MkdirAll_def syscall_def Let_def split: if_splits prod.splits option.splits fs_error.splits)

definition old_content :: "string \<Rightarrow> disk \<Rightarrow> string" where
  "old_content path d = (case files d path of Some f \<Rightarrow> f_data f | None \<Rightarrow> [])"

lemma UpdateEnv_writes:
  assumes "UpdateEnv ord path target port d = (None, d')" and "disk_ok d" and "read_content (old_content path d) = (vars, other)"
  shows "files d' path =
    Some \<lparr>f_data = env_content ord (AList.update ''TS_TARGET'' (target @ '':'' @ Itoa port) vars) other, f_mode = 384\<rparr>"
proof -
  obtain d1 where e: "ensure_parent path d = (None, d1)" using assms(1) by (auto simp: UpdateEnv_def split: prod.splits option.splits)
  note f1 = ensure_parent_files [OF e]
  obtain vo d2 where r: "readEnvFile path d1 = (Inr vo, d2)"
    using assms(1) e by (auto simp: UpdateEnv_def split: prod.splits sum.splits)
  then have vo: "vo = (vars, other)" and f2: "files d2 = files d1 \<and> temp_suffix d2 = temp_suffix d1"
    using assms(3) f1
    by (auto simp: readEnvFile_def os_ReadFile_def old_content_def read_content_def Let_def
        split: if_splits option.splits prod.splits sum.splits fs_error.splits)
  then have w: "WriteFile path (env_content ord (AList.update ''TS_TARGET'' (target @ '':'' @ Itoa port) vars) other) d2 = (None, d')"
    using assms(1) e r by (auto simp: UpdateEnv_def writeEnvFile_def split: prod.splits option.splits)
  have "disk_ok d2" using assms(2) f1 f2 by (simp add: disk_ok_def)
  then show ?thesis using os_rename.write_outcome [OF w [unfolded WriteFile_def]] by blast
qed

text \<open>
  rewriting a \<open>.env\<close> file sets the target and keeps the bridge's variables. After a
  successful update the file reads as before with \<open>TS_TARGET\<close> set, restricted to the variables
  whose name begins with \<open>TS_\<close>, and every comment and blank line is there; it is readable by its
  owner only. Variables with other names are gone.
\<close>

lemma UpdateEnv_roundtrip:
  assumes "UpdateEnv ord path target port d = (None, d')" and "disk_ok d" and "visits ord"
    and "read_content (old_content path d) = (vars, other)" and "\<forall>l \<in> set other. l = [] \<or> last l \<noteq> CHR 13"
    and "target \<noteq> [] \<and> (\<forall>c \<in> set target. graphic c)"
  shows "\<exists>new. files d' path = Some \<lparr>f_data = new, f_mode = 384\<rparr> \<and> snd (read_content new) = other \<and>
    map_of (fst (read_content new)) = (map_of vars |` {k. HasPrefix k ''TS_''})(''TS_TARGET'' \<mapsto> target @ '':'' @ Itoa port)"
proof -
  let ?t = "target @ '':'' @ Itoa port" and ?vars = "AList.update ''TS_TARGET'' (target @ '':'' @ Itoa port) vars"
  let ?ks = "written_keys ord ?vars"
  let ?kvs = "map (\<lambda>k. (k, case map_of ?vars k of Some v \<Rightarrow> v | None \<Rightarrow> [])) ?ks"
  have ok: "reading_ok (vars, other)" using read_content_ok [of "old_content path d"] assms(4) by simp
  have known: "\<forall>k \<in> set knownTSKeys. HasPrefix k ''TS_''" by (simp add: knownTSKeys_def)
  have dom: "fst ` set ?vars = insert ''TS_TARGET'' (fst ` set vars)" by (simp add: dom_update)
  have "distinct (filter (\<lambda>k. k \<notin> set knownTSKeys) (map fst ?vars))" using ok by (simp add: reading_ok_def distinct_update)
  then have "set (ord (filter (\<lambda>k. k \<notin> set knownTSKeys) (map fst ?vars))) = {k \<in> fst ` set ?vars. k \<notin> set knownTSKeys}"
    using assms(3) by (simp add: visits_def)
  then have keys: "set ?ks = {k \<in> fst ` set ?vars. HasPrefix k ''TS_''}"
    using known by (auto simp: written_keys_def)
  have "trimmed ?t"
  proof -
    have "last ?t = last (Itoa port)" by simp
    then have "graphic (last ?t)" using Itoa_graphic [of port] by simp
    moreover have "graphic (hd ?t)" using assms(6) by simp
    moreover have "LF \<notin> set ?t" using assms(6) Itoa_graphic [of port] by (auto simp: graphic_def LF_def)
    ultimately show ?thesis by (simp add: trimmed_def TrimSpace_id)
  qed
  moreover have "trimmed ''TS_TARGET''" by code_simp
  ultimately have new: "fst kv \<noteq> [] \<and> trimmed (fst kv) \<and> trimmed (snd kv) \<and> CHR ''='' \<notin> set (fst kv)" if "kv = (''TS_TARGET'', ?t)" for kv
    using that by simp
  have "\<forall>kv \<in> set vars. fst kv \<noteq> [] \<and> trimmed (fst kv) \<and> trimmed (snd kv) \<and> CHR ''='' \<notin> set (fst kv)"
    using ok by (simp add: reading_ok_def)
  then have all: "fst kv \<noteq> [] \<and> trimmed (fst kv) \<and> trimmed (snd kv) \<and> CHR ''='' \<notin> set (fst kv)" if "kv \<in> set ?vars" for kv
    using set_update [OF that] new by blast
  have pairs: "\<forall>kv \<in> set ?kvs. ts_pair kv"
  proof
    fix kv assume "kv \<in> set ?kvs"
    then obtain k where k: "k \<in> set ?ks" and kv: "kv = (k, case map_of ?vars k of Some v \<Rightarrow> v | None \<Rightarrow> [])" by auto
    from k keys have "k \<in> fst ` set ?vars" and ts: "HasPrefix k ''TS_''" by blast+
    then obtain v where v: "map_of ?vars k = Some v" by (metis map_of_eq_None_iff not_None_eq)
    then show "ts_pair kv" using all [OF map_of_SomeD [OF v]] ts by (simp add: kv ts_pair_def)
  qed
  have ne: "?kvs \<noteq> []" using keys dom by (auto simp: set_empty [symmetric] simp del: set_empty)
  have cont: "env_content ord ?vars other = unlines (other @ map kv_line ?kvs)" by (simp add: env_content_def comp_def)
  have rd: "read_content (unlines (other @ map kv_line ?kvs)) = (fold (\<lambda>(k, v). AList.update k v) ?kvs [], other)"
    using read_written [of other ?kvs] pairs ne ok assms(5) by (simp add: reading_ok_def)
  have "map_of (rev ?kvs) = (Some \<circ> (\<lambda>k. case map_of ?vars k of Some v \<Rightarrow> v | None \<Rightarrow> [])) |` set ?ks"
    by (simp add: rev_map map_of_map_restrict)
  also have "\<dots> = (map_of vars |` {k. HasPrefix k ''TS_''})(''TS_TARGET'' \<mapsto> ?t)"
    unfolding keys dom by (auto simp: fun_eq_iff restrict_map_def update_conv' dom_map_of_conv_image_fst [symmetric] split: option.splits)
  finally have m: "map_of (rev ?kvs) = (map_of vars |` {k. HasPrefix k ''TS_''})(''TS_TARGET'' \<mapsto> ?t)" .
  show ?thesis
  proof (intro exI conjI)
    show "files d' path = Some \<lparr>f_data = env_content ord ?vars other, f_mode = 384\<rparr>" by (rule UpdateEnv_writes [OF assms(1,2,4)])
    show "snd (read_content (env_content ord ?vars other)) = other" unfolding cont rd by (rule snd_conv)
    show "map_of (fst (read_content (env_content ord ?vars other))) = (map_of vars |` {k. HasPrefix k ''TS_''})(''TS_TARGET'' \<mapsto> ?t)"
      unfolding cont rd fst_conv map_of_fold_update m by simp
  qed
qed

definition env_disk :: disk where
  "env_disk =
     \<lparr>files = [''/w/.env'' \<mapsto> \<lparr>f_data = ''# mine'' @ [LF] @ ''TS_VERBOSE=1'' @ [LF] @ ''EDITOR=vi'' @ [LF], f_mode = 384\<rparr>],
      dirs = [''/w'' \<mapsto> 493], tick = 0, faults = (\<lambda>_. False), partial_len = (\<lambda>_. 0), temp_suffix = (\<lambda>n. replicate n CHR ''7'')\<rparr>"

lemma env_disk_reading: "read_content (old_content ''/w/.env'' env_disk) = ([(''TS_VERBOSE'', ''1''), (''EDITOR'', ''vi'')], [''# mine''])"
  by code_simp

text \<open>
  A variable with another name is dropped, and a name with a line break writes a line of its own:
  a device called \<open>box\<close>, line break, \<open>TS_CONTROL_URL=...\<close> sets the control plane.
\<close>

lemma UpdateEnv_drops_others:
  assumes "UpdateEnv (\<lambda>ks. ks) ''/w/.env'' ''box'' 3389 env_disk = (None, d')"
  shows "files d' ''/w/.env'' = Some \<lparr>f_data = ''# mine'' @ [LF] @ ''TS_TARGET=box:3389'' @ [LF] @ ''TS_VERBOSE=1'' @ [LF], f_mode = 384\<rparr>"
proof -
  have "disk_ok env_disk" by (simp add: disk_ok_def env_disk_def)
  note w = UpdateEnv_writes [OF assms this env_disk_reading]
  have "env_content (\<lambda>ks. ks) (AList.update ''TS_TARGET'' (''box'' @ '':'' @ Itoa 3389) [(''TS_VERBOSE'', ''1''), (''EDITOR'', ''vi'')]) [''# mine''] =
    ''# mine'' @ [LF] @ ''TS_TARGET=box:3389'' @ [LF] @ ''TS_VERBOSE=1'' @ [LF]" by code_simp
  then show ?thesis using w by simp
qed

lemma hostname_writes_a_line:
  "map_of (fst (read_content (env_content (\<lambda>ks. ks)
     (AList.update ''TS_TARGET'' ((''box'' @ [LF] @ ''TS_CONTROL_URL=http://x'') @ '':'' @ Itoa 80) []) []))) ''TS_CONTROL_URL'' = Some ''http://x:80''"
  by code_simp

end
