(* ===== verification/Go_Json.thy ===== *)
theory Go_Json
  imports Go_Strconv
begin

text \<open>
  What the program uses of \<open>encoding/json\<close>: \<open>json_Valid\<close> reads a document the way the scanner
  and the decoder do (escapes, surrogates, replacement of invalid UTF-8, the nesting limit of
  10000), \<open>json_field\<close> stores a member in a field of a structure, and \<open>json_text\<close> is the compact
  encoding \<open>Marshal\<close> writes. Numbers keep their literal, as the decoder does until it knows the
  type of the field.
\<close>

datatype json = JNull | JBool bool | JNum string | JStr string | JArr "json list" | JObj "(string \<times> json) list"

subsection \<open>UTF-8\<close>

definition cont :: "char \<Rightarrow> nat \<Rightarrow> nat \<Rightarrow> bool" where
  "cont c lo hi \<longleftrightarrow> lo \<le> of_char c \<and> (of_char c :: nat) \<le> hi"

text \<open>The length of the rune that starts here, 0 when the bytes are no UTF-8.\<close>

definition utf8_len :: "string \<Rightarrow> nat" where
  "utf8_len s =
     (case s of
        [] \<Rightarrow> 0
      | a # r \<Rightarrow>
          let n = of_char a :: nat in
          if n < 0x80 then 1
          else if 0xC2 \<le> n \<and> n \<le> 0xDF then
            (case r of b # _ \<Rightarrow> if cont b 0x80 0xBF then 2 else 0 | _ \<Rightarrow> 0)
          else if 0xE0 \<le> n \<and> n \<le> 0xEF then
            (case r of b # c # _ \<Rightarrow>
               if cont b (if n = 0xE0 then 0xA0 else 0x80) (if n = 0xED then 0x9F else 0xBF) \<and> cont c 0x80 0xBF then 3 else 0
             | _ \<Rightarrow> 0)
          else if 0xF0 \<le> n \<and> n \<le> 0xF4 then
            (case r of b # c # d # _ \<Rightarrow>
               if cont b (if n = 0xF0 then 0x90 else 0x80) (if n = 0xF4 then 0x8F else 0xBF) \<and> cont c 0x80 0xBF \<and> cont d 0x80 0xBF
               then 4 else 0
             | _ \<Rightarrow> 0)
          else 0)"

definition utf8_encode :: "nat \<Rightarrow> string" where
  "utf8_encode n =
     map char_of
       (if n < 0x80 then [n]
        else if n < 0x800 then [0xC0 + n div 64, 0x80 + n mod 64]
        else if n < 0x10000 then [0xE0 + n div 4096, 0x80 + n div 64 mod 64, 0x80 + n mod 64]
        else [0xF0 + n div 262144, 0x80 + n div 4096 mod 64, 0x80 + n div 64 mod 64, 0x80 + n mod 64])"

definition replacement_rune :: nat where "replacement_rune = 0xFFFD"

subsection \<open>Scanning\<close>

definition json_space :: "char \<Rightarrow> bool" where
  "json_space c \<longleftrightarrow> (of_char c :: nat) \<in> {0x20, 0x09, 0x0D, 0x0A}"

definition skip_ws :: "string \<Rightarrow> string" where
  "skip_ws s = dropWhile json_space s"

lemma length_skip_ws: "length (skip_ws s) \<le> length s"
  by (simp add: skip_ws_def length_dropWhile_le)

text \<open>\<open>getu4\<close>: the code unit of an escape that starts at the backslash.\<close>

definition hex4 :: "string \<Rightarrow> nat option" where
  "hex4 s =
     (case s of
        a # b # c # d # _ \<Rightarrow>
          (case (hex_val a, hex_val b, hex_val c, hex_val d) of
             (Some w, Some x, Some y, Some z) \<Rightarrow> Some (((w * 16 + x) * 16 + y) * 16 + z)
           | _ \<Rightarrow> None)
      | _ \<Rightarrow> None)"

definition escaped_unit :: "string \<Rightarrow> nat option" where
  "escaped_unit s = (case s of b # u # r \<Rightarrow> if b = CHR 0x5C \<and> u = CHR ''u'' then hex4 r else None | _ \<Rightarrow> None)"

text \<open>What an escape stands for and how many bytes after the backslash it takes.\<close>

definition unescape_unit :: "string \<Rightarrow> (string \<times> nat) option" where
  "unescape_unit r =
     (case hex4 r of
        None \<Rightarrow> None
      | Some u \<Rightarrow>
          if 0xD800 \<le> u \<and> u < 0xE000 then
            (case escaped_unit (drop 4 r) of
               Some v \<Rightarrow>
                 if u < 0xDC00 \<and> 0xDC00 \<le> v \<and> v < 0xE000
                 then Some (utf8_encode (0x10000 + (u - 0xD800) * 1024 + (v - 0xDC00)), 11)
                 else Some (utf8_encode replacement_rune, 5)
             | None \<Rightarrow> Some (utf8_encode replacement_rune, 5))
          else Some (utf8_encode u, 5))"

definition simple_escapes :: "(char \<times> char) list" where
  "simple_escapes =
     [(CHR 0x22, CHR 0x22), (CHR 0x5C, CHR 0x5C), (CHR ''/'', CHR ''/''), (CHR ''b'', CHR 0x08), (CHR ''f'', CHR 0x0C),
      (CHR ''n'', CHR 0x0A), (CHR ''r'', CHR 0x0D), (CHR ''t'', CHR 0x09)]"

definition json_unescape :: "string \<Rightarrow> (string \<times> nat) option" where
  "json_unescape s =
     (case s of
        [] \<Rightarrow> None
      | c # r \<Rightarrow>
          if c = CHR ''u'' then unescape_unit r
          else map_option (\<lambda>e. ([e], 1)) (map_of simple_escapes c))"

text \<open>A string after its opening quote: the text and what follows the closing quote.\<close>

function jstring :: "string \<Rightarrow> (string \<times> string) option" where
  "jstring [] = None"
| "jstring (c # r) =
     (if c = CHR 0x22 then Some ([], r)
      else if c = CHR 0x5C then
        (case json_unescape r of
           None \<Rightarrow> None
         | Some (t, n) \<Rightarrow> map_option (\<lambda>(u, rest). (t @ u, rest)) (jstring (drop n r)))
      else if (of_char c :: nat) < 0x20 then None
      else if utf8_len (c # r) = 0 then map_option (\<lambda>(u, rest). (utf8_encode replacement_rune @ u, rest)) (jstring r)
      else map_option (\<lambda>(u, rest). (take (utf8_len (c # r)) (c # r) @ u, rest)) (jstring (drop (utf8_len (c # r) - 1) r)))"
  by pat_completeness auto
termination by (relation "measure length") auto

lemma jstring_shrinks: "jstring s = Some (t, r) \<Longrightarrow> length r < length s"
proof (induction s arbitrary: t r rule: jstring.induct)
  case (2 c s)
  show ?case
  proof (rule ccontr)
    assume n: "\<not> length r < length (c # s)"
    have less: "length r < length (drop k s) \<Longrightarrow> False" for k using n by simp
    show False using 2 n less [of 0] by (force split: if_splits option.splits dest: less)
  qed
qed simp

definition digits1 :: "string \<Rightarrow> (string \<times> string) option" where
  "digits1 s = (let d = takeWhile is_digit s in if d = [] then None else Some (d, dropWhile is_digit s))"

definition json_int :: "string \<Rightarrow> (string \<times> string) option" where
  "json_int s =
     (case s of
        c # r \<Rightarrow> if c = CHR ''0'' then Some ([c], r) else digits1 s
      | [] \<Rightarrow> None)"

definition json_frac :: "string \<Rightarrow> (string \<times> string) option" where
  "json_frac s =
     (case s of
        c # r \<Rightarrow> if c = CHR ''.'' then map_option (\<lambda>(d, rest). (c # d, rest)) (digits1 r) else Some ([], s)
      | [] \<Rightarrow> Some ([], []))"

definition json_exp :: "string \<Rightarrow> (string \<times> string) option" where
  "json_exp s =
     (case s of
        c # r \<Rightarrow>
          if c = CHR ''e'' \<or> c = CHR ''E'' then
            (case r of
               g # r' \<Rightarrow> if g = CHR ''+'' \<or> g = CHR ''-'' then map_option (\<lambda>(d, rest). (c # g # d, rest)) (digits1 r')
                         else map_option (\<lambda>(d, rest). (c # d, rest)) (digits1 r)
             | [] \<Rightarrow> None)
          else Some ([], s)
      | [] \<Rightarrow> Some ([], []))"

definition jnumber :: "string \<Rightarrow> (string \<times> string) option" where
  "jnumber s =
     (let (sign, s1) = (case s of c # r \<Rightarrow> if c = CHR ''-'' then ([c], r) else ([], s) | [] \<Rightarrow> ([], [])) in
      case json_int s1 of
        None \<Rightarrow> None
      | Some (i, s2) \<Rightarrow>
          (case json_frac s2 of
             None \<Rightarrow> None
           | Some (f, s3) \<Rightarrow> map_option (\<lambda>(e, s4). (sign @ i @ f @ e, s4)) (json_exp s3)))"

definition json_literals :: "(string \<times> json) list" where
  "json_literals = [(''true'', JBool True), (''false'', JBool False), (''null'', JNull)]"

definition jliteral :: "string \<Rightarrow> (json \<times> string) option" where
  "jliteral s =
     (case find (\<lambda>(w, _). HasPrefix s w) json_literals of
        Some (w, v) \<Rightarrow> Some (v, drop (length w) s)
      | None \<Rightarrow> map_option (\<lambda>(lit, r). (JNum lit, r)) (jnumber s))"

definition maxNestingDepth :: nat where "maxNestingDepth = 10000"

text \<open>
  Values, elements and members. The comparison of lengths in the last two holds whenever a value
  was read (\<open>jvalue_shrinks\<close>), so it changes nothing; it makes the recursion visibly end.
\<close>

function jvalue :: "nat \<Rightarrow> string \<Rightarrow> (json \<times> string) option"
  and jelems :: "nat \<Rightarrow> string \<Rightarrow> (json list \<times> string) option"
  and jmembers :: "nat \<Rightarrow> string \<Rightarrow> ((string \<times> json) list \<times> string) option" where
  "jvalue d s =
     (case skip_ws s of
        [] \<Rightarrow> None
      | c # r \<Rightarrow>
          if c = CHR 0x22 then map_option (\<lambda>(t, rest). (JStr t, rest)) (jstring r)
          else if c = CHR ''['' then
            (if maxNestingDepth \<le> d then None
             else (case skip_ws r of
                     [] \<Rightarrow> None
                   | e # r' \<Rightarrow> if e = CHR '']'' then Some (JArr [], r')
                               else map_option (\<lambda>(vs, rest). (JArr vs, rest)) (jelems (Suc d) r)))
          else if c = CHR ''{'' then
            (if maxNestingDepth \<le> d then None
             else (case skip_ws r of
                     [] \<Rightarrow> None
                   | e # r' \<Rightarrow> if e = CHR ''}'' then Some (JObj [], r')
                               else map_option (\<lambda>(ms, rest). (JObj ms, rest)) (jmembers (Suc d) r)))
          else jliteral (c # r))"
| "jelems d s =
     (case jvalue d s of
        None \<Rightarrow> None
      | Some (v, r) \<Rightarrow>
          (case skip_ws r of
             [] \<Rightarrow> None
           | e # r' \<Rightarrow>
               if e = CHR '']'' then Some ([v], r')
               else if e = CHR '','' \<and> length r' < length s then map_option (\<lambda>(vs, rest). (v # vs, rest)) (jelems d r')
               else None))"
| "jmembers d s =
     (case skip_ws s of
        [] \<Rightarrow> None
      | q # s1 \<Rightarrow>
          if q \<noteq> CHR 0x22 then None
          else (case jstring s1 of
                  None \<Rightarrow> None
                | Some (k, s2) \<Rightarrow>
                    (case skip_ws s2 of
                       [] \<Rightarrow> None
                     | e # s3 \<Rightarrow>
                         if e \<noteq> CHR '':'' \<or> \<not> length s3 < length s then None
                         else (case jvalue d s3 of
                                 None \<Rightarrow> None
                               | Some (v, r) \<Rightarrow>
                                   (case skip_ws r of
                                      [] \<Rightarrow> None
                                    | f # r' \<Rightarrow>
                                        if f = CHR ''}'' then Some ([(k, v)], r')
                                        else if f = CHR '','' \<and> length r' < length s
                                        then map_option (\<lambda>(ms, rest). ((k, v) # ms, rest)) (jmembers d r')
                                        else None)))))"
  by pat_completeness auto
termination
proof (relation "measures [\<lambda>x. case x of Inl (d, s) \<Rightarrow> length s | Inr (Inl (d, s)) \<Rightarrow> length s | Inr (Inr (d, s)) \<Rightarrow> length s,
    \<lambda>x. case x of Inl _ \<Rightarrow> 0 | _ \<Rightarrow> 1]", goal_cases)
  case (2 d s c r e r')
  then show ?case using length_skip_ws [of s] by simp
next
  case (3 d s c r e r')
  then show ?case using length_skip_ws [of s] by simp
qed auto

declare jvalue.simps [simp del] jelems.simps [simp del] jmembers.simps [simp del]

definition json_Parse :: "string \<Rightarrow> json option" where
  "json_Parse s = (case jvalue 0 s of Some (v, r) \<Rightarrow> if skip_ws r = [] then Some v else None | None \<Rightarrow> None)"

lemma digits1_length: "digits1 s = Some (d, r) \<Longrightarrow> d \<noteq> [] \<and> s = d @ r"
  by (auto simp: digits1_def Let_def split: if_splits)

lemma json_parts:
  "json_int s = Some (t, r) \<Longrightarrow> t \<noteq> [] \<and> s = t @ r" "json_frac s = Some (t, r) \<Longrightarrow> s = t @ r"
  "json_exp s = Some (t, r) \<Longrightarrow> s = t @ r"
  by (auto simp: json_int_def json_frac_def json_exp_def dest: digits1_length split: list.splits if_splits)

lemma jnumber_literal: "jnumber s = Some (t, r) \<Longrightarrow> t \<noteq> [] \<and> s = t @ r"
  by (auto simp: jnumber_def Let_def dest!: json_parts split: list.splits if_splits option.splits prod.splits)

lemma jliteral_shrinks: "jliteral s = Some (v, r) \<Longrightarrow> length r < length s"
  by (auto simp: jliteral_def json_literals_def HasPrefix_iff dest!: jnumber_literal split: if_splits)

lemma skip_ws_shorter: "skip_ws s = c # r \<Longrightarrow> length r < length s"
  using length_skip_ws [of s] by simp

text \<open>Every value that is read takes at least one byte.\<close>

lemma jvalue_shrinks:
  "jvalue d s = Some (v, r) \<Longrightarrow> length r < length s"
  "jelems d s = Some (vs, r) \<Longrightarrow> length r < length s"
  "jmembers d s = Some (ms, r) \<Longrightarrow> length r < length s"
proof (induction d s and d s and d s arbitrary: v r and vs r and ms r rule: jvalue_jelems_jmembers.induct)
  case (1 d s)
  obtain c s1 where s: "skip_ws s = c # s1" using 1(3) by (auto simp: jvalue.simps [of d s] split: list.splits)
  note sh = skip_ws_shorter [OF s]
  show ?case
  proof (cases "c = CHR ''['' \<or> c = CHR ''{''")
    case False
    then show ?thesis
      using 1(3) s sh jstring_shrinks [of s1] jliteral_shrinks [of "c # s1" v r] length_skip_ws [of s]
      by (auto simp: jvalue.simps [of d s] split: if_splits)
  next
    case True
    then obtain e s2 where e: "skip_ws s1 = e # s2"
      using 1(3) s by (auto simp: jvalue.simps [of d s] split: if_splits list.splits)
    show ?thesis
      using 1(3) True s e sh skip_ws_shorter [OF e] 1(1) [OF s _ _ _ e] 1(2) [OF s _ _ _ _ e]
      by (fastforce simp: jvalue.simps [of d s] split: if_splits)
  qed
next
  case (2 d s)
  from 2(3) obtain w r1 e r2 where v: "jvalue d s = Some (w, r1)" "skip_ws r1 = e # r2"
    and c: "e = CHR '']'' \<and> r = r2 \<or> e = CHR '','' \<and> length r2 < length s \<and> (\<exists>us. jelems d r2 = Some (us, r))"
    by (subst (asm) jelems.simps) (auto split: option.splits list.splits if_splits)
  from c show ?case
  proof
    assume "e = CHR '']'' \<and> r = r2"
    then show ?thesis using 2(1) [OF v(1)] skip_ws_shorter [OF v(2)] by simp
  next
    assume "e = CHR '','' \<and> length r2 < length s \<and> (\<exists>us. jelems d r2 = Some (us, r))"
    then show ?thesis using 2(2) [OF v(1) refl v(2)] by auto
  qed
next
  case (3 d s)
  from 3(3) obtain q s1 k s2 e s3 w r1 f r2 where
    s: "skip_ws s = q # s1" "\<not> q \<noteq> CHR 0x22" "jstring s1 = Some (k, s2)" "skip_ws s2 = e # s3"
      "\<not> (e \<noteq> CHR '':'' \<or> \<not> length s3 < length s)" "jvalue d s3 = Some (w, r1)" "skip_ws r1 = f # r2"
    and c: "f = CHR ''}'' \<and> r = r2 \<or> f = CHR '','' \<and> length r2 < length s \<and> (\<exists>us. jmembers d r2 = Some (us, r))"
    by (auto simp: jmembers.simps [of d s] split: list.splits option.splits if_splits)
  from c show ?case
  proof
    assume "f = CHR ''}'' \<and> r = r2"
    then show ?thesis using 3(1) [OF s(1,2,3) refl s(4,5,6)] skip_ws_shorter [OF s(7)] s(5) by simp
  next
    assume "f = CHR '','' \<and> length r2 < length s \<and> (\<exists>us. jmembers d r2 = Some (us, r))"
    then show ?thesis using 3(2) [OF s(1,2,3) refl s(4,5,6) refl s(7)] by auto
  qed
qed

subsection \<open>Fields of a structure\<close>

text \<open>
  A member is matched to a field without regard to case (the long s and the Kelvin sign fold to
  their letters). \<open>null\<close> leaves a field alone, a value of another type is an error that does not
  stop the decoder, and a later member replaces an earlier one.
\<close>

fun fold_name :: "string \<Rightarrow> string" where
  "fold_name [] = []"
| "fold_name (c # r) =
     (if HasPrefix (c # r) [CHR 0xC5, CHR 0xBF] then CHR ''s'' # fold_name (drop 1 r)
      else if HasPrefix (c # r) [CHR 0xE2, CHR 0x84, CHR 0xAA] then CHR ''k'' # fold_name (drop 2 r)
      else to_lower_char c # fold_name r)"

fun set_field :: "(json \<Rightarrow> 'a option) \<Rightarrow> string \<Rightarrow> (string \<times> json) list \<Rightarrow> bool \<times> 'a \<Rightarrow> bool \<times> 'a" where
  "set_field conv name [] acc = acc"
| "set_field conv name ((k, v) # ms) (ok, x) =
     set_field conv name ms
       (if fold_name k \<noteq> fold_name name \<or> v = JNull then (ok, x)
        else (case conv v of Some y \<Rightarrow> (ok, y) | None \<Rightarrow> (False, x)))"

definition json_field :: "(json \<Rightarrow> 'a option) \<Rightarrow> string \<Rightarrow> json \<Rightarrow> 'a \<Rightarrow> bool \<times> 'a" where
  "json_field conv name j zero =
     (case j of JNull \<Rightarrow> (True, zero) | JObj ms \<Rightarrow> set_field conv name ms (True, zero) | _ \<Rightarrow> (False, zero))"

definition as_string :: "json \<Rightarrow> string option" where
  "as_string j = (case j of JStr s \<Rightarrow> Some s | _ \<Rightarrow> None)"

definition as_bool :: "json \<Rightarrow> bool option" where
  "as_bool j = (case j of JBool b \<Rightarrow> Some b | _ \<Rightarrow> None)"

text \<open>A number literal in an \<open>int64\<close> or \<open>int\<close> field.\<close>

definition as_int :: "json \<Rightarrow> int option" where
  "as_int j = (case j of JNum lit \<Rightarrow> Atoi lit | _ \<Rightarrow> None)"

subsection \<open>Encoding\<close>

definition short_escapes :: "(nat \<times> char) list" where
  "short_escapes =
     [(0x22, CHR 0x22), (0x5C, CHR 0x5C), (0x08, CHR ''b''), (0x0C, CHR ''f''), (0x0A, CHR ''n''), (0x0D, CHR ''r''), (0x09, CHR ''t'')]"

definition quote_ascii :: "char \<Rightarrow> string" where
  "quote_ascii c =
     (let n = of_char c :: nat in
      case map_of short_escapes n of
        Some e \<Rightarrow> [CHR 0x5C, e]
      | None \<Rightarrow>
          if n < 0x20 \<or> c \<in> set ''<>&'' then [CHR 0x5C, CHR ''u''] @ hex_digits 4 n else [c])"

function quote_body :: "string \<Rightarrow> string" where
  "quote_body [] = []"
| "quote_body (c # r) =
     (if (of_char c :: nat) < 0x80 then quote_ascii c @ quote_body r
      else if utf8_len (c # r) = 0 then [CHR 0x5C, CHR ''u''] @ ''fffd'' @ quote_body r
      else if take 3 (c # r) \<in> {[CHR 0xE2, CHR 0x80, CHR 0xA8], [CHR 0xE2, CHR 0x80, CHR 0xA9]}
      then [CHR 0x5C, CHR ''u''] @ hex_digits 4 (0x2028 + (if take 3 (c # r) = [CHR 0xE2, CHR 0x80, CHR 0xA9] then 1 else 0)) @ quote_body (drop 2 r)
      else take (utf8_len (c # r)) (c # r) @ quote_body (drop (utf8_len (c # r) - 1) r))"
  by pat_completeness auto
termination by (relation "measure length") auto

definition json_quote :: "string \<Rightarrow> string" where
  "json_quote s = [CHR 0x22] @ quote_body s @ [CHR 0x22]"

fun json_text :: "json \<Rightarrow> string" where
  "json_text JNull = ''null''"
| "json_text (JBool b) = (if b then ''true'' else ''false'')"
| "json_text (JNum lit) = lit"
| "json_text (JStr s) = json_quote s"
| "json_text (JArr vs) = ''['' @ join '','' (map json_text vs) @ '']''"
| "json_text (JObj ms) = ''{'' @ join '','' (map (\<lambda>m. json_quote (fst m) @ '':'' @ json_text (snd m)) ms) @ ''}''"

text \<open>\<open>MarshalIndent\<close> with no prefix and an indent of two blanks.\<close>

definition pad :: "nat \<Rightarrow> string" where
  "pad n = CHR 10 # replicate (2 * n) (CHR '' '')"

fun json_indent :: "nat \<Rightarrow> json \<Rightarrow> string" where
  "json_indent n (JArr vs) =
     (if vs = [] then ''[]''
      else ''['' @ pad (Suc n) @ join ('','' @ pad (Suc n)) (map (json_indent (Suc n)) vs) @ pad n @ '']'')"
| "json_indent n (JObj ms) =
     (if ms = [] then ''{}''
      else ''{'' @ pad (Suc n) @
        join ('','' @ pad (Suc n)) (map (\<lambda>m. json_quote (fst m) @ '': '' @ json_indent (Suc n) (snd m)) ms) @ pad n @ ''}'')"
| "json_indent n j = json_text j"

text \<open>\<open>Decoder.Decode\<close> reads the first value and leaves what follows it.\<close>

definition json_Decode :: "string \<Rightarrow> json option" where
  "json_Decode s = map_option fst (jvalue 0 s)"

subsection \<open>Reading what was encoded\<close>

definition ascii :: "string \<Rightarrow> bool" where
  "ascii s \<longleftrightarrow> (\<forall>c \<in> set s. (of_char c :: nat) < 0x80)"

fun json_ok :: "nat \<Rightarrow> json \<Rightarrow> bool" where
  "json_ok d (JNum lit) \<longleftrightarrow> (\<exists>n. lit = Itoa n)"
| "json_ok d (JStr s) \<longleftrightarrow> ascii s"
| "json_ok d (JArr vs) \<longleftrightarrow> 0 < d \<and> (\<forall>v \<in> set vs. json_ok (d - 1) v)"
| "json_ok d (JObj ms) \<longleftrightarrow> 0 < d \<and> (\<forall>m \<in> set ms. ascii (fst m) \<and> json_ok (d - 1) (snd m))"
| "json_ok d _ \<longleftrightarrow> True"

lemma hex_val_char: "n < 16 \<Longrightarrow> hex_val (hex_char n) = Some n"
  by (auto simp: hex_val_def hex_char_def Let_def)

lemma hex_digits_4:
  "hex_digits 4 n = [hex_char (n div 16 div 16 div 16 mod 16), hex_char (n div 16 div 16 mod 16), hex_char (n div 16 mod 16), hex_char (n mod 16)]"
proof -
  have "hex_digits (Suc (Suc (Suc (Suc 0)))) n =
    [hex_char (n div 16 div 16 div 16 mod 16), hex_char (n div 16 div 16 mod 16), hex_char (n div 16 mod 16), hex_char (n mod 16)]"
    by (simp only: hex_digits.simps append.simps)
  moreover have "(4::nat) = Suc (Suc (Suc (Suc 0)))" by simp
  ultimately show ?thesis by (simp only:)
qed

lemma hex4_digits:
  assumes "n < 0x10000"
  shows "hex4 (hex_digits 4 n @ r) = Some n"
proof -
  have e: "((n div 16 div 16 div 16 * 16 + n div 16 div 16 mod 16) * 16 + n div 16 mod 16) * 16 + n mod 16 = n"
    by (simp only: div_mult_mod_eq)
  have "n div 16 div 16 div 16 < 16" using assms by (simp add: div_mult2_eq [symmetric] less_mult_imp_div_less)
  then show ?thesis using e by (simp add: hex4_def hex_digits_4 hex_val_char)
qed

lemma jstring_quoted_char:
  assumes "(of_char c :: nat) < 0x80"
  shows "jstring (quote_ascii c @ r) = map_option (\<lambda>(u, rest). (c # u, rest)) (jstring r)"
proof (cases "map_of short_escapes (of_char c)")
  case None
  let ?n = "of_char c :: nat"
  show ?thesis
  proof (cases "?n < 0x20 \<or> c \<in> set ''<>&''")
    case True
    have u: "json_unescape (CHR ''u'' # hex_digits 4 ?n @ r) = Some ([c], 5)"
      using hex4_digits [of ?n r] assms by (simp add: json_unescape_def unescape_unit_def utf8_encode_def)
    have q: "quote_ascii c = CHR 0x5C # CHR ''u'' # hex_digits 4 ?n" using None True by (simp add: quote_ascii_def Let_def)
    have "drop 5 (CHR ''u'' # hex_digits 4 ?n @ r) = r" by simp
    then show ?thesis using u unfolding q by (simp del: drop_append)
  next
    case False
    then have "quote_ascii c = [c]" "c \<noteq> CHR 0x22" "c \<noteq> CHR 0x5C" using None by (auto simp: quote_ascii_def Let_def short_escapes_def)
    moreover have "utf8_len (c # r) = 1" using assms by (simp add: utf8_len_def)
    ultimately show ?thesis using False by simp
  qed
next
  case (Some e)
  then have "(of_char c, e) \<in> set short_escapes" by (rule map_of_SomeD)
  then have "(of_char c :: nat) \<in> of_char ` {CHR 0x22, CHR 0x5C, CHR 0x08, CHR 0x0C, CHR 0x0A, CHR 0x0D, CHR 0x09}"
    by (auto simp: short_escapes_def)
  then have "c \<in> {CHR 0x22, CHR 0x5C, CHR 0x08, CHR 0x0C, CHR 0x0A, CHR 0x0D, CHR 0x09}"
    by (simp only: inj_image_mem_iff [OF inj_of_char])
  then consider "c = CHR 0x22" | "c = CHR 0x5C" | "c = CHR 0x08" | "c = CHR 0x0C" | "c = CHR 0x0A" | "c = CHR 0x0D" | "c = CHR 0x09"
    by blast
  then show ?thesis
    by cases (simp_all add: quote_ascii_def short_escapes_def json_unescape_def simple_escapes_def)
qed

lemma jstring_quoted: "ascii s \<Longrightarrow> jstring (quote_body s @ CHR 0x22 # r) = Some (s, r)"
  by (induction s) (auto simp: ascii_def jstring_quoted_char)

text \<open>What may follow a value in an encoded document.\<close>

definition value_end :: "string \<Rightarrow> bool" where
  "value_end r \<longleftrightarrow> r = [] \<or> hd r \<in> set '',]}'' \<or> json_space (hd r)"

lemma value_end_not_number: "value_end r \<Longrightarrow> r = [] \<or> \<not> is_digit (hd r) \<and> hd r \<notin> set ''.eE''"
  by (auto simp: value_end_def json_space_def is_digit_def)

lemma digits1_end: "d \<noteq> [] \<Longrightarrow> \<forall>c \<in> set d. is_digit c \<Longrightarrow> r = [] \<or> \<not> is_digit (hd r) \<Longrightarrow> digits1 (d @ r) = Some (d, r)"
  by (cases r) (auto simp: digits1_def Let_def takeWhile_append dropWhile_append takeWhile_eq_Nil_iff)

lemma number_end: "value_end r \<Longrightarrow> json_frac r = Some ([], r) \<and> json_exp r = Some ([], r)"
  using value_end_not_number [of r] by (cases r) (auto simp: json_frac_def json_exp_def)

lemma itoa_nat_leading_zero: "hd (itoa_nat n) = CHR ''0'' \<Longrightarrow> n = 0"
proof (induction n rule: itoa_nat.induct)
  case (1 n)
  show ?case
  proof (cases "n < 10")
    case True
    then have "digit_char n = CHR ''0''" using 1(2) by (simp add: itoa_nat.simps)
    then have "digit_val (digit_char n) = 0" by (simp add: digit_val_def)
    then show ?thesis using True by simp
  next
    case False
    then have "hd (itoa_nat (n div 10)) = CHR ''0''" using 1(2) by (subst (asm) itoa_nat.simps) simp
    then have "n div 10 = 0" using 1(1) False by blast
    then show ?thesis using False by simp
  qed
qed

lemma json_int_itoa:
  assumes "value_end r"
  shows "json_int (itoa_nat n @ r) = Some (itoa_nat n, r)"
proof (cases "n = 0")
  case True
  moreover have "itoa_nat 0 = ''0''" by code_simp
  ultimately have "itoa_nat n = ''0''" by simp
  then show ?thesis by (simp add: json_int_def)
next
  case False
  then have "hd (itoa_nat n) \<noteq> CHR ''0''" using itoa_nat_leading_zero by blast
  then show ?thesis
    using digits1_end [of "itoa_nat n" r] itoa_nat_digits [of n] value_end_not_number [OF assms]
    by (cases "itoa_nat n") (auto simp: json_int_def)
qed

lemma jnumber_Itoa:
  assumes "value_end r"
  shows "jnumber (Itoa n @ r) = Some (Itoa n, r)"
proof -
  have "hd (itoa_nat k) \<noteq> CHR ''-''" for k
    using bspec [OF itoa_nat_digits hd_in_set [OF itoa_nat_not_Nil], of k] by (auto simp: is_digit_def)
  then have "(case itoa_nat k @ r of [] \<Rightarrow> ([], []) | c # s \<Rightarrow> if c = CHR ''-'' then ([c], s) else ([], itoa_nat k @ r)) = ([], itoa_nat k @ r)" for k
    by (cases "itoa_nat k") (auto, metis list.sel(1))
  then show ?thesis using json_int_itoa [OF assms] number_end [OF assms] by (simp add: jnumber_def Itoa_def)
qed

text \<open>The first byte of an encoded value is no white space and closes nothing.\<close>

lemma json_text_start:
  "json_ok d j \<Longrightarrow> json_text j \<noteq> [] \<and> \<not> json_space (hd (json_text j)) \<and> hd (json_text j) \<notin> set ''}],''"
proof (cases j)
  case (JNum lit)
  moreover assume "json_ok d j"
  ultimately obtain n where l: "lit = Itoa n" by auto
  have "is_digit (hd (Itoa n)) \<or> hd (Itoa n) = CHR ''-''"
    using itoa_nat_digits [of "nat n"] hd_in_set [OF itoa_nat_not_Nil, of "nat n"] by (auto simp: Itoa_def)
  then show ?thesis using JNum l by (auto simp: is_digit_def json_space_def)
qed (auto simp: json_quote_def json_space_def)

lemma skip_ws_start: "s \<noteq> [] \<Longrightarrow> \<not> json_space (hd s) \<Longrightarrow> skip_ws s = s"
  by (cases s) (auto simp: skip_ws_def)

lemma skip_ws_text: "json_ok d j \<Longrightarrow> skip_ws (json_text j @ r) = json_text j @ r"
  using json_text_start [of d j] by (simp add: skip_ws_start)

lemma skip_ws_quote: "skip_ws (json_quote s @ r) = json_quote s @ r" "skip_ws (c # r) = c # r" if "\<not> json_space c"
  using that by (simp_all add: json_quote_def skip_ws_def json_space_def)

lemma not_spaces: "\<not> json_space (CHR '','')" "\<not> json_space (CHR '']'')" "\<not> json_space (CHR ''}'')" "\<not> json_space (CHR '':'')"
  "\<not> json_space (CHR ''['')" "\<not> json_space (CHR ''{'')" "\<not> json_space (CHR 0x22)"
  by (simp_all add: json_space_def)

lemma value_end_closers: "value_end (CHR '','' # r)" "value_end (CHR '']'' # r)" "value_end (CHR ''}'' # r)"
  by (simp_all add: value_end_def)

lemma jelems_text:
  assumes "vs \<noteq> []" and "\<forall>v \<in> set vs. \<forall>r. value_end r \<longrightarrow> jvalue n (json_text v @ r) = Some (v, r)"
  shows "jelems n (join '','' (map json_text vs) @ CHR '']'' # r) = Some (vs, r)"
  using assms
proof (induction vs rule: induct_list012)
  case (2 v)
  then have "jvalue n (json_text v @ CHR '']'' # r) = Some (v, CHR '']'' # r)" using value_end_closers by simp
  then show ?case by (simp add: jelems.simps skip_ws_quote not_spaces)
next
  case (3 v w vs)
  let ?rest = "join '','' (map json_text (w # vs)) @ CHR '']'' # r"
  have "jvalue n (json_text v @ CHR '','' # ?rest) = Some (v, CHR '','' # ?rest)" using 3(4) value_end_closers by simp
  moreover have "jelems n ?rest = Some (w # vs, r)" using 3 by simp
  ultimately show ?case by (subst jelems.simps) (simp add: skip_ws_quote not_spaces)
qed simp

definition member_text :: "string \<times> json \<Rightarrow> string" where
  "member_text m = json_quote (fst m) @ '':'' @ json_text (snd m)"

lemma jmembers_text:
  assumes "ms \<noteq> []" and "\<forall>m \<in> set ms. ascii (fst m) \<and> (\<forall>r. value_end r \<longrightarrow> jvalue n (json_text (snd m) @ r) = Some (snd m, r))"
  shows "jmembers n (join '','' (map member_text ms) @ CHR ''}'' # r) = Some (ms, r)"
proof -
  have one: "jmembers n (member_text m @ e # s) =
      (if e = CHR ''}'' then Some ([m], s)
       else if e = CHR '','' then map_option (\<lambda>(ms, rest). (m # ms, rest)) (jmembers n s) else None)"
    if "m \<in> set ms" "e \<in> {CHR '','', CHR ''}''}" for m e s
  proof -
    have v: "jvalue n (json_text (snd m) @ e # s) = Some (snd m, e # s)" using assms(2) that value_end_closers by auto
    have k: "jstring (quote_body (fst m) @ CHR 0x22 # CHR '':'' # json_text (snd m) @ e # s) = Some (fst m, CHR '':'' # json_text (snd m) @ e # s)"
      using assms(2) that(1) by (intro jstring_quoted) auto
    have "\<not> json_space e" using that(2) not_spaces by auto
    then show ?thesis
      using v k by (subst jmembers.simps) (simp add: member_text_def json_quote_def skip_ws_quote not_spaces)
  qed
  have "jmembers n (join '','' (map member_text l) @ CHR ''}'' # r) = Some (l, r)" if "l \<noteq> []" "set l \<subseteq> set ms" for l
    using that
  proof (induction l rule: induct_list012)
    case (2 m)
    then show ?case using one [of m "CHR ''}''" r] by simp
  next
    case (3 m m' l)
    then show ?case using one [of m "CHR '',''" "join '','' (map member_text (m' # l)) @ CHR ''}'' # r"] by simp
  qed simp
  then show ?thesis using assms(1) by simp
qed

lemma jvalue_start: "s \<noteq> [] \<Longrightarrow> \<not> json_space (hd s) \<Longrightarrow> hd s \<notin> {CHR 0x22, CHR ''['', CHR ''{''} \<Longrightarrow> jvalue n s = jliteral s"
  by (cases s) (simp_all add: jvalue.simps skip_ws_start)

lemma Itoa_start: "\<exists>c cs. Itoa n = c # cs \<and> (is_digit c \<or> c = CHR ''-'')"
proof (cases "n < 0")
  case False
  obtain c cs where i: "itoa_nat (nat n) = c # cs" using itoa_nat_not_Nil by (cases "itoa_nat (nat n)") auto
  then have "is_digit c" using itoa_nat_digits [of "nat n"] by simp
  then show ?thesis using False i by (simp add: Itoa_def)
qed (simp add: Itoa_def)

lemma jliteral_Itoa:
  assumes "value_end r"
  shows "jliteral (Itoa n @ r) = Some (JNum (Itoa n), r)"
proof -
  obtain c cs where i: "Itoa n = c # cs" "is_digit c \<or> c = CHR ''-''" using Itoa_start by blast
  then have "c \<noteq> CHR ''t''" "c \<noteq> CHR ''f''" "c \<noteq> CHR ''n''" by (auto simp: is_digit_def)
  then show ?thesis using jnumber_Itoa [OF assms, of n] i(1) by (simp add: jliteral_def json_literals_def)
qed

lemma join_start:
  assumes "xs \<noteq> []" and "hd xs \<noteq> []"
  shows "join sep xs \<noteq> [] \<and> hd (join sep xs) = hd (hd xs)"
  using assms by (cases xs rule: remdups_adj.cases) auto

lemma jvalue_array:
  assumes "vs \<noteq> []" and "n < maxNestingDepth" and "hd vs \<noteq> []" and "\<not> json_space (hd (hd vs))" and "hd (hd vs) \<noteq> CHR '']''"
  shows "jvalue n (CHR ''['' # join '','' vs @ CHR '']'' # r) = map_option (\<lambda>(l, rest). (JArr l, rest)) (jelems (Suc n) (join '','' vs @ CHR '']'' # r))"
proof -
  obtain c cs where j: "join '','' vs @ CHR '']'' # r = c # cs" "\<not> json_space c" "c \<noteq> CHR '']''"
    using join_start [OF assms(1,3), of "'',''"] assms(4,5) by (cases "join '','' vs") auto
  then show ?thesis using assms(2) by (simp add: jvalue.simps skip_ws_quote not_spaces)
qed

lemma jvalue_object:
  assumes "ms \<noteq> []" and "n < maxNestingDepth"
  shows "jvalue n (CHR ''{'' # join '','' (map member_text ms) @ CHR ''}'' # r) =
    map_option (\<lambda>(l, rest). (JObj l, rest)) (jmembers (Suc n) (join '','' (map member_text ms) @ CHR ''}'' # r))"
proof -
  have "hd (map member_text ms) \<noteq> [] \<and> hd (hd (map member_text ms)) = CHR 0x22"
    using assms(1) by (cases ms) (auto simp: member_text_def json_quote_def)
  then obtain cs where j: "join '','' (map member_text ms) @ CHR ''}'' # r = CHR 0x22 # cs"
    using join_start [of "map member_text ms" "'',''"] assms(1) by (cases "join '','' (map member_text ms)") auto
  then show ?thesis using assms(2) by (simp add: jvalue.simps skip_ws_quote not_spaces)
qed

lemma jvalue_text:
  "json_ok d j \<Longrightarrow> n + d \<le> maxNestingDepth \<Longrightarrow> value_end r \<Longrightarrow> jvalue n (json_text j @ r) = Some (j, r)"
proof (induction j arbitrary: d n r rule: json_text.induct)
  case (3 lit)
  then obtain k where k: "lit = Itoa k" by auto
  obtain c cs where i: "Itoa k = c # cs" "is_digit c \<or> c = CHR ''-''" using Itoa_start by blast
  then have "jvalue n (Itoa k @ r) = jliteral (Itoa k @ r)"
    by (intro jvalue_start) (auto simp: is_digit_def json_space_def)
  then show ?case using jliteral_Itoa [OF 3(3), of k] k by simp
next
  case (4 s)
  then show ?case using jstring_quoted [of s r] by (simp add: jvalue.simps json_quote_def skip_ws_quote not_spaces)
next
  case (5 vs)
  show ?case
  proof (cases "vs = []")
    case True
    then show ?thesis using 5 by (simp add: jvalue.simps skip_ws_quote not_spaces)
  next
    case False
    have e: "jelems (Suc n) (join '','' (map json_text vs) @ CHR '']'' # r) = Some (vs, r)"
    proof (rule jelems_text [OF False], intro ballI allI impI)
      fix v r' assume v: "v \<in> set vs" "value_end r'"
      then show "jvalue (Suc n) (json_text v @ r') = Some (v, r')" using 5(1) [OF v(1), of "d - 1" "Suc n" r'] 5(2,3) by simp
    qed
    have "json_ok (d - 1) (hd vs)" using 5(2) False by simp
    note st = json_text_start [OF this]
    have "jvalue n (CHR ''['' # join '','' (map json_text vs) @ CHR '']'' # r) = Some (JArr vs, r)"
      using 5(2,3) False st e by (subst jvalue_array) (simp_all add: hd_map)
    then show ?thesis by simp
  qed
next
  case (6 ms)
  show ?case
  proof (cases "ms = []")
    case True
    then show ?thesis using 6 by (simp add: jvalue.simps skip_ws_quote not_spaces)
  next
    case False
    have e: "jmembers (Suc n) (join '','' (map member_text ms) @ CHR ''}'' # r) = Some (ms, r)"
    proof (rule jmembers_text [OF False], intro ballI conjI allI impI)
      fix m assume m: "m \<in> set ms"
      then show "ascii (fst m)" using 6(2) by simp
      fix r' assume "value_end r'"
      then show "jvalue (Suc n) (json_text (snd m) @ r') = Some (snd m, r')"
        using 6(1) [OF m, of "d - 1" "Suc n" r'] 6(2,3) m by simp
    qed
    have "jvalue n (CHR ''{'' # join '','' (map member_text ms) @ CHR ''}'' # r) = Some (JObj ms, r)"
      using 6(2,3) False e by (subst jvalue_object) simp_all
    then show ?thesis by (simp add: member_text_def [abs_def])
  qed
qed (simp_all add: jvalue.simps jliteral_def json_literals_def skip_ws_quote json_space_def)

lemma json_Decode_text:
  assumes "json_ok maxNestingDepth j" and "value_end r"
  shows "json_Decode (json_text j @ r) = Some j"
  using jvalue_text [OF assms(1), of 0 r] assms(2) by (simp add: json_Decode_def)

text \<open>A document that was encoded, with white space after it, is read back.\<close>

lemma json_Parse_text:
  assumes "json_ok maxNestingDepth j" and "\<forall>c \<in> set r. json_space c"
  shows "json_Parse (json_text j @ r) = Some j"
proof -
  have "skip_ws r = []" using assms(2) by (simp add: skip_ws_def)
  moreover have "value_end r" using assms(2) by (cases r) (auto simp: value_end_def)
  ultimately show ?thesis using jvalue_text [OF assms(1), of 0 r] by (simp add: json_Parse_def)
qed

end
