(* ===== verification/Discover.thy ===== *)
theory Discover
  imports Auth_Cmd Env_Update Go_Json
begin

text \<open>
  \<open>internal/discover\<close> and \<open>cmd/cli/discover.go\<close>: listing the devices of a tailnet, choosing one
  and keeping it. The HTTP transport and the client of the Tailscale API are arguments; every
  call of them is recorded, with the key it carries.
\<close>

subsection \<open>Devices\<close>

record HeadscaleDevice =
  hd_ID :: string
  hd_Name :: string
  hd_User :: string
  hd_IPs :: "string list"
  hd_LastSeen :: string
  hd_Expires :: string
  hd_Authorized :: bool
  hd_IsExternal :: bool

record Device =
  dv_Addresses :: "string list"
  dv_DeviceID :: string
  dv_NodeID :: string
  dv_User :: string
  dv_Name :: string
  dv_Hostname :: string
  dv_OS :: string
  dv_Tags :: "string list"
  dv_Created :: string
  dv_LastSeen :: string
  dv_Expires :: string
  dv_Authorized :: bool
  dv_IsExternal :: bool

definition zero_device :: Device where
  "zero_device = \<lparr>dv_Addresses = [], dv_DeviceID = [], dv_NodeID = [], dv_User = [], dv_Name = [], dv_Hostname = [], dv_OS = [], dv_Tags = [],
     dv_Created = [], dv_LastSeen = [], dv_Expires = [], dv_Authorized = False, dv_IsExternal = False\<rparr>"

text \<open>The decoder may return an error or, on a nil pointer, panic.\<close>

datatype 'a decoded = Decoded 'a | DecodeError | DecodePanic

text \<open>A field of type \<open>any\<close>: the last member wins, and \<open>null\<close> sets it to nil.\<close>

fun any_field :: "string \<Rightarrow> (string \<times> json) list \<Rightarrow> json \<Rightarrow> json" where
  "any_field name [] v = v"
| "any_field name ((k, x) # ms) v = any_field name ms (if fold_name k = fold_name name then x else v)"

text \<open>The elements of a list of strings; \<open>null\<close> is the empty string.\<close>

definition as_strings :: "json \<Rightarrow> string list option" where
  "as_strings j =
     (case j of
        JArr vs \<Rightarrow> if list_all (\<lambda>v. v = JNull \<or> as_string v \<noteq> None) vs then Some (map (\<lambda>v. case v of JStr s \<Rightarrow> s | _ \<Rightarrow> []) vs) else None
      | _ \<Rightarrow> None)"

definition ips_of :: "json \<Rightarrow> string list \<Rightarrow> string list" where
  "ips_of ip old =
     (case ip of
        JStr v \<Rightarrow> if v \<noteq> [] then [v] else old
      | JArr vs \<Rightarrow> old @ filter (\<lambda>s. s \<noteq> []) (List.map_filter as_string vs)
      | _ \<Rightarrow> old)"

text \<open>
  \<open>UnmarshalJSON\<close>: \<open>null\<close> makes the auxiliary pointer nil, and reading its field panics. The field
  \<open>IPs\<close> has no tag, so a member \<open>ips\<close> fills it before \<open>ip\<close> is looked at.
\<close>

definition HeadscaleDevice_UnmarshalJSON :: "json \<Rightarrow> HeadscaleDevice decoded" where
  "HeadscaleDevice_UnmarshalJSON j =
     (case j of
        JNull \<Rightarrow> DecodePanic
      | JObj ms \<Rightarrow>
          (let str = (\<lambda>name. json_field as_string name j []); flag = (\<lambda>name. json_field as_bool name j False);
               ips = json_field as_strings ''IPs'' j []
           in if list_all fst (map str [''id'', ''name'', ''user'', ''lastSeen'', ''expires'']) \<and> fst ips \<and> fst (flag ''authorized'') \<and> fst (flag ''isExternal'')
              then Decoded
                \<lparr>hd_ID = snd (str ''id''), hd_Name = snd (str ''name''), hd_User = snd (str ''user''),
                 hd_IPs = ips_of (any_field ''ip'' ms JNull) (snd ips), hd_LastSeen = snd (str ''lastSeen''), hd_Expires = snd (str ''expires''),
                 hd_Authorized = snd (flag ''authorized''), hd_IsExternal = snd (flag ''isExternal'')\<rparr>
              else DecodeError)
      | _ \<Rightarrow> DecodeError)"

fun decode_list :: "(json \<Rightarrow> 'a decoded) \<Rightarrow> json list \<Rightarrow> 'a list decoded" where
  "decode_list f [] = Decoded []"
| "decode_list f (j # js) =
     (case f j of
        DecodePanic \<Rightarrow> DecodePanic
      | DecodeError \<Rightarrow> (case decode_list f js of DecodePanic \<Rightarrow> DecodePanic | _ \<Rightarrow> DecodeError)
      | Decoded x \<Rightarrow> (case decode_list f js of Decoded xs \<Rightarrow> Decoded (x # xs) | r \<Rightarrow> r))"

definition decode_devices :: "json \<Rightarrow> HeadscaleDevice list decoded" where
  "decode_devices j =
     (case j of JNull \<Rightarrow> Decoded [] | JArr vs \<Rightarrow> decode_list HeadscaleDevice_UnmarshalJSON vs | _ \<Rightarrow> DecodeError)"

text \<open>The wrapper: its members \<open>devices\<close> are decoded in turn, the last one that is a list stays.\<close>

fun decode_wrapper :: "(string \<times> json) list \<Rightarrow> HeadscaleDevice list decoded \<Rightarrow> HeadscaleDevice list decoded" where
  "decode_wrapper [] acc = acc"
| "decode_wrapper ((k, v) # ms) acc =
     (if fold_name k \<noteq> ''devices'' then decode_wrapper ms acc
      else (case decode_devices v of
              DecodePanic \<Rightarrow> DecodePanic
            | DecodeError \<Rightarrow> decode_wrapper ms (if acc = DecodePanic then acc else DecodeError)
            | Decoded xs \<Rightarrow> decode_wrapper ms (if acc = DecodeError then DecodeError else Decoded xs)))"

definition parse_devices :: "string \<Rightarrow> HeadscaleDevice list decoded" where
  "parse_devices body =
     (case json_Parse body of
        None \<Rightarrow> DecodeError
      | Some j \<Rightarrow>
          (case decode_devices j of
             DecodeError \<Rightarrow> (case j of JObj ms \<Rightarrow> decode_wrapper ms (Decoded []) | _ \<Rightarrow> DecodeError)
           | r \<Rightarrow> r))"

subsection \<open>The two control planes\<close>

datatype api_call = HeadscaleGet string "(string \<times> string) list" | TailscaleList string string

record http_reply =
  hr_code :: nat
  hr_body :: string
  hr_readable :: bool

datatype discover_error =
    KeyRequired string
  | TailnetRequired
  | ControlURLRequired
  | BadRequest
  | RequestFailed string string
  | APIStatus nat string string
  | BodyUnreadable
  | BadResponse
  | ResponsePanic
  | KeyFile connect_error
  | ProfileNameMissing
  | JSONSavesNothing string
  | BadPort int
  | NoSelection
  | ManyMatch string
  | NoMatch string
  | KeepEnv update_error
  | KeepProfile auth_error

definition diagnoseHeadscaleAPIError :: "string \<Rightarrow> string \<times> string" where
  "diagnoseHeadscaleAPIError err =
     (let msg = ToLower err in
      if Contains msg ''context deadline exceeded'' \<or> Contains msg ''i/o timeout'' \<or> Contains msg ''connection refused'' then
        (''Headscale API unreachable'', ''check that TS_CONTROL_URL points to a running Headscale instance and the network is reachable'')
      else if Contains msg ''tls'' then
        (''TLS certificate error'', ''verify the Headscale instance has a valid TLS certificate or use an HTTPS URL'')
      else ([], []))"

definition diagnoseTailscaleAPIError :: "string \<Rightarrow> string \<times> string" where
  \<open>diagnoseTailscaleAPIError err =
     (let msg = ToLower err in
      if list_ex (Contains msg) [''api key does not exist'', ''invalid key'', ''key expired'', ''unauthorized'', ''401'', ''403''] then
        (''API key rejected by Tailscale API (invalid, expired, or missing devices:read scope)'',
         ''generate a new API key at https://login.tailscale.com/admin/settings/keys with the "devices:read" scope'')
      else if list_ex (Contains msg) [''not found'', ''404''] then
        (''tailnet not found '' @ em_dash @ '' check that the tailnet name is correct'',
         ''find your tailnet name at https://login.tailscale.com/admin/dns'')
      else if list_ex (Contains msg) [''rate limit'', ''429''] then
        (''Tailscale API rate limit exceeded'', ''wait a moment and retry; the API allows ~60 requests/minute per key'')
      else if list_ex (Contains msg) [''context deadline exceeded'', ''i/o timeout'', ''connection refused''] then
        (''Tailscale API unreachable'', ''check network connectivity to https://api.tailscale.com'')
      else ([], []))\<close>

definition headscale_url :: "string \<Rightarrow> string" where
  "headscale_url controlURL = (if HasSuffix controlURL ''/'' then controlURL else controlURL @ ''/'') @ ''api/v1/device''"

definition headscale_headers :: "string \<Rightarrow> (string \<times> string) list" where
  "headscale_headers apiKey = [(''Authorization'', ''Bearer '' @ apiKey), (''User-Agent'', ''ts-bridge/discover'')]"

definition headscale_response :: "http_reply \<Rightarrow> (discover_error, HeadscaleDevice list) result" where
  "headscale_response resp =
     (if hr_code resp \<noteq> 200 then
        (let msg = TrimSpace (take 4096 (hr_body resp)) in
         Inl (APIStatus (hr_code resp) msg
           (if hr_code resp = 401 \<or> hr_code resp = 403 then ''check TS_HEADSCALE_API_KEY is valid and has read permissions''
            else if hr_code resp = 404 then ''verify TS_CONTROL_URL points to a valid Headscale instance'' else [])))
      else if \<not> hr_readable resp then Inl BodyUnreadable
      else (case parse_devices (take (2 ^ 20) (hr_body resp)) of
              Decoded ds \<Rightarrow> Inr ds | DecodeError \<Rightarrow> Inl BadResponse | DecodePanic \<Rightarrow> Inl ResponsePanic))"

definition ListHeadscaleDevices ::
  "(string \<Rightarrow> (string \<times> string) list \<Rightarrow> (string, http_reply) result) \<Rightarrow> string \<Rightarrow> string \<Rightarrow>
   (discover_error, HeadscaleDevice list) result \<times> api_call list" where
  "ListHeadscaleDevices http apiKey controlURL =
     (if apiKey = [] then (Inl (KeyRequired ''Headscale API key is required''), [])
      else if controlURL = [] then (Inl ControlURLRequired, [])
      else (let url = headscale_url controlURL; hs = headscale_headers apiKey in
            if url_Parse url = None then (Inl BadRequest, [])
            else ((case http url hs of
                     Inl err \<Rightarrow> Inl (RequestFailed err (if fst (diagnoseHeadscaleAPIError err) \<noteq> [] then snd (diagnoseHeadscaleAPIError err) else []))
                   | Inr resp \<Rightarrow> headscale_response resp), [HeadscaleGet url hs])))"

text \<open>The device of the client library, with what is read of its times.\<close>

record tsv2_time =
  tt_IsZero :: bool
  tt_RFC3339 :: string

record tsv2_device =
  t2_Addresses :: "string list"
  t2_ID :: string
  t2_NodeID :: string
  t2_User :: string
  t2_Name :: string
  t2_Hostname :: string
  t2_OS :: string
  t2_Tags :: "string list"
  t2_Created :: tsv2_time
  t2_LastSeen :: "tsv2_time option"
  t2_Expires :: tsv2_time
  t2_Authorized :: bool
  t2_IsExternal :: bool

definition formatTSTime :: "tsv2_time \<Rightarrow> string" where
  "formatTSTime t = (if tt_IsZero t then [] else tt_RFC3339 t)"

definition formatTSTimePtr :: "tsv2_time option \<Rightarrow> string" where
  "formatTSTimePtr t = (case t of None \<Rightarrow> [] | Some x \<Rightarrow> formatTSTime x)"

definition convertTailscaleDevices :: "tsv2_device list \<Rightarrow> Device list" where
  "convertTailscaleDevices ds =
     map (\<lambda>d. \<lparr>dv_Addresses = t2_Addresses d, dv_DeviceID = t2_ID d, dv_NodeID = t2_NodeID d, dv_User = t2_User d, dv_Name = t2_Name d,
        dv_Hostname = t2_Hostname d, dv_OS = t2_OS d, dv_Tags = t2_Tags d, dv_Created = formatTSTime (t2_Created d),
        dv_LastSeen = formatTSTimePtr (t2_LastSeen d), dv_Expires = formatTSTime (t2_Expires d), dv_Authorized = t2_Authorized d,
        dv_IsExternal = t2_IsExternal d\<rparr>) ds"

definition ListDevices ::
  "(string \<Rightarrow> string \<Rightarrow> (string, tsv2_device list) result) \<Rightarrow> string \<Rightarrow> string \<Rightarrow> (discover_error, Device list) result \<times> api_call list" where
  "ListDevices client apiKey tailnet =
     (if apiKey = [] then (Inl (KeyRequired ''API key is required''), [])
      else if tailnet = [] then (Inl TailnetRequired, [])
      else ((case client apiKey tailnet of
               Inl err \<Rightarrow> Inl (RequestFailed err (if fst (diagnoseTailscaleAPIError err) \<noteq> [] then snd (diagnoseTailscaleAPIError err) else []))
             | Inr ds \<Rightarrow> Inr (convertTailscaleDevices ds)), [TailscaleList apiKey tailnet]))"

subsection \<open>The command\<close>

record discoverFlags =
  df_JSON :: bool
  df_Filter :: string
  df_Auto :: bool
  df_Port :: int
  df_APIKey :: string
  df_APIKeyFile :: string
  df_Tailnet :: string
  df_Profile :: string

text \<open>The flags as cobra gives them: \<open>--auth-key\<close> is the old name of \<open>--api-key\<close>.\<close>

definition parseDiscoverFlags :: "discoverFlags \<Rightarrow> string \<Rightarrow> bool \<Rightarrow> (discover_error, discoverFlags) result" where
  "parseDiscoverFlags given authKey profileChanged =
     (let f = given\<lparr>df_APIKey := (if df_APIKey given = [] then authKey else df_APIKey given)\<rparr> in
      if profileChanged \<and> df_Profile f = [] then Inl ProfileNameMissing
      else if df_JSON f \<and> df_Profile f \<noteq> [] then Inl (JSONSavesNothing (df_Profile f))
      else if df_Port f < 1 \<or> 65535 < df_Port f then Inl (BadPort (df_Port f))
      else Inr f)"

definition discoverAPIKey :: "cmd_ctx \<Rightarrow> discoverFlags \<Rightarrow> string \<Rightarrow> os_env \<Rightarrow> disk \<Rightarrow> (discover_error, string) result \<times> disk" where
  "discoverAPIKey x flags envName E d =
     (if df_APIKeyFile flags \<noteq> [] then
        (case readAuthKeyFile x (df_APIKeyFile flags) d of
           (Inl e, d1) \<Rightarrow> (Inl (KeyFile e), d1)
         | (Inr key, d1) \<Rightarrow> (Inr key, d1))
      else if df_APIKey flags \<noteq> [] then (Inr (df_APIKey flags), d)
      else (Inr (Getenv E envName), d))"

definition convertHeadscaleDevices :: "HeadscaleDevice list \<Rightarrow> Device list" where
  "convertHeadscaleDevices ds =
     map (\<lambda>d. zero_device\<lparr>dv_Hostname := hd_Name d, dv_Addresses := hd_IPs d, dv_Name := hd_Name d, dv_User := hd_User d,
        dv_Authorized := hd_Authorized d, dv_LastSeen := hd_LastSeen d, dv_Expires := hd_Expires d\<rparr>) ds"

record api =
  api_http :: "string \<Rightarrow> (string \<times> string) list \<Rightarrow> (string, http_reply) result"
  api_client :: "string \<Rightarrow> string \<Rightarrow> (string, tsv2_device list) result"

definition discoverHeadscale ::
  "api \<Rightarrow> cmd_ctx \<Rightarrow> discoverFlags \<Rightarrow> string \<Rightarrow> os_env \<Rightarrow> disk \<Rightarrow> (discover_error, Device list) result \<times> api_call list \<times> disk" where
  "discoverHeadscale a x flags controlURL E d =
     (case discoverAPIKey x flags ''TS_HEADSCALE_API_KEY'' E d of
        (Inl e, d1) \<Rightarrow> (Inl e, [], d1)
      | (Inr apiKey, d1) \<Rightarrow>
          if apiKey = [] then (Inl (KeyRequired ''Headscale API key is required for the configured TS_CONTROL_URL''), [], d1)
          else (case ListHeadscaleDevices (api_http a) apiKey controlURL of
                  (Inl e, calls) \<Rightarrow> (Inl e, calls, d1)
                | (Inr ds, calls) \<Rightarrow> (Inr (convertHeadscaleDevices ds), calls, d1)))"

definition discoverTailscale ::
  "api \<Rightarrow> cmd_ctx \<Rightarrow> discoverFlags \<Rightarrow> os_env \<Rightarrow> disk \<Rightarrow> (discover_error, Device list) result \<times> api_call list \<times> disk" where
  "discoverTailscale a x flags E d =
     (case discoverAPIKey x flags ''TS_API_KEY'' E d of
        (Inl e, d1) \<Rightarrow> (Inl e, [], d1)
      | (Inr apiKey, d1) \<Rightarrow>
          if apiKey = [] then (Inl (KeyRequired ''Tailscale API key is required (set TS_API_KEY, --api-key or --api-key-file)''), [], d1)
          else (let tailnet = (if df_Tailnet flags = [] then Getenv E ''TS_TAILNET'' else df_Tailnet flags) in
                if tailnet = [] then (Inl TailnetRequired, [], d1)
                else (case ListDevices (api_client a) apiKey tailnet of (res, calls) \<Rightarrow> (res, calls, d1))))"

definition discoverList ::
  "api \<Rightarrow> cmd_ctx \<Rightarrow> discoverFlags \<Rightarrow> os_env \<Rightarrow> disk \<Rightarrow> (discover_error, Device list) result \<times> api_call list \<times> disk" where
  "discoverList a x flags E d =
     (let controlURL = Getenv E ''TS_CONTROL_URL'' in
      if controlURL \<noteq> [] \<and> \<not> Contains controlURL ''tailscale.com'' then discoverHeadscale a x flags controlURL E d
      else discoverTailscale a x flags E d)"

text \<open>An address without its prefix length: a slash at the start is not one.\<close>

definition strip_cidr :: "string \<Rightarrow> string" where
  "strip_cidr addr = (case cut (CHR ''/'') addr of (ip, _, found) \<Rightarrow> if found \<and> ip \<noteq> [] then ip else addr)"

definition filterDevices :: "Device list \<Rightarrow> string \<Rightarrow> Device list" where
  "filterDevices ds flt =
     (let f = ToLower flt in
      filter (\<lambda>d. Contains (ToLower (dv_Hostname d)) f \<or> list_ex (\<lambda>addr. Contains (strip_cidr addr) f) (dv_Addresses d)) ds)"

definition deviceIP :: "Device \<Rightarrow> string" where
  "deviceIP d = (case dv_Addresses d of [] \<Rightarrow> [] | ip # _ \<Rightarrow> strip_cidr ip)"

definition statusLabel :: "Device \<Rightarrow> string" where
  "statusLabel d = (if dv_Authorized d then ''online'' else ''offline'')"

definition device_json :: "Device \<Rightarrow> json" where
  "device_json d =
     JObj [(''hostname'', JStr (dv_Hostname d)), (''addresses'', JArr (map JStr (dv_Addresses d))), (''name'', JStr (dv_Name d)),
           (''user'', JStr (dv_User d)), (''os'', JStr (dv_OS d)), (''authorized'', JBool (dv_Authorized d)), (''lastSeen'', JStr (dv_LastSeen d))]"

definition printDevicesJSON :: "Device list \<Rightarrow> string" where
  "printDevicesJSON ds = json_indent 0 (JArr (map device_json ds))"

text \<open>
  \<open>sort.Slice\<close> puts authorized devices first and orders by hostname; it may swap devices that are
  equal in both. The model keeps their order.
\<close>

definition device_before :: "Device \<Rightarrow> Device \<Rightarrow> bool" where
  "device_before a b = (if dv_Authorized a \<noteq> dv_Authorized b then dv_Authorized a else \<not> str_le (dv_Hostname b) (dv_Hostname a))"

fun insert_device :: "Device \<Rightarrow> Device list \<Rightarrow> Device list" where
  "insert_device d [] = [d]"
| "insert_device d (e # es) = (if device_before e d then e # insert_device d es else d # e # es)"

definition sortDevices :: "Device list \<Rightarrow> Device list" where
  "sortDevices ds = foldr insert_device ds []"

text \<open>\<open>Sscanf\<close> with \<open>%d\<close>: a sign and the digits that follow; the rest of the text is left.\<close>

definition scan_int :: "string \<Rightarrow> int option" where
  "scan_int s =
     (let t = trim_left s;
          (sign, u) = (case t of c # r \<Rightarrow> if c = CHR ''+'' \<or> c = CHR ''-'' then ([c], r) else ([], t) | [] \<Rightarrow> ([], []));
          ds = takeWhile is_digit u
      in if ds = [] then None else Atoi (sign @ ds))"

definition findByNumber :: "Device list \<Rightarrow> string \<Rightarrow> Device option" where
  "findByNumber ds input =
     (case scan_int input of
        Some index \<Rightarrow> if 0 < index \<and> index \<le> int (length ds) then Some (ds ! (nat index - 1)) else None
      | None \<Rightarrow> None)"

definition findByExact :: "Device list \<Rightarrow> string \<Rightarrow> Device option" where
  "findByExact ds input = find (\<lambda>d. EqualFold (dv_Hostname d) input) ds"

definition findByPartial :: "Device list \<Rightarrow> string \<Rightarrow> Device option \<times> nat" where
  "findByPartial ds input =
     (let ms = filter (\<lambda>d. Contains (ToLower (dv_Hostname d)) (ToLower input)) ds
      in (if ms = [] then None else Some (last ms), length ms))"

definition findDevice :: "Device list \<Rightarrow> string \<Rightarrow> (discover_error, Device) result" where
  "findDevice ds input =
     (case findByNumber ds input of
        Some d \<Rightarrow> Inr d
      | None \<Rightarrow>
          (case findByExact ds input of
             Some d \<Rightarrow> Inr d
           | None \<Rightarrow>
               (case findByPartial ds input of
                  (Some d, n) \<Rightarrow> if n = 1 then Inr d else Inl (ManyMatch input)
                | (None, _) \<Rightarrow> Inl (NoMatch input))))"

text \<open>\<open>Scanln\<close> takes the first word of the line.\<close>

definition readSelection :: "string \<Rightarrow> (discover_error, string) result" where
  "readSelection line =
     (let input = (case Fields line of w # _ \<Rightarrow> w | [] \<Rightarrow> []) in if input = [] then Inl NoSelection else Inr input)"

definition selectHost :: "Device list \<Rightarrow> string \<Rightarrow> (discover_error, Device) result" where
  "selectHost ds line = bind_res (readSelection line) (findDevice (sortDevices ds))"

definition device_target :: "Device \<Rightarrow> string" where
  "device_target d =
     (if dv_Hostname d \<noteq> [] then dv_Hostname d
      else (case dv_Addresses d of [] \<Rightarrow> dv_Name d | addr # _ \<Rightarrow> strip_cidr addr))"

definition buildDescriptorLine :: "string \<Rightarrow> int \<Rightarrow> string \<Rightarrow> string" where
  "buildDescriptorLine ip port controlURL =
     (if ip = [] \<or> port = 0 then []
      else descriptor_String \<lparr>Host = ip, Port = port, ControlURL = controlURL, Version = 1\<rparr>)"

text \<open>The answer to the prompt: \<open>None\<close> is the end of the input.\<close>

definition confirmEnvUpdate :: "string option \<Rightarrow> bool" where
  "confirmEnvUpdate line =
     (case line of
        None \<Rightarrow> False
      | Some l \<Rightarrow> (let response = ToLower (TrimSpace l) in response \<noteq> ''n'' \<and> response \<noteq> ''no''))"

record discover_ctx =
  dx_cmd :: cmd_ctx
  dx_api :: api
  dx_tty :: bool
  dx_lock :: lock_run
  dx_order :: "string list \<Rightarrow> string list"

definition promptEnvUpdate :: "discover_ctx \<Rightarrow> string option \<Rightarrow> bool" where
  "promptEnvUpdate c answer = (if \<not> dx_tty c then False else confirmEnvUpdate answer)"

datatype kept = Nothing | InEnv string | InProfile string

definition updateEnvFile :: "discover_ctx \<Rightarrow> string \<Rightarrow> int \<Rightarrow> disk \<Rightarrow> (discover_error, kept) result \<times> disk" where
  "updateEnvFile c target port d =
     (let path = os_path (dx_cmd c) ''.env'' in
      case UpdateEnv (dx_order c) path target port d of
        (Some e, d1) \<Rightarrow> (Inl (KeepEnv e), d1)
      | (None, d1) \<Rightarrow> (Inr (InEnv target), d1))"

text \<open>\<open>None\<close> is an import that waits for the lock of the store for ever.\<close>

definition persistSelection ::
  "discover_ctx \<Rightarrow> discoverFlags \<Rightarrow> string \<Rightarrow> string \<Rightarrow> string option \<Rightarrow> disk \<Rightarrow> ((discover_error, kept) result \<times> disk) option" where
  "persistSelection c flags target controlURL answer d =
     (if df_Profile flags \<noteq> [] then
        (case runImportDirect (dx_cmd c) (dx_lock c) (df_Profile flags) (buildDescriptorLine target (df_Port flags) controlURL) False d of
           None \<Rightarrow> None
         | Some (Inl e, d1) \<Rightarrow> Some (Inl (KeepProfile e), d1)
         | Some (Inr _, d1) \<Rightarrow> Some (Inr (InProfile (df_Profile flags)), d1))
      else if df_Auto flags then Some (updateEnvFile c target (df_Port flags) d)
      else if \<not> promptEnvUpdate c answer then Some (Inr Nothing, d)
      else Some (updateEnvFile c target (df_Port flags) d))"

definition runDiscover ::
  "discover_ctx \<Rightarrow> discoverFlags \<Rightarrow> os_env \<Rightarrow> string \<Rightarrow> string option \<Rightarrow> disk \<Rightarrow>
   ((discover_error, kept) result \<times> api_call list \<times> disk) option" where
  "runDiscover c flags E line answer d =
     (case discoverList (dx_api c) (dx_cmd c) flags E d of
        (Inl e, calls, d1) \<Rightarrow> Some (Inl e, calls, d1)
      | (Inr all, calls, d1) \<Rightarrow>
          (let ds = (if df_Filter flags = [] then all else filterDevices all (df_Filter flags)) in
           if ds = [] \<or> df_JSON flags then Some (Inr Nothing, calls, d1)
           else (case selectHost ds line of
                   Inl e \<Rightarrow> Some (Inl e, calls, d1)
                 | Inr sel \<Rightarrow>
                     (case persistSelection c flags (device_target sel) (Getenv E ''TS_CONTROL_URL'') answer d1 of
                        None \<Rightarrow> None
                      | Some (res, d2) \<Rightarrow> Some (res, calls, d2)))))"

subsection \<open>Keys stay with their control plane\<close>

text \<open>The key an invocation uses for a control plane: the file, the flag, or its own variable.\<close>

definition chosen_key :: "cmd_ctx \<Rightarrow> discoverFlags \<Rightarrow> string \<Rightarrow> os_env \<Rightarrow> disk \<Rightarrow> string \<Rightarrow> bool" where
  "chosen_key x flags envName E d key \<longleftrightarrow>
     (if df_APIKeyFile flags \<noteq> [] then fst (readAuthKeyFile x (df_APIKeyFile flags) d) = Inr key
      else if df_APIKey flags \<noteq> [] then key = df_APIKey flags
      else key = Getenv E envName)"

lemma discoverAPIKey_chosen: "discoverAPIKey x flags envName E d = (Inr key, d1) \<Longrightarrow> chosen_key x flags envName E d key"
  by (auto simp: discoverAPIKey_def chosen_key_def split: if_splits prod.splits sum.splits)


definition sample_api :: api where
  "sample_api = \<lparr>api_http = (\<lambda>url hs. Inr \<lparr>hr_code = 200, hr_body = ''[]'', hr_readable = True\<rparr>), api_client = (\<lambda>key t. Inl ''unreachable'')\<rparr>"

definition sample_discover_flags :: discoverFlags where
  "sample_discover_flags = \<lparr>df_JSON = False, df_Filter = [], df_Auto = False, df_Port = 3389, df_APIKey = [], df_APIKeyFile = [], df_Tailnet = [], df_Profile = []\<rparr>"

definition headscale_env :: os_env where
  "headscale_env = sample_env\<lparr>Getenv := (\<lambda>_. [])(''TS_CONTROL_URL'' := ''https://hs.lan'', ''TS_HEADSCALE_API_KEY'' := ''hk'', ''TS_API_KEY'' := ''tk'')\<rparr>"

lemma sample_discover_call:
  "fst (snd (discoverList sample_api sample_ctx sample_discover_flags headscale_env env_disk)) =
     [HeadscaleGet ''https://hs.lan/api/v1/device'' (headscale_headers ''hk'')]"
  by code_simp


text \<open>
  A host whose name starts with a number cannot be chosen by its name when the list is long
  enough: the digits in front are taken as its number. A \<open>null\<close> in the list of a Headscale
  server ends the program.
\<close>

lemma digits_select_by_number:
  assumes "Suc 0 < length ds"
  shows "findDevice ds ''2nd-host'' = Inr (ds ! 1)"
proof -
  have "scan_int ''2nd-host'' = Some 2" by code_simp
  then show ?thesis using assms by (simp add: findDevice_def findByNumber_def)
qed

lemma null_device_panics: "headscale_response \<lparr>hr_code = 200, hr_body = ''[null]'', hr_readable = True\<rparr> = Inl ResponsePanic"
proof -
  have "parse_devices ''[null]'' = DecodePanic" by code_simp
  then show ?thesis by (simp add: headscale_response_def)
qed

end
