(* ===== verification/Telemetry.thy ===== *)
theory Telemetry
  imports Go_Strconv
begin

text \<open>
  \<open>internal/telemetry/metrics.go\<close>: the global counters, their atomic updates on 64-bit
  integers, and the compare-and-swap loop of \<open>TryClaimConnection\<close>. The operations are state
  transformers of a \<open>Metrics\<close> record; the loop is also given at the granularity of its atomic
  loads and swaps, as a step relation over any number of goroutines, from which the limit on
  concurrent connections follows. The locale \<open>slot_counter\<close> is what the accept loops rely on.
\<close>

subsection \<open>64-bit signed arithmetic\<close>

definition wrap64 :: "int \<Rightarrow> int" where
  "wrap64 i = (i + 2 ^ 63) mod 2 ^ 64 - 2 ^ 63"

lemma wrap64_id: "int64_range i \<Longrightarrow> wrap64 i = i"
  by (simp add: wrap64_def int64_range_def max_int64_def min_int64_def)

lemma wrap64_range: "int64_range (wrap64 i)"
  by (simp add: wrap64_def int64_range_def max_int64_def min_int64_def)

lemma wrap64_wrap64 [simp]: "wrap64 (wrap64 i) = wrap64 i"
  by (simp add: wrap64_id wrap64_range)

lemma wrap64_add_left: "wrap64 (wrap64 i + j) = wrap64 (i + j)"
proof -
  have "(wrap64 i + j + 2 ^ 63) mod 2 ^ 64 = ((i + 2 ^ 63) mod 2 ^ 64 + j) mod 2 ^ 64"
    by (simp add: wrap64_def algebra_simps)
  also have "\<dots> = (i + 2 ^ 63 + j) mod 2 ^ 64" by (simp add: mod_add_left_eq)
  also have "\<dots> = (i + j + 2 ^ 63) mod 2 ^ 64" by (simp add: algebra_simps)
  finally show ?thesis by (simp only: wrap64_def)
qed

subsection \<open>Counters\<close>

record Metrics =
  ActiveConnections :: int
  TotalConnections :: int
  TotalBytesTx :: int
  TotalBytesRx :: int
  TotalErrors :: int
  RejectedConns :: int

definition ResetMetrics :: Metrics where
  "ResetMetrics =
     \<lparr>ActiveConnections = 0, TotalConnections = 0, TotalBytesTx = 0, TotalBytesRx = 0,
      TotalErrors = 0, RejectedConns = 0\<rparr>"

definition GetMetrics :: "Metrics \<Rightarrow> Metrics" where
  "GetMetrics m =
     \<lparr>ActiveConnections = ActiveConnections m, TotalConnections = TotalConnections m,
      TotalBytesTx = TotalBytesTx m, TotalBytesRx = TotalBytesRx m,
      TotalErrors = TotalErrors m, RejectedConns = RejectedConns m\<rparr>"

definition AddActiveConnection :: "int \<Rightarrow> Metrics \<Rightarrow> Metrics" where
  "AddActiveConnection n m = m\<lparr>ActiveConnections := wrap64 (ActiveConnections m + n)\<rparr>"

definition AddTotalConnection :: "Metrics \<Rightarrow> Metrics" where
  "AddTotalConnection m = m\<lparr>TotalConnections := wrap64 (TotalConnections m + 1)\<rparr>"

definition AddBytesTx :: "int \<Rightarrow> Metrics \<Rightarrow> Metrics" where
  "AddBytesTx n m = m\<lparr>TotalBytesTx := wrap64 (TotalBytesTx m + n)\<rparr>"

definition AddBytesRx :: "int \<Rightarrow> Metrics \<Rightarrow> Metrics" where
  "AddBytesRx n m = m\<lparr>TotalBytesRx := wrap64 (TotalBytesRx m + n)\<rparr>"

definition AddError :: "Metrics \<Rightarrow> Metrics" where
  "AddError m = m\<lparr>TotalErrors := wrap64 (TotalErrors m + 1)\<rparr>"

definition AddRejectedConn :: "Metrics \<Rightarrow> Metrics" where
  "AddRejectedConn m = m\<lparr>RejectedConns := wrap64 (RejectedConns m + 1)\<rparr>"

text \<open>
  One uninterrupted run of \<open>TryClaimConnection\<close>: the swap cannot be lost when no other
  goroutine runs between the load and the swap.
\<close>

definition TryClaimConnection :: "int \<Rightarrow> Metrics \<Rightarrow> bool \<times> Metrics" where
  "TryClaimConnection maxConns m =
     (let cur = ActiveConnections m in
      if maxConns \<le> cur then (False, m)
      else (True, m\<lparr>ActiveConnections := wrap64 (cur + 1)\<rparr>))"

lemmas metrics_defs =
  ResetMetrics_def GetMetrics_def AddActiveConnection_def AddTotalConnection_def AddBytesTx_def
  AddBytesRx_def AddError_def AddRejectedConn_def TryClaimConnection_def

lemma GetMetrics_snapshot: "GetMetrics m = m"
  by (simp add: GetMetrics_def)

subsection \<open>The interface the accept loops use\<close>

locale slot_counter =
  fixes claim :: "'m \<Rightarrow> bool \<times> 'm"
    and release :: "'m \<Rightarrow> 'm"
    and inuse :: "'m \<Rightarrow> int"
    and limit :: int
    and invar :: "'m \<Rightarrow> bool"
  assumes claim_granted:
      "invar m \<Longrightarrow> inuse m < limit \<Longrightarrow> fst (claim m) \<and> inuse (snd (claim m)) = inuse m + 1"
    and claim_refused: "limit \<le> inuse m \<Longrightarrow> claim m = (False, m)"
    and release_slot: "invar m \<Longrightarrow> 0 < inuse m \<Longrightarrow> inuse (release m) = inuse m - 1"
    and invar_nonneg: "invar m \<Longrightarrow> 0 \<le> inuse m"
    and claim_invar: "invar m \<Longrightarrow> invar (snd (claim m))"
    and release_invar: "invar m \<Longrightarrow> 0 < inuse m \<Longrightarrow> invar (release m)"
begin

lemma claim_iff: "invar m \<Longrightarrow> fst (claim m) \<longleftrightarrow> inuse m < limit"
  using claim_granted claim_refused by (metis fst_conv linorder_not_le)

lemma claim_inuse: "invar m \<Longrightarrow> inuse (snd (claim m)) = inuse m + (if fst (claim m) then 1 else 0)"
  using claim_granted [of m] claim_refused [of m] by (cases "inuse m < limit") auto

lemma claim_within_limit:
  "invar m \<Longrightarrow> inuse m \<le> max 0 limit \<Longrightarrow> inuse (snd (claim m)) \<le> max 0 limit"
  using claim_granted [of m] claim_refused [of m] by (cases "inuse m < limit") auto

lemma refused_unchanged: "invar m \<Longrightarrow> \<not> fst (claim m) \<Longrightarrow> snd (claim m) = m"
  using claim_granted [of m] claim_refused [of m] by (cases "inuse m < limit") auto

end

definition metrics_invar :: "Metrics \<Rightarrow> bool" where
  "metrics_invar m \<longleftrightarrow> 0 \<le> ActiveConnections m \<and> ActiveConnections m \<le> max_int64"

lemma sint64_range: "int64_range (sint (w :: 64 word))"
  using sint_range_size [of w] sint_ge [of w] sint_lt [of w]
  by (simp add: int64_range_def max_int64_def min_int64_def)

text \<open>The limit is an \<open>int64\<close>, so it is the signed value of a 64-bit word.\<close>

interpretation slots: slot_counter
  "TryClaimConnection (sint (w :: 64 word))" "AddActiveConnection (- 1)" ActiveConnections
  "sint w" metrics_invar for w
proof (unfold_locales, goal_cases)
  case (1 m)
  then show ?case
    using sint64_range [of w]
    by (simp add: metrics_defs metrics_invar_def wrap64_id int64_range_def min_int64_def)
next
  case (2 m)
  then show ?case by (simp add: TryClaimConnection_def)
next
  case (3 m)
  then show ?case
    by (simp add: metrics_defs metrics_invar_def wrap64_id int64_range_def min_int64_def)
next
  case (4 m)
  then show ?case by (simp add: metrics_invar_def)
next
  case (5 m)
  then show ?case
    using sint64_range [of w]
    by (auto simp: metrics_defs metrics_invar_def wrap64_id int64_range_def min_int64_def Let_def)
next
  case (6 m)
  then show ?case
    by (simp add: metrics_defs metrics_invar_def wrap64_id int64_range_def min_int64_def)
qed

subsection \<open>The compare-and-swap loop, one atomic access per step\<close>

datatype claim_pc = ClaimLoad | ClaimSwap int | Claimed | ClaimRefused | Released

record cas_state =
  cas_active :: int
  cas_pcs :: "nat \<Rightarrow> claim_pc"

inductive cas_step :: "int \<Rightarrow> cas_state \<Rightarrow> cas_state \<Rightarrow> bool" for maxConns :: int where
  load_refuse: "cas_pcs s i = ClaimLoad \<Longrightarrow> maxConns \<le> cas_active s \<Longrightarrow>
     cas_step maxConns s (s\<lparr>cas_pcs := (cas_pcs s)(i := ClaimRefused)\<rparr>)"
| load_go: "cas_pcs s i = ClaimLoad \<Longrightarrow> cas_active s < maxConns \<Longrightarrow>
     cas_step maxConns s (s\<lparr>cas_pcs := (cas_pcs s)(i := ClaimSwap (cas_active s))\<rparr>)"
| swap_won: "cas_pcs s i = ClaimSwap cur \<Longrightarrow> cas_active s = cur \<Longrightarrow>
     cas_step maxConns s
       (s\<lparr>cas_active := wrap64 (cur + 1), cas_pcs := (cas_pcs s)(i := Claimed)\<rparr>)"
| swap_lost: "cas_pcs s i = ClaimSwap cur \<Longrightarrow> cas_active s \<noteq> cur \<Longrightarrow>
     cas_step maxConns s (s\<lparr>cas_pcs := (cas_pcs s)(i := ClaimLoad)\<rparr>)"
| release: "cas_pcs s i = Claimed \<Longrightarrow>
     cas_step maxConns s
       (s\<lparr>cas_active := wrap64 (cas_active s - 1), cas_pcs := (cas_pcs s)(i := Released)\<rparr>)"

definition cas_init :: cas_state where
  "cas_init = \<lparr>cas_active = 0, cas_pcs = (\<lambda>_. ClaimLoad)\<rparr>"

inductive cas_reachable :: "int \<Rightarrow> cas_state \<Rightarrow> bool" for maxConns :: int where
  cas_start: "cas_reachable maxConns cas_init"
| cas_next: "cas_reachable maxConns s \<Longrightarrow> cas_step maxConns s t \<Longrightarrow> cas_reachable maxConns t"

definition holders :: "cas_state \<Rightarrow> nat set" where
  "holders s = {i. cas_pcs s i = Claimed}"

definition cas_inv :: "int \<Rightarrow> cas_state \<Rightarrow> bool" where
  "cas_inv maxConns s \<longleftrightarrow>
     finite (holders s) \<and> cas_active s = int (card (holders s)) \<and>
     cas_active s \<le> max 0 maxConns \<and>
     (\<forall>i cur. cas_pcs s i = ClaimSwap cur \<longrightarrow> cur < maxConns)"

lemma holders_upd [simp]:
  "holders (s\<lparr>cas_pcs := (cas_pcs s)(i := pc)\<rparr>) =
     (if pc = Claimed then insert i (holders s) else holders s - {i})"
  "holders (s\<lparr>cas_active := a, cas_pcs := (cas_pcs s)(i := pc)\<rparr>) =
     (if pc = Claimed then insert i (holders s) else holders s - {i})"
  by (auto simp: holders_def)

lemma in_holders [simp]: "i \<in> holders s \<longleftrightarrow> cas_pcs s i = Claimed"
  by (simp add: holders_def)

lemma cas_step_inv:
  assumes "cas_step maxConns s t" and "cas_inv maxConns s" and "int64_range maxConns"
  shows "cas_inv maxConns t"
  using assms(1)
proof cases
  case (load_refuse i)
  then show ?thesis using assms(2) by (auto simp: cas_inv_def)
next
  case (load_go i)
  then show ?thesis using assms(2) by (auto simp: cas_inv_def)
next
  case (swap_won i cur)
  have f: "finite (holders s)" and c: "cur = int (card (holders s))" and b: "cur < maxConns"
    using assms(2) swap_won by (auto simp: cas_inv_def)
  have "wrap64 (cur + 1) = cur + 1"
    using assms(3) b c by (intro wrap64_id) (simp add: int64_range_def min_int64_def)
  moreover have "i \<notin> holders s" using swap_won by simp
  then have "int (card (insert i (holders s))) = cur + 1" using f c by simp
  moreover have "cur + 1 \<le> max 0 maxConns" using b by simp
  ultimately show ?thesis
    using assms(2) swap_won c by (auto simp: cas_inv_def)
next
  case (swap_lost i cur)
  then show ?thesis using assms(2) by (auto simp: cas_inv_def)
next
  case (release i)
  have f: "finite (holders s)" and c: "cas_active s = int (card (holders s))"
    and b: "cas_active s \<le> max 0 maxConns"
    using assms(2) by (auto simp: cas_inv_def)
  have i: "i \<in> holders s" using release by simp
  then have pos: "0 < card (holders s)" using f by (auto simp: card_gt_0_iff)
  have "wrap64 (cas_active s - 1) = cas_active s - 1"
    using assms(3) b c pos
    by (intro wrap64_id) (auto simp: int64_range_def min_int64_def max_int64_def)
  moreover have "int (card (holders s - {i})) = cas_active s - 1"
    using i f c pos by (simp add: card_Diff_singleton)
  ultimately show ?thesis
    using assms(2) release by (auto simp: cas_inv_def)
qed

lemma cas_reachable_inv:
  assumes "int64_range maxConns"
  shows "cas_reachable maxConns s \<Longrightarrow> cas_inv maxConns s"
proof (induction rule: cas_reachable.induct)
  case cas_start
  show ?case by (simp add: cas_inv_def cas_init_def holders_def)
next
  case (cas_next s t)
  then show ?case using cas_step_inv assms by blast
qed

lemmas cas_step_intros = cas_step.load_refuse cas_step.load_go cas_step.swap_won
  cas_step.swap_lost cas_step.release

inductive_cases cas_step_E: "cas_step maxConns s t"

text \<open>
  C5: however the goroutines interleave their loads and swaps, the number of connections
  that hold a slot never exceeds the configured limit, and the global counter is exactly
  that number.
\<close>

theorem cas_claims_bounded:
  assumes "int64_range maxConns" and "cas_reachable maxConns s"
  shows "finite (holders s) \<and> cas_active s = int (card (holders s)) \<and>
    int (card (holders s)) \<le> max 0 maxConns"
  using cas_reachable_inv [OF assms] by (auto simp: cas_inv_def)

lemma cas_example_reachable:
  "cas_reachable 1 \<lparr>cas_active = 1, cas_pcs = (\<lambda>_. ClaimLoad)(3 := Claimed)\<rparr>"
proof -
  have "cas_reachable 1 (cas_init\<lparr>cas_pcs := (cas_pcs cas_init)(3 := ClaimSwap (cas_active cas_init))\<rparr>)"
    by (rule cas_next [OF cas_start]) (rule cas_step.load_go, simp_all add: cas_init_def)
  moreover have "cas_step 1
      (cas_init\<lparr>cas_pcs := (cas_pcs cas_init)(3 := ClaimSwap (cas_active cas_init))\<rparr>)
      \<lparr>cas_active = 1, cas_pcs = (\<lambda>_. ClaimLoad)(3 := Claimed)\<rparr>"
    using cas_step.swap_won [of
        "cas_init\<lparr>cas_pcs := (cas_pcs cas_init)(3 := ClaimSwap (cas_active cas_init))\<rparr>" 3 0 1]
    by (simp add: cas_init_def wrap64_def)
  ultimately show ?thesis by (rule cas_next)
qed

theorem cas_claims_bounded_witness:
  "holders \<lparr>cas_active = 1, cas_pcs = (\<lambda>_. ClaimLoad)(3 := Claimed)\<rparr> = {3} \<and>
   int (card (holders \<lparr>cas_active = 1, cas_pcs = (\<lambda>_. ClaimLoad)(3 := Claimed)\<rparr>)) \<le> max 0 1"
proof -
  have r: "int64_range 1" by (simp add: int64_range_def max_int64_def min_int64_def)
  have "holders \<lparr>cas_active = 1, cas_pcs = (\<lambda>_. ClaimLoad)(3 := Claimed)\<rparr> = {3}"
    by (auto simp: holders_def)
  then show ?thesis using cas_claims_bounded [OF r cas_example_reachable] by simp
qed

text \<open>
  a goroutine that runs \<open>TryClaimConnection\<close> without interference returns after at most
  two atomic accesses, with the answer and the counter of the one-piece function; so that
  function is what the accept loops may be read against.
\<close>

lemma cas_solo_refines_claim:
  assumes "cas_pcs s i = ClaimLoad" and "ActiveConnections m = cas_active s"
  shows "\<exists>t. (cas_step maxConns s t \<or> (cas_step maxConns OO cas_step maxConns) s t) \<and>
    cas_pcs t = (cas_pcs s)(i := if fst (TryClaimConnection maxConns m) then Claimed else ClaimRefused) \<and>
    cas_active t = ActiveConnections (snd (TryClaimConnection maxConns m))"
proof (cases "maxConns \<le> cas_active s")
  case True
  then show ?thesis
    using cas_step.load_refuse [OF assms(1) True] assms(2)
    by (auto simp: TryClaimConnection_def)
next
  case False
  define u where "u = s\<lparr>cas_pcs := (cas_pcs s)(i := ClaimSwap (cas_active s))\<rparr>"
  define t where "t = u\<lparr>cas_active := wrap64 (cas_active s + 1), cas_pcs := (cas_pcs u)(i := Claimed)\<rparr>"
  have "cas_step maxConns s u"
    using cas_step.load_go [OF assms(1)] False by (simp add: u_def)
  moreover have "cas_step maxConns u t"
    unfolding t_def by (rule cas_step.swap_won) (simp_all add: u_def)
  ultimately show ?thesis
    using False assms(2) by (auto simp: TryClaimConnection_def t_def u_def intro!: exI [of _ t])
qed

end
