(* ===== verification/Health.thy ===== *)
theory Health
  imports Telemetry Go_Json
begin

text \<open>
  \<open>internal/health/health.go\<close> and \<open>cmd/cli/status.go\<close>: the status a bridge keeps, the responses of
  its health endpoint, and the command that reads them. The transport is a function from URLs to
  responses; the property joins both ends of it.
\<close>

subsection \<open>The status\<close>

text \<open>\<open>None\<close> is a reason that was never stored.\<close>

record TunnelStatus =
  ts_ready :: bool
  ts_reason :: "string option"

definition zero_status :: TunnelStatus where "zero_status = \<lparr>ts_ready = False, ts_reason = None\<rparr>"

text \<open>The atomic steps of a store, and the store as a whole.\<close>

definition store_reason :: "string \<Rightarrow> TunnelStatus \<Rightarrow> TunnelStatus" where
  "store_reason reason s = s\<lparr>ts_reason := Some reason\<rparr>"

definition store_ready :: "bool \<Rightarrow> TunnelStatus \<Rightarrow> TunnelStatus" where
  "store_ready ready s = s\<lparr>ts_ready := ready\<rparr>"

definition status_Store :: "bool \<Rightarrow> string \<Rightarrow> TunnelStatus \<Rightarrow> TunnelStatus" where
  "status_Store ready reason s = store_ready ready (store_reason reason s)"

definition status_Load :: "TunnelStatus \<Rightarrow> bool \<times> string" where
  "status_Load s = (ts_ready s, case ts_reason s of Some r \<Rightarrow> r | None \<Rightarrow> [])"

definition MarkReady :: "TunnelStatus \<Rightarrow> TunnelStatus" where
  "MarkReady s = status_Store True [] s"

subsection \<open>Responses\<close>

record ServiceState =
  ss_Kind :: string
  ss_Port :: int
  ss_Published :: bool

record response =
  rs_code :: nat
  rs_type :: string
  rs_body :: string

definition statusField :: string where "statusField = ''status''"

definition Metrics_json :: "Metrics \<Rightarrow> json" where
  "Metrics_json m =
     JObj [(''active_connections'', JNum (Itoa (ActiveConnections m))), (''total_connections'', JNum (Itoa (TotalConnections m))),
           (''total_bytes_tx'', JNum (Itoa (TotalBytesTx m))), (''total_bytes_rx'', JNum (Itoa (TotalBytesRx m))),
           (''total_errors'', JNum (Itoa (TotalErrors m))), (''rejected_connections'', JNum (Itoa (RejectedConns m)))]"

definition ServiceState_json :: "ServiceState \<Rightarrow> json" where
  "ServiceState_json s = JObj [(''kind'', JStr (ss_Kind s)), (''port'', JNum (Itoa (ss_Port s))), (''published'', JBool (ss_Published s))]"

text \<open>A map is encoded with its keys in order. A nil slice of services is \<open>null\<close>.\<close>

definition ready_body :: "bool \<Rightarrow> string \<Rightarrow> (string \<times> ServiceState list option) option \<Rightarrow> json" where
  "ready_body ready reason report =
     JObj ((case report of Some (node, _) \<Rightarrow> [(''node'', JStr node)] | None \<Rightarrow> []) @
           (if \<not> ready \<and> reason \<noteq> [] then [(''reason'', JStr reason)] else []) @
           (case report of Some (_, svcs) \<Rightarrow>
              [(''services'', case svcs of None \<Rightarrow> JNull | Some l \<Rightarrow> JArr (map ServiceState_json l))] | None \<Rightarrow> []) @
           [(statusField, JStr (if ready then ''ok'' else ''not_ready''))])"

definition encoded :: "json \<Rightarrow> string" where
  "encoded j = json_text j @ [CHR 10]"

definition health_Handler :: "TunnelStatus \<Rightarrow> (string \<times> ServiceState list option) option \<Rightarrow> Metrics \<Rightarrow> string \<Rightarrow> response option" where
  "health_Handler status report m path =
     (if path = ''/health/live'' then
        Some \<lparr>rs_code = 200, rs_type = ''application/json'', rs_body = encoded (JObj [(statusField, JStr ''ok'')])\<rparr>
      else if path = ''/health/ready'' then
        (case status_Load status of
           (ready, reason) \<Rightarrow>
             Some \<lparr>rs_code = (if ready then 200 else 503), rs_type = ''application/json'', rs_body = encoded (ready_body ready reason report)\<rparr>)
      else if path = ''/metrics'' then
        Some \<lparr>rs_code = 200, rs_type = ''application/json'', rs_body = encoded (Metrics_json (GetMetrics m))\<rparr>
      else None)"

subsection \<open>The status command\<close>

text \<open>\<open>Inl\<close> is a request that got no response; the body is \<open>None\<close> when reading it fails.\<close>

type_synonym http_get = "string \<Rightarrow> (string, nat \<times> string option) result"

record metricsResponse =
  mr_ActiveConnections :: int
  mr_TotalConnections :: int
  mr_TotalBytesTx :: int
  mr_TotalBytesRx :: int
  mr_TotalErrors :: int
  mr_RejectedConnections :: int

definition zero_metrics :: metricsResponse where
  "zero_metrics = \<lparr>mr_ActiveConnections = 0, mr_TotalConnections = 0, mr_TotalBytesTx = 0, mr_TotalBytesRx = 0, mr_TotalErrors = 0,
     mr_RejectedConnections = 0\<rparr>"

definition unmarshal_metrics :: "string \<Rightarrow> bool \<times> metricsResponse" where
  "unmarshal_metrics body =
     (case json_Parse body of
        None \<Rightarrow> (False, zero_metrics)
      | Some j \<Rightarrow>
          (let fields = map (\<lambda>name. json_field as_int name j 0)
             [''active_connections'', ''total_connections'', ''total_bytes_tx'', ''total_bytes_rx'', ''total_errors'', ''rejected_connections''];
             v = map snd fields
           in (list_all fst fields,
               \<lparr>mr_ActiveConnections = v ! 0, mr_TotalConnections = v ! 1, mr_TotalBytesTx = v ! 2, mr_TotalBytesRx = v ! 3,
                mr_TotalErrors = v ! 4, mr_RejectedConnections = v ! 5\<rparr>)))"

definition health_url :: "string \<Rightarrow> string \<Rightarrow> string" where
  "health_url addr path = ''http://'' @ addr @ path"

datatype fetch_error = GetFailed string | ReadFailed | BadMetrics

definition fetchHealth :: "http_get \<Rightarrow> string \<Rightarrow> bool \<times> bool \<times> metricsResponse \<times> fetch_error option" where
  "fetchHealth get addr =
     (case get (health_url addr ''/health/live'') of
        Inl e \<Rightarrow> (False, False, zero_metrics, Some (GetFailed e))
      | Inr (code1, _) \<Rightarrow>
          (let live = (code1 = 200) in
           case get (health_url addr ''/health/ready'') of
             Inl e \<Rightarrow> (live, False, zero_metrics, Some (GetFailed e))
           | Inr (code2, _) \<Rightarrow>
               (let ready = (code2 = 200) in
                case get (health_url addr ''/metrics'') of
                  Inl e \<Rightarrow> (live, ready, zero_metrics, Some (GetFailed e))
                | Inr (_, None) \<Rightarrow> (live, ready, zero_metrics, Some ReadFailed)
                | Inr (_, Some body) \<Rightarrow>
                    (case unmarshal_metrics body of (ok, m) \<Rightarrow> (live, ready, m, if ok then None else Some BadMetrics)))))"

definition metricsResponse_json :: "metricsResponse \<Rightarrow> json" where
  "metricsResponse_json m =
     JObj [(''active_connections'', JNum (Itoa (mr_ActiveConnections m))), (''total_connections'', JNum (Itoa (mr_TotalConnections m))),
           (''total_bytes_tx'', JNum (Itoa (mr_TotalBytesTx m))), (''total_bytes_rx'', JNum (Itoa (mr_TotalBytesRx m))),
           (''total_errors'', JNum (Itoa (mr_TotalErrors m))), (''rejected_connections'', JNum (Itoa (mr_RejectedConnections m)))]"

subsubsection \<open>Printing\<close>

text \<open>\<open>float64\<close> of an integer: 53 bits, ties to even; \<open>%.1f\<close> of it over a power of two.\<close>

definition div_even :: "nat \<Rightarrow> nat \<Rightarrow> nat" where
  "div_even a b =
     (let q = a div b; r = a mod b in if b < 2 * r \<or> 2 * r = b \<and> odd q then q + 1 else q)"

function float53 :: "nat \<Rightarrow> nat \<Rightarrow> nat" where
  "float53 n k = (if n div k < 2 ^ 53 \<or> k = 0 then div_even n k * k else float53 n (2 * k))"
  by pat_completeness auto
termination
proof (relation "measure (\<lambda>(n, k). n div k)", goal_cases)
  case (2 n k)
  then have "0 < k" "0 < n div k" by (auto intro: gr0I)
  moreover have "n div (2 * k) = n div k div 2" by (simp add: div_mult2_eq mult.commute)
  ultimately show ?case by simp
qed simp

definition tenths :: "nat \<Rightarrow> nat \<Rightarrow> string" where
  "tenths n unit = (let t = div_even (float53 n 1 * 10) unit in itoa_nat (t div 10) @ ''.'' @ itoa_nat (t mod 10))"

definition formatBytes :: "int \<Rightarrow> string" where
  "formatBytes n =
     (let unit = 1024 in
      if n < unit then Itoa n @ '' B''
      else if n < unit * unit then tenths (nat n) 1024 @ '' KiB''
      else if n < unit * unit * unit then tenths (nat n) (1024 * 1024) @ '' MiB''
      else tenths (nat n) (1024 * 1024 * 1024) @ '' GiB'')"

definition pad_right :: "nat \<Rightarrow> string \<Rightarrow> string" where
  "pad_right w s = s @ replicate (w - length s) (CHR '' '')"

definition status_rule :: string where "status_rule = ''  +---------------------------------------+''"

definition summary_row :: "string \<Rightarrow> string \<Rightarrow> string" where
  "summary_row label v = ''  |  '' @ label @ pad_right 18 v @ ''  |''"

definition printSummary :: "bool \<Rightarrow> bool \<Rightarrow> metricsResponse \<Rightarrow> string list" where
  "printSummary live ready m =
     [status_rule, ''  |         TS-BRIDGE STATUS '' @ pad_right 12 [] @ ''  |'', status_rule,
      (if live \<and> ready then ''  |  Status:  RUNNING                    |''
       else if live then ''  |  Status:  RUNNING (not ready)        |''
       else ''  |  Status:  NOT RUNNING                |''),
      status_rule,
      summary_row ''Active connections:  '' (Itoa (mr_ActiveConnections m)),
      summary_row ''Total connections:   '' (Itoa (mr_TotalConnections m)),
      summary_row ''Bytes sent (tx):     '' (formatBytes (mr_TotalBytesTx m)),
      summary_row ''Bytes received (rx): '' (formatBytes (mr_TotalBytesRx m)),
      summary_row ''Errors:              '' (Itoa (mr_TotalErrors m)),
      summary_row ''Rejected:            '' (Itoa (mr_RejectedConnections m)),
      status_rule]"

text \<open>What goes to standard output, line by line; the note on standard error is the second part.\<close>

definition reportNoAnswer :: "string \<Rightarrow> bool \<Rightarrow> string list \<times> string list" where
  "reportNoAnswer addr jsonOut =
     ((if jsonOut then [json_text (JObj [(''running'', JBool False), (''addr'', JStr addr)])] else []),
      [''No health endpoint answered at '' @ addr @ '': the bridge is not running, or connect was started without --health-addr / TS_HEALTH_ADDR''])"

definition runStatusWithWriter :: "http_get \<Rightarrow> string \<Rightarrow> bool \<Rightarrow> string list \<times> string list" where
  "runStatusWithWriter get addr jsonOut =
     (case fetchHealth get addr of
        (live, ready, m, err) \<Rightarrow>
          if err \<noteq> None then reportNoAnswer addr jsonOut
          else if jsonOut then ([json_indent 0 (metricsResponse_json m)], [])
          else (printSummary live ready m, []))"

definition clearScreen :: string where "clearScreen = [CHR 0x1B] @ ''[2J'' @ [CHR 0x1B] @ ''[H''"

definition displayOnce :: "string \<Rightarrow> http_get \<Rightarrow> string \<Rightarrow> bool \<Rightarrow> string list \<times> bool" where
  "displayOnce goos get addr jsonOut =
     (let cls = (if \<not> jsonOut \<and> goos \<noteq> ''windows'' then [clearScreen] else []) in
      case fetchHealth get addr of
        (live, ready, m, err) \<Rightarrow>
          if err \<noteq> None then (cls, False)
          else if jsonOut then (cls @ [json_indent 0 (metricsResponse_json m)], True)
          else (cls @ printSummary live ready m, True))"

definition watch_tick :: "string \<Rightarrow> http_get \<Rightarrow> string \<Rightarrow> bool \<Rightarrow> string list \<times> string list" where
  "watch_tick goos get addr jsonOut =
     (case displayOnce goos get addr jsonOut of
        (out, True) \<Rightarrow> (out, [])
      | (out, False) \<Rightarrow> (case reportNoAnswer addr jsonOut of (o1, e1) \<Rightarrow> (out @ o1, e1)))"

text \<open>The ticks of a watch, each with the transport of its moment, until the signal ends it.\<close>

fun runWatchLoop :: "string \<Rightarrow> string \<Rightarrow> bool \<Rightarrow> http_get list \<Rightarrow> string list \<times> string list" where
  "runWatchLoop goos addr jsonOut [] = ([[]], [''Exiting watch mode''])"
| "runWatchLoop goos addr jsonOut (get # ticks) =
     (case watch_tick goos get addr jsonOut of
        (out1, err1) \<Rightarrow> (case runWatchLoop goos addr jsonOut ticks of (out2, err2) \<Rightarrow> (out1 @ out2, err1 @ err2)))"

subsection \<open>Both ends\<close>

definition serve_get :: "string \<Rightarrow> (string \<Rightarrow> response option) \<Rightarrow> http_get" where
  "serve_get addr handler url =
     (let base = ''http://'' @ addr in
      if HasPrefix url base then
        (case handler (drop (length base) url) of
           Some r \<Rightarrow> Inr (rs_code r, Some (rs_body r))
         | None \<Rightarrow> Inr (404, Some ''404 page not found''))
      else Inl ''connection refused'')"

definition counters :: "Metrics \<Rightarrow> metricsResponse" where
  "counters m = \<lparr>mr_ActiveConnections = ActiveConnections m, mr_TotalConnections = TotalConnections m, mr_TotalBytesTx = TotalBytesTx m,
     mr_TotalBytesRx = TotalBytesRx m, mr_TotalErrors = TotalErrors m, mr_RejectedConnections = RejectedConns m\<rparr>"

definition metrics_int64 :: "Metrics \<Rightarrow> bool" where
  "metrics_int64 m \<longleftrightarrow> int64_range (ActiveConnections m) \<and> int64_range (TotalConnections m) \<and> int64_range (TotalBytesTx m) \<and>
     int64_range (TotalBytesRx m) \<and> int64_range (TotalErrors m) \<and> int64_range (RejectedConns m)"

lemma metrics_names:
  "fold_name ''active_connections'' = ''active_connections''" "fold_name ''total_connections'' = ''total_connections''"
  "fold_name ''total_bytes_tx'' = ''total_bytes_tx''" "fold_name ''total_bytes_rx'' = ''total_bytes_rx''"
  "fold_name ''total_errors'' = ''total_errors''" "fold_name ''rejected_connections'' = ''rejected_connections''"
  by code_simp+

lemma encoded_parsed: "json_ok maxNestingDepth j \<Longrightarrow> json_Parse (encoded j) = Some j"
  unfolding encoded_def by (rule json_Parse_text) (auto simp: json_space_def)

lemma unmarshal_Metrics:
  assumes "metrics_int64 m"
  shows "unmarshal_metrics (encoded (Metrics_json m)) = (True, counters m)"
proof -
  have "json_ok maxNestingDepth (Metrics_json m)" by (auto simp: Metrics_json_def ascii_def maxNestingDepth_def)
  note p = encoded_parsed [OF this]
  have f: "json_field as_int ''active_connections'' (Metrics_json m) 0 = (True, ActiveConnections m)"
    "json_field as_int ''total_connections'' (Metrics_json m) 0 = (True, TotalConnections m)"
    "json_field as_int ''total_bytes_tx'' (Metrics_json m) 0 = (True, TotalBytesTx m)"
    "json_field as_int ''total_bytes_rx'' (Metrics_json m) 0 = (True, TotalBytesRx m)"
    "json_field as_int ''total_errors'' (Metrics_json m) 0 = (True, TotalErrors m)"
    "json_field as_int ''rejected_connections'' (Metrics_json m) 0 = (True, RejectedConns m)"
    using assms by (simp_all add: metrics_int64_def json_field_def Metrics_json_def metrics_names as_int_def Atoi_Itoa del: fold_name.simps)
  show ?thesis unfolding unmarshal_metrics_def p by (simp add: f counters_def)
qed

text \<open>
  \<open>ts-bridge status\<close> shows what the bridge counted. Asking the health endpoint of a bridge
  gives live, the readiness the bridge stored last, and exactly its counters; the JSON that
  \<open>status --json\<close> prints is that of the same counters.
\<close>

lemma status_reads_health:
  assumes "metrics_int64 m"
  shows "fetchHealth (serve_get addr (health_Handler status report m)) addr = (True, ts_ready status, counters m, None) \<and>
    runStatusWithWriter (serve_get addr (health_Handler status report m)) addr True = ([json_indent 0 (Metrics_json m)], [])"
proof -
  have g: "serve_get addr h (health_url addr path) =
      (case h path of Some r \<Rightarrow> Inr (rs_code r, Some (rs_body r)) | None \<Rightarrow> Inr (404, Some ''404 page not found''))" for h path
    by (simp add: serve_get_def health_url_def HasPrefix_iff)
  have "GetMetrics m = m" by (simp add: GetMetrics_def)
  then have "fetchHealth (serve_get addr (health_Handler status report m)) addr = (True, ts_ready status, counters m, None)"
    using unmarshal_Metrics [OF assms]
    by (simp add: fetchHealth_def g health_Handler_def status_Load_def Let_def)
  then show ?thesis
    by (simp add: runStatusWithWriter_def metricsResponse_json_def Metrics_json_def counters_def)
qed

end
