(* ===== verification/Firewall_Rules.thy ===== *)
theory Firewall_Rules
  imports Go_Net
begin

text \<open>
  The rule readers of \<open>internal/host/linux_steps.go\<close>: what \<open>ufw show added\<close> and
  \<open>iptables -S\<close> say about one TCP port. The texts are what the tools print; every function here
  is a pure function of the text.
\<close>

definition NL :: char where "NL = CHR 10"

definition slices_Index :: "string list \<Rightarrow> string \<Rightarrow> nat option" where
  "slices_Index f w = index_of w f"

definition next_is :: "string list \<Rightarrow> nat \<Rightarrow> (string \<Rightarrow> bool) \<Rightarrow> bool" where
  "next_is f i P \<longleftrightarrow> i + 1 < length f \<and> P (f ! (i + 1))"

subsection \<open>Ports\<close>

definition port_item_has :: "string \<Rightarrow> int \<Rightarrow> bool" where
  "port_item_has p port =
     (case cut CHR '':'' p of
        (lo, hi, isRange) \<Rightarrow>
          (case (Atoi lo, Atoi (if isRange then hi else lo)) of
             (Some a, Some b) \<Rightarrow> a \<le> port \<and> port \<le> b
           | _ \<Rightarrow> False))"

definition portListHas :: "string \<Rightarrow> int \<Rightarrow> bool" where
  "portListHas list port = list_ex (\<lambda>p. port_item_has p port) (split_on CHR '','' list)"

datatype ruleState = ruleUnknown | ruleAbsent | rulePresent | ruleBlocked

subsection \<open>ufw\<close>

definition without_comment :: "string list \<Rightarrow> string list" where
  "without_comment f = (case slices_Index f ''comment'' of Some i \<Rightarrow> take i f | None \<Rightarrow> f)"

definition ufwProtoTCP :: "string list \<Rightarrow> bool" where
  "ufwProtoTCP f = (case slices_Index f ''proto'' of None \<Rightarrow> True | Some j \<Rightarrow> next_is f j (\<lambda>w. w = ''tcp''))"

definition destPortIndex :: "string list \<Rightarrow> nat option" where
  "destPortIndex f =
     (case slices_Index f ''to'' of
        Some t \<Rightarrow> (case slices_Index (drop t f) ''port'' of Some i \<Rightarrow> Some (t + i) | None \<Rightarrow> None)
      | None \<Rightarrow> if ''from'' \<in> set f then None else slices_Index f ''port'')"

definition ufwRuleMatchesPort :: "string list \<Rightarrow> int \<Rightarrow> bool" where
  "ufwRuleMatchesPort f0 port =
     (let f1 = filter (\<lambda>w. \<not> (w = ''log'' \<or> w = ''log-all'')) (without_comment f0);
          f = (if length f1 = 2 \<and> f1 ! 0 = ''in'' then drop 1 f1 else f1) in
      if length f = 1 then
        (case cut CHR ''/'' (f ! 0) of
           (ports, proto, _) \<Rightarrow> (proto = [] \<or> proto = ''tcp'') \<and> portListHas ports port)
      else (case destPortIndex f of
              None \<Rightarrow> ''port'' \<notin> set f \<and> ''app'' \<notin> set f \<and> ufwProtoTCP f
            | Some i \<Rightarrow> next_is f i (\<lambda>ports. portListHas ports port) \<and> ufwProtoTCP f))"

definition ufwScoped :: "string list \<Rightarrow> bool" where
  "ufwScoped f =
     (if ''from'' \<in> set f \<or> ''on'' \<in> set f then True
      else (case slices_Index f ''to'' of None \<Rightarrow> False | Some t \<Rightarrow> next_is f t (\<lambda>w. w \<noteq> ''any'')))"

text \<open>What one line decides: \<open>None\<close> is the \<open>continue\<close> of the loop.\<close>

definition ufw_line :: "string \<Rightarrow> int \<Rightarrow> (ruleState \<times> string) option" where
  "ufw_line line port =
     (let f = without_comment (Fields line) in
      if length f < 3 \<or> f ! 0 \<noteq> ''ufw'' \<or> ''out'' \<in> set f \<or> \<not> ufwRuleMatchesPort (drop 2 f) port then None
      else if f ! 1 = ''allow'' then Some (rulePresent, [])
      else if (f ! 1 = ''deny'' \<or> f ! 1 = ''reject'') \<and> \<not> ufwScoped f then Some (ruleBlocked, TrimSpace line)
      else None)"

fun first_decision :: "('a \<Rightarrow> (ruleState \<times> string) option) \<Rightarrow> 'a list \<Rightarrow> ruleState \<times> string" where
  "first_decision decide [] = (ruleAbsent, [])"
| "first_decision decide (x # xs) = (case decide x of Some v \<Rightarrow> v | None \<Rightarrow> first_decision decide xs)"

definition ufwDecide :: "string \<Rightarrow> int \<Rightarrow> ruleState \<times> string" where
  "ufwDecide added port = first_decision (\<lambda>line. ufw_line line port) (split_on NL added)"

definition ufwAllows :: "string \<Rightarrow> int \<Rightarrow> bool" where
  "ufwAllows added port \<longleftrightarrow> fst (ufwDecide added port) = rulePresent"

subsection \<open>The text of iptables\<close>

fun unbreak :: "bool \<Rightarrow> bool \<Rightarrow> string \<Rightarrow> string \<times> bool" where
  "unbreak quoted escaped [] = ([], quoted)"
| "unbreak quoted escaped (c # cs) =
     (let (c', q', e') =
        (if escaped then (if c = NL then CHR '' '' else c, quoted, False)
         else if quoted \<and> c = CHR 0x5C then (c, quoted, True)
         else if c = CHR 0x22 then (c, \<not> quoted, False)
         else if quoted \<and> c = NL then (CHR '' '', quoted, False)
         else (c, quoted, False));
        (rest, open_end) = unbreak q' e' cs
      in (c' # rest, open_end))"

definition iptRules :: "string \<Rightarrow> string" where
  "iptRules out = (case unbreak False False out of (b, quoted) \<Rightarrow> if quoted then out else b)"

text \<open>
  The regular expression for a quoted value: what follows its opening quote up to the closing
  one, escaped characters skipped. \<open>blank_quoted\<close> replaces each match by an empty pair of quotes.
\<close>

fun skip_quoted :: "string \<Rightarrow> string option" where
  "skip_quoted [] = None"
| "skip_quoted (c # cs) =
     (if c = CHR 0x22 then Some cs
      else if c = CHR 0x5C then (case cs of [] \<Rightarrow> None | d # ds \<Rightarrow> if d = NL then None else skip_quoted ds)
      else skip_quoted cs)"

lemma skip_quoted_length: "skip_quoted s = Some t \<Longrightarrow> length t < length s"
  by (induction s rule: skip_quoted.induct) (fastforce split: if_splits list.splits)+

function blank_quoted :: "string \<Rightarrow> string" where
  "blank_quoted [] = []"
| "blank_quoted (c # cs) =
     (if c = CHR 0x22 then
        (case skip_quoted cs of
           Some rest \<Rightarrow> CHR 0x22 # CHR 0x22 # blank_quoted rest
         | None \<Rightarrow> c # blank_quoted cs)
      else c # blank_quoted cs)"
  by pat_completeness auto
termination by (relation "measure length") (auto dest: skip_quoted_length)

definition rule_words :: "string \<Rightarrow> string list" where
  "rule_words line = Fields (blank_quoted line)"

subsection \<open>One iptables rule\<close>

definition iptFlag :: "string list \<Rightarrow> string \<Rightarrow> string" where
  "iptFlag f flag =
     (case slices_Index f flag of
        None \<Rightarrow> []
      | Some i \<Rightarrow> if length f \<le> i + 1 \<or> (0 < i \<and> f ! (i - 1) = ''!'') then [] else f ! (i + 1))"

definition iptDestPortFlags :: "string list" where "iptDestPortFlags = [''--dport'', ''--dports'', ''--ports'']"
definition iptPortFlags :: "string list" where "iptPortFlags = iptDestPortFlags @ [''--sport'', ''--sports'']"
definition iptScopeFlags :: "string list" where "iptScopeFlags = [''-i'', ''-s'', ''-d'', ''!'']"

definition iptHasScope :: "string list \<Rightarrow> bool" where
  "iptHasScope f = list_ex (\<lambda>w. w \<in> set iptScopeFlags) f"

definition iptLoopbackScope :: "string \<Rightarrow> string \<Rightarrow> bool" where
  "iptLoopbackScope flag v =
     (if flag = ''-i'' then v = ''lo'' \<or> v = ''lo+''
      else if flag = ''-s'' \<or> flag = ''-d'' then
        (case ParsePrefix v of Some (ip, _) \<Rightarrow> IsLoopback ip | None \<Rightarrow> False)
      else False)"

definition iptLoopback :: "string list \<Rightarrow> bool" where
  "iptLoopback f =
     list_ex (\<lambda>i. (i = 0 \<or> f ! (i - 1) \<noteq> ''!'') \<and> iptLoopbackScope (f ! i) (f ! (i + 1))) [0..<length f - 1]"

definition iptPortCovers :: "string list \<Rightarrow> int \<Rightarrow> bool" where
  "iptPortCovers f port =
     (iptFlag f ''-p'' = ''tcp'' \<and> list_ex (\<lambda>flag. portListHas (iptFlag f flag) port) iptDestPortFlags)"

definition iptIf :: "bool \<Rightarrow> nat \<Rightarrow> nat" where
  "iptIf ok n = (if ok then n else 0)"

definition iptPortlessToken :: "string list \<Rightarrow> nat" where
  "iptPortlessToken f =
     (if length f < 2 then 0
      else
        let w = f ! 0; v = f ! 1 in
        if w = ''-j'' \<or> w = ''--reject-with'' then 2
        else if w = ''-p'' \<or> w = ''-m'' then iptIf (v = ''tcp'' \<or> (w = ''-m'' \<and> v = ''comment'')) 2
        else if w = ''--comment'' \<or> w = ''-i'' \<or> w = ''-s'' \<or> w = ''-d'' then 2
        else if w = ''--tcp-flags'' then iptIf (2 < length f \<and> v = ''FIN,SYN,RST,ACK'' \<and> f ! 2 = ''SYN'') 3
        else if w = ''!'' then iptIf (2 < length f \<and> iptLoopbackScope v (f ! 2)) 3
        else 0)"

function portless_from :: "string list \<Rightarrow> bool" where
  "portless_from f =
     (if f = [] then True
      else if iptPortlessToken f = 0 then False
      else portless_from (drop (iptPortlessToken f) f))"
  by pat_completeness auto
termination by (relation "measure length") auto

declare portless_from.simps [simp del]

definition iptPortlessCovers :: "string list \<Rightarrow> bool" where
  "iptPortlessCovers f = portless_from (drop 2 f)"

definition iptMatchesPort :: "string list \<Rightarrow> int \<Rightarrow> bool" where
  "iptMatchesPort f port =
     (if list_ex (\<lambda>w. w \<in> set iptPortFlags) f then iptPortCovers f port else iptPortlessCovers f)"

definition ipt_line :: "string \<Rightarrow> int \<Rightarrow> (ruleState \<times> string) option" where
  "ipt_line line port =
     (let f = rule_words line in
      if length f < 2 \<or> f ! 0 \<noteq> ''-A'' \<or> iptLoopback f \<or> \<not> iptMatchesPort f port then None
      else if iptFlag f ''-j'' = ''ACCEPT'' then Some (rulePresent, [])
      else if (iptFlag f ''-j'' = ''DROP'' \<or> iptFlag f ''-j'' = ''REJECT'') \<and> \<not> iptHasScope f then
        Some (ruleBlocked, TrimSpace line)
      else None)"

definition iptablesDecide :: "string \<Rightarrow> int \<Rightarrow> ruleState \<times> string" where
  "iptablesDecide rules port = first_decision (\<lambda>line. ipt_line line port) (split_on NL rules)"

definition iptablesCovers :: "string \<Rightarrow> int \<Rightarrow> bool" where
  "iptablesCovers rules port \<longleftrightarrow> fst (iptablesDecide rules port) = rulePresent"

subsection \<open>The chain of tailscaled, and the rules setup writes\<close>

definition tsInputChain :: string where "tsInputChain = ''ts-input''"
definition tsInputJump :: "string list" where "tsInputJump = [''-A'', ''INPUT'', ''-j'', tsInputChain]"
definition tailnetInterface :: string where "tailnetInterface = ''tailscale0''"

definition iptTSInputJump :: "string \<Rightarrow> bool" where
  "iptTSInputJump line \<longleftrightarrow> Fields line = tsInputJump"

definition qualified_jump :: "string \<Rightarrow> bool" where
  "qualified_jump line \<longleftrightarrow>
     (let f = rule_words line in
      \<not> iptTSInputJump line \<and> 2 \<le> length f \<and> f ! 0 = ''-A'' \<and>
      list_ex (\<lambda>i. (f ! i = ''-j'' \<or> f ! i = ''-g'') \<and> f ! (i + 1) = tsInputChain) [2..<length f - 1])"

definition iptBeforeQualifiedJump :: "string \<Rightarrow> string \<times> string" where
  "iptBeforeQualifiedJump input =
     (let ls = split_on NL input in
      case dropWhile (\<lambda>l. \<not> qualified_jump l) ls of
        [] \<Rightarrow> (input, [])
      | line # _ \<Rightarrow> (join [NL] (takeWhile (\<lambda>l. \<not> qualified_jump l) ls), TrimSpace line))"

definition iptInlineChain :: "string \<Rightarrow> string \<Rightarrow> string" where
  "iptInlineChain input chain =
     join [NL] (map (\<lambda>line. if iptTSInputJump line then TrimRight chain [NL] else line) (split_on NL input))"

definition iptablesAppend :: "int \<Rightarrow> string list" where
  "iptablesAppend port =
     [''-A'', ''INPUT'', ''-i'', tailnetInterface, ''-p'', ''tcp'', ''--dport'', Itoa port, ''-j'', ''ACCEPT'']"

definition iptablesLegacy :: "int \<Rightarrow> string list" where
  "iptablesLegacy port = [''-A'', ''INPUT'', ''-p'', ''tcp'', ''--dport'', Itoa port, ''-j'', ''ACCEPT'']"

definition iptablesDelete :: "int \<Rightarrow> string list" where
  "iptablesDelete port = ''-D'' # drop 1 (iptablesLegacy port)"

definition iptPrinted :: "string list \<Rightarrow> string list" where
  "iptPrinted rule =
     (let i = (case slices_Index rule ''-p'' of Some k \<Rightarrow> k + 2 | None \<Rightarrow> 1) in
      take i rule @ [''-m'', rule ! (i - 1)] @ drop i rule)"

definition is_legacy :: "int \<Rightarrow> string \<Rightarrow> bool" where
  "is_legacy port line \<longleftrightarrow> Fields line = iptPrinted (iptablesLegacy port)"

definition iptLegacyCopies :: "string \<Rightarrow> int \<Rightarrow> nat" where
  "iptLegacyCopies rules port = length (filter (is_legacy port) (split_on NL rules))"

definition iptWithoutLegacy :: "string \<Rightarrow> int \<Rightarrow> string" where
  "iptWithoutLegacy rules port = join [NL] (filter (\<lambda>l. \<not> is_legacy port l) (split_on NL rules))"

definition unscoped_line :: "int \<Rightarrow> string \<Rightarrow> bool" where
  "unscoped_line port line \<longleftrightarrow>
     (let f = rule_words line in
      1 < length f \<and> f ! 0 = ''-A'' \<and> f ! 1 = ''INPUT'' \<and> iptFlag f ''-j'' = ''ACCEPT'' \<and> iptPortCovers f port \<and>
      \<not> iptLoopback f \<and> \<not> iptHasScope f)"

definition iptUnscoped :: "string \<Rightarrow> int \<Rightarrow> string list" where
  "iptUnscoped input port = map TrimSpace (filter (unscoped_line port) (split_on NL input))"

definition iptAcceptOffTailnet :: "string \<Rightarrow> bool" where
  "iptAcceptOffTailnet line \<longleftrightarrow>
     (let f = rule_words line; i = iptFlag f ''-i'' in
      iptFlag f ''-j'' = ''ACCEPT'' \<and>
      ((i \<noteq> [] \<and> i \<noteq> tailnetInterface) \<or> iptFlag f ''-s'' \<noteq> [] \<or> iptFlag f ''-d'' \<noteq> []))"

definition iptUnscopedRead :: "string \<Rightarrow> string \<Rightarrow> int \<Rightarrow> ruleState \<Rightarrow> string list \<times> bool" where
  "iptUnscopedRead input walked port state =
     (let unscoped = iptUnscoped input port;
          foreign = filter (\<lambda>l. \<not> is_legacy port l) unscoped;
          rest = filter (\<lambda>l. \<not> (TrimSpace l \<in> set unscoped \<or> iptAcceptOffTailnet l)) (split_on NL walked)
      in (foreign, state = rulePresent \<and> iptablesCovers (join [NL] rest) port))"

end
