(* ===== verification/Bootstrap.thy ===== *)
theory Bootstrap
  imports Control_Url Go_Net
begin

text \<open>
  \<open>internal/bootstrapssh\<close>: the SSH endpoint of the bootstrap tunnel and the command line built
  from it (\<open>bootstrap.go\<close>), the environment the child inherits (\<open>env.go\<close>), the start of the
  tunnel with its readiness poll, and the HTTP proxy that carries control-plane requests only
  (\<open>control_proxy.go\<close>). What the operating system answers is a parameter of a run: whether ssh is
  found, whether the listener address is free, how each poll ends.
\<close>

subsection \<open>Endpoints\<close>

datatype endpoint_error =
    EndpointEmpty
  | EndpointDash
  | EndpointWhitespace
  | EndpointUser string
  | EndpointSplit addr_error
  | EndpointBrackets string
  | EndpointHost string
  | EndpointPort string
  | EndpointIPv6 string
  | SocksAddress addr_error
  | SocksNotLoopback string

definition splitSSHUser :: "string \<Rightarrow> (endpoint_error, string \<times> string) result" where
  "splitSSHUser ep =
     (case last_index CHR ''@'' ep of
        None \<Rightarrow> Inr ([], ep)
      | Some at \<Rightarrow>
          let user = take at ep; hostPort = drop (at + 1) ep in
          if user = [] \<or> HasPrefix user ''-'' then Inl (EndpointUser ep) else Inr (user, hostPort))"

definition splitSSHHostPort :: "string \<Rightarrow> string \<Rightarrow> (endpoint_error, string \<times> string) result" where
  "splitSSHHostPort ep hostPort =
     (if HasPrefix hostPort ''['' then
        (if Contains hostPort '']:'' then
           (case SplitHostPort hostPort of Inl e \<Rightarrow> Inl (EndpointSplit e) | Inr hp \<Rightarrow> Inr hp)
         else if HasSuffix hostPort '']'' then Inr (TrimSuffix (TrimPrefix hostPort ''['') '']'', [])
         else Inl (EndpointBrackets hostPort))
      else if count_list hostPort CHR '':'' = 0 then Inr (hostPort, [])
      else if count_list hostPort CHR '':'' = 1 then
        (case cut CHR '':'' hostPort of
           (host, port, _) \<Rightarrow> if port = [] then Inl (EndpointPort port) else Inr (host, port))
      else Inl (EndpointIPv6 ep))"

definition validateSSHPort :: "string \<Rightarrow> endpoint_error option" where
  "validateSSHPort port =
     (if port = [] then None
      else (case Atoi port of
              None \<Rightarrow> Some (EndpointPort port)
            | Some n \<Rightarrow> if n < 1 \<or> 65535 < n then Some (EndpointPort port) else None))"

definition ssh_blanks :: string where "ssh_blanks = [CHR '' '', CHR 9, CHR 13, CHR 10]"

definition parseEndpoint :: "string \<Rightarrow> (endpoint_error, string \<times> string \<times> string) result" where
  "parseEndpoint raw =
     (let ep = TrimSpace raw in
      if ep = [] then Inl EndpointEmpty
      else if HasPrefix ep ''-'' then Inl EndpointDash
      else if list_ex (\<lambda>c. c \<in> set ssh_blanks) ep then Inl EndpointWhitespace
      else (case splitSSHUser ep of
              Inl e \<Rightarrow> Inl e
            | Inr (user, hostPort) \<Rightarrow>
                (case splitSSHHostPort ep hostPort of
                   Inl e \<Rightarrow> Inl e
                 | Inr (host, port) \<Rightarrow>
                     if host = [] \<or> HasPrefix host ''-'' then Inl (EndpointHost ep)
                     else (case validateSSHPort port of
                             Some e \<Rightarrow> Inl e
                           | None \<Rightarrow> Inr (user, host, port)))))"

definition ValidateEndpoint :: "string \<Rightarrow> endpoint_error option" where
  "ValidateEndpoint ep = err_of (parseEndpoint ep)"

subsection \<open>The ssh command\<close>

definition ssh_options :: "string \<Rightarrow> string list" where
  "ssh_options socksAddr =
     [''-N'', ''-D'', socksAddr, ''-o'', ''ExitOnForwardFailure=yes'', ''-o'', ''ServerAliveInterval=15'',
      ''-o'', ''ServerAliveCountMax=3'']"

definition buildSSHArgs :: "string \<Rightarrow> string \<Rightarrow> (endpoint_error, string list) result" where
  "buildSSHArgs ep socksAddr =
     (case parseEndpoint ep of
        Inl e \<Rightarrow> Inl e
      | Inr (user, host, port) \<Rightarrow>
          (case SplitHostPort socksAddr of
             Inl e \<Rightarrow> Inl (SocksAddress e)
           | Inr (socksHost, _) \<Rightarrow>
               if \<not> loopback_host socksHost then Inl (SocksNotLoopback socksHost)
               else Inr (ssh_options socksAddr @
                         (if port \<noteq> [] then [''-p'', port] else []) @
                         (if user \<noteq> [] then [''-l'', user] else []) @ [host])))"

subsection \<open>The environment of the child\<close>

definition envSecretPrefixes :: "string list" where
  "envSecretPrefixes = [''TS_'', ''TAILSCALE_'', ''HEADSCALE_'']"

definition envSecretSuffixes :: "string list" where
  "envSecretSuffixes = [''KEY'', ''SECRET'', ''TOKEN'', ''PASSWORD'']"

definition hasAnyPrefix :: "string \<Rightarrow> string list \<Rightarrow> bool" where
  "hasAnyPrefix s ps = list_ex (HasPrefix s) ps"

definition hasAnySuffix :: "string \<Rightarrow> string list \<Rightarrow> bool" where
  "hasAnySuffix s ps = list_ex (HasSuffix s) ps"

definition isSecretName :: "string \<Rightarrow> bool" where
  "isSecretName name0 =
     (let name = ToUpper name0 in hasAnyPrefix name envSecretPrefixes \<and> hasAnySuffix name envSecretSuffixes)"

definition env_name :: "string \<Rightarrow> string" where
  "env_name kv = fst (cut CHR ''='' kv)"

fun withoutSecrets :: "string list \<Rightarrow> string list" where
  "withoutSecrets [] = []"
| "withoutSecrets (kv # environ) =
     (if \<not> isSecretName (env_name kv) then kv # withoutSecrets environ else withoutSecrets environ)"

subsection \<open>Starting the tunnel\<close>

datatype exit_status = ExitOk | ExitError string

datatype start_error =
    SSHNotFound
  | BadEndpoint endpoint_error
  | CannotBind string
  | StartFailed string
  | ExitedBeforeReady string exit_status
  | NotReady string string
  | ParentCancelled string

text \<open>
  One turn of the readiness loop: the dial succeeds, with the child's status if it has already
  gone, or it fails and one of the ready cases of the select is taken.
\<close>

datatype wait_case = DeadlinePassed | CallerDone | ChildGone exit_status | Tick
datatype poll = Dialed "exit_status option" | Refused wait_case

datatype ready_error = RExited exit_status | RNotReady | RCancelled

fun waitUntilReady :: "poll list \<Rightarrow> (ready_error, unit) result option" where
  "waitUntilReady [] = None"
| "waitUntilReady (Dialed None # ps) = Some (Inr ())"
| "waitUntilReady (Dialed (Some s) # ps) = Some (Inl (RExited s))"
| "waitUntilReady (Refused DeadlinePassed # ps) = Some (Inl RNotReady)"
| "waitUntilReady (Refused CallerDone # ps) = Some (Inl RCancelled)"
| "waitUntilReady (Refused (ChildGone s) # ps) = Some (Inl (RExited s))"
| "waitUntilReady (Refused Tick # ps) = waitUntilReady ps"

datatype child_event = Spawned "string list" "string list" | Killed | Reaped

record start_run =
  s_lookPath :: "string option"
  s_bindable :: bool
  s_environ :: "string list"
  s_starts :: bool
  s_polls :: "poll list"

definition startupError :: "string \<Rightarrow> string \<Rightarrow> ready_error \<Rightarrow> start_error" where
  "startupError client socksAddr e =
     (case e of RExited s \<Rightarrow> ExitedBeforeReady client s | RNotReady \<Rightarrow> NotReady client socksAddr | RCancelled \<Rightarrow> ParentCancelled client)"

text \<open>The events of a run; \<open>Close\<close> cancels the child and waits for it. \<open>None\<close> is a run that still polls.\<close>

definition bootstrap_start ::
  "start_run \<Rightarrow> string \<Rightarrow> string \<Rightarrow> ((start_error, unit) result \<times> child_event list) option" where
  "bootstrap_start r ep socksAddr =
     (case s_lookPath r of
        None \<Rightarrow> Some (Inl SSHNotFound, [])
      | Some sshPath \<Rightarrow>
          (case buildSSHArgs ep socksAddr of
             Inl e \<Rightarrow> Some (Inl (BadEndpoint e), [])
           | Inr args \<Rightarrow>
               if \<not> s_bindable r then Some (Inl (CannotBind socksAddr), [])
               else if \<not> s_starts r then Some (Inl (StartFailed sshPath), [])
               else
                 let spawned = Spawned args (withoutSecrets (s_environ r)) in
                 (case waitUntilReady (s_polls r) of
                    None \<Rightarrow> None
                  | Some (Inr _) \<Rightarrow> Some (Inr (), [spawned])
                  | Some (Inl e) \<Rightarrow> Some (Inl (startupError sshPath socksAddr e), [spawned, Killed, Reaped]))))"

subsection \<open>The control proxy\<close>

definition controlHostname :: "string \<Rightarrow> string option" where
  "controlHostname controlURL =
     (case url_Parse controlURL of
        None \<Rightarrow> None
      | Some u \<Rightarrow> if u_Hostname u = [] then None else Some (u_Hostname u))"

datatype proxy_choice = ViaBootstrap string | Fallback "string option"

definition controlProxyFunc :: "string \<Rightarrow> string \<Rightarrow> (url \<Rightarrow> string option) \<Rightarrow> (url \<Rightarrow> proxy_choice) option" where
  "controlProxyFunc controlURL proxyAddr fallback =
     map_option (\<lambda>hostname requestURL.
        if EqualFold (u_Hostname requestURL) hostname then ViaBootstrap proxyAddr
        else Fallback (fallback requestURL)) (controlHostname controlURL)"

datatype proxy_reply = Denied | Tunnelled string | Forwarded string | BadRequest

definition controlProxyHandler :: "string \<Rightarrow> bool \<Rightarrow> url \<Rightarrow> proxy_reply" where
  "controlProxyHandler hostname isConnect u =
     (if \<not> EqualFold (u_Hostname u) hostname then Denied
      else if isConnect then Tunnelled (u_host u)
      else if u_scheme u \<noteq> ''http'' then BadRequest
      else Forwarded (u_host u))"

subsection \<open>Laws\<close>

lemma not_dash: "\<not> HasPrefix s ''-'' \<longleftrightarrow> s = [] \<or> hd s \<noteq> CHR ''-''"
  by (cases s) auto

lemma splitSSHUser_parts:
  "splitSSHUser ep = Inr (u, hp) \<Longrightarrow> set u \<union> set hp \<subseteq> set ep \<and> \<not> HasPrefix u ''-''"
  using set_take_subset [of _ ep] set_drop_subset [of _ ep]
  by (fastforce simp: splitSSHUser_def Let_def split: option.splits if_splits)

lemma SplitHostPort_chars: "SplitHostPort s = Inr (h, p) \<Longrightarrow> set h \<union> set p \<subseteq> set s"
proof -
  assume s: "SplitHostPort s = Inr (h, p)"
  have d: "set (drop n s) \<subseteq> set s" "set (take m (drop n s)) \<subseteq> set s" "set (take n s) \<subseteq> set s" for n m
    using set_drop_subset [of n s] set_take_subset [of m "drop n s"] set_take_subset [of n s] by auto
  show ?thesis
    using s d by (fastforce simp: SplitHostPort_def Let_def split: option.splits if_splits)
qed

lemma splitSSHHostPort_chars: "splitSSHHostPort ep s = Inr (h, p) \<Longrightarrow> set h \<union> set p \<subseteq> set s"
proof -
  assume s: "splitSSHHostPort ep s = Inr (h, p)"
  have "set (TrimSuffix (TrimPrefix s ''['') '']'') \<subseteq> set s"
    using set_take_subset [of "length (TrimPrefix s ''['') - length '']''" "TrimPrefix s ''[''"] set_drop_subset [of "length ''[''" s]
    by (auto simp: TrimSuffix_def TrimPrefix_def split: if_splits)
  moreover have "cut CHR '':'' s = (a, b, f) \<Longrightarrow> set a \<union> set b \<subseteq> set s" for a b f
    using cut_cases [of "CHR '':''" s] by auto
  moreover note SplitHostPort_chars [of s h p]
  ultimately show ?thesis
    using s unfolding splitSSHHostPort_def by (auto simp del: subset_iff split: if_splits sum.splits prod.splits)
qed

lemma parseEndpoint_safe:
  assumes "parseEndpoint raw = Inr (user, host, port)"
  shows "host \<noteq> [] \<and> hd host \<noteq> CHR ''-'' \<and> (user \<noteq> [] \<longrightarrow> hd user \<noteq> CHR ''-'') \<and>
    (\<forall>c \<in> set user \<union> set host \<union> set port. c \<notin> set ssh_blanks) \<and> (port \<noteq> [] \<longrightarrow> port_of port \<noteq> None)"
proof -
  define ep where "ep = TrimSpace raw"
  obtain hp where nb: "\<not> list_ex (\<lambda>c. c \<in> set ssh_blanks) ep" and u: "splitSSHUser ep = Inr (user, hp)"
    and h: "splitSSHHostPort ep hp = Inr (host, port)" "host \<noteq> []" "\<not> HasPrefix host ''-''" "validateSSHPort port = None"
    using assms by (auto simp: parseEndpoint_def ep_def Let_def split: if_splits sum.splits option.splits)
  note us = splitSSHUser_parts [OF u] and hs = splitSSHHostPort_chars [OF h(1)]
  have "\<forall>c \<in> set user \<union> set host \<union> set port. c \<notin> set ssh_blanks"
    using nb us hs by (auto simp: list_ex_iff)
  moreover have "port \<noteq> [] \<longrightarrow> port_of port \<noteq> None"
    using h(4) by (auto simp: validateSSHPort_def port_of_def valid_port_def split: option.splits if_splits)
  ultimately show ?thesis using h us by (auto simp: not_dash)
qed

lemma withoutSecrets_filter: "withoutSecrets environ = filter (\<lambda>kv. \<not> isSecretName (env_name kv)) environ"
  by (induction environ) auto

text \<open>
  C30: the bootstrap never lets its configuration run a command or pass an option to ssh. Every
  command line it builds is the fixed options with a loopback SOCKS address, an optional numeric
  port and login name as the arguments of their own options, and the host as the one word after
  them; host and login name are free of white space and do not start with a dash.
\<close>

theorem ssh_args_no_injection:
  assumes "buildSSHArgs ep socksAddr = Inr args"
  shows "\<exists>user host port. args = ssh_options socksAddr @ (if port \<noteq> [] then [''-p'', port] else []) @
      (if user \<noteq> [] then [''-l'', user] else []) @ [host] \<and>
    host \<noteq> [] \<and> hd host \<noteq> CHR ''-'' \<and> (user \<noteq> [] \<longrightarrow> hd user \<noteq> CHR ''-'') \<and>
    (\<forall>c \<in> set user \<union> set host. c \<notin> set ssh_blanks) \<and> (port \<noteq> [] \<longrightarrow> port_of port \<noteq> None) \<and>
    (\<exists>h p. SplitHostPort socksAddr = Inr (h, p) \<and> loopback_host h)"
proof -
  obtain user host port where p: "parseEndpoint ep = Inr (user, host, port)"
    and a: "args = ssh_options socksAddr @ (if port \<noteq> [] then [''-p'', port] else []) @
      (if user \<noteq> [] then [''-l'', user] else []) @ [host]"
    and s: "\<exists>h p. SplitHostPort socksAddr = Inr (h, p) \<and> loopback_host h"
    using assms by (auto simp: buildSSHArgs_def split: sum.splits prod.splits if_splits)
  from parseEndpoint_safe [OF p] a s show ?thesis by blast
qed

theorem ssh_args_no_injection_witness:
  "buildSSHArgs '' ops@[::1]:2222 '' ''127.0.0.1:1055'' =
     Inr (ssh_options ''127.0.0.1:1055'' @ [''-p'', ''2222'', ''-l'', ''ops'', ''::1'']) \<and>
   isl (buildSSHArgs ''[-oProxyCommand=x]'' ''127.0.0.1:1055'') \<and> isl (buildSSHArgs ''ops@h'' ''0.0.0.0:1055'')"
proof -
  have e: "buildSSHArgs '' ops@[::1]:2222 '' ''127.0.0.1:1055'' =
      Inr (ssh_options ''127.0.0.1:1055'' @ [''-p'', ''2222'', ''-l'', ''ops'', ''::1''])" by code_simp
  have "isl (buildSSHArgs ''[-oProxyCommand=x]'' ''127.0.0.1:1055'')" "isl (buildSSHArgs ''ops@h'' ''0.0.0.0:1055'')"
    by code_simp+
  with e ssh_args_no_injection [OF e] show ?thesis by blast
qed


definition sample_start :: "poll list \<Rightarrow> start_run" where
  "sample_start ps = \<lparr>s_lookPath = Some ''/usr/bin/ssh'', s_bindable = True,
     s_environ = [''HOME=/h'', ''ts_AuthKey=tskey-auth-a-b'', ''TS_TARGET=x''], s_starts = True, s_polls = ps\<rparr>"


end
