(* ===== verification/Host_Step.thy ===== *)
theory Host_Step
  imports Secret_File Go_Strconv
begin

text \<open>
  \<open>internal/host/step.go\<close>: outcomes, steps and the runner the host steps use. The runner is a
  record of functions over the state of the machine, so that a step list runs against any
  machine; commands and errors are the strings the code passes and prints. \<open>execRunner.WriteFile\<close>
  is modelled on the disk, and the runner over that disk is the instance the laws of the
  \<open>machine\<close> locale are proved for.
\<close>

text \<open>\<open>OutcomeUnset\<close> is the empty string, the outcome of a zero step.\<close>

datatype Outcome = OutcomeUnset | OutcomeOK | OutcomeChanged | OutcomeFailed | OutcomeManual | OutcomeUnverified

definition Succeeded :: "Outcome \<Rightarrow> bool" where
  "Succeeded oc \<longleftrightarrow> oc = OutcomeOK \<or> oc = OutcomeChanged"

record SetupStep =
  st_Name :: string
  st_Outcome :: Outcome
  st_Success :: bool
  st_Message :: string
  st_Fix :: string

definition newStep :: "string \<Rightarrow> Outcome \<Rightarrow> string \<Rightarrow> string \<Rightarrow> SetupStep" where
  "newStep name oc message fix' =
     \<lparr>st_Name = name, st_Outcome = oc, st_Success = Succeeded oc, st_Message = message, st_Fix = fix'\<rparr>"

definition zeroStep :: SetupStep where
  "zeroStep = \<lparr>st_Name = [], st_Outcome = OutcomeUnset, st_Success = False, st_Message = [], st_Fix = []\<rparr>"

lemma newStep_simps [simp]:
  "st_Name (newStep n oc m f) = n" "st_Outcome (newStep n oc m f) = oc" "st_Message (newStep n oc m f) = m"
  "st_Fix (newStep n oc m f) = f" "st_Success (newStep n oc m f) = Succeeded oc"
  by (simp_all add: newStep_def)

datatype file_error = FileMissing string | FileError string

primrec file_error_text :: "file_error \<Rightarrow> string" where
  "file_error_text (FileMissing m) = m"
| "file_error_text (FileError m) = m"

text \<open>
  \<open>None\<close> is a nil error. \<open>Output\<close> gives what was printed even when the command fails; the error
  of a command that ran and exited with a failure carries its standard error.
\<close>

datatype cmd_error = CmdError string "string option"

primrec cmd_error_text :: "cmd_error \<Rightarrow> string" where
  "cmd_error_text (CmdError t _) = t"

record 's Runner =
  r_Run :: "string list \<Rightarrow> 's \<Rightarrow> string option \<times> 's"
  r_Output :: "string list \<Rightarrow> 's \<Rightarrow> string \<times> cmd_error option"
  r_LookPath :: "string \<Rightarrow> 's \<Rightarrow> bool"
  r_Elevated :: "'s \<Rightarrow> bool"
  r_ReadFile :: "string \<Rightarrow> 's \<Rightarrow> (file_error, string) result"
  r_WriteFile :: "string \<Rightarrow> string \<Rightarrow> 's \<Rightarrow> string option \<times> 's"

subsection \<open>Results\<close>

record Service =
  sv_Kind :: string
  sv_Port :: int
  sv_Enabled :: bool
  sv_Active :: "bool option"
  sv_FirewallOK :: bool
  sv_Unread :: bool

record SetupResult =
  sr_RDPPort :: int
  sr_ControlURL :: string
  sr_Steps :: "SetupStep list"

record CheckResult =
  cr_TailscaleIP :: string
  cr_RDPPort :: int
  cr_RDPEnabled :: bool
  cr_FirewallOK :: bool
  cr_TailscaleUp :: bool
  cr_ControlURL :: string
  cr_Elevated :: bool
  cr_Services :: "Service list"
  cr_Steps :: "SetupStep list"

fun derive_each :: "Service list \<Rightarrow> CheckResult \<Rightarrow> CheckResult" where
  "derive_each [] res = res"
| "derive_each (svc # svcs) res =
     (let res1 = (if sv_Kind svc = ''rdp'' \<and> sv_Enabled svc then res\<lparr>cr_RDPPort := sv_Port svc, cr_RDPEnabled := True\<rparr> else res)
      in derive_each svcs (res1\<lparr>cr_FirewallOK := cr_FirewallOK res1 \<and> sv_FirewallOK svc\<rparr>))"

definition deriveLegacy :: "CheckResult \<Rightarrow> CheckResult" where
  "deriveLegacy res = derive_each (cr_Services res) (res\<lparr>cr_FirewallOK := (cr_Services res \<noteq> [])\<rparr>)"

definition firewallReadStep :: "string \<Rightarrow> bool \<Rightarrow> int \<Rightarrow> SetupStep" where
  "firewallReadStep name allowed port =
     (let target = (if port = 0 then ''the service port (unknown)'' else ''port '' @ Itoa port) in
      if allowed then newStep name OutcomeOK (''Firewall allows '' @ target) []
      else newStep name OutcomeChanged (''No firewall rule found for '' @ target) ''run ts-bridge host setup as an administrator'')"

definition tailscaleIP :: "'s Runner \<Rightarrow> 's \<Rightarrow> string" where
  "tailscaleIP r st =
     (case r_Output r [''tailscale'', ''ip'', ''-4''] st of
        (out, err) \<Rightarrow> if err \<noteq> None then [] else TrimSpace out)"

definition tailscaleStep :: "string \<Rightarrow> SetupStep" where
  "tailscaleStep ip =
     (if ip \<noteq> [] then newStep ''Tailscale IP'' OutcomeOK (''Tailscale IP: '' @ ip) []
      else newStep ''Tailscale IP'' OutcomeFailed ''Tailscale not connected or CLI not available'' ''start Tailscale and log in'')"

definition tailscaleIPStep :: "'s Runner \<Rightarrow> 's \<Rightarrow> SetupStep" where
  "tailscaleIPStep r st = tailscaleStep (tailscaleIP r st)"

lemma derive_each_spec:
  "cr_FirewallOK (derive_each svcs res) \<longleftrightarrow> cr_FirewallOK res \<and> (\<forall>s \<in> set svcs. sv_FirewallOK s)"
  "cr_RDPEnabled (derive_each svcs res) \<longleftrightarrow> cr_RDPEnabled res \<or> (\<exists>s \<in> set svcs. sv_Kind s = ''rdp'' \<and> sv_Enabled s)"
  by (induction svcs arbitrary: res) (auto simp: Let_def)

subsection \<open>Writing a service configuration\<close>

text \<open>
  \<open>execRunner.WriteFile\<close>: a sibling temporary file, then a rename. The mode of the old file is
  read first and given to the new one; the temporary file is removed at the end, which fails
  harmlessly after the rename.
\<close>

definition file_mode_at :: "string \<Rightarrow> disk \<Rightarrow> nat" where
  "file_mode_at p d = (case files d p of Some f \<Rightarrow> f_mode f | None \<Rightarrow> (case dirs d p of Some m \<Rightarrow> m | None \<Rightarrow> 0)) mod 512"

definition config_temp_name :: "string \<Rightarrow> string \<Rightarrow> string" where
  "config_temp_name path suffix = Dir path @ ''/.'' @ Base path @ ''.'' @ suffix"

lemma config_temp_name_neq: "CHR ''/'' \<notin> set suffix \<Longrightarrow> config_temp_name path suffix \<noteq> path"
  using sibling_neq [of "''.''" "''.'' @ suffix" path] by (simp add: config_temp_name_def)

definition write_temp_and_rename :: "string \<Rightarrow> string \<Rightarrow> nat \<Rightarrow> string \<Rightarrow> disk \<Rightarrow> fs_error option \<times> disk" where
  "write_temp_and_rename path data mode tmp d =
     (case file_Write tmp data d of
        (Some e, d1) \<Rightarrow> (case file_Close d1 of (_, d2) \<Rightarrow> (Some e, d2))
      | (None, d1) \<Rightarrow>
          (case file_Close d1 of
             (Some e, d2) \<Rightarrow> (Some e, d2)
           | (None, d2) \<Rightarrow>
               (case os_Chmod tmp mode d2 of
                  (Some e, d3) \<Rightarrow> (Some e, d3)
                | (None, d3) \<Rightarrow> os_Rename tmp path d3)))"

definition exec_WriteFile :: "string \<Rightarrow> string \<Rightarrow> disk \<Rightarrow> fs_error option \<times> disk" where
  "exec_WriteFile path data d =
     (case os_Stat path d of
        (Some e, d1) \<Rightarrow> (Some e, d1)
      | (None, d1) \<Rightarrow>
          (case CreateTemp_as (config_temp_name path) (Dir path) d1 of
             (Inl e, d2) \<Rightarrow> (Some e, d2)
           | (Inr tmp, d2) \<Rightarrow>
               (case write_temp_and_rename path data (file_mode_at path d1) tmp d2 of
                  (r, d3) \<Rightarrow> (case os_Remove tmp d3 of (_, d4) \<Rightarrow> (r, d4)))))"

lemma syscall_files: "syscall f d = (r, d') \<Longrightarrow> (\<And>e e' s. f e = (s, e') \<Longrightarrow> files e' p = files e p) \<Longrightarrow> files d' p = files d p"
  by (fastforce simp: syscall_def Let_def split: if_splits)

lemma Chmod_other: "os_Chmod q m d = (r, d') \<Longrightarrow> p \<noteq> q \<Longrightarrow> files d' p = files d p"
  by (auto simp: os_Chmod_def syscall_def set_mode_def Let_def split: if_splits option.splits)

lemma Remove_other: "os_Remove q d = (r, d') \<Longrightarrow> p \<noteq> q \<Longrightarrow> files d' p = files d p"
  by (auto simp: os_Remove_def syscall_def Let_def split: if_splits)

lemma Write_other: "file_Write q s d = (r, d') \<Longrightarrow> p \<noteq> q \<Longrightarrow> files d' p = files d p"
  by (auto simp: file_Write_def Let_def split: if_splits option.splits)

lemma Close_files: "file_Close d = (r, d') \<Longrightarrow> files d' = files d"
  by (auto simp: file_Close_def syscall_def Let_def split: if_splits)

lemma Write_done: "file_Write q s d = (None, d') \<Longrightarrow> files d q = Some f \<Longrightarrow> files d' q = Some (f\<lparr>f_data := f_data f @ s\<rparr>)"
  by (auto simp: file_Write_def Let_def split: if_splits)

lemma Chmod_done: "os_Chmod q m d = (None, d') \<Longrightarrow> files d q = Some f \<Longrightarrow> files d' q = Some (f\<lparr>f_mode := m\<rparr>)"
  by (auto simp: os_Chmod_def syscall_def set_mode_def Let_def split: if_splits)

lemma Rename_done:
  "os_Rename src dst d = (r, d') \<Longrightarrow> src \<noteq> dst \<Longrightarrow>
   (r = None \<longrightarrow> files d' dst = files d src \<and> files d src \<noteq> None) \<and> (r \<noteq> None \<longrightarrow> files d' = files d) \<and>
   (\<forall>p. p \<noteq> src \<longrightarrow> p \<noteq> dst \<longrightarrow> files d' p = files d p)"
  by (auto simp: os_Rename_def syscall_def Let_def split: if_splits option.splits)

lemma write_temp_outcome:
  assumes "write_temp_and_rename path s mode tmp d = (r, d')" and "tmp \<noteq> path"
    and "files d tmp = Some \<lparr>f_data = [], f_mode = m\<rparr>"
  shows "(r = None \<longrightarrow> files d' path = Some \<lparr>f_data = s, f_mode = mode\<rparr>) \<and>
    (r \<noteq> None \<longrightarrow> files d' path = files d path) \<and>
    (\<forall>p. p \<noteq> path \<longrightarrow> p \<noteq> tmp \<longrightarrow> files d' p = files d p)"
proof -
  obtain r1 d1 where w: "file_Write tmp s d = (r1, d1)" by fastforce
  obtain r2 d2 where c: "file_Close d1 = (r2, d2)" by fastforce
  obtain r3 d3 where h: "os_Chmod tmp mode d2 = (r3, d3)" by fastforce
  obtain r4 d4 where n: "os_Rename tmp path d3 = (r4, d4)" by fastforce
  note keep = Write_other [OF w] Chmod_other [OF h] Close_files [OF c] Rename_done [OF n assms(2)]
  consider "r \<noteq> None" "d' = d2" | "r \<noteq> None" "d' = d3" | "r1 = None" "r2 = None" "r3 = None" "r = r4" "d' = d4"
    using assms(1) w c h n by (auto simp: write_temp_and_rename_def split: option.splits)
  then show ?thesis
  proof cases
    case 3
    have "files d1 tmp = Some \<lparr>f_data = s, f_mode = m\<rparr>" using Write_done w 3(1) assms(3) by fastforce
    then have "files d3 tmp = Some \<lparr>f_data = s, f_mode = mode\<rparr>"
      using Chmod_done h 3(3) Close_files [OF c] by fastforce
    then show ?thesis using keep 3 assms(2) by auto
  qed (use keep assms(2) in auto)
qed

text \<open>A written configuration is all there or the old one is, and no other existing file changes.\<close>

lemma exec_WriteFile_outcome:
  assumes "exec_WriteFile path s d = (r, d')" and "disk_ok d"
  shows "(r = None \<longrightarrow> files d' path = Some \<lparr>f_data = s, f_mode = file_mode_at path d\<rparr>) \<and>
    (r \<noteq> None \<longrightarrow> files d' path = files d path) \<and> (\<forall>p. p \<noteq> path \<longrightarrow> files d p \<noteq> None \<longrightarrow> files d' p = files d p)"
proof -
  obtain r1 d1 where st: "os_Stat path d = (r1, d1)" by fastforce
  obtain r2 d2 where ct: "CreateTemp_as (config_temp_name path) (Dir path) d1 = (r2, d2)" by fastforce
  have f1: "files d1 = files d" "dirs d1 = dirs d" "disk_ok d1"
    using st assms(2) by (auto simp: os_Stat_def syscall_def disk_ok_def Let_def split: if_splits)
  show ?thesis
  proof (cases "r1 = None \<and> \<not> isl r2")
    case False
    then have "d' = d1 \<and> r \<noteq> None \<or> d' = d2 \<and> r \<noteq> None \<and> isl r2"
      using assms(1) st ct by (auto simp: exec_WriteFile_def split: option.splits sum.splits prod.splits)
    moreover have "isl r2 \<longrightarrow> files d2 = files d1"
      using ct CreateTemp_as_Inl by (cases r2) auto
    ultimately show ?thesis using f1 by auto
  next
    case True
    then obtain tmp where tmp: "r2 = Inr tmp" "r1 = None" by (cases r2) auto
    obtain r3 d3 where w: "write_temp_and_rename path s (file_mode_at path d1) tmp d2 = (r3, d3)" by fastforce
    obtain r4 d4 where rm: "os_Remove tmp d3 = (r4, d4)" by fastforce
    have e: "r = r3" "d' = d4"
      using assms(1) st ct tmp w rm by (auto simp: exec_WriteFile_def)
    have t: "files d1 tmp = None" "files d2 = (files d1)(tmp \<mapsto> \<lparr>f_data = [], f_mode = 384\<rparr>)" "tmp \<noteq> path"
      using CreateTemp_as_Inr [OF ct [unfolded tmp(1)]] f1(3) config_temp_name_neq by (auto simp: disk_ok_def)
    have "file_mode_at path d1 = file_mode_at path d" unfolding file_mode_at_def f1 ..
    moreover have "files d4 p = files d3 p \<and> p \<noteq> tmp" if "files d p \<noteq> None \<or> p = path" for p
    proof -
      have "p \<noteq> tmp" using t(1,3) f1(1) that by auto
      then show ?thesis using Remove_other [OF rm, of p] by simp
    qed
    moreover have "files d2 path = files d path" "files d2 p = files d p" if "p \<noteq> tmp" for p
      using t f1(1) that by auto
    ultimately show ?thesis
      using write_temp_outcome [OF w t(3), of 384] t(2) e by (metis fun_upd_same)
  qed
qed

subsection \<open>The machine a step runs on\<close>

text \<open>
  What the steps that rewrite a configuration file rely on: after a successful write the file
  has the new contents, after a failed one the old, and commands leave the files alone. A read
  may fail at any time.
\<close>

definition reads_as :: "'s Runner \<Rightarrow> string \<Rightarrow> 's \<Rightarrow> string \<Rightarrow> bool" where
  "reads_as r p st s \<longleftrightarrow> r_ReadFile r p st = Inr s \<or> (\<exists>m. r_ReadFile r p st = Inl (FileError m))"

locale machine =
  fixes r :: "'s Runner" and ok :: "'s \<Rightarrow> bool"
  assumes write_done: "ok st \<Longrightarrow> r_WriteFile r p s st = (None, st') \<Longrightarrow> ok st' \<and> reads_as r p st' s"
    and write_failed: "ok st \<Longrightarrow> r_WriteFile r p s st = (Some e, st') \<Longrightarrow> r_ReadFile r p st = Inr old \<Longrightarrow>
      ok st' \<and> reads_as r p st' old"
    and run_keeps: "ok st \<Longrightarrow> r_Run r cmd st = (err, st') \<Longrightarrow> ok st' \<and> r_ReadFile r p st' = r_ReadFile r p st"

text \<open>The real runner: files on the disk, commands on the rest of the machine.\<close>

definition fs_error_text :: "fs_error \<Rightarrow> string" where
  "fs_error_text e = (case e of NotExist \<Rightarrow> ''file does not exist'' | _ \<Rightarrow> ''input/output error'')"

record 'm commands =
  c_run :: "string list \<Rightarrow> 'm \<Rightarrow> string option \<times> 'm"
  c_output :: "string list \<Rightarrow> 'm \<Rightarrow> string \<times> cmd_error option"
  c_lookpath :: "string \<Rightarrow> 'm \<Rightarrow> bool"
  c_elevated :: "'m \<Rightarrow> bool"

definition execRunner :: "'m commands \<Rightarrow> (disk \<times> 'm) Runner" where
  "execRunner c =
     \<lparr>r_Run = (\<lambda>cmd (d, m). case c_run c cmd m of (e, m') \<Rightarrow> (e, (d, m'))),
      r_Output = (\<lambda>cmd (d, m). c_output c cmd m),
      r_LookPath = (\<lambda>name (d, m). c_lookpath c name m),
      r_Elevated = (\<lambda>(d, m). c_elevated c m),
      r_ReadFile = (\<lambda>p (d, m). case fst (os_ReadFile p d) of
          Inr s \<Rightarrow> Inr s
        | Inl e \<Rightarrow> Inl (if e = NotExist then FileMissing (fs_error_text e) else FileError (fs_error_text e))),
      r_WriteFile = (\<lambda>p s (d, m). case exec_WriteFile p s d of (e, d') \<Rightarrow> (map_option fs_error_text e, (d', m)))\<rparr>"

lemma exec_reads_as:
  "files d p = Some f \<Longrightarrow> f_data f = s \<Longrightarrow> reads_as (execRunner c) p (d, m) s"
  by (auto simp: reads_as_def execRunner_def os_ReadFile_def Let_def)

lemma exec_read_file:
  "r_ReadFile (execRunner c) p (d, m) = Inr s \<Longrightarrow> \<exists>f. files d p = Some f \<and> f_data f = s"
  by (auto simp: execRunner_def os_ReadFile_def Let_def split: sum.splits option.splits if_splits)

lemma suffixes_kept:
  "temp_suffix (snd (os_Stat p d)) = temp_suffix d" "temp_suffix (snd (CreateTemp_as nm dir d)) = temp_suffix d"
  "temp_suffix (snd (file_Write p s d)) = temp_suffix d" "temp_suffix (snd (file_Close d)) = temp_suffix d"
  "temp_suffix (snd (os_Chmod p n d)) = temp_suffix d" "temp_suffix (snd (os_Rename p q d)) = temp_suffix d"
  "temp_suffix (snd (os_Remove p d)) = temp_suffix d"
  by (simp_all add: os_Stat_def CreateTemp_as_def file_Write_def file_Close_def os_Chmod_def os_Rename_def os_Remove_def
      set_mode_def syscall_def Let_def split: option.split)

lemma exec_WriteFile_plan:
  assumes "exec_WriteFile p s d = (r, d')" and "disk_ok d"
  shows "disk_ok d'"
proof -
  have "temp_suffix (snd (write_temp_and_rename p s n t e)) = temp_suffix e" for n t e
    by (simp add: write_temp_and_rename_def case_prod_beta suffixes_kept split: option.split)
  then have "temp_suffix (snd (exec_WriteFile p s d)) = temp_suffix d"
    by (simp add: exec_WriteFile_def case_prod_beta suffixes_kept split: option.split sum.split)
  then show ?thesis using assms by (simp add: disk_ok_def)
qed

interpretation exec: machine "execRunner c" "\<lambda>(d, m). disk_ok d"
proof (unfold_locales, goal_cases)
  case (1 st p s st')
  obtain d m where st: "st = (d, m)" by fastforce
  from 1(2) obtain d' where w: "exec_WriteFile p s d = (None, d')" "st' = (d', m)"
    by (auto simp: st execRunner_def split: prod.splits)
  show ?case
    using exec_WriteFile_outcome [OF w(1)] exec_WriteFile_plan [OF w(1)] 1(1) by (auto simp: st w(2) intro: exec_reads_as)
next
  case (2 st p s e st' old)
  obtain d m where st: "st = (d, m)" by fastforce
  from 2(2) obtain e' d' where w: "exec_WriteFile p s d = (Some e', d')" "st' = (d', m)"
    by (auto simp: st execRunner_def split: prod.splits)
  show ?case
    using exec_WriteFile_outcome [OF w(1)] exec_WriteFile_plan [OF w(1)] 2(1,3)
      exec_read_file [of c p d m old] by (auto simp: st w(2) intro: exec_reads_as)
next
  case (3 st cmd e st' p)
  then show ?case by (auto simp: execRunner_def split: prod.splits)
qed

end
