(* ===== verification/Host_File.thy ===== *)
theory Host_File
  imports Bootstrap Instance Host_Step "HOL-Library.List_Lexorder" "HOL-Library.Char_ord"
begin

text \<open>
  The declared state of a host: \<open>internal/host/file.go\<close> (the host file, its validation per
  operating system and its key check), \<open>mesh.go\<close>, \<open>firewall_rule.go\<close>, \<open>config.go\<close> (the
  precedence of flags, environment and file) and \<open>controlplane.go\<close>. The YAML library is a record
  of functions: the documents of a text, a node decoded as a tree and as a \<open>File\<close>.
  Absent and null pointers are \<open>None\<close>.
\<close>

subsection \<open>The file\<close>

definition fileVersion :: int where "fileVersion = 1"
definition ServiceRDP :: string where "ServiceRDP = ''rdp''"
definition ServiceSSH :: string where "ServiceSSH = ''ssh''"
definition ServiceVNC :: string where "ServiceVNC = ''vnc''"
definition goosWindows :: string where "goosWindows = ''windows''"
definition goosLinux :: string where "goosLinux = ''linux''"
definition goosDarwin :: string where "goosDarwin = ''darwin''"
definition defaultRDPPort :: int where "defaultRDPPort = 3389"

definition defaultPorts :: "string \<rightharpoonup> int" where
  "defaultPorts = [ServiceRDP \<mapsto> defaultRDPPort, ServiceSSH \<mapsto> 22, ServiceVNC \<mapsto> 5900]"

record FileMesh =
  m_BootstrapSSH :: "string option"
  m_BootstrapSOCKSAddr :: "string option"
  m_Hostname :: "string option"
  m_StateDir :: "string option"
  m_AuthKeyFile :: "string option"
  m_HealthAddr :: "string option"

record FileService =
  fs_Kind :: string
  fs_Port :: "int option"

record FileFirewall =
  fw_Rule :: "string option"

record FilePower =
  pw_PreventSleep :: "bool option"

record FileHost =
  fh_Services :: "FileService list option"
  fh_Firewall :: "FileFirewall option"
  fh_Power :: "FilePower option"
  fh_ControlURL :: "string option"
  fh_Mesh :: "FileMesh option"

record HostFile =
  f_Version :: int
  f_Host :: FileHost

definition empty_file :: HostFile where
  "empty_file = \<lparr>f_Version = 0, f_Host = \<lparr>fh_Services = None, fh_Firewall = None, fh_Power = None,
     fh_ControlURL = None, fh_Mesh = None\<rparr>\<rparr>"

record osCapability =
  k_kinds :: "string list"
  k_power :: bool
  k_firewallRule :: bool
  k_serve :: bool
  k_planned :: "string \<rightharpoonup> string"

definition osCapabilities :: "string \<rightharpoonup> osCapability" where
  "osCapabilities =
     [goosWindows \<mapsto> \<lparr>k_kinds = [ServiceRDP], k_power = True, k_firewallRule = True, k_serve = True,
        k_planned = [ServiceSSH \<mapsto> ''#521'']\<rparr>,
      goosLinux \<mapsto> \<lparr>k_kinds = [ServiceRDP], k_power = False, k_firewallRule = False, k_serve = True,
        k_planned = [ServiceSSH \<mapsto> ''#521'']\<rparr>,
      goosDarwin \<mapsto> \<lparr>k_kinds = [], k_power = False, k_firewallRule = False, k_serve = False,
        k_planned = [ServiceSSH \<mapsto> ''#459'', ServiceVNC \<mapsto> ''#459'']\<rparr>]"

definition capabilityFor :: "string \<Rightarrow> osCapability" where
  "capabilityFor goos =
     (case osCapabilities goos of Some c \<Rightarrow> c | None \<Rightarrow> the (osCapabilities goosLinux))"

datatype host_error =
    HostReadFailed
  | HostParseFailed
  | ManyDocuments
  | HostDecodeFailed
  | NoValue string
  | WrongVersion int
  | EmptyServices
  | UnknownKind nat string
  | NoStep nat string string string
  | ServicePort nat int
  | DeclaredTwice nat string
  | NoFirewallRule string
  | BadFirewallRule rule_error
  | NoPowerStep string
  | EmptyControlURL
  | BadControlURL control_url_error
  | NoServe string
  | EmptyMeshKey string
  | BadEndpoint endpoint_error
  | EndpointNeedsControlURL
  | BadHostname
  | NotAbsolute string string
  | MeshAddr string addr_error
  | MeshNotLoopback string
  | MeshPort string
and rule_error = EmptyRule | LongRule nat | RuleChars string

subsection \<open>Firewall rule names\<close>

definition maxFirewallRuleName :: nat where "maxFirewallRuleName = 64"

definition isASCIILetter :: "char \<Rightarrow> bool" where
  "isASCIILetter c \<longleftrightarrow>
     (97 \<le> (of_char c :: nat) \<and> (of_char c :: nat) \<le> 122) \<or> (65 \<le> (of_char c :: nat) \<and> (of_char c :: nat) \<le> 90)"

definition validFirewallRuleRe :: "string \<Rightarrow> bool" where
  "validFirewallRuleRe s \<longleftrightarrow>
     s \<noteq> [] \<and> list_all (\<lambda>c. isASCIILetter c \<or> is_digit c \<or> c = CHR ''_'' \<or> c = CHR ''-'') s"

definition sanitizeFirewallRule :: "string \<Rightarrow> (rule_error, string) result" where
  "sanitizeFirewallRule name =
     (if name = [] then Inl EmptyRule
      else if maxFirewallRuleName < length name then Inl (LongRule (length name))
      else if \<not> validFirewallRuleRe name then Inl (RuleChars name)
      else Inr name)"

subsection \<open>The mesh section\<close>

definition hostnameLabel :: "string \<Rightarrow> bool" where
  "hostnameLabel s \<longleftrightarrow>
     s \<noteq> [] \<and> length s \<le> 63 \<and> list_all (\<lambda>c. isASCIILetter c \<or> is_digit c \<or> c = CHR ''-'') s \<and>
     hd s \<noteq> CHR ''-'' \<and> last s \<noteq> CHR ''-''"

definition checkMeshEmpty :: "FileMesh \<Rightarrow> host_error option" where
  "checkMeshEmpty m =
     (case find (\<lambda>(key, v). v = Some [])
        [(''bootstrap_ssh'', m_BootstrapSSH m), (''bootstrap_socks_addr'', m_BootstrapSOCKSAddr m),
         (''hostname'', m_Hostname m), (''state_dir'', m_StateDir m), (''auth_key_file'', m_AuthKeyFile m),
         (''health_addr'', m_HealthAddr m)] of
        Some (key, _) \<Rightarrow> Some (EmptyMeshKey key)
      | None \<Rightarrow> None)"

definition isAbsFor :: "string \<Rightarrow> string \<Rightarrow> bool" where
  "isAbsFor goos p =
     (if goos \<noteq> goosWindows then HasPrefix p ''/''
      else if HasPrefix p [CHR 0x5C, CHR 0x5C] then True
      else 3 \<le> length p \<and> isASCIILetter (p ! 0) \<and> p ! 1 = CHR '':'' \<and> (p ! 2 = CHR 0x5C \<or> p ! 2 = CHR ''/''))"

definition checkMeshPaths :: "FileMesh \<Rightarrow> string \<Rightarrow> host_error option" where
  "checkMeshPaths m goos =
     (case find (\<lambda>(key, v). case v of None \<Rightarrow> False | Some p \<Rightarrow> \<not> isAbsFor goos p)
        [(''state_dir'', m_StateDir m), (''auth_key_file'', m_AuthKeyFile m)] of
        Some (key, _) \<Rightarrow> Some (NotAbsolute key goos)
      | None \<Rightarrow> None)"

definition validateBootstrapSSH :: "string option \<Rightarrow> bool \<Rightarrow> host_error option" where
  "validateBootstrapSSH endpoint hasControlURL =
     (case endpoint of
        None \<Rightarrow> None
      | Some ep \<Rightarrow>
          (case ValidateEndpoint ep of
             Some e \<Rightarrow> Some (BadEndpoint e)
           | None \<Rightarrow> if \<not> hasControlURL then Some EndpointNeedsControlURL else None))"

definition validateLoopbackAddr :: "string \<Rightarrow> string option \<Rightarrow> host_error option" where
  "validateLoopbackAddr key addr =
     (case addr of
        None \<Rightarrow> None
      | Some a \<Rightarrow>
          (case SplitHostPort a of
             Inl e \<Rightarrow> Some (MeshAddr key e)
           | Inr (h, p) \<Rightarrow>
               if \<not> loopback_host h then Some (MeshNotLoopback key)
               else (case Atoi p of
                       None \<Rightarrow> Some (MeshPort key)
                     | Some n \<Rightarrow> if n < 1 \<or> 65535 < n then Some (MeshPort key) else None)))"

definition validateMesh :: "FileMesh option \<Rightarrow> bool \<Rightarrow> string \<Rightarrow> osCapability \<Rightarrow> host_error option" where
  "validateMesh mesh hasControlURL goos capab =
     (case mesh of
        None \<Rightarrow> None
      | Some m \<Rightarrow>
          if \<not> k_serve capab then Some (NoServe goos)
          else and_then (checkMeshEmpty m)
            (and_then (validateBootstrapSSH (m_BootstrapSSH m) hasControlURL)
            (and_then (case m_Hostname m of None \<Rightarrow> None | Some h \<Rightarrow> if hostnameLabel h then None else Some BadHostname)
            (and_then (checkMeshPaths m goos)
            (and_then (validateLoopbackAddr ''bootstrap_socks_addr'' (m_BootstrapSOCKSAddr m))
              (validateLoopbackAddr ''health_addr'' (m_HealthAddr m)))))))"

subsection \<open>Validation\<close>

definition validateFirewall :: "FileFirewall option \<Rightarrow> string \<Rightarrow> osCapability \<Rightarrow> host_error option" where
  "validateFirewall fw goos capab =
     (case fw of
        None \<Rightarrow> None
      | Some w \<Rightarrow>
          if \<not> k_firewallRule capab then Some (NoFirewallRule goos)
          else (case fw_Rule w of
                  None \<Rightarrow> None
                | Some r \<Rightarrow> (case sanitizeFirewallRule r of Inl e \<Rightarrow> Some (BadFirewallRule e) | Inr _ \<Rightarrow> None)))"

definition validateService :: "nat \<Rightarrow> FileService \<Rightarrow> string \<Rightarrow> osCapability \<Rightarrow> host_error option" where
  "validateService i s goos capab =
     (if defaultPorts (fs_Kind s) = None then Some (UnknownKind i (fs_Kind s))
      else if fs_Kind s \<notin> set (k_kinds capab) then
        Some (NoStep i (fs_Kind s) goos (case k_planned capab (fs_Kind s) of Some ref \<Rightarrow> ref | None \<Rightarrow> ''ADR-017 '' @ [CHR 0xC2, CHR 0xA7] @ ''5''))
      else (case fs_Port s of
              Some p \<Rightarrow> if p < 1 \<or> 65535 < p then Some (ServicePort i p) else None
            | None \<Rightarrow> None))"

fun validate_each :: "nat \<Rightarrow> string list \<Rightarrow> FileService list \<Rightarrow> string \<Rightarrow> osCapability \<Rightarrow> host_error option" where
  "validate_each i seen [] goos capab = None"
| "validate_each i seen (s # ss) goos capab =
     (case validateService i s goos capab of
        Some e \<Rightarrow> Some e
      | None \<Rightarrow>
          if fs_Kind s \<in> set seen then Some (DeclaredTwice i (fs_Kind s))
          else validate_each (Suc i) (fs_Kind s # seen) ss goos capab)"

definition validateServices :: "FileService list option \<Rightarrow> string \<Rightarrow> osCapability \<Rightarrow> host_error option" where
  "validateServices services goos capab =
     (case services of
        None \<Rightarrow> None
      | Some [] \<Rightarrow> Some EmptyServices
      | Some ss \<Rightarrow> validate_each 0 [] ss goos capab)"

definition validateControlURL :: "string option \<Rightarrow> host_error option" where
  "validateControlURL raw =
     (case raw of
        None \<Rightarrow> None
      | Some [] \<Rightarrow> Some EmptyControlURL
      | Some u \<Rightarrow> map_option BadControlURL (Validate u))"

definition validate_file :: "HostFile \<Rightarrow> string \<Rightarrow> osCapability \<Rightarrow> host_error option" where
  "validate_file f goos capab =
     (let h = f_Host f in
      if f_Version f \<noteq> fileVersion then Some (WrongVersion (f_Version f))
      else and_then (validateServices (fh_Services h) goos capab)
        (and_then (validateFirewall (fh_Firewall h) goos capab)
        (and_then (if fh_Power h \<noteq> None \<and> \<not> k_power capab then Some (NoPowerStep goos) else None)
        (and_then (validateControlURL (fh_ControlURL h))
          (validateMesh (fh_Mesh h) (fh_ControlURL h \<noteq> None) goos capab)))))"

subsection \<open>Decoding\<close>

datatype yaml_tree = YNull | YScalar string | YSeq "yaml_tree list" | YMap "(string \<times> yaml_tree) list"

datatype 'n documents = NoDocument | BadDocument | OneDocument 'n | MoreDocuments 'n

record 'n host_codec =
  hy_documents :: "string \<Rightarrow> 'n documents"
  hy_tree :: "'n \<Rightarrow> (string \<times> yaml_tree) list option"
  hy_file :: "'n \<Rightarrow> HostFile \<Rightarrow> HostFile option"

definition asMap :: "yaml_tree option \<Rightarrow> (string \<times> yaml_tree) list" where
  "asMap v = (case v of Some (YMap kvs) \<Rightarrow> kvs | _ \<Rightarrow> [])"

definition asSeq :: "yaml_tree option \<Rightarrow> yaml_tree list" where
  "asSeq v = (case v of Some (YSeq vs) \<Rightarrow> vs | _ \<Rightarrow> [])"

definition topKeys :: "string list" where "topKeys = [''version'', ''host'']"
definition hostKeys :: "string list" where "hostKeys = [''services'', ''firewall'', ''power'', ''control_url'', ''mesh'']"
definition serviceKeys :: "string list" where "serviceKeys = [''kind'', ''port'']"
definition firewallKeys :: "string list" where "firewallKeys = [''rule'']"
definition powerKeys :: "string list" where "powerKeys = [''prevent_sleep'']"
definition meshKeys :: "string list" where
  "meshKeys = [''bootstrap_ssh'', ''bootstrap_socks_addr'', ''hostname'', ''state_dir'', ''auth_key_file'', ''health_addr'']"

record keyLevel =
  kl_m :: "(string \<times> yaml_tree) list"
  kl_prefix :: string
  kl_known :: "string list"

definition key_path :: "string \<Rightarrow> string \<Rightarrow> string" where
  "key_path prefix key = (if prefix \<noteq> [] then prefix @ ''.'' @ key else key)"

text \<open>The result is the error, if any, and the unknown keys that were warned about before it.\<close>

fun check_keys :: "keyLevel \<Rightarrow> string list \<Rightarrow> host_error option \<times> string list" where
  "check_keys l [] = (None, [])"
| "check_keys l (key # keys) =
     (if key \<notin> set (kl_known l) then
        (case check_keys l keys of (e, w) \<Rightarrow> (e, key_path (kl_prefix l) key # w))
      else if map_of (kl_m l) key = Some YNull then (Some (NoValue (key_path (kl_prefix l) key)), [])
      else check_keys l keys)"

definition keyLevel_check :: "keyLevel \<Rightarrow> host_error option \<times> string list" where
  "keyLevel_check l = check_keys l (sort (remdups (map fst (kl_m l))))"

fun check_levels :: "keyLevel list \<Rightarrow> host_error option \<times> string list" where
  "check_levels [] = (None, [])"
| "check_levels (l # ls) =
     (case keyLevel_check l of
        (Some e, w) \<Rightarrow> (Some e, w)
      | (None, w) \<Rightarrow> (case check_levels ls of (e, w') \<Rightarrow> (e, w @ w')))"

definition key_levels :: "(string \<times> yaml_tree) list \<Rightarrow> keyLevel list" where
  "key_levels raw =
     (let hostMap = asMap (map_of raw ''host'');
          services = asSeq (map_of hostMap ''services'') in
      [\<lparr>kl_m = raw, kl_prefix = [], kl_known = topKeys\<rparr>,
       \<lparr>kl_m = hostMap, kl_prefix = ''host'', kl_known = hostKeys\<rparr>,
       \<lparr>kl_m = asMap (map_of hostMap ''firewall''), kl_prefix = ''host.firewall'', kl_known = firewallKeys\<rparr>,
       \<lparr>kl_m = asMap (map_of hostMap ''power''), kl_prefix = ''host.power'', kl_known = powerKeys\<rparr>,
       \<lparr>kl_m = asMap (map_of hostMap ''mesh''), kl_prefix = ''host.mesh'', kl_known = meshKeys\<rparr>] @
      map (\<lambda>(i, s). \<lparr>kl_m = asMap (Some s), kl_prefix = ''host.services['' @ itoa_nat i @ '']'', kl_known = serviceKeys\<rparr>)
        (enumerate 0 services))"

definition checkKeys :: "'n host_codec \<Rightarrow> 'n \<Rightarrow> host_error option \<times> string list" where
  "checkKeys y doc =
     (case hy_tree y doc of
        None \<Rightarrow> (Some HostDecodeFailed, [])
      | Some raw \<Rightarrow> check_levels (key_levels raw))"

definition decodeFile :: "'n host_codec \<Rightarrow> string \<Rightarrow> (host_error, HostFile) result \<times> string list" where
  "decodeFile y data =
     (case hy_documents y data of
        NoDocument \<Rightarrow> (Inr (empty_file\<lparr>f_Version := fileVersion\<rparr>), [])
      | BadDocument \<Rightarrow> (Inl HostParseFailed, [])
      | MoreDocuments _ \<Rightarrow> (Inl ManyDocuments, [])
      | OneDocument doc \<Rightarrow>
          (case checkKeys y doc of
             (Some e, w) \<Rightarrow> (Inl e, w)
           | (None, w) \<Rightarrow>
               (case hy_file y doc (empty_file\<lparr>f_Version := fileVersion\<rparr>) of
                  None \<Rightarrow> (Inl HostDecodeFailed, w)
                | Some f \<Rightarrow> (Inr f, w))))"

text \<open>\<open>content\<close> is what reading the path gave.\<close>

definition loadFile :: "'n host_codec \<Rightarrow> string option \<Rightarrow> string \<Rightarrow> osCapability \<Rightarrow> (host_error, HostFile) result \<times> string list" where
  "loadFile y content goos capab =
     (case content of
        None \<Rightarrow> (Inl HostReadFailed, [])
      | Some data \<Rightarrow>
          (case decodeFile y data of
             (Inl e, w) \<Rightarrow> (Inl e, w)
           | (Inr f, w) \<Rightarrow> (case validate_file f goos capab of Some e \<Rightarrow> (Inl e, w) | None \<Rightarrow> (Inr f, w))))"

definition LoadFile :: "'n host_codec \<Rightarrow> string option \<Rightarrow> string \<Rightarrow> (host_error, HostFile) result \<times> string list" where
  "LoadFile y content goos = loadFile y content goos (capabilityFor goos)"

definition serve_capability :: "string \<Rightarrow> osCapability" where
  "serve_capability goos =
     (let capab = capabilityFor goos in
      if k_serve capab then capab\<lparr>k_kinds := k_kinds capab @ [ServiceSSH]\<rparr> else capab)"

definition LoadServeFile :: "'n host_codec \<Rightarrow> string option \<Rightarrow> string \<Rightarrow> (host_error, HostFile) result \<times> string list" where
  "LoadServeFile y content goos = loadFile y content goos (serve_capability goos)"

end
