(* ===== verification/Xrdp_Port.thy ===== *)
theory Xrdp_Port
  imports Host_File
begin

text \<open>
  \<open>internal/host/xrdp_port.go\<close>: reading and rewriting the port xrdp listens on. The two indices
  that are -1 in the code when there is no such line are \<open>None\<close>.
\<close>

definition xrdpINIPath :: string where "xrdpINIPath = ''/etc/xrdp/xrdp.ini''"
definition xrdpPortName :: string where "xrdpPortName = ''xrdp port''"
definition keyPort :: string where "keyPort = ''port''"

text \<open>
  The regular expression for one TCP port. Digits hold no colon, so the colon before them is the
  last one of the value.
\<close>

definition re_space :: "char \<Rightarrow> bool" where
  "re_space c \<longleftrightarrow> c \<in> {CHR '' '', CHR 9, CHR 10, CHR 12, CHR 13}"

definition digits :: "string \<Rightarrow> bool" where
  "digits s \<longleftrightarrow> s \<noteq> [] \<and> list_all is_digit s"

definition tcp_prefix :: "string \<Rightarrow> bool" where
  "tcp_prefix p \<longleftrightarrow>
     (\<exists>h \<in> set [''tcp://'', ''tcp6://'']. HasPrefix p h \<and> length h < length p \<and> list_all (\<lambda>c. \<not> re_space c) (drop (length h) p) \<and>
        last p = CHR '':'')"

definition xrdpPortValue :: "string \<Rightarrow> (string \<times> string) option" where
  "xrdpPortValue v =
     (if digits v then Some ([], v)
      else (case last_index CHR '':'' v of
              None \<Rightarrow> None
            | Some i \<Rightarrow>
                if tcp_prefix (take (i + 1) v) \<and> digits (drop (i + 1) v) then Some (take (i + 1) v, drop (i + 1) v)
                else None))"

record xrdpListener =
  xl_lines :: "string list"
  xl_line :: "nat option"
  xl_globals :: "nat option"
  xl_value :: string
  xl_prefix :: string
  xl_port :: int

definition globalsSection :: string where "globalsSection = ''[Globals]''"

definition globalsPort :: "string \<Rightarrow> string \<Rightarrow> string option" where
  "globalsPort section line =
     (case cut CHR ''='' line of
        (key, value, found) \<Rightarrow>
          if section \<noteq> globalsSection \<or> \<not> found \<or> TrimSpace key \<noteq> keyPort then None else Some (TrimSpace value))"

datatype listener_error = ListenerRead file_error | NotOnePort string

definition is_header :: "string \<Rightarrow> bool" where
  "is_header line \<longleftrightarrow> HasPrefix line ''['' \<and> HasSuffix line '']''"

definition mark_globals :: "nat \<Rightarrow> string \<Rightarrow> xrdpListener \<Rightarrow> xrdpListener" where
  "mark_globals i section l = (if section = globalsSection \<and> xl_globals l = None then l\<lparr>xl_globals := Some i\<rparr> else l)"

definition set_value :: "nat \<Rightarrow> string \<Rightarrow> xrdpListener \<Rightarrow> xrdpListener" where
  "set_value i v l = l\<lparr>xl_line := Some i, xl_value := v\<rparr>"

definition set_port :: "string \<Rightarrow> string \<Rightarrow> xrdpListener \<Rightarrow> xrdpListener" where
  "set_port prefix ds l = l\<lparr>xl_prefix := prefix, xl_port := fst (Atoi_full ds)\<rparr>"

fun scan_ini :: "nat \<Rightarrow> string \<Rightarrow> string list \<Rightarrow> xrdpListener \<Rightarrow> listener_error option \<times> xrdpListener" where
  "scan_ini i section [] l = (None, l)"
| "scan_ini i section (raw # rest) l =
     (let line = TrimSpace raw in
      if is_header line then scan_ini (Suc i) line rest (mark_globals i line l)
      else (case globalsPort section line of
              None \<Rightarrow> scan_ini (Suc i) section rest l
            | Some v \<Rightarrow>
                (case xrdpPortValue v of
                   None \<Rightarrow> (Some (NotOnePort v), set_value i v l)
                 | Some (prefix, ds) \<Rightarrow> scan_ini (Suc i) section rest (set_port prefix ds (set_value i v l)))))"

definition new_listener :: "string list \<Rightarrow> xrdpListener" where
  "new_listener ls = \<lparr>xl_lines = ls, xl_line = None, xl_globals = None, xl_value = [], xl_prefix = [], xl_port = defaultRDPPort\<rparr>"

definition parse_listener :: "string \<Rightarrow> listener_error option \<times> xrdpListener" where
  "parse_listener data = (let ls = split_on (CHR 10) data in scan_ini 0 [] ls (new_listener ls))"

definition readXRDPListener :: "'s Runner \<Rightarrow> 's \<Rightarrow> listener_error option \<times> xrdpListener" where
  "readXRDPListener r st =
     (case r_ReadFile r xrdpINIPath st of
        Inl e \<Rightarrow> (Some (ListenerRead e), (new_listener [])\<lparr>xl_port := 0\<rparr>)
      | Inr data \<Rightarrow> parse_listener data)"

definition port_entry :: "string \<Rightarrow> int \<Rightarrow> string" where
  "port_entry prefix port = ''port='' @ prefix @ Itoa port"

definition insert_at :: "nat \<Rightarrow> 'a \<Rightarrow> 'a list \<Rightarrow> 'a list" where
  "insert_at i x xs = take i xs @ x # drop i xs"

definition withPort :: "xrdpListener \<Rightarrow> int \<Rightarrow> string" where
  "withPort l port =
     (let entry = port_entry (xl_prefix l) port in
      join [CHR 10]
        (case xl_line l of
           Some i \<Rightarrow> (xl_lines l)[i := entry]
         | None \<Rightarrow> insert_at (case xl_globals l of Some g \<Rightarrow> g + 1 | None \<Rightarrow> 0) entry (xl_lines l)))"

definition listener_error_text :: "listener_error \<Rightarrow> string" where
  "listener_error_text e = (case e of
     ListenerRead fe \<Rightarrow> file_error_text fe
   | NotOnePort v \<Rightarrow> xrdpINIPath @ '' sets port='' @ v @ '', which is not one TCP port'')"

definition xrdpPortRead :: "'s Runner \<Rightarrow> int \<Rightarrow> 's \<Rightarrow> xrdpListener \<times> SetupStep \<times> bool" where
  "xrdpPortRead r declared st =
     (case readXRDPListener r st of
        (Some (ListenerRead (FileMissing _)), l) \<Rightarrow>
          if declared = defaultRDPPort then (l, zeroStep, False)
          else (l, newStep xrdpPortName OutcomeFailed
                    (''Cannot apply RDP port '' @ Itoa declared @ '': '' @ xrdpINIPath @ '' not found'')
                    ''install xrdp, then re-run ts-bridge host setup'', True)
      | (Some e, l) \<Rightarrow>
          (l, newStep xrdpPortName OutcomeFailed (''Cannot read the xrdp listener: '' @ listener_error_text e)
               (''set port='' @ Itoa declared @ '' in the [Globals] section of '' @ xrdpINIPath @ '' and restart xrdp''), True)
      | (None, l) \<Rightarrow>
          if xl_port l = declared then
            (l, newStep xrdpPortName OutcomeOK (''xrdp listens on TCP '' @ Itoa declared) [], declared \<noteq> defaultRDPPort)
          else if xl_line l = None \<and> xl_globals l = None then
            (l, newStep xrdpPortName OutcomeFailed
                 (''Cannot apply RDP port '' @ Itoa declared @ '': '' @ xrdpINIPath @ '' has no [Globals] section'')
                 (''add a [Globals] section with port='' @ Itoa declared @ '' to '' @ xrdpINIPath @ '' and restart xrdp''), True)
          else
            (l, newStep xrdpPortName OutcomeChanged
                 (''xrdp listens on TCP '' @ Itoa (xl_port l) @ '', not the declared '' @ Itoa declared)
                 ''run ts-bridge host setup as root'', True))"

definition xrdpPortCheckStep :: "'s Runner \<Rightarrow> int \<Rightarrow> 's \<Rightarrow> SetupStep \<times> bool" where
  "xrdpPortCheckStep r declared st = snd (xrdpPortRead r declared st)"

definition xrdpPortSetupStep :: "'s Runner \<Rightarrow> int \<Rightarrow> 's \<Rightarrow> (SetupStep \<times> bool) \<times> 's" where
  "xrdpPortSetupStep r declared st =
     (case xrdpPortRead r declared st of
        (l, step, included) \<Rightarrow>
          if st_Outcome step \<noteq> OutcomeChanged then ((step, included), st)
          else (case r_WriteFile r xrdpINIPath (withPort l declared) st of
                  (Some e, st1) \<Rightarrow>
                    ((newStep xrdpPortName OutcomeFailed (''Could not write '' @ xrdpINIPath @ '': '' @ e)
                       (''set port='' @ Itoa declared @ '' in the [Globals] section of '' @ xrdpINIPath @ '', as root, and restart xrdp''), True), st1)
                | (None, st1) \<Rightarrow>
                    (case r_Run r [''systemctl'', ''restart'', ''xrdp''] st1 of
                       (Some e, st2) \<Rightarrow>
                         ((newStep xrdpPortName OutcomeFailed
                             (''xrdp set to TCP '' @ Itoa declared @ '', but restarting it failed: '' @ e)
                             ''run `systemctl restart xrdp` as root'', True), st2)
                     | (None, st2) \<Rightarrow>
                         ((newStep xrdpPortName OutcomeChanged
                             (''xrdp listens on TCP '' @ Itoa declared @ '' (was '' @ Itoa (xl_port l) @ ''); xrdp restarted'') [], True), st2))))"

subsection \<open>Reading what was written\<close>

definition prefix_ok :: "string \<Rightarrow> bool" where
  "prefix_ok pre \<longleftrightarrow> pre = [] \<or> tcp_prefix pre"

lemma tcp_prefix_shape:
  assumes "tcp_prefix p"
  shows "p \<noteq> [] \<and> hd p = CHR ''t'' \<and> last p = CHR '':'' \<and> CHR 10 \<notin> set p"
proof -
  obtain h where h: "h \<in> set [''tcp://'', ''tcp6://'']" "HasPrefix p h" "list_all (\<lambda>c. \<not> re_space c) (drop (length h) p)"
    and l: "last p = CHR '':''" using assms unfolding tcp_prefix_def by blast
  from h(2) obtain x where x: "p = h @ x" by (auto simp: HasPrefix_iff)
  with h(3) have "CHR 10 \<notin> set x" by (auto simp: list_all_iff re_space_def)
  with h(1) l show ?thesis by (auto simp: x)
qed

lemma Itoa_is_digits: "0 \<le> n \<Longrightarrow> digits (Itoa n)"
  using Itoa_nonneg_digits by (auto simp: digits_def list_all_iff)

lemma Itoa_no_char: "0 \<le> n \<Longrightarrow> \<not> is_digit c \<Longrightarrow> c \<notin> set (Itoa n)"
  using Itoa_nonneg_digits by blast

lemma last_Itoa_graphic: "graphic (last (Itoa n))"
  using Itoa_graphic [of n] last_in_set [OF Itoa_not_Nil] by blast

lemma xrdpPortValue_Some: "xrdpPortValue v = Some (pre, ds) \<Longrightarrow> prefix_ok pre"
  by (auto simp: xrdpPortValue_def prefix_ok_def split: if_splits option.splits)

lemma xrdpPortValue_entry:
  assumes "prefix_ok pre" and "0 \<le> n"
  shows "xrdpPortValue (pre @ Itoa n) = Some (pre, Itoa n)"
proof (cases "pre = []")
  case False
  then have t: "tcp_prefix pre" "pre \<noteq> []" "hd pre = CHR ''t''" "last pre = CHR '':''"
    using assms(1) tcp_prefix_shape by (auto simp: prefix_ok_def)
  have p: "pre @ Itoa n = butlast pre @ CHR '':'' # Itoa n" using t(2,4) by (metis append_Cons append_Nil append_assoc append_butlast_last_id)
  have "CHR '':'' \<notin> set (Itoa n)" using assms(2) by (intro Itoa_no_char) (auto simp: is_digit_def)
  then have "last_index CHR '':'' (pre @ Itoa n) = Some (length pre - 1)" unfolding p by (simp add: last_index_append)
  moreover have "\<not> digits (pre @ Itoa n)"
    using t(2,3) by (cases pre) (auto simp: digits_def is_digit_def)
  moreover have "length pre - 1 + 1 = length pre" using t(2) by (cases pre) auto
  ultimately show ?thesis using t(1) Itoa_is_digits [OF assms(2)] by (simp add: xrdpPortValue_def)
qed (simp add: xrdpPortValue_def Itoa_is_digits assms(2))

lemma graphic_letters: "graphic CHR ''p''" "graphic CHR ''t''"
  by code_simp+

lemma port_entry_line:
  assumes "prefix_ok pre" and "0 \<le> n"
  shows "TrimSpace (port_entry pre n) = port_entry pre n" "\<not> HasPrefix (port_entry pre n) ''[''"
    "globalsPort globalsSection (port_entry pre n) = Some (pre @ Itoa n)" "CHR 10 \<notin> set (port_entry pre n)"
proof -
  have l: "last (x @ Itoa n) = last (Itoa n)" for x by simp
  show "TrimSpace (port_entry pre n) = port_entry pre n"
    using last_Itoa_graphic [of n] graphic_letters l [of "''port='' @ pre"] by (intro TrimSpace_id) (simp_all add: port_entry_def)
  show "\<not> HasPrefix (port_entry pre n) ''[''" by (simp add: port_entry_def)
  have "graphic (hd (pre @ Itoa n))"
    using assms(1) tcp_prefix_shape [of pre] graphic_letters Itoa_graphic [of n] hd_in_set [OF Itoa_not_Nil]
    by (cases "pre = []") (auto simp: prefix_ok_def)
  then have "TrimSpace (pre @ Itoa n) = pre @ Itoa n"
    using last_Itoa_graphic [of n] l [of pre] by (intro TrimSpace_id) simp_all
  moreover have "TrimSpace ''port'' = ''port''" by code_simp
  moreover have "cut CHR ''='' (''port='' @ pre @ Itoa n) = (''port'', pre @ Itoa n, True)"
    using cut_found [of "CHR ''=''" "''port''" "pre @ Itoa n"] by simp
  ultimately show "globalsPort globalsSection (port_entry pre n) = Some (pre @ Itoa n)"
    by (simp add: globalsPort_def port_entry_def keyPort_def)
  show "CHR 10 \<notin> set (port_entry pre n)"
    using assms tcp_prefix_shape [of pre] Itoa_no_char [OF assms(2), of "CHR 10"]
    by (auto simp: port_entry_def prefix_ok_def is_digit_def)
qed

lemma scan_cases:
  obtains (header) "is_header (TrimSpace raw)" "\<And>i rest l. scan_ini i sec (raw # rest) l = scan_ini (Suc i) (TrimSpace raw) rest (mark_globals i (TrimSpace raw) l)"
  | (other) "\<And>i rest l. scan_ini i sec (raw # rest) l = scan_ini (Suc i) sec rest l"
  | (port) v pre ds where "sec = globalsSection" "prefix_ok pre"
      "\<And>i rest l. scan_ini i sec (raw # rest) l = scan_ini (Suc i) sec rest (set_port pre ds (set_value i v l))"
  | (bad) v where "\<And>i rest l. scan_ini i sec (raw # rest) l = (Some (NotOnePort v), set_value i v l)"
proof -
  consider "is_header (TrimSpace raw)" | "\<not> is_header (TrimSpace raw)" "globalsPort sec (TrimSpace raw) = None"
    | v where "\<not> is_header (TrimSpace raw)" "globalsPort sec (TrimSpace raw) = Some v" "xrdpPortValue v = None"
    | v pre ds where "\<not> is_header (TrimSpace raw)" "globalsPort sec (TrimSpace raw) = Some v" "xrdpPortValue v = Some (pre, ds)"
    by (cases "globalsPort sec (TrimSpace raw)"; cases "xrdpPortValue (the (globalsPort sec (TrimSpace raw)))") auto
  then show ?thesis
  proof cases
    case 4
    then have "sec = globalsSection" by (auto simp: globalsPort_def split: prod.splits if_splits)
    then show ?thesis using 4 port [of pre ds v] xrdpPortValue_Some [of v pre ds] by (simp add: Let_def)
  qed (use header other bad in \<open>simp_all add: Let_def\<close>)
qed

lemma mark_globals_simps [simp]:
  "xl_line (mark_globals i sec l) = xl_line l" "xl_lines (mark_globals i sec l) = xl_lines l"
  "xl_prefix (mark_globals i sec l) = xl_prefix l" "xl_port (mark_globals i sec l) = xl_port l"
  "xl_globals l \<noteq> None \<Longrightarrow> mark_globals i sec l = l" "xl_globals (mark_globals i globalsSection l) \<noteq> None"
  "sec \<noteq> globalsSection \<Longrightarrow> mark_globals i sec l = l"
  by (simp_all add: mark_globals_def)

lemma set_port_simps [simp]:
  "xl_line (set_port pre ds (set_value i v l)) = Some i" "xl_lines (set_port pre ds (set_value i v l)) = xl_lines l"
  "xl_globals (set_port pre ds (set_value i v l)) = xl_globals l" "xl_prefix (set_port pre ds (set_value i v l)) = pre"
  "xl_port (set_port pre ds (set_value i v l)) = fst (Atoi_full ds)"
  by (simp_all add: set_port_def set_value_def)

lemma scan_entry:
  assumes "prefix_ok pre" and "0 \<le> n" and "int64_range n"
  shows "scan_ini i globalsSection (port_entry pre n # rest) l =
    scan_ini (Suc i) globalsSection rest (set_port pre (Itoa n) (set_value i (pre @ Itoa n) l))"
  using assms by (simp add: port_entry_line xrdpPortValue_entry is_header_def Let_def)

declare scan_ini.simps(2) [simp del]

lemma scan_ini_frame:
  "scan_ini i sec ls l = (None, l') \<Longrightarrow> xl_lines l' = xl_lines l \<and> (prefix_ok (xl_prefix l) \<longrightarrow> prefix_ok (xl_prefix l')) \<and>
     (xl_line l' = xl_line l \<or> (\<exists>j. xl_line l' = Some j \<and> i \<le> j \<and> j < i + length ls)) \<and>
     (\<forall>g. xl_globals l = Some g \<longrightarrow> xl_globals l' = Some g)"
proof (induction ls arbitrary: i sec l)
  case (Cons raw rest)
  show ?case
  proof (rule scan_cases [of raw sec])
    assume h: "\<And>i rest l. scan_ini i sec (raw # rest) l = scan_ini (Suc i) (TrimSpace raw) rest (mark_globals i (TrimSpace raw) l)"
    show ?thesis using Cons.IH [OF Cons.prems [unfolded h]] by (auto dest: Suc_leD)
  next
    assume q: "\<And>i rest l. scan_ini i sec (raw # rest) l = scan_ini (Suc i) sec rest l"
    show ?thesis using Cons.IH [OF Cons.prems [unfolded q]] by (auto dest: Suc_leD)
  next
    fix v pr ds
    assume k: "prefix_ok pr"
      and p: "\<And>i rest l. scan_ini i sec (raw # rest) l = scan_ini (Suc i) sec rest (set_port pr ds (set_value i v l))"
    show ?thesis using Cons.IH [OF Cons.prems [unfolded p]] k by (auto dest: Suc_leD)
  qed (use Cons.prems in simp)
qed simp

lemmas scan_ini_line = scan_ini_frame [THEN conjunct2, THEN conjunct2, THEN conjunct1]

text \<open>When no port line is found, none is found from any index and state, and the port stays.\<close>

lemma scan_ini_quiet:
  assumes "scan_ini i sec ls l = (None, l')" and "xl_line l' = xl_line l" and "\<forall>j. xl_line l = Some j \<longrightarrow> j < i"
  shows "\<exists>m'. scan_ini k sec ls m = (None, m') \<and> xl_port m' = xl_port m"
  using assms
proof (induction ls arbitrary: i k sec l m)
  case (Cons raw rest)
  show ?case
  proof (rule scan_cases [of raw sec])
    fix v pre ds
    assume p: "\<And>i rest l. scan_ini i sec (raw # rest) l = scan_ini (Suc i) sec rest (set_port pre ds (set_value i v l))"
    show ?thesis using scan_ini_line [OF Cons.prems(1) [unfolded p]] Cons.prems(2,3) by auto
  next
    assume h: "\<And>i rest l. scan_ini i sec (raw # rest) l = scan_ini (Suc i) (TrimSpace raw) rest (mark_globals i (TrimSpace raw) l)"
    show ?thesis
      unfolding h using Cons.IH [OF Cons.prems(1) [unfolded h], of "Suc k" "mark_globals k (TrimSpace raw) m"] Cons.prems(2,3)
      by (auto simp: less_Suc_eq)
  next
    assume q: "\<And>i rest l. scan_ini i sec (raw # rest) l = scan_ini (Suc i) sec rest l"
    show ?thesis
      unfolding q using Cons.IH [OF Cons.prems(1) [unfolded q], of "Suc k" m] Cons.prems(2,3) by (auto simp: less_Suc_eq)
  qed (use Cons.prems(1) in simp)
qed simp

lemma scan_entry_quiet:
  assumes "scan_ini i globalsSection ls l = (None, l')" and "xl_line l' = xl_line l" and "\<forall>j. xl_line l = Some j \<longrightarrow> j < i"
    and "prefix_ok pre" "0 \<le> n" "int64_range n"
  shows "\<exists>m'. scan_ini k globalsSection (port_entry pre n # ls) m = (None, m') \<and> xl_port m' = n"
  unfolding scan_entry [OF assms(4-6)]
  using scan_ini_quiet [OF assms(1-3), of "Suc k" "set_port pre (Itoa n) (set_value k (pre @ Itoa n) m)"] assms(6)
  by (simp add: Atoi_full_Itoa)

lemma scan_ini_rewritten:
  assumes "scan_ini i sec ls l = (None, l')" and "xl_line l' = Some j" and "i \<le> j" and "\<forall>k. xl_line l = Some k \<longrightarrow> k < i"
    and n: "prefix_ok pre" "0 \<le> n" "int64_range n"
  shows "\<exists>m'. scan_ini i sec (ls[j - i := port_entry pre n]) m = (None, m') \<and> xl_port m' = n"
  using assms(1-4)
proof (induction ls arbitrary: i sec l m)
  case (Cons raw rest)
  have step: "(raw # rest)[j - i := port_entry pre n] = raw # rest[j - Suc i := port_entry pre n]" if "i < j"
  proof -
    have "j - i = Suc (j - Suc i)" using that by simp
    then show ?thesis by simp
  qed
  show ?case
  proof (rule scan_cases [of raw sec])
    assume h: "\<And>i rest l. scan_ini i sec (raw # rest) l = scan_ini (Suc i) (TrimSpace raw) rest (mark_globals i (TrimSpace raw) l)"
    note s = Cons.prems(1) [unfolded h]
    have "i < j" using scan_ini_line [OF s] Cons.prems(2-4) by (fastforce dest: sym)
    then show ?thesis
      unfolding step [OF \<open>i < j\<close>] h using Cons.IH [OF s] Cons.prems(2,4) by (auto simp: less_Suc_eq)
  next
    assume q: "\<And>i rest l. scan_ini i sec (raw # rest) l = scan_ini (Suc i) sec rest l"
    note s = Cons.prems(1) [unfolded q]
    have "i < j" using scan_ini_line [OF s] Cons.prems(2-4) by (fastforce dest: sym)
    then show ?thesis
      unfolding step [OF \<open>i < j\<close>] q using Cons.IH [OF s] Cons.prems(2,4) by (auto simp: less_Suc_eq)
  next
    fix v pr ds
    assume g: "sec = globalsSection"
      and p: "\<And>i rest l. scan_ini i sec (raw # rest) l = scan_ini (Suc i) sec rest (set_port pr ds (set_value i v l))"
    note s = Cons.prems(1) [unfolded p]
    show ?thesis
    proof (cases "j = i")
      case True
      then show ?thesis using scan_entry_quiet [OF s [unfolded g] _ _ n] Cons.prems(2) g by simp
    next
      case False
      then have "i < j" using Cons.prems(3) by simp
      then show ?thesis unfolding step [OF \<open>i < j\<close>] p using Cons.IH [OF s] Cons.prems(2) by auto
    qed
  qed (use Cons.prems(1) in simp)
qed simp

lemma scan_ini_inserted:
  assumes "scan_ini i sec ls l = (None, l')" and "xl_line l' = None" "xl_line l = None" and "xl_globals l = None" "xl_globals l' = Some g"
    and n: "prefix_ok pre" "0 \<le> n" "int64_range n"
  shows "i \<le> g \<and> (\<exists>m'. scan_ini i sec (insert_at (g + 1 - i) (port_entry pre n) ls) m = (None, m') \<and> xl_port m' = n)"
  using assms(1-5)
proof (induction ls arbitrary: i sec l m)
  case (Cons raw rest)
  have step: "insert_at (g + 1 - i) x (raw # rest) = raw # insert_at (g + 1 - Suc i) x rest" if "i \<le> g" for x
    using that by (simp add: insert_at_def Suc_diff_le)
  show ?case
  proof (rule scan_cases [of raw sec])
    assume h: "\<And>i rest l. scan_ini i sec (raw # rest) l = scan_ini (Suc i) (TrimSpace raw) rest (mark_globals i (TrimSpace raw) l)"
    note s = Cons.prems(1) [unfolded h]
    show ?thesis
    proof (cases "TrimSpace raw = globalsSection")
      case True
      then have "g = i" using scan_ini_frame [OF s] Cons.prems(4,5) by (simp add: mark_globals_def)
      then have e: "insert_at (g + 1 - i) x (raw # rest) = raw # x # rest" for x by (simp add: insert_at_def)
      show ?thesis
        unfolding e h unfolding True
        using scan_entry_quiet [OF s [unfolded True] _ _ n] Cons.prems(2,3) \<open>g = i\<close> by simp
    next
      case False
      have "Suc i \<le> g \<and> (\<exists>m'. scan_ini (Suc i) (TrimSpace raw) (insert_at (g + 1 - Suc i) (port_entry pre n) rest)
          (mark_globals i (TrimSpace raw) m) = (None, m') \<and> xl_port m' = n)"
        using Cons.IH [OF s] Cons.prems(2-5) False by simp
      then show ?thesis using step h by simp
    qed
  next
    assume q: "\<And>i rest l. scan_ini i sec (raw # rest) l = scan_ini (Suc i) sec rest l"
    note s = Cons.prems(1) [unfolded q]
    have "Suc i \<le> g \<and> (\<exists>m'. scan_ini (Suc i) sec (insert_at (g + 1 - Suc i) (port_entry pre n) rest) m = (None, m') \<and> xl_port m' = n)"
      using Cons.IH [OF s] Cons.prems(2-5) by simp
    then show ?thesis using step q by simp
  next
    fix v pr ds
    assume p: "\<And>i rest l. scan_ini i sec (raw # rest) l = scan_ini (Suc i) sec rest (set_port pr ds (set_value i v l))"
    show ?thesis using scan_ini_line [OF Cons.prems(1) [unfolded p]] Cons.prems(2) by auto
  qed (use Cons.prems(1) in simp)
qed simp

lemma withPort_read:
  assumes "parse_listener data = (None, l)" and "xl_line l \<noteq> None \<or> xl_globals l \<noteq> None" and "valid_port n"
  shows "\<exists>l'. parse_listener (withPort l n) = (None, l') \<and> xl_port l' = n"
proof -
  let ?ls = "split_on (CHR 10) data"
  have s: "scan_ini 0 [] ?ls (new_listener ?ls) = (None, l)" using assms(1) by (simp add: parse_listener_def Let_def)
  note f = scan_ini_frame [OF s]
  have l: "xl_lines l = ?ls" "prefix_ok (xl_prefix l)" using f by (auto simp: new_listener_def prefix_ok_def)
  have n: "0 \<le> n" "int64_range n" using assms(3) valid_port_int64 by (auto simp: valid_port_def)
  have plain: "\<forall>x \<in> set ?ls. CHR 10 \<notin> set x" using split_on_no_sep by metis
  note e = port_entry_line(4) [OF l(2) n(1)]
  have new: "xl_line (new_listener ?ls) = None" "xl_globals (new_listener ?ls) = None" by (simp_all add: new_listener_def)
  show ?thesis
  proof (cases "xl_line l")
    case (Some j)
    let ?new = "?ls[j := port_entry (xl_prefix l) n]"
    have "split_on (CHR 10) (withPort l n) = ?new"
      unfolding withPort_def Let_def Some l(1) option.simps
      using plain e by (intro split_on_join) (auto dest!: set_update_subset_insert [THEN subsetD])
    then show ?thesis
      using scan_ini_rewritten [OF s Some _ _ l(2) n, of "new_listener ?new"] new by (simp add: parse_listener_def Let_def)
  next
    case None
    then obtain g where g: "xl_globals l = Some g" using assms(2) by auto
    let ?new = "insert_at (g + 1) (port_entry (xl_prefix l) n) ?ls"
    have "split_on (CHR 10) (withPort l n) = ?new"
      unfolding withPort_def Let_def None g l(1) option.simps
      using plain e by (intro split_on_join) (auto simp: insert_at_def dest: in_set_takeD in_set_dropD)
    then show ?thesis
      using scan_ini_inserted [OF s None new(1,2) g l(2) n, of "new_listener ?new"] by (simp add: parse_listener_def Let_def)
  qed
qed

subsection \<open>Setting up, then checking\<close>

lemma xrdpPortRead_changed:
  assumes "xrdpPortRead r declared st = (l, step, inc)" and "st_Outcome step = OutcomeChanged"
  shows "\<exists>data. r_ReadFile r xrdpINIPath st = Inr data \<and> parse_listener data = (None, l) \<and>
    (xl_line l \<noteq> None \<or> xl_globals l \<noteq> None)"
  using assms
  by (auto simp: xrdpPortRead_def readXRDPListener_def zeroStep_def
      split: sum.splits prod.splits option.splits listener_error.splits file_error.splits if_splits)

lemma xrdpPortRead_declared:
  assumes "parse_listener data = (None, l)" and "xl_port l = declared" and "reads_as r xrdpINIPath st data"
  shows "st_Outcome (fst (xrdpPortCheckStep r declared st)) = OutcomeOK \<or>
    (\<exists>m. r_ReadFile r xrdpINIPath st = Inl (FileError m))"
  using assms by (auto simp: xrdpPortCheckStep_def xrdpPortRead_def readXRDPListener_def reads_as_def)

context machine
begin

lemma setup_then_check:
  assumes "ok st" and "xrdpPortSetupStep r declared st = ((step, inc), st')" and "valid_port declared"
    and "Succeeded (st_Outcome step)"
  shows "ok st' \<and> (st_Outcome (fst (xrdpPortCheckStep r declared st')) = OutcomeOK \<or>
    (\<exists>m. r_ReadFile r xrdpINIPath st' = Inl (FileError m)))"
proof -
  obtain l step0 inc0 where x: "xrdpPortRead r declared st = (l, step0, inc0)" by (metis prod_cases3)
  show ?thesis
  proof (cases "st_Outcome step0 = OutcomeChanged")
    case False
    then have "step = step0" "st' = st" using assms(2) x by (auto simp: xrdpPortSetupStep_def)
    then show ?thesis using assms(1,4) False x by (auto simp: Succeeded_def xrdpPortCheckStep_def)
  next
    case True
    from xrdpPortRead_changed [OF x True] obtain data where data: "r_ReadFile r xrdpINIPath st = Inr data"
      "parse_listener data = (None, l)" "xl_line l \<noteq> None \<or> xl_globals l \<noteq> None" by blast
    obtain e1 st1 where w: "r_WriteFile r xrdpINIPath (withPort l declared) st = (e1, st1)" by fastforce
    obtain e2 st2 where c: "r_Run r [''systemctl'', ''restart'', ''xrdp''] st1 = (e2, st2)" by fastforce
    have e: "e1 = None" "st' = st2"
      using assms(2,4) x w c True by (auto simp: xrdpPortSetupStep_def Succeeded_def split: option.splits)
    have o1: "ok st1 \<and> reads_as r xrdpINIPath st1 (withPort l declared)" using write_done [OF assms(1)] w e(1) by blast
    have o2: "ok st2 \<and> r_ReadFile r xrdpINIPath st2 = r_ReadFile r xrdpINIPath st1" using run_keeps c o1 by blast
    then have r2: "reads_as r xrdpINIPath st2 (withPort l declared)" using o1 by (simp add: reads_as_def)
    obtain l' where "parse_listener (withPort l declared) = (None, l')" "xl_port l' = declared"
      using withPort_read [OF data(2,3) assms(3)] by blast
    from xrdpPortRead_declared [OF this r2] show ?thesis using o2 e(2) by simp
  qed
qed

lemma setup_keeps_or_sets:
  assumes "ok st" and "xrdpPortSetupStep r declared st = ((step, inc), st')" and "r_ReadFile r xrdpINIPath st = Inr old"
  shows "reads_as r xrdpINIPath st' old \<or> reads_as r xrdpINIPath st' (withPort (fst (xrdpPortRead r declared st)) declared)"
proof -
  obtain l step0 inc0 where x: "xrdpPortRead r declared st = (l, step0, inc0)" by (metis prod_cases3)
  obtain e1 st1 where w: "r_WriteFile r xrdpINIPath (withPort l declared) st = (e1, st1)" by fastforce
  obtain e2 st2 where c: "r_Run r [''systemctl'', ''restart'', ''xrdp''] st1 = (e2, st2)" by fastforce
  consider "st' = st" | e where "e1 = Some e" "st' = st1" | "e1 = None" "st' = st2"
    using assms(2) x w c by (auto simp: xrdpPortSetupStep_def split: if_splits option.splits)
  then show ?thesis
  proof cases
    case 1
    then show ?thesis using assms(3) by (simp add: reads_as_def)
  next
    case 2
    then show ?thesis using write_failed [OF assms(1)] w assms(3) by blast
  next
    case 3
    have o1: "ok st1 \<and> reads_as r xrdpINIPath st1 (withPort l declared)" using write_done [OF assms(1)] w 3(1) by blast
    then have "r_ReadFile r xrdpINIPath st2 = r_ReadFile r xrdpINIPath st1" using run_keeps c by blast
    then show ?thesis using o1 3(2) x by (simp add: reads_as_def)
  qed
qed

end

text \<open>
  C26: host setup converges the xrdp port. On the real runner, with any system call failing, a
  setup step that reports success is followed by a check that finds xrdp on the declared port
  (unless the check cannot read the file at that moment), whatever the rest of \<open>xrdp.ini\<close> holds:
  an address before the port, several port lines, or none. A setup step that fails leaves the
  old file or the rewritten one, never a mixture.
\<close>

theorem xrdp_setup_then_check:
  assumes "xrdpPortSetupStep (execRunner c) declared (d, m) = ((step, inc), (d', m'))" and "disk_ok d" and "valid_port declared"
  shows "(Succeeded (st_Outcome step) \<longrightarrow>
      st_Outcome (fst (xrdpPortCheckStep (execRunner c) declared (d', m'))) = OutcomeOK \<or>
      (\<exists>e. r_ReadFile (execRunner c) xrdpINIPath (d', m') = Inl (FileError e))) \<and>
    (\<forall>old. r_ReadFile (execRunner c) xrdpINIPath (d, m) = Inr old \<longrightarrow>
      reads_as (execRunner c) xrdpINIPath (d', m') old \<or>
      reads_as (execRunner c) xrdpINIPath (d', m') (withPort (fst (xrdpPortRead (execRunner c) declared (d, m))) declared))"
proof -
  have ok: "case (d, m) of (d, m) \<Rightarrow> disk_ok d" using assms(2) by simp
  show ?thesis
    using exec.setup_then_check [OF ok assms(1,3)] exec.setup_keeps_or_sets [OF ok assms(1)] by blast
qed

definition sample_ini :: string where
  "sample_ini = join [CHR 10] [''[Globals]'', ''port=tcp://127.0.0.1:3389'', ''[Logging]'', ''port=1'']"

definition ini_disk :: disk where
  "ini_disk = (sample_disk (\<lambda>_. False))\<lparr>files := [xrdpINIPath \<mapsto> \<lparr>f_data = sample_ini, f_mode = 420\<rparr>],
     dirs := [''/etc/xrdp'' \<mapsto> 493]\<rparr>"

definition idle_commands :: "unit commands" where
  "idle_commands = \<lparr>c_run = (\<lambda>_ m. (None, m)), c_output = (\<lambda>_ _. ([], None)), c_lookpath = (\<lambda>_ _. True), c_elevated = (\<lambda>_. True)\<rparr>"

lemma ini_disk_ok: "disk_ok ini_disk"
  by (simp add: ini_disk_def disk_ok_def sample_disk_def)

lemma ini_setup:
  "st_Outcome (fst (fst (xrdpPortSetupStep (execRunner idle_commands) 3390 (ini_disk, ())))) = OutcomeChanged"
  by code_simp

theorem xrdp_setup_then_check_witness:
  "\<exists>d' m'. snd (xrdpPortSetupStep (execRunner idle_commands) 3390 (ini_disk, ())) = (d', m') \<and>
    (st_Outcome (fst (xrdpPortCheckStep (execRunner idle_commands) 3390 (d', m'))) = OutcomeOK \<or>
      (\<exists>e. r_ReadFile (execRunner idle_commands) xrdpINIPath (d', m') = Inl (FileError e)))"
proof -
  obtain step inc d' m' where s: "xrdpPortSetupStep (execRunner idle_commands) 3390 (ini_disk, ()) = ((step, inc), (d', m'))"
    by (metis surj_pair)
  have "Succeeded (st_Outcome step)" using ini_setup s by (simp add: Succeeded_def)
  then show ?thesis
    using xrdp_setup_then_check [OF s ini_disk_ok] s by (simp add: valid_port_def)
qed

end
