(* ===== verification/Host_Config.thy ===== *)
theory Host_Config
  imports Host_File Go_Json
begin

text \<open>
  \<open>internal/host/config.go\<close> and \<open>controlplane.go\<close>: the resolved host configuration and the
  control plane a host descriptor carries, with the laws of the whole host configuration: an
  accepted file is sound, and the resolved configuration takes each value from the strongest
  layer that has it.
\<close>

subsection \<open>Flags, environment and file\<close>

record HostFlags =
  hf_FirewallRule :: string
  hf_NoSleep :: bool
  hf_NoSleepSet :: bool
  hf_Port :: int
  hf_Verbose :: bool
  hf_VerboseSet :: bool
  hf_LogFormat :: string

record DeclaredService =
  ds_Kind :: string
  ds_Port :: int

record HostConfig =
  hc_FirewallRule :: string
  hc_NoSleep :: bool
  hc_Port :: int
  hc_PortDeclared :: bool
  hc_Verbose :: bool
  hc_LogFormat :: string
  hc_Services :: "DeclaredService list"
  hc_ControlURL :: string

definition defaultFirewallRuleName :: string where "defaultFirewallRuleName = ''Tailscale-RDP-Ingress''"
definition defaultLogFormat :: string where "defaultLogFormat = ''text''"
definition logFormatJSON :: string where "logFormatJSON = ''json''"

definition host_defaults :: HostConfig where
  "host_defaults = \<lparr>hc_FirewallRule = defaultFirewallRuleName, hc_NoSleep = False, hc_Port = defaultRDPPort,
     hc_PortDeclared = False, hc_Verbose = False, hc_LogFormat = defaultLogFormat, hc_Services = [], hc_ControlURL = []\<rparr>"

definition port_for :: "string \<Rightarrow> int" where
  "port_for kind = (case defaultPorts kind of Some p \<Rightarrow> p | None \<Rightarrow> 0)"

definition defaultsFor :: "string \<Rightarrow> HostConfig" where
  "defaultsFor goos =
     (let kind = (if goos = goosDarwin then ServiceSSH else ServiceRDP) in
      host_defaults\<lparr>hc_Services := [\<lparr>ds_Kind = kind, ds_Port = port_for kind\<rparr>]\<rparr>)"

definition service_port :: "FileService \<Rightarrow> int" where
  "service_port s = (case fs_Port s of Some p \<Rightarrow> p | None \<Rightarrow> port_for (fs_Kind s))"

fun apply_services :: "FileService list \<Rightarrow> HostConfig \<Rightarrow> HostConfig" where
  "apply_services [] cfg = cfg"
| "apply_services (s # ss) cfg =
     (let cfg1 = cfg\<lparr>hc_Services := hc_Services cfg @ [\<lparr>ds_Kind = fs_Kind s, ds_Port = service_port s\<rparr>]\<rparr>;
          cfg2 = (if fs_Kind s = ServiceRDP then cfg1\<lparr>hc_Port := service_port s, hc_PortDeclared := (fs_Port s \<noteq> None)\<rparr>
                  else cfg1)
      in apply_services ss cfg2)"

definition applyFile :: "FileHost \<Rightarrow> HostConfig \<Rightarrow> HostConfig" where
  "applyFile h cfg =
     (let c1 = (case fh_Services h of None \<Rightarrow> cfg | Some ss \<Rightarrow> apply_services ss (cfg\<lparr>hc_Services := []\<rparr>));
          c2 = (case Option.bind (fh_Firewall h) fw_Rule of None \<Rightarrow> c1 | Some r \<Rightarrow> c1\<lparr>hc_FirewallRule := r\<rparr>);
          c3 = (case Option.bind (fh_Power h) pw_PreventSleep of None \<Rightarrow> c2 | Some b \<Rightarrow> c2\<lparr>hc_NoSleep := \<not> b\<rparr>)
      in case fh_ControlURL h of None \<Rightarrow> c3 | Some u \<Rightarrow> c3\<lparr>hc_ControlURL := u\<rparr>)"

text \<open>The second component is the warnings, as the key and the reason.\<close>

definition env_port :: "string \<Rightarrow> HostConfig \<Rightarrow> HostConfig \<times> (string \<times> string) list" where
  "env_port v cfg =
     (if v = [] then (cfg, [])
      else (case Atoi v of
              None \<Rightarrow> (cfg, [(''TS_HOST_RDP_PORT'', ''invalid integer'')])
            | Some p \<Rightarrow>
                if p < 1 \<or> 65535 < p then (cfg, [(''TS_HOST_RDP_PORT'', ''must be between 1 and 65535'')])
                else (cfg\<lparr>hc_Port := p, hc_PortDeclared := True\<rparr>, [])))"

definition env_log_format :: "string \<Rightarrow> HostConfig \<Rightarrow> HostConfig \<times> (string \<times> string) list" where
  "env_log_format v cfg =
     (if v = [] then (cfg, [])
      else if ToLower v \<noteq> defaultLogFormat \<and> ToLower v \<noteq> logFormatJSON then
        (cfg, [(''TS_HOST_LOG_FORMAT'', ''must be '' @ [CHR 0x27] @ ''text'' @ [CHR 0x27] @ '' or '' @ [CHR 0x27] @ ''json'' @ [CHR 0x27])])
      else (cfg\<lparr>hc_LogFormat := ToLower v\<rparr>, []))"

definition host_applyEnv :: "(string \<Rightarrow> string) \<Rightarrow> HostConfig \<Rightarrow> HostConfig \<times> (string \<times> string) list" where
  "host_applyEnv env cfg =
     (let rule = env ''TS_HOST_FIREWALL_RULE''; sleep = env ''TS_HOST_NO_SLEEP''; verb = env ''TS_HOST_VERBOSE'';
          c1 = (if rule \<noteq> [] then cfg\<lparr>hc_FirewallRule := rule\<rparr> else cfg);
          c2 = (if sleep \<noteq> [] then c1\<lparr>hc_NoSleep := parseBoolEnv sleep\<rparr> else c1);
          (c3, w1) = env_port (env ''TS_HOST_RDP_PORT'') c2;
          c4 = (if verb \<noteq> [] then c3\<lparr>hc_Verbose := parseBoolEnv verb\<rparr> else c3);
          (c5, w2) = env_log_format (env ''TS_HOST_LOG_FORMAT'') c4
      in (c5, w1 @ w2))"

definition host_applyFlags :: "HostFlags \<Rightarrow> HostConfig \<Rightarrow> HostConfig" where
  "host_applyFlags f cfg =
     (let c1 = (if hf_FirewallRule f \<noteq> [] then cfg\<lparr>hc_FirewallRule := hf_FirewallRule f\<rparr> else cfg);
          c2 = (if hf_NoSleepSet f then c1\<lparr>hc_NoSleep := hf_NoSleep f\<rparr> else c1);
          c3 = (if 0 < hf_Port f then c2\<lparr>hc_Port := hf_Port f, hc_PortDeclared := True\<rparr> else c2);
          c4 = (if hf_VerboseSet f then c3\<lparr>hc_Verbose := hf_Verbose f\<rparr> else c3)
      in if hf_LogFormat f \<noteq> [] then c4\<lparr>hc_LogFormat := hf_LogFormat f\<rparr> else c4)"

definition mirror_port :: "HostConfig \<Rightarrow> HostConfig" where
  "mirror_port cfg =
     cfg\<lparr>hc_Services := map (\<lambda>s. if ds_Kind s = ServiceRDP then s\<lparr>ds_Port := hc_Port cfg\<rparr> else s) (hc_Services cfg)\<rparr>"

definition Resolve :: "string \<Rightarrow> (string \<Rightarrow> string) \<Rightarrow> HostFile \<Rightarrow> HostFlags \<Rightarrow> HostConfig" where
  "Resolve goos env f flags =
     mirror_port (host_applyFlags flags (fst (host_applyEnv env (applyFile (f_Host f) (defaultsFor goos)))))"

definition host_Merge :: "string \<Rightarrow> (string \<Rightarrow> string) \<Rightarrow> HostFlags \<Rightarrow> HostConfig" where
  "host_Merge goos env flags = Resolve goos env empty_file flags"

definition LoadConfig :: "(string \<Rightarrow> string) \<Rightarrow> (rule_error, HostConfig) result" where
  "LoadConfig env =
     (let cfg = fst (host_applyEnv env host_defaults) in
      case sanitizeFirewallRule (hc_FirewallRule cfg) of Inl e \<Rightarrow> Inl e | Inr _ \<Rightarrow> Inr cfg)"

subsection \<open>The control plane\<close>

definition ControlPlaneSaaS :: string where "ControlPlaneSaaS = ''saas''"

definition hostSaasHosts :: "string list" where
  "hostSaasHosts = [''controlplane.tailscale.com'', ''login.tailscale.com'', ''control.tailscale.com'']"

definition classifyControlURL :: "string \<Rightarrow> string" where
  "classifyControlURL raw =
     (case url_Parse raw of
        Some u \<Rightarrow> if ToLower (u_Hostname u) \<in> set hostSaasHosts then ControlPlaneSaaS else raw
      | None \<Rightarrow> raw)"

text \<open>\<open>json.Unmarshal\<close> into the structure with the one field \<open>ControlURL\<close>.\<close>

definition prefs_ControlURL :: "string \<Rightarrow> string option" where
  "prefs_ControlURL out =
     (case json_Parse out of
        None \<Rightarrow> None
      | Some j \<Rightarrow> (case json_field as_string ''ControlURL'' j [] of (ok, u) \<Rightarrow> if ok then Some u else None))"

definition detectControlURL :: "'s Runner \<Rightarrow> 's \<Rightarrow> string" where
  "detectControlURL r s =
     (case r_Output r [''tailscale'', ''debug'', ''prefs''] s of
        (out, err) \<Rightarrow>
          if err \<noteq> None then []
          else (case prefs_ControlURL out of
                  None \<Rightarrow> []
                | Some u \<Rightarrow> let raw = TrimSpace u in if validateControlURL (Some raw) \<noteq> None then [] else raw))"

definition resolveControlPlane :: "string \<Rightarrow> 's Runner \<Rightarrow> 's \<Rightarrow> string" where
  "resolveControlPlane declared r s =
     classifyControlURL (if declared = [] then detectControlURL r s else declared)"

subsection \<open>Accepted files\<close>

text \<open>What the rest of the program may rely on in a host file.\<close>

definition loopback_addr :: "string \<Rightarrow> bool" where
  "loopback_addr a \<longleftrightarrow> (\<exists>h p. SplitHostPort a = Inr (h, p) \<and> loopback_host h \<and> port_of p \<noteq> None)"

definition sound_service :: "osCapability \<Rightarrow> FileService \<Rightarrow> bool" where
  "sound_service capab s \<longleftrightarrow>
     fs_Kind s \<in> set (k_kinds capab) \<and> fs_Kind s \<in> {ServiceRDP, ServiceSSH, ServiceVNC} \<and> (\<forall>p. fs_Port s = Some p \<longrightarrow> valid_port p)"

definition sound_mesh :: "string \<Rightarrow> bool \<Rightarrow> FileMesh \<Rightarrow> bool" where
  "sound_mesh goos hasControlURL m \<longleftrightarrow>
     Some [] \<notin> {m_BootstrapSSH m, m_BootstrapSOCKSAddr m, m_Hostname m, m_StateDir m, m_AuthKeyFile m, m_HealthAddr m} \<and>
     (\<forall>ep. m_BootstrapSSH m = Some ep \<longrightarrow> ValidateEndpoint ep = None \<and> hasControlURL) \<and>
     (\<forall>h. m_Hostname m = Some h \<longrightarrow> hostnameLabel h) \<and>
     (\<forall>p. Some p \<in> {m_StateDir m, m_AuthKeyFile m} \<longrightarrow> isAbsFor goos p) \<and>
     (\<forall>a. Some a \<in> {m_BootstrapSOCKSAddr m, m_HealthAddr m} \<longrightarrow> loopback_addr a)"

definition sound_file :: "string \<Rightarrow> osCapability \<Rightarrow> HostFile \<Rightarrow> bool" where
  "sound_file goos capab f \<longleftrightarrow>
     (let h = f_Host f in
      f_Version f = 1 \<and>
      (\<forall>ss. fh_Services h = Some ss \<longrightarrow> ss \<noteq> [] \<and> distinct (map fs_Kind ss) \<and> (\<forall>s \<in> set ss. sound_service capab s)) \<and>
      (\<forall>w. fh_Firewall h = Some w \<longrightarrow> k_firewallRule capab \<and>
         (\<forall>r. fw_Rule w = Some r \<longrightarrow> validFirewallRuleRe r \<and> length r \<le> 64)) \<and>
      (fh_Power h \<noteq> None \<longrightarrow> k_power capab) \<and>
      (\<forall>u. fh_ControlURL h = Some u \<longrightarrow> Validate u = None) \<and>
      (\<forall>m. fh_Mesh h = Some m \<longrightarrow> k_serve capab \<and> sound_mesh goos (fh_ControlURL h \<noteq> None) m))"

lemma defaultPorts_dom: "defaultPorts k \<noteq> None \<longleftrightarrow> k \<in> {ServiceRDP, ServiceSSH, ServiceVNC}"
  by (auto simp: defaultPorts_def)

lemma validateService_None: "validateService i s goos capab = None \<longleftrightarrow> sound_service capab s"
  using defaultPorts_dom [of "fs_Kind s"]
  by (auto simp: validateService_def sound_service_def valid_port_def not_less split: option.splits if_splits)

lemma validate_each_None:
  "validate_each i seen ss goos capab = None \<longleftrightarrow>
     distinct (map fs_Kind ss) \<and> set seen \<inter> fs_Kind ` set ss = {} \<and> (\<forall>s \<in> set ss. sound_service capab s)"
proof (induction ss arbitrary: i seen)
  case (Cons s ss)
  then show ?case using validateService_None [of i s goos capab] by (auto split: option.splits)
qed simp

lemma validateServices_None:
  "validateServices services goos capab = None \<longleftrightarrow>
     (\<forall>ss. services = Some ss \<longrightarrow> ss \<noteq> [] \<and> distinct (map fs_Kind ss) \<and> (\<forall>s \<in> set ss. sound_service capab s))"
  by (auto simp: validateServices_def validate_each_None simp del: validate_each.simps split: option.splits list.splits)

lemma validateFirewall_None:
  "validateFirewall fw goos capab = None \<longleftrightarrow>
     (\<forall>w. fw = Some w \<longrightarrow> k_firewallRule capab \<and> (\<forall>r. fw_Rule w = Some r \<longrightarrow> validFirewallRuleRe r \<and> length r \<le> 64))"
  by (auto simp: validateFirewall_def sanitizeFirewallRule_def maxFirewallRuleName_def validFirewallRuleRe_def
      split: option.splits sum.splits if_splits)

lemma Validate_Nil: "Validate [] \<noteq> None"
  by code_simp

lemma validateControlURL_None: "validateControlURL raw = None \<longleftrightarrow> (\<forall>u. raw = Some u \<longrightarrow> Validate u = None)"
  using Validate_Nil by (auto simp: validateControlURL_def split: option.splits list.splits)

lemma validateLoopbackAddr_None: "validateLoopbackAddr key addr = None \<longleftrightarrow> (\<forall>a. addr = Some a \<longrightarrow> loopback_addr a)"
proof (cases addr)
  case (Some a)
  have "(case Atoi p of None \<Rightarrow> Some (MeshPort key) | Some n \<Rightarrow> if n < 1 \<or> 65535 < n then Some (MeshPort key) else None) = None
    \<longleftrightarrow> port_of p \<noteq> None" for p
    by (auto simp: port_of_def valid_port_def split: option.splits)
  then show ?thesis
    unfolding Some validateLoopbackAddr_def loopback_addr_def by (cases "SplitHostPort a") (auto split: if_splits)
qed (simp add: validateLoopbackAddr_def)

lemma checkMeshEmpty_None:
  "checkMeshEmpty m = None \<longleftrightarrow>
     Some [] \<notin> {m_BootstrapSSH m, m_BootstrapSOCKSAddr m, m_Hostname m, m_StateDir m, m_AuthKeyFile m, m_HealthAddr m}"
  by (auto simp: checkMeshEmpty_def split: option.splits if_splits)

lemma checkMeshPaths_None:
  "checkMeshPaths m goos = None \<longleftrightarrow> (\<forall>p. Some p \<in> {m_StateDir m, m_AuthKeyFile m} \<longrightarrow> isAbsFor goos p)"
  by (auto simp: checkMeshPaths_def split: option.splits if_splits)

lemma validateMesh_None:
  "validateMesh mesh has goos capab = None \<longleftrightarrow> (\<forall>m. mesh = Some m \<longrightarrow> k_serve capab \<and> sound_mesh goos has m)"
proof (cases mesh)
  case (Some m)
  have "validateBootstrapSSH (m_BootstrapSSH m) has = None \<longleftrightarrow>
    (\<forall>ep. m_BootstrapSSH m = Some ep \<longrightarrow> ValidateEndpoint ep = None \<and> has)"
    by (auto simp: validateBootstrapSSH_def split: option.splits)
  moreover have "(case m_Hostname m of None \<Rightarrow> None | Some h \<Rightarrow> if hostnameLabel h then None else Some BadHostname) = None \<longleftrightarrow>
    (\<forall>h. m_Hostname m = Some h \<longrightarrow> hostnameLabel h)" by (auto split: option.splits)
  ultimately show ?thesis
    unfolding Some validateMesh_def sound_mesh_def
    by (simp add: checkMeshEmpty_None checkMeshPaths_None validateLoopbackAddr_None eq_commute [of "Some _" "m_BootstrapSOCKSAddr m"]
        eq_commute [of "Some _" "m_HealthAddr m"] all_conj_distrib)
qed (simp add: validateMesh_def)

lemma validate_file_None: "validate_file f goos capab = None \<longleftrightarrow> sound_file goos capab f"
  unfolding validate_file_def sound_file_def Let_def fileVersion_def
  by (simp add: validateServices_None validateFirewall_None validateControlURL_None validateMesh_None)

text \<open>
  C24: a host file is accepted exactly when it is sound. Loading gives a file if and only if the
  text decodes to it and it has version 1, declares each supported service at most once with a
  port in range, names a firewall rule or a power state only where the system has one, and has a
  valid control URL, loopback listeners, absolute paths, a DNS label and an endpoint safe to hand
  to ssh in its mesh section. Publication accepts the same files with an SSH service besides.
\<close>

theorem host_file_accepted_iff_sound:
  "(LoadFile y (Some data) goos = (Inr f, w) \<longleftrightarrow>
      decodeFile y data = (Inr f, w) \<and> sound_file goos (capabilityFor goos) f) \<and>
   (LoadServeFile y (Some data) goos = (Inr f, w) \<longleftrightarrow>
      decodeFile y data = (Inr f, w) \<and> sound_file goos (serve_capability goos) f)"
  by (auto simp: LoadFile_def LoadServeFile_def loadFile_def validate_file_None [symmetric]
      split: sum.splits option.splits prod.splits)

subsection \<open>The resolved configuration\<close>

text \<open>The value of the strongest layer: the flag, else the environment, else what is below.\<close>

definition strongest :: "'a option \<Rightarrow> 'a option \<Rightarrow> 'a \<Rightarrow> 'a" where
  "strongest flag env below = (case flag of Some v \<Rightarrow> v | None \<Rightarrow> (case env of Some v \<Rightarrow> v | None \<Rightarrow> below))"

definition given :: "string \<Rightarrow> string option" where
  "given v = (if v = [] then None else Some v)"

definition rdp_service :: "HostFile \<Rightarrow> FileService option" where
  "rdp_service f = Option.bind (fh_Services (f_Host f)) (find (\<lambda>s. fs_Kind s = ServiceRDP))"

definition log_format_of :: "string \<Rightarrow> string option" where
  "log_format_of v = (if ToLower v \<in> {defaultLogFormat, logFormatJSON} then Some (ToLower v) else None)"

lemma apply_services_fields [simp]:
  "hc_FirewallRule (apply_services ss cfg) = hc_FirewallRule cfg" "hc_NoSleep (apply_services ss cfg) = hc_NoSleep cfg"
  "hc_Verbose (apply_services ss cfg) = hc_Verbose cfg" "hc_LogFormat (apply_services ss cfg) = hc_LogFormat cfg"
  "hc_ControlURL (apply_services ss cfg) = hc_ControlURL cfg"
  by (induction ss arbitrary: cfg) (auto simp: Let_def)

lemma apply_services_list:
  "hc_Services (apply_services ss cfg) = hc_Services cfg @ map (\<lambda>s. \<lparr>ds_Kind = fs_Kind s, ds_Port = service_port s\<rparr>) ss"
  by (induction ss arbitrary: cfg) (auto simp: Let_def)

lemma apply_services_port:
  assumes "distinct (map fs_Kind ss)"
  shows "hc_Port (apply_services ss cfg) =
      (case find (\<lambda>s. fs_Kind s = ServiceRDP) ss of Some s \<Rightarrow> service_port s | None \<Rightarrow> hc_Port cfg)"
    and "hc_PortDeclared (apply_services ss cfg) =
      (case find (\<lambda>s. fs_Kind s = ServiceRDP) ss of Some s \<Rightarrow> fs_Port s \<noteq> None | None \<Rightarrow> hc_PortDeclared cfg)"
proof -
  have none: "find (\<lambda>s. fs_Kind s = ServiceRDP) ss = None" if "ServiceRDP \<notin> fs_Kind ` set ss" for ss
    using that by (auto simp: find_None_iff image_iff)
  show "hc_Port (apply_services ss cfg) =
      (case find (\<lambda>s. fs_Kind s = ServiceRDP) ss of Some s \<Rightarrow> service_port s | None \<Rightarrow> hc_Port cfg)"
    using assms by (induction ss arbitrary: cfg) (auto simp: Let_def none split: option.splits)
  show "hc_PortDeclared (apply_services ss cfg) =
      (case find (\<lambda>s. fs_Kind s = ServiceRDP) ss of Some s \<Rightarrow> fs_Port s \<noteq> None | None \<Rightarrow> hc_PortDeclared cfg)"
    using assms by (induction ss arbitrary: cfg) (auto simp: Let_def none split: option.splits)
qed

lemma fst_env_port:
  "fst (env_port v c) = (case port_of v of None \<Rightarrow> c | Some p \<Rightarrow> c\<lparr>hc_Port := p, hc_PortDeclared := True\<rparr>)"
proof (cases "v = []")
  case True
  have "port_of [] = None" by code_simp
  then show ?thesis by (simp add: env_port_def True)
qed (auto simp: env_port_def port_of_def valid_port_def split: option.splits)

lemma fst_env_log_format:
  "fst (env_log_format v c) = (case log_format_of v of None \<Rightarrow> c | Some m \<Rightarrow> c\<lparr>hc_LogFormat := m\<rparr>)"
  by (auto simp: env_log_format_def log_format_of_def defaultLogFormat_def logFormatJSON_def)

lemma host_applyEnv_fields:
  "hc_FirewallRule (fst (host_applyEnv env c)) = strongest None (given (env ''TS_HOST_FIREWALL_RULE'')) (hc_FirewallRule c)"
  "hc_NoSleep (fst (host_applyEnv env c)) = strongest None (map_option parseBoolEnv (given (env ''TS_HOST_NO_SLEEP''))) (hc_NoSleep c)"
  "hc_Verbose (fst (host_applyEnv env c)) = strongest None (map_option parseBoolEnv (given (env ''TS_HOST_VERBOSE''))) (hc_Verbose c)"
  "hc_Port (fst (host_applyEnv env c)) = strongest None (port_of (env ''TS_HOST_RDP_PORT'')) (hc_Port c)"
  "hc_PortDeclared (fst (host_applyEnv env c)) = (port_of (env ''TS_HOST_RDP_PORT'') \<noteq> None \<or> hc_PortDeclared c)"
  "hc_LogFormat (fst (host_applyEnv env c)) = strongest None (log_format_of (env ''TS_HOST_LOG_FORMAT'')) (hc_LogFormat c)"
  "hc_Services (fst (host_applyEnv env c)) = hc_Services c" "hc_ControlURL (fst (host_applyEnv env c)) = hc_ControlURL c"
  by (simp_all add: host_applyEnv_def case_prod_beta Let_def fst_env_port fst_env_log_format strongest_def given_def
      split: option.split)

lemma host_applyFlags_fields:
  "hc_FirewallRule (host_applyFlags f c) = (if hf_FirewallRule f \<noteq> [] then hf_FirewallRule f else hc_FirewallRule c)"
  "hc_NoSleep (host_applyFlags f c) = (if hf_NoSleepSet f then hf_NoSleep f else hc_NoSleep c)"
  "hc_Verbose (host_applyFlags f c) = (if hf_VerboseSet f then hf_Verbose f else hc_Verbose c)"
  "hc_Port (host_applyFlags f c) = (if 0 < hf_Port f then hf_Port f else hc_Port c)"
  "hc_PortDeclared (host_applyFlags f c) = (0 < hf_Port f \<or> hc_PortDeclared c)"
  "hc_LogFormat (host_applyFlags f c) = (if hf_LogFormat f \<noteq> [] then hf_LogFormat f else hc_LogFormat c)"
  "hc_Services (host_applyFlags f c) = hc_Services c" "hc_ControlURL (host_applyFlags f c) = hc_ControlURL c"
  by (auto simp: host_applyFlags_def Let_def)

lemma applyFile_port:
  assumes "sound_file goos capab f"
  shows "hc_Port (applyFile (f_Host f) c) = (case rdp_service f of Some s \<Rightarrow> service_port s | None \<Rightarrow> hc_Port c)"
    and "hc_PortDeclared (applyFile (f_Host f) c) = (case rdp_service f of Some s \<Rightarrow> fs_Port s \<noteq> None | None \<Rightarrow> hc_PortDeclared c)"
  using assms apply_services_port
  by (auto simp: sound_file_def applyFile_def rdp_service_def Let_def split: option.splits)

lemma applyFile_fields:
  "hc_FirewallRule (applyFile h c) = (case Option.bind (fh_Firewall h) fw_Rule of Some r \<Rightarrow> r | None \<Rightarrow> hc_FirewallRule c)"
  "hc_NoSleep (applyFile h c) = (case Option.bind (fh_Power h) pw_PreventSleep of Some b \<Rightarrow> \<not> b | None \<Rightarrow> hc_NoSleep c)"
  "hc_ControlURL (applyFile h c) = (case fh_ControlURL h of Some u \<Rightarrow> u | None \<Rightarrow> hc_ControlURL c)"
  "hc_Services (applyFile h c) = (case fh_Services h of None \<Rightarrow> hc_Services c
     | Some ss \<Rightarrow> map (\<lambda>s. \<lparr>ds_Kind = fs_Kind s, ds_Port = service_port s\<rparr>) ss)"
  by (auto simp: applyFile_def Let_def apply_services_list split: option.splits)

lemma mirror_port_fields [simp]:
  "hc_Port (mirror_port c) = hc_Port c" "hc_PortDeclared (mirror_port c) = hc_PortDeclared c"
  "hc_FirewallRule (mirror_port c) = hc_FirewallRule c" "hc_NoSleep (mirror_port c) = hc_NoSleep c"
  "hc_ControlURL (mirror_port c) = hc_ControlURL c"
  "map ds_Kind (hc_Services (mirror_port c)) = map ds_Kind (hc_Services c)"
  by (auto simp: mirror_port_def)

lemma port_for_valid: "kind \<in> {ServiceRDP, ServiceSSH, ServiceVNC} \<Longrightarrow> valid_port (port_for kind)"
  by (auto simp: port_for_def defaultPorts_def valid_port_def ServiceRDP_def ServiceSSH_def ServiceVNC_def defaultRDPPort_def)

lemma service_port_valid: "sound_service capab s \<Longrightarrow> valid_port (service_port s)"
  by (auto simp: sound_service_def service_port_def intro: port_for_valid split: option.splits)

lemma Resolve_services:
  assumes "sound_file goos capab f"
  shows "distinct (map ds_Kind (hc_Services (Resolve goos env f flags)))"
    and "s \<in> set (hc_Services (Resolve goos env f flags)) \<Longrightarrow>
      ds_Kind s = ServiceRDP \<and> ds_Port s = hc_Port (Resolve goos env f flags) \<or>
      ds_Kind s \<noteq> ServiceRDP \<and> valid_port (ds_Port s)"
proof -
  let ?c = "applyFile (f_Host f) (defaultsFor goos)"
  have d: "distinct (map ds_Kind (hc_Services ?c))"
    using assms by (auto simp: applyFile_fields sound_file_def defaultsFor_def Let_def comp_def split: option.splits)
  have v: "valid_port (ds_Port s)" if "s \<in> set (hc_Services ?c)" for s
    using that assms service_port_valid
    by (auto simp: applyFile_fields sound_file_def defaultsFor_def Let_def intro!: port_for_valid split: option.splits if_splits)
  show "distinct (map ds_Kind (hc_Services (Resolve goos env f flags)))"
    using d unfolding Resolve_def mirror_port_fields host_applyFlags_fields host_applyEnv_fields .
  have e: "hc_Services (Resolve goos env f flags) =
    map (\<lambda>s. if ds_Kind s = ServiceRDP then s\<lparr>ds_Port := hc_Port (Resolve goos env f flags)\<rparr> else s) (hc_Services ?c)"
    by (simp add: Resolve_def mirror_port_def host_applyFlags_fields host_applyEnv_fields)
  show "s \<in> set (hc_Services (Resolve goos env f flags)) \<Longrightarrow>
      ds_Kind s = ServiceRDP \<and> ds_Port s = hc_Port (Resolve goos env f flags) \<or>
      ds_Kind s \<noteq> ServiceRDP \<and> valid_port (ds_Port s)"
    unfolding e using v by auto
qed

lemma rdp_service_valid: "sound_file goos capab f \<Longrightarrow> rdp_service f = Some s \<Longrightarrow> valid_port (service_port s)"
  by (auto simp: rdp_service_def sound_file_def Let_def bind_eq_Some_conv find_Some_iff)
    (meson nth_mem service_port_valid)+

lemma Resolve_port:
  assumes "sound_file goos capab f"
  shows "hc_Port (Resolve goos env f flags) =
      strongest (if 0 < hf_Port flags then Some (hf_Port flags) else None) (port_of (env ''TS_HOST_RDP_PORT''))
        (case rdp_service f of Some s \<Rightarrow> service_port s | None \<Rightarrow> 3389)"
    and "hc_PortDeclared (Resolve goos env f flags) \<longleftrightarrow>
      0 < hf_Port flags \<or> port_of (env ''TS_HOST_RDP_PORT'') \<noteq> None \<or> (\<exists>s. rdp_service f = Some s \<and> fs_Port s \<noteq> None)"
  by (simp_all add: Resolve_def host_applyFlags_fields host_applyEnv_fields applyFile_port [OF assms] strongest_def
      defaultsFor_def host_defaults_def defaultRDPPort_def Let_def split: option.split)

text \<open>
  the resolved host configuration. For a sound file, the RDP port is the flag's, else a valid
  \<open>TS_HOST_RDP_PORT\<close>, else the file's, else 3389, and counts as declared exactly when one of the
  three named it; the firewall rule and the sleep setting follow the same precedence, and the
  control plane is the file's. Every declared service has a port between 1 and 65535, no kind is
  declared twice, and an RDP service is on the resolved port, whichever layer it came from.
\<close>

lemma Resolve_sound:
  assumes "sound_file goos capab f" and "hf_Port flags \<le> 65535" and "cfg = Resolve goos env f flags"
  shows "hc_Port cfg =
      strongest (if 0 < hf_Port flags then Some (hf_Port flags) else None) (port_of (env ''TS_HOST_RDP_PORT''))
        (case rdp_service f of Some s \<Rightarrow> service_port s | None \<Rightarrow> 3389) \<and>
    (hc_PortDeclared cfg \<longleftrightarrow>
      0 < hf_Port flags \<or> port_of (env ''TS_HOST_RDP_PORT'') \<noteq> None \<or> (\<exists>s. rdp_service f = Some s \<and> fs_Port s \<noteq> None)) \<and>
    hc_FirewallRule cfg = strongest (given (hf_FirewallRule flags)) (given (env ''TS_HOST_FIREWALL_RULE''))
      (case Option.bind (fh_Firewall (f_Host f)) fw_Rule of Some r \<Rightarrow> r | None \<Rightarrow> defaultFirewallRuleName) \<and>
    hc_NoSleep cfg = strongest (if hf_NoSleepSet flags then Some (hf_NoSleep flags) else None)
      (map_option parseBoolEnv (given (env ''TS_HOST_NO_SLEEP'')))
      (case Option.bind (fh_Power (f_Host f)) pw_PreventSleep of Some b \<Rightarrow> \<not> b | None \<Rightarrow> False) \<and>
    hc_ControlURL cfg = (case fh_ControlURL (f_Host f) of Some u \<Rightarrow> u | None \<Rightarrow> []) \<and>
    distinct (map ds_Kind (hc_Services cfg)) \<and>
    (\<forall>s \<in> set (hc_Services cfg). valid_port (ds_Port s) \<and> (ds_Kind s = ServiceRDP \<longrightarrow> ds_Port s = hc_Port cfg))"
proof -
  have port: "valid_port (hc_Port cfg)"
    using assms(2) rdp_service_valid [OF assms(1)] unfolding assms(3) Resolve_port(1) [OF assms(1)] strongest_def
    by (auto simp: port_of_def valid_port_def split: option.splits if_splits)
  have f: "hc_FirewallRule cfg = strongest (given (hf_FirewallRule flags)) (given (env ''TS_HOST_FIREWALL_RULE''))
      (case Option.bind (fh_Firewall (f_Host f)) fw_Rule of Some r \<Rightarrow> r | None \<Rightarrow> defaultFirewallRuleName)"
    "hc_NoSleep cfg = strongest (if hf_NoSleepSet flags then Some (hf_NoSleep flags) else None)
      (map_option parseBoolEnv (given (env ''TS_HOST_NO_SLEEP'')))
      (case Option.bind (fh_Power (f_Host f)) pw_PreventSleep of Some b \<Rightarrow> \<not> b | None \<Rightarrow> False)"
    "hc_ControlURL cfg = (case fh_ControlURL (f_Host f) of Some u \<Rightarrow> u | None \<Rightarrow> [])"
    unfolding assms(3) Resolve_def mirror_port_fields host_applyFlags_fields host_applyEnv_fields applyFile_fields
    by (simp_all add: strongest_def given_def defaultsFor_def host_defaults_def Let_def split: option.split)
  show ?thesis
    using port f Resolve_port [OF assms(1), of env flags] Resolve_services(1) [OF assms(1), of env flags]
      Resolve_services(2) [OF assms(1), of _ env flags]
    unfolding assms(3) by metis
qed

end
