(* ===== verification/Linux_Host.thy ===== *)
theory Linux_Host
  imports Firewall_Rules Xrdp_Port Host_Config
begin

text \<open>
  The Linux steps of \<open>internal/host/linux_steps.go\<close>: reading the xrdp service and the firewall,
  and the setup and check steps over them. A setup step gives the step and the machine after its
  commands; a check step only reads.
\<close>

subsection \<open>The xrdp service\<close>

definition xrdpName :: string where "xrdpName = ''xrdp service''"
definition linuxFwName :: string where "linuxFwName = ''Firewall configuration''"
definition xrdpFixUnmask :: string where "xrdpFixUnmask = ''sudo systemctl unmask xrdp, then run ts-bridge host setup''"
definition xrdpFixSetup :: string where "xrdpFixSetup = ''run ts-bridge host setup as root''"

record xrdpState =
  x_installed :: bool
  x_readable :: bool
  x_enabled :: bool
  x_active :: bool
  x_masked :: bool
  x_undecided :: string

definition xrdp_off :: xrdpState where
  "xrdp_off = \<lparr>x_installed = False, x_readable = False, x_enabled = False, x_active = False, x_masked = False, x_undecided = []\<rparr>"

text \<open>The verb \<open>%q\<close> for text: bytes above 127 are kept, as printable runes are.\<close>

definition quote_char :: "char \<Rightarrow> string" where
  "quote_char c =
     (if c = CHR 0x22 \<or> c = CHR 0x5C then [CHR 0x5C, c]
      else if c = CHR 7 then [CHR 0x5C, CHR ''a''] else if c = CHR 8 then [CHR 0x5C, CHR ''b'']
      else if c = CHR 9 then [CHR 0x5C, CHR ''t''] else if c = CHR 10 then [CHR 0x5C, CHR ''n'']
      else if c = CHR 11 then [CHR 0x5C, CHR ''v''] else if c = CHR 12 then [CHR 0x5C, CHR ''f'']
      else if c = CHR 13 then [CHR 0x5C, CHR ''r'']
      else if (of_char c :: nat) < 32 \<or> c = CHR 127 then
        [CHR 0x5C, CHR ''x'', hex_char ((of_char c :: nat) div 16), hex_char ((of_char c :: nat) mod 16)]
      else [c])"

definition quote :: "string \<Rightarrow> string" where
  "quote s = [CHR 0x22] @ concat (map quote_char s) @ [CHR 0x22]"

definition readXRDP :: "'s Runner \<Rightarrow> 's \<Rightarrow> xrdpState" where
  "readXRDP r st =
     (if \<not> r_LookPath r ''systemctl'' st then xrdp_off\<lparr>x_installed := r_LookPath r ''xrdp'' st\<rparr>
      else
        let e = TrimSpace (fst (r_Output r [''systemctl'', ''is-enabled'', ''xrdp''] st)) in
        if e = ''not-found'' then xrdp_off
        else
          let a = TrimSpace (fst (r_Output r [''systemctl'', ''is-active'', ''xrdp''] st)) in
          if e = [] \<or> a = [] then xrdp_off\<lparr>x_installed := True\<rparr>
          else
            let x = xrdp_off\<lparr>x_installed := True, x_readable := True, x_active := (a = ''active'')\<rparr> in
            if e = ''enabled'' \<or> e = ''static'' then x\<lparr>x_enabled := True\<rparr>
            else if e = ''masked'' then x\<lparr>x_masked := True\<rparr>
            else if e = ''disabled'' \<or> e = ''enabled-runtime'' then x
            else xrdp_off\<lparr>x_installed := True, x_active := x_active x, x_undecided := e\<rparr>)"

definition xrdpUnmet :: "xrdpState \<Rightarrow> Outcome \<Rightarrow> SetupStep option" where
  "xrdpUnmet x unreadable =
     (if \<not> x_installed x then Some (newStep xrdpName OutcomeFailed ''xrdp is not installed'' ''sudo apt install xrdp'')
      else if x_undecided x \<noteq> [] then
        Some (newStep xrdpName unreadable
          (''systemctl is-enabled answered '' @ quote (x_undecided x) @ '', which ts-bridge does not interpret'')
          ''check systemctl status xrdp, and enable it by hand if it does not start at boot'')
      else if \<not> x_readable x then
        Some (newStep xrdpName unreadable ''Cannot read the xrdp service state: ts-bridge reads it with systemctl''
          ''enable and start xrdp with your init system'')
      else None)"

definition xrdpSetupStep :: "'s Runner \<Rightarrow> 's \<Rightarrow> SetupStep \<times> 's" where
  "xrdpSetupStep r st =
     (let x = readXRDP r st in
      case xrdpUnmet x OutcomeFailed of
        Some step \<Rightarrow> (step, st)
      | None \<Rightarrow>
          if x_enabled x \<and> x_active x then (newStep xrdpName OutcomeOK ''xrdp is enabled and running'' [], st)
          else if x_masked x then
            (newStep xrdpName OutcomeFailed ''xrdp is masked, so it cannot be enabled'' xrdpFixUnmask, st)
          else (case r_Run r [''systemctl'', ''enable'', ''--now'', ''xrdp''] st of
                  (Some err, st') \<Rightarrow>
                    (newStep xrdpName OutcomeFailed (''Could not enable xrdp: '' @ err) ''sudo systemctl enable --now xrdp'', st')
                | (None, st') \<Rightarrow> (newStep xrdpName OutcomeChanged ''xrdp enabled and started'' [], st')))"

definition bool_text :: "bool \<Rightarrow> string" where "bool_text b = (if b then ''true'' else ''false'')"

definition xrdpCheckStep :: "xrdpState \<Rightarrow> SetupStep" where
  "xrdpCheckStep x =
     (case xrdpUnmet x OutcomeUnverified of
        Some step \<Rightarrow> step
      | None \<Rightarrow>
          if x_enabled x \<and> x_active x then newStep xrdpName OutcomeOK ''xrdp is enabled and running'' []
          else if x_masked x then newStep xrdpName OutcomeManual ''xrdp is masked, and setup does not unmask units'' xrdpFixUnmask
          else newStep xrdpName OutcomeChanged
            (''xrdp is not enabled and running (enabled='' @ bool_text (x_enabled x) @ '', active='' @ bool_text (x_active x) @ '')'')
            xrdpFixSetup)"

subsection \<open>Reading the firewall\<close>

record firewallRead =
  fr_state :: ruleState
  fr_backend :: string
  fr_noBackend :: bool
  fr_reason :: string
  fr_blockedBy :: string
  fr_fix :: string
  fr_copies :: nat
  fr_decidedBy :: string
  fr_copiesAdmit :: bool
  fr_ufwInactive :: bool
  fr_ufwAllows :: bool
  fr_foreign :: "string list"
  fr_scoped :: bool

definition no_read :: firewallRead where
  "no_read = \<lparr>fr_state = ruleUnknown, fr_backend = [], fr_noBackend = False, fr_reason = [], fr_blockedBy = [], fr_fix = [],
     fr_copies = 0, fr_decidedBy = [], fr_copiesAdmit = False, fr_ufwInactive = False, fr_ufwAllows = False,
     fr_foreign = [], fr_scoped = False\<rparr>"

definition backendUFW :: string where "backendUFW = ''ufw''"
definition backendIPT :: string where "backendIPT = ''iptables''"

definition source :: "firewallRead \<Rightarrow> string" where
  "source read = (if fr_decidedBy read \<noteq> [] then fr_decidedBy read else fr_backend read)"

definition chainMissing :: "cmd_error \<Rightarrow> string \<Rightarrow> bool" where
  "chainMissing err words = (case err of CmdError _ (Some stderr) \<Rightarrow> Contains stderr words | _ \<Rightarrow> False)"

definition tsInputInNFT :: "'s Runner \<Rightarrow> int \<Rightarrow> 's \<Rightarrow> firewallRead option" where
  "tsInputInNFT r port st =
     (if \<not> r_LookPath r ''nft'' st then None
      else (case r_Output r [''nft'', ''list'', ''chain'', ''ip'', ''filter'', tsInputChain] st of
              (out, Some err) \<Rightarrow>
                if \<not> chainMissing err ''No such file or directory'' then
                  Some (no_read\<lparr>fr_backend := backendIPT,
                    fr_reason := ''nft '' @ join '' '' [''list'', ''chain'', ''ip'', ''filter'', tsInputChain] @ '': '' @ cmd_error_text err\<rparr>)
                else None
            | (out, None) \<Rightarrow>
                if Contains out (''chain '' @ tsInputChain) then
                  Some (no_read\<lparr>fr_backend := backendIPT,
                    fr_reason := ''tailscaled keeps ts-input in nftables table ip filter (nftables mode), which iptables does not read'',
                    fr_fix := ''read it with `nft list chain ip filter ts-input`, or allow TCP '' @ Itoa port @ '' inbound on the Tailscale interface by hand''\<rparr>)
                else None))"

definition tsInputUnreached :: "'s Runner \<Rightarrow> int \<Rightarrow> 's \<Rightarrow> firewallRead option" where
  "tsInputUnreached r port st =
     (case r_Output r [backendIPT, ''-S'', tsInputChain] st of
        (out, Some err) \<Rightarrow>
          if \<not> chainMissing err ''No chain/target/match by that name'' then
            Some (no_read\<lparr>fr_backend := backendIPT, fr_reason := ''iptables -S '' @ tsInputChain @ '': '' @ cmd_error_text err\<rparr>)
          else tsInputInNFT r port st
      | (out, None) \<Rightarrow>
          if ''-N '' @ tsInputChain \<in> set (split_on NL (iptRules out)) then
            Some (no_read\<lparr>fr_backend := backendIPT,
              fr_reason := ''ts-input exists but INPUT does not jump to it (tailscaled --netfilter-mode=nodivert, or a divert from another chain)'',
              fr_fix := ''jump to ts-input from INPUT, or allow TCP '' @ Itoa port @ '' inbound on the Tailscale interface by hand''\<rparr>)
          else tsInputInNFT r port st)"

text \<open>The rules the walk sees: INPUT up to a qualified jump, with the ts-input chain in place of its jumps.\<close>

definition walked_rules :: "'s Runner \<Rightarrow> string \<Rightarrow> 's \<Rightarrow> (string, string \<times> bool) result" where
  "walked_rules r rules st =
     (if \<not> list_ex iptTSInputJump (split_on NL rules) then Inr (rules, False)
      else (case r_Output r [backendIPT, ''-S'', tsInputChain] st of
              (chain, Some err) \<Rightarrow> Inl (''iptables -S '' @ tsInputChain @ '': '' @ cmd_error_text err)
            | (chain, None) \<Rightarrow> Inr (iptInlineChain rules (iptRules chain), True)))"

definition decided_read :: "string \<Rightarrow> string \<Rightarrow> int \<Rightarrow> firewallRead" where
  "decided_read input rules port =
     (let (state, rule) = iptablesDecide rules port;
          copies = iptLegacyCopies input port;
          (foreign, scoped) = iptUnscopedRead input rules port state
      in no_read\<lparr>fr_state := state, fr_backend := backendIPT, fr_blockedBy := rule, fr_copies := copies,
           fr_foreign := foreign, fr_scoped := scoped,
           fr_copiesAdmit := (state = rulePresent \<and> 0 < copies \<and> \<not> iptablesCovers (iptWithoutLegacy rules port) port)\<rparr>)"

definition readIptables :: "'s Runner \<Rightarrow> int \<Rightarrow> 's \<Rightarrow> firewallRead" where
  "readIptables r port st =
     (case r_Output r [backendIPT, ''-S'', ''INPUT''] st of
        (out, Some err) \<Rightarrow> no_read\<lparr>fr_backend := backendIPT, fr_reason := ''iptables -S INPUT: '' @ cmd_error_text err\<rparr>
      | (out, None) \<Rightarrow>
          let input = iptRules out; (before, jump) = iptBeforeQualifiedJump input in
          (case walked_rules r before st of
             Inl reason \<Rightarrow> no_read\<lparr>fr_backend := backendIPT, fr_reason := reason\<rparr>
           | Inr (rules, diverted) \<Rightarrow>
               let state = fst (iptablesDecide rules port);
                   unseen = (if state = ruleAbsent \<and> jump = [] \<and> \<not> diverted then tsInputUnreached r port st else None) in
               (case unseen of
                  Some read \<Rightarrow> read
                | None \<Rightarrow>
                    if state = ruleAbsent \<and> jump \<noteq> [] then
                      no_read\<lparr>fr_backend := backendIPT,
                        fr_reason := ''INPUT reaches '' @ tsInputChain @ '' through '' @ quote jump @ '', which ts-bridge cannot evaluate'',
                        fr_fix := ''allow TCP '' @ Itoa port @ '' inbound on the Tailscale interface ahead of '' @ quote jump @
                          '', or confirm by hand that the jump admits it''\<rparr>
                    else decided_read input rules port)))"

definition readUFWStatus :: "'s Runner \<Rightarrow> 's \<Rightarrow> bool \<times> string" where
  "readUFWStatus r st =
     (case r_Output r [backendUFW, ''status''] st of
        (out, Some err) \<Rightarrow> (False, ''ufw status: '' @ cmd_error_text err)
      | (out, None) \<Rightarrow>
          let first = fst (cut NL (TrimSpace out)) in
          if TrimSpace first = ''Status: active'' then (True, [])
          else if TrimSpace first = ''Status: inactive'' then (False, [])
          else (False, ''ufw status printed '' @ quote first @ '', neither active nor inactive''))"

definition ufw_rules_read :: "'s Runner \<Rightarrow> int \<Rightarrow> 's \<Rightarrow> firewallRead" where
  "ufw_rules_read r port st =
     (let (active, reason) = readUFWStatus r st;
          read = no_read\<lparr>fr_backend := backendUFW, fr_ufwInactive := (reason = [] \<and> \<not> active)\<rparr> in
      if reason \<noteq> [] then read\<lparr>fr_reason := reason\<rparr>
      else (case r_Output r [backendUFW, ''show'', ''added''] st of
              (out, Some err) \<Rightarrow> read\<lparr>fr_reason := ''ufw show added: '' @ cmd_error_text err\<rparr>
            | (out, None) \<Rightarrow>
                let (state, by) = ufwDecide out port in
                read\<lparr>fr_state := state, fr_blockedBy := by, fr_ufwAllows := (state = rulePresent)\<rparr>))"

definition readUFW :: "'s Runner \<Rightarrow> int \<Rightarrow> 's \<Rightarrow> firewallRead" where
  "readUFW r port st =
     (let read = ufw_rules_read r port st in
      if \<not> r_LookPath r backendIPT st then read
      else
        let ipt = readIptables r port st;
            read1 = read\<lparr>fr_copies := fr_copies ipt, fr_copiesAdmit := (fr_copiesAdmit ipt \<and> fr_state read \<noteq> rulePresent)\<rparr> in
        if fr_state read = ruleAbsent then
          read1\<lparr>fr_state := fr_state ipt, fr_blockedBy := fr_blockedBy ipt, fr_reason := fr_reason ipt, fr_fix := fr_fix ipt,
            fr_decidedBy := backendIPT\<rparr>
        else read1)"

definition readLinuxFirewall :: "'s Runner \<Rightarrow> int \<Rightarrow> 's \<Rightarrow> firewallRead" where
  "readLinuxFirewall r port st =
     (if \<not> r_Elevated r st then no_read\<lparr>fr_reason := ''reading the firewall rules needs root''\<rparr>
      else if r_LookPath r backendUFW st then readUFW r port st
      else if \<not> r_LookPath r backendIPT st then
        let read = no_read\<lparr>fr_noBackend := True, fr_reason := ''neither ufw nor iptables is installed''\<rparr> in
        (case tsInputInNFT r port st of
           Some nft \<Rightarrow> if fr_reason nft \<noteq> [] then read\<lparr>fr_reason := fr_reason read @ ''; '' @ fr_reason nft, fr_fix := fr_fix nft\<rparr> else read
         | None \<Rightarrow> read)
      else readIptables r port st)"

subsection \<open>Reporting the firewall\<close>

definition extraCopies :: "firewallRead \<Rightarrow> nat" where
  "extraCopies read = fr_copies read"

definition copiesHeld :: "firewallRead \<Rightarrow> int \<Rightarrow> string" where
  "copiesHeld read port =
     itoa_nat (fr_copies read) @ '' '' @ (if fr_copies read = 1 then ''copy'' else ''copies'') @ '' of '' @
     join '' '' (iptPrinted (iptablesLegacy port))"

definition copiesFix :: "firewallRead \<Rightarrow> int \<Rightarrow> string" where
  "copiesFix read port =
     (if fr_copiesAdmit read then
        ''run `ufw allow '' @ Itoa port @ ''/tcp` first, as root, since the copies are what admits the port now; then '' else []) @
     ''run `iptables '' @ join '' '' (iptablesDelete port) @ ''` '' @ itoa_nat (extraCopies read) @
     '' time(s), as root, so none remains: ufw manages this host'' @ [CHR 0x27] @ ''s rules, and under its default deny policy each copy admits the port on every interface; setup does not delete firewall rules''"

definition firewallCopiesStep :: "firewallRead \<Rightarrow> int \<Rightarrow> SetupStep" where
  "firewallCopiesStep read port =
     newStep linuxFwName OutcomeManual
       (''Firewall allows TCP '' @ Itoa port @ '' ('' @ source read @ ''), but holds '' @ copiesHeld read port) (copiesFix read port)"

definition firewallBlockedStep :: "firewallRead \<Rightarrow> int \<Rightarrow> SetupStep" where
  "firewallBlockedStep read port =
     newStep linuxFwName OutcomeManual
       (''Firewall blocks TCP '' @ Itoa port @ '' before any allow ('' @ source read @ ''): '' @ fr_blockedBy read)
       (''remove that rule, or put an allow for TCP '' @ Itoa port @ '' before it; setup does not delete or reorder firewall rules'')"

definition firewallFix :: "firewallRead \<Rightarrow> int \<Rightarrow> string \<Rightarrow> string" where
  "firewallFix read port command =
     (if fr_fix read \<noteq> [] then fr_fix read
      else if fr_noBackend read then ''install ufw, or allow TCP '' @ Itoa port @ '' inbound with your firewall''
      else ''run ts-bridge host '' @ command @ '' as root'')"

definition firewallUnreadable :: "firewallRead \<Rightarrow> int \<Rightarrow> string \<Rightarrow> string \<times> string" where
  "firewallUnreadable read port command =
     (let message = ''Cannot read the firewall: '' @ fr_reason read; fix1 = firewallFix read port command in
      if 0 < extraCopies read then (message @ ''; it also holds '' @ copiesHeld read port, fix1 @ ''; '' @ copiesFix read port)
      else (message, fix1))"

definition iptLegacy :: "firewallRead \<Rightarrow> bool" where
  "iptLegacy read \<longleftrightarrow> fr_backend read = backendIPT \<and> fr_state read = rulePresent \<and> (0 < fr_copies read \<or> fr_foreign read \<noteq> [])"

definition iptForeignFix :: "firewallRead \<Rightarrow> string" where
  "iptForeignFix read =
     ''scope '' @ join ''; '' (fr_foreign read) @ '' to '' @ tailnetInterface @ '' (`-i '' @ tailnetInterface @
     ''`), or remove it; setup does not delete rules it did not write''"

definition iptLegacyCheckStep :: "firewallRead \<Rightarrow> int \<Rightarrow> SetupStep" where
  "iptLegacyCheckStep read port =
     (let held = (if 0 < fr_copies read then copiesHeld read port # fr_foreign read else fr_foreign read);
          message = ''Firewall allows TCP '' @ Itoa port @ '' on every interface (iptables), not only '' @ tailnetInterface @
            '': legacy unscoped rule: '' @ join ''; '' held in
      if fr_foreign read \<noteq> [] then newStep linuxFwName OutcomeManual message (iptForeignFix read)
      else newStep linuxFwName OutcomeChanged message
        (''run ts-bridge host setup as root: it adds the rule scoped to '' @ tailnetInterface @ '' and deletes the unscoped one''))"

definition inactiveUFWDecides :: "firewallRead \<Rightarrow> bool" where
  "inactiveUFWDecides read =
     (if \<not> fr_ufwInactive read \<or> fr_state read = ruleUnknown then False
      else fr_state read \<noteq> ruleBlocked \<or> fr_decidedBy read = [])"

definition ufwInactiveState :: "firewallRead \<Rightarrow> int \<Rightarrow> string \<times> bool" where
  "ufwInactiveState read port =
     (if fr_state read = ruleBlocked then (''once ufw is enabled, its rule '' @ fr_blockedBy read @ '' blocks the port'', False)
      else if fr_ufwAllows read then (''its allow is in place for when ufw is enabled'', False)
      else if fr_state read = rulePresent then
        (source read @ '' admits TCP '' @ Itoa port @ '', so setup adds no ufw allow'', False)
      else (''it holds no allow for TCP '' @ Itoa port @ '' yet, which ts-bridge host setup adds'', True))"

definition ufwInactiveStep :: "firewallRead \<Rightarrow> int \<Rightarrow> string \<Rightarrow> SetupStep" where
  "ufwInactiveStep read port state =
     (let message = ''ufw is inactive, so it filters nothing: TCP '' @ Itoa port @
            '' is reachable on every interface unless another firewall stops it; '' @ state;
          fix0 = ''enable ufw with `ufw enable`, as root, after allowing any port you reach this host through (SSH), or confirm another firewall filters this host'';
          fix1 = (if fr_state read = ruleBlocked then
            ''remove '' @ fr_blockedBy read @ '', or put an allow for TCP '' @ Itoa port @ '' before it, then '' @ fix0 else fix0) in
      if 0 < extraCopies read then
        newStep linuxFwName OutcomeManual (message @ ''; it also holds '' @ copiesHeld read port) (fix1 @ ''; '' @ copiesFix read port)
      else newStep linuxFwName OutcomeManual message fix1)"

definition firewallCheckStep :: "firewallRead \<Rightarrow> int \<Rightarrow> SetupStep" where
  "firewallCheckStep read port =
     (if fr_state read = ruleUnknown then
        (case firewallUnreadable read port ''check'' of (message, fix1) \<Rightarrow> newStep linuxFwName OutcomeUnverified message fix1)
      else if inactiveUFWDecides read then ufwInactiveStep read port (fst (ufwInactiveState read port))
      else if fr_state read = ruleBlocked then firewallBlockedStep read port
      else if iptLegacy read then iptLegacyCheckStep read port
      else if 0 < extraCopies read then firewallCopiesStep read port
      else firewallReadStep linuxFwName (fr_state read = rulePresent) port)"

subsection \<open>Changing the firewall\<close>

definition ufwInactiveSetupStep :: "'s Runner \<Rightarrow> firewallRead \<Rightarrow> int \<Rightarrow> 's \<Rightarrow> SetupStep \<times> 's" where
  "ufwInactiveSetupStep r read port st =
     (case ufwInactiveState read port of
        (state, add) \<Rightarrow>
          if \<not> add then (ufwInactiveStep read port state, st)
          else (case r_Run r [backendUFW, ''allow'', Itoa port @ ''/tcp''] st of
                  (Some err, st') \<Rightarrow>
                    (newStep linuxFwName OutcomeFailed (''ufw is inactive, and adding its allow failed: '' @ err)
                       (''run `ufw allow '' @ Itoa port @ ''/tcp` as root, then enable ufw with `ufw enable`''), st')
                | (None, st') \<Rightarrow> (ufwInactiveStep read port ''allow added (ufw) for when ufw is enabled'', st')))"

fun delete_copies :: "'s Runner \<Rightarrow> int \<Rightarrow> nat \<Rightarrow> 's \<Rightarrow> string option \<times> 's" where
  "delete_copies r port 0 st = (None, st)"
| "delete_copies r port (Suc n) st =
     (case r_Run r (backendIPT # iptablesDelete port) st of
        (Some err, st') \<Rightarrow> (Some err, st')
      | (None, st') \<Rightarrow> delete_copies r port n st')"

definition iptLegacySetupStep :: "'s Runner \<Rightarrow> firewallRead \<Rightarrow> int \<Rightarrow> 's \<Rightarrow> SetupStep \<times> 's" where
  "iptLegacySetupStep r read port st =
     (case (if fr_scoped read then (None, st) else r_Run r (backendIPT # iptablesAppend port) st) of
        (Some err, st1) \<Rightarrow>
          (newStep linuxFwName OutcomeFailed (''Could not add the firewall rule scoped to '' @ tailnetInterface @ '': '' @ err)
             (''allow TCP '' @ Itoa port @ '' inbound on '' @ tailnetInterface @ '' with iptables, as root; the unscoped rule is still in place''), st1)
      | (None, st1) \<Rightarrow>
          (case delete_copies r port (fr_copies read) st1 of
             (Some err, st2) \<Rightarrow>
               (newStep linuxFwName OutcomeFailed (''Could not delete the legacy unscoped firewall rule: '' @ err)
                  (''run `iptables '' @ join '' '' (iptablesDelete port) @ ''`, as root, to delete it''), st2)
           | (None, st2) \<Rightarrow>
               if fr_foreign read \<noteq> [] then
                 (newStep linuxFwName OutcomeManual
                    (''Firewall allows TCP '' @ Itoa port @ '' on '' @ tailnetInterface @ '' (iptables), but legacy unscoped rule: '' @
                     join ''; '' (fr_foreign read)) (iptForeignFix read), st2)
               else if fr_scoped read then
                 (newStep linuxFwName OutcomeChanged
                    (''Legacy unscoped firewall rule deleted: TCP '' @ Itoa port @ '' stays allowed by the scoped rule (iptables)'') [], st2)
               else
                 (newStep linuxFwName OutcomeChanged
                    (''Firewall rule replaced: TCP '' @ Itoa port @ '' is now allowed on '' @ tailnetInterface @ '' only (iptables)'') [], st2)))"

definition add_rule :: "firewallRead \<Rightarrow> int \<Rightarrow> string list" where
  "add_rule read port =
     (if fr_backend read = backendUFW then [backendUFW, ''allow'', Itoa port @ ''/tcp''] else backendIPT # iptablesAppend port)"

definition firewallSetupStep :: "'s Runner \<Rightarrow> int \<Rightarrow> 's \<Rightarrow> SetupStep \<times> 's" where
  "firewallSetupStep r port st =
     (let read = readLinuxFirewall r port st in
      if inactiveUFWDecides read then ufwInactiveSetupStep r read port st
      else
        case fr_state read of
          rulePresent \<Rightarrow>
            if iptLegacy read then iptLegacySetupStep r read port st
            else if 0 < extraCopies read then (firewallCopiesStep read port, st)
            else (newStep linuxFwName OutcomeOK (''Firewall allows TCP '' @ Itoa port @ '' ('' @ source read @ '')'') [], st)
        | ruleBlocked \<Rightarrow> (firewallBlockedStep read port, st)
        | ruleUnknown \<Rightarrow>
            (case firewallUnreadable read port ''setup'' of (message, fix1) \<Rightarrow> (newStep linuxFwName OutcomeFailed message fix1, st))
        | ruleAbsent \<Rightarrow>
            (case r_Run r (add_rule read port) st of
               (Some err, st') \<Rightarrow>
                 (newStep linuxFwName OutcomeFailed (''Could not add the firewall rule: '' @ err)
                    (''allow TCP '' @ Itoa port @ '' inbound with '' @ fr_backend read @ '', as root''), st')
             | (None, st') \<Rightarrow>
                 (newStep linuxFwName OutcomeChanged
                    (''Firewall rule added: TCP '' @ Itoa port @ '' ('' @ fr_backend read @ '')'') [], st')))"

subsection \<open>The Linux host\<close>

definition linuxPort :: "HostConfig \<Rightarrow> int" where
  "linuxPort cfg = (if hc_Port cfg = 0 then defaultRDPPort else hc_Port cfg)"

definition port_setup :: "HostConfig \<Rightarrow> 's Runner \<Rightarrow> 's \<Rightarrow> SetupStep list \<times> 's" where
  "port_setup cfg r st =
     (if \<not> hc_PortDeclared cfg then ([], st)
      else (case xrdpPortSetupStep r (linuxPort cfg) st of ((s, included), st') \<Rightarrow> (if included then [s] else [], st')))"

definition setupLinux :: "HostConfig \<Rightarrow> 's Runner \<Rightarrow> 's \<Rightarrow> SetupResult \<times> 's" where
  "setupLinux cfg r st =
     (let port = linuxPort cfg;
          (s1, st1) = xrdpSetupStep r st;
          (s2, st2) = port_setup cfg r st1;
          (s3, st3) = firewallSetupStep r port st2
      in (\<lparr>sr_RDPPort = port, sr_ControlURL = [], sr_Steps = s1 # s2 @ [s3, tailscaleIPStep r st3]\<rparr>, st3))"

definition port_check :: "HostConfig \<Rightarrow> 's Runner \<Rightarrow> 's \<Rightarrow> SetupStep list" where
  "port_check cfg r st =
     (if \<not> hc_PortDeclared cfg then []
      else (case xrdpPortCheckStep r (linuxPort cfg) st of (s, included) \<Rightarrow> if included then [s] else []))"

definition linux_service :: "int \<Rightarrow> xrdpState \<Rightarrow> firewallRead \<Rightarrow> Service" where
  "linux_service port x fw =
     \<lparr>sv_Kind = ServiceRDP, sv_Port = port, sv_Enabled = x_enabled x, sv_Active = (if x_readable x then Some (x_active x) else None),
      sv_FirewallOK = (fr_state fw = rulePresent \<and> \<not> fr_ufwInactive fw \<and> \<not> iptLegacy fw),
      sv_Unread = (st_Outcome (xrdpCheckStep x) = OutcomeUnverified)\<rparr>"

definition checkLinux :: "HostConfig \<Rightarrow> 's Runner \<Rightarrow> 's \<Rightarrow> CheckResult \<Rightarrow> CheckResult" where
  "checkLinux cfg r st res =
     (let port = linuxPort cfg; x = readXRDP r st; fw = readLinuxFirewall r port st in
      res\<lparr>cr_Steps := cr_Steps res @ [xrdpCheckStep x] @ port_check cfg r st @ [firewallCheckStep fw port],
          cr_Services := [linux_service port x fw]\<rparr>)"

end
