(* ===== verification/Windows_Host.thy ===== *)
theory Windows_Host
  imports Host_Config Xrdp_Port
begin

text \<open>
  \<open>internal/host/windows_steps.go\<close>: every setup and check step of a Windows host. PowerShell
  scripts are the texts the code builds. \<open>Output\<close> of the runner only reads; the one script that
  writes and is run through \<open>Output\<close> (\<open>psEnableRDP\<close>) goes through \<open>act\<close>, the effect of that call.
  \<open>Quote\<close> is \<open>strconv.Quote\<close>, the verb \<open>%q\<close>.
\<close>

subsection \<open>Scripts\<close>

record psField =
  ps_Key :: string
  ps_Expr :: string

definition psField_print :: "psField \<Rightarrow> string" where
  \<open>psField_print f = ''Write-Output "'' @ ps_Key f @ ''='' @ ps_Expr f @ ''"''\<close>

definition printAll :: "psField list \<Rightarrow> string" where
  "printAll fs = join ''; '' (map psField_print fs)"


definition netCategory :: psField where \<open>netCategory = \<lparr>ps_Key = ''category'', ps_Expr = ''$($_.NetworkCategory)''\<rparr>\<close>
definition denyPolicy :: psField where "denyPolicy = \<lparr>ps_Key = ''policy'', ps_Expr = ''$p''\<rparr>"
definition denyLocal :: psField where "denyLocal = \<lparr>ps_Key = ''local'', ps_Expr = ''$l''\<rparr>"
definition fwCount :: psField where "fwCount = \<lparr>ps_Key = ''count'', ps_Expr = ''$($r.Count)''\<rparr>"
definition fwEnabled :: psField where "fwEnabled = \<lparr>ps_Key = ''enabled'', ps_Expr = ''$($x.Enabled)''\<rparr>"
definition fwAction :: psField where "fwAction = \<lparr>ps_Key = ''action'', ps_Expr = ''$($x.Action)''\<rparr>"
definition fwDirection :: psField where "fwDirection = \<lparr>ps_Key = ''direction'', ps_Expr = ''$($x.Direction)''\<rparr>"
definition fwProfile :: psField where "fwProfile = \<lparr>ps_Key = ''profile'', ps_Expr = ''$($x.Profile)''\<rparr>"
definition fwRemote :: psField where
  "fwRemote = \<lparr>ps_Key = ''remote'', ps_Expr = ''$(($x | Get-NetFirewallAddressFilter).RemoteAddress)''\<rparr>"
definition fwProtocol :: psField where "fwProtocol = \<lparr>ps_Key = ''protocol'', ps_Expr = ''$($f.Protocol)''\<rparr>"
definition fwPort :: psField where "fwPort = \<lparr>ps_Key = keyPort, ps_Expr = ''$($f.LocalPort)''\<rparr>"

text \<open>A quoted registry path: its parts, with backslashes between them.\<close>

definition reg_path :: "string list \<Rightarrow> string" where
  "reg_path parts = [CHR 0x27] @ join [CHR 0x5C] parts @ [CHR 0x27]"

definition psTailscaleProfiles :: string where
  \<open>psTailscaleProfiles =
     ''Get-NetConnectionProfile | Where-Object { $_.InterfaceAlias -match "Tailscale" -or $_.Name -match "Tailscale" } | ForEach-Object { ''\<close>

definition psNetworkProfilePrivate :: string where
  "psNetworkProfilePrivate = psTailscaleProfiles @ ''$_ | Set-NetConnectionProfile -NetworkCategory Private }''"

definition psReadRDPPort :: string where
  "psReadRDPPort =
     ''$RdpPort = (Get-ItemProperty -Path '' @
     reg_path [''HKLM:'', ''SYSTEM'', ''CurrentControlSet'', ''Control'', ''Terminal Server'', ''WinStations'', ''RDP-Tcp''] @
     '' -ErrorAction SilentlyContinue).PortNumber; if (-not $RdpPort) { $RdpPort = 3389 }; Write-Output $RdpPort''"

definition psEnableRDP :: string where
  \<open>psEnableRDP =
     ''Set-ItemProperty -Path '' @ reg_path [''HKLM:'', ''System'', ''CurrentControlSet'', ''Control'', ''Terminal Server''] @
     '' -Name "fDenyTSConnections" -Value 0; '' @ psReadRDPPort\<close>

definition psReadNetworkProfile :: string where
  "psReadNetworkProfile = psTailscaleProfiles @ psField_print netCategory @ '' }''"

definition psReadRDPDeny :: string where
  "psReadRDPDeny =
     ''$p = (Get-ItemProperty -Path '' @ reg_path [''HKLM:'', ''SOFTWARE'', ''Policies'', ''Microsoft'', ''Windows NT'', ''Terminal Services''] @
     '' -Name fDenyTSConnections -ErrorAction SilentlyContinue).fDenyTSConnections; $l = (Get-ItemProperty -Path '' @
     reg_path [''HKLM:'', ''SYSTEM'', ''CurrentControlSet'', ''Control'', ''Terminal Server''] @
     '' -Name fDenyTSConnections -ErrorAction SilentlyContinue).fDenyTSConnections; '' @ printAll [denyPolicy, denyLocal]"

definition psReadFirewallRule :: "string \<Rightarrow> string" where
  "psReadFirewallRule quoted =
     ''$r = @(Get-NetFirewallRule -DisplayName '' @ quoted @ '' -ErrorAction SilentlyContinue); '' @ psField_print fwCount @
     ''; foreach ($x in $r) { '' @ printAll [fwEnabled, fwAction, fwDirection, fwProfile, fwRemote] @
     ''; $f = $x | Get-NetFirewallPortFilter; '' @ printAll [fwProtocol, fwPort] @ '' }''"

definition psRecreateRule :: "string \<Rightarrow> int \<Rightarrow> string" where
  \<open>psRecreateRule quoted port =
     ''Remove-NetFirewallRule -DisplayName '' @ quoted @ '' -ErrorAction SilentlyContinue; New-NetFirewallRule -DisplayName '' @ quoted @
     '' -Direction Inbound -Action Allow -Protocol TCP -LocalPort '' @ Itoa port @
     '' -Profile Any -Enabled True | Out-Null; Enable-NetFirewallRule -DisplayGroup "Remote Desktop" -ErrorAction SilentlyContinue''\<close>

definition ps_command :: "string \<Rightarrow> string list" where
  "ps_command script = [''powershell'', ''-NoProfile'', ''-ExecutionPolicy'', ''Bypass'', ''-Command'', script]"

definition runPS :: "'s Runner \<Rightarrow> string \<Rightarrow> 's \<Rightarrow> string option \<times> 's" where
  "runPS r script st = r_Run r (ps_command script) st"

definition outputPS :: "'s Runner \<Rightarrow> string \<Rightarrow> 's \<Rightarrow> string \<times> cmd_error option" where
  "outputPS r script st = r_Output r (ps_command script) st"

definition port_printed :: "string \<Rightarrow> int" where
  "port_printed out =
     (let port = fst (Atoi_full (TrimSpace out)) in if port < 1 then defaultRDPPort else port)"

definition readPortPS :: "'s Runner \<Rightarrow> string \<Rightarrow> 's \<Rightarrow> (cmd_error, int) result" where
  "readPortPS r script st =
     (case outputPS r script st of (out, Some e) \<Rightarrow> Inl e | (out, None) \<Rightarrow> Inr (port_printed out))"

text \<open>The same read of a script that writes.\<close>

definition actPortPS :: "(string list \<Rightarrow> 's \<Rightarrow> (string \<times> cmd_error option) \<times> 's) \<Rightarrow> string \<Rightarrow> 's \<Rightarrow> (cmd_error, int) result \<times> 's" where
  "actPortPS act script st =
     (case act (ps_command script) st of
        ((out, Some e), st') \<Rightarrow> (Inl e, st')
      | ((out, None), st') \<Rightarrow> (Inr (port_printed out), st'))"

text \<open>The first occurrence of a key wins; an absent key reads as empty.\<close>

definition key_value :: "string \<Rightarrow> string \<times> string" where
  "key_value line = (case cut (CHR ''='') (TrimSpace line) of (k, v, _) \<Rightarrow> (k, v))"

definition parseKeyValues :: "string \<Rightarrow> (string \<times> string) list" where
  "parseKeyValues out = map key_value (split_on (CHR 10) out)"

definition key_read :: "(string \<times> string) list \<Rightarrow> psField \<Rightarrow> string" where
  "key_read kvs f = (case map_of kvs (ps_Key f) of Some v \<Rightarrow> v | None \<Rightarrow> [])"

subsection \<open>Steps\<close>

definition actStep :: "string \<Rightarrow> bool \<Rightarrow> string \<Rightarrow> string \<Rightarrow> string \<Rightarrow> SetupStep" where
  "actStep name failed okMsg failMsg fix' =
     (if failed then newStep name OutcomeFailed failMsg fix' else newStep name OutcomeChanged okMsg [])"

definition actRead :: "string \<Rightarrow> bool \<Rightarrow> string \<Rightarrow> string \<Rightarrow> string \<Rightarrow> SetupStep" where
  "actRead name failed okMsg failMsg fix' =
     (if failed then newStep name OutcomeFailed failMsg fix' else newStep name OutcomeOK okMsg [])"

definition prefs_ForceDaemon :: "string \<Rightarrow> bool" where
  "prefs_ForceDaemon out =
     (case json_Parse out of None \<Rightarrow> False | Some j \<Rightarrow> json_field as_bool ''ForceDaemon'' j False = (True, True))"

definition is_unattended :: "'s Runner \<Rightarrow> 's \<Rightarrow> bool" where
  "is_unattended r st =
     (case r_Output r [''tailscale'', ''debug'', ''prefs''] st of (out, err) \<Rightarrow> err = None \<and> prefs_ForceDaemon out)"

definition unattendedStep :: "'s Runner \<Rightarrow> 's \<Rightarrow> SetupStep \<times> 's" where
  "unattendedStep r st =
     (let name = ''Tailscale unattended mode'' in
      if is_unattended r st then (newStep name OutcomeOK ''Unattended mode already enabled'' [], st)
      else (case r_Run r [''tailscale'', ''set'', ''--unattended''] st of
              (Some _, st') \<Rightarrow>
                (if \<not> r_LookPath r ''tailscale'' st'
                 then newStep name OutcomeFailed (''Tailscale CLI not found '' @ em_dash @ '' is Tailscale installed?'') ''install Tailscale''
                 else newStep name OutcomeFailed (''Could not enable via CLI '' @ em_dash @ '' check Tailscale GUI'') ''enable unattended mode in the Tailscale GUI'',
                 st')
            | (None, st') \<Rightarrow> (newStep name OutcomeChanged ''Unattended mode enabled'' [], st')))"

definition serviceState :: "'s Runner \<Rightarrow> string \<Rightarrow> 's \<Rightarrow> bool \<times> bool" where
  "serviceState r svc st =
     ((case r_Output r [''sc'', ''qc'', svc] st of (out, err) \<Rightarrow> err = None \<and> Contains out ''AUTO_START''),
      (case r_Output r [''sc'', ''query'', svc] st of (out, err) \<Rightarrow> err = None \<and> Contains out ''RUNNING''))"

definition serviceStep :: "'s Runner \<Rightarrow> string \<Rightarrow> string \<Rightarrow> string \<Rightarrow> string \<Rightarrow> 's \<Rightarrow> SetupStep \<times> 's" where
  "serviceStep r svc name failMsg fix' st =
     (case serviceState r svc st of
        (auto, running) \<Rightarrow>
          if auto \<and> running then (newStep name OutcomeOK ''Already running'' [], st)
          else (case (if auto then (None, st) else r_Run r [''sc'', ''config'', svc, ''start=auto''] st) of
                  (Some e, st1) \<Rightarrow> (newStep name OutcomeFailed (failMsg @ '': sc config: '' @ e) fix', st1)
                | (None, st1) \<Rightarrow>
                    (case (if running then (None, st1) else r_Run r [''net'', ''start'', svc] st1) of
                       (Some e, st2) \<Rightarrow> (newStep name OutcomeFailed (failMsg @ '': net start: '' @ e) fix', st2)
                     | (None, st2) \<Rightarrow> (newStep name OutcomeChanged ''Running'' [], st2))))"

definition is_profile :: "string \<Rightarrow> string option" where
  "is_profile line =
     (let l = TrimSpace line; key = ps_Key netCategory @ ''='' in
      if HasPrefix l key then Some (drop (length key) l) else None)"

definition parseNetworkProfiles :: "string \<Rightarrow> nat \<times> nat" where
  "parseNetworkProfiles out =
     (let vs = List.map_filter is_profile (split_on (CHR 10) out)
      in (length vs, length (filter (\<lambda>v. v = ''Private'') vs)))"

definition networkProfileStep :: "'s Runner \<Rightarrow> 's \<Rightarrow> SetupStep \<times> 's" where
  "networkProfileStep r st =
     (let name = ''Network profile''; failed = newStep name OutcomeFailed ''Could not set network profile to Private'' ''set the Tailscale network profile to Private'' in
      case outputPS r psReadNetworkProfile st of
        (_, Some _) \<Rightarrow> (failed, st)
      | (out, None) \<Rightarrow>
          (case parseNetworkProfiles out of
             (count, private) \<Rightarrow>
               if count = 0 then
                 (newStep name OutcomeManual ''No Tailscale network adapter'' ''install Tailscale and log in, then run host setup again'', st)
               else if private = count then (newStep name OutcomeOK ''Already Private'' [], st)
               else (case runPS r psNetworkProfilePrivate st of
                       (Some _, st') \<Rightarrow> (failed, st')
                     | (None, st') \<Rightarrow> (newStep name OutcomeChanged ''Set to Private'' [], st'))))"

subsection \<open>Remote Desktop\<close>

definition rdpEnableFix :: string where "rdpEnableFix = ''enable Remote Desktop in Settings > System > Remote Desktop''"

definition rdpPolicyFix :: string where
  "rdpPolicyFix =
     ''Group Policy denies Remote Desktop: set '' @
     join [CHR 0x5C] [''HKLM'', ''SOFTWARE'', ''Policies'', ''Microsoft'', ''Windows NT'', ''Terminal Services'', ''fDenyTSConnections''] @
     '' to 0 (Computer Configuration > Administrative Templates > Windows Components > Remote Desktop Services > Remote Desktop Session Host > Connections)''"

record rdpDeny =
  rd_policy :: string
  rd_local :: string

definition effective :: "rdpDeny \<Rightarrow> bool \<times> bool" where
  "effective d = (if rd_policy d \<noteq> [] then (rd_policy d \<noteq> ''0'', True) else (rd_local d \<noteq> ''0'', False))"

definition readRDPDeny :: "'s Runner \<Rightarrow> 's \<Rightarrow> (cmd_error, rdpDeny) result" where
  "readRDPDeny r st =
     (case outputPS r psReadRDPDeny st of
        (_, Some e) \<Rightarrow> Inl e
      | (out, None) \<Rightarrow> (let f = parseKeyValues out in Inr \<lparr>rd_policy = key_read f denyPolicy, rd_local = key_read f denyLocal\<rparr>))"

definition portOrDefault :: "'s Runner \<Rightarrow> 's \<Rightarrow> int" where
  "portOrDefault r st = (case readPortPS r psReadRDPPort st of Inl _ \<Rightarrow> defaultRDPPort | Inr port \<Rightarrow> port)"

definition rdpSetupStep ::
  "'s Runner \<Rightarrow> (string list \<Rightarrow> 's \<Rightarrow> (string \<times> cmd_error option) \<times> 's) \<Rightarrow> 's \<Rightarrow> (SetupStep \<times> int) \<times> 's" where
  "rdpSetupStep r act st =
     (let name = ''RDP configuration'' in
      case readRDPDeny r st of
        Inl _ \<Rightarrow>
          (let port = portOrDefault r st in
           ((newStep name OutcomeFailed (''Could not read fDenyTSConnections, assuming port '' @ Itoa port) rdpEnableFix, port), st))
      | Inr deny \<Rightarrow>
          (case effective deny of
             (denied, byPolicy) \<Rightarrow>
               if denied \<and> byPolicy then
                 ((newStep name OutcomeManual ''Remote Desktop is denied by Group Policy'' rdpPolicyFix, portOrDefault r st), st)
               else if \<not> denied then
                 (let res = readPortPS r psReadRDPPort st; port = portOrDefault r st in
                  ((actRead name (isl res) (''RDP already enabled on port '' @ Itoa port)
                      ''Could not read the RDP port, assuming port 3389'' rdpEnableFix, port), st))
               else
                 (case actPortPS act psEnableRDP st of
                    (res, st') \<Rightarrow>
                      (let port = (case res of Inl _ \<Rightarrow> defaultRDPPort | Inr p \<Rightarrow> p) in
                       ((actStep name (isl res) (''RDP enabled on port '' @ Itoa port)
                           ''Could not verify RDP settings, assuming port 3389'' rdpEnableFix, port), st')))))"

definition rdpCheckStep :: "'s Runner \<Rightarrow> int \<Rightarrow> 's \<Rightarrow> SetupStep \<times> bool" where
  "rdpCheckStep r port st =
     (let name = ''RDP configuration'' in
      case readRDPDeny r st of
        Inl _ \<Rightarrow> (newStep name OutcomeFailed ''Could not read fDenyTSConnections from the registry'' rdpEnableFix, False)
      | Inr deny \<Rightarrow>
          (case effective deny of
             (denied, byPolicy) \<Rightarrow>
               if denied \<and> byPolicy then (newStep name OutcomeManual ''Remote Desktop is denied by Group Policy'' rdpPolicyFix, False)
               else if denied then
                 (newStep name OutcomeChanged ''Remote Desktop is disabled (fDenyTSConnections)'' ''run ts-bridge host setup as an administrator'', False)
               else (newStep name OutcomeOK (''RDP enabled on port '' @ Itoa port) [], True)))"

definition declaredRDPPort :: "SetupStep \<Rightarrow> HostConfig \<Rightarrow> int \<Rightarrow> SetupStep" where
  "declaredRDPPort step cfg port =
     (if \<not> hc_PortDeclared cfg \<or> port = hc_Port cfg \<or> \<not> Succeeded (st_Outcome step) then step
      else newStep (st_Name step) OutcomeManual
        (''RDP listens on port '' @ Itoa port @ '' (set in the registry), not the declared '' @ Itoa (hc_Port cfg))
        (''declare port '' @ Itoa port @ '', or change PortNumber under '' @
         join [CHR 0x5C] [''HKLM'', ''SYSTEM'', ''CurrentControlSet'', ''Control'', ''Terminal Server'', ''WinStations'', ''RDP-Tcp''] @
         '' to '' @ Itoa (hc_Port cfg) @ '' and restart the TermService service''))"

subsection \<open>Power\<close>

record powerSetting =
  pw_change :: string
  pw_sub :: string
  pw_setting :: string

definition powerSettings :: "powerSetting list" where
  "powerSettings =
     [\<lparr>pw_change = ''standby-timeout-ac'', pw_sub = ''SUB_SLEEP'', pw_setting = ''STANDBYIDLE''\<rparr>,
      \<lparr>pw_change = ''hibernate-timeout-ac'', pw_sub = ''SUB_SLEEP'', pw_setting = ''HIBERNATEIDLE''\<rparr>,
      \<lparr>pw_change = ''monitor-timeout-ac'', pw_sub = ''SUB_VIDEO'', pw_setting = ''VIDEOIDLE''\<rparr>]"

text \<open>The matches of \<open>0x[0-9a-fA-F]{8}\<close>, from left to right.\<close>

function hex_values :: "string \<Rightarrow> string list" where
  "hex_values [] = []"
| "hex_values (c # cs) =
     (let d = drop 1 cs in
      if HasPrefix (c # cs) ''0x'' \<and> 8 \<le> length d \<and> list_all (\<lambda>x. hex_val x \<noteq> None) (take 8 d)
      then take 8 d # hex_values (drop 8 d) else hex_values cs)"
  by pat_completeness auto
termination by (relation "measure length") auto

datatype power_error = PowerQuery cmd_error | NoACIndex

definition readACTimeoutZero :: "'s Runner \<Rightarrow> powerSetting \<Rightarrow> 's \<Rightarrow> (power_error, bool) result" where
  "readACTimeoutZero r p st =
     (case r_Output r [''powercfg'', ''/query'', ''SCHEME_CURRENT'', pw_sub p, pw_setting p] st of
        (_, Some e) \<Rightarrow> Inl (PowerQuery e)
      | (out, None) \<Rightarrow>
          (let hex = hex_values out in
           if length hex < 2 then Inl NoACIndex
           else Inr (list_all (\<lambda>x. hex_val x = Some 0) (hex ! (length hex - 2)))))"

definition power_error_text :: "powerSetting \<Rightarrow> power_error \<Rightarrow> string" where
  "power_error_text p e =
     (case e of PowerQuery c \<Rightarrow> cmd_error_text c
      | NoACIndex \<Rightarrow> ''powercfg printed no AC setting index for '' @ pw_sub p @ '' '' @ pw_setting p)"

definition acTimeoutZero :: "'s Runner \<Rightarrow> powerSetting \<Rightarrow> 's \<Rightarrow> bool" where
  "acTimeoutZero r p st \<longleftrightarrow> readACTimeoutZero r p st = Inr True"

text \<open>The loop: the setting that failed, if one did, and whether something changed.\<close>

fun power_loop :: "'s Runner \<Rightarrow> powerSetting list \<Rightarrow> bool \<Rightarrow> 's \<Rightarrow> (string, bool) result \<times> 's" where
  "power_loop r [] changed st = (Inr changed, st)"
| "power_loop r (p # ps) changed st =
     (if acTimeoutZero r p st then power_loop r ps changed st
      else (case r_Run r [''powercfg'', ''/change'', pw_change p, ''0''] st of
              (Some _, st') \<Rightarrow> (Inl (pw_change p), st')
            | (None, st') \<Rightarrow> power_loop r ps True st'))"

definition powerStep :: "'s Runner \<Rightarrow> 's \<Rightarrow> SetupStep \<times> 's" where
  "powerStep r st =
     (let name = ''Power settings'' in
      case power_loop r powerSettings False st of
        (Inl change, st') \<Rightarrow> (newStep name OutcomeFailed (''Could not modify power settings ('' @ change @ '')'') ''disable sleep on AC power'', st')
      | (Inr False, st') \<Rightarrow> (newStep name OutcomeOK ''Sleep already disabled (AC power)'' [], st')
      | (Inr True, st') \<Rightarrow> (newStep name OutcomeChanged ''Sleep disabled (AC power)'' [], st'))"

fun power_drift :: "'s Runner \<Rightarrow> powerSetting list \<Rightarrow> 's \<Rightarrow> (powerSetting \<times> power_error, string list) result" where
  "power_drift r [] st = Inr []"
| "power_drift r (p # ps) st =
     (case readACTimeoutZero r p st of
        Inl e \<Rightarrow> Inl (p, e)
      | Inr zero \<Rightarrow>
          (case power_drift r ps st of
             Inl e \<Rightarrow> Inl e
           | Inr drift \<Rightarrow> Inr (if zero then drift else pw_change p # drift)))"

definition powerCheckStep :: "'s Runner \<Rightarrow> 's \<Rightarrow> SetupStep" where
  "powerCheckStep r st =
     (let name = ''Power settings'' in
      case power_drift r powerSettings st of
        Inl (p, e) \<Rightarrow>
          newStep name OutcomeFailed (''Could not read '' @ pw_change p @ '': '' @ power_error_text p e)
            (''run '' @ [CHR 0x60] @ ''powercfg /query SCHEME_CURRENT'' @ [CHR 0x60] @ '' to inspect the power plan'')
      | Inr drift \<Rightarrow>
          if drift = [] then newStep name OutcomeOK ''Sleep disabled (AC power)'' []
          else newStep name OutcomeChanged (''Sleep is enabled on AC power: '' @ join '', '' drift @ '' not 0'') ''run ts-bridge host setup as an administrator'')"

subsection \<open>Firewall\<close>

definition windowsFirewallFix :: "int \<Rightarrow> string" where
  "windowsFirewallFix port = ''allow TCP '' @ Itoa port @ '' inbound in Windows Defender Firewall''"

definition windowsFirewallNameFix :: string where
  "windowsFirewallNameFix = ''set host.firewall.rule (or --firewall-rule) to a name of A-Z, a-z, 0-9, - and _''"

definition rule_error_text :: "(string \<Rightarrow> string) \<Rightarrow> rule_error \<Rightarrow> string" where
  "rule_error_text Quote e =
     (case e of
        EmptyRule \<Rightarrow> ''firewall rule name must not be empty''
      | LongRule n \<Rightarrow> ''firewall rule name must be at most '' @ Itoa (int maxFirewallRuleName) @ '' characters (got '' @ Itoa (int n) @ '')''
      | RuleChars name \<Rightarrow> ''firewall rule name contains invalid characters (only A-Z, a-z, 0-9, -, _ allowed): '' @ Quote name)"

definition windowsFirewallRuleOK :: "(string \<Rightarrow> string) \<Rightarrow> 's Runner \<Rightarrow> string \<Rightarrow> int \<Rightarrow> 's \<Rightarrow> (cmd_error, bool \<times> bool) result" where
  "windowsFirewallRuleOK Quote r rule port st =
     (case outputPS r (psReadFirewallRule (Quote rule)) st of
        (_, Some e) \<Rightarrow> Inl e
      | (out, None) \<Rightarrow>
          (let f = parseKeyValues out;
               ok = (key_read f fwCount = ''1'' \<and> key_read f fwEnabled = ''True'' \<and> key_read f fwAction = ''Allow'' \<and>
                     key_read f fwDirection = ''Inbound'' \<and> key_read f fwProtocol = ''TCP'' \<and> key_read f fwProfile = ''Any'' \<and>
                     key_read f fwRemote = ''Any'' \<and> (port = 0 \<or> key_read f fwPort = Itoa port))
           in Inr (ok, key_read f fwCount \<noteq> ''0'')))"

definition windowsFirewallSetupStep :: "(string \<Rightarrow> string) \<Rightarrow> 's Runner \<Rightarrow> string \<Rightarrow> int \<Rightarrow> 's \<Rightarrow> SetupStep \<times> 's" where
  "windowsFirewallSetupStep Quote r ruleName port st =
     (let name = ''Firewall rule'' in
      case sanitizeFirewallRule ruleName of
        Inl e \<Rightarrow>
          (newStep name OutcomeFailed (''Failed to configure firewall: validate firewall rule: '' @ rule_error_text Quote e) windowsFirewallNameFix, st)
      | Inr rule \<Rightarrow>
          if (case windowsFirewallRuleOK Quote r rule port st of Inr (ok, _) \<Rightarrow> ok | Inl _ \<Rightarrow> False) then
            (newStep name OutcomeOK (''Rule '' @ [CHR 0x27] @ rule @ [CHR 0x27] @ '' already active (port '' @ Itoa port @ '')'') [], st)
          else (case runPS r (psRecreateRule (Quote rule) port) st of
                  (err, st') \<Rightarrow>
                    (actStep name (err \<noteq> None) (''Rule '' @ [CHR 0x27] @ rule @ [CHR 0x27] @ '' active (port '' @ Itoa port @ '')'')
                       (''Failed to configure firewall: '' @ (case err of Some e \<Rightarrow> e | None \<Rightarrow> ''<nil>'')) (windowsFirewallFix port), st')))"

definition windowsFirewallCheckStep :: "(string \<Rightarrow> string) \<Rightarrow> 's Runner \<Rightarrow> string \<Rightarrow> int \<Rightarrow> 's \<Rightarrow> SetupStep \<times> bool" where
  "windowsFirewallCheckStep Quote r ruleName port st =
     (let name = ''Firewall rule'' in
      case sanitizeFirewallRule ruleName of
        Inl e \<Rightarrow> (newStep name OutcomeFailed (''Invalid firewall rule name: '' @ rule_error_text Quote e) windowsFirewallNameFix, False)
      | Inr rule \<Rightarrow>
          (case windowsFirewallRuleOK Quote r rule port st of
             Inl _ \<Rightarrow>
               (newStep name OutcomeFailed (''Could not read firewall rule '' @ [CHR 0x27] @ rule @ [CHR 0x27])
                  (''run Get-NetFirewallRule -DisplayName '' @ Quote rule @ '' to see why the read fails''), False)
           | Inr (ok, found) \<Rightarrow>
               if \<not> ok \<and> found then
                 (newStep name OutcomeChanged
                    (''Rule '' @ [CHR 0x27] @ rule @ [CHR 0x27] @ '' differs from what setup creates (inbound TCP '' @ Itoa port @
                     '', any address, every profile, enabled, one rule)'') ''run ts-bridge host setup as an administrator'', False)
               else (firewallReadStep name ok port, ok)))"

subsection \<open>The Windows host\<close>

definition setupWindows ::
  "(string \<Rightarrow> string) \<Rightarrow> HostConfig \<Rightarrow> 's Runner \<Rightarrow> (string list \<Rightarrow> 's \<Rightarrow> (string \<times> cmd_error option) \<times> 's) \<Rightarrow> 's \<Rightarrow> SetupResult \<times> 's" where
  "setupWindows Quote cfg r act st =
     (let (s1, st1) = unattendedStep r st;
          (s2, st2) = serviceStep r ''Tailscale'' ''Tailscale service''
             (''Tailscale service not found '' @ em_dash @ '' is Tailscale installed?'') ''install Tailscale'' st1;
          (s3, st3) = serviceStep r ''SSDPSRV'' ''SSDP Discovery'' ''Failed to start SSDPSRV'' ''start the SSDPSRV service'' st2;
          (s4, st4) = serviceStep r ''upnphost'' ''UPnP Device Host'' ''Failed to start upnphost'' ''start the upnphost service'' st3;
          (s5, st5) = networkProfileStep r st4;
          ((s6, port), st6) = rdpSetupStep r act st5;
          (s7, st7) = windowsFirewallSetupStep Quote r (hc_FirewallRule cfg) port st6;
          (s8, st8) = (if hc_NoSleep cfg then ([], st7) else (case powerStep r st7 of (s, st') \<Rightarrow> ([s], st')))
      in (\<lparr>sr_RDPPort = port, sr_ControlURL = [], sr_Steps = [s1, s2, s3, s4, s5, declaredRDPPort s6 cfg port, s7] @ s8\<rparr>, st8))"

definition checkWindows :: "(string \<Rightarrow> string) \<Rightarrow> HostConfig \<Rightarrow> 's Runner \<Rightarrow> 's \<Rightarrow> CheckResult \<Rightarrow> CheckResult" where
  "checkWindows Quote cfg r st res =
     (let rd = readPortPS r psReadRDPPort st;
          (step, port, enabled) =
            (case rd of
               Inl _ \<Rightarrow> (actRead ''RDP configuration'' True [] ''Could not read the RDP port from the registry'' rdpEnableFix, 0, False)
             | Inr p \<Rightarrow> (case rdpCheckStep r p st of (s, en) \<Rightarrow> (declaredRDPPort s cfg p, p, en)));
          (fwStep, fwOK) = windowsFirewallCheckStep Quote r (hc_FirewallRule cfg) port st
      in res\<lparr>cr_Steps := cr_Steps res @ [step, fwStep] @ (if hc_NoSleep cfg then [] else [powerCheckStep r st]),
             cr_Services := [\<lparr>sv_Kind = ServiceRDP, sv_Port = port, sv_Enabled = enabled, sv_Active = None, sv_FirewallOK = fwOK,
                sv_Unread = isl rd\<rparr>]\<rparr>)"

end
