(* ===== verification/Host_Entry.thy ===== *)
theory Host_Entry
  imports Linux_Host Windows_Host
begin

text \<open>
  \<open>internal/host/step.go\<close> and \<open>host.go\<close> above the step lists: \<open>setupFor\<close>, \<open>checkFor\<close>, \<open>setupOn\<close> and
  \<open>checkOn\<close> for every operating system, and the environment commands run in. \<open>Quote\<close> and \<open>act\<close> are
  those of the Windows steps.
\<close>

definition command_env :: "string list \<Rightarrow> string list" where
  "command_env environ = filter (\<lambda>kv. \<not> (HasPrefix kv ''LC_ALL='' \<or> HasPrefix kv ''LANGUAGE='')) environ @ [''LC_ALL=C'']"

definition setupFor ::
  "(string \<Rightarrow> string) \<Rightarrow> string \<Rightarrow> HostConfig \<Rightarrow> 's Runner \<Rightarrow> (string list \<Rightarrow> 's \<Rightarrow> (string \<times> cmd_error option) \<times> 's) \<Rightarrow> 's \<Rightarrow> SetupResult \<times> 's" where
  "setupFor Quote goos cfg r act st =
     (case (if goos = ''windows'' then setupWindows Quote cfg r act st
            else if goos = ''darwin'' then (\<lparr>sr_RDPPort = defaultRDPPort, sr_ControlURL = [], sr_Steps = []\<rparr>, st)
            else setupLinux cfg r st) of
        (res, st') \<Rightarrow> (res\<lparr>sr_ControlURL := hc_ControlURL cfg\<rparr>, st'))"

definition checkFor :: "(string \<Rightarrow> string) \<Rightarrow> string \<Rightarrow> HostConfig \<Rightarrow> 's Runner \<Rightarrow> 's \<Rightarrow> CheckResult" where
  "checkFor Quote goos cfg r st =
     (let ip = tailscaleIP r st;
          res = \<lparr>cr_TailscaleIP = ip, cr_RDPPort = 0, cr_RDPEnabled = False, cr_FirewallOK = False, cr_TailscaleUp = (ip \<noteq> []),
            cr_ControlURL = hc_ControlURL cfg, cr_Elevated = r_Elevated r st, cr_Services = [], cr_Steps = [tailscaleStep ip]\<rparr>
      in deriveLegacy
           (if goos = ''windows'' then checkWindows Quote cfg r st res
            else if goos = ''darwin'' then res
            else checkLinux cfg r st res))"

definition setupOn ::
  "(string \<Rightarrow> string) \<Rightarrow> string \<Rightarrow> HostConfig \<Rightarrow> 's Runner \<Rightarrow> (string list \<Rightarrow> 's \<Rightarrow> (string \<times> cmd_error option) \<times> 's) \<Rightarrow> 's \<Rightarrow> SetupResult \<times> 's" where
  "setupOn Quote goos cfg r act st =
     (case setupFor Quote goos cfg r act st of
        (res, st') \<Rightarrow> (res\<lparr>sr_ControlURL := resolveControlPlane (hc_ControlURL cfg) r st'\<rparr>, st'))"

definition checkOn :: "(string \<Rightarrow> string) \<Rightarrow> string \<Rightarrow> HostConfig \<Rightarrow> 's Runner \<Rightarrow> 's \<Rightarrow> CheckResult" where
  "checkOn Quote goos cfg r st =
     (checkFor Quote goos cfg r st)\<lparr>cr_ControlURL := resolveControlPlane (hc_ControlURL cfg) r st\<rparr>"

lemma deriveLegacy_steps: "cr_Steps (deriveLegacy res) = cr_Steps res"
proof -
  have "cr_Steps (derive_each svcs res) = cr_Steps res" for svcs res
    by (induction svcs arbitrary: res) (auto simp: Let_def)
  then show ?thesis by (simp add: deriveLegacy_def)
qed

end
