(* ===== verification/Serve_Health.thy ===== *)
theory Serve_Health
  imports Health Profiles "HOL-Library.AList"
begin

text \<open>
  \<open>internal/serve/bootstrap.go\<close> and \<open>internal/serve/control.go\<close>: the readiness of a serving host. Several
  goroutines report to one \<open>Health\<close>: the supervisor of the SSH bootstrap, the watcher of the control
  session and the command itself. They are one step relation, with a step for every operation on
  what they share; the locale \<open>readiness\<close> is the interface \<open>Readiness\<close> that the reporters rely on.
\<close>

subsection \<open>Folding the sources\<close>

definition ReasonSSHBootstrapFailed :: string where "ReasonSSHBootstrapFailed = ''ssh_bootstrap_failed''"
definition bootstrapSource :: string where "bootstrapSource = ''bootstrap''"
definition ReasonControlPlaneUnreachable :: string where "ReasonControlPlaneUnreachable = ''control_plane_unreachable''"
definition controlSource :: string where "controlSource = ''control''"

record Health =
  hl_status :: TunnelStatus
  hl_down :: "(string \<times> string) list"

definition new_health :: Health where "new_health = \<lparr>hl_status = zero_status, hl_down = []\<rparr>"

definition health_store :: "Health \<Rightarrow> Health" where
  "health_store h =
     (case sort_names (map fst (hl_down h)) of
        [] \<Rightarrow> h\<lparr>hl_status := MarkReady (hl_status h)\<rparr>
      | source # _ \<Rightarrow> h\<lparr>hl_status := status_Store False (the (map_of (hl_down h) source)) (hl_status h)\<rparr>)"

definition health_Down :: "string \<Rightarrow> string \<Rightarrow> Health \<Rightarrow> Health" where
  "health_Down source reason h = health_store (h\<lparr>hl_down := AList.update source reason (hl_down h)\<rparr>)"

definition health_Up :: "string \<Rightarrow> Health \<Rightarrow> Health" where
  "health_Up source h = health_store (h\<lparr>hl_down := AList.delete source (hl_down h)\<rparr>)"

subsection \<open>The watcher of the control session\<close>

text \<open>What the watcher receives: a state of the node, the end of the bus, or the end of the context.\<close>

datatype session_event = NodeState string | BusClosed bool | ContextDone

record watcher =
  wt_reported :: bool
  wt_wasUp :: bool

datatype readiness_op = OpDown string string | OpUp string

text \<open>
  One turn of the loop: what it reports, and the watcher after it unless the loop returns.
  \<open>BusClosed\<close> says whether the context had ended by then.
\<close>

definition watch_turn :: "session_event \<Rightarrow> watcher \<Rightarrow> readiness_op list \<times> watcher option" where
  "watch_turn ev w =
     (case ev of
        ContextDone \<Rightarrow> ([], None)
      | BusClosed ended \<Rightarrow> (if ended then [] else [OpDown controlSource ReasonControlPlaneUnreachable], None)
      | NodeState s \<Rightarrow>
          (let up = (s = ''Running'') in
           if wt_reported w \<and> up = wt_wasUp w then ([], Some w)
           else ([if up then OpUp controlSource else OpDown controlSource ReasonControlPlaneUnreachable],
                 Some \<lparr>wt_reported = True, wt_wasUp = up\<rparr>)))"

fun WatchControlSession :: "session_event list \<Rightarrow> watcher \<Rightarrow> readiness_op list" where
  "WatchControlSession [] w = []"
| "WatchControlSession (ev # evs) w =
     (case watch_turn ev w of
        (ops, None) \<Rightarrow> ops
      | (ops, Some w') \<Rightarrow> ops @ WatchControlSession evs w')"

definition new_watcher :: watcher where "new_watcher = \<lparr>wt_reported = False, wt_wasUp = False\<rparr>"

subsection \<open>The supervisor of the bootstrap\<close>

text \<open>
  Where the supervisor stands: watching a tunnel, having seen it end, having reported the end,
  about to release it, before the sleep and before the start of \<open>restart\<close> with its delay, about to
  mark the new tunnel up, and returned. Tunnels are numbered as they are started.
\<close>

datatype sup_pc =
    Watching nat
  | SawExit nat
  | Reporting nat
  | Releasing nat
  | Sleeping int
  | Restarting int
  | Marking nat
  | Returned

record backoff =
  bo_Base :: int
  bo_Max :: int

record serving =
  sv_pc :: sup_pc
  sv_health :: Health
  sv_watcher :: "watcher option"
  sv_session :: "session_event list"
  sv_cancelled :: bool
  sv_started :: nat
  sv_exited :: "nat set"
  sv_closed :: "nat list"
  sv_outages :: nat
  sv_failures :: nat
  sv_slept :: "int list"

text \<open>The delay after a failed start.\<close>

definition next_delay :: "backoff \<Rightarrow> int \<Rightarrow> int" where
  "next_delay b d = min (wrap64 (d * 2)) (bo_Max b)"

text \<open>\<open>jitter\<close> adds at most a fifth, rounded down.\<close>

definition jittered :: "int \<Rightarrow> int \<Rightarrow> bool" where
  "jittered d t \<longleftrightarrow> d \<le> t \<and> t \<le> d + d div 5"

definition apply_op :: "readiness_op \<Rightarrow> Health \<Rightarrow> Health" where
  "apply_op p h = (case p of OpDown s r \<Rightarrow> health_Down s r h | OpUp s \<Rightarrow> health_Up s h)"

definition apply_ops :: "readiness_op list \<Rightarrow> Health \<Rightarrow> Health" where
  "apply_ops ps h = fold apply_op ps h"

inductive serve_step :: "backoff \<Rightarrow> serving \<Rightarrow> serving \<Rightarrow> bool" for b :: backoff where
  cancel: "serve_step b s (s\<lparr>sv_cancelled := True\<rparr>)"
| tunnel_exits: "t < sv_started s \<Longrightarrow> serve_step b s (s\<lparr>sv_exited := insert t (sv_exited s)\<rparr>)"
| close_running: "sv_pc s = Watching t \<Longrightarrow> sv_cancelled s \<Longrightarrow>
    serve_step b s (s\<lparr>sv_closed := sv_closed s @ [t], sv_pc := Returned\<rparr>)"
| see_exit: "sv_pc s = Watching t \<Longrightarrow> t \<in> sv_exited s \<Longrightarrow> serve_step b s (s\<lparr>sv_pc := SawExit t\<rparr>)"
| exit_while_cancelled: "sv_pc s = SawExit t \<Longrightarrow> sv_cancelled s \<Longrightarrow> serve_step b s (s\<lparr>sv_pc := Returned\<rparr>)"
| on_exit: "sv_pc s = SawExit t \<Longrightarrow> \<not> sv_cancelled s \<Longrightarrow>
    serve_step b s (s\<lparr>sv_outages := Suc (sv_outages s), sv_pc := Reporting t\<rparr>)"
| report_down: "sv_pc s = Reporting t \<Longrightarrow>
    serve_step b s (s\<lparr>sv_health := health_Down bootstrapSource ReasonSSHBootstrapFailed (sv_health s), sv_pc := Releasing t\<rparr>)"
| release: "sv_pc s = Releasing t \<Longrightarrow>
    serve_step b s (s\<lparr>sv_closed := sv_closed s @ [t], sv_failures := 0, sv_pc := Sleeping (bo_Base b)\<rparr>)"
| sleep_cancelled: "sv_pc s = Sleeping d \<Longrightarrow> sv_cancelled s \<Longrightarrow> serve_step b s (s\<lparr>sv_pc := Returned\<rparr>)"
| sleep_over: "sv_pc s = Sleeping d \<Longrightarrow> jittered d t \<Longrightarrow>
    serve_step b s (s\<lparr>sv_slept := sv_slept s @ [t], sv_pc := Restarting d\<rparr>)"
| start_fails: "sv_pc s = Restarting d \<Longrightarrow>
    serve_step b s (s\<lparr>sv_failures := Suc (sv_failures s), sv_pc := Sleeping (next_delay b d)\<rparr>)"
| start_succeeds: "sv_pc s = Restarting d \<Longrightarrow>
    serve_step b s (s\<lparr>sv_started := Suc (sv_started s), sv_pc := Marking (sv_started s)\<rparr>)"
| mark_up: "sv_pc s = Marking t \<Longrightarrow>
    serve_step b s (s\<lparr>sv_health := health_Up bootstrapSource (sv_health s), sv_pc := Watching t\<rparr>)"
| watch: "sv_watcher s = Some w \<Longrightarrow> watch_turn ev w = (ops, w') \<Longrightarrow>
    serve_step b s (s\<lparr>sv_health := apply_ops ops (sv_health s), sv_watcher := w', sv_session := sv_session s @ [ev]\<rparr>)"
| serving_up: "serve_step b s (s\<lparr>sv_health := health_Up ''serve'' (sv_health s)\<rparr>)"

inductive_cases serve_stepE: "serve_step b s s'"

text \<open>The start: the first tunnel runs, the watcher waits, nothing was reported.\<close>

definition serving_start :: serving where
  "serving_start = \<lparr>sv_pc = Watching 0, sv_health = new_health, sv_watcher = Some new_watcher, sv_session = [], sv_cancelled = False,
     sv_started = 1, sv_exited = {}, sv_closed = [], sv_outages = 0, sv_failures = 0, sv_slept = []\<rparr>"

subsection \<open>The interface of readiness\<close>

text \<open>
  What a reporter may rely on: a report changes its own source only, and the endpoint is ready
  exactly when no source is down.
\<close>

locale readiness =
  fixes down :: "string \<Rightarrow> string \<Rightarrow> 'h \<Rightarrow> 'h" and up :: "string \<Rightarrow> 'h \<Rightarrow> 'h"
    and is_down :: "string \<Rightarrow> 'h \<Rightarrow> bool" and ready :: "'h \<Rightarrow> bool"
  assumes is_down_down: "is_down s (down s' r h) \<longleftrightarrow> s = s' \<or> is_down s h"
    and is_down_up: "is_down s (up s' h) \<longleftrightarrow> s \<noteq> s' \<and> is_down s h"
    and ready_down: "\<not> ready (down s r h)"
    and ready_up: "ready (up s h) \<longleftrightarrow> (\<forall>s'. \<not> is_down s' (up s h))"
begin

definition run_op :: "readiness_op \<Rightarrow> 'h \<Rightarrow> 'h" where
  "run_op p h = (case p of OpDown s r \<Rightarrow> down s r h | OpUp s \<Rightarrow> up s h)"

text \<open>
  The watcher keeps its source true to the session: as long as it has not returned, its source
  is down exactly when the last state it was told is not \<open>Running\<close>.
\<close>

definition tracks :: "watcher \<Rightarrow> 'h \<Rightarrow> bool" where
  "tracks w h \<longleftrightarrow> is_down controlSource h = (wt_reported w \<and> \<not> wt_wasUp w)"

lemma turn_tracks:
  assumes "tracks w h" and "watch_turn (NodeState s) w = (ops, w')"
  shows "\<exists>v. w' = Some v \<and> tracks v (fold run_op ops h) \<and> wt_reported v \<and> wt_wasUp v = (s = ''Running'')"
proof (cases "wt_reported w \<and> (s = ''Running'') = wt_wasUp w")
  case True
  then show ?thesis using assms by (simp add: watch_turn_def Let_def) blast
next
  case False
  then have "ops = [if s = ''Running'' then OpUp controlSource else OpDown controlSource ReasonControlPlaneUnreachable]"
    "w' = Some \<lparr>wt_reported = True, wt_wasUp = (s = ''Running'')\<rparr>"
    using assms(2) by (simp_all only: watch_turn_def session_event.case Let_def if_False prod.inject)
  then show ?thesis by (simp add: tracks_def run_op_def is_down_down is_down_up)
qed

lemma closed_bus_down:
  "watch_turn (BusClosed False) w = (ops, w') \<Longrightarrow> is_down controlSource (fold run_op ops h) \<and> w' = None"
  by (auto simp: watch_turn_def run_op_def is_down_down)

lemma turn_other_sources:
  assumes "watch_turn ev w = (ops, w')" and "s \<noteq> controlSource"
  shows "is_down s (fold run_op ops h) = is_down s h"
proof (cases ev)
  case (NodeState st)
  then show ?thesis using assms
    by (cases "wt_reported w \<and> (st = ''Running'') = wt_wasUp w"; cases "st = ''Running''")
      (simp_all add: watch_turn_def run_op_def Let_def is_down_down is_down_up, auto simp: run_op_def is_down_down is_down_up)
next
  case (BusClosed ended)
  then show ?thesis using assms by (cases ended) (auto simp: watch_turn_def run_op_def is_down_down)
qed (use assms in \<open>auto simp: watch_turn_def\<close>)

end

subsection \<open>Health implements it\<close>

text \<open>What the endpoint shows for the sources that are down: the reason of the least one.\<close>

definition folded :: "(string \<times> string) list \<Rightarrow> bool \<times> string" where
  "folded ds = (ds = [], if ds = [] then [] else the (map_of ds (hd (sort_names (map fst ds)))))"

definition health_ready :: "Health \<Rightarrow> bool" where "health_ready h = fst (status_Load (hl_status h))"

definition source_down :: "string \<Rightarrow> Health \<Rightarrow> bool" where "source_down s h = (map_of (hl_down h) s \<noteq> None)"

lemma health_store_down [simp]: "hl_down (health_store h) = hl_down h"
  by (simp add: health_store_def split: list.split)

lemma sort_names_Nil [simp]: "sort_names [] = []"
  by (simp add: sort_names_def)

lemma sort_names_Nil_iff [simp]: "sort_names ns = [] \<longleftrightarrow> ns = []"
  using sort_names_set [of ns] by (metis set_empty)

lemma health_store_status: "status_Load (hl_status (health_store h)) = folded (hl_down h)"
proof (cases "sort_names (map fst (hl_down h))")
  case Nil
  then have d: "hl_down h = []" by simp
  then show ?thesis using d Nil
    by (simp add: health_store_def folded_def MarkReady_def status_Store_def store_ready_def store_reason_def status_Load_def)
next
  case (Cons x xs)
  then have "hl_down h \<noteq> []" by auto
  then show ?thesis using Cons
    by (simp add: health_store_def folded_def status_Store_def store_ready_def store_reason_def status_Load_def)
qed

lemma health_down_simps [simp]:
  "map_of (hl_down (health_Down s r h)) = (map_of (hl_down h))(s \<mapsto> r)"
  "map_of (hl_down (health_Up s h)) = (map_of (hl_down h))(s := None)"
  by (simp_all add: health_Down_def health_Up_def update_conv' delete_conv')

lemma health_op_status:
  "status_Load (hl_status (health_Down s r h)) = folded (hl_down (health_Down s r h))"
  "status_Load (hl_status (health_Up s h)) = folded (hl_down (health_Up s h))"
  by (simp_all add: health_Down_def health_Up_def health_store_status)

lemma map_of_empty_iff: "(\<forall>k. map_of ds k = None) \<longleftrightarrow> ds = []"
  by (cases ds) (auto split: if_splits)

interpretation rd: readiness health_Down health_Up source_down health_ready
proof unfold_locales
  show "\<not> health_ready (health_Down s r h)" for s r h
  proof -
    have "map_of (hl_down (health_Down s r h)) s = Some r" by simp
    then have "hl_down (health_Down s r h) \<noteq> []" by fastforce
    then show ?thesis by (simp add: health_ready_def health_op_status folded_def)
  qed
  show "health_ready (health_Up s h) \<longleftrightarrow> (\<forall>s'. \<not> source_down s' (health_Up s h))" for s h
    using map_of_empty_iff [of "hl_down (health_Up s h)"]
    by (auto simp: health_ready_def health_op_status folded_def source_down_def)
qed (auto simp: source_down_def)

lemma apply_ops_run: "apply_ops ops h = fold rd.run_op ops h"
proof -
  have "apply_op = rd.run_op" by (simp add: apply_op_def rd.run_op_def fun_eq_iff)
  then show ?thesis by (simp add: apply_ops_def)
qed

lemma least_source:
  assumes "x \<in> set ns" and "\<forall>y \<in> set ns. y = x \<or> \<not> str_le y x"
  shows "hd (sort_names ns) = x"
proof -
  obtain z zs where z: "sort_names ns = z # zs" using assms(1) by (cases "sort_names ns") auto
  have m: "x \<in> set (z # zs)" "z \<in> set ns" using sort_names_set [of ns] z assms(1) by auto
  have "z = x \<or> str_le z x" using m(1) sort_names_sorted [of ns] z by auto
  then show ?thesis using assms(2) m(2) z by auto
qed

subsection \<open>Invariants of the run\<close>

fun in_outage :: "sup_pc \<Rightarrow> bool" where
  "in_outage (Releasing t) = True"
| "in_outage (Sleeping d) = True"
| "in_outage (Restarting d) = True"
| "in_outage (Marking t) = True"
| "in_outage _ = False"

text \<open>The control session is known to be lost, and the watch ended with the run.\<close>

definition session_lost :: "session_event list \<Rightarrow> bool" where
  "session_lost evs \<longleftrightarrow> evs \<noteq> [] \<and> (case last evs of NodeState st \<Rightarrow> st \<noteq> ''Running'' | BusClosed ended \<Rightarrow> \<not> ended | ContextDone \<Rightarrow> False)"

definition session_over :: "session_event list \<Rightarrow> bool" where
  "session_over evs \<longleftrightarrow> evs \<noteq> [] \<and> last evs \<in> {ContextDone, BusClosed True}"

text \<open>The delay before the start after \<open>n\<close> failed ones.\<close>

fun delay :: "backoff \<Rightarrow> nat \<Rightarrow> int" where
  "delay b 0 = bo_Base b"
| "delay b (Suc n) = next_delay b (delay b n)"

lemma delay_doubles:
  assumes "0 < bo_Base b" and "bo_Base b \<le> bo_Max b" and "bo_Max b < 2 ^ 62"
  shows "delay b n = min (bo_Base b * 2 ^ n) (bo_Max b)"
proof (induction n)
  case (Suc n)
  have d: "0 < delay b n" "delay b n \<le> bo_Max b" using Suc assms by simp_all
  then have "wrap64 (delay b n * 2) = delay b n * 2" using assms(3) by (intro wrap64_id) (simp add: int64_range_def min_int64_def max_int64_def)
  then have "delay b (Suc n) = min (delay b n * 2) (bo_Max b)" by (simp add: next_delay_def)
  moreover have "0 < bo_Base b * 2 ^ n" "bo_Base b * 2 ^ Suc n = bo_Base b * 2 ^ n * 2" using assms(1) by simp_all
  ultimately show ?case using Suc assms(1,2) by linarith
qed (use assms in simp)

text \<open>The tunnel the supervisor holds, and what it has closed.\<close>

fun tunnels_ok :: "sup_pc \<Rightarrow> serving \<Rightarrow> bool" where
  "tunnels_ok (Watching t) s \<longleftrightarrow> t < sv_started s \<and> set (sv_closed s) = {..<sv_started s} - {t} \<and> sv_outages s + 1 = sv_started s"
| "tunnels_ok (Marking t) s \<longleftrightarrow> t < sv_started s \<and> set (sv_closed s) = {..<sv_started s} - {t} \<and> sv_outages s + 1 = sv_started s"
| "tunnels_ok (SawExit t) s \<longleftrightarrow> t < sv_started s \<and> set (sv_closed s) = {..<sv_started s} - {t} \<and> t \<in> sv_exited s \<and> sv_outages s + 1 = sv_started s"
| "tunnels_ok (Reporting t) s \<longleftrightarrow> t < sv_started s \<and> set (sv_closed s) = {..<sv_started s} - {t} \<and> t \<in> sv_exited s \<and> sv_outages s = sv_started s"
| "tunnels_ok (Releasing t) s \<longleftrightarrow> t < sv_started s \<and> set (sv_closed s) = {..<sv_started s} - {t} \<and> t \<in> sv_exited s \<and> sv_outages s = sv_started s"
| "tunnels_ok Returned s \<longleftrightarrow> sv_cancelled s \<and> {..<sv_started s} \<subseteq> set (sv_closed s) \<union> sv_exited s \<and>
     set (sv_closed s) \<subseteq> {..<sv_started s} \<and> (\<exists>t. {..<sv_started s} - {t} \<subseteq> set (sv_closed s)) \<and> sv_outages s \<le> sv_started s \<and> sv_started s \<le> sv_outages s + 1"
| "tunnels_ok _ s \<longleftrightarrow> set (sv_closed s) = {..<sv_started s} \<and> sv_outages s = sv_started s"

fun delay_ok :: "backoff \<Rightarrow> sup_pc \<Rightarrow> serving \<Rightarrow> bool" where
  "delay_ok b (Sleeping d) s \<longleftrightarrow> d = delay b (sv_failures s)"
| "delay_ok b (Restarting d) s \<longleftrightarrow> d = delay b (sv_failures s)"
| "delay_ok b _ s \<longleftrightarrow> True"

definition tunnel_inv :: "backoff \<Rightarrow> serving \<Rightarrow> bool" where
  "tunnel_inv b s \<longleftrightarrow> tunnels_ok (sv_pc s) s \<and> distinct (sv_closed s) \<and> delay_ok b (sv_pc s) s \<and>
     (\<forall>t \<in> set (sv_slept s). \<exists>n. jittered (delay b n) t)"

lemma tunnels_ok_cong:
  "sv_started s' = sv_started s \<Longrightarrow> sv_closed s' = sv_closed s \<Longrightarrow> sv_exited s \<subseteq> sv_exited s' \<Longrightarrow> sv_outages s' = sv_outages s \<Longrightarrow>
   (sv_cancelled s \<Longrightarrow> sv_cancelled s') \<Longrightarrow> tunnels_ok pc s \<Longrightarrow> tunnels_ok pc s'"
  by (cases pc) auto

lemma delay_ok_cong: "sv_failures s' = sv_failures s \<Longrightarrow> delay_ok b pc s \<Longrightarrow> delay_ok b pc s'"
  by (cases pc) auto

lemma tunnel_inv_step: "serve_step b s s' \<Longrightarrow> tunnel_inv b s \<Longrightarrow> tunnel_inv b s'"
proof (induction rule: serve_step.induct)
  case (tunnel_exits t s)
  then show ?case by (auto simp: tunnel_inv_def intro: tunnels_ok_cong [of _ s] delay_ok_cong [of _ s])
next
  case (cancel s)
  then show ?case by (auto simp: tunnel_inv_def intro: tunnels_ok_cong [of _ s] delay_ok_cong [of _ s])
next
  case (watch s w ev ops w')
  then show ?case by (auto simp: tunnel_inv_def intro: tunnels_ok_cong [of _ s] delay_ok_cong [of _ s])
next
  case (serving_up s)
  then show ?case by (auto simp: tunnel_inv_def intro: tunnels_ok_cong [of _ s] delay_ok_cong [of _ s])
next
  case (sleep_over s d t)
  then show ?case by (auto simp: tunnel_inv_def)
qed (auto simp: tunnel_inv_def)

lemma tunnels_okD:
  assumes "tunnels_ok pc s"
  shows "set (sv_closed s) \<subseteq> {..<sv_started s}" "\<exists>t. {..<sv_started s} - set (sv_closed s) \<subseteq> {t}"
    "sv_outages s \<le> sv_started s" "sv_started s \<le> sv_outages s + 1"
  using assms by (cases pc; auto)+

lemma tunnel_inv_reachable: "(serve_step b)\<^sup>*\<^sup>* serving_start s \<Longrightarrow> tunnel_inv b s"
proof (induction rule: rtranclp_induct)
  case base
  show ?case by (auto simp: tunnel_inv_def serving_start_def)
qed (rule tunnel_inv_step)

text \<open>
  C13: the supervisor never has two tunnels. Whatever order the tunnel, the starts, the sleeps and
  the cancellation come in, every tunnel but one has been closed, none is closed twice, every
  end of a tunnel before the cancellation is reported once, and when the supervisor returns each
  tunnel has been closed or has exited. With a sensible backoff no sleep is shorter than the
  base delay or longer than the maximal one and a fifth.
\<close>

theorem supervisor_one_tunnel:
  assumes "(serve_step b)\<^sup>*\<^sup>* serving_start s"
    and "0 < bo_Base b" "bo_Base b \<le> bo_Max b" "bo_Max b < 2 ^ 62"
  shows "distinct (sv_closed s) \<and> set (sv_closed s) \<subseteq> {..<sv_started s} \<and>
    (\<exists>t. {..<sv_started s} - set (sv_closed s) \<subseteq> {t}) \<and>
    sv_outages s \<le> sv_started s \<and> sv_started s \<le> sv_outages s + 1 \<and>
    (sv_pc s = Returned \<longrightarrow> sv_cancelled s \<and> {..<sv_started s} \<subseteq> set (sv_closed s) \<union> sv_exited s) \<and>
    (\<forall>t \<in> set (sv_slept s). bo_Base b \<le> t \<and> t \<le> bo_Max b + bo_Max b div 5)"
proof -
  have i: "tunnels_ok (sv_pc s) s" "distinct (sv_closed s)" "\<forall>t \<in> set (sv_slept s). \<exists>n. jittered (delay b n) t"
    using tunnel_inv_reachable [OF assms(1)] by (auto simp: tunnel_inv_def)
  have "bo_Base b \<le> t \<and> t \<le> bo_Max b + bo_Max b div 5" if "t \<in> set (sv_slept s)" for t
  proof -
    obtain n where n: "jittered (delay b n) t" using i(3) \<open>t \<in> set (sv_slept s)\<close> by auto
    have "bo_Base b * 1 \<le> bo_Base b * 2 ^ n" using assms(2) by (intro mult_left_mono) simp_all
    then have "bo_Base b \<le> delay b n" "delay b n \<le> bo_Max b"
      using assms(3) by (simp_all add: delay_doubles [OF assms(2-4)])
    moreover then have "delay b n div 5 \<le> bo_Max b div 5" by (simp add: zdiv_mono1)
    ultimately show ?thesis using n by (auto simp: jittered_def)
  qed
  then show ?thesis using i(2) tunnels_okD [OF i(1)] i(1) by (auto simp del: Un_iff)
qed

lemma first_step_of_tunnel:
  "(serve_step b)\<^sup>*\<^sup>* serving_start (serving_start\<lparr>sv_exited := {0}, sv_outages := 1, sv_pc := Reporting 0\<rparr>)"
proof -
  let ?a = "serving_start\<lparr>sv_exited := insert 0 (sv_exited serving_start)\<rparr>"
  have "serve_step b serving_start ?a" by (rule tunnel_exits) (simp add: serving_start_def)
  moreover have "serve_step b ?a (?a\<lparr>sv_pc := SawExit 0\<rparr>)" by (rule see_exit) (simp_all add: serving_start_def)
  moreover have "serve_step b (?a\<lparr>sv_pc := SawExit 0\<rparr>) (?a\<lparr>sv_pc := SawExit 0, sv_outages := Suc (sv_outages (?a\<lparr>sv_pc := SawExit 0\<rparr>)), sv_pc := Reporting 0\<rparr>)"
    by (rule on_exit) (simp_all add: serving_start_def)
  ultimately have "(serve_step b)\<^sup>*\<^sup>* serving_start (?a\<lparr>sv_pc := SawExit 0, sv_outages := Suc (sv_outages (?a\<lparr>sv_pc := SawExit 0\<rparr>)), sv_pc := Reporting 0\<rparr>)"
    by (meson converse_rtranclp_into_rtranclp rtranclp.rtrancl_refl)
  then show ?thesis by (simp add: serving_start_def)
qed

theorem supervisor_one_tunnel_witness:
  "\<exists>t. {..<sv_started (serving_start\<lparr>sv_exited := {0}, sv_outages := 1, sv_pc := Reporting 0\<rparr>)} - {} \<subseteq> {t}"
  using supervisor_one_tunnel [OF first_step_of_tunnel, of "\<lparr>bo_Base = 1, bo_Max = 30\<rparr>"] by (auto simp: serving_start_def)

text \<open>The state of the sources: who reported what.\<close>

definition watcher_ok :: "watcher option \<Rightarrow> session_event list \<Rightarrow> bool" where
  "watcher_ok w evs \<longleftrightarrow>
     (\<forall>v. w = Some v \<longrightarrow> (wt_reported v \<longleftrightarrow> evs \<noteq> []) \<and>
        (evs \<noteq> [] \<longrightarrow> (\<exists>st. last evs = NodeState st \<and> wt_wasUp v = (st = ''Running''))))"

definition sources_inv :: "serving \<Rightarrow> bool" where
  "sources_inv s \<longleftrightarrow>
     (sv_health s = new_health \<or> status_Load (hl_status (sv_health s)) = folded (hl_down (sv_health s))) \<and>
     (\<forall>k r. map_of (hl_down (sv_health s)) k = Some r \<longrightarrow>
        k = bootstrapSource \<and> r = ReasonSSHBootstrapFailed \<or> k = controlSource \<and> r = ReasonControlPlaneUnreachable) \<and>
     (sv_pc s \<noteq> Returned \<longrightarrow> source_down bootstrapSource (sv_health s) = in_outage (sv_pc s)) \<and>
     (\<not> session_over (sv_session s) \<longrightarrow> source_down controlSource (sv_health s) = session_lost (sv_session s)) \<and>
     watcher_ok (sv_watcher s) (sv_session s)"

lemma sources_differ [simp]: "bootstrapSource \<noteq> controlSource" "controlSource \<noteq> bootstrapSource"
  "bootstrapSource \<noteq> ''serve''" "controlSource \<noteq> ''serve''"
  by (simp_all add: bootstrapSource_def controlSource_def)

lemma sources_inv_same:
  "sources_inv s \<Longrightarrow> sv_health s' = sv_health s \<Longrightarrow> sv_session s' = sv_session s \<Longrightarrow> sv_watcher s' = sv_watcher s \<Longrightarrow>
   (sv_pc s' \<noteq> Returned \<Longrightarrow> sv_pc s \<noteq> Returned \<and> in_outage (sv_pc s') = in_outage (sv_pc s)) \<Longrightarrow> sources_inv s'"
  by (simp add: sources_inv_def)

lemma watch_ops:
  assumes "watch_turn ev w = (ops, w')"
  obtains "ops = []" | "ops = [OpUp controlSource]" | "ops = [OpDown controlSource ReasonControlPlaneUnreachable]"
  using assms by (cases ev) (auto simp: watch_turn_def Let_def split: if_splits)

lemma watch_turn_session:
  assumes "watch_turn ev w = (ops, w')" and "watcher_ok (Some w) evs" and "source_down controlSource h = session_lost evs"
  shows "watcher_ok w' (evs @ [ev])"
    and "\<not> session_over (evs @ [ev]) \<Longrightarrow> source_down controlSource (apply_ops ops h) = session_lost (evs @ [ev])"
proof -
  have tr: "rd.tracks w h"
    using assms(2,3) by (cases "evs = []") (auto simp: rd.tracks_def watcher_ok_def session_lost_def)
  have "watcher_ok w' (evs @ [ev]) \<and>
    (\<not> session_over (evs @ [ev]) \<longrightarrow> source_down controlSource (apply_ops ops h) = session_lost (evs @ [ev]))"
  proof (cases ev)
    case (NodeState st)
    then obtain v where "w' = Some v" "rd.tracks v (apply_ops ops h)" "wt_reported v" "wt_wasUp v = (st = ''Running'')"
      using rd.turn_tracks [OF tr assms(1) [unfolded NodeState]] by (auto simp: apply_ops_run)
    then show ?thesis using NodeState by (simp add: watcher_ok_def rd.tracks_def session_lost_def)
  next
    case (BusClosed ended)
    then show ?thesis using assms(1) rd.closed_bus_down [of w ops w' h]
      by (cases ended) (auto simp: watcher_ok_def session_lost_def session_over_def apply_ops_run watch_turn_def)
  next
    case ContextDone
    then show ?thesis using assms(1) by (simp add: watcher_ok_def session_over_def watch_turn_def)
  qed
  then show "watcher_ok w' (evs @ [ev])"
    and "\<not> session_over (evs @ [ev]) \<Longrightarrow> source_down controlSource (apply_ops ops h) = session_lost (evs @ [ev])" by simp_all
qed

lemma sources_inv_step: "serve_step b s s' \<Longrightarrow> sources_inv s \<Longrightarrow> sources_inv s'"
proof (induction rule: serve_step.induct)
  case (report_down s t)
  then show ?case
    by (auto simp: sources_inv_def health_op_status source_down_def split: if_splits option.splits)
next
  case (mark_up s t)
  then show ?case
    by (auto simp: sources_inv_def health_op_status source_down_def split: if_splits option.splits)
next
  case (serving_up s)
  then show ?case
    by (auto simp: sources_inv_def health_op_status source_down_def split: if_splits option.splits)
next
  case (watch s w ev ops w')
  have w: "watcher_ok (Some w) (sv_session s)" using watch by (simp add: sources_inv_def)
  then have "\<not> session_over (sv_session s)" by (auto simp: watcher_ok_def session_over_def)
  then have c: "source_down controlSource (sv_health s) = session_lost (sv_session s)" using watch(3) by (simp add: sources_inv_def)
  note t = watch_turn_session [OF watch(2) w c]
  have bs: "source_down bootstrapSource (apply_ops ops (sv_health s)) = source_down bootstrapSource (sv_health s)"
    using rd.turn_other_sources [OF watch(2), of bootstrapSource] by (simp add: apply_ops_run)
  have m: "apply_ops ops (sv_health s) = sv_health s \<or>
      status_Load (hl_status (apply_ops ops (sv_health s))) = folded (hl_down (apply_ops ops (sv_health s)))"
    "\<forall>k r. map_of (hl_down (apply_ops ops (sv_health s))) k = Some r \<longrightarrow>
      map_of (hl_down (sv_health s)) k = Some r \<or> k = controlSource \<and> r = ReasonControlPlaneUnreachable"
    using watch(2) by (rule watch_ops; auto simp: apply_ops_def apply_op_def health_op_status split: if_splits)+
  show ?case using watch(3) m bs t unfolding sources_inv_def by (auto; metis)
qed (erule sources_inv_same; simp)+

lemma sources_inv_reachable: "(serve_step b)\<^sup>*\<^sup>* serving_start s \<Longrightarrow> sources_inv s"
proof (induction rule: rtranclp_induct)
  case base
  show ?case
    by (simp add: sources_inv_def serving_start_def new_health_def source_down_def session_lost_def watcher_ok_def new_watcher_def)
qed (rule sources_inv_step)

text \<open>
  C12: what \<open>/health/ready\<close> says is true. After any interleaving of the supervisor, the watcher of the
  control session and the command, and once anything was reported: the endpoint is not ready
  with the bootstrap's reason exactly while a reported outage of the tunnel lasts, otherwise not
  ready with the reason of the control plane exactly while the last news of the session is not
  \<open>Running\<close> or the news ended, and ready in every other state.
\<close>

theorem serve_readiness:
  assumes "(serve_step b)\<^sup>*\<^sup>* serving_start s" and "sv_health s \<noteq> new_health"
    and "sv_pc s \<noteq> Returned" and "\<not> session_over (sv_session s)"
  shows "status_Load (hl_status (sv_health s)) =
    (if in_outage (sv_pc s) then (False, ReasonSSHBootstrapFailed)
     else if session_lost (sv_session s) then (False, ReasonControlPlaneUnreachable)
     else (True, []))"
proof -
  let ?ds = "hl_down (sv_health s)"
  note i = sources_inv_reachable [OF assms(1), unfolded sources_inv_def]
  have st: "status_Load (hl_status (sv_health s)) = folded ?ds" using i assms(2) by blast
  have b: "source_down bootstrapSource (sv_health s) = in_outage (sv_pc s)"
    and c: "source_down controlSource (sv_health s) = session_lost (sv_session s)" using i assms(3,4) by blast+
  have r: "map_of ?ds k = Some r \<Longrightarrow>
      k = bootstrapSource \<and> r = ReasonSSHBootstrapFailed \<or> k = controlSource \<and> r = ReasonControlPlaneUnreachable" for k r
    using i by blast
  have k: "x = bootstrapSource \<or> x = controlSource" if "x \<in> set (map fst ?ds)" for x
    using \<open>x \<in> set (map fst ?ds)\<close> r [of x] by (metis list.set_map map_of_eq_None_iff not_None_eq)
  have d: "x \<in> set (map fst ?ds) \<longleftrightarrow> source_down x (sv_health s)" for x
    by (simp add: source_down_def map_of_eq_None_iff)
  consider (boot) "in_outage (sv_pc s)" | (lost) "\<not> in_outage (sv_pc s)" "session_lost (sv_session s)"
    | (fine) "\<not> in_outage (sv_pc s)" "\<not> session_lost (sv_session s)" by blast
  then show ?thesis
  proof cases
    case boot
    have "\<not> str_le controlSource bootstrapSource" by (simp add: controlSource_def bootstrapSource_def)
    then have "hd (sort_names (map fst ?ds)) = bootstrapSource"
      using boot b d k by (intro least_source) blast+
    moreover have "map_of ?ds bootstrapSource = Some ReasonSSHBootstrapFailed"
      using boot b r [of bootstrapSource] by (auto simp: source_down_def)
    ultimately show ?thesis using st boot by (auto simp: folded_def)
  next
    case lost
    then have "hd (sort_names (map fst ?ds)) = controlSource" using b c d k by (intro least_source) blast+
    moreover have "map_of ?ds controlSource = Some ReasonControlPlaneUnreachable"
      using lost c r [of controlSource] by (auto simp: source_down_def)
    ultimately show ?thesis using st lost by (auto simp: folded_def)
  next
    case fine
    then have "?ds = []" using b c d k by (metis last_in_set list.map_disc_iff)
    then show ?thesis using st fine by (simp add: folded_def)
  qed
qed

theorem serve_readiness_witness:
  "status_Load (hl_status (health_Down bootstrapSource ReasonSSHBootstrapFailed new_health)) = (False, ''ssh_bootstrap_failed'')"
proof -
  let ?s = "serving_start\<lparr>sv_exited := {0}, sv_outages := 1, sv_pc := Reporting 0\<rparr>"
  let ?t = "?s\<lparr>sv_health := health_Down bootstrapSource ReasonSSHBootstrapFailed (sv_health ?s), sv_pc := Releasing 0\<rparr>"
  have "serve_step \<lparr>bo_Base = 1, bo_Max = 30\<rparr> ?s ?t" by (rule report_down) simp
  with first_step_of_tunnel have r: "(serve_step \<lparr>bo_Base = 1, bo_Max = 30\<rparr>)\<^sup>*\<^sup>* serving_start ?t"
    by (rule rtranclp.rtrancl_into_rtrancl)
  have "map_of (hl_down (sv_health ?t)) bootstrapSource \<noteq> None" by simp
  moreover have "map_of (hl_down new_health) bootstrapSource = None" by (simp add: new_health_def)
  ultimately have "sv_health ?t \<noteq> new_health" by metis
  moreover have "\<not> session_over (sv_session ?t)" by (simp add: serving_start_def session_over_def)
  ultimately show ?thesis using serve_readiness [OF r] by (simp add: serving_start_def ReasonSSHBootstrapFailed_def)
qed

end
