(* ===== verification/Signals.thy ===== *)
theory Signals
  imports Go_Strings Go_Strconv Prelude
begin

text \<open>
  \<open>cmd/cli/signal.go\<close>, \<open>exit.go\<close> and \<open>args.go\<close>: the lines \<open>READY\<close> and \<open>ERROR\<close> that other programs
  read, the exit status, and the rewriting of old arguments; with the classification of start
  errors of \<open>run.go\<close> that fills the reason of an \<open>ERROR\<close> line.
\<close>

subsection \<open>Lines\<close>

definition reasonBadAuthKey :: string where "reasonBadAuthKey = ''bad_authkey''"
definition reasonControlPlaneUnreachable :: string where "reasonControlPlaneUnreachable = ''control_plane_unreachable''"
definition reasonSSHBootstrapFailed :: string where "reasonSSHBootstrapFailed = ''ssh_bootstrap_failed''"
definition reasonNodeNotTagged :: string where "reasonNodeNotTagged = ''node_not_tagged''"
definition reasonPublishFailed :: string where "reasonPublishFailed = ''publish_failed''"
definition reasonUnknown :: string where "reasonUnknown = ''unknown''"

definition backslash :: char where "backslash = CHR 0x5C"
definition dquote :: char where "dquote = CHR 0x22"

text \<open>\<open>strings.ReplaceAll\<close> of a text that is not empty.\<close>

function ReplaceAll :: "string \<Rightarrow> string \<Rightarrow> string \<Rightarrow> string" where
  "ReplaceAll old new s =
     (if s = [] \<or> old = [] then s
      else if HasPrefix s old then new @ ReplaceAll old new (drop (length old) s)
      else hd s # ReplaceAll old new (tl s))"
  by pat_completeness auto
termination by (relation "measure (\<lambda>(old, new, s). length s)") auto

declare ReplaceAll.simps [simp del]

definition formatReadyLine :: "string \<Rightarrow> string \<Rightarrow> string" where
  "formatReadyLine localAddr target = ''READY local='' @ localAddr @ '' target='' @ target"

definition formatErrorLine :: "string \<Rightarrow> string \<Rightarrow> string" where
  "formatErrorLine reason detail = ''ERROR reason='' @ reason @ '' detail='' @ [dquote] @ detail @ [dquote]"

definition escapeSignalDetail :: "string \<Rightarrow> string" where
  "escapeSignalDetail s =
     (let s = ReplaceAll [CHR 13, CHR 10] '' '' s;
          s = ReplaceAll [CHR 10] '' '' s;
          s = ReplaceAll [CHR 13] '' '' s;
          s = ReplaceAll [backslash] [backslash, backslash] s;
          s = ReplaceAll [dquote] [backslash, dquote] s
      in TrimSpace s)"

definition emitError :: "string \<Rightarrow> string \<Rightarrow> string" where
  "emitError reason detail = formatErrorLine reason (escapeSignalDetail detail)"

text \<open>The cause of a context that has ended, or the line.\<close>

definition emitReadyIfActive :: "'e option \<Rightarrow> string \<Rightarrow> string \<Rightarrow> 'e + string" where
  "emitReadyIfActive cause localAddr target =
     (case cause of Some e \<Rightarrow> Inl e | None \<Rightarrow> Inr (formatReadyLine localAddr target))"

subsection \<open>The exit status\<close>

text \<open>A chain of wrapped errors: the exit errors in it, outermost first, carry a code.\<close>

definition ExitCode :: "int option list option \<Rightarrow> int" where
  "ExitCode err =
     (case err of
        None \<Rightarrow> 0
      | Some chain \<Rightarrow> (case List.map_filter (\<lambda>e. e) chain of code # _ \<Rightarrow> code | [] \<Rightarrow> 1))"

subsection \<open>Arguments\<close>

definition NormalizeArgs :: "string list \<Rightarrow> string list" where
  "NormalizeArgs argv =
     (case argv of [] \<Rightarrow> [] | prog # args \<Rightarrow> prog # map (\<lambda>a. if a = ''-v'' then ''--verbose'' else a) args)"

definition LegacyVersionRequested :: "string list \<Rightarrow> bool" where
  "LegacyVersionRequested argv = list_ex (\<lambda>a. a = ''-version'' \<or> a = ''--version'') (tl argv)"

subsection \<open>Start errors\<close>

definition diagnoseTailscaleInitError :: "string \<Rightarrow> string \<times> string \<times> string" where
  "diagnoseTailscaleInitError err =
     (let msg = ToLower err in
      if list_ex (Contains msg) [''api key does not exist'', ''invalid key'', ''key expired''] then
        (reasonBadAuthKey,
         ''auth key rejected by control plane (likely expired, revoked, or single-use already consumed)'',
         ''regenerate a reusable+ephemeral auth key in your control plane admin and update TS_AUTHKEY on every client'')
      else if list_ex (Contains msg) [''context deadline exceeded'', ''i/o timeout''] then
        (reasonControlPlaneUnreachable,
         ''control plane unreachable within TS_TIMEOUT'',
         ''check network access to the control URL; raise TS_TIMEOUT if the link is slow'')
      else (reasonUnknown, [], []))"

definition controlURLForError :: "string \<Rightarrow> string" where
  "controlURLForError controlURL =
     (if controlURL = [] then ''https://controlplane.tailscale.com (default)'' else controlURL)"

subsection \<open>Reading an \<open>ERROR\<close> line\<close>

text \<open>A reader of a quoted field: a backslash takes the next character as it is.\<close>

fun read_quoted :: "string \<Rightarrow> (string \<times> string) option" where
  "read_quoted [] = None"
| "read_quoted (c # r) =
     (if c = dquote then Some ([], r)
      else if c = backslash then
        (case r of [] \<Rightarrow> None | d # r' \<Rightarrow> map_option (\<lambda>(s, t). (d # s, t)) (read_quoted r'))
      else map_option (\<lambda>(s, t). (c # s, t)) (read_quoted r))"

text \<open>The detail on one line, and every character of it escaped.\<close>

definition one_line :: "string \<Rightarrow> string" where
  "one_line s = ReplaceAll [CHR 13] '' '' (ReplaceAll [CHR 10] '' '' (ReplaceAll [CHR 13, CHR 10] '' '' s))"

definition esc :: "char \<Rightarrow> string" where
  "esc c = (if c = backslash \<or> c = dquote then [backslash, c] else [c])"

lemma quotes_differ [simp]: "backslash \<noteq> dquote" "dquote \<noteq> backslash"
  by (simp_all add: backslash_def dquote_def)

lemma esc_plain: "c \<noteq> backslash \<Longrightarrow> c \<noteq> dquote \<Longrightarrow> esc c = [c]"
  by (simp add: esc_def)

lemma esc_start: "esc d = c # r \<Longrightarrow> c \<noteq> backslash \<Longrightarrow> d = c \<and> r = []"
  by (auto simp: esc_def split: if_splits)

lemma esc_end: "esc d = r @ [c] \<Longrightarrow> c \<noteq> backslash \<Longrightarrow> c \<noteq> dquote \<Longrightarrow> d = c \<and> r = []"
  by (auto simp: esc_def split: if_splits)

lemma esc_not_Nil: "esc d \<noteq> []"
  by (simp add: esc_def)

lemma ReplaceAll_char: "ReplaceAll [c] new s = concat (map (\<lambda>x. if x = c then new else [x]) s)"
  by (induction s) (subst ReplaceAll.simps, simp)+

lemma escaped_chars: "escapeSignalDetail s = TrimSpace (concat (map esc (one_line s)))"
proof -
  have "concat (map (\<lambda>x. if x = dquote then [backslash, dquote] else [x])
      (concat (map (\<lambda>x. if x = backslash then [backslash, backslash] else [x]) t))) = concat (map esc t)" for t
    by (induction t) (auto simp: esc_def)
  then show ?thesis by (simp add: escapeSignalDetail_def one_line_def Let_def ReplaceAll_char)
qed

lemma one_line_breaks: "CHR 10 \<notin> set (one_line s)" "CHR 13 \<notin> set (one_line s)"
  by (auto simp: one_line_def ReplaceAll_char)

lemma read_escaped: "read_quoted (concat (map esc x) @ dquote # rest) = Some (x, rest)"
  by (induction x) (auto simp: esc_def)

text \<open>White space at the ends has no printable character, so it is not part of an escape.\<close>

lemma space_at_not_graphic: "\<forall>c \<in> set (take (space_at s) s). \<not> graphic c"
proof (cases s)
  case (Cons c cs)
  show ?thesis
  proof (cases "(of_char c :: nat) \<in> set ascii_spaces")
    case True
    then have "\<not> graphic c" by (auto simp: ascii_spaces_def graphic_def)
    then show ?thesis using True Cons by (simp add: space_at_def)
  next
    case False
    show ?thesis
    proof (cases "find (HasPrefix (map of_char s)) wide_spaces")
      case (Some w)
      then have w: "w \<in> set wide_spaces" "HasPrefix (map of_char s) w" by (auto simp: find_Some_iff)
      then have "map of_char (take (length w) s) = w" by (auto simp: HasPrefix_iff take_map [symmetric])
      then have "\<forall>c \<in> set (take (length w) s). 128 \<le> (of_char c :: nat)"
        using wide_spaces_bytes w(1) by (metis image_eqI list.set_map)
      then show ?thesis using False Cons Some by (auto simp: space_at_def graphic_def)
    qed (use False Cons in \<open>simp add: space_at_def\<close>)
  qed
qed simp

lemma trim_left_split: "\<exists>a. s = a @ trim_left s \<and> (\<forall>c \<in> set a. \<not> graphic c)"
proof (induction s rule: trim_left.induct)
  case (1 s)
  show ?case
  proof (cases "space_at s = 0")
    case False
    then obtain a where "drop (space_at s) s = a @ trim_left s" "\<forall>c \<in> set a. \<not> graphic c"
      using 1 trim_left.simps [of s] by auto
    then show ?thesis using space_at_not_graphic [of s]
      by (intro exI [of _ "take (space_at s) s @ a"]) (auto, metis append_take_drop_id)
  qed (simp add: trim_left.simps [of s])
qed

lemma space_end_not_graphic: "\<forall>c \<in> set (drop (length s - space_end s) s). \<not> graphic c"
proof (cases s rule: rev_cases)
  case (snoc cs c)
  show ?thesis
  proof (cases "(of_char c :: nat) \<in> set ascii_spaces")
    case True
    then have "\<not> graphic c" by (auto simp: ascii_spaces_def graphic_def)
    then show ?thesis using True snoc by (simp add: space_end_def)
  next
    case False
    show ?thesis
    proof (cases "find (HasSuffix (map of_char s)) wide_spaces")
      case (Some w)
      then have w: "w \<in> set wide_spaces" "HasSuffix (map of_char s) w" by (auto simp: find_Some_iff)
      then obtain t where t: "map of_char s = t @ w" by (auto simp: HasSuffix_iff)
      then have "map of_char (drop (length s - length w) s) = w"
        by (metis add_diff_cancel_right' append_eq_conv_conj drop_map length_append length_map)
      then have "\<forall>c \<in> set (drop (length s - length w) s). 128 \<le> (of_char c :: nat)"
        using wide_spaces_bytes w(1) by (metis image_eqI list.set_map)
      moreover have "space_end s = length w" using False snoc Some by (simp add: space_end_def)
      ultimately show ?thesis by (fastforce simp: graphic_def)
    qed (use False snoc in \<open>simp add: space_end_def\<close>)
  qed
qed simp

lemma trim_right_split: "\<exists>b. s = trim_right s @ b \<and> (\<forall>c \<in> set b. \<not> graphic c)"
proof (induction s rule: trim_right.induct)
  case (1 s)
  show ?case
  proof (cases "space_end s = 0")
    case False
    then obtain b where "take (length s - space_end s) s = trim_right s @ b" "\<forall>c \<in> set b. \<not> graphic c"
      using 1 trim_right.simps [of s] by auto
    then show ?thesis using space_end_not_graphic [of s]
      by (intro exI [of _ "b @ drop (length s - space_end s) s"]) (auto, metis append_assoc append_take_drop_id)
  qed (simp add: trim_right.simps [of s])
qed

lemma TrimSpace_split: "\<exists>a b. s = a @ TrimSpace s @ b \<and> (\<forall>c \<in> set (a @ b). \<not> graphic c)"
proof -
  obtain a where a: "s = a @ trim_left s" "\<forall>c \<in> set a. \<not> graphic c" using trim_left_split by blast
  obtain b where b: "trim_left s = TrimSpace s @ b" "\<forall>c \<in> set b. \<not> graphic c"
    using trim_right_split [of "trim_left s"] by (auto simp: TrimSpace_def)
  then show ?thesis using a by (intro exI [of _ a] exI [of _ b]) auto
qed

lemma escaped_prefix:
  "concat (map esc l) = a @ t \<Longrightarrow> \<forall>c \<in> set a. \<not> graphic c \<Longrightarrow> \<exists>m. l = a @ m \<and> concat (map esc m) = t"
proof (induction a arbitrary: l)
  case (Cons c a)
  have "\<not> graphic c" using Cons.prems(2) by simp
  then have "c \<noteq> backslash" by (auto simp: graphic_def backslash_def)
  obtain d m where l: "l = d # m" using Cons.prems(1) by (cases l) auto
  obtain x r where d: "esc d = x # r" using esc_not_Nil by (metis list.exhaust)
  then have "x = c" using Cons.prems(1) l by simp
  then have "d = c" "r = []" using esc_start d \<open>c \<noteq> backslash\<close> by blast+
  then have "l = c # m" "concat (map esc m) = a @ t" using l d Cons.prems(1) by simp_all
  then show ?case using Cons.IH [of m] Cons.prems(2) by auto
qed simp

lemma escaped_suffix:
  "concat (map esc l) = t @ b \<Longrightarrow> \<forall>c \<in> set b. \<not> graphic c \<Longrightarrow> \<exists>m. l = m @ b \<and> concat (map esc m) = t"
proof (induction b arbitrary: l rule: rev_induct)
  case (snoc c b)
  have "\<not> graphic c" using snoc.prems(2) by simp
  then have c: "c \<noteq> backslash" "c \<noteq> dquote" by (auto simp: graphic_def backslash_def dquote_def)
  have "l \<noteq> []" using snoc.prems(1) by auto
  then obtain l' d where l: "l = l' @ [d]" by (metis rev_exhaust)
  obtain x r where d: "esc d = r @ [x]" using esc_not_Nil by (metis rev_exhaust)
  have e: "(concat (map esc l') @ r) @ [x] = (t @ b) @ [c]" using snoc.prems(1) l d by simp
  then have "x = c" by simp
  then have "d = c" "r = []" using esc_end d c by blast+
  then have "d = c \<and> concat (map esc l') = t @ b" using e by simp
  then show ?case using snoc.IH [of l'] snoc.prems(2) l by auto
qed simp

text \<open>
  an \<open>ERROR\<close> line is one line and is read back whole. Whatever the text of an error is, its
  field holds no line break, and a reader that honours backslashes finds the closing quote the
  writer put there and gets the text with its line breaks as spaces; only white space at the
  two ends is missing.
\<close>

lemma error_line_roundtrip:
  "CHR 10 \<notin> set (escapeSignalDetail detail) \<and> CHR 13 \<notin> set (escapeSignalDetail detail) \<and>
   (\<exists>a x b. one_line detail = a @ x @ b \<and> (\<forall>c \<in> set (a @ b). \<not> graphic c) \<and>
      (\<forall>rest. read_quoted (escapeSignalDetail detail @ dquote # rest) = Some (x, rest)))"
proof -
  let ?e = "escapeSignalDetail detail" and ?l = "one_line detail"
  obtain a b where ab: "concat (map esc ?l) = a @ ?e @ b" "\<forall>c \<in> set (a @ b). \<not> graphic c"
    using TrimSpace_split [of "concat (map esc ?l)"] by (auto simp: escaped_chars)
  obtain m where m: "?l = a @ m" "concat (map esc m) = ?e @ b" using escaped_prefix [OF ab(1)] ab(2) by auto
  obtain x where x: "m = x @ b" "concat (map esc x) = ?e" using escaped_suffix [OF m(2)] ab(2) by auto
  have "set (concat (map esc x)) \<subseteq> set x \<union> {backslash}" by (auto simp: esc_def split: if_splits)
  then have "set ?e \<subseteq> set x \<union> {backslash}" by (simp only: x(2))
  then have "c \<notin> set ?e" if "c \<notin> set ?l" and "c \<noteq> backslash" for c
    using m(1) x(1) \<open>c \<notin> set ?l\<close> \<open>c \<noteq> backslash\<close> by auto
  moreover have "CHR 10 \<noteq> backslash" "CHR 13 \<noteq> backslash" by (simp_all add: backslash_def)
  ultimately have "CHR 10 \<notin> set ?e" "CHR 13 \<notin> set ?e" using one_line_breaks by (metis (no_types))+
  moreover have "read_quoted (?e @ dquote # rest) = Some (x, rest)" for rest using read_escaped [of x rest] x(2) by simp
  ultimately show ?thesis using m(1) x(1) ab(2) by blast
qed

end
