(* ===== verification/State_Dir.thy ===== *)
theory State_Dir
  imports Go_Path Go_Strconv "HOL-Library.Word"
begin

text \<open>
  \<open>internal/host/statedir.go\<close>, \<open>statedir_unix.go\<close> and \<open>posixacl.go\<close>: who may touch the directory
  with the node's key. The file system is a parameter of the checks: what \<open>lstat\<close>, \<open>readlink\<close>
  and the access ACL of a path answer. The walk over the ancestors follows symbolic links as
  the kernel resolves a path, within one budget of links.
\<close>

unbundle bit_operations_syntax

subsection \<open>File information\<close>

datatype file_kind = FDir | FLink | FRegular | FOther

record FileInfo =
  fi_kind :: file_kind
  fi_perm :: nat
  fi_setuid :: bool
  fi_setgid :: bool
  fi_sticky :: bool

datatype lstat_answer = Absent | LstatFails | Found FileInfo nat

type_synonym octet = "8 word"

datatype acl_answer = NoACL | ACLFails | ACL "octet list"

record ancestorFS =
  af_lstat :: "string \<Rightarrow> lstat_answer"
  af_readlink :: "string \<Rightarrow> string option"
  af_acl :: "(string \<Rightarrow> acl_answer) option"

datatype acl_error = ACLSize nat | ACLVersion nat | ACLTag nat nat | ACLMask

datatype dir_problem =
    CannotRead
  | LinkOwner nat
  | NotADirectory
  | WrongOwner nat
  | WritableMode nat
  | WrongMode nat string
  | NotRegular
  | ACLUnreadable
  | ACLMalformed acl_error
  | ACLWriters "string list"
  | TooManyLinks
  | LinkUnreadable
  | DotDot
  | CreateFailed

datatype dir_error = Ancestor string string string dir_problem | Leaf string string dir_problem

subsection \<open>Access control lists\<close>

definition le16 :: "octet list \<Rightarrow> nat" where
  "le16 bs = unat (bs ! 0) + 256 * unat (bs ! 1)"

definition le32 :: "octet list \<Rightarrow> nat" where
  "le32 bs = unat (bs ! 0) + 256 * unat (bs ! 1) + 65536 * unat (bs ! 2) + 16777216 * unat (bs ! 3)"

definition aclUserObj :: nat where "aclUserObj = 1"
definition aclUser :: nat where "aclUser = 2"
definition aclGroupObj :: nat where "aclGroupObj = 4"
definition aclGroup :: nat where "aclGroup = 8"
definition aclMask :: nat where "aclMask = 16"
definition aclOther :: nat where "aclOther = 32"
definition aclWrite :: nat where "aclWrite = 2"

definition aclHeaderValid :: "octet list \<Rightarrow> acl_error option" where
  "aclHeaderValid raw =
     (if length raw < 4 \<or> (length raw - 4) mod 8 \<noteq> 0 then Some (ACLSize (length raw))
      else if le32 raw \<noteq> 2 then Some (ACLVersion (le32 raw))
      else None)"

text \<open>The entries after the header, eight bytes each.\<close>

function chunks :: "octet list \<Rightarrow> octet list list" where
  "chunks bs = (if bs = [] then [] else take 8 bs # chunks (drop 8 bs))"
  by auto
termination by (relation "measure length") auto

declare chunks.simps [simp del]

definition aclEntryWriter :: "octet list \<Rightarrow> string option" where
  "aclEntryWriter entry =
     (let tag = le16 entry; perm = le16 (drop 2 entry); qid = le32 (drop 4 entry) in
      if (tag \<noteq> aclUser \<and> tag \<noteq> aclGroup) \<or> perm AND aclWrite = 0 \<or> qid = 0 then None
      else Some ((if tag = aclGroup then ''group'' else ''user'') @ '' '' @ itoa_nat qid))"

definition seen_tag :: "octet list list \<Rightarrow> nat \<Rightarrow> nat" where
  "seen_tag es tag = length (filter (\<lambda>e. le16 e = tag) es)"

definition aclShapeValid :: "octet list \<Rightarrow> acl_error option" where
  "aclShapeValid raw =
     (let seen = seen_tag (chunks (drop 4 raw)) in
      case find (\<lambda>tag. seen tag \<noteq> 1) [aclUserObj, aclGroupObj, aclOther] of
        Some tag \<Rightarrow> Some (ACLTag tag (seen tag))
      | None \<Rightarrow> if 0 < seen aclUser + seen aclGroup \<and> seen aclMask \<noteq> 1 then Some ACLMask else None)"

definition aclWriters :: "octet list \<Rightarrow> (acl_error, string list) result" where
  "aclWriters raw =
     check_res (aclHeaderValid raw)
    (check_res (aclShapeValid raw)
      (Inr (List.map_filter aclEntryWriter (chunks (drop 4 raw)))))"

subsection \<open>Ancestors\<close>

definition special_bits :: "FileInfo \<Rightarrow> bool" where
  "special_bits i \<longleftrightarrow> fi_setuid i \<or> fi_setgid i \<or> fi_sticky i"

definition specialSuffix :: "FileInfo \<Rightarrow> string" where
  "specialSuffix i = (if fi_setuid i then '' setuid'' else []) @ (if fi_setgid i then '' setgid'' else []) @
     (if fi_sticky i then '' sticky'' else [])"

definition checkAncestor :: "string \<Rightarrow> string \<Rightarrow> string \<Rightarrow> FileInfo \<Rightarrow> nat \<Rightarrow> dir_error option" where
  "checkAncestor label path dir info uid =
     (if fi_kind info = FLink then
        (if uid \<noteq> 0 then Some (Ancestor label path dir (LinkOwner uid)) else None)
      else if fi_kind info \<noteq> FDir then Some (Ancestor label path dir NotADirectory)
      else if uid \<noteq> 0 then Some (Ancestor label path dir (WrongOwner uid))
      else if fi_perm info AND 18 \<noteq> 0 then Some (Ancestor label path dir (WritableMode (fi_perm info)))
      else None)"

definition checkAncestorACL :: "string \<Rightarrow> string \<Rightarrow> string \<Rightarrow> FileInfo \<Rightarrow> ancestorFS \<Rightarrow> dir_error option" where
  "checkAncestorACL label path dir info afs =
     (case af_acl afs of
        None \<Rightarrow> None
      | Some acl \<Rightarrow>
          if fi_kind info \<noteq> FDir then None
          else (case acl dir of
                  ACLFails \<Rightarrow> Some (Ancestor label path dir ACLUnreadable)
                | NoACL \<Rightarrow> None
                | ACL raw \<Rightarrow>
                    (case aclWriters raw of
                       Inl e \<Rightarrow> Some (Ancestor label path dir (ACLMalformed e))
                     | Inr ws \<Rightarrow> if ws \<noteq> [] then Some (Ancestor label path dir (ACLWriters ws)) else None)))"

text \<open>The information of an existing ancestor and the error, if any.\<close>

definition ancestorAt :: "string \<Rightarrow> string \<Rightarrow> string \<Rightarrow> ancestorFS \<Rightarrow> FileInfo option \<times> dir_error option" where
  "ancestorAt label path dir afs =
     (case af_lstat afs dir of
        Absent \<Rightarrow> (None, None)
      | LstatFails \<Rightarrow> (None, Some (Ancestor label path dir CannotRead))
      | Found info uid \<Rightarrow>
          (Some info,
           and_then (if uid = 0 then checkAncestorACL label path dir info afs else None)
             (checkAncestor label path dir info uid)))"

definition components :: "string \<Rightarrow> string list" where
  "components p = filter (\<lambda>c. c \<noteq> [] \<and> c \<noteq> ''.'') (split_on CHR ''/'' p)"

definition maxLinkHops :: nat where "maxLinkHops = 40"

function walk :: "string \<Rightarrow> string \<Rightarrow> ancestorFS \<Rightarrow> string list \<Rightarrow> string \<Rightarrow> nat \<Rightarrow> dir_error option" where
  "walk label path afs [] cur links = None"
| "walk label path afs (c # rest) cur links =
     (if c = ''..'' then walk label path afs rest (Dir cur) links
      else
        let next = Join [cur, c] in
        (case ancestorAt label path next afs of
           (_, Some e) \<Rightarrow> Some e
         | (None, None) \<Rightarrow> None
         | (Some info, None) \<Rightarrow>
             if fi_kind info \<noteq> FLink then walk label path afs rest next links
             else if maxLinkHops < links + 1 then Some (Ancestor label path next TooManyLinks)
             else (case af_readlink afs next of
                     None \<Rightarrow> Some (Ancestor label path next LinkUnreadable)
                   | Some target \<Rightarrow>
                       walk label path afs (components target @ rest)
                         (if IsAbs target then ''/'' else cur) (links + 1))))"
  by pat_completeness auto
termination
  by (relation "measures [\<lambda>(_, _, _, _, _, links). Suc maxLinkHops - links, \<lambda>(_, _, _, rest, _, _). length rest]") auto

definition walkAncestors :: "string \<Rightarrow> string \<Rightarrow> ancestorFS \<Rightarrow> dir_error option" where
  "walkAncestors label path afs =
     and_then (snd (ancestorAt label path ''/'' afs)) (walk label path afs (components (Dir path)) ''/'' 0)"

subsection \<open>The directory and the key file\<close>

definition refuseDotDot :: "string \<Rightarrow> string \<Rightarrow> dir_error option" where
  "refuseDotDot label path = (if ''..'' \<in> set (split_on CHR ''/'' path) then Some (Leaf label path DotDot) else None)"

definition checkUnixStateDir :: "string \<Rightarrow> FileInfo \<Rightarrow> nat \<Rightarrow> dir_error option" where
  "checkUnixStateDir path info uid =
     (if fi_kind info \<noteq> FDir then Some (Leaf ''state_dir'' path NotADirectory)
      else if fi_perm info \<noteq> 448 \<or> special_bits info then
        Some (Leaf ''state_dir'' path (WrongMode (fi_perm info) (specialSuffix info)))
      else if uid \<noteq> 0 then Some (Leaf ''state_dir'' path (WrongOwner uid))
      else None)"

definition checkUnixSecretFile :: "string \<Rightarrow> FileInfo \<Rightarrow> nat \<Rightarrow> dir_error option" where
  "checkUnixSecretFile path info uid =
     (if fi_kind info \<noteq> FRegular then Some (Leaf ''auth_key_file'' path NotRegular)
      else if fi_perm info AND 63 \<noteq> 0 \<or> special_bits info then
        Some (Leaf ''auth_key_file'' path (WrongMode (fi_perm info) (specialSuffix info)))
      else if uid \<noteq> 0 then Some (Leaf ''auth_key_file'' path (WrongOwner uid))
      else None)"

definition check_leaf ::
  "string \<Rightarrow> (string \<Rightarrow> FileInfo \<Rightarrow> nat \<Rightarrow> dir_error option) \<Rightarrow> string \<Rightarrow> ancestorFS \<Rightarrow> dir_error option" where
  "check_leaf label check path0 afs =
     and_then (refuseDotDot label path0)
       (let path = Clean path0 in
        and_then (walkAncestors label path afs)
          (case af_lstat afs path of
             Absent \<Rightarrow> Some (Leaf label path CannotRead)
           | LstatFails \<Rightarrow> Some (Leaf label path CannotRead)
           | Found info uid \<Rightarrow> check path info uid))"

definition CheckStateDir :: "string \<Rightarrow> ancestorFS \<Rightarrow> dir_error option" where
  "CheckStateDir = check_leaf ''state_dir'' checkUnixStateDir"

definition CheckSecretFile :: "string \<Rightarrow> ancestorFS \<Rightarrow> dir_error option" where
  "CheckSecretFile = check_leaf ''auth_key_file'' checkUnixSecretFile"

text \<open>
  How the calls of \<open>createStateDir\<close> end, and the file system after them. The result of
  \<open>EnsureStateDir\<close> also says whether it tried to create anything.
\<close>

record create_run =
  cr_mkdir_all :: bool
  cr_mkdir :: bool
  cr_open :: bool
  cr_chmod :: bool
  cr_after :: ancestorFS

definition createStateDir :: "create_run \<Rightarrow> bool" where
  "createStateDir r \<longleftrightarrow> cr_mkdir_all r \<and> cr_mkdir r \<and> cr_open r \<and> cr_chmod r"

definition EnsureStateDir :: "string \<Rightarrow> ancestorFS \<Rightarrow> create_run \<Rightarrow> dir_error option \<times> bool \<times> ancestorFS" where
  "EnsureStateDir path0 afs r =
     (case refuseDotDot ''state_dir'' path0 of
        Some e \<Rightarrow> (Some e, False, afs)
      | None \<Rightarrow>
          let path = Clean path0 in
          if af_lstat afs path = Absent then
            (case walkAncestors ''state_dir'' path afs of
               Some e \<Rightarrow> (Some e, False, afs)
             | None \<Rightarrow>
                 if \<not> createStateDir r then (Some (Leaf ''state_dir'' path CreateFailed), True, cr_after r)
                 else (CheckStateDir path (cr_after r), True, cr_after r))
          else (CheckStateDir path afs, False, afs))"

subsection \<open>Path resolution, as the kernel does it\<close>

text \<open>
  \<open>passes afs cur rest d\<close>: resolving the names \<open>rest\<close> from the directory \<open>cur\<close> looks up \<open>d\<close>. A
  directory is entered, a link is replaced by its target, dot-dot goes up; nothing is looked up
  behind a name that does not exist.
\<close>

inductive passes :: "ancestorFS \<Rightarrow> string \<Rightarrow> string list \<Rightarrow> string \<Rightarrow> bool" for afs where
  look: "c \<noteq> ''..'' \<Longrightarrow> passes afs cur (c # rest) (Join [cur, c])"
| enter: "c \<noteq> ''..'' \<Longrightarrow> af_lstat afs (Join [cur, c]) = Found info uid \<Longrightarrow> fi_kind info = FDir \<Longrightarrow>
    passes afs (Join [cur, c]) rest d \<Longrightarrow> passes afs cur (c # rest) d"
| follow: "c \<noteq> ''..'' \<Longrightarrow> af_lstat afs (Join [cur, c]) = Found info uid \<Longrightarrow> fi_kind info = FLink \<Longrightarrow>
    af_readlink afs (Join [cur, c]) = Some target \<Longrightarrow>
    passes afs (if IsAbs target then ''/'' else cur) (components target @ rest) d \<Longrightarrow> passes afs cur (c # rest) d"
| up: "passes afs (Dir cur) rest d \<Longrightarrow> passes afs cur (''..'' # rest) d"

text \<open>Only root can change what is at \<open>d\<close>: a root-owned link, or a root-owned directory that neither
  its mode nor its access ACL lets anyone else write.\<close>

definition root_controlled :: "ancestorFS \<Rightarrow> string \<Rightarrow> bool" where
  "root_controlled afs d =
     (case af_lstat afs d of
        Absent \<Rightarrow> True
      | LstatFails \<Rightarrow> False
      | Found info uid \<Rightarrow>
          uid = 0 \<and>
          (fi_kind info = FLink \<or>
           fi_kind info = FDir \<and> fi_perm info AND 18 = 0 \<and>
           (case af_acl afs of
              None \<Rightarrow> True
            | Some acl \<Rightarrow> (case acl d of NoACL \<Rightarrow> True | ACLFails \<Rightarrow> False | ACL raw \<Rightarrow> aclWriters raw = Inr []))))"

lemma ancestorAt_ok:
  "ancestorAt label path d afs = (i, None) \<Longrightarrow> root_controlled afs d"
  by (auto simp: ancestorAt_def root_controlled_def checkAncestor_def checkAncestorACL_def
      split: lstat_answer.splits if_splits option.splits acl_answer.splits sum.splits)

lemma walk_step:
  assumes "walk label path afs (c # rest) cur links = None" "c \<noteq> ''..''"
  shows "root_controlled afs (Join [cur, c])"
    and "af_lstat afs (Join [cur, c]) = Found info uid \<Longrightarrow> fi_kind info \<noteq> FLink \<Longrightarrow>
      walk label path afs rest (Join [cur, c]) links = None"
    and "af_lstat afs (Join [cur, c]) = Found info uid \<Longrightarrow> fi_kind info = FLink \<Longrightarrow>
      af_readlink afs (Join [cur, c]) = Some target \<Longrightarrow>
      walk label path afs (components target @ rest) (if IsAbs target then ''/'' else cur) (links + 1) = None"
proof -
  obtain i where a: "ancestorAt label path (Join [cur, c]) afs = (i, None)"
    using assms by (auto simp: Let_def split: prod.splits option.splits)
  then show "root_controlled afs (Join [cur, c])" by (rule ancestorAt_ok)
  have i: "af_lstat afs (Join [cur, c]) = Found info uid \<Longrightarrow> i = Some info"
    using a by (auto simp: ancestorAt_def)
  show "af_lstat afs (Join [cur, c]) = Found info uid \<Longrightarrow> fi_kind info \<noteq> FLink \<Longrightarrow>
      walk label path afs rest (Join [cur, c]) links = None"
    using assms a i by (auto simp: Let_def)
  show "af_lstat afs (Join [cur, c]) = Found info uid \<Longrightarrow> fi_kind info = FLink \<Longrightarrow>
      af_readlink afs (Join [cur, c]) = Some target \<Longrightarrow>
      walk label path afs (components target @ rest) (if IsAbs target then ''/'' else cur) (links + 1) = None"
    using assms a i by (simp add: Let_def split: if_splits)
qed

lemma walk_sound:
  "passes afs cur rest d \<Longrightarrow> walk label path afs rest cur links = None \<Longrightarrow> root_controlled afs d"
proof (induction arbitrary: links rule: passes.induct)
  case (look c cur rest)
  then show ?case using walk_step(1) by blast
next
  case (enter c cur info uid rest d)
  then show ?case using walk_step(2) [of label path afs c rest cur links info uid] by simp
next
  case (follow c cur info uid target rest d)
  then show ?case using walk_step(3) [of label path afs c rest cur links info uid target] by blast
next
  case (up cur rest d)
  then show ?case by simp
qed

lemma walkAncestors_sound:
  assumes "walkAncestors label path afs = None"
  shows "root_controlled afs ''/''" and "passes afs ''/'' (components (Dir path)) d \<Longrightarrow> root_controlled afs d"
proof -
  have r: "snd (ancestorAt label path ''/'' afs) = None" and w: "walk label path afs (components (Dir path)) ''/'' 0 = None"
    using assms by (simp_all add: walkAncestors_def)
  show "root_controlled afs ''/''" using r ancestorAt_ok by (metis prod.collapse)
  show "passes afs ''/'' (components (Dir path)) d \<Longrightarrow> root_controlled afs d" using walk_sound [OF _ w] .
qed

text \<open>
  C22: an accepted state directory cannot be replaced by anyone but root. If the check passes, the
  directory itself is a real directory, owned by root, with mode 0700 and no special bits, and
  everything that the kernel looks up on the way to it, through any chain of symbolic links, is
  owned by root and not writable by group, others or a named entry of an access ACL. The walk
  always ends: it is a total function, with one budget of 40 links.
\<close>

theorem CheckStateDir_secure:
  assumes "CheckStateDir path afs = None"
  shows "(\<exists>info. af_lstat afs (Clean path) = Found info 0 \<and> fi_kind info = FDir \<and> fi_perm info = 448 \<and> \<not> special_bits info) \<and>
    root_controlled afs ''/'' \<and>
    (\<forall>d. passes afs ''/'' (components (Dir (Clean path))) d \<longrightarrow> root_controlled afs d) \<and>
    ''..'' \<notin> set (split_on CHR ''/'' path)"
proof -
  have w: "walkAncestors ''state_dir'' (Clean path) afs = None"
    using assms by (simp add: CheckStateDir_def check_leaf_def Let_def)
  show ?thesis
    using assms walkAncestors_sound [OF w]
    by (auto simp: CheckStateDir_def check_leaf_def checkUnixStateDir_def refuseDotDot_def Let_def
        split: lstat_answer.splits if_splits)
qed

definition dir_info :: "nat \<Rightarrow> FileInfo" where
  "dir_info m = \<lparr>fi_kind = FDir, fi_perm = m, fi_setuid = False, fi_setgid = False, fi_sticky = False\<rparr>"

definition link_info :: FileInfo where
  "link_info = (dir_info 511)\<lparr>fi_kind := FLink\<rparr>"

text \<open>A directory below a root-owned link, as \<open>/var\<close> is on macOS.\<close>

definition sample_fs :: "nat \<Rightarrow> ancestorFS" where
  "sample_fs m =
     \<lparr>af_lstat = (\<lambda>p. if p = ''/'' \<or> p = ''/private'' then Found (dir_info 493) 0
        else if p = ''/private/lib'' then Found (dir_info m) 0
        else if p = ''/var'' then Found link_info 0
        else if p = ''/var/ts'' then Found (dir_info 448) 0 else Absent),
      af_readlink = (\<lambda>p. if p = ''/var'' then Some ''private/lib'' else None), af_acl = None\<rparr>"

theorem CheckStateDir_secure_witness:
  "CheckStateDir ''/var/ts/'' (sample_fs 493) = None \<and>
   passes (sample_fs 493) ''/'' (components (Dir (Clean ''/var/ts/''))) ''/private/lib'' \<and>
   root_controlled (sample_fs 493) ''/private/lib'' \<and>
   CheckStateDir ''/var/ts/'' (sample_fs 511) = Some (Ancestor ''state_dir'' ''/var/ts'' ''/private/lib'' (WritableMode 511))"
proof -
  have c: "CheckStateDir ''/var/ts/'' (sample_fs 493) = None"
    and n: "CheckStateDir ''/var/ts/'' (sample_fs 511) = Some (Ancestor ''state_dir'' ''/var/ts'' ''/private/lib'' (WritableMode 511))"
    by code_simp+
  have j: "Join [''/'', ''var''] = ''/var''" "Join [''/'', ''private''] = ''/private''"
    "Join [''/private'', ''lib''] = ''/private/lib''" "components (Dir (Clean ''/var/ts/'')) = [''var'']"
    "components ''private/lib'' = [''private'', ''lib'']" by code_simp+
  have 3: "passes (sample_fs 493) ''/private'' [''lib''] ''/private/lib''"
    using passes.look [of "''lib''" "sample_fs 493" "''/private''" "[]"] j(3) by simp
  have 2: "passes (sample_fs 493) ''/'' [''private'', ''lib''] ''/private/lib''"
    by (rule passes.enter [where info = "dir_info 493" and uid = 0])
      (use 3 in \<open>simp_all add: j(2) sample_fs_def dir_info_def\<close>)
  have "passes (sample_fs 493) ''/'' (components (Dir (Clean ''/var/ts/''))) ''/private/lib''"
    unfolding j(4)
    by (rule passes.follow [where info = link_info and uid = 0 and target = "''private/lib''"])
      (use 2 in \<open>simp_all add: j(1,5) sample_fs_def link_info_def IsAbs_def\<close>)
  with c n CheckStateDir_secure [OF c] show ?thesis by blast
qed

text \<open>
  ensuring the state directory never repairs and never creates under a hostile ancestor. On
  success the file system it leaves has an accepted state directory; an existing directory is
  only checked; and it tries to create one only when nothing is there and every ancestor the
  kernel passes through was under the control of root.
\<close>

lemma EnsureStateDir_safe:
  assumes "EnsureStateDir path afs r = (e, tried, afs')"
  shows "(e = None \<longrightarrow> CheckStateDir (Clean path) afs' = None) \<and>
    (tried \<longrightarrow> af_lstat afs (Clean path) = Absent \<and>
       (\<forall>d. passes afs ''/'' (components (Dir (Clean path))) d \<longrightarrow> root_controlled afs d)) \<and>
    (\<not> tried \<longrightarrow> afs' = afs)"
  using assms walkAncestors_sound(2) [of "''state_dir''" "Clean path" afs]
  by (auto simp: EnsureStateDir_def Let_def split: option.splits if_splits)

subsection \<open>The access ACL\<close>

text \<open>The entries of an access ACL and their encoding in the extended attribute.\<close>

type_synonym acl_entry = "nat \<times> nat \<times> nat"

definition enc16 :: "nat \<Rightarrow> octet list" where
  "enc16 n = [word_of_nat n, word_of_nat (n div 256)]"

definition enc32 :: "nat \<Rightarrow> octet list" where
  "enc32 n = [word_of_nat n, word_of_nat (n div 256), word_of_nat (n div 65536), word_of_nat (n div 16777216)]"

definition enc_entry :: "acl_entry \<Rightarrow> octet list" where
  "enc_entry e = (case e of (tag, perm, qid) \<Rightarrow> enc16 tag @ enc16 perm @ enc32 qid)"

definition encode_acl :: "acl_entry list \<Rightarrow> octet list" where
  "encode_acl es = enc32 2 @ concat (map enc_entry es)"

definition entry_fits :: "acl_entry \<Rightarrow> bool" where
  "entry_fits e = (case e of (tag, perm, qid) \<Rightarrow> tag < 65536 \<and> perm < 65536 \<and> qid < 4294967296)"

definition tags :: "acl_entry list \<Rightarrow> nat \<Rightarrow> nat" where
  "tags es t = length (filter (\<lambda>e. fst e = t) es)"

definition acl_wf :: "acl_entry list \<Rightarrow> bool" where
  "acl_wf es \<longleftrightarrow> list_all entry_fits es \<and> tags es aclUserObj = 1 \<and> tags es aclGroupObj = 1 \<and> tags es aclOther = 1 \<and>
     (tags es aclUser + tags es aclGroup = 0 \<or> tags es aclMask = 1)"

definition entry_writer :: "acl_entry \<Rightarrow> string option" where
  "entry_writer e =
     (case e of (tag, perm, qid) \<Rightarrow>
        if (tag = aclUser \<or> tag = aclGroup) \<and> odd (perm div 2) \<and> qid \<noteq> 0
        then Some ((if tag = aclGroup then ''group '' else ''user '') @ itoa_nat qid) else None)"

lemma unat_octet: "unat (word_of_nat n :: octet) = n mod 256"
  by (simp add: unat_of_nat)

lemma le16_enc16 [simp]: "n < 65536 \<Longrightarrow> le16 (enc16 n @ bs) = n"
  by (simp add: le16_def enc16_def unat_octet)

lemma four_bytes:
  assumes "(n :: nat) < 4294967296"
  shows "n mod 256 + 256 * (n div 256 mod 256) + 65536 * (n div 65536 mod 256) + 16777216 * (n div 16777216 mod 256) = n"
proof -
  have 2: "n mod 65536 = 256 * (n div 256 mod 256) + n mod 256" using mod_mult2_eq [of n 256 256] by simp
  have 3: "n mod 16777216 = 65536 * (n div 65536 mod 256) + n mod 65536" using mod_mult2_eq [of n 65536 256] by simp
  have "n div 16777216 < 256" using assms by (simp add: div_less_iff_less_mult)
  then have 4: "n = 16777216 * (n div 16777216 mod 256) + n mod 16777216" by simp
  from 2 3 4 show ?thesis by linarith
qed

lemma le32_enc32 [simp]: "n < 4294967296 \<Longrightarrow> le32 (enc32 n @ bs) = n"
  using four_bytes [of n] by (simp add: le32_def enc32_def unat_octet)

lemma enc_lengths [simp]: "length (enc16 n) = 2" "length (enc32 n) = 4" "length (enc_entry e) = 8"
  by (auto simp: enc16_def enc32_def enc_entry_def split: prod.splits)

lemma drop_enc [simp]: "drop 2 (enc16 n @ bs) = bs" "drop 4 (enc32 n @ bs) = bs"
  "drop 4 (enc16 n @ enc16 m @ bs) = bs"
  by (simp_all add: enc16_def enc32_def)

lemma chunks_concat: "chunks (concat (map enc_entry es)) = map enc_entry es"
proof (induction es)
  case (Cons e es)
  have "enc_entry e @ concat (map enc_entry es) \<noteq> []" using enc_lengths(3) [of e] by (metis append_is_Nil_conv list.size(3) zero_neq_numeral)
  then show ?case using Cons by (subst chunks.simps) simp
qed (simp add: chunks.simps)

lemma enc_entry_tag: "entry_fits e \<Longrightarrow> le16 (enc_entry e) = fst e"
  by (auto simp: enc_entry_def entry_fits_def split: prod.splits)

lemma and_write: "(p :: nat) AND 2 = 0 \<longleftrightarrow> even (p div 2)"
proof -
  have "p AND 2 = p AND push_bit 1 1" by simp
  also have "\<dots> = of_bool (bit p 1) * 2"
    by (rule bit_eqI) (auto simp: bit_simps)
  finally show ?thesis by (simp add: bit_nat_iff bit_iff_odd)
qed

lemma aclEntryWriter_enc: "entry_fits e \<Longrightarrow> aclEntryWriter (enc_entry e) = entry_writer e"
proof -
  obtain t p i where e: "e = (t, p, i)" by (cases e) auto
  assume "entry_fits e"
  then have f: "t < 65536" "p < 65536" "i < 4294967296" by (auto simp: e entry_fits_def)
  have l: "le16 (enc_entry e) = t" "le16 (drop 2 (enc_entry e)) = p" "le32 (drop 4 (enc_entry e)) = i"
    using f le32_enc32 [of i "[]"] by (simp_all add: e enc_entry_def)
  show ?thesis
    unfolding aclEntryWriter_def Let_def l
    unfolding e entry_writer_def aclWrite_def and_write by auto
qed

text \<open>
  C23: the ACL reader names exactly the writers. On every well-formed access ACL, encoded as the
  kernel stores it, the reader returns the named users and groups other than root whose entry
  has the write bit, in the order of the entries, whatever the mask says.
\<close>

theorem aclWriters_exact:
  assumes "acl_wf es"
  shows "aclWriters (encode_acl es) = Inr (List.map_filter entry_writer es)"
proof -
  have fits: "\<forall>e \<in> set es. entry_fits e" using assms by (simp add: acl_wf_def list_all_iff)
  have "length (concat (map enc_entry es)) = 8 * length es" by (induction es) auto
  then have n: "length (encode_acl es) = 4 + 8 * length es" unfolding encode_acl_def by (simp only: length_append enc_lengths)
  have v: "le32 (encode_acl es) = 2" unfolding encode_acl_def by (rule le32_enc32) simp
  have h: "aclHeaderValid (encode_acl es) = None" unfolding aclHeaderValid_def n v by simp
  have d: "chunks (drop 4 (encode_acl es)) = map enc_entry es" by (simp add: encode_acl_def chunks_concat)
  have t: "seen_tag (map enc_entry es) tag = tags es tag" for tag
    using fits unfolding seen_tag_def tags_def by (induction es) (auto simp: enc_entry_tag)
  have s: "aclShapeValid (encode_acl es) = None"
    using assms by (auto simp: aclShapeValid_def d t acl_wf_def Let_def)
  have "List.map_filter aclEntryWriter (map enc_entry es) = List.map_filter entry_writer es"
    using fits by (induction es) (auto simp: aclEntryWriter_enc List.map_filter_simps split: option.splits)
  then show ?thesis by (simp add: aclWriters_def h s d)
qed

theorem aclWriters_exact_witness:
  "aclWriters (encode_acl [(1, 7, 4294967295), (2, 6, 1000), (2, 4, 1001), (4, 5, 4294967295), (8, 2, 0), (16, 5, 4294967295), (32, 5, 4294967295)])
     = Inr [''user 1000'']"
proof -
  let ?es = "[(1, 7, 4294967295), (2, 6, 1000), (2, 4, 1001), (4, 5, 4294967295), (8, 2, 0), (16, 5, 4294967295), (32, 5, 4294967295)]"
  have "acl_wf ?es" "List.map_filter entry_writer ?es = [''user 1000'']" by code_simp+
  then show ?thesis using aclWriters_exact [of ?es] by simp
qed

end
