(* ===== verification/Serve_Node.thy ===== *)
theory Serve_Node
  imports Serve_Health Signals State_Dir Host_Config
begin

text \<open>
  \<open>internal/serve/node.go\<close>, \<open>publish.go\<close> and \<open>tags.go\<close>, and \<open>cmd/cli/host_serve.go\<close>: a host that joins the
  tailnet and publishes the services of its host file. The state directory and the key file are
  checked as on Unix. What the node, the control proxy and the SSH child answer are arguments; the
  result is the trace of what was opened, closed and printed.
\<close>

subsection \<open>The node\<close>

record serve_fs =
  sf_afs :: ancestorFS
  sf_create :: create_run
  sf_stat :: "string \<Rightarrow> fs_error option"
  sf_read :: "string \<Rightarrow> (fs_error, string) result"
  sf_hostname :: string

record NodeConfig =
  nc_Hostname :: string
  nc_StateDir :: string
  nc_ControlURL :: string
  nc_AuthKey :: string
  nc_Enrolling :: bool

datatype serve_error =
    ConfigRequired
  | HostFileError host_error
  | NoMesh
  | NoControlURL
  | NoStateDir
  | StateDirRefused dir_error
  | ReadNodeState fs_error
  | KeyFileRequired string
  | KeyFileRefused dir_error
  | KeyFileRead fs_error
  | KeyFileEmpty string
  | ServeTunnel start_error
  | ServeProxy string
  | NodeFailed string string
  | NotTagged string
  | PublishFailed string int string

definition stateFile :: string where "stateFile = ''tailscaled.state''"

definition NodeHostname :: "FileMesh \<Rightarrow> string \<Rightarrow> string" where
  "NodeHostname mesh hostname = (case m_Hostname mesh of Some h \<Rightarrow> h | None \<Rightarrow> ToLower hostname)"

definition readAuthKey :: "(string \<Rightarrow> (fs_error, string) result) \<Rightarrow> string \<Rightarrow> (serve_error, string) result" where
  "readAuthKey read path =
     (case read path of
        Inl e \<Rightarrow> Inl (KeyFileRead e)
      | Inr data \<Rightarrow> (let key = TrimSpace data in if key = [] then Inl (KeyFileEmpty path) else Inr key))"

definition checkLeftoverKey :: "ancestorFS \<Rightarrow> string option \<Rightarrow> (string \<Rightarrow> dir_error option) \<Rightarrow> serve_error option" where
  "checkLeftoverKey afs path checkKey =
     (case path of
        None \<Rightarrow> None
      | Some p \<Rightarrow> if af_lstat afs p = Absent then None else wrap KeyFileRefused (checkKey p))"

definition NewNodeConfig ::
  "serve_fs \<Rightarrow> FileMesh \<Rightarrow> string \<Rightarrow> (string \<Rightarrow> dir_error option) \<Rightarrow> (serve_error, NodeConfig) result" where
  "NewNodeConfig fs mesh controlURL checkKey =
     (case m_StateDir mesh of
        None \<Rightarrow> Inl NoStateDir
      | Some dir \<Rightarrow>
          (let nc = \<lparr>nc_Hostname = NodeHostname mesh (sf_hostname fs), nc_StateDir = dir, nc_ControlURL = controlURL, nc_AuthKey = [], nc_Enrolling = False\<rparr> in
           case sf_stat fs (Join [dir, stateFile]) of
             None \<Rightarrow> (case checkLeftoverKey (sf_afs fs) (m_AuthKeyFile mesh) checkKey of Some e \<Rightarrow> Inl e | None \<Rightarrow> Inr nc)
           | Some IOFault \<Rightarrow> Inl (ReadNodeState IOFault)
           | Some NotExist \<Rightarrow>
               (case m_AuthKeyFile mesh of
                  None \<Rightarrow> Inl (KeyFileRequired dir)
                | Some keyFile \<Rightarrow>
                    (case checkKey keyFile of
                       Some e \<Rightarrow> Inl (KeyFileRefused e)
                     | None \<Rightarrow>
                         (case readAuthKey (sf_read fs) keyFile of
                            Inl e \<Rightarrow> Inl e
                          | Inr key \<Rightarrow> Inr (nc\<lparr>nc_Enrolling := True, nc_AuthKey := key\<rparr>))))))"

text \<open>The tags of a status: none when it, its own node or its tags are missing.\<close>

definition NodeTags :: "string list option option option \<Rightarrow> string list" where
  "NodeTags status = (case status of Some (Some (Some ts)) \<Rightarrow> ts | _ \<Rightarrow> [])"

subsection \<open>Publishing\<close>

record served_service =
  se_Kind :: string
  se_Port :: int

datatype serve_event =
    TunnelStarted | TunnelStopped
  | NodeStarted | NodeStopped
  | PortOpen int | PortClosed int
  | Forwarding int string
  | WatchingControl
  | ReportedUp
  | HealthServing string | HealthStopped
  | ReadyPrinted string | ErrorPrinted string

text \<open>The listeners, in order; when one fails those already open are closed.\<close>

fun listen_all :: "(int \<Rightarrow> string option) \<Rightarrow> served_service list \<Rightarrow> int list \<Rightarrow> (serve_error, unit) result \<times> serve_event list" where
  "listen_all listen [] opened = (Inr (), [])"
| "listen_all listen (s # ss) opened =
     (case listen (se_Port s) of
        Some e \<Rightarrow> (Inl (PublishFailed (se_Kind s) (se_Port s) e), map PortClosed opened)
      | None \<Rightarrow>
          (case listen_all listen ss (opened @ [se_Port s]) of
             (r, tr) \<Rightarrow> (r, PortOpen (se_Port s) # tr)))"

definition local_target :: "int \<Rightarrow> string" where
  "local_target port = JoinHostPort ''127.0.0.1'' (Itoa port)"

definition Publish :: "(int \<Rightarrow> string option) \<Rightarrow> served_service list \<Rightarrow> (serve_error, unit) result \<times> serve_event list" where
  "Publish listen services =
     (case listen_all listen services [] of
        (Inl e, tr) \<Rightarrow> (Inl e, tr)
      | (Inr _, tr) \<Rightarrow> (Inr (), tr @ map (\<lambda>s. Forwarding (se_Port s) (local_target (se_Port s))) services))"

definition Published_Close :: "served_service list \<Rightarrow> serve_event list" where
  "Published_Close services = map (\<lambda>s. PortClosed (se_Port s)) services"

subsection \<open>The plan\<close>

record servePlan =
  pl_node :: NodeConfig
  pl_mesh :: FileMesh
  pl_services :: "served_service list"

definition serveServices :: "HostConfig \<Rightarrow> served_service list" where
  "serveServices cfg = map (\<lambda>s. \<lparr>se_Kind = ds_Kind s, se_Port = ds_Port s\<rparr>) (hc_Services cfg)"

definition serve_flags :: "bool \<Rightarrow> bool \<Rightarrow> HostFlags" where
  "serve_flags verbose verboseSet =
     \<lparr>hf_FirewallRule = [], hf_NoSleep = False, hf_NoSleepSet = False, hf_Port = 0, hf_Verbose = verbose, hf_VerboseSet = verboseSet, hf_LogFormat = []\<rparr>"

text \<open>The invocation: the flags, the contents of the host file and what surrounds the process.\<close>

record 'n serve_cmd =
  sc_path :: string
  sc_content :: "string option"
  sc_codec :: "'n host_codec"
  sc_goos :: string
  sc_getenv :: "string \<Rightarrow> string"
  sc_verbose :: bool
  sc_verboseSet :: bool
  sc_fs :: serve_fs

definition loadServePlan :: "'n serve_cmd \<Rightarrow> (serve_error, servePlan) result" where
  "loadServePlan c =
     (if sc_path c = [] then Inl ConfigRequired
      else (case fst (LoadServeFile (sc_codec c) (sc_content c) (sc_goos c)) of
              Inl e \<Rightarrow> Inl (HostFileError e)
            | Inr file \<Rightarrow>
                (case fh_Mesh (f_Host file) of
                   None \<Rightarrow> Inl NoMesh
                 | Some mesh \<Rightarrow>
                     (case fh_ControlURL (f_Host file) of
                        None \<Rightarrow> Inl NoControlURL
                      | Some controlURL \<Rightarrow>
                          (case m_StateDir mesh of
                             None \<Rightarrow> Inl NoStateDir
                           | Some dir \<Rightarrow>
                               (case EnsureStateDir dir (sf_afs (sc_fs c)) (sf_create (sc_fs c)) of
                                  (Some e, _, _) \<Rightarrow> Inl (StateDirRefused e)
                                | (None, _, afs) \<Rightarrow>
                                    (case NewNodeConfig (sc_fs c\<lparr>sf_afs := afs\<rparr>) mesh controlURL (\<lambda>p. CheckSecretFile p afs) of
                                       Inl e \<Rightarrow> Inl e
                                     | Inr node \<Rightarrow>
                                         Inr \<lparr>pl_node = node, pl_mesh = mesh,
                                              pl_services = serveServices (Resolve (sc_goos c) (sc_getenv c) file (serve_flags (sc_verbose c) (sc_verboseSet c)))\<rparr>)))))))"

subsection \<open>Running\<close>

text \<open>
  What happens: the start of the SSH child and of the control proxy, the answer of the node with its
  status, whether the context had ended when it failed, and the listeners.
\<close>

record serve_env =
  se_start :: start_run
  se_proxy :: "string option"
  se_up :: "(string, string list option option option) result"
  se_ctxDone :: bool
  se_listen :: "int \<Rightarrow> string option"
  se_localAPI :: bool
  se_text :: "serve_error \<Rightarrow> string"

definition defaultServeSOCKSAddr :: string where "defaultServeSOCKSAddr = ''127.0.0.1:1055''"

text \<open>\<open>None\<close> is a start that waits for the SSH child for ever; \<open>Inr True\<close> is a supervised tunnel to stop.\<close>

definition startServeBootstrap :: "serve_env \<Rightarrow> servePlan \<Rightarrow> ((serve_error, bool) result \<times> serve_event list) option" where
  "startServeBootstrap v plan =
     (case m_BootstrapSSH (pl_mesh plan) of
        None \<Rightarrow> Some (Inr False, [])
      | Some ep \<Rightarrow>
          (let socks = (case m_BootstrapSOCKSAddr (pl_mesh plan) of Some a \<Rightarrow> a | None \<Rightarrow> defaultServeSOCKSAddr) in
           case bootstrap_start (se_start v) ep socks of
             None \<Rightarrow> None
           | Some (Inl e, _) \<Rightarrow> Some (Inl (ServeTunnel e), [])
           | Some (Inr _, _) \<Rightarrow>
               (case se_proxy v of
                  Some e \<Rightarrow> Some (Inl (ServeProxy e), [TunnelStarted, TunnelStopped])
                | None \<Rightarrow> Some (Inr True, [TunnelStarted]))))"

definition service_word :: "served_service \<Rightarrow> string" where
  "service_word s = se_Kind s @ '':'' @ Itoa (se_Port s)"

definition formatServeReady :: "string \<Rightarrow> served_service list \<Rightarrow> bool \<Rightarrow> string" where
  "formatServeReady node services enrolled =
     ''READY node='' @ node @ '' services='' @ join '','' (map service_word services) @ '' enrolled='' @ (if enrolled then ''true'' else ''false'')"

definition serveReport :: "servePlan \<Rightarrow> string \<times> ServiceState list option" where
  "serveReport plan =
     (nc_Hostname (pl_node plan), Some (map (\<lambda>s. \<lparr>ss_Kind = se_Kind s, ss_Port = se_Port s, ss_Published = True\<rparr>) (pl_services plan)))"

text \<open>\<open>runServeNode\<close>; the deferred closes run in reverse order when the context ends.\<close>

definition runServeNode :: "serve_env \<Rightarrow> servePlan \<Rightarrow> serve_error option \<times> serve_event list" where
  "runServeNode v plan =
     (case se_up v of
        Inl err \<Rightarrow>
          (if se_ctxDone v then (None, [NodeStarted, NodeStopped])
           else (Some (NodeFailed (nc_ControlURL (pl_node plan)) err),
                 [NodeStarted, NodeStopped, ErrorPrinted (emitError (fst (diagnoseTailscaleInitError err)) err)]))
      | Inr status \<Rightarrow>
          if NodeTags status = [] then
            (let e = NotTagged (nc_Hostname (pl_node plan)) in
             (Some e, [NodeStarted, ErrorPrinted (emitError reasonNodeNotTagged (se_text v e)), NodeStopped]))
          else
            (case Publish (se_listen v) (pl_services plan) of
               (Inl e, tr) \<Rightarrow> (Some e, NodeStarted # tr @ [ErrorPrinted (emitError reasonPublishFailed (se_text v e)), NodeStopped])
             | (Inr _, tr) \<Rightarrow>
                 (let health = m_HealthAddr (pl_mesh plan) in
                  (None,
                   NodeStarted # tr @ (if se_localAPI v then [WatchingControl] else []) @ [ReportedUp] @
                   (case health of Some a \<Rightarrow> [HealthServing a] | None \<Rightarrow> []) @
                   [ReadyPrinted (formatServeReady (nc_Hostname (pl_node plan)) (pl_services plan) (nc_Enrolling (pl_node plan)))] @
                   (case health of Some a \<Rightarrow> [HealthStopped] | None \<Rightarrow> []) @
                   Published_Close (pl_services plan) @ [NodeStopped]))))"

definition runHostServe :: "serve_env \<Rightarrow> 'n serve_cmd \<Rightarrow> (serve_error option \<times> serve_event list) option" where
  "runHostServe v c =
     (case loadServePlan c of
        Inl e \<Rightarrow> Some (Some e, [])
      | Inr plan \<Rightarrow>
          (case startServeBootstrap v plan of
             None \<Rightarrow> None
           | Some (Inl e, tr) \<Rightarrow> Some (Some e, tr @ [ErrorPrinted (emitError reasonSSHBootstrapFailed (se_text v e))])
           | Some (Inr tunnel, tr) \<Rightarrow>
               (case runServeNode v plan of (e, sr) \<Rightarrow> Some (e, tr @ sr @ (if tunnel then [TunnelStopped] else [])))))"

subsection \<open>What is published\<close>

definition opened_ports :: "serve_event list \<Rightarrow> int list" where
  "opened_ports tr = List.map_filter (\<lambda>e. case e of PortOpen p \<Rightarrow> Some p | _ \<Rightarrow> None) tr"

definition closed_ports :: "serve_event list \<Rightarrow> int list" where
  "closed_ports tr = List.map_filter (\<lambda>e. case e of PortClosed p \<Rightarrow> Some p | _ \<Rightarrow> None) tr"

lemma map_filter_append: "List.map_filter f (xs @ ys) = List.map_filter f xs @ List.map_filter f ys"
  by (simp add: List.map_filter_def)

lemma ports_append [simp]:
  "opened_ports (xs @ ys) = opened_ports xs @ opened_ports ys" "closed_ports (xs @ ys) = closed_ports xs @ closed_ports ys"
  by (simp_all add: opened_ports_def closed_ports_def map_filter_append)

lemma ports_Cons [simp]:
  "opened_ports (e # es) = (case e of PortOpen p \<Rightarrow> [p] | _ \<Rightarrow> []) @ opened_ports es"
  "closed_ports (e # es) = (case e of PortClosed p \<Rightarrow> [p] | _ \<Rightarrow> []) @ closed_ports es"
  by (simp_all add: opened_ports_def closed_ports_def List.map_filter_simps split: serve_event.split)

lemma ports_Nil [simp]: "opened_ports [] = []" "closed_ports [] = []"
  by (simp_all add: opened_ports_def closed_ports_def List.map_filter_simps)

lemma ports_map [simp]:
  "opened_ports (map PortOpen ps) = ps" "closed_ports (map PortClosed ps) = ps"
  "opened_ports (map PortClosed ps) = []" "closed_ports (map PortOpen ps) = []"
  "opened_ports (map (\<lambda>s. PortClosed (se_Port s)) ss) = []" "closed_ports (map (\<lambda>s. PortClosed (se_Port s)) ss) = map se_Port ss"
  "opened_ports (map (\<lambda>s. Forwarding (f s) (g s)) ss) = []" "closed_ports (map (\<lambda>s. Forwarding (f s) (g s)) ss) = []"
  "opened_ports (map (PortOpen \<circ> se_Port) ss) = map se_Port ss" "closed_ports (map (PortOpen \<circ> se_Port) ss) = []"
  "opened_ports (map (PortClosed \<circ> se_Port) ss) = []" "closed_ports (map (PortClosed \<circ> se_Port) ss) = map se_Port ss"
  by (induction ps; simp; fail)+ (induction ss; simp)+

lemma no_ports: "(\<forall>p. PortOpen p \<notin> set tr) \<Longrightarrow> opened_ports tr = []" "(\<forall>p. PortClosed p \<notin> set tr) \<Longrightarrow> closed_ports tr = []"
  by (induction tr) (auto split: serve_event.splits)

lemma listen_all_trace:
  "listen_all listen ss opened = (r, tr) \<Longrightarrow>
   (case r of Inr _ \<Rightarrow> tr = map PortOpen (map se_Port ss)
    | Inl _ \<Rightarrow> (\<exists>n. tr = map PortOpen (take n (map se_Port ss)) @ map PortClosed (opened @ take n (map se_Port ss))))"
proof (induction ss arbitrary: opened r tr)
  case (Cons s ss)
  show ?case
  proof (cases "listen (se_Port s)")
    case None
    obtain r' tr' where l: "listen_all listen ss (opened @ [se_Port s]) = (r', tr')" by fastforce
    then have "r = r'" "tr = PortOpen (se_Port s) # tr'" using Cons.prems None by auto
    show ?thesis
    proof (cases r')
      case (Inl err)
      then obtain n where "tr' = map PortOpen (take n (map se_Port ss)) @ map PortClosed ((opened @ [se_Port s]) @ take n (map se_Port ss))"
        using Cons.IH [OF l] by auto
      then show ?thesis using Inl \<open>r = r'\<close> \<open>tr = PortOpen (se_Port s) # tr'\<close> by (auto intro!: exI [of _ "Suc n"])
    next
      case (Inr x)
      then show ?thesis using Cons.IH [OF l] \<open>r = r'\<close> \<open>tr = PortOpen (se_Port s) # tr'\<close> by simp
    qed
  next
    case (Some e)
    then show ?thesis using Cons.prems by (auto intro!: exI [of _ 0])
  qed
qed auto

lemma Publish_trace:
  assumes "Publish listen services = (r, tr)"
  shows "case r of
      Inr _ \<Rightarrow> tr = map PortOpen (map se_Port services) @ map (\<lambda>s. Forwarding (se_Port s) (local_target (se_Port s))) services
    | Inl _ \<Rightarrow> \<exists>n. tr = map PortOpen (take n (map se_Port services)) @ map PortClosed (take n (map se_Port services))"
proof -
  obtain r' l where l: "listen_all listen services [] = (r', l)" by fastforce
  then show ?thesis using assms listen_all_trace [OF l] by (cases r') (auto simp: Publish_def)
qed

lemma runServeNode_ports:
  assumes "runServeNode v plan = (e, tr)"
  shows "opened_ports tr = closed_ports tr" "set (opened_ports tr) \<subseteq> set (map se_Port (pl_services plan))"
proof -
  obtain r pt where p: "Publish (se_listen v) (pl_services plan) = (r, pt)" by fastforce
  show "opened_ports tr = closed_ports tr" "set (opened_ports tr) \<subseteq> set (map se_Port (pl_services plan))"
    using assms p Publish_trace [OF p]
    by (auto simp: runServeNode_def Published_Close_def Let_def split: sum.splits option.splits if_splits)
      (use in_set_takeD in fastforce)+
qed

lemma runServeNode_ready:
  assumes "runServeNode v plan = (e, tr)" and "ReadyPrinted line \<in> set tr"
  shows "e = None" "\<exists>status. se_up v = Inr status \<and> NodeTags status \<noteq> []" "opened_ports tr = map se_Port (pl_services plan)"
    "\<exists>pre post. tr = pre @ ReadyPrinted line # post \<and> opened_ports pre = map se_Port (pl_services plan) \<and> closed_ports pre = []"
    "\<forall>p t. Forwarding p t \<in> set tr \<longrightarrow> p \<in> set (map se_Port (pl_services plan)) \<and> t = local_target p"
proof -
  obtain r pt where p: "Publish (se_listen v) (pl_services plan) = (r, pt)" by fastforce
  have pt: "r = Inr () \<Longrightarrow> pt = map PortOpen (map se_Port (pl_services plan)) @ map (\<lambda>s. Forwarding (se_Port s) (local_target (se_Port s))) (pl_services plan)"
    "r = Inl x \<Longrightarrow> ReadyPrinted line \<notin> set pt" for x
    using Publish_trace [OF p] by auto
  let ?line = "formatServeReady (nc_Hostname (pl_node plan)) (pl_services plan) (nc_Enrolling (pl_node plan))"
  obtain status where st: "se_up v = Inr status" "NodeTags status \<noteq> []" and r: "r = Inr ()" and e: "e = None"
    using assms p pt by (auto simp: runServeNode_def Let_def split: sum.splits if_splits)
  let ?h = "m_HealthAddr (pl_mesh plan)"
  define pre where "pre = NodeStarted # pt @ (if se_localAPI v then [WatchingControl] else []) @ [ReportedUp] @
      (case ?h of Some a \<Rightarrow> [HealthServing a] | None \<Rightarrow> [])"
  define post where "post = (case ?h of Some a \<Rightarrow> [HealthStopped] | None \<Rightarrow> []) @ Published_Close (pl_services plan) @ [NodeStopped]"
  have tr: "tr = pre @ ReadyPrinted ?line # post"
    using assms(1) p r st by (auto simp: runServeNode_def pre_def post_def Let_def split: option.splits)
  have pr: "opened_ports pre = map se_Port (pl_services plan)" "closed_ports pre = []" "opened_ports post = []"
    using pt(1) [OF r] by (auto simp: pre_def post_def Published_Close_def split: option.splits)
  have "line = ?line" using assms(2) tr pt(1) [OF r]
    by (auto simp: pre_def post_def Published_Close_def split: if_splits option.splits)
  then show "\<exists>pre post. tr = pre @ ReadyPrinted line # post \<and> opened_ports pre = map se_Port (pl_services plan) \<and> closed_ports pre = []"
    using tr pr by blast
  show "e = None" "\<exists>status. se_up v = Inr status \<and> NodeTags status \<noteq> []" using e st by blast+
  show "opened_ports tr = map se_Port (pl_services plan)" using tr pr by simp
  show "\<forall>p t. Forwarding p t \<in> set tr \<longrightarrow> p \<in> set (map se_Port (pl_services plan)) \<and> t = local_target p"
    using pt(1) [OF r] by (auto simp: tr pre_def post_def Published_Close_def split: option.splits if_splits)
qed

lemma loadServePlan_ok:
  assumes "loadServePlan c = Inr plan"
  obtains hf mesh controlURL dir created afs where
    "fst (LoadServeFile (sc_codec c) (sc_content c) (sc_goos c)) = Inr hf" "fh_Mesh (f_Host hf) = Some mesh"
    "m_StateDir mesh = Some dir" "EnsureStateDir dir (sf_afs (sc_fs c)) (sf_create (sc_fs c)) = (None, created, afs)"
    "NewNodeConfig (sc_fs c\<lparr>sf_afs := afs\<rparr>) mesh controlURL (\<lambda>p. CheckSecretFile p afs) = Inr (pl_node plan)"
    "pl_mesh plan = mesh"
    "pl_services plan = serveServices (Resolve (sc_goos c) (sc_getenv c) hf (serve_flags (sc_verbose c) (sc_verboseSet c)))"
  using assms by (auto simp: loadServePlan_def split: if_splits sum.splits option.splits prod.splits)

text \<open>The key is read for an enrolment only, from a file that passed the check; an enrolled node gets none.\<close>

lemma NewNodeConfig_key:
  assumes "NewNodeConfig fs mesh controlURL checkKey = Inr nc"
  shows "if nc_Enrolling nc then \<exists>keyFile. m_AuthKeyFile mesh = Some keyFile \<and> checkKey keyFile = None \<and> nc_AuthKey nc \<noteq> []
    else nc_AuthKey nc = [] \<and> (\<forall>keyFile. m_AuthKeyFile mesh = Some keyFile \<longrightarrow> af_lstat (sf_afs fs) keyFile = Absent \<or> checkKey keyFile = None)"
  using assms
  by (auto simp: NewNodeConfig_def checkLeftoverKey_def readAuthKey_def Let_def split: option.splits fs_error.splits sum.splits if_splits)

lemma runHostServe_cases:
  assumes "runHostServe v c = Some (e, tr)" and "loadServePlan c = Inr plan" and "runServeNode v plan = (rs, st)"
  obtains (no_node) "opened_ports tr = []" "closed_ports tr = []" "\<forall>line. ReadyPrinted line \<notin> set tr"
  | (served) pre post where "tr = pre @ st @ post" "set pre \<subseteq> {TunnelStarted}" "set post \<subseteq> {TunnelStopped}" "e = rs"
proof -
  obtain sb where sb: "startServeBootstrap v plan = Some sb" using assms(1,2) by (auto simp: runHostServe_def split: option.splits)
  obtain r bt where rb: "sb = (r, bt)" by fastforce
  have bt: "set bt \<subseteq> {TunnelStarted, TunnelStopped}" "r = Inr x \<Longrightarrow> set bt \<subseteq> {TunnelStarted}" for x
    using sb rb by (auto simp: startServeBootstrap_def Let_def split: option.splits sum.splits prod.splits)
  show ?thesis
  proof (cases r)
    case (Inl err)
    then have "tr = bt @ [ErrorPrinted (emitError reasonSSHBootstrapFailed (se_text v err))]"
      using assms(1,2) sb rb by (simp add: runHostServe_def)
    moreover have "opened_ports bt = []" "closed_ports bt = []" using bt(1) by (auto intro: no_ports)
    ultimately show ?thesis using bt(1) by (intro no_node) auto
  next
    case (Inr tunnel)
    then have "tr = bt @ st @ (if tunnel then [TunnelStopped] else [])" "e = rs"
      using assms sb rb by (simp_all add: runHostServe_def)
    then show ?thesis using bt(2) Inr by (intro served) auto
  qed
qed


definition serve_file :: HostFile where
  "serve_file = \<lparr>f_Version = 1, f_Host = \<lparr>fh_Services = Some [\<lparr>fs_Kind = ''rdp'', fs_Port = Some 3390\<rparr>, \<lparr>fs_Kind = ''ssh'', fs_Port = None\<rparr>],
     fh_Firewall = None, fh_Power = None, fh_ControlURL = Some ''https://hs.lan'',
     fh_Mesh = Some \<lparr>m_BootstrapSSH = None, m_BootstrapSOCKSAddr = None, m_Hostname = Some ''box'', m_StateDir = Some ''/var/ts'', m_AuthKeyFile = None,
       m_HealthAddr = Some ''127.0.0.1:9090''\<rparr>\<rparr>\<rparr>"

definition serve_codec :: "unit host_codec" where
  "serve_codec = \<lparr>hy_documents = (\<lambda>_. OneDocument ()), hy_tree = (\<lambda>_. Some []), hy_file = (\<lambda>_ _. Some serve_file)\<rparr>"

definition sample_serve_cmd :: "unit serve_cmd" where
  "sample_serve_cmd = \<lparr>sc_path = ''/etc/host.yaml'', sc_content = Some ''host:'', sc_codec = serve_codec, sc_goos = ''linux'', sc_getenv = (\<lambda>_. []),
     sc_verbose = False, sc_verboseSet = False,
     sc_fs = \<lparr>sf_afs = sample_fs 493, sf_create = \<lparr>cr_mkdir_all = False, cr_mkdir = False, cr_open = False, cr_chmod = False, cr_after = sample_fs 493\<rparr>,
       sf_stat = (\<lambda>_. None), sf_read = (\<lambda>_. Inl NotExist), sf_hostname = ''Box''\<rparr>\<rparr>"

definition sample_serve_env :: serve_env where
  "sample_serve_env = \<lparr>se_start = \<lparr>s_lookPath = None, s_bindable = False, s_environ = [], s_starts = False, s_polls = []\<rparr>, se_proxy = None,
     se_up = Inr (Some (Some (Some [''tag:host'']))), se_ctxDone = False, se_listen = (\<lambda>_. None), se_localAPI = True, se_text = (\<lambda>_. [])\<rparr>"

lemma sample_serve_run:
  "runHostServe sample_serve_env sample_serve_cmd = Some (None,
     [NodeStarted, PortOpen 3390, PortOpen 22, Forwarding 3390 ''127.0.0.1:3390'', Forwarding 22 ''127.0.0.1:22'', WatchingControl, ReportedUp,
      HealthServing ''127.0.0.1:9090'', ReadyPrinted ''READY node=box services=rdp:3390,ssh:22 enrolled=false'', HealthStopped,
      PortClosed 3390, PortClosed 22, NodeStopped])"
  by code_simp


end
