(* ===== verification/Host_Cmd.thy ===== *)
theory Host_Cmd
  imports Host_Entry Serve_Node Discover
begin

text \<open>
  \<open>cmd/cli/host.go\<close> and \<open>host_check_published.go\<close>: the commands \<open>host setup\<close> and \<open>host check\<close>, from the
  host file and the \<open>.env\<close> file to what they print and the status they exit with, and the question
  \<open>host check\<close> asks a serving host. Output is a list of lines. \<open>Quote\<close> is the quoting of \<open>%q\<close>.
\<close>

subsection \<open>Steps and exit status\<close>

definition outcome_word :: "Outcome \<Rightarrow> string" where
  "outcome_word oc =
     (case oc of OutcomeUnset \<Rightarrow> [] | OutcomeOK \<Rightarrow> ''ok'' | OutcomeChanged \<Rightarrow> ''changed'' | OutcomeFailed \<Rightarrow> ''failed''
      | OutcomeManual \<Rightarrow> ''manual'' | OutcomeUnverified \<Rightarrow> ''unverified'')"

definition exitNotConverged :: int where "exitNotConverged = 2"

definition failedSteps :: "SetupStep list \<Rightarrow> string list" where
  "failedSteps steps = map st_Name (filter (\<lambda>s. st_Outcome s = OutcomeFailed) steps)"

text \<open>An exit error: its code and its text.\<close>

definition setupConvergence :: "SetupStep list \<Rightarrow> (int \<times> string) option" where
  "setupConvergence steps =
     (let failed = failedSteps steps in
      if failed = [] then None
      else Some (exitNotConverged, ''host setup did not converge: '' @ Itoa (int (length failed)) @ '' of '' @ Itoa (int (length steps)) @
             '' steps failed: '' @ join '', '' failed))"

definition checkConvergence :: "SetupStep list \<Rightarrow> (int \<times> string) option" where
  "checkConvergence steps =
     (let pending = map (\<lambda>s. st_Name s @ '' ('' @ outcome_word (st_Outcome s) @ '')'') (filter (\<lambda>s. st_Outcome s \<noteq> OutcomeOK) steps) in
      if pending = [] then None
      else Some (exitNotConverged, ''host not converged: '' @ Itoa (int (length pending)) @ '' of '' @ Itoa (int (length steps)) @
             '' steps not ok: '' @ join '', '' pending))"

subsection \<open>Descriptors\<close>

definition descriptorOmittedNote :: string where
  "descriptorOmittedNote = ''Descriptor omitted: control plane unknown; declare host.control_url''"

definition hostDescriptorLine :: "string \<Rightarrow> int \<Rightarrow> string \<Rightarrow> string" where
  "hostDescriptorLine ip port controlURL =
     (if controlURL = [] then []
      else buildDescriptorLine ip port (if controlURL = ControlPlaneSaaS then [] else controlURL))"

subsection \<open>Text\<close>

definition statusStr :: "bool \<Rightarrow> string" where
  "statusStr good = (if good then [CHR 0xE2, CHR 0x9C, CHR 0x93] @ '' OK'' else [CHR 0xE2, CHR 0x9C, CHR 0x97] @ '' NOT OK'')"

definition host_rule :: string where "host_rule = ''  ---------------------------------------''"

definition printClientTarget :: "(string \<Rightarrow> string) \<Rightarrow> string \<Rightarrow> SetupResult \<Rightarrow> string list" where
  "printClientTarget Quote tsIP result =
     (if tsIP = [] then [''  The client target appears once Tailscale is up.'']
      else [''  For a client (ts-bridge connect, .env):'', ''  TS_TARGET='' @ tsIP @ '':'' @ Itoa (sr_RDPPort result)] @
        (let desc = hostDescriptorLine tsIP (sr_RDPPort result) (sr_ControlURL result) in
         if desc \<noteq> [] then [[], ''  Shareable descriptor:'', ''  '' @ desc, ''  (import with: ts-bridge import <name> '' @ Quote desc @ '')'']
         else if sr_RDPPort result \<noteq> 0 then [[], ''  '' @ descriptorOmittedNote] else []))"

definition printSetupSummary :: "(string \<Rightarrow> string) \<Rightarrow> string \<Rightarrow> SetupResult \<Rightarrow> string list" where
  "printSetupSummary Quote tsIP result =
     (let failed = failedSteps (sr_Steps result) in
      [[], host_rule] @
      (if failed \<noteq> [] then [''  HOST NOT READY'', ''  Failed steps: '' @ join '', '' failed] else [''  HOST READY'']) @
      [host_rule] @ (if tsIP \<noteq> [] then [''  Tailscale IP: '' @ tsIP] else []) @
      [''  RDP Port:     '' @ Itoa (sr_RDPPort result), []] @ printClientTarget Quote tsIP result @ [[]])"

text \<open>The lines of the steps: the name of each, and its message on the first or the second stream.\<close>

definition print_steps :: "SetupStep list \<Rightarrow> string list \<times> string list" where
  "print_steps steps =
     (concat (map (\<lambda>(i, s). (''  ['' @ Itoa (int i + 1) @ ''/'' @ Itoa (int (length steps)) @ ''] '' @ st_Name s) #
        (if st_Success s then [''       '' @ st_Message s] else [])) (enumerate 0 steps)),
      map (\<lambda>s. ''       WARNING: '' @ st_Message s) (filter (\<lambda>s. \<not> st_Success s) steps))"

definition printElevationError :: "string \<Rightarrow> string list" where
  "printElevationError goos =
     (if goos = ''windows'' then
        [[], ''ERROR: This operation requires Administrator privileges.'', [], ''To run as Administrator:'',
         ''  1. Open PowerShell as Administrator (right-click '' @ [CHR 0xE2, CHR 0x86, CHR 0x92] @ '' Run as Administrator)'',
         ''  2. Re-run: ts-bridge host setup'', []]
      else if goos = ''linux'' then
        [[], ''ERROR: This operation requires root privileges.'', [], ''To run as root:'', ''  sudo ts-bridge host setup'', []]
      else [])"

definition rdpLine :: "CheckResult \<Rightarrow> string" where
  "rdpLine r =
     (if 0 < cr_RDPPort r then statusStr (cr_RDPEnabled r) @ '' (port '' @ Itoa (cr_RDPPort r) @ '')''
      else (case find (\<lambda>s. sv_Kind s = ServiceRDP) (cr_Services r) of
              None \<Rightarrow> ''no service declared''
            | Some svc \<Rightarrow>
                (let port = (if 0 < sv_Port svc then Itoa (sv_Port svc) else ''unknown'') in
                 if sv_Unread svc then
                   ''unread (rdp, port '' @ port @ ''): see the steps below for the cause'' @
                   (if \<not> cr_Elevated r then ''; running as root/administrator may help'' else [])
                 else statusStr False @ '' (rdp, port '' @ port @ '')'')))"

definition printCheckText :: "string \<Rightarrow> CheckResult \<Rightarrow> string list" where
  "printCheckText goos r =
     [[], ''  HOST CHECK'', host_rule, ''  Platform:      '' @ goos, ''  Tailscale:     '' @ statusStr (cr_TailscaleUp r),
      ''  Tailscale IP:  '' @ cr_TailscaleIP r, ''  RDP:           '' @ rdpLine r, ''  Firewall:      '' @ statusStr (cr_FirewallOK r)] @
     map (\<lambda>s. ''  ! '' @ st_Name s @ '' ('' @ outcome_word (st_Outcome s) @ ''): '' @ st_Fix s) (filter (\<lambda>s. st_Outcome s \<noteq> OutcomeOK) (cr_Steps r)) @
     (let desc = hostDescriptorLine (cr_TailscaleIP r) (cr_RDPPort r) (cr_ControlURL r) in
      if desc \<noteq> [] then [''  Descriptor:    '' @ desc]
      else if cr_TailscaleIP r \<noteq> [] \<and> cr_RDPPort r \<noteq> 0 then [''  '' @ descriptorOmittedNote] else []) @
     [host_rule, []]"

subsection \<open>JSON\<close>

definition step_json :: "SetupStep \<Rightarrow> json" where
  "step_json s = JObj [(''name'', JStr (st_Name s)), (''outcome'', JStr (outcome_word (st_Outcome s))), (''success'', JBool (st_Success s)),
     (''message'', JStr (st_Message s)), (''fix'', JStr (st_Fix s))]"

definition stepsJSON :: "SetupStep list \<Rightarrow> json" where "stepsJSON steps = JArr (map step_json steps)"

definition omitempty :: "string \<Rightarrow> string \<Rightarrow> (string \<times> json) list" where
  "omitempty name v = (if v = [] then [] else [(name, JStr v)])"

definition setupJSON :: "string \<Rightarrow> SetupResult \<Rightarrow> json" where
  "setupJSON tsIP result =
     JObj ([(''steps'', stepsJSON (sr_Steps result)), (''rdp_port'', JNum (Itoa (sr_RDPPort result))),
            (''warnings'', JArr (map (\<lambda>s. JStr (st_Message s)) (filter (\<lambda>s. \<not> st_Success s) (sr_Steps result)))), (''errors'', JArr [])] @
           omitempty ''descriptor'' (hostDescriptorLine tsIP (sr_RDPPort result) (sr_ControlURL result)))"

definition serviceKey :: "string \<Rightarrow> int \<Rightarrow> string" where "serviceKey kind port = kind @ '':'' @ Itoa port"

definition service_json :: "(string \<times> bool) list option \<Rightarrow> Service \<Rightarrow> json" where
  "service_json published s =
     JObj ([(''kind'', JStr (sv_Kind s)), (''port'', JNum (Itoa (sv_Port s))), (''enabled'', JBool (sv_Enabled s)),
            (''active'', case sv_Active s of None \<Rightarrow> JNull | Some b \<Rightarrow> JBool b), (''firewall_ok'', JBool (sv_FirewallOK s)), (''unread'', JBool (sv_Unread s))] @
           (case published of None \<Rightarrow> []
            | Some m \<Rightarrow> [(''published'', JBool (map_of m (serviceKey (sv_Kind s) (sv_Port s)) = Some True))]))"

definition checkJSON :: "string \<Rightarrow> CheckResult \<Rightarrow> (string \<times> bool) list option \<Rightarrow> json" where
  "checkJSON goos r published =
     JObj ([(''tailscale_ip'', JStr (cr_TailscaleIP r)), (''rdp_port'', JNum (Itoa (cr_RDPPort r))), (''rdp_enabled'', JBool (cr_RDPEnabled r)),
            (''firewall_ok'', JBool (cr_FirewallOK r)), (''tailscale_up'', JBool (cr_TailscaleUp r)), (''platform'', JStr goos)] @
           omitempty ''descriptor'' (hostDescriptorLine (cr_TailscaleIP r) (cr_RDPPort r) (cr_ControlURL r)) @
           [(''services'', JArr (map (service_json published) (cr_Services r))), (''steps'', stepsJSON (cr_Steps r))])"

subsection \<open>What a serving host publishes\<close>

definition as_state :: "json \<Rightarrow> ServiceState option" where
  "as_state j =
     (let k = json_field as_string ''kind'' j []; p = json_field as_int ''port'' j 0; b = json_field as_bool ''published'' j False in
      if fst k \<and> fst p \<and> fst b then Some \<lparr>ss_Kind = snd k, ss_Port = snd p, ss_Published = snd b\<rparr> else None)"

definition as_states :: "json \<Rightarrow> ServiceState list option" where
  "as_states j =
     (case j of JArr vs \<Rightarrow> if list_all (\<lambda>v. as_state v \<noteq> None) vs then Some (List.map_filter as_state vs) else None | _ \<Rightarrow> None)"

text \<open>
  The answer of the endpoint; an answer that repeats its member \<open>services\<close> is read as its last one.
  The body is read up to 64 KiB.
\<close>

definition probe_body :: "string \<Rightarrow> (string \<times> ServiceState list) option" where
  "probe_body body =
     (case json_Decode (take (2 ^ 16) body) of
        None \<Rightarrow> None
      | Some j \<Rightarrow>
          (let n = json_field as_string ''node'' j []; s = json_field as_states ''services'' j [] in
           if fst n \<and> fst s then Some (snd n, snd s) else None))"

fun mark_published :: "ServiceState list \<Rightarrow> (string \<times> bool) list \<Rightarrow> (string \<times> bool) list" where
  "mark_published [] m = m"
| "mark_published (s # ss) m =
     (let k = serviceKey (ss_Kind s) (ss_Port s) in
      mark_published ss (if map_of m k \<noteq> None \<and> ss_Published s then AList.update k True m else m))"

definition probeServePublished :: "http_get \<Rightarrow> string \<Rightarrow> HostFile \<Rightarrow> DeclaredService list \<Rightarrow> (string \<times> bool) list option" where
  "probeServePublished get hostname f declared =
     (case fh_Mesh (f_Host f) of
        None \<Rightarrow> None
      | Some mesh \<Rightarrow>
          (case m_HealthAddr mesh of
             None \<Rightarrow> None
           | Some addr \<Rightarrow>
               (let published = fold (\<lambda>s. AList.update (serviceKey (ds_Kind s) (ds_Port s)) False) declared [] in
                Some (case get (health_url addr ''/health/ready'') of
                        Inl _ \<Rightarrow> published
                      | Inr (code, body) \<Rightarrow>
                          if code \<noteq> 200 then published
                          else (case body of
                                  None \<Rightarrow> published
                                | Some b \<Rightarrow>
                                    (case probe_body b of
                                       None \<Rightarrow> published
                                     | Some (node, services) \<Rightarrow>
                                         if node \<noteq> NodeHostname mesh hostname then published else mark_published services published))))))"

subsection \<open>The commands\<close>

datatype host_cmd_error =
    HostCmdFile host_error
  | HostCmdEnv env_error
  | HostCmdRule rule_error
  | NotElevated
  | NotConverged int string

definition host_exit :: "host_cmd_error option \<Rightarrow> int" where
  "host_exit e = ExitCode (map_option (\<lambda>e. [case e of NotConverged code _ \<Rightarrow> Some code | _ \<Rightarrow> None]) e)"

text \<open>The invocation: \<open>ho_path\<close> is \<open>--config\<close>, \<open>ho_content\<close> what reading it gives.\<close>

record 'n host_opts =
  ho_path :: string
  ho_content :: "string option"
  ho_codec :: "'n host_codec"
  ho_goos :: string
  ho_json :: bool
  ho_flags :: HostFlags
  ho_envPath :: string
  ho_elevated :: bool
  ho_hostname :: string
  ho_get :: http_get

definition loadHostFile :: "'n host_opts \<Rightarrow> (host_error, HostFile) result" where
  "loadHostFile c =
     (if ho_path c = [] then Inr empty_file else fst (LoadFile (ho_codec c) (ho_content c) (ho_goos c)))"

definition resolveHostSetupConfig ::
  "'n host_opts \<Rightarrow> HostFile \<Rightarrow> os_env \<Rightarrow> disk \<Rightarrow> (host_cmd_error, HostConfig \<times> os_env) result \<times> disk" where
  "resolveHostSetupConfig c f E d =
     (case envfile_Load (ho_envPath c) E d of
        (Inl e, d1) \<Rightarrow> (Inl (HostCmdEnv e), d1)
      | (Inr E1, d1) \<Rightarrow>
          (let cfg = Resolve (ho_goos c) (Getenv E1) f (ho_flags c) in
           case sanitizeFirewallRule (hc_FirewallRule cfg) of
             Inl e \<Rightarrow> (Inl (HostCmdRule e), d1)
           | Inr _ \<Rightarrow> (Inr (cfg, E1), d1)))"

definition printSetupResult :: "(string \<Rightarrow> string) \<Rightarrow> 'n host_opts \<Rightarrow> string \<Rightarrow> SetupResult \<Rightarrow> host_cmd_error option \<times> string list \<times> string list" where
  "printSetupResult Quote c tsIP result =
     (let e = map_option (\<lambda>(code, t). NotConverged code t) (setupConvergence (sr_Steps result)) in
      if ho_json c then (e, [json_indent 0 (setupJSON tsIP result)], [])
      else (case print_steps (sr_Steps result) of
              (out, err) \<Rightarrow> (e, out @ printSetupSummary Quote tsIP result, err)))"

definition notApplicableReason :: string where "notApplicableReason = ''Host setup is not applicable on macOS.''"
definition notApplicableHint :: string where
  "notApplicableHint = ''Use the client mode (ts-bridge connect) to connect to a remote host.''"

definition printSetupNotApplicable :: "bool \<Rightarrow> string list" where
  "printSetupNotApplicable jsonOut =
     (if jsonOut then
        [json_indent 0 (JObj [(''steps'', JArr []), (''rdp_port'', JNum (Itoa 0)), (''warnings'', JArr []), (''errors'', JArr []),
           (''not_applicable'', JStr (notApplicableReason @ '' '' @ notApplicableHint))])]
      else [notApplicableReason, notApplicableHint])"

text \<open>The outcome, what is printed on both streams, and the environment, the disk and the host after it.\<close>

definition runHostSetup ::
  "(string \<Rightarrow> string) \<Rightarrow> 'n host_opts \<Rightarrow> 's Runner \<Rightarrow> (string list \<Rightarrow> 's \<Rightarrow> (string \<times> cmd_error option) \<times> 's) \<Rightarrow>
   os_env \<Rightarrow> disk \<Rightarrow> 's \<Rightarrow> (host_cmd_error option \<times> string list \<times> string list) \<times> disk \<times> 's" where
  "runHostSetup Quote c r act E d st =
     (case loadHostFile c of
        Inl e \<Rightarrow> ((Some (HostCmdFile e), [], []), d, st)
      | Inr f \<Rightarrow>
          if ho_goos c = ''darwin'' then ((None, printSetupNotApplicable (ho_json c), []), d, st)
          else if \<not> ho_elevated c then ((Some NotElevated, [], printElevationError (ho_goos c)), d, st)
          else (case resolveHostSetupConfig c f E d of
                  (Inl e, d1) \<Rightarrow> ((Some e, [], []), d1, st)
                | (Inr (cfg, _), d1) \<Rightarrow>
                    (case setupOn Quote (ho_goos c) cfg r act st of
                       (result, st1) \<Rightarrow> (printSetupResult Quote c (tailscaleIP r st1) result, d1, st1))))"

definition runHostCheck ::
  "(string \<Rightarrow> string) \<Rightarrow> 'n host_opts \<Rightarrow> 's Runner \<Rightarrow> os_env \<Rightarrow> disk \<Rightarrow> 's \<Rightarrow> (host_cmd_error option \<times> string list) \<times> disk" where
  "runHostCheck Quote c r E d st =
     (case envfile_Load (ho_envPath c) E d of
        (Inl e, d1) \<Rightarrow> ((Some (HostCmdEnv e), []), d1)
      | (Inr E1, d1) \<Rightarrow>
          (case loadHostFile c of
             Inl e \<Rightarrow> ((Some (HostCmdFile e), []), d1)
           | Inr f \<Rightarrow>
               (let cfg = Resolve (ho_goos c) (Getenv E1) f (ho_flags c);
                    result = checkOn Quote (ho_goos c) cfg r st;
                    published = (if ho_json c then probeServePublished (ho_get c) (ho_hostname c) f (hc_Services cfg) else None)
                in ((map_option (\<lambda>(code, t). NotConverged code t) (checkConvergence (cr_Steps result)),
                     if ho_json c then [json_indent 0 (checkJSON (ho_goos c) result published)] else printCheckText (ho_goos c) result), d1))))"

subsection \<open>Both ends of the probe\<close>

lemma probe_names:
  "fold_name ''node'' = ''node''" "fold_name ''services'' = ''services''" "fold_name ''kind'' = ''kind''" "fold_name ''port'' = ''port''"
  "fold_name ''published'' = ''published''" "fold_name ''status'' = ''status''" "fold_name ''reason'' = ''reason''"
  by code_simp+

lemma as_state_json:
  assumes "int64_range (ss_Port s)"
  shows "as_state (ServiceState_json s) = Some s"
  using assms
  by (cases s) (simp add: as_state_def ServiceState_json_def json_field_def as_string_def as_int_def as_bool_def probe_names Atoi_Itoa del: fold_name.simps)

lemma as_states_json:
  assumes "\<forall>s \<in> set ss. int64_range (ss_Port s)"
  shows "as_states (JArr (map ServiceState_json ss)) = Some ss"
proof -
  have "List.map_filter as_state (map ServiceState_json ss) = ss" using assms
    by (induction ss) (simp_all add: List.map_filter_simps as_state_json)
  then show ?thesis using assms by (simp add: as_states_def list_all_iff as_state_json)
qed

lemma mark_published_lookup:
  "map_of (mark_published ss m) k =
     (if map_of m k \<noteq> None \<and> (\<exists>s \<in> set ss. ss_Published s \<and> serviceKey (ss_Kind s) (ss_Port s) = k) then Some True else map_of m k)"
  by (induction ss arbitrary: m) (auto simp: Let_def update_conv')

lemma declared_false:
  "map_of (fold (\<lambda>s. AList.update (serviceKey (ds_Kind s) (ds_Port s)) False) ds m) k =
     (if k \<in> set (map (\<lambda>s. serviceKey (ds_Kind s) (ds_Port s)) ds) then Some False else map_of m k)"
  by (induction ds arbitrary: m) (auto simp: update_conv')

text \<open>What a report must be for its encoding to be read back: ASCII, with ports of machine size, in 64 KiB.\<close>

definition report_ok :: "string \<times> ServiceState list option \<Rightarrow> bool" where
  "report_ok rep \<longleftrightarrow> ascii (fst rep) \<and>
     (\<forall>ss. snd rep = Some ss \<longrightarrow> (\<forall>s \<in> set ss. ascii (ss_Kind s) \<and> int64_range (ss_Port s))) \<and>
     length (encoded (ready_body True [] (Some rep))) \<le> 2 ^ 16"

lemma probe_ready_body:
  assumes "report_ok (node, Some ss)"
  shows "probe_body (encoded (ready_body True [] (Some (node, Some ss)))) = Some (node, ss)"
proof -
  let ?j = "ready_body True [] (Some (node, Some ss))"
  have "json_ok maxNestingDepth ?j"
    using assms by (auto simp: report_ok_def ready_body_def ServiceState_json_def ascii_def maxNestingDepth_def statusField_def)
  then have d: "json_Decode (encoded ?j) = Some ?j" unfolding encoded_def
    by (intro json_Decode_text) (auto simp: value_end_def json_space_def)
  have f: "json_field as_string ''node'' ?j [] = (True, node)" "json_field as_states ''services'' ?j [] = (True, ss)"
    using assms as_states_json [of ss]
    by (simp_all add: report_ok_def ready_body_def json_field_def as_string_def probe_names statusField_def del: fold_name.simps)
  have "take (2 ^ 16) (encoded ?j) = encoded ?j" using assms by (simp add: report_ok_def)
  then show ?thesis by (simp only: probe_body_def d option.case Let_def f fst_conv snd_conv) simp
qed

lemma NewNodeConfig_hostname: "NewNodeConfig fs mesh controlURL checkKey = Inr nc \<Longrightarrow> nc_Hostname nc = NodeHostname mesh (sf_hostname fs)"
  by (auto simp: NewNodeConfig_def Let_def split: option.splits fs_error.splits sum.splits)

text \<open>
  C15: \<open>host check\<close> and \<open>host serve\<close> agree. When \<open>host serve\<close> runs from a host file and answers on the
  health address of that file, the services \<open>host check --json\<close> shows as published are, among the
  declared ones, exactly those the plan of \<open>host serve\<close> publishes while its endpoint is ready, and
  none while it is not.
\<close>

theorem host_check_sees_published:
  assumes "loadServePlan c = Inr plan" and "fst (LoadServeFile (sc_codec c) (sc_content c) (sc_goos c)) = Inr f"
    and "fh_Mesh (f_Host f) = Some mesh" and "m_HealthAddr mesh = Some addr" and "sf_hostname (sc_fs c) = hostname"
    and "report_ok (serveReport plan)"
  shows "\<exists>pub. probeServePublished (serve_get addr (health_Handler status (Some (serveReport plan)) m)) hostname f declared = Some pub \<and>
    (\<forall>s \<in> set declared. map_of pub (serviceKey (ds_Kind s) (ds_Port s)) =
       Some (fst (status_Load status) \<and> serviceKey (ds_Kind s) (ds_Port s) \<in> set (map service_word (pl_services plan))))"
proof -
  let ?get = "serve_get addr (health_Handler status (Some (serveReport plan)) m)"
  let ?k = "\<lambda>s. serviceKey (ds_Kind s) (ds_Port s)"
  define published where "published = fold (\<lambda>s. AList.update (?k s) False) declared []"
  define states where "states = map (\<lambda>s. \<lparr>ss_Kind = se_Kind s, ss_Port = se_Port s, ss_Published = True\<rparr>) (pl_services plan)"
  have node: "nc_Hostname (pl_node plan) = NodeHostname mesh hostname"
  proof -
    obtain afs where "NewNodeConfig (sc_fs c\<lparr>sf_afs := afs\<rparr>) mesh (the (fh_ControlURL (f_Host f))) (\<lambda>p. CheckSecretFile p afs) = Inr (pl_node plan)"
      using assms(1-3) by (auto simp: loadServePlan_def split: if_splits option.splits prod.splits sum.splits)
    from NewNodeConfig_hostname [OF this] show ?thesis using assms(5) by simp
  qed
  have rep: "serveReport plan = (NodeHostname mesh hostname, Some states)" by (simp add: serveReport_def states_def node)
  obtain ready reason where st: "status_Load status = (ready, reason)" by fastforce
  have "?get (health_url addr ''/health/ready'') = Inr (if ready then 200 else 503, Some (encoded (ready_body ready reason (Some (serveReport plan)))))"
    by (simp add: serve_get_def health_url_def HasPrefix_iff health_Handler_def st)
  moreover have "probe_body (encoded (ready_body True reason (Some (serveReport plan)))) = Some (NodeHostname mesh hostname, states)"
    using probe_ready_body assms(6) unfolding rep by (simp add: ready_body_def)
  ultimately have p: "probeServePublished ?get hostname f declared = Some (if ready then mark_published states published else published)"
    using assms(3,4) by (cases ready) (simp_all add: probeServePublished_def published_def Let_def)
  have w: "service_word s = serviceKey (se_Kind s) (se_Port s)" for s by (simp add: service_word_def serviceKey_def)
  have "map_of published (?k s) = Some False" if "s \<in> set declared" for s
    using \<open>s \<in> set declared\<close> by (simp add: published_def declared_false)
  moreover from this have "map_of (mark_published states published) (?k s) = Some (?k s \<in> set (map service_word (pl_services plan)))"
    if "s \<in> set declared" for s
    using \<open>s \<in> set declared\<close> by (auto simp: mark_published_lookup states_def w image_iff) metis
  ultimately show ?thesis using p st by auto
qed

definition sample_plan :: servePlan where
  "sample_plan = \<lparr>pl_node = \<lparr>nc_Hostname = ''box'', nc_StateDir = ''/var/ts'', nc_ControlURL = ''https://hs.lan'', nc_AuthKey = [], nc_Enrolling = False\<rparr>,
     pl_mesh = \<lparr>m_BootstrapSSH = None, m_BootstrapSOCKSAddr = None, m_Hostname = Some ''box'', m_StateDir = Some ''/var/ts'', m_AuthKeyFile = None,
       m_HealthAddr = Some ''127.0.0.1:9090''\<rparr>,
     pl_services = [\<lparr>se_Kind = ''rdp'', se_Port = 3390\<rparr>, \<lparr>se_Kind = ''ssh'', se_Port = 22\<rparr>]\<rparr>"

lemma sample_plan: "loadServePlan sample_serve_cmd = Inr sample_plan"
  by code_simp

theorem host_check_sees_published_witness:
  "\<exists>plan pub. loadServePlan sample_serve_cmd = Inr plan \<and>
     probeServePublished (serve_get ''127.0.0.1:9090'' (health_Handler (MarkReady zero_status) (Some (serveReport plan)) ResetMetrics)) ''Box'' serve_file
       [\<lparr>ds_Kind = ''rdp'', ds_Port = 3390\<rparr>, \<lparr>ds_Kind = ''vnc'', ds_Port = 5900\<rparr>] = Some pub \<and>
     map_of pub ''rdp:3390'' = Some True \<and> map_of pub ''vnc:5900'' = Some False"
proof -
  have ok: "report_ok (serveReport sample_plan)"
  proof -
    have "length (encoded (ready_body True [] (Some (serveReport sample_plan)))) \<le> 2 ^ 16" by code_simp
    then show ?thesis by (simp add: report_ok_def serveReport_def sample_plan_def ascii_def int64_range_def min_int64_def max_int64_def)
  qed
  have f: "fst (LoadServeFile (sc_codec sample_serve_cmd) (sc_content sample_serve_cmd) (sc_goos sample_serve_cmd)) = Inr serve_file" by code_simp
  have w: "map service_word (pl_services sample_plan) = [''rdp:3390'', ''ssh:22'']" by code_simp
  have k: "serviceKey ''rdp'' 3390 = ''rdp:3390''" "serviceKey ''vnc'' 5900 = ''vnc:5900''" by code_simp+
  have r: "fst (status_Load (MarkReady zero_status))" by code_simp
  show ?thesis
    using host_check_sees_published [OF sample_plan f, of _ "''127.0.0.1:9090''" "''Box''" "MarkReady zero_status" ResetMetrics
        "[\<lparr>ds_Kind = ''rdp'', ds_Port = 3390\<rparr>, \<lparr>ds_Kind = ''vnc'', ds_Port = 5900\<rparr>]"] ok sample_plan
    by (auto simp: serve_file_def sample_serve_cmd_def w k r)
qed

subsection \<open>Exit status\<close>

text \<open>
  The exit status of \<open>host check\<close> is 0 exactly when every step is ok and 2 otherwise; that of \<open>host setup\<close>
  is 2 exactly when a step failed.
\<close>

lemma check_exit: "host_exit (map_option (\<lambda>(code, t). NotConverged code t) (checkConvergence steps)) =
    (if \<forall>s \<in> set steps. st_Outcome s = OutcomeOK then 0 else 2)"
  by (auto simp: checkConvergence_def host_exit_def ExitCode_def exitNotConverged_def Let_def List.map_filter_simps filter_empty_conv)

lemma setup_exit: "host_exit (map_option (\<lambda>(code, t). NotConverged code t) (setupConvergence steps)) =
    (if \<exists>s \<in> set steps. st_Outcome s = OutcomeFailed then 2 else 0)"
  by (auto simp: setupConvergence_def failedSteps_def host_exit_def ExitCode_def exitNotConverged_def Let_def List.map_filter_simps filter_empty_conv)

end
