(* ===== verification/Host_Init.thy ===== *)
theory Host_Init
  imports Init_Cmd Host_Config
begin

text \<open>
  \<open>cmd/cli/host_init.go\<close>: the command that writes the host file. The disk is that of the secret
  files, where every system call may fail; the YAML library is the codec of the host file and an
  encoder; what the terminal gives is a list of lines.
\<close>

subsection \<open>Flags and errors\<close>

record hostInitFlags =
  hi_Port :: int
  hi_FirewallRule :: string
  hi_NoSleep :: bool
  hi_Config :: string
  hi_Force :: bool

record 'n host_init_ctx =
  hx_goos :: string
  hx_cwd :: string
  hx_port :: bool
  hx_rule :: bool
  hx_sleep :: bool
  hx_yaml :: "'n host_codec"
  hx_encode :: "HostFile \<Rightarrow> string option"

datatype host_init_error =
    HostConfigRequired
  | HostPortRange int
  | HostRule rule_error
  | WindowsOnly string
  | HostStat fs_error
  | HostIsDirectory
  | HostUnreadable fs_error
  | HostExists
  | HostAborted
  | HostRead init_error
  | HostInvalidPort string
  | HostEncode
  | HostMkdir string fs_error
  | HostWrite fs_error
  | HostMode fs_error
  | HostUnreadableBack host_error

definition hostFileMode :: nat where "hostFileMode = 420"

definition parseHostInitFlags :: "'n host_init_ctx \<Rightarrow> hostInitFlags \<Rightarrow> host_init_error option" where
  "parseHostInitFlags x f =
     (if hi_Config f = [] then Some HostConfigRequired
      else if hi_Port f \<noteq> 0 \<and> (hi_Port f < 1 \<or> 65535 < hi_Port f) then Some (HostPortRange (hi_Port f))
      else (case (if hi_FirewallRule f \<noteq> [] then sanitizeFirewallRule (hi_FirewallRule f) else Inr []) of
              Inl e \<Rightarrow> Some (HostRule e)
            | Inr _ \<Rightarrow>
                if hx_goos x \<noteq> ''windows'' \<and> (hx_rule x \<or> hx_sleep x) then Some (WindowsOnly (hx_goos x)) else None))"

subsection \<open>Replacing a file\<close>

definition confirmHostOverwrite :: "string list \<Rightarrow> bool \<times> string list" where
  "confirmHostOverwrite ls =
     (case ls of
        [] \<Rightarrow> (False, [])
      | l # rest \<Rightarrow> let answer = ToLower (TrimSpace l) in (answer = ''y'' \<or> answer = ''yes'', rest))"

definition os_Open :: "string \<Rightarrow> disk \<Rightarrow> fs_error option \<times> disk" where
  "os_Open p = syscall (\<lambda>d. if files d p = None then (Some NotExist, d) else (None, d))"

definition ensureHostFileWritable ::
  "string \<Rightarrow> bool \<Rightarrow> bool \<Rightarrow> string list \<Rightarrow> disk \<Rightarrow> host_init_error option \<times> string list \<times> disk" where
  "ensureHostFileWritable path force interactive ls d =
     (case os_Stat path d of
        (Some NotExist, d1) \<Rightarrow> (None, ls, d1)
      | (Some e, d1) \<Rightarrow> (Some (HostStat e), ls, d1)
      | (None, d1) \<Rightarrow>
          if dirs d1 path \<noteq> None then (Some HostIsDirectory, ls, d1)
          else (case os_Open path d1 of
                  (Some e, d2) \<Rightarrow> (Some (HostUnreadable e), ls, d2)
                | (None, d2) \<Rightarrow>
                    if force then (None, ls, d2)
                    else if \<not> interactive then (Some HostExists, ls, d2)
                    else (case confirmHostOverwrite ls of
                            (True, rest) \<Rightarrow> (None, rest, d2)
                          | (False, rest) \<Rightarrow> (Some HostAborted, rest, d2))))"

subsection \<open>The wizard\<close>

definition prompt_port :: "hostInitFlags \<Rightarrow> string \<Rightarrow> (host_init_error, hostInitFlags) result" where
  "prompt_port f s =
     (if s = [] then Inr f
      else (case Atoi s of
              None \<Rightarrow> Inl (HostInvalidPort s)
            | Some port \<Rightarrow> if port < 1 \<or> 65535 < port then Inl (HostInvalidPort s) else Inr (f\<lparr>hi_Port := port\<rparr>)))"

definition prompt_rule :: "hostInitFlags \<Rightarrow> string \<Rightarrow> (host_init_error, hostInitFlags) result" where
  "prompt_rule f s =
     (if s = [] then Inr f
      else (case sanitizeFirewallRule s of
              Inl e \<Rightarrow> Inl (HostRule e)
            | Inr _ \<Rightarrow> Inr (f\<lparr>hi_FirewallRule := s\<rparr>)))"

definition promptHostInit :: "string \<Rightarrow> hostInitFlags \<Rightarrow> string list \<Rightarrow> (host_init_error, hostInitFlags) result" where
  "promptHostInit goos f ls =
     (case readOptionalInput ls of
        (Inl e, _) \<Rightarrow> Inl (HostRead e)
      | (Inr portStr, ls1) \<Rightarrow>
          (case prompt_port f portStr of
             Inl e \<Rightarrow> Inl e
           | Inr f1 \<Rightarrow>
               if goos \<noteq> ''windows'' then Inr f1
               else (case readOptionalInput ls1 of
                       (Inl e, _) \<Rightarrow> Inl (HostRead e)
                     | (Inr rule, ls2) \<Rightarrow>
                         (case prompt_rule f1 rule of
                            Inl e \<Rightarrow> Inl e
                          | Inr f2 \<Rightarrow>
                              (case readChoiceInput [''yes'', ''no''] ls2 of
                                 (Inl e, _) \<Rightarrow> Inl (HostRead e)
                               | (Inr choice, _) \<Rightarrow> Inr (f2\<lparr>hi_NoSleep := (choice = ''no'')\<rparr>))))))"

definition applyHostInitDefaults :: "string \<Rightarrow> hostInitFlags \<Rightarrow> hostInitFlags" where
  "applyHostInitDefaults goos f =
     (let f1 = (if hi_Port f = 0 then f\<lparr>hi_Port := defaultRDPPort\<rparr> else f)
      in if hi_FirewallRule f1 = [] \<and> goos = ''windows'' then f1\<lparr>hi_FirewallRule := defaultFirewallRuleName\<rparr> else f1)"

definition hostFileFor :: "string \<Rightarrow> hostInitFlags \<Rightarrow> HostFile" where
  "hostFileFor goos f =
     \<lparr>f_Version = 1,
      f_Host = \<lparr>fh_Services = Some [\<lparr>fs_Kind = ServiceRDP, fs_Port = Some (hi_Port f)\<rparr>],
        fh_Firewall = (if goos = ''windows'' then Some \<lparr>fw_Rule = Some (hi_FirewallRule f)\<rparr> else None),
        fh_Power = (if goos = ''windows'' then Some \<lparr>pw_PreventSleep = Some (\<not> hi_NoSleep f)\<rparr> else None),
        fh_ControlURL = None, fh_Mesh = None\<rparr>\<rparr>"

subsection \<open>Writing the file\<close>

definition host_file_header :: string where
  "host_file_header =
     ''# ts-bridge host configuration (ADR-017), written by ts-bridge host init.'' @ [LF] @
     ''# Read by: ts-bridge host setup | check | serve --config <this file>'' @ [LF]"

definition writeAndClose :: "string \<Rightarrow> string \<Rightarrow> disk \<Rightarrow> host_init_error option \<times> disk" where
  "writeAndClose tmp content d =
     (let (e1, d1) = file_Write tmp content d; (e2, d2) = file_Close d1
      in case (if e1 = None then e2 else e1) of
           Some e \<Rightarrow> (Some (HostWrite e), d2)
         | None \<Rightarrow>
             (case os_Chmod tmp hostFileMode d2 of
                (Some e, d3) \<Rightarrow> (Some (HostMode e), d3)
              | (None, d3) \<Rightarrow> (None, d3)))"

definition host_temp_name :: "string \<Rightarrow> string \<Rightarrow> string" where
  "host_temp_name dir suffix = (if HasSuffix dir ''/'' then dir else dir @ ''/'') @ ''.host-init-'' @ suffix @ ''.yaml''"

text \<open>From the temporary file to the path; the caller removes what is left of the temporary file.\<close>

definition replace_host_file ::
  "'n host_init_ctx \<Rightarrow> string \<Rightarrow> string \<Rightarrow> string \<Rightarrow> disk \<Rightarrow> host_init_error option \<times> disk" where
  "replace_host_file x tmp path content d =
     (case writeAndClose tmp content d of
        (Some e, d1) \<Rightarrow> (Some e, d1)
      | (None, d1) \<Rightarrow>
          (case os_ReadFile tmp d1 of
             (r, d2) \<Rightarrow>
               (case fst (LoadFile (hx_yaml x) (case r of Inl _ \<Rightarrow> None | Inr s \<Rightarrow> Some s) (hx_goos x)) of
                  Inl e \<Rightarrow> (Some (HostUnreadableBack e), d2)
                | Inr _ \<Rightarrow>
                    (case os_Rename tmp path d2 of
                       (Some e, d3) \<Rightarrow> (Some (HostWrite e), d3)
                     | (None, d3) \<Rightarrow> (None, d3)))))"

definition writeHostFile :: "'n host_init_ctx \<Rightarrow> hostInitFlags \<Rightarrow> disk \<Rightarrow> host_init_error option \<times> disk" where
  "writeHostFile x f d =
     (case hx_encode x (hostFileFor (hx_goos x) f) of
        None \<Rightarrow> (Some HostEncode, d)
      | Some body \<Rightarrow>
          let dir = Dir (hi_Config f) in
          (case os_MkdirAll dir 493 d of
             (Some e, d1) \<Rightarrow> (Some (HostMkdir dir e), d1)
           | (None, d1) \<Rightarrow>
               (case CreateTemp_as (host_temp_name dir) dir d1 of
                  (Inl e, d2) \<Rightarrow> (Some (HostWrite e), d2)
                | (Inr tmp, d2) \<Rightarrow>
                    (case replace_host_file x tmp (hi_Config f) (host_file_header @ body) d2 of
                       (e, d3) \<Rightarrow> (e, snd (os_Remove tmp d3))))))"

definition printHostInitSummary :: "'n host_init_ctx \<Rightarrow> hostInitFlags \<Rightarrow> string list" where
  "printHostInitSummary x f =
     (let absPath = (if IsAbs (hi_Config f) then Clean (hi_Config f) else Join [hx_cwd x, hi_Config f]);
          rule = ''  ---------------------------------------''
      in [[], rule, ''  HOST CONFIGURED'', rule, ''  RDP Port:       '' @ Itoa (hi_Port f)] @
         (if hx_goos x = ''windows''
          then [''  Firewall Rule:  '' @ hi_FirewallRule f,
                ''  Disable Sleep:  '' @ (if \<not> hi_NoSleep f then ''true'' else ''false'')]
          else []) @
         [[], ''  Config: '' @ absPath, [], ''  Next steps:'',
          ''  1. Run: ts-bridge host setup --config '' @ absPath,
          ''  2. Verify: ts-bridge host check --config '' @ absPath, []])"

text \<open>The error, the lines printed at the end, and the disk.\<close>

definition runHostInit ::
  "'n host_init_ctx \<Rightarrow> hostInitFlags \<Rightarrow> string list \<Rightarrow> disk \<Rightarrow> host_init_error option \<times> string list \<times> disk" where
  "runHostInit x f ls d =
     (if hx_goos x = ''darwin''
      then (None, [''Host init is not applicable on macOS yet (#459); nothing was written.''], d)
      else (case parseHostInitFlags x f of
              Some e \<Rightarrow> (Some e, [], d)
            | None \<Rightarrow>
                let interactive = (\<not> hx_port x \<and> \<not> hx_rule x \<and> \<not> hx_sleep x) in
                (case ensureHostFileWritable (hi_Config f) (hi_Force f) interactive ls d of
                   (Some e, _, d1) \<Rightarrow> (Some e, [], d1)
                 | (None, ls1, d1) \<Rightarrow>
                     (case (if interactive then promptHostInit (hx_goos x) f ls1 else Inr f) of
                        Inl e \<Rightarrow> (Some e, [], d1)
                      | Inr f1 \<Rightarrow>
                          let f2 = applyHostInitDefaults (hx_goos x) f1 in
                          (case writeHostFile x f2 d1 of
                             (Some e, d2) \<Rightarrow> (Some e, [], d2)
                           | (None, d2) \<Rightarrow> (None, printHostInitSummary x f2, d2))))))"

subsection \<open>What a write changes\<close>

text \<open>Every file but the given ones stays as it is.\<close>

definition keeps_files :: "string set \<Rightarrow> disk \<Rightarrow> disk \<Rightarrow> bool" where
  "keeps_files P d d' \<longleftrightarrow> (\<forall>p. p \<notin> P \<longrightarrow> files d' p = files d p)"

lemma keeps_files_refl [simp]: "keeps_files P d d"
  by (simp add: keeps_files_def)

lemma keeps_files_trans: "keeps_files P d d1 \<Longrightarrow> keeps_files Q d1 d2 \<Longrightarrow> P \<subseteq> R \<Longrightarrow> Q \<subseteq> R \<Longrightarrow> keeps_files R d d2"
  by (fastforce simp: keeps_files_def)

lemma Write_keeps: "file_Write p s d = (e, d') \<Longrightarrow> keeps_files {p} d d'"
  by (auto simp: file_Write_def Let_def keeps_files_def split: if_splits option.splits)

lemma Close_keeps: "file_Close d = (e, d') \<Longrightarrow> files d' = files d"
  by (auto simp: file_Close_def syscall_def Let_def split: if_splits)

lemma Chmod_keeps: "os_Chmod p m d = (e, d') \<Longrightarrow> keeps_files {p} d d'"
  by (auto simp: os_Chmod_def syscall_def set_mode_def Let_def keeps_files_def split: if_splits option.splits)

lemma Remove_keeps: "keeps_files {p} d (snd (os_Remove p d))"
  by (auto simp: os_Remove_def syscall_def Let_def keeps_files_def split: if_splits option.splits)

lemma Open_keeps: "os_Open p d = (e, d') \<Longrightarrow> files d' = files d"
  by (auto simp: os_Open_def syscall_def Let_def split: if_splits)

lemma MkdirAll_keeps: "os_MkdirAll p m d = (e, d') \<Longrightarrow> files d' = files d"
  by (auto simp: os_MkdirAll_def syscall_def Let_def split: if_splits)

lemma Stat_keeps: "os_Stat p d = (e, d') \<Longrightarrow> files d' = files d"
  by (auto simp: os_Stat_def syscall_def Let_def split: if_splits)

lemma Read_keeps: "os_ReadFile p d = (r, d') \<Longrightarrow> files d' = files d \<and> (\<forall>s. r = Inr s \<longrightarrow> (\<exists>f. files d p = Some f \<and> f_data f = s))"
  by (auto simp: os_ReadFile_def Let_def split: if_splits option.splits)

lemma fresh_name_Some: "fresh_name n name i used = Some p \<Longrightarrow> \<not> used p \<and> (\<exists>j. p = name j)"
  by (induction n arbitrary: i) (auto split: if_splits)

lemma CreateTemp_fresh:
  assumes "CreateTemp_as name dir d = (Inr p, d')"
  shows "files d p = None" "\<exists>s. p = name s" "keeps_files {p} d d'" "files d' p = Some \<lparr>f_data = [], f_mode = 384\<rparr>"
  using assms by (auto simp: CreateTemp_as_def Let_def keeps_files_def split: if_splits option.splits dest!: fresh_name_Some)

lemma CreateTemp_fails: "CreateTemp_as name dir d = (Inl e, d') \<Longrightarrow> files d' = files d"
  by (auto simp: CreateTemp_as_def Let_def split: if_splits option.splits)

lemma writeAndClose_effect:
  assumes "writeAndClose tmp content d = (e, d')"
  shows "keeps_files {tmp} d d'"
    "e = None \<Longrightarrow> files d tmp = Some \<lparr>f_data = [], f_mode = m\<rparr> \<Longrightarrow> files d' tmp = Some \<lparr>f_data = content, f_mode = hostFileMode\<rparr>"
proof -
  obtain e1 d1 e2 d2 where w: "file_Write tmp content d = (e1, d1)" "file_Close d1 = (e2, d2)" by fastforce
  have k: "keeps_files {tmp} d d2" using Write_keeps [OF w(1)] Close_keeps [OF w(2)] by (simp add: keeps_files_def)
  show "keeps_files {tmp} d d'"
  proof (cases "if e1 = None then e2 else e1")
    case None
    then have "d' = snd (os_Chmod tmp hostFileMode d2)"
      using assms by (auto simp: writeAndClose_def w split: prod.splits option.splits)
    then show ?thesis using keeps_files_trans [OF k Chmod_keeps [of tmp hostFileMode d2 _ d'], of _ "{tmp}"] by (metis prod.collapse order_refl)
  next
    case (Some x)
    then show ?thesis using assms k by (simp add: writeAndClose_def w)
  qed
  show "files d' tmp = Some \<lparr>f_data = content, f_mode = hostFileMode\<rparr>"
    if "e = None" "files d tmp = Some \<lparr>f_data = [], f_mode = m\<rparr>"
  proof -
    have n: "e1 = None" "e2 = None" and c: "os_Chmod tmp hostFileMode d2 = (None, d')"
      using assms that(1) by (auto simp: writeAndClose_def w split: if_splits option.splits prod.splits)
    have "files d1 tmp = Some \<lparr>f_data = content, f_mode = m\<rparr>"
      using w(1) n(1) that(2) by (auto simp: file_Write_def Let_def split: if_splits)
    then have "files d2 tmp = Some \<lparr>f_data = content, f_mode = m\<rparr>" using Close_keeps [OF w(2)] by simp
    then show ?thesis using c by (auto simp: os_Chmod_def syscall_def set_mode_def Let_def split: if_splits)
  qed
qed

lemma Rename_effect:
  assumes "os_Rename src dst d = (e, d')"
  shows "e \<noteq> None \<Longrightarrow> files d' = files d" "e = None \<Longrightarrow> \<exists>f. files d src = Some f \<and> files d' = ((files d)(src := None))(dst \<mapsto> f)"
  using assms by (auto simp: os_Rename_def syscall_def Let_def split: if_splits option.splits)

text \<open>What the replacement of the path promises for its result.\<close>

definition replaced ::
  "'n host_init_ctx \<Rightarrow> string \<Rightarrow> string \<Rightarrow> string \<Rightarrow> disk \<Rightarrow> host_init_error option \<Rightarrow> disk \<Rightarrow> bool" where
  "replaced x tmp path content d e d' \<longleftrightarrow> keeps_files {tmp, path} d d' \<and>
     (case e of
        Some z \<Rightarrow> files d' path = files d path \<and>
          (\<forall>b. z = HostUnreadableBack b \<longrightarrow>
             b = HostReadFailed \<or> fst (LoadFile (hx_yaml x) (Some content) (hx_goos x)) = Inl b)
      | None \<Rightarrow> files d' path = Some \<lparr>f_data = content, f_mode = hostFileMode\<rparr> \<and>
          (\<exists>file. fst (LoadFile (hx_yaml x) (Some content) (hx_goos x)) = Inr file))"

lemma kept_replaced:
  assumes "keeps_files {tmp} d d'" "tmp \<noteq> path"
    "\<And>b. z = HostUnreadableBack b \<Longrightarrow> b = HostReadFailed \<or> fst (LoadFile (hx_yaml x) (Some content) (hx_goos x)) = Inl b"
  shows "replaced x tmp path content d (Some z) d'"
  using assms by (simp add: replaced_def keeps_files_def)

lemma renamed_replaced:
  assumes "os_Rename tmp path d2 = (e, d3)" "keeps_files {tmp} d d2" "tmp \<noteq> path"
    "files d2 tmp = Some \<lparr>f_data = content, f_mode = hostFileMode\<rparr>"
    "fst (LoadFile (hx_yaml x) (Some content) (hx_goos x)) = Inr file"
  shows "replaced x tmp path content d (map_option HostWrite e) d3"
proof (cases e)
  case None
  then have "files d3 = ((files d2)(tmp := None))(path \<mapsto> \<lparr>f_data = content, f_mode = hostFileMode\<rparr>)"
    using Rename_effect(2) [OF assms(1)] assms(4) by auto
  then show ?thesis using None assms(2,3,5) by (simp add: replaced_def keeps_files_def)
next
  case (Some z)
  then have "files d3 = files d2" using Rename_effect(1) [OF assms(1)] by simp
  then have "keeps_files {tmp} d d3" using assms(2) by (simp add: keeps_files_def)
  then have "replaced x tmp path content d (Some (HostWrite z)) d3" by (rule kept_replaced [OF _ assms(3)]) simp
  then show ?thesis using Some by simp
qed

lemma writeAndClose_error: "writeAndClose tmp content d = (Some z, d') \<Longrightarrow> z \<noteq> HostUnreadableBack b"
  by (auto simp: writeAndClose_def split: prod.splits option.splits if_splits)

lemma replace_host_file_replaced:
  assumes "replace_host_file x tmp path content d = (e, d')" "files d tmp = Some \<lparr>f_data = [], f_mode = m\<rparr>" "tmp \<noteq> path"
  shows "replaced x tmp path content d e d'"
proof -
  obtain e1 d1 where w: "writeAndClose tmp content d = (e1, d1)" by fastforce
  obtain r d2 where r: "os_ReadFile tmp d1 = (r, d2)" by fastforce
  obtain e3 d3 where n: "os_Rename tmp path d2 = (e3, d3)" by fastforce
  note k1 = writeAndClose_effect(1) [OF w]
  have k2: "keeps_files {tmp} d d2" using k1 Read_keeps [OF r] by (simp add: keeps_files_def)
  show ?thesis
  proof (cases e1)
    case (Some z)
    then have "e = Some z" "d' = d1" using assms(1) by (simp_all add: replace_host_file_def w)
    then show ?thesis using kept_replaced [OF k1 assms(3), of z] writeAndClose_error [of tmp content d z d1] w Some by simp
  next
    case e1: None
    have tmp: "files d2 tmp = Some \<lparr>f_data = content, f_mode = hostFileMode\<rparr>" "\<And>s. r = Inr s \<Longrightarrow> s = content"
      using writeAndClose_effect(2) [OF w e1 assms(2)] Read_keeps [OF r] by auto
    show ?thesis
    proof (cases r)
      case (Inl z)
      then have "e = Some (HostUnreadableBack HostReadFailed)" "d' = d2"
        using assms(1) e1 by (simp_all add: replace_host_file_def w r LoadFile_def loadFile_def)
      moreover have "replaced x tmp path content d (Some (HostUnreadableBack HostReadFailed)) d2"
        by (rule kept_replaced [OF k2 assms(3)]) simp
      ultimately show ?thesis by simp
    next
      case (Inr s)
      then have s: "r = Inr content" using tmp(2) by simp
      show ?thesis
      proof (cases "fst (LoadFile (hx_yaml x) (Some content) (hx_goos x))")
        case (Inl b)
        then have "e = Some (HostUnreadableBack b)" "d' = d2" using assms(1) e1 s by (simp_all add: replace_host_file_def w r)
        moreover have "replaced x tmp path content d (Some (HostUnreadableBack b)) d2"
          by (rule kept_replaced [OF k2 assms(3)]) (simp add: Inl)
        ultimately show ?thesis by simp
      next
        case (Inr loaded)
        then have "e = map_option HostWrite e3 \<and> d' = d3"
          using assms(1) e1 s by (cases e3) (simp_all add: replace_host_file_def w r n)
        then show ?thesis using renamed_replaced [OF n k2 assms(3) tmp(1) Inr] by simp
      qed
    qed
  qed
qed

lemma writeHostFile_replaced:
  assumes "writeHostFile x f d = (e, d')" "\<And>s. host_temp_name (Dir (hi_Config f)) s \<noteq> hi_Config f"
  shows "(\<forall>p. p \<noteq> hi_Config f \<longrightarrow> files d p \<noteq> None \<longrightarrow> files d' p = files d p) \<and>
    (case e of
       Some z \<Rightarrow> files d' (hi_Config f) = files d (hi_Config f) \<and>
         (\<forall>b. z = HostUnreadableBack b \<longrightarrow> b = HostReadFailed \<or>
            (\<exists>body. hx_encode x (hostFileFor (hx_goos x) f) = Some body \<and>
               fst (LoadFile (hx_yaml x) (Some (host_file_header @ body)) (hx_goos x)) = Inl b))
     | None \<Rightarrow> \<exists>body file. hx_encode x (hostFileFor (hx_goos x) f) = Some body \<and>
         files d' (hi_Config f) = Some \<lparr>f_data = host_file_header @ body, f_mode = hostFileMode\<rparr> \<and>
         fst (LoadFile (hx_yaml x) (Some (host_file_header @ body)) (hx_goos x)) = Inr file)"
proof (cases "hx_encode x (hostFileFor (hx_goos x) f)")
  case None
  then show ?thesis using assms(1) by (auto simp: writeHostFile_def)
next
  case (Some body)
  let ?dir = "Dir (hi_Config f)"
  obtain e1 d1 where m: "os_MkdirAll ?dir 493 d = (e1, d1)" by fastforce
  obtain t d2 where t: "CreateTemp_as (host_temp_name ?dir) ?dir d1 = (t, d2)" by fastforce
  show ?thesis
  proof (cases "e1 = None \<and> (\<exists>tmp. t = Inr tmp)")
    case False
    then have "files d' = files d \<and> (\<exists>z. e = Some z \<and> (\<forall>b. z \<noteq> HostUnreadableBack b))"
      using assms(1) Some MkdirAll_keeps [OF m] CreateTemp_fails [of "host_temp_name ?dir" ?dir d1 _ d2] t
      by (cases e1; cases t) (auto simp: writeHostFile_def m)
    then show ?thesis by auto
  next
    case True
    then obtain tmp where e1: "e1 = None" and tmp: "t = Inr tmp" by blast
    note c = CreateTemp_fresh [OF t [unfolded tmp]]
    obtain e3 d3 where r: "replace_host_file x tmp (hi_Config f) (host_file_header @ body) d2 = (e3, d3)" by fastforce
    have ne: "tmp \<noteq> hi_Config f" using c(2) assms(2) by auto
    have e: "e = e3" "d' = snd (os_Remove tmp d3)" using assms(1) Some e1 t tmp r by (simp_all add: writeHostFile_def m)
    have rep: "replaced x tmp (hi_Config f) (host_file_header @ body) d2 e3 d3" by (rule replace_host_file_replaced [OF r c(4) ne])
    have k: "files d1 = files d" by (rule MkdirAll_keeps [OF m])
    have "files d' p = files d p" if "p \<noteq> hi_Config f" "files d p \<noteq> None" for p
    proof -
      have "p \<noteq> tmp" using that(2) c(1) k by auto
      then show ?thesis using that(1) rep c(3) k Remove_keeps [of tmp d3] by (simp add: e(2) replaced_def keeps_files_def)
    qed
    moreover have "files d' (hi_Config f) = files d3 (hi_Config f)" "files d2 (hi_Config f) = files d (hi_Config f)"
      using Remove_keeps [of tmp d3] c(3) k ne by (simp_all add: e(2) keeps_files_def)
    ultimately show ?thesis using rep Some e(1) by (cases e3) (auto simp: replaced_def)
  qed
qed

subsection \<open>The file is one that loads\<close>

definition init_flags_ok :: "string \<Rightarrow> hostInitFlags \<Rightarrow> bool" where
  "init_flags_ok goos f \<longleftrightarrow> 1 \<le> hi_Port f \<and> hi_Port f \<le> 65535 \<and>
     (goos = ''windows'' \<longrightarrow> sanitizeFirewallRule (hi_FirewallRule f) = Inr (hi_FirewallRule f))"

lemma sanitize_Inr: "sanitizeFirewallRule r = Inr s \<Longrightarrow> s = r"
  by (auto simp: sanitizeFirewallRule_def split: if_splits)

lemma default_rule_ok: "sanitizeFirewallRule defaultFirewallRuleName = Inr defaultFirewallRuleName"
  by code_simp

text \<open>What was given on the command line or at the prompts, before the defaults are filled in.\<close>

definition init_flags_given :: "hostInitFlags \<Rightarrow> bool" where
  "init_flags_given f \<longleftrightarrow> (hi_Port f = 0 \<or> 1 \<le> hi_Port f \<and> hi_Port f \<le> 65535) \<and>
     (hi_FirewallRule f = [] \<or> sanitizeFirewallRule (hi_FirewallRule f) = Inr (hi_FirewallRule f))"

lemma parse_given: "parseHostInitFlags x f = None \<Longrightarrow> init_flags_given f"
  by (auto simp: parseHostInitFlags_def init_flags_given_def dest: sanitize_Inr split: if_splits sum.splits)

lemma prompt_given:
  assumes "init_flags_given f" "promptHostInit goos f ls = Inr f'"
  shows "init_flags_given f' \<and> hi_Config f' = hi_Config f"
proof -
  have p: "init_flags_given g' \<and> hi_Config g' = hi_Config g" if "init_flags_given g" "prompt_port g t = Inr g'" for g g' t
    using that by (auto simp: prompt_port_def init_flags_given_def split: if_splits option.splits)
  have r: "init_flags_given g' \<and> hi_Config g' = hi_Config g" if "init_flags_given g" "prompt_rule g t = Inr g'" for g g' t
    using that by (auto simp: prompt_rule_def init_flags_given_def dest: sanitize_Inr split: if_splits sum.splits)
  have n: "init_flags_given (g\<lparr>hi_NoSleep := b\<rparr>) \<longleftrightarrow> init_flags_given g" for g b by (simp add: init_flags_given_def)
  obtain s ls1 f1 where 1: "readOptionalInput ls = (Inr s, ls1)" "prompt_port f s = Inr f1"
    using assms(2) by (auto simp: promptHostInit_def split: prod.splits sum.splits)
  note g1 = p [OF assms(1) 1(2)]
  show ?thesis
  proof (cases "goos = ''windows''")
    case False
    then show ?thesis using assms(2) 1 g1 by (simp add: promptHostInit_def)
  next
    case True
    obtain t ls2 f2 where 2: "readOptionalInput ls1 = (Inr t, ls2)" "prompt_rule f1 t = Inr f2"
      using assms(2) 1 True by (auto simp: promptHostInit_def split: prod.splits sum.splits)
    obtain c ls3 where 3: "readChoiceInput [''yes'', ''no''] ls2 = (c, ls3)" by fastforce
    then have "\<exists>b. f' = f2\<lparr>hi_NoSleep := b\<rparr>" using assms(2) 1 2 True by (cases c) (auto simp: promptHostInit_def)
    then show ?thesis using r [OF conjunct1 [OF g1] 2(2)] g1 n by auto
  qed
qed

lemma defaults_ok: "init_flags_given f \<Longrightarrow> init_flags_ok goos (applyHostInitDefaults goos f)"
  by (auto simp: init_flags_given_def init_flags_ok_def applyHostInitDefaults_def defaultRDPPort_def default_rule_ok)

lemma defaults_config [simp]: "hi_Config (applyHostInitDefaults goos f) = hi_Config f"
  by (simp add: applyHostInitDefaults_def Let_def)

lemma hostFileFor_valid:
  assumes "init_flags_ok goos f" "goos \<noteq> ''darwin''"
  shows "validate_file (hostFileFor goos f) goos (capabilityFor goos) = None"
proof -
  have c: "ServiceRDP \<in> set (k_kinds (capabilityFor goos))" "goos = ''windows'' \<Longrightarrow> k_power (capabilityFor goos)"
    "goos = ''windows'' \<Longrightarrow> k_firewallRule (capabilityFor goos)"
    using assms(2) by (auto simp: capabilityFor_def osCapabilities_def goosWindows_def goosLinux_def goosDarwin_def)
  have p: "defaultPorts ServiceRDP = Some 3389" by (simp add: defaultPorts_def ServiceRDP_def ServiceSSH_def ServiceVNC_def defaultRDPPort_def)
  have f: "validateFirewall (fh_Firewall (f_Host (hostFileFor goos f))) goos (capabilityFor goos) = None"
    using assms(1) c(3) by (auto simp: validateFirewall_def hostFileFor_def init_flags_ok_def)
  have s: "validateServices (fh_Services (f_Host (hostFileFor goos f))) goos (capabilityFor goos) = None"
    using assms(1) c(1) p by (simp add: validateServices_def validateService_def hostFileFor_def init_flags_ok_def)
  show ?thesis using f s c(2)
    by (auto simp: validate_file_def hostFileFor_def fileVersion_def validateControlURL_def validateMesh_def and_then_def
        split: option.splits)
qed

lemma ensureHostFileWritable_effect:
  assumes "ensureHostFileWritable path force interactive ls d = (e, ls', d')"
  shows "files d' = files d" "e \<noteq> Some (HostUnreadableBack b)"
    "e = None \<Longrightarrow> files d path \<noteq> None \<Longrightarrow> force \<or> interactive \<and> fst (confirmHostOverwrite ls)"
proof -
  obtain e1 d1 where st: "os_Stat path d = (e1, d1)" by fastforce
  obtain e2 d2 where op: "os_Open path d1 = (e2, d2)" by fastforce
  obtain c rest where cf: "confirmHostOverwrite ls = (c, rest)" by fastforce
  have fl: "files d1 = files d" "files d2 = files d1" using Stat_keeps [OF st] Open_keeps [OF op] by simp_all
  have ne: "e1 = Some NotExist \<Longrightarrow> files d path = None"
    using st by (auto simp: os_Stat_def syscall_def Let_def split: if_splits)
  have "files d' = files d \<and> e \<noteq> Some (HostUnreadableBack b) \<and>
      (e = None \<longrightarrow> files d path \<noteq> None \<longrightarrow> force \<or> interactive \<and> fst (confirmHostOverwrite ls))"
  proof (cases e1)
    case None
    then show ?thesis using assms fl
      by (cases e2) (auto simp: ensureHostFileWritable_def st op cf split: if_splits bool.splits)
  next
    case (Some z)
    then show ?thesis using assms fl ne by (cases z) (auto simp: ensureHostFileWritable_def st)
  qed
  then show "files d' = files d" "e \<noteq> Some (HostUnreadableBack b)"
    "e = None \<Longrightarrow> files d path \<noteq> None \<Longrightarrow> force \<or> interactive \<and> fst (confirmHostOverwrite ls)" by blast+
qed

text \<open>A run ends before it writes, or writes a file for flags that are in order.\<close>

lemma runHostInit_cases:
  assumes "runHostInit x f ls d = (e, out, d')" "hx_goos x \<noteq> ''darwin''"
  obtains (refused) z where "e = Some z" "files d' = files d" "\<And>b. z \<noteq> HostUnreadableBack b"
  | (written) f1 d1 where "writeHostFile x (applyHostInitDefaults (hx_goos x) f1) d1 = (e, d')" "files d1 = files d"
      "hi_Config f1 = hi_Config f" "init_flags_given f1" "hx_port x \<or> hx_rule x \<or> hx_sleep x \<Longrightarrow> f1 = f"
      "files d (hi_Config f) \<noteq> None \<Longrightarrow> hi_Force f \<or> fst (confirmHostOverwrite ls)"
proof -
  let ?i = "\<not> hx_port x \<and> \<not> hx_rule x \<and> \<not> hx_sleep x"
  obtain e1 ls1 d1 where w: "ensureHostFileWritable (hi_Config f) (hi_Force f) ?i ls d = (e1, ls1, d1)" by (metis prod.exhaust)
  note we = ensureHostFileWritable_effect [OF w]
  show thesis
  proof (cases "parseHostInitFlags x f")
    case (Some z)
    then have "z \<noteq> HostUnreadableBack b" for b
      by (auto simp: parseHostInitFlags_def split: if_splits sum.splits)
    moreover have "e = Some z" "d' = d" using assms Some by (simp_all add: runHostInit_def)
    ultimately show thesis using refused [of z] by simp
  next
    case parsed: None
    note given = parse_given [OF parsed]
    show thesis
    proof (cases e1)
      case (Some z)
      then have "e = Some z" "d' = d1" using assms parsed w by (simp_all add: runHostInit_def)
      then show thesis using refused [of z] we(1,2) Some by simp
    next
      case e1: None
      define r where "r = (if ?i then promptHostInit (hx_goos x) f ls1 else Inr f)"
      have run: "runHostInit x f ls d = (case r of
          Inl e \<Rightarrow> (Some e, [], d1)
        | Inr f1 \<Rightarrow>
            (case writeHostFile x (applyHostInitDefaults (hx_goos x) f1) d1 of
               (Some e, d2) \<Rightarrow> (Some e, [], d2)
             | (None, d2) \<Rightarrow> (None, printHostInitSummary x (applyHostInitDefaults (hx_goos x) f1), d2)))"
        using assms(2) parsed w e1 unfolding runHostInit_def Let_def r_def by simp
      show thesis
      proof (cases r)
        case (Inl z)
        then have "promptHostInit (hx_goos x) f ls1 = Inl z" by (simp add: r_def split: if_splits)
        then have "z \<noteq> HostUnreadableBack b" for b
          by (auto simp: promptHostInit_def prompt_port_def prompt_rule_def split: prod.splits sum.splits if_splits option.splits)
        moreover have "e = Some z" "d' = d1" using assms(1) run Inl by simp_all
        ultimately show thesis using refused [of z] we(1) by simp
      next
        case (Inr f1)
        then have "writeHostFile x (applyHostInitDefaults (hx_goos x) f1) d1 = (e, d')"
          using assms(1) run by (auto split: prod.splits option.splits)
        moreover have "init_flags_given f1 \<and> hi_Config f1 = hi_Config f"
          using Inr given prompt_given [OF given, of "hx_goos x" ls1 f1] by (auto simp: r_def split: if_splits)
        moreover have "f1 = f" if "hx_port x \<or> hx_rule x \<or> hx_sleep x" using Inr that by (auto simp: r_def)
        ultimately show thesis using written [of f1 d1] we(1,3) e1 by blast
      qed
    qed
  qed
qed

text \<open>
  C16: \<open>host init\<close> replaces the host file as a whole or not at all, whatever system call fails. On an
  error the path holds what it held; on success it holds a file, readable by everyone, that
  \<open>LoadFile\<close> accepts; an existing file is replaced only with \<open>--force\<close> or after a yes; every other
  file stays. (The temporary name is one of its own pattern; the path is not.)
\<close>

theorem host_init_atomic:
  assumes "runHostInit x f ls d = (e, out, d')" "hx_goos x \<noteq> ''darwin''"
    "\<And>s. host_temp_name (Dir (hi_Config f)) s \<noteq> hi_Config f"
  shows "(\<forall>p. p \<noteq> hi_Config f \<longrightarrow> files d p \<noteq> None \<longrightarrow> files d' p = files d p) \<and>
    (if e = None
     then (\<exists>content loaded. files d' (hi_Config f) = Some \<lparr>f_data = content, f_mode = 420\<rparr> \<and>
             fst (LoadFile (hx_yaml x) (Some content) (hx_goos x)) = Inr loaded) \<and>
          (files d (hi_Config f) \<noteq> None \<longrightarrow> hi_Force f \<or> fst (confirmHostOverwrite ls))
     else files d' (hi_Config f) = files d (hi_Config f))"
  using assms(1,2)
proof (cases rule: runHostInit_cases)
  case refused
  then show ?thesis by simp
next
  case (written f1 d1)
  then show ?thesis
    using writeHostFile_replaced [OF written(1)] assms(3) by (cases e) (auto simp: hostFileMode_def)
qed


definition sample_host_codec :: "HostFile host_codec" where
  "sample_host_codec = \<lparr>hy_documents = (\<lambda>_. OneDocument (hostFileFor ''linux''
       \<lparr>hi_Port = 3390, hi_FirewallRule = [], hi_NoSleep = False, hi_Config = [], hi_Force = False\<rparr>)),
     hy_tree = (\<lambda>_. Some []), hy_file = (\<lambda>doc _. Some doc)\<rparr>"

definition sample_hostinit_ctx :: "HostFile host_init_ctx" where
  "sample_hostinit_ctx = \<lparr>hx_goos = ''linux'', hx_cwd = ''/'', hx_port = True, hx_rule = False, hx_sleep = False,
     hx_yaml = sample_host_codec,
     hx_encode = (\<lambda>g. if g = hostFileFor ''linux'' \<lparr>hi_Port = 3390, hi_FirewallRule = [], hi_NoSleep = False, hi_Config = [], hi_Force = False\<rparr>
                      then Some ''host'' else None)\<rparr>"

definition sample_init_flags :: hostInitFlags where
  "sample_init_flags = \<lparr>hi_Port = 3390, hi_FirewallRule = [], hi_NoSleep = False, hi_Config = ''/e/h'', hi_Force = False\<rparr>"

definition sample_init_disk :: disk where
  "sample_init_disk = \<lparr>files = (\<lambda>_. None), dirs = [''/e'' \<mapsto> 493], tick = 0, faults = (\<lambda>_. False), partial_len = (\<lambda>_. 0), temp_suffix = (\<lambda>n. ''1'')\<rparr>"

lemma sample_temp: "host_temp_name (Dir (hi_Config sample_init_flags)) s \<noteq> hi_Config sample_init_flags"
proof -
  have "Dir (hi_Config sample_init_flags) = ''/e''" "hi_Config sample_init_flags = ''/e/h''" by code_simp+
  then show ?thesis by (simp add: host_temp_name_def HasSuffix_def)
qed

lemma sample_init_run: "fst (runHostInit sample_hostinit_ctx sample_init_flags [] sample_init_disk) = None"
  by code_simp

theorem host_init_atomic_witness:
  "\<exists>out d' content. runHostInit sample_hostinit_ctx sample_init_flags [] sample_init_disk = (None, out, d') \<and>
     files d' ''/e/h'' = Some \<lparr>f_data = content, f_mode = 420\<rparr>"
proof -
  obtain out d' where r: "runHostInit sample_hostinit_ctx sample_init_flags [] sample_init_disk = (None, out, d')"
    using sample_init_run by (metis prod.collapse)
  have "hx_goos sample_hostinit_ctx \<noteq> ''darwin''" "hi_Config sample_init_flags = ''/e/h''" by code_simp+
  then show ?thesis using host_init_atomic [OF r _ sample_temp] r by auto
qed


end
