(* ===== verification/Reconnect.thy ===== *)
theory Reconnect
  imports Telemetry
begin

text \<open>
  \<open>internal/proxy/reconnect.go\<close>: the retrying dialer and its exponential backoff on 64-bit
  durations. A Go error is its message and what \<open>errors.Is\<close> or \<open>errors.As\<close> finds in its
  chain. The environment of one \<open>Dial\<close> call (the inner dialer's answers, the context, the
  random jitter) is a record of functions of the attempt number.
\<close>

datatype sentinel =
    NetErrClosed | IoEOF | SysECONNRESET | SysEPIPE | SysENOTCONN
  | NetAddrError | NetDNSError | NetTimeout | SocksTargetDenied

record go_error =
  err_msg :: string
  err_is :: "sentinel list"

subsection \<open>Backoff\<close>

definition maxBackoffAttempt :: int where "maxBackoffAttempt = 30"

text \<open>\<open>rand n\<close> is \<open>rand.Int64N(n)\<close>, called only with \<open>n > 0\<close>. A shift of an \<open>int64\<close> wraps.\<close>

definition computeBackoff :: "(int \<Rightarrow> int) \<Rightarrow> int \<Rightarrow> int \<Rightarrow> int \<Rightarrow> int" where
  "computeBackoff rand attempt base maxBackoff =
     (if base \<le> 0 then 0
      else
        let e0 = (if attempt < 0 then 0 else attempt);
            e = (if maxBackoffAttempt < e0 then maxBackoffAttempt else e0);
            d0 = wrap64 (base * 2 ^ nat e);
            d = (if d0 \<le> 0 \<or> maxBackoff < d0 then maxBackoff else d0);
            jitterMax = (if d < 0 then - ((- d) div 2) else d div 2)
        in if jitterMax \<le> 0 then d else wrap64 (d + rand jitterMax))"

definition backoff_exp :: "int \<Rightarrow> nat" where
  "backoff_exp attempt = nat (min 30 (max 0 attempt))"

definition rand_ok :: "(int \<Rightarrow> int) \<Rightarrow> bool" where
  "rand_ok rand \<longleftrightarrow> (\<forall>n > 0. 0 \<le> rand n \<and> rand n < n)"

lemma computeBackoff_clamped:
  assumes "0 < base"
  shows "computeBackoff rand attempt base mx =
    (let d0 = wrap64 (base * 2 ^ backoff_exp attempt);
         d = (if d0 \<le> 0 \<or> mx < d0 then mx else d0);
         j = (if d < 0 then - ((- d) div 2) else d div 2)
     in if j \<le> 0 then d else wrap64 (d + rand j))"
proof -
  have "nat (let e0 = (if attempt < 0 then 0 else attempt)
             in if maxBackoffAttempt < e0 then maxBackoffAttempt else e0) = backoff_exp attempt"
    by (auto simp: backoff_exp_def maxBackoffAttempt_def Let_def)
  with assms show ?thesis by (simp add: computeBackoff_def Let_def)
qed

lemma no_wrap_shift:
  assumes "0 < base" and "base < 2 ^ 33" and "e \<le> 30"
  shows "wrap64 (base * 2 ^ e) = base * 2 ^ e"
proof (rule wrap64_id)
  have "base * 2 ^ e \<le> (2 ^ 33 - 1) * 2 ^ 30"
    using assms by (intro mult_mono power_increasing) auto
  also have "\<dots> \<le> max_int64" by (simp add: max_int64_def)
  finally have "base * 2 ^ e \<le> max_int64" .
  moreover have "0 < base * 2 ^ e" using assms by simp
  ultimately show "int64_range (base * 2 ^ e)"
    by (simp add: int64_range_def min_int64_def)
qed

lemma jitter_bounds:
  assumes "rand_ok rand" and "0 < d" and "d \<le> 2 ^ 62"
  shows "let j = d div 2; r = (if j \<le> 0 then d else wrap64 (d + rand j)) in
    d \<le> r \<and> r \<le> d + d div 2"
proof (cases "d div 2 \<le> 0")
  case True
  then show ?thesis using assms(2) by (simp add: Let_def)
next
  case False
  then have r: "0 \<le> rand (d div 2)" "rand (d div 2) < d div 2"
    using assms(1) by (simp_all add: rand_ok_def)
  then have "int64_range (d + rand (d div 2))"
    using assms(2,3) by (simp add: int64_range_def max_int64_def min_int64_def)
  then show ?thesis using False r by (simp add: Let_def wrap64_id)
qed

text \<open>
  for a base below \<open>2^33\<close> nanoseconds (8.5 s), the wait before retry \<open>attempt\<close> is at least
  the doubled and capped delay and exceeds it by less than half: exponential growth, the
  \<open>MaxBackoff\<close> ceiling, and jitter on top of it.
\<close>

lemma computeBackoff_bounds:
  assumes "rand_ok rand" and "0 < base" and "base < 2 ^ 33" and "0 < mx" and "mx \<le> 2 ^ 62"
  shows "min (base * 2 ^ backoff_exp attempt) mx \<le> computeBackoff rand attempt base mx \<and>
    computeBackoff rand attempt base mx \<le>
      min (base * 2 ^ backoff_exp attempt) mx + min (base * 2 ^ backoff_exp attempt) mx div 2"
proof -
  define B where "B = base * 2 ^ backoff_exp attempt"
  define d where "d = min B mx"
  have B: "0 < B" using assms(2) by (simp add: B_def)
  have "wrap64 B = B"
    unfolding B_def using assms by (intro no_wrap_shift) (auto simp: backoff_exp_def)
  moreover have d: "0 < d" "d \<le> 2 ^ 62" using assms(4,5) B by (auto simp: d_def)
  moreover have "(if B \<le> 0 \<or> mx < B then mx else B) = d" using B by (auto simp: d_def)
  ultimately have "computeBackoff rand attempt base mx =
      (let j = d div 2 in if j \<le> 0 then d else wrap64 (d + rand j))"
    using computeBackoff_clamped [OF assms(2), of rand attempt mx, folded B_def]
    by (simp add: Let_def)
  then show ?thesis
    using jitter_bounds [OF assms(1) d] by (simp add: Let_def d_def B_def)
qed

text \<open>
  the exponent cap alone does not keep the shift from overflowing. With a base of
  \<open>2^34 + 1\<close> nanoseconds (17 s) and a ceiling of one minute, retry 30 waits \<open>2^30\<close>
  nanoseconds (1 s, before jitter), less than the base itself.
\<close>

lemma computeBackoff_shift_overflows:
  "computeBackoff (\<lambda>n. 0) 30 (2 ^ 34 + 1) 60000000000 = 2 ^ 30"
  by (simp add: computeBackoff_def maxBackoffAttempt_def wrap64_def Let_def)

subsection \<open>Permanent errors\<close>

definition isPermanentDialError :: "go_error option \<Rightarrow> bool" where
  "isPermanentDialError e =
     (case e of
        None \<Rightarrow> False
      | Some err \<Rightarrow>
          if NetAddrError \<in> set (err_is err) then True
          else if NetDNSError \<in> set (err_is err) then True
          else HasPrefix (err_msg err) ''tsnet: backend in state '')"

subsection \<open>The retry loop\<close>

record ReconnectDialer =
  MaxRetries :: int
  BaseBackoff :: int
  MaxBackoff :: int

record 'c dial_env =
  inner_dial :: "nat \<Rightarrow> (go_error, 'c) result"
  ctx_after_dial :: "nat \<Rightarrow> go_error option"
  ctx_in_sleep :: "nat \<Rightarrow> go_error option"
  jitter_rand :: "nat \<Rightarrow> int \<Rightarrow> int"

datatype dial_error =
    CtxError go_error
  | TerminalDialError go_error
  | DialFailed int "go_error option"

text \<open>
  The result of a \<open>Dial\<close> call, the backoffs it slept for and how often it called the inner
  dialer. \<open>ctx_after_dial\<close> is \<open>ctx.Err()\<close> after a failed attempt and \<open>ctx_in_sleep\<close> tells
  which arm the \<open>select\<close> takes.
\<close>

function dial_loop ::
  "ReconnectDialer \<Rightarrow> 'c dial_env \<Rightarrow> int \<Rightarrow> nat \<Rightarrow> go_error option \<Rightarrow>
   (dial_error, 'c) result \<times> int list \<times> nat" where
  "dial_loop r E totalAttempts attempt lastErr =
     (if int attempt < totalAttempts then
        (case inner_dial E attempt of
           Inr c \<Rightarrow> (Inr c, [], 1)
         | Inl err \<Rightarrow>
             (case ctx_after_dial E attempt of
                Some ce \<Rightarrow> (Inl (CtxError ce), [], 1)
              | None \<Rightarrow>
                  if isPermanentDialError (Some err) then (Inl (TerminalDialError err), [], 1)
                  else if int attempt = totalAttempts - 1 then (Inl (DialFailed totalAttempts (Some err)), [], 1)
                  else
                    let b = computeBackoff (jitter_rand E attempt) (int attempt)
                              (BaseBackoff r) (MaxBackoff r)
                    in (case ctx_in_sleep E attempt of
                          Some ce \<Rightarrow> (Inl (CtxError ce), [b], 1)
                        | None \<Rightarrow>
                            (case dial_loop r E totalAttempts (Suc attempt) (Some err) of
                               (res, bs, n) \<Rightarrow> (res, b # bs, Suc n)))))
      else (Inl (DialFailed totalAttempts lastErr), [], 0))"
  by pat_completeness auto
termination
  by (relation "measure (\<lambda>(r, E, totalAttempts, attempt, lastErr). nat (totalAttempts - int attempt))") auto

declare dial_loop.simps [simp del]

definition Dial ::
  "ReconnectDialer \<Rightarrow> 'c dial_env \<Rightarrow> (dial_error, 'c) result \<times> int list \<times> nat" where
  "Dial r E = dial_loop r E (wrap64 (MaxRetries r + 1)) 0 None"

definition retryable :: "'c dial_env \<Rightarrow> nat \<Rightarrow> bool" where
  "retryable E i \<longleftrightarrow>
     (\<exists>e. inner_dial E i = Inl e \<and> \<not> isPermanentDialError (Some e)) \<and>
     ctx_after_dial E i = None \<and> ctx_in_sleep E i = None"

definition nth_backoff :: "ReconnectDialer \<Rightarrow> 'c dial_env \<Rightarrow> nat \<Rightarrow> int" where
  "nth_backoff r E i = computeBackoff (jitter_rand E i) (int i) (BaseBackoff r) (MaxBackoff r)"

text \<open>Rounds that must be retried only add their backoff and one call.\<close>

lemma dial_loop_retry:
  assumes "retryable E a" and "int a < totalAttempts - 1"
  shows "\<exists>e. inner_dial E a = Inl e \<and>
    dial_loop r E totalAttempts a le =
      (case dial_loop r E totalAttempts (Suc a) (Some e) of
         (res, bs, n) \<Rightarrow> (res, nth_backoff r E a # bs, Suc n))"
proof -
  obtain e where e: "inner_dial E a = Inl e" "\<not> isPermanentDialError (Some e)"
    using assms(1) by (auto simp: retryable_def)
  then show ?thesis
    using assms by (subst dial_loop.simps) (auto simp: retryable_def nth_backoff_def Let_def)
qed

lemma dial_loop_skip:
  assumes "\<forall>j. a \<le> j \<and> j < a + k \<longrightarrow> retryable E j" and "int (a + k) \<le> totalAttempts - 1"
  shows "\<exists>le'. dial_loop r E totalAttempts a le =
      (case dial_loop r E totalAttempts (a + k) le' of
         (res, bs, n) \<Rightarrow> (res, map (nth_backoff r E) [a..<a + k] @ bs, k + n))"
  using assms
proof (induction k arbitrary: a le)
  case 0
  show ?case by (auto split: prod.splits intro!: exI [of _ le])
next
  case (Suc k)
  obtain e where e: "dial_loop r E totalAttempts a le =
      (case dial_loop r E totalAttempts (Suc a) (Some e) of
         (res, bs, n) \<Rightarrow> (res, nth_backoff r E a # bs, Suc n))"
    using dial_loop_retry [of E a totalAttempts r le] Suc.prems by fastforce
  obtain le' where "dial_loop r E totalAttempts (Suc a) (Some e) =
      (case dial_loop r E totalAttempts (Suc a + k) le' of
         (res, bs, n) \<Rightarrow> (res, map (nth_backoff r E) [Suc a..<Suc a + k] @ bs, k + n))"
    using Suc.IH [of "Suc a" "Some e"] Suc.prems by auto
  moreover have "nth_backoff r E a # map (nth_backoff r E) [Suc a..<Suc a + k]
      = map (nth_backoff r E) [a..<a + Suc k]"
    by (simp add: upt_conv_Cons del: upt_Suc)
  ultimately show ?case using e by (auto split: prod.splits intro!: exI [of _ le'])
qed

text \<open>The round at which the loop stops, read off the environment alone.\<close>

definition decisive :: "ReconnectDialer \<Rightarrow> 'c dial_env \<Rightarrow> nat \<Rightarrow> ((dial_error, 'c) result \<times> bool) option" where
  "decisive r E k =
     (case inner_dial E k of
        Inr c \<Rightarrow> Some (Inr c, False)
      | Inl e \<Rightarrow>
          (case ctx_after_dial E k of
             Some ce \<Rightarrow> Some (Inl (CtxError ce), False)
           | None \<Rightarrow>
               if isPermanentDialError (Some e) then Some (Inl (TerminalDialError e), False)
               else if int k = MaxRetries r then Some (Inl (DialFailed (MaxRetries r + 1) (Some e)), False)
               else (case ctx_in_sleep E k of
                       Some ce \<Rightarrow> Some (Inl (CtxError ce), True)
                     | None \<Rightarrow> None)))"

lemma decisive_None: "int k \<noteq> MaxRetries r \<Longrightarrow> decisive r E k = None \<longleftrightarrow> retryable E k"
  by (auto simp: decisive_def retryable_def split: sum.splits option.splits if_splits)

lemma decisive_at_limit: "int k = MaxRetries r \<Longrightarrow> decisive r E k \<noteq> None"
  by (cases "inner_dial E k"; cases "ctx_after_dial E k") (auto simp: decisive_def)

lemma dial_loop_decisive:
  assumes "decisive r E k = Some (res, slept)" and "int k \<le> MaxRetries r"
  shows "dial_loop r E (MaxRetries r + 1) k le =
    (res, if slept then [nth_backoff r E k] else [], 1)"
  using assms
  by (subst dial_loop.simps)
    (auto simp: decisive_def nth_backoff_def Let_def split: sum.splits option.splits if_splits)

lemma int64_succ: "int64_range n \<Longrightarrow> n < max_int64 \<Longrightarrow> wrap64 (n + 1) = n + 1"
  by (rule wrap64_id) (simp add: int64_range_def)

text \<open>
  C3: \<open>Dial\<close> is decided by the first attempt that is not a retryable failure (success,
  permanent error, cancelled context or the last allowed attempt): it returns that attempt's
  result, has called the inner dialer exactly once per attempt up to it, never after it, and
  has slept one backoff between consecutive attempts.
\<close>

theorem Dial_first_decisive:
  assumes "\<forall>j < k. retryable E j" and "decisive r E k = Some (res, slept)"
    and "int k \<le> MaxRetries r" and "int64_range (MaxRetries r)" and "MaxRetries r < max_int64"
  shows "Dial r E =
    (res, map (nth_backoff r E) [0..<if slept then Suc k else k], Suc k)"
proof -
  have t: "wrap64 (MaxRetries r + 1) = MaxRetries r + 1" using assms(4,5) by (rule int64_succ)
  obtain le' where le': "dial_loop r E (MaxRetries r + 1) 0 None =
      (case dial_loop r E (MaxRetries r + 1) (0 + k) le' of
         (res, bs, n) \<Rightarrow> (res, map (nth_backoff r E) [0..<0 + k] @ bs, k + n))"
    using dial_loop_skip [of 0 k E "MaxRetries r + 1" r None] assms(1,3) by auto
  then show ?thesis
    using dial_loop_decisive [OF assms(2,3), of le'] by (simp add: Dial_def t)
qed

definition flaky_env :: "string dial_env" where
  "flaky_env =
     \<lparr>inner_dial = (\<lambda>i. if i < 2 then Inl \<lparr>err_msg = ''connection refused'', err_is = []\<rparr>
                        else Inr ''conn''),
      ctx_after_dial = (\<lambda>_. None), ctx_in_sleep = (\<lambda>_. None), jitter_rand = (\<lambda>_ _. 0)\<rparr>"

definition three_retries :: ReconnectDialer where
  "three_retries = \<lparr>MaxRetries = 3, BaseBackoff = 1000000000, MaxBackoff = 30000000000\<rparr>"

theorem Dial_first_decisive_witness:
  "Dial three_retries flaky_env = (Inr ''conn'', [1000000000, 2000000000], 3)"
proof -
  have "\<forall>j < 2. retryable flaky_env j"
    by (simp add: retryable_def flaky_env_def isPermanentDialError_def)
  moreover have "decisive three_retries flaky_env 2 = Some (Inr ''conn'', False)"
    by (simp add: decisive_def flaky_env_def)
  moreover have "int64_range (MaxRetries three_retries)" "MaxRetries three_retries < max_int64"
    "int 2 \<le> MaxRetries three_retries"
    by (simp_all add: three_retries_def int64_range_def max_int64_def min_int64_def)
  ultimately have "Dial three_retries flaky_env =
      (Inr ''conn'', map (nth_backoff three_retries flaky_env) [0..<2], 3)"
    using Dial_first_decisive [of 2 flaky_env three_retries "Inr ''conn''" False] by simp
  then show ?thesis
    by (simp add: nth_backoff_def three_retries_def flaky_env_def upt_conv_Cons
        computeBackoff_def maxBackoffAttempt_def wrap64_def Let_def)
qed

text \<open>
  C4: the retry loop always returns within \<open>MaxRetries + 1\<close> attempts, whatever the inner
  dialer, the context and the jitter do.
\<close>

theorem Dial_terminates_within_retries:
  assumes "0 \<le> MaxRetries r" and "int64_range (MaxRetries r)" and "MaxRetries r < max_int64"
  shows "\<exists>k res slept. int k \<le> MaxRetries r \<and> decisive r E k = Some (res, slept) \<and>
    fst (Dial r E) = res \<and> int (snd (snd (Dial r E))) \<le> MaxRetries r + 1"
proof -
  define k where "k = (LEAST i. decisive r E i \<noteq> None)"
  have ex: "decisive r E (nat (MaxRetries r)) \<noteq> None"
    using assms(1) by (intro decisive_at_limit) simp
  then have k: "decisive r E k \<noteq> None" and kle: "k \<le> nat (MaxRetries r)"
    unfolding k_def by (rule LeastI, rule Least_le)
  then have kb: "int k \<le> MaxRetries r" using assms(1) by simp
  have "\<forall>j < k. decisive r E j = None" unfolding k_def using not_less_Least by blast
  then have re: "\<forall>j < k. retryable E j" using kb by (simp add: decisive_None)
  obtain res slept where d: "decisive r E k = Some (res, slept)" using k by auto
  have t: "wrap64 (MaxRetries r + 1) = MaxRetries r + 1" using assms(2,3) by (rule int64_succ)
  obtain le' where "dial_loop r E (MaxRetries r + 1) 0 None =
      (case dial_loop r E (MaxRetries r + 1) (0 + k) le' of
         (res, bs, n) \<Rightarrow> (res, map (nth_backoff r E) [0..<0 + k] @ bs, k + n))"
    using dial_loop_skip [of 0 k E "MaxRetries r + 1" r None] re kb by auto
  then have "fst (Dial r E) = res" "snd (snd (Dial r E)) = Suc k"
    using dial_loop_decisive [OF d kb, of le'] by (simp_all add: Dial_def t)
  with d kb show ?thesis by auto
qed

theorem Dial_terminates_within_retries_witness:
  "int (snd (snd (Dial three_retries flaky_env))) \<le> 4"
  using Dial_terminates_within_retries [of three_retries flaky_env]
  by (auto simp: three_retries_def int64_range_def max_int64_def min_int64_def)

end
