(* ===== verification/Proxy.thy ===== *)
theory Proxy
  imports Reconnect
begin

text \<open>
  \<open>internal/proxy/proxy.go\<close>: the accept loop with its error backoff and connection limit, one
  proxied connection, and the two copy directions with live byte accounting. What the network
  does (dial result, the reads and writes of each direction) is given as data; a direction
  whose list of reads and writes ends without an error or end of file is still running, which
  is the result \<open>None\<close>.
\<close>

subsection \<open>Errors of the copy loop\<close>

definition isIdleTimeoutErr :: "go_error option \<Rightarrow> bool" where
  "isIdleTimeoutErr e = (case e of None \<Rightarrow> False | Some err \<Rightarrow> NetTimeout \<in> set (err_is err))"

definition expectedMsgs :: "string list" where
  "expectedMsgs =
     [''use of closed network connection'', ''connection reset by peer'',
      ''forcibly closed by the remote host'', ''closed pipe'']"

definition IsExpectedCloseError :: "go_error option \<Rightarrow> bool" where
  "IsExpectedCloseError e =
     (case e of
        None \<Rightarrow> True
      | Some err \<Rightarrow>
          if NetErrClosed \<in> set (err_is err) \<or> IoEOF \<in> set (err_is err) then True
          else if SysECONNRESET \<in> set (err_is err) \<or> SysEPIPE \<in> set (err_is err)
                  \<or> SysENOTCONN \<in> set (err_is err) then True
          else list_ex (Contains (ToLower (err_msg err))) expectedMsgs)"

subsection \<open>Connections\<close>

text \<open>
  \<open>RawConn h\<close> is a connection whose write half can be closed iff \<open>h\<close>; \<open>IdleConn\<close> is the
  wrapper with a read deadline. \<open>wrap\<close> keeps Go's rule: only a positive idle time wraps.
\<close>

datatype net_conn = RawConn bool | IdleConn net_conn int

definition withIdleTimeout :: "net_conn \<Rightarrow> int \<Rightarrow> net_conn" where
  "withIdleTimeout c idle = (if idle \<le> 0 then c else IdleConn c idle)"

text \<open>The read deadline a \<open>Read\<close> sets, relative to now; \<open>None\<close> when it sets none.\<close>

fun read_deadline :: "net_conn \<Rightarrow> int option" where
  "read_deadline (RawConn h) = None"
| "read_deadline (IdleConn c idle) = (if 0 < idle then Some idle else read_deadline c)"

fun supports_half_close :: "net_conn \<Rightarrow> bool" where
  "supports_half_close (RawConn h) = h"
| "supports_half_close (IdleConn c idle) = False"

definition halfCloseWrite :: "net_conn \<Rightarrow> bool" where
  "halfCloseWrite c =
     (let c' = (case c of IdleConn inner _ \<Rightarrow> inner | RawConn h \<Rightarrow> RawConn h)
      in supports_half_close c')"

lemma halfCloseWrite_idle: "halfCloseWrite (withIdleTimeout (RawConn h) idle) = h"
  by (simp add: halfCloseWrite_def withIdleTimeout_def)

datatype endpoint = Client | Remote
datatype conn_op = CloseWrite endpoint | CloseConn endpoint

subsection \<open>One copy direction\<close>

record io_step =
  rd_n :: int
  rd_err :: "go_error option"
  wr_n :: int
  wr_err :: "go_error option"

definition io_EOF :: go_error where "io_EOF = \<lparr>err_msg = ''EOF'', err_is = [IoEOF]\<rparr>"
definition errInvalidWrite :: go_error where
  "errInvalidWrite = \<lparr>err_msg = ''invalid write result'', err_is = []\<rparr>"
definition errShortWrite :: go_error where
  "errShortWrite = \<lparr>err_msg = ''short write'', err_is = []\<rparr>"

text \<open>\<open>meteredWriter.Write\<close>: publish what was written, when it is positive.\<close>

definition metered_write :: "(int \<Rightarrow> 'm \<Rightarrow> 'm) \<Rightarrow> int \<Rightarrow> 'm \<Rightarrow> 'm" where
  "metered_write add n m = (if 0 < n then add n m else m)"

text \<open>\<open>io.CopyBuffer\<close> over the metered writer.\<close>

fun copy_buffer ::
  "(int \<Rightarrow> 'm \<Rightarrow> 'm) \<Rightarrow> io_step list \<Rightarrow> int \<Rightarrow> 'm \<Rightarrow> (int \<times> go_error option \<times> 'm) option" where
  "copy_buffer add [] written m = None"
| "copy_buffer add (st # sts) written m =
     (let m' = (if 0 < rd_n st then metered_write add (wr_n st) m else m);
          bad = 0 < rd_n st \<and> (wr_n st < 0 \<or> rd_n st < wr_n st);
          nw = (if rd_n st \<le> 0 \<or> bad then 0 else wr_n st);
          ew = (if rd_n st \<le> 0 then None
                else if bad \<and> wr_err st = None then Some errInvalidWrite else wr_err st);
          written' = written + nw
      in case ew of
           Some e \<Rightarrow> Some (written', Some e, m')
         | None \<Rightarrow>
             if 0 < rd_n st \<and> rd_n st \<noteq> nw then Some (written', Some errShortWrite, m')
             else (case rd_err st of
                     Some e \<Rightarrow> Some (written', if e = io_EOF then None else Some e, m')
                   | None \<Rightarrow> copy_buffer add sts written' m'))"

definition finishGraceful :: "endpoint \<Rightarrow> net_conn \<Rightarrow> conn_op list" where
  "finishGraceful dst c = (if halfCloseWrite c then [CloseWrite dst] else [CloseConn dst])"

definition closeWithIdleLog :: "endpoint \<Rightarrow> endpoint \<Rightarrow> conn_op list" where
  "closeWithIdleLog dst src = [CloseConn dst, CloseConn src]"

definition closeWithError :: "endpoint \<Rightarrow> endpoint \<Rightarrow> Metrics \<Rightarrow> conn_op list \<times> Metrics" where
  "closeWithError dst src m = ([CloseConn dst, CloseConn src], AddError m)"

definition copyDirection ::
  "endpoint \<Rightarrow> net_conn \<Rightarrow> endpoint \<Rightarrow> (int \<Rightarrow> Metrics \<Rightarrow> Metrics) \<Rightarrow> io_step list \<Rightarrow> Metrics \<Rightarrow>
   (int \<times> conn_op list \<times> Metrics) option" where
  "copyDirection dst dstConn src publish run m =
     (case copy_buffer publish run 0 m of
        None \<Rightarrow> None
      | Some (n, err, m') \<Rightarrow>
          if err = None \<or> IsExpectedCloseError err then Some (n, finishGraceful dst dstConn, m')
          else if isIdleTimeoutErr err then Some (n, closeWithIdleLog dst src, m')
          else (case closeWithError dst src m' of (ops, m'') \<Rightarrow> Some (n, ops, m'')))"

subsection \<open>Both directions\<close>

record conn_run =
  run_dial :: "(dial_error, unit) result"
  run_client :: net_conn
  run_remote :: net_conn
  run_rx :: "io_step list"
  run_tx :: "io_step list"

text \<open>
  The two goroutines touch different counters and endpoints are closed at most once more;
  the model runs the receive direction first, and \<open>proxyConnections_order\<close> shows that the
  other order gives the same counters.
\<close>

definition proxyConnections ::
  "net_conn \<Rightarrow> net_conn \<Rightarrow> io_step list \<Rightarrow> io_step list \<Rightarrow> Metrics \<Rightarrow>
   (int \<times> int \<times> conn_op list \<times> Metrics) option" where
  "proxyConnections client remote rxs txs m =
     (case copyDirection Remote remote Client AddBytesRx rxs m of
        None \<Rightarrow> None
      | Some (rx, ops1, m1) \<Rightarrow>
          (case copyDirection Client client Remote AddBytesTx txs m1 of
             None \<Rightarrow> None
           | Some (tx, ops2, m2) \<Rightarrow>
               Some (tx, rx, ops1 @ ops2 @ [CloseConn Client, CloseConn Remote], m2)))"

subsection \<open>One client connection\<close>

record conn_config =
  cc_target :: string
  cc_idle :: int
  cc_max_connections :: int

datatype conn_end =
    DialEnd dial_error "dial_error option" "conn_op list" Metrics
  | ProxyEnd int int "conn_op list" Metrics

definition is_terminal :: "dial_error \<Rightarrow> bool" where
  "is_terminal e = (case e of TerminalDialError _ \<Rightarrow> True | _ \<Rightarrow> False)"

text \<open>\<open>has_cancel\<close> tells whether the caller passed a cancel function.\<close>

definition handleConn :: "conn_config \<Rightarrow> bool \<Rightarrow> conn_run \<Rightarrow> Metrics \<Rightarrow> conn_end option" where
  "handleConn cfg has_cancel cr m =
     (let m1 = AddTotalConnection m in
      case run_dial cr of
        Inl e \<Rightarrow>
          Some (DialEnd e (if is_terminal e \<and> has_cancel then Some e else None)
                  [CloseConn Client] (AddError m1))
      | Inr _ \<Rightarrow>
          let client = withIdleTimeout (run_client cr) (cc_idle cfg);
              remote = withIdleTimeout (run_remote cr) (cc_idle cfg)
          in (case proxyConnections client remote (run_rx cr) (run_tx cr) m1 of
                None \<Rightarrow> None
              | Some (tx, rx, ops, m2) \<Rightarrow> Some (ProxyEnd tx rx ops m2)))"

fun end_metrics :: "conn_end \<Rightarrow> Metrics" where
  "end_metrics (DialEnd e c ops m) = m"
| "end_metrics (ProxyEnd tx rx ops m) = m"

fun end_ops :: "conn_end \<Rightarrow> conn_op list" where
  "end_ops (DialEnd e c ops m) = ops"
| "end_ops (ProxyEnd tx rx ops m) = ops"

subsection \<open>The accept loop\<close>

definition backoffMin :: int where "backoffMin = 100000000"
definition backoffMax :: int where "backoffMax = 10000000000"

datatype accept_event = Accepted nat | AcceptFailed go_error | ConnReturned nat conn_run

record accept_state =
  ac_backoff :: int
  ac_metrics :: Metrics
  ac_running :: "nat list"
  ac_rejected :: "nat list"
  ac_sleeps :: "int list"
  ac_cancelled :: "dial_error list"

text \<open>
  One event of the loop: \<open>Inl\<close> when \<open>AcceptLoop\<close> returns, \<open>Inr\<close> when it goes on.
  \<open>ConnReturned\<close> is a spawned goroutine coming back from \<open>handleConn\<close>; its deferred calls
  release the slot.
\<close>

definition accept_one ::
  "conn_config \<Rightarrow> bool \<Rightarrow> accept_event \<Rightarrow> accept_state \<Rightarrow> accept_state + accept_state" where
  "accept_one cfg has_cancel ev st =
     (case ev of
        AcceptFailed err \<Rightarrow>
          if NetErrClosed \<in> set (err_is err) then Inl st
          else Inr (st\<lparr>ac_sleeps := ac_sleeps st @ [ac_backoff st],
                       ac_backoff := min (wrap64 (ac_backoff st * 2)) backoffMax\<rparr>)
      | Accepted c \<Rightarrow>
          (case TryClaimConnection (cc_max_connections cfg) (ac_metrics st) of
             (False, m) \<Rightarrow>
               Inr (st\<lparr>ac_backoff := backoffMin, ac_metrics := AddRejectedConn m,
                       ac_rejected := ac_rejected st @ [c]\<rparr>)
           | (True, m) \<Rightarrow>
               Inr (st\<lparr>ac_backoff := backoffMin, ac_metrics := m,
                       ac_running := ac_running st @ [c]\<rparr>))
      | ConnReturned c cr \<Rightarrow>
          if c \<notin> set (ac_running st) then Inr st
          else (case handleConn cfg has_cancel cr (ac_metrics st) of
                  None \<Rightarrow> Inr st
                | Some en \<Rightarrow>
                    Inr (st\<lparr>ac_metrics := AddActiveConnection (- 1) (end_metrics en),
                            ac_running := remove1 c (ac_running st),
                            ac_cancelled := ac_cancelled st @
                              (case en of DialEnd _ (Some e) _ _ \<Rightarrow> [e] | _ \<Rightarrow> [])\<rparr>)))"

fun AcceptLoop ::
  "conn_config \<Rightarrow> bool \<Rightarrow> accept_event list \<Rightarrow> accept_state \<Rightarrow> accept_state \<times> bool" where
  "AcceptLoop cfg has_cancel [] st = (st, False)"
| "AcceptLoop cfg has_cancel (ev # evs) st =
     (case accept_one cfg has_cancel ev st of
        Inl st' \<Rightarrow> (st', True)
      | Inr st' \<Rightarrow> AcceptLoop cfg has_cancel evs st')"

definition accept_init :: "Metrics \<Rightarrow> accept_state" where
  "accept_init m =
     \<lparr>ac_backoff = backoffMin, ac_metrics = m, ac_running = [], ac_rejected = [],
      ac_sleeps = [], ac_cancelled = []\<rparr>"

subsection \<open>Byte accounting\<close>

text \<open>The contract of \<open>io.Reader\<close> and \<open>io.Writer\<close>: no more bytes written than given.\<close>

definition io_ok :: "io_step \<Rightarrow> bool" where
  "io_ok st \<longleftrightarrow> 0 \<le> rd_n st \<and> 0 \<le> wr_n st \<and> (0 < rd_n st \<longrightarrow> wr_n st \<le> rd_n st)"

locale byte_counter =
  fixes add :: "int \<Rightarrow> 'm \<Rightarrow> 'm" and count :: "'m \<Rightarrow> int"
  assumes add_wraps: "count (add n m) = wrap64 (count m + n)"
begin

lemma copy_buffer_count:
  assumes "copy_buffer add run w m = Some (n, err, m')" and "\<forall>st \<in> set run. io_ok st"
    and "int64_range (count m)"
  shows "count m' = wrap64 (count m + (n - w))"
  using assms
proof (induction run arbitrary: w m)
  case (Cons st sts)
  define m1 where "m1 = (if 0 < rd_n st then metered_write add (wr_n st) m else m)"
  define k where "k = (if 0 < rd_n st then wr_n st else 0)"
  have ok: "0 \<le> wr_n st" "0 < rd_n st \<longrightarrow> wr_n st \<le> rd_n st"
    using Cons.prems(2) by (auto simp: io_ok_def)
  have m1: "count m1 = wrap64 (count m + k)"
    using ok Cons.prems(3) by (auto simp: m1_def k_def metered_write_def add_wraps wrap64_id)
  have r1: "int64_range (count m1)" by (simp add: m1 wrap64_range)
  from Cons.prems(1) ok have "(n = w + k \<and> m' = m1) \<or> copy_buffer add sts (w + k) m1 = Some (n, err, m')"
    by (auto simp: m1_def k_def Let_def split: option.splits if_splits)
  then show ?case
  proof
    assume "n = w + k \<and> m' = m1"
    then show ?thesis using m1 by simp
  next
    assume "copy_buffer add sts (w + k) m1 = Some (n, err, m')"
    then have "count m' = wrap64 (count m1 + (n - (w + k)))"
      using Cons.IH Cons.prems(2) r1 by simp
    moreover have "count m + k + (n - (w + k)) = count m + (n - w)" by simp
    ultimately show ?thesis
      using wrap64_add_left [of "count m + k" "n - (w + k)"] by (simp add: m1)
  qed
qed simp

end

interpretation rx_bytes: byte_counter AddBytesRx TotalBytesRx
  by unfold_locales (simp add: AddBytesRx_def)

interpretation tx_bytes: byte_counter AddBytesTx TotalBytesTx
  by unfold_locales (simp add: AddBytesTx_def)

text \<open>What one direction leaves alone.\<close>

lemma copy_buffer_frame:
  assumes "copy_buffer add run w m = Some (n, err, m')" and "\<And>k m. f (add k m) = f m"
  shows "f m' = f m"
  using assms(1)
proof (induction run arbitrary: w m)
  case (Cons st sts)
  then show ?case
    by (auto simp: Let_def metered_write_def assms(2) split: option.splits if_splits)
qed simp

lemma copyDirection_frame:
  assumes "copyDirection dst c src add run m = Some (n, ops, m')"
    and "\<And>k m. f (add k m) = f m" and "\<And>m. f (AddError m) = f m"
  shows "f m' = f m"
proof -
  obtain err m1 where c: "copy_buffer add run 0 m = Some (n, err, m1)"
    and m': "m' = m1 \<or> m' = AddError m1"
    using assms(1)
    by (auto simp: copyDirection_def closeWithError_def split: option.splits if_splits prod.splits)
  have "f m1 = f m" using copy_buffer_frame [OF c] assms(2) by blast
  with m' assms(3) show ?thesis by auto
qed

lemma copyDirection_counts:
  assumes "copyDirection dst c src add run m = Some (n, ops, m')" and "byte_counter add count"
    and "\<And>m. count (AddError m) = count m" and "\<forall>st \<in> set run. io_ok st"
    and "int64_range (count m)"
  shows "count m' = wrap64 (count m + n)"
proof -
  obtain err m1 where c: "copy_buffer add run 0 m = Some (n, err, m1)"
    and m': "m' = m1 \<or> m' = AddError m1"
    using assms(1)
    by (auto simp: copyDirection_def closeWithError_def split: option.splits if_splits prod.splits)
  have "count m1 = wrap64 (count m + n)"
    using byte_counter.copy_buffer_count [OF assms(2) c assms(4,5)] by simp
  with m' assms(3) show ?thesis by auto
qed

lemma proxyConnections_parts:
  assumes "proxyConnections cl re rxs txs m = Some (tx, rx, ops, m')"
  obtains ops1 m1 ops2 where
    "copyDirection Remote re Client AddBytesRx rxs m = Some (rx, ops1, m1)"
    "copyDirection Client cl Remote AddBytesTx txs m1 = Some (tx, ops2, m')"
    "ops = ops1 @ ops2 @ [CloseConn Client, CloseConn Remote]"
  using assms by (auto simp: proxyConnections_def split: option.splits)

lemma proxyConnections_active:
  "proxyConnections cl re rxs txs m = Some (tx, rx, ops, m') \<Longrightarrow>
   ActiveConnections m' = ActiveConnections m"
  by (elim proxyConnections_parts)
    (auto dest!: copyDirection_frame [where f = ActiveConnections] simp: metrics_defs)

lemma proxyConnections_bytes:
  assumes "proxyConnections cl re rxs txs m = Some (tx, rx, ops, m')"
    and "\<forall>st \<in> set rxs. io_ok st" and "\<forall>st \<in> set txs. io_ok st"
    and "int64_range (TotalBytesTx m)" and "int64_range (TotalBytesRx m)"
  shows "TotalBytesTx m' = wrap64 (TotalBytesTx m + tx) \<and> TotalBytesRx m' = wrap64 (TotalBytesRx m + rx)"
proof -
  obtain ops1 m1 ops2 where
    rx: "copyDirection Remote re Client AddBytesRx rxs m = Some (rx, ops1, m1)" and
    tx: "copyDirection Client cl Remote AddBytesTx txs m1 = Some (tx, ops2, m')"
    using assms(1) by (elim proxyConnections_parts)
  have 1: "TotalBytesRx m1 = wrap64 (TotalBytesRx m + rx)"
    using copyDirection_counts [OF rx rx_bytes.byte_counter_axioms] assms(2,5)
    by (simp add: AddError_def)
  have 2: "TotalBytesTx m1 = TotalBytesTx m"
    using copyDirection_frame [OF rx, of TotalBytesTx] by (simp add: metrics_defs)
  have 3: "TotalBytesTx m' = wrap64 (TotalBytesTx m1 + tx)"
    using copyDirection_counts [OF tx tx_bytes.byte_counter_axioms] assms(3,4) 2
    by (simp add: AddError_def)
  have 4: "TotalBytesRx m' = TotalBytesRx m1"
    using copyDirection_frame [OF tx, of TotalBytesRx] by (simp add: metrics_defs)
  from 1 2 3 4 show ?thesis by simp
qed

lemma handleConn_active:
  "handleConn cfg hc cr m = Some en \<Longrightarrow> ActiveConnections (end_metrics en) = ActiveConnections m"
  by (auto simp: handleConn_def Let_def metrics_defs dest!: proxyConnections_active
      split: sum.splits option.splits)

subsection \<open>Properties of one connection\<close>

text \<open>
  C2: the byte counters served by \<open>/metrics\<close> advance, write by write, to exactly the totals
  the close log prints for the connection, in both directions (modulo \<open>2^64\<close>), for every
  reader and writer that keeps the contract of the \<open>io\<close> package.
\<close>

theorem handleConn_accounts_bytes:
  assumes "handleConn cfg has_cancel cr m = Some (ProxyEnd tx rx ops m')"
    and "\<forall>st \<in> set (run_rx cr). io_ok st" and "\<forall>st \<in> set (run_tx cr). io_ok st"
    and "int64_range (TotalBytesTx m)" and "int64_range (TotalBytesRx m)"
  shows "TotalBytesTx m' = wrap64 (TotalBytesTx m + tx) \<and>
    TotalBytesRx m' = wrap64 (TotalBytesRx m + rx)"
proof -
  have "proxyConnections (withIdleTimeout (run_client cr) (cc_idle cfg))
      (withIdleTimeout (run_remote cr) (cc_idle cfg)) (run_rx cr) (run_tx cr) (AddTotalConnection m)
      = Some (tx, rx, ops, m')"
    using assms(1) by (auto simp: handleConn_def Let_def split: sum.splits option.splits)
  from proxyConnections_bytes [OF this assms(2,3)] assms(4,5) show ?thesis
    by (simp add: AddTotalConnection_def)
qed

definition sample_run :: conn_run where
  "sample_run =
     \<lparr>run_dial = Inr (), run_client = RawConn True, run_remote = RawConn True,
      run_rx = [\<lparr>rd_n = 5, rd_err = None, wr_n = 5, wr_err = None\<rparr>,
                \<lparr>rd_n = 0, rd_err = Some io_EOF, wr_n = 0, wr_err = None\<rparr>],
      run_tx = [\<lparr>rd_n = 7, rd_err = Some \<lparr>err_msg = ''i/o timeout'', err_is = [NetTimeout]\<rparr>,
                 wr_n = 7, wr_err = None\<rparr>]\<rparr>"

definition sample_cfg :: conn_config where
  "sample_cfg = \<lparr>cc_target = ''host:3389'', cc_idle = 0, cc_max_connections = 1\<rparr>"

definition sample_end :: Metrics where
  "sample_end = ResetMetrics\<lparr>TotalConnections := 1, TotalBytesTx := 7, TotalBytesRx := 5\<rparr>"

lemma sample_handleConn:
  "handleConn sample_cfg True sample_run ResetMetrics =
     Some (ProxyEnd 7 5 [CloseWrite Remote, CloseConn Client, CloseConn Remote,
                         CloseConn Client, CloseConn Remote] sample_end)"
  by code_simp

theorem handleConn_accounts_bytes_witness:
  "TotalBytesTx sample_end = wrap64 (TotalBytesTx ResetMetrics + 7) \<and>
   TotalBytesRx sample_end = wrap64 (TotalBytesRx ResetMetrics + 5)"
  by (rule handleConn_accounts_bytes [OF sample_handleConn])
    (simp_all add: sample_run_def io_ok_def ResetMetrics_def int64_range_def max_int64_def
      min_int64_def)

text \<open>
  no connection leaks. Whatever ends \<open>handleConn\<close>, the client side is closed; when the
  tunnel was established, the remote side is closed as well; and a failed dial is counted as
  exactly one error and cancels the bridge only for a terminal dial error.
\<close>

lemma handleConn_releases:
  assumes "handleConn cfg has_cancel cr m = Some en"
  shows "CloseConn Client \<in> set (end_ops en) \<and>
    (case en of
       ProxyEnd tx rx ops m' \<Rightarrow> CloseConn Remote \<in> set ops \<and> run_dial cr = Inr ()
     | DialEnd e cause ops m' \<Rightarrow>
         run_dial cr = Inl e \<and> ops = [CloseConn Client] \<and>
         TotalErrors m' = wrap64 (TotalErrors m + 1) \<and>
         (cause \<noteq> None \<longleftrightarrow> has_cancel \<and> is_terminal e))"
  using assms
  by (auto simp: handleConn_def Let_def metrics_defs proxyConnections_def
      split: sum.splits option.splits if_splits)

text \<open>
  half-close. A direction that ends with end of file or an expected close error only
  shuts down the write side of its destination (when the connection supports it, idle wrapper
  or not): it neither closes its source nor counts an error, so the opposite direction keeps
  draining. Every other end closes both connections, and is counted as an error exactly when
  it is not the idle timeout.
\<close>

lemma copyDirection_half_close:
  assumes "copy_buffer publish run 0 m = Some (n, err, m1)"
  shows "copyDirection dst (withIdleTimeout (RawConn True) idle) src publish run m =
    (if IsExpectedCloseError err then Some (n, [CloseWrite dst], m1)
     else Some (n, [CloseConn dst, CloseConn src],
                if isIdleTimeoutErr err then m1 else AddError m1))"
proof -
  have "IsExpectedCloseError None" by (simp add: IsExpectedCloseError_def)
  with assms show ?thesis
    by (auto simp: copyDirection_def finishGraceful_def halfCloseWrite_idle closeWithIdleLog_def
        closeWithError_def)
qed

subsection \<open>The order of the two directions\<close>

lemma copy_buffer_effect:
  "copy_buffer add run w m = Some (n, err, m') \<Longrightarrow>
   \<exists>ns. m' = fold add ns m \<and> (\<forall>x. copy_buffer add run w x = Some (n, err, fold add ns x))"
proof (induction run arbitrary: w m)
  case (Cons st sts)
  define pre where "pre = (if 0 < rd_n st \<and> 0 < wr_n st then [wr_n st] else [])"
  have pre: "(if 0 < rd_n st then metered_write add (wr_n st) x else x) = fold add pre x" for x
    by (simp add: pre_def metered_write_def)
  define w' where "w' = w + (if rd_n st \<le> 0 \<or> 0 < rd_n st \<and> (wr_n st < 0 \<or> rd_n st < wr_n st)
    then 0 else wr_n st)"
  have "(\<forall>x. copy_buffer add (st # sts) w x = Some (n, err, fold add pre x)) \<or>
      (\<forall>x. copy_buffer add (st # sts) w x = copy_buffer add sts w' (fold add pre x))"
    using Cons.prems by (auto simp: pre w'_def Let_def split: option.splits if_splits)
  then show ?case
  proof
    assume "\<forall>x. copy_buffer add (st # sts) w x = Some (n, err, fold add pre x)"
    then show ?thesis using Cons.prems by (intro exI [of _ pre]) auto
  next
    assume a: "\<forall>x. copy_buffer add (st # sts) w x = copy_buffer add sts w' (fold add pre x)"
    then obtain ns where "m' = fold add ns (fold add pre m)"
      "\<forall>x. copy_buffer add sts w' x = Some (n, err, fold add ns x)"
      using Cons.IH Cons.prems by metis
    then show ?thesis using a by (intro exI [of _ "pre @ ns"]) auto
  qed
qed simp

lemma copyDirection_effect:
  assumes "copyDirection dst c src add run m = Some (n, ops, m')"
  shows "\<exists>ns b. \<forall>x. copyDirection dst c src add run x =
    Some (n, ops, (if b then AddError else id) (fold add ns x))"
proof -
  obtain err m1 where "copy_buffer add run 0 m = Some (n, err, m1)"
    using assms
    by (auto simp: copyDirection_def closeWithError_def split: option.splits if_splits prod.splits)
  then obtain ns where ns: "\<forall>x. copy_buffer add run 0 x = Some (n, err, fold add ns x)"
    using copy_buffer_effect by metis
  then show ?thesis
    using assms
    by (intro exI [of _ ns] exI [of _ "\<not> (err = None \<or> IsExpectedCloseError err) \<and> \<not> isIdleTimeoutErr err"])
      (auto simp: copyDirection_def closeWithError_def split: if_splits)
qed

lemma metrics_commute:
  "AddBytesTx a (AddBytesRx b m) = AddBytesRx b (AddBytesTx a m)"
  "AddBytesTx a (AddError m) = AddError (AddBytesTx a m)"
  "AddBytesRx b (AddError m) = AddError (AddBytesRx b m)"
  by (simp_all add: metrics_defs)

lemma fold_commute_error:
  "fold AddBytesTx ns (AddError m) = AddError (fold AddBytesTx ns m)"
  "fold AddBytesRx ns (AddError m) = AddError (fold AddBytesRx ns m)"
  by (induction ns arbitrary: m) (simp_all add: metrics_commute)

lemma fold_commute_bytes:
  "fold AddBytesTx ns (fold AddBytesRx ks m) = fold AddBytesRx ks (fold AddBytesTx ns m)"
proof (induction ks arbitrary: m)
  case (Cons k ks)
  have "fold AddBytesTx ns (AddBytesRx k m) = AddBytesRx k (fold AddBytesTx ns m)" for m
    by (induction ns arbitrary: m) (simp_all add: metrics_commute)
  with Cons show ?case by simp
qed simp

text \<open>
  the two copy goroutines do not interfere: finishing the send direction first yields the
  same byte totals, the same close operations of each direction and the same counters.
\<close>

lemma proxyConnections_order:
  assumes "proxyConnections client remote rxs txs m = Some (tx, rx, ops, m')"
  shows "\<exists>ops1 ops2 m1.
    copyDirection Client client Remote AddBytesTx txs m = Some (tx, ops2, m1) \<and>
    copyDirection Remote remote Client AddBytesRx rxs m1 = Some (rx, ops1, m') \<and>
    ops = ops1 @ ops2 @ [CloseConn Client, CloseConn Remote]"
proof -
  obtain ops1 m1 ops2 where
    rx: "copyDirection Remote remote Client AddBytesRx rxs m = Some (rx, ops1, m1)" and
    tx: "copyDirection Client client Remote AddBytesTx txs m1 = Some (tx, ops2, m')" and
    ops: "ops = ops1 @ ops2 @ [CloseConn Client, CloseConn Remote]"
    using assms by (elim proxyConnections_parts)
  obtain ks a where r: "\<forall>x. copyDirection Remote remote Client AddBytesRx rxs x =
      Some (rx, ops1, (if a then AddError else id) (fold AddBytesRx ks x))"
    using copyDirection_effect [OF rx] by blast
  obtain ns b where t: "\<forall>x. copyDirection Client client Remote AddBytesTx txs x =
      Some (tx, ops2, (if b then AddError else id) (fold AddBytesTx ns x))"
    using copyDirection_effect [OF tx] by blast
  have "m' = (if b then AddError else id) (fold AddBytesTx ns
      ((if a then AddError else id) (fold AddBytesRx ks m)))"
    using rx tx r t by auto
  also have "\<dots> = (if a then AddError else id) (fold AddBytesRx ks
      ((if b then AddError else id) (fold AddBytesTx ns m)))"
    by (simp add: fold_commute_error fold_commute_bytes)
  finally show ?thesis using r t ops by auto
qed

subsection \<open>Properties of the accept loop\<close>

definition accept_inv :: "conn_config \<Rightarrow> accept_state \<Rightarrow> bool" where
  "accept_inv cfg st \<longleftrightarrow>
     metrics_invar (ac_metrics st) \<and>
     ActiveConnections (ac_metrics st) = int (length (ac_running st)) \<and>
     int (length (ac_running st)) \<le> max 0 (cc_max_connections cfg) \<and>
     backoffMin \<le> ac_backoff st \<and> ac_backoff st \<le> backoffMax"

lemma sint64_of_int: "int64_range i \<Longrightarrow> sint (word_of_int i :: 64 word) = i"
  by (simp add: sint_sbintrunc' signed_take_bit_int_eq_self int64_range_def max_int64_def min_int64_def)

lemma metrics_invar_frame:
  "metrics_invar (AddRejectedConn m) = metrics_invar m"
  "ActiveConnections (AddRejectedConn m) = ActiveConnections m"
  by (simp_all add: metrics_invar_def AddRejectedConn_def)

lemma doubled_backoff:
  "backoffMin \<le> b \<Longrightarrow> b \<le> backoffMax \<Longrightarrow>
   backoffMin \<le> min (wrap64 (b * 2)) backoffMax \<and> min (wrap64 (b * 2)) backoffMax \<le> backoffMax"
  by (subst wrap64_id)
    (auto simp: backoffMin_def backoffMax_def int64_range_def max_int64_def min_int64_def)

lemma accept_one_inv:
  assumes "accept_inv cfg st" and "int64_range (cc_max_connections cfg)"
    and "accept_one cfg hc ev st = Inl st' \<or> accept_one cfg hc ev st = Inr st'"
  shows "accept_inv cfg st'"
proof (cases ev)
  case (AcceptFailed err)
  then show ?thesis
    using assms doubled_backoff [of "ac_backoff st"]
    by (auto simp: accept_one_def accept_inv_def split: if_splits)
next
  case (Accepted c)
  define w :: "64 word" where "w = word_of_int (cc_max_connections cfg)"
  have w: "sint w = cc_max_connections cfg" using assms(2) by (simp add: w_def sint64_of_int)
  obtain ok m where cl: "TryClaimConnection (sint w) (ac_metrics st) = (ok, m)" by fastforce
  have i: "metrics_invar (ac_metrics st)" using assms(1) by (simp add: accept_inv_def)
  have "metrics_invar m" using slots.claim_invar [OF i, of w] cl by simp
  moreover have "ActiveConnections m = ActiveConnections (ac_metrics st) + (if ok then 1 else 0)"
    using slots.claim_inuse [OF i, of w] cl by simp
  moreover have "ActiveConnections m \<le> max 0 (cc_max_connections cfg)"
    using slots.claim_within_limit [OF i, of w] assms(1) cl w by (simp add: accept_inv_def)
  ultimately show ?thesis
    using assms(1,3) cl Accepted w
    by (auto simp: accept_one_def accept_inv_def metrics_invar_frame backoffMin_def backoffMax_def
        split: bool.splits)
next
  case (ConnReturned c cr)
  show ?thesis
  proof (cases "c \<in> set (ac_running st) \<and> handleConn cfg hc cr (ac_metrics st) \<noteq> None")
    case False
    then show ?thesis using assms ConnReturned by (auto simp: accept_one_def split: if_splits option.splits)
  next
    case True
    then obtain en where en: "handleConn cfg hc cr (ac_metrics st) = Some en" by auto
    have a: "ActiveConnections (end_metrics en) = ActiveConnections (ac_metrics st)"
      by (rule handleConn_active [OF en])
    have i: "metrics_invar (end_metrics en)"
      using assms(1) a by (simp add: accept_inv_def metrics_invar_def)
    have pos: "0 < length (ac_running st)" using True by (auto simp: length_pos_if_in_set)
    then have p: "0 < ActiveConnections (end_metrics en)" using assms(1) a by (simp add: accept_inv_def)
    have len: "int (length (remove1 c (ac_running st))) = int (length (ac_running st)) - 1"
      using True pos by (simp add: length_remove1 of_nat_diff Suc_leI)
    show ?thesis
      using assms(1,3) ConnReturned True en a p i len
        slots.release_slot [OF i p] slots.release_invar [OF i p]
      by (auto simp: accept_one_def accept_inv_def)
  qed
qed

lemma AcceptLoop_inv:
  assumes "accept_inv cfg st" and "int64_range (cc_max_connections cfg)"
  shows "accept_inv cfg (fst (AcceptLoop cfg hc evs st))"
  using assms(1)
proof (induction evs arbitrary: st)
  case (Cons ev evs)
  then show ?case
  proof (cases "accept_one cfg hc ev st")
    case (Inl st')
    then show ?thesis using accept_one_inv [OF Cons.prems assms(2), of hc ev st'] by simp
  next
    case (Inr st')
    then show ?thesis using accept_one_inv [OF Cons.prems assms(2), of hc ev st'] Cons.IH by simp
  qed
qed simp

lemma accept_init_inv:
  "ActiveConnections m = 0 \<Longrightarrow> accept_inv cfg (accept_init m)"
  by (simp add: accept_inv_def accept_init_def metrics_invar_def backoffMin_def backoffMax_def
      max_int64_def)

text \<open>
  C1: along every sequence of accepts, accept errors and finished connections, the number of
  connections being served never exceeds the limit, the active-connection counter equals it,
  and the error backoff stays between 100 ms and 10 s.
\<close>

theorem AcceptLoop_bounded:
  assumes "int64_range (cc_max_connections cfg)" and "ActiveConnections m = 0"
    and "AcceptLoop cfg has_cancel evs (accept_init m) = (st, returned)"
  shows "int (length (ac_running st)) \<le> max 0 (cc_max_connections cfg) \<and>
    ActiveConnections (ac_metrics st) = int (length (ac_running st)) \<and>
    backoffMin \<le> ac_backoff st \<and> ac_backoff st \<le> backoffMax"
  using AcceptLoop_inv [OF accept_init_inv [OF assms(2)] assms(1), of has_cancel evs] assms(3)
  by (simp add: accept_inv_def)

theorem AcceptLoop_bounded_witness:
  "\<exists>st. AcceptLoop sample_cfg True [Accepted 1, Accepted 2] (accept_init ResetMetrics) = (st, False) \<and>
     ac_running st = [1] \<and> ac_rejected st = [2] \<and>
     int (length (ac_running st)) \<le> max 0 (cc_max_connections sample_cfg)"
proof -
  have r: "int64_range (cc_max_connections sample_cfg)"
    by (simp add: sample_cfg_def int64_range_def max_int64_def min_int64_def)
  obtain st where st: "AcceptLoop sample_cfg True [Accepted 1, Accepted 2] (accept_init ResetMetrics) = (st, False)"
    and "ac_running st = [1]" "ac_rejected st = [2]"
    by (simp add: accept_one_def accept_init_def sample_cfg_def TryClaimConnection_def
        ResetMetrics_def wrap64_def)
  then show ?thesis
    using AcceptLoop_bounded [OF r _ st] by (auto simp: ResetMetrics_def)
qed

lemma accept_failures:
  assumes "\<forall>e \<in> set errs. NetErrClosed \<notin> set (err_is e)" and "ac_backoff st = min (backoffMin * 2 ^ k) backoffMax"
  shows "\<exists>st'. AcceptLoop cfg hc (map AcceptFailed errs @ evs) st = AcceptLoop cfg hc evs st' \<and>
    ac_sleeps st' = ac_sleeps st @ map (\<lambda>i. min (backoffMin * 2 ^ (k + i)) backoffMax) [0..<length errs] \<and>
    ac_metrics st' = ac_metrics st"
  using assms
proof (induction errs arbitrary: st k)
  case Nil
  then show ?case by auto
next
  case (Cons e errs)
  let ?st = "st\<lparr>ac_sleeps := ac_sleeps st @ [ac_backoff st],
                ac_backoff := min (wrap64 (ac_backoff st * 2)) backoffMax\<rparr>"
  have step: "accept_one cfg hc (AcceptFailed e) st = Inr ?st"
    using Cons.prems(1) by (simp add: accept_one_def)
  have p: "(0::int) < 2 ^ k" by simp
  then have "(100000000::int) \<le> 100000000 * 2 ^ k" by linarith
  then have b: "0 < ac_backoff st" "ac_backoff st \<le> 10000000000"
    using Cons.prems(2) by (auto simp: backoffMin_def backoffMax_def)
  have "min (wrap64 (ac_backoff st * 2)) backoffMax = min (ac_backoff st * 2) backoffMax"
    using b by (subst wrap64_id) (auto simp: int64_range_def max_int64_def min_int64_def)
  also have "\<dots> = min (backoffMin * 2 ^ Suc k) backoffMax"
    using Cons.prems(2) by (auto simp: backoffMin_def backoffMax_def min_def)
  finally have b': "ac_backoff ?st = min (backoffMin * 2 ^ Suc k) backoffMax" by simp
  obtain st' where st': "AcceptLoop cfg hc (map AcceptFailed errs @ evs) ?st = AcceptLoop cfg hc evs st'"
    "ac_sleeps st' = ac_sleeps ?st @ map (\<lambda>i. min (backoffMin * 2 ^ (Suc k + i)) backoffMax) [0..<length errs]"
    "ac_metrics st' = ac_metrics ?st"
    using Cons.IH [OF _ b'] Cons.prems(1) by auto
  have "map (\<lambda>i. min (backoffMin * 2 ^ (k + i)) backoffMax) [0..<Suc (length errs)] =
      ac_backoff st # map (\<lambda>i. min (backoffMin * 2 ^ (Suc k + i)) backoffMax) [0..<length errs]"
    using Cons.prems(2) by (simp only: map_upt_Suc) simp
  with step st' show ?case by (intro exI [of _ st']) simp
qed

text \<open>
  a run of transient accept errors after a successful start sleeps 100 ms, 200 ms, 400 ms
  and so on, doubled up to the 10 s ceiling, changes no counter, and never ends the loop; it
  goes on with the next event.
\<close>

lemma AcceptLoop_error_backoff:
  assumes "\<forall>e \<in> set errs. NetErrClosed \<notin> set (err_is e)"
  shows "\<exists>st. AcceptLoop cfg has_cancel (map AcceptFailed errs @ evs) (accept_init m) =
      AcceptLoop cfg has_cancel evs st \<and>
    ac_sleeps st = map (\<lambda>i. min (backoffMin * 2 ^ i) backoffMax) [0..<length errs] \<and>
    ac_metrics st = m"
  using accept_failures [OF assms, of "accept_init m" 0 cfg has_cancel evs]
  by (simp add: accept_init_def backoffMin_def backoffMax_def)

end
