(* ===== verification/Socks5.thy ===== *)
theory Socks5
  imports Proxy Go_Net
begin

text \<open>
  \<open>internal/proxy/socks5.go\<close>: the SOCKS5 front end. The client connection is the bytes the
  peer sends, the error its reads end with, the error of each write, and the trace of what the
  handler did on it. Target resolvers are functions; the allow-list resolver is the one
  \<open>NewAllowlistSOCKSTarget\<close> builds. Routes are the pairs of the route map in the order the Go
  runtime iterates over it.
\<close>

type_synonym byte = "8 word"

subsection \<open>The client connection\<close>

datatype socks_event =
    SetDeadline "int option"
  | Wrote "byte list"
  | Dialed string
  | CancelledWith dial_error
  | CloseRemote
  | Proxied int int "conn_op list"
  | CloseClient

record socks_client =
  sc_in :: "byte list"
  sc_read_err :: go_error
  sc_write_err :: "nat \<Rightarrow> go_error option"
  sc_writes :: nat
  sc_trace :: "socks_event list"

definition emit :: "socks_event list \<Rightarrow> socks_client \<Rightarrow> socks_client" where
  "emit es c = c\<lparr>sc_trace := sc_trace c @ es\<rparr>"

definition io_ErrUnexpectedEOF :: go_error where
  "io_ErrUnexpectedEOF = \<lparr>err_msg = ''unexpected EOF'', err_is = []\<rparr>"

text \<open>\<open>io.ReadFull\<close> with a buffer of \<open>n\<close> bytes, and one \<open>Write\<close>.\<close>

definition read_full :: "nat \<Rightarrow> socks_client \<Rightarrow> (go_error, byte list) result \<times> socks_client" where
  "read_full n c =
     (if n \<le> length (sc_in c) then (Inr (take n (sc_in c)), c\<lparr>sc_in := drop n (sc_in c)\<rparr>)
      else (Inl (if sc_in c \<noteq> [] \<and> sc_read_err c = io_EOF then io_ErrUnexpectedEOF else sc_read_err c),
            c\<lparr>sc_in := []\<rparr>))"

definition conn_write :: "byte list \<Rightarrow> socks_client \<Rightarrow> go_error option \<times> socks_client" where
  "conn_write bs c =
     (sc_write_err c (sc_writes c), emit [Wrote bs] (c\<lparr>sc_writes := Suc (sc_writes c)\<rparr>))"

subsection \<open>Constants and errors\<close>

definition socksVersion5 :: byte where "socksVersion5 = 0x05"
definition socksNoAuth :: byte where "socksNoAuth = 0x00"
definition socksNoAcceptable :: byte where "socksNoAcceptable = 0xff"
definition socksConnect :: byte where "socksConnect = 0x01"
definition socksIPv4 :: byte where "socksIPv4 = 0x01"
definition socksDomain :: byte where "socksDomain = 0x03"
definition socksIPv6 :: byte where "socksIPv6 = 0x04"

lemmas socks_consts = socksVersion5_def socksNoAuth_def socksNoAcceptable_def socksConnect_def
  socksIPv4_def socksDomain_def socksIPv6_def

datatype resolve_error = TargetDenied string | ResolveFailed go_error

datatype socks_error =
    GreetingRead go_error
  | UnsupportedVersion byte
  | MethodsRead go_error
  | GreetingWrite go_error
  | NoAuthNotOffered
  | RequestRead go_error
  | RequestError byte string byte
  | DomainLengthRead go_error
  | AddressRead go_error
  | UnsupportedAddressType byte
  | ReplyWrite go_error
  | ResolveError resolve_error
  | DialError string dial_error

subsection \<open>Target resolvers\<close>

type_synonym SOCKSTargetResolver = "string \<Rightarrow> 16 word \<Rightarrow> (resolve_error, string) result"

definition directSOCKSTarget :: SOCKSTargetResolver where
  "directSOCKSTarget host port = Inr (JoinHostPort host (Itoa (uint port)))"

datatype route_error =
    RouteAddr addr_error
  | RouteEmptyHost
  | RouteInvalidPort string

definition normalizeSOCKSAddress :: "string \<Rightarrow> (route_error, string) result" where
  "normalizeSOCKSAddress address =
     (case SplitHostPort address of
        Inl e \<Rightarrow> Inl (RouteAddr e)
      | Inr (host, port) \<Rightarrow>
          if host = [] then Inl RouteEmptyHost
          else (case Atoi port of
                  None \<Rightarrow> Inl (RouteInvalidPort port)
                | Some n \<Rightarrow>
                    if n < 1 \<or> 65535 < n then Inl (RouteInvalidPort port)
                    else Inr (JoinHostPort (ToLower host) (Itoa n))))"

datatype allowlist_error = InvalidSource string route_error | InvalidDestination string route_error

fun normalize_routes ::
  "(string \<times> string) list \<Rightarrow> (string \<rightharpoonup> string) \<Rightarrow> (allowlist_error, string \<rightharpoonup> string) result" where
  "normalize_routes [] normalized = Inr normalized"
| "normalize_routes ((source, destination) # routes) normalized =
     (case normalizeSOCKSAddress source of
        Inl e \<Rightarrow> Inl (InvalidSource source e)
      | Inr sourceKey \<Rightarrow>
          (case normalizeSOCKSAddress destination of
             Inl e \<Rightarrow> Inl (InvalidDestination destination e)
           | Inr _ \<Rightarrow> normalize_routes routes (normalized(sourceKey \<mapsto> destination))))"

definition socks_key :: "string \<Rightarrow> 16 word \<Rightarrow> string" where
  "socks_key host port = JoinHostPort (ToLower host) (Itoa (uint port))"

text \<open>The closure that \<open>NewAllowlistSOCKSTarget\<close> returns.\<close>

definition allowlist_lookup :: "(string \<rightharpoonup> string) \<Rightarrow> SOCKSTargetResolver" where
  "allowlist_lookup normalized host port =
     (case normalized (socks_key host port) of
        None \<Rightarrow> Inl (TargetDenied (socks_key host port))
      | Some target \<Rightarrow> Inr target)"

definition NewAllowlistSOCKSTarget ::
  "(string \<times> string) list \<Rightarrow> (allowlist_error, SOCKSTargetResolver) result" where
  "NewAllowlistSOCKSTarget routes =
     (case normalize_routes routes Map.empty of
        Inl e \<Rightarrow> Inl e
      | Inr normalized \<Rightarrow> Inr (allowlist_lookup normalized))"

subsection \<open>Greeting and request\<close>

definition negotiateSOCKS5 :: "socks_client \<Rightarrow> socks_error option \<times> socks_client" where
  "negotiateSOCKS5 c =
     (case read_full 2 c of
        (Inl e, c1) \<Rightarrow> (Some (GreetingRead e), c1)
      | (Inr header, c1) \<Rightarrow>
          if header ! 0 \<noteq> socksVersion5 then (Some (UnsupportedVersion (header ! 0)), c1)
          else (case read_full (unat (header ! 1)) c1 of
                  (Inl e, c2) \<Rightarrow> (Some (MethodsRead e), c2)
                | (Inr methods, c2) \<Rightarrow>
                    if socksNoAuth \<in> set methods then
                      (case conn_write [socksVersion5, socksNoAuth] c2 of
                         (err, c3) \<Rightarrow> (map_option GreetingWrite err, c3))
                    else (Some NoAuthNotOffered,
                          snd (conn_write [socksVersion5, socksNoAcceptable] c2))))"

definition readSOCKS5Address ::
  "socks_client \<Rightarrow> byte \<Rightarrow> (socks_error, byte list) result \<times> socks_client" where
  "readSOCKS5Address c addressType =
     (let body = (\<lambda>len c'. case read_full (len + 2) c' of
                    (Inl e, c2) \<Rightarrow> (Inl (AddressRead e), c2)
                  | (Inr address, c2) \<Rightarrow> (Inr address, c2))
      in if addressType = socksIPv4 then body 4 c
         else if addressType = socksIPv6 then body 16 c
         else if addressType = socksDomain then
           (case read_full 1 c of
              (Inl e, c1) \<Rightarrow> (Inl (DomainLengthRead e), c1)
            | (Inr sz, c1) \<Rightarrow> body (unat (sz ! 0)) c1)
         else (Inl (UnsupportedAddressType addressType), c))"

definition char_of_byte :: "byte \<Rightarrow> char" where "char_of_byte b = char_of (unat b)"
definition byte_of_char :: "char \<Rightarrow> byte" where "byte_of_char c = of_nat (of_char c)"

definition addressHost :: "byte \<Rightarrow> byte list \<Rightarrow> string" where
  "addressHost addressType address =
     (if addressType = socksDomain then map char_of_byte address else ip_string (map unat address))"

definition be_port :: "byte \<Rightarrow> byte \<Rightarrow> 16 word" where
  "be_port hi lo = or (push_bit 8 (ucast hi)) (ucast lo)"

definition readSOCKS5Connect ::
  "socks_client \<Rightarrow> (socks_error, string \<times> 16 word) result \<times> socks_client" where
  "readSOCKS5Connect c =
     (case read_full 4 c of
        (Inl e, c1) \<Rightarrow> (Inl (RequestRead e), c1)
      | (Inr header, c1) \<Rightarrow>
          if header ! 0 \<noteq> socksVersion5 then
            (Inl (RequestError 0x01 ''unsupported SOCKS version'' (header ! 0)), c1)
          else if header ! 1 \<noteq> socksConnect then
            (Inl (RequestError 0x07 ''unsupported SOCKS5 command'' (header ! 1)), c1)
          else if header ! 3 \<noteq> socksIPv4 \<and> header ! 3 \<noteq> socksDomain \<and> header ! 3 \<noteq> socksIPv6 then
            (Inl (RequestError 0x08 ''unsupported SOCKS5 address type'' (header ! 3)), c1)
          else (case readSOCKS5Address c1 (header ! 3) of
                  (Inl e, c2) \<Rightarrow> (Inl e, c2)
                | (Inr address, c2) \<Rightarrow>
                    let n = length address;
                        port = be_port (address ! (n - 2)) (address ! (n - 1))
                    in (Inr (addressHost (header ! 3) (take (n - 2) address), port), c2)))"

definition socks_reply :: "byte \<Rightarrow> byte list" where
  "socks_reply reply = [socksVersion5, reply, 0x00, 0x01, 0x00, 0x00, 0x00, 0x00, 0x00, 0x00]"

definition writeSOCKS5Reply :: "byte \<Rightarrow> socks_client \<Rightarrow> socks_error option \<times> socks_client" where
  "writeSOCKS5Reply reply c =
     (case conn_write (socks_reply reply) c of (err, c') \<Rightarrow> (map_option ReplyWrite err, c'))"

subsection \<open>One SOCKS5 connection\<close>

record socks_config = conn_config +
  cc_dial_timeout :: int

datatype socks_result = SocksRunning | SocksDone "socks_error option"

text \<open>The deferred calls: the deadline is cleared when one was set, then the client is closed.\<close>

definition socks_close :: "socks_config \<Rightarrow> socks_client \<Rightarrow> socks_client" where
  "socks_close cfg c =
     emit ((if 0 < cc_dial_timeout cfg then [SetDeadline None] else []) @ [CloseClient]) c"

definition socks_start :: "socks_config \<Rightarrow> socks_client \<Rightarrow> socks_client" where
  "socks_start cfg c =
     (if 0 < cc_dial_timeout cfg then emit [SetDeadline (Some (cc_dial_timeout cfg))] c else c)"

definition reply_for_error :: "socks_error \<Rightarrow> byte" where
  "reply_for_error e = (case e of RequestError reply _ _ \<Rightarrow> reply | _ \<Rightarrow> 0x01)"

definition reply_for_resolve :: "resolve_error \<Rightarrow> byte" where
  "reply_for_resolve e =
     (case e of TargetDenied _ \<Rightarrow> 0x02
      | ResolveFailed err \<Rightarrow> if SocksTargetDenied \<in> set (err_is err) then 0x02 else 0x01)"

definition handleSOCKS5Conn ::
  "socks_config \<Rightarrow> SOCKSTargetResolver \<Rightarrow> bool \<Rightarrow> conn_run \<Rightarrow> Metrics \<Rightarrow> socks_client \<Rightarrow>
   socks_result \<times> socks_client \<times> Metrics" where
  "handleSOCKS5Conn cfg resolve has_cancel cr m c0 =
     (let c1 = socks_start cfg c0;
          failed = (\<lambda>e c. (SocksDone (Some e), socks_close cfg c, m))
      in case negotiateSOCKS5 c1 of
           (Some e, c2) \<Rightarrow> failed e c2
         | (None, c2) \<Rightarrow>
             (case readSOCKS5Connect c2 of
                (Inl e, c3) \<Rightarrow> failed e (snd (writeSOCKS5Reply (reply_for_error e) c3))
              | (Inr (host, port), c3) \<Rightarrow>
                  (case resolve host port of
                     Inl e \<Rightarrow> failed (ResolveError e) (snd (writeSOCKS5Reply (reply_for_resolve e) c3))
                   | Inr target \<Rightarrow>
                       let c4 = emit [SetDeadline None, Dialed target] c3 in
                       (case run_dial cr of
                          Inl e \<Rightarrow>
                            let c5 = snd (writeSOCKS5Reply 0x05 c4) in
                            failed (DialError target e)
                              (if is_terminal e \<and> has_cancel then emit [CancelledWith e] c5 else c5)
                        | Inr _ \<Rightarrow>
                            (case writeSOCKS5Reply 0x00 c4 of
                               (Some e, c5) \<Rightarrow> failed e (emit [CloseRemote] c5)
                             | (None, c5) \<Rightarrow>
                                 let client = withIdleTimeout (run_client cr) (cc_idle cfg);
                                     remote = withIdleTimeout (run_remote cr) (cc_idle cfg)
                                 in (case proxyConnections client remote (run_rx cr) (run_tx cr) m of
                                       None \<Rightarrow> (SocksRunning, c5, m)
                                     | Some (tx, rx, ops, m') \<Rightarrow>
                                         (SocksDone None, socks_close cfg (emit [Proxied tx rx ops] c5), m')))))))"

subsection \<open>The accept loop\<close>

datatype socks_accept_event =
    SocksAccepted nat
  | SocksAcceptFailed go_error
  | SocksReturned nat conn_run socks_client

record socks_accept_state =
  sa_metrics :: Metrics
  sa_running :: "nat list"
  sa_rejected :: "nat list"

datatype accept_result = AcceptClosed | AcceptError go_error | ResolverRequired

definition socks_accept_one ::
  "socks_config \<Rightarrow> SOCKSTargetResolver \<Rightarrow> bool \<Rightarrow> socks_accept_event \<Rightarrow> socks_accept_state \<Rightarrow>
   accept_result + socks_accept_state" where
  "socks_accept_one cfg resolve has_cancel ev st =
     (case ev of
        SocksAcceptFailed err \<Rightarrow>
          if NetErrClosed \<in> set (err_is err) then Inl AcceptClosed else Inl (AcceptError err)
      | SocksAccepted c \<Rightarrow>
          (case TryClaimConnection (cc_max_connections cfg) (sa_metrics st) of
             (False, m) \<Rightarrow> Inr (st\<lparr>sa_metrics := AddRejectedConn m, sa_rejected := sa_rejected st @ [c]\<rparr>)
           | (True, m) \<Rightarrow> Inr (st\<lparr>sa_metrics := m, sa_running := sa_running st @ [c]\<rparr>))
      | SocksReturned c cr client \<Rightarrow>
          if c \<notin> set (sa_running st) then Inr st
          else (case handleSOCKS5Conn cfg resolve has_cancel cr (AddTotalConnection (sa_metrics st)) client of
                  (SocksRunning, _, _) \<Rightarrow> Inr st
                | (SocksDone err, _, m) \<Rightarrow>
                    Inr (st\<lparr>sa_metrics := AddActiveConnection (- 1) (if err = None then m else AddError m),
                            sa_running := remove1 c (sa_running st)\<rparr>)))"

fun socks_accept_events ::
  "socks_config \<Rightarrow> SOCKSTargetResolver \<Rightarrow> bool \<Rightarrow> socks_accept_event list \<Rightarrow> socks_accept_state \<Rightarrow>
   socks_accept_state \<times> accept_result option" where
  "socks_accept_events cfg resolve has_cancel [] st = (st, None)"
| "socks_accept_events cfg resolve has_cancel (ev # evs) st =
     (case socks_accept_one cfg resolve has_cancel ev st of
        Inl r \<Rightarrow> (st, Some r)
      | Inr st' \<Rightarrow> socks_accept_events cfg resolve has_cancel evs st')"

definition AcceptSOCKS5Loop ::
  "socks_config \<Rightarrow> SOCKSTargetResolver option \<Rightarrow> bool \<Rightarrow> socks_accept_event list \<Rightarrow> socks_accept_state \<Rightarrow>
   socks_accept_state \<times> accept_result option" where
  "AcceptSOCKS5Loop cfg resolve has_cancel evs st =
     (case resolve of
        None \<Rightarrow> (st, Some ResolverRequired)
      | Some res \<Rightarrow> socks_accept_events cfg res has_cancel evs st)"

subsection \<open>Reading and writing\<close>

lemma emit_sel [simp]:
  "sc_trace (emit es c) = sc_trace c @ es" "sc_in (emit es c) = sc_in c"
  "sc_write_err (emit es c) = sc_write_err c" "sc_writes (emit es c) = sc_writes c"
  "sc_read_err (emit es c) = sc_read_err c"
  by (simp_all add: emit_def)

lemma read_full_enough:
  "length bs = n \<Longrightarrow> sc_in c = bs @ rest \<Longrightarrow> read_full n c = (Inr bs, c\<lparr>sc_in := rest\<rparr>)"
  by (simp add: read_full_def)

lemma read_full_trace [simp]: "sc_trace (snd (read_full n c)) = sc_trace c"
  by (simp add: read_full_def)

lemma read_full_traceD: "read_full n c = (r, c') \<Longrightarrow> sc_trace c' = sc_trace c"
  by (metis read_full_trace snd_conv)

lemma read_full_length: "read_full n c = (Inr bs, c') \<Longrightarrow> length bs = n"
  by (auto simp: read_full_def split: if_splits)

lemma conn_write_traceD: "conn_write bs c = (r, c') \<Longrightarrow> sc_trace c' = sc_trace c @ [Wrote bs]"
  by (auto simp: conn_write_def)

lemma negotiate_trace:
  "negotiateSOCKS5 c = (r, c') \<Longrightarrow> \<exists>ws. sc_trace c' = sc_trace c @ map Wrote ws"
  by (auto simp: negotiateSOCKS5_def conn_write_def
      dest!: read_full_traceD intro: exI [of _ "[]"] exI [of _ "[_]"]
      split: prod.splits sum.splits if_splits)

lemma readSOCKS5Address_trace:
  "readSOCKS5Address c ty = (r, c') \<Longrightarrow> sc_trace c' = sc_trace c"
  by (auto simp: readSOCKS5Address_def Let_def dest!: read_full_traceD
      split: prod.splits sum.splits if_splits)

lemma readSOCKS5Connect_trace:
  "readSOCKS5Connect c = (r, c') \<Longrightarrow> sc_trace c' = sc_trace c"
  by (auto simp: readSOCKS5Connect_def Let_def dest!: read_full_traceD readSOCKS5Address_trace
      split: prod.splits sum.splits if_splits)

lemma writeSOCKS5Reply_traceD:
  "writeSOCKS5Reply reply c = (r, c') \<Longrightarrow> sc_trace c' = sc_trace c @ [Wrote (socks_reply reply)]"
  by (auto simp: writeSOCKS5Reply_def conn_write_def)

lemma writeSOCKS5Reply_trace [simp]:
  "sc_trace (snd (writeSOCKS5Reply reply c)) = sc_trace c @ [Wrote (socks_reply reply)]"
  by (simp add: writeSOCKS5Reply_def conn_write_def)

subsection \<open>What a resolver promises\<close>

text \<open>The host and port the client asks for, when its greeting and its request are accepted.\<close>

definition requested :: "socks_config \<Rightarrow> socks_client \<Rightarrow> (string \<times> 16 word) option" where
  "requested cfg c0 =
     (case negotiateSOCKS5 (socks_start cfg c0) of
        (Some e, c2) \<Rightarrow> None
      | (None, c2) \<Rightarrow> (case readSOCKS5Connect c2 of (Inl e, _) \<Rightarrow> None | (Inr hp, _) \<Rightarrow> Some hp))"

lemma handle_cases:
  obtains (greeting) e c2 where "negotiateSOCKS5 (socks_start cfg c0) = (Some e, c2)"
    | (request) e c2 c3 where "negotiateSOCKS5 (socks_start cfg c0) = (None, c2)"
        "readSOCKS5Connect c2 = (Inl e, c3)"
    | (connect) host port c2 c3 where "negotiateSOCKS5 (socks_start cfg c0) = (None, c2)"
        "readSOCKS5Connect c2 = (Inr (host, port), c3)"
  by (metis old.prod.exhaust option.exhaust sum.exhaust)

lemma requested_trace:
  assumes "negotiateSOCKS5 (socks_start cfg c0) = (r, c2)"
  shows "\<exists>es. sc_trace c2 = sc_trace c0 @ es \<and> (\<forall>t. Dialed t \<notin> set es)"
  using negotiate_trace [OF assms] by (auto simp: socks_start_def split: if_splits)

lemma handle_dials_resolved:
  assumes "handleSOCKS5Conn cfg resolve has_cancel cr m c0 = (res, c, m')"
    and "Dialed target \<in> set (sc_trace c)" and "sc_trace c0 = []"
  shows "\<exists>host port. requested cfg c0 = Some (host, port) \<and> resolve host port = Inr target"
proof (cases rule: handle_cases [of cfg c0])
  case (greeting e c2)
  then show ?thesis
    using assms requested_trace [OF greeting] by (auto simp: handleSOCKS5Conn_def socks_close_def)
next
  case (request e c2 c3)
  then show ?thesis
    using assms requested_trace [OF request(1)] readSOCKS5Connect_trace [OF request(2)]
    by (auto simp: handleSOCKS5Conn_def socks_close_def)
next
  case (connect host port c2 c3)
  have r: "requested cfg c0 = Some (host, port)" by (simp add: requested_def connect)
  have n: "Dialed target \<notin> set (sc_trace c3)"
    using assms(3) requested_trace [OF connect(1)] readSOCKS5Connect_trace [OF connect(2)] by auto
  show ?thesis
  proof (cases "resolve host port")
    case (Inl e)
    then show ?thesis using assms(1,2) n by (auto simp: handleSOCKS5Conn_def socks_close_def connect)
  next
    case (Inr t)
    have "\<exists>es. sc_trace c = sc_trace c3 @ es \<and> (\<forall>x. Dialed x \<in> set es \<longrightarrow> x = t)"
      using assms(1) Inr
      by (auto simp: handleSOCKS5Conn_def socks_close_def connect Let_def
          dest!: writeSOCKS5Reply_traceD split: sum.splits prod.splits option.splits if_splits)
    with n assms(2) Inr r show ?thesis by auto
  qed
qed

locale target_resolver =
  fixes resolve :: SOCKSTargetResolver
    and granted :: "string \<Rightarrow> 16 word \<Rightarrow> string \<Rightarrow> bool"
  assumes resolve_granted: "resolve host port = Inr target \<Longrightarrow> granted host port target"
begin

lemma dial_granted:
  assumes "handleSOCKS5Conn cfg resolve has_cancel cr m c0 = (res, c, m')"
    and "Dialed target \<in> set (sc_trace c)" and "sc_trace c0 = []"
  shows "\<exists>host port. requested cfg c0 = Some (host, port) \<and> granted host port target"
  using handle_dials_resolved [OF assms] resolve_granted by blast

end

interpretation direct: target_resolver directSOCKSTarget
  "\<lambda>host port target. target = JoinHostPort host (Itoa (uint port))"
  by unfold_locales (simp add: directSOCKSTarget_def)

interpretation allowlist: target_resolver "allowlist_lookup normalized"
  "\<lambda>host port target. normalized (socks_key host port) = Some target" for normalized
  by unfold_locales (auto simp: allowlist_lookup_def split: option.splits)

subsection \<open>Well-formed clients\<close>

text \<open>The wire format of RFC 1928: the greeting and a CONNECT request.\<close>

datatype socks_addr = DomainAddr string | IPv4Addr "byte list" | IPv6Addr "byte list"

fun addr_ok :: "socks_addr \<Rightarrow> bool" where
  "addr_ok (DomainAddr d) = (length d < 256)"
| "addr_ok (IPv4Addr bs) = (length bs = 4)"
| "addr_ok (IPv6Addr bs) = (length bs = 16)"

fun addr_type :: "socks_addr \<Rightarrow> byte" where
  "addr_type (DomainAddr d) = 3" | "addr_type (IPv4Addr bs) = 1" | "addr_type (IPv6Addr bs) = 4"

fun addr_host :: "socks_addr \<Rightarrow> string" where
  "addr_host (DomainAddr d) = d"
| "addr_host (IPv4Addr bs) = ip_string (map unat bs)"
| "addr_host (IPv6Addr bs) = ip_string (map unat bs)"

fun addr_bytes :: "socks_addr \<Rightarrow> byte list" where
  "addr_bytes (DomainAddr d) = map byte_of_char d"
| "addr_bytes (IPv4Addr bs) = bs"
| "addr_bytes (IPv6Addr bs) = bs"

fun addr_len :: "socks_addr \<Rightarrow> byte list" where
  "addr_len (DomainAddr d) = [of_nat (length d)]" | "addr_len _ = []"

definition port_bytes :: "16 word \<Rightarrow> byte list" where
  "port_bytes p = [ucast (drop_bit 8 p), ucast p]"

definition encode_greeting :: "byte list \<Rightarrow> byte list" where
  "encode_greeting methods = [5, of_nat (length methods)] @ methods"

definition encode_connect :: "socks_addr \<Rightarrow> 16 word \<Rightarrow> byte list" where
  "encode_connect a p = [5, 1, 0, addr_type a] @ addr_len a @ addr_bytes a @ port_bytes p"

lemma be_port_bytes: "be_port (ucast (drop_bit 8 p)) (ucast p) = p"
  unfolding be_port_def
  by (rule bit_word_eqI) (auto simp: bit_simps)

lemma char_of_byte_of_char [simp]: "char_of_byte (byte_of_char c) = c"
proof -
  have "of_char c mod 256 = (of_char c :: nat)" by (rule of_char_mod_256)
  then show ?thesis by (simp add: char_of_byte_def byte_of_char_def unat_of_nat)
qed

lemma addressHost_encoded: "addressHost (addr_type a) (addr_bytes a) = addr_host a"
  by (cases a) (simp_all add: addressHost_def socksDomain_def comp_def)

lemma readSOCKS5Address_encoded:
  assumes "addr_ok a" and "sc_in c = addr_len a @ (addr_bytes a @ port_bytes p) @ rest"
  shows "readSOCKS5Address c (addr_type a) = (Inr (addr_bytes a @ port_bytes p), c\<lparr>sc_in := rest\<rparr>)"
proof (cases a)
  case (DomainAddr d)
  then show ?thesis
    using assms
    by (simp add: readSOCKS5Address_def socks_consts read_full_def unat_of_nat port_bytes_def)
qed (use assms in \<open>simp_all add: readSOCKS5Address_def socks_consts read_full_def port_bytes_def\<close>)

lemma readSOCKS5Connect_encoded:
  assumes "addr_ok a" and "sc_in c = encode_connect a p @ rest"
  shows "readSOCKS5Connect c = (Inr (addr_host a, p), c\<lparr>sc_in := rest\<rparr>)"
proof -
  let ?c1 = "c\<lparr>sc_in := addr_len a @ (addr_bytes a @ port_bytes p) @ rest\<rparr>"
  have "read_full 4 c = (Inr [5, 1, 0, addr_type a], ?c1)"
    using assms(2) by (intro read_full_enough) (simp_all add: encode_connect_def)
  moreover have "readSOCKS5Address ?c1 (addr_type a) =
      (Inr (addr_bytes a @ port_bytes p), ?c1\<lparr>sc_in := rest\<rparr>)"
    using assms(1) by (intro readSOCKS5Address_encoded) simp_all
  moreover have "addr_type a = 1 \<or> addr_type a = 3 \<or> addr_type a = 4" by (cases a) simp_all
  ultimately show ?thesis
    by (simp add: readSOCKS5Connect_def socksVersion5_def socksConnect_def socksIPv4_def
        socksDomain_def socksIPv6_def port_bytes_def Let_def nth_append be_port_bytes
        addressHost_encoded)
qed

lemma negotiate_encoded:
  assumes "length ms < 256" and "0 \<in> set ms" and "sc_in c = encode_greeting ms @ rest"
    and "sc_write_err c (sc_writes c) = None"
  shows "negotiateSOCKS5 c =
    (None, emit [Wrote [5, 0]] (c\<lparr>sc_in := rest, sc_writes := Suc (sc_writes c)\<rparr>))"
  using assms
  by (simp add: negotiateSOCKS5_def encode_greeting_def read_full_def unat_of_nat socks_consts
      conn_write_def emit_def)

text \<open>
  parsing a CONNECT request undoes its RFC 1928 encoding, for domain names of up to 255
  bytes, IPv4 and IPv6 addresses and every port, and consumes exactly the request.
\<close>

lemma connect_request_roundtrip:
  assumes "addr_ok a" and "sc_in c = encode_connect a port @ rest"
  shows "readSOCKS5Connect c = (Inr (addr_host a, port), c\<lparr>sc_in := rest\<rparr>)"
  using assms by (rule readSOCKS5Connect_encoded)

definition opening_events :: "socks_config \<Rightarrow> socks_event list" where
  "opening_events cfg =
     (if 0 < cc_dial_timeout cfg then [SetDeadline (Some (cc_dial_timeout cfg))] else [])"

definition closing_events :: "socks_config \<Rightarrow> socks_event list" where
  "closing_events cfg = (if 0 < cc_dial_timeout cfg then [SetDeadline None] else []) @ [CloseClient]"

lemma handle_encoded:
  assumes "length ms < 256" and "0 \<in> set ms" and "addr_ok a"
    and "sc_in c0 = encode_greeting ms @ encode_connect a port @ rest"
    and "\<forall>i. sc_write_err c0 i = None" and "sc_trace c0 = []"
    and "handleSOCKS5Conn cfg resolve has_cancel cr m c0 = (res, c, m')"
  shows "sc_trace c = opening_events cfg @ [Wrote [5, 0]] @
    (case resolve (addr_host a) port of
       Inl e \<Rightarrow> [Wrote (socks_reply (reply_for_resolve e))] @ closing_events cfg
     | Inr target \<Rightarrow> [SetDeadline None, Dialed target] @
         (case run_dial cr of
            Inl e \<Rightarrow> [Wrote (socks_reply 5)] @
              (if is_terminal e \<and> has_cancel then [CancelledWith e] else []) @ closing_events cfg
          | Inr _ \<Rightarrow> [Wrote (socks_reply 0)] @
              (case proxyConnections (withIdleTimeout (run_client cr) (cc_idle cfg))
                      (withIdleTimeout (run_remote cr) (cc_idle cfg)) (run_rx cr) (run_tx cr) m of
                 None \<Rightarrow> []
               | Some (tx, rx, ops, _) \<Rightarrow> [Proxied tx rx ops] @ closing_events cfg)))"
    (is "_ = ?T")
proof -
  define c2 where "c2 = emit [Wrote [5, 0]] ((socks_start cfg c0)
    \<lparr>sc_in := encode_connect a port @ rest, sc_writes := Suc (sc_writes c0)\<rparr>)"
  have ng: "negotiateSOCKS5 (socks_start cfg c0) = (None, c2)"
    using negotiate_encoded [of ms "socks_start cfg c0"] assms(1-5)
    by (simp add: c2_def socks_start_def)
  define c3 where "c3 = c2\<lparr>sc_in := rest\<rparr>"
  have rd: "readSOCKS5Connect c2 = (Inr (addr_host a, port), c3)"
    unfolding c3_def using assms(3) by (intro readSOCKS5Connect_encoded) (simp_all add: c2_def)
  have tr: "sc_trace c3 = opening_events cfg @ [Wrote [5, 0]]"
    using assms(6) by (simp add: c3_def c2_def socks_start_def opening_events_def)
  have wr: "sc_write_err c3 i = None" for i
    using assms(5) by (simp add: c3_def c2_def socks_start_def)
  have "writeSOCKS5Reply 0 (emit es c3) =
      (None, emit [Wrote (socks_reply 0)] ((emit es c3)\<lparr>sc_writes := Suc (sc_writes c3)\<rparr>))" for es
    by (simp add: writeSOCKS5Reply_def conn_write_def wr)
  then have "sc_trace (fst (snd (handleSOCKS5Conn cfg resolve has_cancel cr m c0))) = ?T"
    by (auto simp: handleSOCKS5Conn_def ng rd Let_def socks_close_def tr closing_events_def
        split: sum.splits option.splits)
  then show ?thesis using assms(7) by simp
qed

subsection \<open>The allow-list\<close>

lemma normalize_routes_sound:
  "normalize_routes routes M = Inr N \<Longrightarrow> N k = Some d \<Longrightarrow>
   M k = Some d \<or> (\<exists>s. (s, d) \<in> set routes \<and> normalizeSOCKSAddress s = Inr k)"
proof (induction routes arbitrary: M)
  case (Cons r routes)
  obtain s0 d0 where r: "r = (s0, d0)" by force
  with Cons.prems obtain k0 where k: "normalizeSOCKSAddress s0 = Inr k0"
    "normalize_routes routes (M(k0 \<mapsto> d0)) = Inr N"
    by (auto split: sum.splits)
  from Cons.IH [OF k(2) Cons.prems(2)] show ?case
    using k(1) r by (auto split: if_splits)
qed auto

lemma normalize_routes_keep:
  "normalize_routes routes M = Inr N \<Longrightarrow> Inr k \<notin> set (map (normalizeSOCKSAddress \<circ> fst) routes) \<Longrightarrow>
   N k = M k"
proof (induction routes arbitrary: M)
  case (Cons r routes)
  obtain s0 d0 where r: "r = (s0, d0)" by force
  with Cons.prems obtain k0 where k: "normalizeSOCKSAddress s0 = Inr k0"
    "normalize_routes routes (M(k0 \<mapsto> d0)) = Inr N"
    by (auto split: sum.splits)
  from Cons.IH [OF k(2)] Cons.prems(2) show ?case using k(1) r by auto
qed auto

lemma normalize_routes_complete:
  "normalize_routes routes M = Inr N \<Longrightarrow> distinct (map (normalizeSOCKSAddress \<circ> fst) routes) \<Longrightarrow>
   (s, d) \<in> set routes \<Longrightarrow> normalizeSOCKSAddress s = Inr k \<Longrightarrow> N k = Some d"
proof (induction routes arbitrary: M)
  case (Cons r routes)
  obtain s0 d0 where r: "r = (s0, d0)" by force
  with Cons.prems obtain k0 where k: "normalizeSOCKSAddress s0 = Inr k0"
    "normalize_routes routes (M(k0 \<mapsto> d0)) = Inr N"
    by (auto split: sum.splits)
  show ?case
  proof (cases "(s, d) = (s0, d0)")
    case True
    then have "Inr k \<notin> set (map (normalizeSOCKSAddress \<circ> fst) routes)"
      using Cons.prems(2,4) r k(1) by auto
    from normalize_routes_keep [OF k(2) this] show ?thesis using True Cons.prems(4) k(1) by simp
  next
    case False
    then show ?thesis using Cons.IH [OF k(2)] Cons.prems r by auto
  qed
qed auto

text \<open>
  C6: the allow-list confines the proxy. Whatever bytes a client sends, a target that the
  handler dials is the destination of a configured route whose source, normalised, is the host
  and port that client asked for.
\<close>

theorem allowlist_confines_dials:
  assumes "NewAllowlistSOCKSTarget routes = Inr resolve"
    and "handleSOCKS5Conn cfg resolve has_cancel cr m c0 = (res, c, m')"
    and "Dialed target \<in> set (sc_trace c)" and "sc_trace c0 = []"
  shows "\<exists>source host port. (source, target) \<in> set routes \<and> requested cfg c0 = Some (host, port) \<and>
    normalizeSOCKSAddress source = Inr (JoinHostPort (ToLower host) (Itoa (uint port)))"
proof -
  obtain N where N: "normalize_routes routes Map.empty = Inr N" "resolve = allowlist_lookup N"
    using assms(1) by (auto simp: NewAllowlistSOCKSTarget_def split: sum.splits)
  obtain host port where hp: "requested cfg c0 = Some (host, port)"
    "N (socks_key host port) = Some target"
    using allowlist.dial_granted [OF assms(2) [unfolded N(2)] assms(3,4)] by blast
  with normalize_routes_sound [OF N(1) hp(2)] show ?thesis by (auto simp: socks_key_def)
qed

definition sample_routes :: "(string \<times> string) list" where
  "sample_routes = [(''app.example:443'', ''10.0.0.5:8443'')]"

definition sample_client :: socks_client where
  "sample_client =
     \<lparr>sc_in = encode_greeting [2, 0] @ encode_connect (DomainAddr ''APP.example'') 443 @ [42],
      sc_read_err = io_EOF, sc_write_err = (\<lambda>_. None), sc_writes = 0, sc_trace = []\<rparr>"

definition sample_socks_cfg :: socks_config where
  "sample_socks_cfg =
     \<lparr>cc_target = [], cc_idle = 0, cc_max_connections = 4, cc_dial_timeout = 30\<rparr>"

definition sample_resolver :: SOCKSTargetResolver where
  "sample_resolver = allowlist_lookup [''app.example:443'' \<mapsto> ''10.0.0.5:8443'']"

lemma sample_allowlist: "NewAllowlistSOCKSTarget sample_routes = Inr sample_resolver"
proof -
  have "normalizeSOCKSAddress ''app.example:443'' = Inr ''app.example:443''"
    "normalizeSOCKSAddress ''10.0.0.5:8443'' = Inr ''10.0.0.5:8443''"
    by code_simp+
  then show ?thesis
    by (simp add: NewAllowlistSOCKSTarget_def sample_routes_def sample_resolver_def)
qed

theorem allowlist_confines_dials_witness:
  "\<exists>res c m'.
    handleSOCKS5Conn sample_socks_cfg sample_resolver True sample_run ResetMetrics sample_client
      = (res, c, m') \<and> Dialed ''10.0.0.5:8443'' \<in> set (sc_trace c) \<and>
    (\<exists>source. (source, ''10.0.0.5:8443'') \<in> set sample_routes)"
proof -
  obtain res c m' where h: "handleSOCKS5Conn sample_socks_cfg sample_resolver True sample_run
    ResetMetrics sample_client = (res, c, m')" by (metis prod_cases3)
  have "JoinHostPort (ToLower ''APP.example'') (Itoa 443) = ''app.example:443''" by code_simp
  then have r: "sample_resolver ''APP.example'' 443 = Inr ''10.0.0.5:8443''"
    by (simp add: sample_resolver_def allowlist_lookup_def socks_key_def)
  have d: "Dialed ''10.0.0.5:8443'' \<in> set (sc_trace c)"
    using handle_encoded [of "[2, 0]" "DomainAddr ''APP.example''" sample_client 443 "[42]"
        sample_socks_cfg sample_resolver True sample_run ResetMetrics, OF _ _ _ _ _ _ h] r
    by (simp add: sample_client_def)
  have "sc_trace sample_client = []" by (simp add: sample_client_def)
  from allowlist_confines_dials [OF sample_allowlist h d this] h d show ?thesis by blast
qed

lemma socks_key_normalized:
  assumes "SplitHostPort source = Inr (host, port)" and "Atoi port = Some n"
    and "normalizeSOCKSAddress source = Inr k" and "ToLower host' = ToLower host"
  shows "k = socks_key host' (word_of_int n)"
proof -
  have n: "1 \<le> n" "n \<le> 65535" and k: "k = JoinHostPort (ToLower host) (Itoa n)"
    using assms(1-3) by (auto simp: normalizeSOCKSAddress_def split: if_splits)
  have "uint (word_of_int n :: 16 word) = n"
    using n by (simp add: uint_word_of_int_eq take_bit_int_eq_self)
  then show ?thesis using k assms(4) by (simp add: socks_key_def)
qed

text \<open>
  a route that is configured is served: when no two sources normalise to the same key, a
  client asking for the source's host (in any letter case) and port is sent to the route's
  destination, whatever the order in which the route map was iterated.
\<close>

lemma allowlist_serves_routes:
  assumes "NewAllowlistSOCKSTarget routes = Inr resolve"
    and "distinct (map (normalizeSOCKSAddress \<circ> fst) routes)"
    and "(source, destination) \<in> set routes"
    and "SplitHostPort source = Inr (host, port)" and "Atoi port = Some n"
    and "ToLower host' = ToLower host"
  shows "resolve host' (word_of_int n) = Inr destination"
proof -
  obtain N where N: "normalize_routes routes Map.empty = Inr N" "resolve = allowlist_lookup N"
    using assms(1) by (auto simp: NewAllowlistSOCKSTarget_def split: sum.splits)
  have "\<exists>k. normalizeSOCKSAddress source = Inr k"
    using N(1) assms(3)
  proof (induction routes arbitrary: N rule: rev_induct)
    case (snoc r rs)
    have "\<exists>M. normalize_routes rs M0 = Inr M \<and> normalize_routes [r] M = Inr N'"
      if "normalize_routes (rs @ [r]) M0 = Inr N'" for M0 N'
      using that
      by (induction rs M0 rule: normalize_routes.induct) (auto split: sum.splits)
    from this [OF snoc.prems(1)] obtain M where
      "normalize_routes rs Map.empty = Inr M" "normalize_routes [r] M = Inr N" by blast
    then show ?case using snoc.IH snoc.prems(2) by (cases r) (auto split: sum.splits)
  qed simp
  then obtain k where k: "normalizeSOCKSAddress source = Inr k" by blast
  have "N k = Some destination" by (rule normalize_routes_complete [OF N(1) assms(2,3) k])
  moreover have "k = socks_key host' (word_of_int n)"
    by (rule socks_key_normalized [OF assms(4,5) k assms(6)])
  ultimately show ?thesis by (simp add: N(2) allowlist_lookup_def)
qed

text \<open>
  two sources that differ in letter case only are accepted together, and which destination
  wins is decided by the order of iteration over the route map.
\<close>

lemma allowlist_collision_depends_on_order:
  "\<exists>r1 r2. NewAllowlistSOCKSTarget [(''App:443'', ''a:1''), (''app:443'', ''b:1'')] = Inr r1 \<and>
     NewAllowlistSOCKSTarget [(''app:443'', ''b:1''), (''App:443'', ''a:1'')] = Inr r2 \<and>
     r1 ''app'' 443 = Inr ''b:1'' \<and> r2 ''app'' 443 = Inr ''a:1''"
proof -
  have n: "normalizeSOCKSAddress ''App:443'' = Inr ''app:443''"
    "normalizeSOCKSAddress ''app:443'' = Inr ''app:443''"
    "normalizeSOCKSAddress ''a:1'' = Inr ''a:1''" "normalizeSOCKSAddress ''b:1'' = Inr ''b:1''"
    by code_simp+
  have "JoinHostPort (ToLower ''app'') (Itoa 443) = ''app:443''" by code_simp
  then show ?thesis
    by (simp add: NewAllowlistSOCKSTarget_def n allowlist_lookup_def socks_key_def)
qed

subsection \<open>Properties of the SOCKS5 accept loop\<close>

definition socks_accept_inv :: "socks_config \<Rightarrow> socks_accept_state \<Rightarrow> bool" where
  "socks_accept_inv cfg st \<longleftrightarrow>
     metrics_invar (sa_metrics st) \<and>
     ActiveConnections (sa_metrics st) = int (length (sa_running st)) \<and>
     int (length (sa_running st)) \<le> max 0 (cc_max_connections cfg)"

lemma handleSOCKS5Conn_active:
  assumes "handleSOCKS5Conn cfg resolve hc cr m c0 = (res, c, m')"
  shows "ActiveConnections m' = ActiveConnections m"
proof (cases rule: handle_cases [of cfg c0])
  case (connect host port c2 c3)
  then show ?thesis
    using assms
    by (auto simp: handleSOCKS5Conn_def Let_def dest: proxyConnections_active
        split: sum.splits prod.splits option.splits if_splits)
qed (use assms in \<open>auto simp: handleSOCKS5Conn_def\<close>)

lemma socks_claim_inv:
  assumes "socks_accept_inv cfg st" and "int64_range (cc_max_connections cfg)"
    and "socks_accept_one cfg resolve hc (SocksAccepted c) st = Inr st'"
  shows "socks_accept_inv cfg st'"
proof -
  define w :: "64 word" where "w = word_of_int (cc_max_connections cfg)"
  have w: "sint w = cc_max_connections cfg" using assms(2) by (simp add: w_def sint64_of_int)
  obtain ok m where cl: "TryClaimConnection (sint w) (sa_metrics st) = (ok, m)" by fastforce
  have i: "metrics_invar (sa_metrics st)" using assms(1) by (simp add: socks_accept_inv_def)
  have "metrics_invar m" using slots.claim_invar [OF i, of w] cl by simp
  moreover have "ActiveConnections m = ActiveConnections (sa_metrics st) + (if ok then 1 else 0)"
    using slots.claim_inuse [OF i, of w] cl by simp
  moreover have "ActiveConnections m \<le> max 0 (cc_max_connections cfg)"
    using slots.claim_within_limit [OF i, of w] assms(1) cl w by (simp add: socks_accept_inv_def)
  ultimately show ?thesis
    using assms(1,3) cl w
    by (auto simp: socks_accept_one_def socks_accept_inv_def metrics_invar_frame split: bool.splits)
qed

lemma socks_return_inv:
  assumes "socks_accept_inv cfg st"
    and "socks_accept_one cfg resolve hc (SocksReturned c cr client) st = Inr st'"
  shows "socks_accept_inv cfg st'"
proof -
  obtain res cl m where h: "handleSOCKS5Conn cfg resolve hc cr (AddTotalConnection (sa_metrics st)) client
    = (res, cl, m)" by (metis prod_cases3)
  show ?thesis
  proof (cases "c \<in> set (sa_running st) \<and> res \<noteq> SocksRunning")
    case False
    then show ?thesis using assms h by (auto simp: socks_accept_one_def split: if_splits)
  next
    case True
    then obtain err where err: "res = SocksDone err" by (cases res) auto
    define m1 where "m1 = (if err = None then m else AddError m)"
    have a: "ActiveConnections m1 = ActiveConnections (sa_metrics st)"
      using handleSOCKS5Conn_active [OF h] by (simp add: m1_def AddError_def AddTotalConnection_def)
    have i: "metrics_invar m1" using assms(1) a by (simp add: socks_accept_inv_def metrics_invar_def)
    have pos: "0 < length (sa_running st)" using True by (auto simp: length_pos_if_in_set)
    then have p: "0 < ActiveConnections m1" using assms(1) a by (simp add: socks_accept_inv_def)
    have len: "int (length (remove1 c (sa_running st))) = int (length (sa_running st)) - 1"
      using True pos by (simp add: length_remove1 of_nat_diff Suc_leI)
    show ?thesis
      using assms True h err a p i len slots.release_slot [OF i p] slots.release_invar [OF i p]
      by (auto simp: socks_accept_one_def socks_accept_inv_def m1_def)
  qed
qed

lemma socks_accept_events_inv:
  assumes "socks_accept_inv cfg st" and "int64_range (cc_max_connections cfg)"
  shows "socks_accept_inv cfg (fst (socks_accept_events cfg resolve hc evs st))"
  using assms(1)
proof (induction evs arbitrary: st)
  case (Cons ev evs)
  show ?case
  proof (cases "socks_accept_one cfg resolve hc ev st")
    case (Inl r)
    then show ?thesis using Cons.prems by simp
  next
    case (Inr st')
    have "socks_accept_inv cfg st'"
      using Inr Cons.prems socks_claim_inv [OF Cons.prems assms(2)] socks_return_inv [OF Cons.prems]
      by (cases ev) (auto simp: socks_accept_one_def [of _ _ _ "SocksAcceptFailed _"] split: if_splits)
    then show ?thesis using Inr Cons.IH by simp
  qed
qed simp

text \<open>
  the SOCKS5 loop respects the connection limit too: along every sequence of accepts and
  finished sessions (whatever the clients send) at most \<open>MaxConnections\<close> sessions run and the
  active-connection counter equals their number. A missing resolver is refused at once.
\<close>

lemma AcceptSOCKS5Loop_bounded:
  assumes "int64_range (cc_max_connections cfg)" and "ActiveConnections m = 0"
    and "AcceptSOCKS5Loop cfg resolver has_cancel evs
           \<lparr>sa_metrics = m, sa_running = [], sa_rejected = []\<rparr> = (st, r)"
  shows "int (length (sa_running st)) \<le> max 0 (cc_max_connections cfg) \<and>
    ActiveConnections (sa_metrics st) = int (length (sa_running st)) \<and>
    (resolver = None \<longrightarrow> r = Some ResolverRequired)"
proof -
  have "socks_accept_inv cfg \<lparr>sa_metrics = m, sa_running = [], sa_rejected = []\<rparr>"
    using assms(2) by (simp add: socks_accept_inv_def metrics_invar_def max_int64_def)
  then have "socks_accept_inv cfg st \<and> (resolver = None \<longrightarrow> r = Some ResolverRequired)"
    using socks_accept_events_inv [OF _ assms(1)] assms(3)
    by (auto simp: AcceptSOCKS5Loop_def dest: arg_cong [of _ _ fst] split: option.splits) (metis fst_conv)
  then show ?thesis by (simp add: socks_accept_inv_def)
qed

end
