(* ===== verification/Run_Bridge.thy ===== *)
theory Run_Bridge
  imports Signals Bridge_Config Bootstrap Socks5 Health Secret_File
begin

unbundle bit_operations_syntax

text \<open>
  \<open>cmd/cli/run.go\<close>: the life of a bridge, from its state directory to the end of its cleanup. What
  the tailnet node, the listener, the SSH child and the context do is an argument; the result
  holds every resource that was opened and closed, in order, and the lines printed. The accept
  loops themselves are those of \<open>proxy\<close>; here they end with an error or none.
\<close>

subsection \<open>The state directory\<close>

datatype run_error =
    CreateStateDir fs_error
  | StatStateDir fs_error
  | StateNotDirectory string
  | TunnelFailed start_error
  | ProxyFailed string
  | InitFailed string string
  | CauseError cause
  | BindFailed string string
  | CallbackFailed string
  | RoutesFailed allowlist_error
  | AcceptError string
and cause = Canceled | SSHExited string | TerminalDial string

definition stateDirPerms :: nat where "stateDirPerms = 448"

definition ensureStateDir :: "string \<Rightarrow> string \<Rightarrow> disk \<Rightarrow> run_error option \<times> nat option \<times> disk" where
  "ensureStateDir goos dir d =
     (case os_Stat dir d of
        (Some NotExist, d1) \<Rightarrow>
          (case os_MkdirAll dir stateDirPerms d1 of
             (Some e, d2) \<Rightarrow> (Some (CreateStateDir e), None, d2)
           | (None, d2) \<Rightarrow> (None, None, d2))
      | (Some e, d1) \<Rightarrow> (Some (StatStateDir e), None, d1)
      | (None, d1) \<Rightarrow>
          (case dirs d1 dir of
             None \<Rightarrow> (Some (StateNotDirectory dir), None, d1)
           | Some perm \<Rightarrow> (None, if goos \<noteq> ''windows'' \<and> perm AND 63 \<noteq> 0 then Some perm else None, d1)))"

text \<open>
  Removing the state of an ephemeral node. An attempt succeeds or fails with an error, which may be
  that there is nothing; the result is the number of attempts, the sleeps in milliseconds and
  whether the directory is gone.
\<close>

definition cleanupMaxAttempts :: nat where "cleanupMaxAttempts = 5"
definition cleanupRetryDelay :: nat where "cleanupRetryDelay = 150"

datatype remove_error = RemoveNotExist | RemoveFailed string

definition isRetryableCleanupError :: "string \<Rightarrow> bool" where
  "isRetryableCleanupError err =
     list_ex (Contains (ToLower err))
       [''directory is not empty'', ''access is denied'', ''being used by another process'', ''resource busy'', ''device or resource busy'']"

function cleanup_from :: "nat \<Rightarrow> (nat \<Rightarrow> remove_error option) \<Rightarrow> nat \<times> nat list \<times> bool" where
  "cleanup_from attempt remove =
     (if cleanupMaxAttempts < attempt then (attempt - 1, [], False)
      else (case remove attempt of
              None \<Rightarrow> (attempt, [], True)
            | Some RemoveNotExist \<Rightarrow> (attempt, [], True)
            | Some (RemoveFailed err) \<Rightarrow>
                if \<not> isRetryableCleanupError err \<or> attempt = cleanupMaxAttempts then (attempt, [], False)
                else (case cleanup_from (Suc attempt) remove of
                        (n, sleeps, gone) \<Rightarrow> (n, attempt * cleanupRetryDelay # sleeps, gone))))"
  by pat_completeness auto
termination by (relation "measure (\<lambda>(attempt, _). Suc cleanupMaxAttempts - attempt)") auto

declare cleanup_from.simps [simp del]

definition cleanupEphemeralStateDir :: "(nat \<Rightarrow> remove_error option) \<Rightarrow> nat \<times> nat list \<times> bool" where
  "cleanupEphemeralStateDir remove = cleanup_from 1 remove"

subsection \<open>What a run does\<close>

datatype run_event =
    TunnelOpen | TunnelClosed
  | NodeOpen | NodeClosed
  | Listening string | ListenerClosed
  | Banner "string list" | ReadyLine string | ErrorLine string
  | HealthOpen string
  | ShutdownWatch
  | MarkedReady
  | Serving string
  | Drained bool
  | StateRemoved bool
  | LogClosed

text \<open>
  What happens outside: the cause of the context at each of the points where the code looks at it
  (once ended it stays ended), and the outcome of each call.
\<close>

record run_env =
  rv_cause :: "nat \<Rightarrow> cause option"
  rv_start :: start_run
  rv_text :: "run_error \<Rightarrow> string"
  rv_proxy :: "string option"
  rv_up :: "string option"
  rv_listen :: "(string, string) result"
  rv_onReady :: "string option option"
  rv_accept :: "string option"
  rv_drained :: bool
  rv_remove :: "nat \<Rightarrow> remove_error option"
  rv_logging :: bool
  rv_version :: string
  rv_logDir :: string

definition proxyListenerAddr :: "Config \<Rightarrow> string" where
  "proxyListenerAddr cfg = (if c_SOCKS5Addr cfg \<noteq> [] then c_SOCKS5Addr cfg else c_LocalAddr cfg)"

definition readyTarget :: "Config \<Rightarrow> string" where
  "readyTarget cfg = (if c_SOCKS5Addr cfg \<noteq> [] then ''dynamic-socks5'' else c_Target cfg)"

definition socksTargetResolver :: "Config \<Rightarrow> (allowlist_error, SOCKSTargetResolver) result" where
  "socksTargetResolver cfg =
     (if c_SOCKS5Routes cfg = [] then Inr directSOCKSTarget else NewAllowlistSOCKSTarget (c_SOCKS5Routes cfg))"

text \<open>The banner, a list of lines; its cells are padded with spaces.\<close>

definition bannerWidth :: nat where "bannerWidth = 22"
definition defaultControlURL :: string where "defaultControlURL = ''https://control.tailscale.com''"

definition banner_version :: "string \<Rightarrow> string" where
  "banner_version v = (if bannerWidth < length v then take (bannerWidth - 3) v @ ''...'' else v)"

definition banner_row :: "string \<Rightarrow> nat \<Rightarrow> string \<Rightarrow> string" where
  "banner_row label width v = ''  |  '' @ label @ pad_right width v @ ''  |''"

definition writeStartupBanner :: "string \<Rightarrow> string \<Rightarrow> Config \<Rightarrow> string list" where
  "writeStartupBanner version logDir cfg =
     [[], status_rule, banner_row ''    TAILSCALE BRIDGE '' bannerWidth (banner_version version), status_rule,
      banner_row ''Host:   '' 26 (c_Hostname cfg), banner_row ''Local:  '' 26 (proxyListenerAddr cfg), banner_row ''Target: '' 26 (readyTarget cfg)] @
     (if c_ControlURL cfg \<noteq> [] \<and> c_ControlURL cfg \<noteq> defaultControlURL then [banner_row ''Control: '' 25 (c_ControlURL cfg)] else []) @
     (if c_HealthAddr cfg \<noteq> [] then [banner_row ''Health:  '' 26 (c_HealthAddr cfg)] else []) @
     (if c_EphemeralState cfg then [''  |  Node:    ephemeral (not persisted in admin console)  |''] else []) @
     (if logDir \<noteq> [] then [banner_row ''Log:      '' 26 logDir] else []) @
     [status_rule, ''  Waiting for connections...'', []]"

text \<open>The line printed for a cause.\<close>

definition cause_text :: "cause \<Rightarrow> string" where
  "cause_text c =
     (case c of Canceled \<Rightarrow> ''context canceled'' | SSHExited e \<Rightarrow> ''SSH bootstrap exited: '' @ e | TerminalDial e \<Rightarrow> e)"

definition emitRunCause :: "cause option \<Rightarrow> run_event list" where
  "emitRunCause c =
     (case c of
        Some (SSHExited e) \<Rightarrow> [ErrorLine (emitError reasonSSHBootstrapFailed (cause_text (SSHExited e)))]
      | _ \<Rightarrow> [])"

text \<open>\<open>monitorBootstrap\<close>: the cause it cancels the run with when the tunnel ends first.\<close>

definition monitorBootstrap :: "bool \<Rightarrow> string option \<Rightarrow> cause option" where
  "monitorBootstrap ctxDone err =
     (if ctxDone then None
      else Some (SSHExited (case err of Some e \<Rightarrow> e | None \<Rightarrow> ''process exited without an error'')))"

definition startConfiguredBootstrap ::
  "run_env \<Rightarrow> Config \<Rightarrow> ((run_error, bool) result \<times> run_event list) option" where
  "startConfiguredBootstrap v cfg =
     (if c_BootstrapSSH cfg = [] then Some (Inr False, [])
      else (case bootstrap_start (rv_start v) (c_BootstrapSSH cfg) (c_BootstrapSOCKSAddr cfg) of
              None \<Rightarrow> None
            | Some (Inl e, _) \<Rightarrow> Some (Inl (TunnelFailed e), [])
            | Some (Inr _, _) \<Rightarrow>
                (case rv_proxy v of
                   Some e \<Rightarrow> Some (Inl (ProxyFailed e), [TunnelOpen, TunnelClosed])
                 | None \<Rightarrow> Some (Inr True, [TunnelOpen]))))"

definition initTailscale :: "run_env \<Rightarrow> Config \<Rightarrow> (run_error, unit) result \<times> run_event list" where
  "initTailscale v cfg =
     (case rv_cause v 0 of
        Some c \<Rightarrow> (Inl (CauseError c), [])
      | None \<Rightarrow>
          (case rv_up v of
             None \<Rightarrow> (Inr (), [NodeOpen])
           | Some err \<Rightarrow>
               (case rv_cause v 1 of
                  Some c \<Rightarrow> (Inl (CauseError c), [NodeOpen, NodeClosed])
                | None \<Rightarrow> (Inl (InitFailed (controlURLForError (c_ControlURL cfg)) err),
                    [NodeOpen, ErrorLine (emitError (fst (diagnoseTailscaleInitError err)) err), NodeClosed]))))"

definition announceReady :: "run_env \<Rightarrow> Config \<Rightarrow> string \<Rightarrow> run_error option \<times> run_event list" where
  "announceReady v cfg addr =
     (case rv_cause v 3 of
        Some c \<Rightarrow> (Some (CauseError c), emitRunCause (Some c))
      | None \<Rightarrow>
          (let banner = (if c_Quiet cfg then [] else [Banner (writeStartupBanner (rv_version v) (rv_logDir v) cfg)]) in
           case emitReadyIfActive (rv_cause v 4) addr (readyTarget cfg) of
             Inl c \<Rightarrow> (Some (CauseError c), banner @ emitRunCause (rv_cause v 5))
           | Inr line \<Rightarrow>
               (case rv_onReady v of
                  Some (Some e) \<Rightarrow> (Some (CallbackFailed e), banner @ [ReadyLine line])
                | _ \<Rightarrow> (None, banner @ [ReadyLine line]))))"

definition drainActiveConnections :: "run_env \<Rightarrow> Config \<Rightarrow> run_event list" where
  "drainActiveConnections v cfg = (if c_DrainTimeout cfg \<le> 0 then [] else [Drained (rv_drained v)])"

text \<open>
  The bridge: the outcome, and the events of the calling goroutine. Serving ends when the listener
  is closed, which the shutdown goroutine does.
\<close>

definition serve_bridge :: "run_env \<Rightarrow> Config \<Rightarrow> string \<Rightarrow> run_error option \<times> run_event list" where
  "serve_bridge v cfg addr =
     (let opened = (if c_HealthAddr cfg \<noteq> [] then [HealthOpen (c_HealthAddr cfg)] else []) @ [ShutdownWatch, MarkedReady];
          finish = ListenerClosed # drainActiveConnections v cfg @ [NodeClosed] @ emitRunCause (rv_cause v 6);
          outcome = (case rv_cause v 6 of
                       Some c \<Rightarrow> if c \<noteq> Canceled then Some (CauseError c) else map_option AcceptError (rv_accept v)
                     | None \<Rightarrow> map_option AcceptError (rv_accept v))
      in if c_SOCKS5Addr cfg \<noteq> [] then
           (case socksTargetResolver cfg of
              Inl e \<Rightarrow> (Some (RoutesFailed e), opened @ [ListenerClosed, NodeClosed])
            | Inr _ \<Rightarrow> (outcome, opened @ Serving addr # finish))
         else (outcome, opened @ Serving addr # finish))"

definition runBridge :: "run_env \<Rightarrow> Config \<Rightarrow> run_error option \<times> run_event list" where
  "runBridge v cfg =
     (case initTailscale v cfg of
        (Inl err, tr) \<Rightarrow>
          (case rv_cause v 2 of
             Some c \<Rightarrow> (Some (CauseError c), tr @ emitRunCause (Some c))
           | None \<Rightarrow> (Some err, tr))
      | (Inr _, tr) \<Rightarrow>
          (case rv_listen v of
             Inl e \<Rightarrow> (Some (BindFailed (proxyListenerAddr cfg) e), tr @ [NodeClosed])
           | Inr addr \<Rightarrow>
               (case announceReady v cfg addr of
                  (Some e, ar) \<Rightarrow> (Some e, tr @ Listening addr # ar @ [ListenerClosed, NodeClosed])
                | (None, ar) \<Rightarrow>
                    (case serve_bridge v cfg addr of (e, sr) \<Rightarrow> (e, tr @ Listening addr # ar @ sr)))))"

definition withBootstrapLifecycle :: "run_env \<Rightarrow> Config \<Rightarrow> (run_error option \<times> run_event list) option" where
  "withBootstrapLifecycle v cfg =
     (case startConfiguredBootstrap v cfg of
        None \<Rightarrow> None
      | Some (Inl e, tr) \<Rightarrow> Some (Some e, tr @ [ErrorLine (emitError reasonSSHBootstrapFailed (rv_text v e))])
      | Some (Inr tunnel, tr) \<Rightarrow>
          (case runBridge v cfg of (e, br) \<Rightarrow> Some (e, tr @ br @ (if tunnel then [TunnelClosed] else []))))"

text \<open>\<open>None\<close> is a run that waits for the SSH child for ever.\<close>

definition run :: "run_env \<Rightarrow> string \<Rightarrow> Config \<Rightarrow> disk \<Rightarrow> (run_error option \<times> run_event list \<times> disk) option" where
  "run v goos cfg d =
     (case ensureStateDir goos (c_StateDir cfg) d of
        (Some e, _, d1) \<Rightarrow> Some (Some e, [], d1)
      | (None, _, d1) \<Rightarrow>
          (case withBootstrapLifecycle v cfg of
             None \<Rightarrow> None
           | Some (e, tr) \<Rightarrow>
               Some (e, tr @ (if c_EphemeralState cfg then [StateRemoved (snd (snd (cleanupEphemeralStateDir (rv_remove v))))] else []) @
                          (if rv_logging v then [LogClosed] else []), d1)))"

subsection \<open>Shutting down\<close>

text \<open>
  \<open>handleShutdown\<close> after the context has ended: the status it stores, and what it closes. It runs
  beside the calling goroutine.
\<close>

definition handleShutdown :: "cause option \<Rightarrow> bool \<Rightarrow> TunnelStatus \<Rightarrow> TunnelStatus \<times> string list" where
  "handleShutdown c health s =
     ((case c of
         Some e \<Rightarrow> if e \<noteq> Canceled then status_Store False (cause_text e) s else status_Store False [] s
       | None \<Rightarrow> status_Store False [] s),
      ''listener'' # (if health then [''health server''] else []))"

text \<open>
  The goroutine is started before the caller marks the bridge ready. When the context has ended by
  then, the mark may come last and the endpoint says ready in a bridge that is shutting down.
\<close>

lemma ready_after_shutdown: "fst (status_Load (MarkReady (fst (handleShutdown c health s))))"
  by (simp add: MarkReady_def status_Store_def store_ready_def store_reason_def status_Load_def)

subsection \<open>Resources\<close>

text \<open>
  What a run holds, and the order it must keep: the node is opened and closed inside the life of the
  tunnel it dials through, the listener inside the life of the node; \<open>READY\<close> and serving need
  both; the state directory goes when nothing that uses it is left.
\<close>

record held =
  h_tunnel :: bool
  h_node :: bool
  h_listener :: bool
  h_gone :: bool

definition nothing_held :: "held \<Rightarrow> bool" where
  "nothing_held h \<longleftrightarrow> \<not> h_tunnel h \<and> \<not> h_node h \<and> \<not> h_listener h"

fun use :: "run_event \<Rightarrow> held \<Rightarrow> held option" where
  "use TunnelOpen h = (if nothing_held h \<and> \<not> h_gone h then Some (h\<lparr>h_tunnel := True\<rparr>) else None)"
| "use TunnelClosed h = (if h_tunnel h \<and> \<not> h_node h \<and> \<not> h_listener h then Some (h\<lparr>h_tunnel := False\<rparr>) else None)"
| "use NodeOpen h = (if \<not> h_node h \<and> \<not> h_listener h \<and> \<not> h_gone h then Some (h\<lparr>h_node := True\<rparr>) else None)"
| "use NodeClosed h = (if h_node h \<and> \<not> h_listener h then Some (h\<lparr>h_node := False\<rparr>) else None)"
| "use (Listening a) h = (if h_node h \<and> \<not> h_listener h then Some (h\<lparr>h_listener := True\<rparr>) else None)"
| "use ListenerClosed h = (if h_listener h then Some (h\<lparr>h_listener := False\<rparr>) else None)"
| "use (ReadyLine l) h = (if h_node h \<and> h_listener h then Some h else None)"
| "use (Serving a) h = (if h_node h \<and> h_listener h then Some h else None)"
| "use (HealthOpen a) h = (if h_node h \<and> h_listener h then Some h else None)"
| "use ShutdownWatch h = (if h_node h \<and> h_listener h then Some h else None)"
| "use MarkedReady h = (if h_node h \<and> h_listener h then Some h else None)"
| "use (Drained b) h = (if h_node h \<and> \<not> h_listener h then Some h else None)"
| "use (StateRemoved b) h = (if nothing_held h then Some (h\<lparr>h_gone := True\<rparr>) else None)"
| "use LogClosed h = (if nothing_held h then Some h else None)"
| "use (Banner l) h = Some h"
| "use (ErrorLine l) h = Some h"

fun uses :: "run_event list \<Rightarrow> held \<Rightarrow> held option" where
  "uses [] h = Some h"
| "uses (e # es) h = (case use e h of None \<Rightarrow> None | Some h' \<Rightarrow> uses es h')"

definition fresh :: held where "fresh = \<lparr>h_tunnel = False, h_node = False, h_listener = False, h_gone = False\<rparr>"

lemma uses_append: "uses (xs @ ys) h = (case uses xs h of None \<Rightarrow> None | Some h' \<Rightarrow> uses ys h')"
  by (induction xs arbitrary: h) (auto split: option.split)

lemma uses_cause [simp]: "uses (emitRunCause c) h = Some h"
  by (auto simp: emitRunCause_def split: option.split cause.split)

lemma initTailscale_held:
  assumes "initTailscale v cfg = (r, tr)" and "\<not> h_node h" "\<not> h_listener h" "\<not> h_gone h"
  shows "uses tr h = Some (if r = Inr () then h\<lparr>h_node := True\<rparr> else h)"
  using assms by (auto simp: initTailscale_def split: option.splits)

lemma announceReady_held:
  assumes "announceReady v cfg a = (r, tr)" and "h_node h" "h_listener h"
  shows "uses tr h = Some h"
  using assms by (auto simp: announceReady_def emitReadyIfActive_def uses_append Let_def split: option.splits sum.splits if_splits)

lemma serve_bridge_held:
  assumes "serve_bridge v cfg a = (r, tr)" and "h_node h" "h_listener h"
  shows "uses tr h = Some (h\<lparr>h_node := False, h_listener := False\<rparr>)"
  using assms
  by (auto simp: serve_bridge_def drainActiveConnections_def uses_append Let_def split: option.splits sum.splits if_splits)

lemma held_again: "\<not> h_node h \<Longrightarrow> \<not> h_listener h \<Longrightarrow> h\<lparr>h_node := False, h_listener := False\<rparr> = h" "\<not> h_node h \<Longrightarrow> h\<lparr>h_node := False\<rparr> = h"
  by (cases h; simp)+

lemma runBridge_held:
  assumes "runBridge v cfg = (r, tr)" and h: "\<not> h_node h" "\<not> h_listener h" "\<not> h_gone h"
  shows "uses tr h = Some h"
proof -
  obtain ri ti where i: "initTailscale v cfg = (ri, ti)" by fastforce
  note u = initTailscale_held [OF i h]
  show ?thesis
  proof (cases ri)
    case (Inl e)
    then show ?thesis using assms(1) i u by (auto simp: runBridge_def uses_append split: option.splits)
  next
    case (Inr x)
    then have u: "uses ti h = Some (h\<lparr>h_node := True\<rparr>)" using u by simp
    show ?thesis
    proof (cases "rv_listen v")
      case (Inl e)
      then have "tr = ti @ [NodeClosed]" using assms(1) i Inr by (simp add: runBridge_def)
      then show ?thesis using u h by (simp add: uses_append held_again)
    next
      case (Inr addr)
      obtain ra ta where a: "announceReady v cfg addr = (ra, ta)" by fastforce
      let ?l = "h\<lparr>h_node := True, h_listener := True\<rparr>"
      have ua: "uses ta ?l = Some ?l" using announceReady_held [OF a, of ?l] by simp
      show ?thesis
      proof (cases ra)
        case None
        obtain rs ts where b: "serve_bridge v cfg addr = (rs, ts)" by fastforce
        have "uses ts ?l = Some h" using serve_bridge_held [OF b, of ?l] h by (simp add: held_again)
        moreover have "tr = ti @ Listening addr # ta @ ts" using assms(1) i \<open>ri = Inr x\<close> Inr a b None by (simp add: runBridge_def)
        ultimately show ?thesis using u ua h by (simp add: uses_append)
      next
        case (Some e)
        then have "tr = ti @ Listening addr # ta @ [ListenerClosed, NodeClosed]"
          using assms(1) i \<open>ri = Inr x\<close> Inr a by (simp add: runBridge_def)
        then show ?thesis using u ua h by (simp add: uses_append held_again)
      qed
    qed
  qed
qed

lemma withBootstrapLifecycle_held:
  assumes "withBootstrapLifecycle v cfg = Some (e, tr)"
  shows "uses tr fresh = Some fresh"
proof -
  obtain r rb where b: "runBridge v cfg = (r, rb)" by fastforce
  have "uses rb fresh = Some fresh" "uses rb (fresh\<lparr>h_tunnel := True\<rparr>) = Some (fresh\<lparr>h_tunnel := True\<rparr>)"
    using runBridge_held [OF b] by (simp_all add: fresh_def)
  then show ?thesis using assms b
    by (auto simp: withBootstrapLifecycle_def startConfiguredBootstrap_def uses_append nothing_held_def fresh_def
        split: option.splits sum.splits prod.splits if_splits)
qed

lemma runBridge_None:
  assumes "runBridge v cfg = (None, tr)"
  shows "\<exists>addr. rv_listen v = Inr addr \<and> Serving addr \<in> set tr \<and> rv_accept v = None \<and> rv_cause v 6 \<in> {None, Some Canceled}"
  using assms
  by (auto simp: runBridge_def initTailscale_def announceReady_def serve_bridge_def emitReadyIfActive_def Let_def
      split: option.splits sum.splits prod.splits if_splits)


definition quiet_env :: run_env where
  "quiet_env = \<lparr>rv_cause = (\<lambda>n. if n = 6 then Some Canceled else None),
     rv_start = \<lparr>s_lookPath = None, s_bindable = False, s_environ = [], s_starts = False, s_polls = []\<rparr>, rv_text = (\<lambda>_. []),
     rv_proxy = None, rv_up = None, rv_listen = Inr ''127.0.0.1:33389'', rv_onReady = None, rv_accept = None, rv_drained = True,
     rv_remove = (\<lambda>_. None), rv_logging = True, rv_version = ''dev'', rv_logDir = []\<rparr>"

definition quiet_disk :: disk where
  "quiet_disk = \<lparr>files = (\<lambda>_. None), dirs = [''/s'' \<mapsto> 448], tick = 0, faults = (\<lambda>_. False), partial_len = (\<lambda>_. 0), temp_suffix = (\<lambda>n. [])\<rparr>"

definition quiet_config :: Config where
  "quiet_config = defaults\<lparr>c_StateDir := ''/s'', c_LocalAddr := ''127.0.0.1:33389'', c_Target := ''box:3389'', c_Quiet := True, c_EphemeralState := True\<rparr>"

lemma quiet_run:
  "map_option (\<lambda>(e, tr, d). (e, tr)) (run quiet_env ''linux'' quiet_config quiet_disk) =
     Some (None, [NodeOpen, Listening ''127.0.0.1:33389'', ReadyLine ''READY local=127.0.0.1:33389 target=box:3389'', ShutdownWatch, MarkedReady,
       Serving ''127.0.0.1:33389'', ListenerClosed, Drained True, NodeClosed, StateRemoved True, LogClosed])"
  by code_simp


text \<open>The removal of the state directory tries at most five times and sleeps at most a second and a half.\<close>

lemma cleanup_from_bounds:
  assumes "cleanup_from attempt remove = (n, sleeps, gone)" and "1 \<le> attempt" "attempt \<le> cleanupMaxAttempts"
  shows "attempt \<le> n \<and> n \<le> cleanupMaxAttempts \<and> sleeps = map (\<lambda>k. k * cleanupRetryDelay) [attempt..<n] \<and>
    (gone \<longleftrightarrow> remove n \<in> {None, Some RemoveNotExist})"
  using assms
proof (induction attempt remove arbitrary: n sleeps gone rule: cleanup_from.induct)
  case (1 attempt remove)
  show ?case
  proof (cases "\<exists>err. remove attempt = Some (RemoveFailed err) \<and> isRetryableCleanupError err \<and> attempt \<noteq> cleanupMaxAttempts")
    case False
    then show ?thesis using 1(2-4) by (auto simp: cleanup_from.simps [of attempt] split: option.splits remove_error.splits if_splits)
  next
    case True
    then obtain err where err: "remove attempt = Some (RemoveFailed err)" "isRetryableCleanupError err" "attempt \<noteq> cleanupMaxAttempts" by blast
    obtain n' s' g' where r: "cleanup_from (Suc attempt) remove = (n', s', g')" by (metis prod.exhaust)
    have i: "Suc attempt \<le> n' \<and> n' \<le> cleanupMaxAttempts \<and> s' = map (\<lambda>k. k * cleanupRetryDelay) [Suc attempt..<n'] \<and>
        (g' \<longleftrightarrow> remove n' \<in> {None, Some RemoveNotExist})"
      using 1(1) [OF _ err(1) refl _ r] 1(3,4) err(2,3) by auto
    then show ?thesis using 1(2-4) err r by (auto simp: cleanup_from.simps [of attempt] upt_conv_Cons)
  qed
qed

lemma cleanup_bounded:
  assumes "cleanupEphemeralStateDir remove = (n, sleeps, gone)"
  shows "n \<le> 5 \<and> sum_list sleeps \<le> 1500 \<and> (gone \<longleftrightarrow> remove n \<in> {None, Some RemoveNotExist})"
proof -
  have "1 \<le> n \<and> n \<le> 5 \<and> sleeps = map (\<lambda>k. k * 150) [1..<n] \<and> (gone \<longleftrightarrow> remove n \<in> {None, Some RemoveNotExist})"
    using cleanup_from_bounds [of 1 remove] assms by (simp add: cleanupEphemeralStateDir_def cleanupMaxAttempts_def cleanupRetryDelay_def)
  moreover from this have "n \<in> {1, 2, 3, 4, 5}" by auto
  ultimately show ?thesis by (auto simp: upt_rec)
qed

end
