(* ===== verification/Browser.thy ===== *)
theory Browser
  imports Run_Bridge Profiles
begin

text \<open>
  \<open>internal/browser/browser.go\<close> and \<open>RunBrowser\<close> of \<open>cmd/cli/browser_run.go\<close>: the proxy
  auto-configuration script, the arguments Edge is started with, the search for its executable, the
  server of the script, and the run that starts the browser. The script is kept both as the text
  the code writes and as the function that text defines; the property relates that function to the
  allow-list of the SOCKS5 listener. Letter case is that of ASCII.
\<close>

datatype browser_error =
    EmptyRouteList
  | ProxyAddressInvalid addr_error
  | ProxyNotLoopback
  | ProxyPortInvalid string
  | RouteSourceInvalid string
  | BrowserOriginInvalid string
  | UserDataDirRequired
  | PACURLRequired
  | StartURLNotHTTPS
  | AllowListEmpty
  | StartURLNotAllowed
  | EdgeNotFoundAt string
  | EdgeNotFound
  | PACAddressInvalid addr_error
  | PACNotLoopback
  | PACBindFailed string
  | BrowserRunFailed run_error

subsection \<open>Origins\<close>

fun route_origins :: "(string \<times> string) list \<Rightarrow> (browser_error, string list) result" where
  "route_origins [] = Inr []"
| "route_origins ((source, destination) # routes) =
     (case SplitHostPort source of
        Inl _ \<Rightarrow> Inl (RouteSourceInvalid source)
      | Inr (host, port) \<Rightarrow>
          if host = [] then Inl (RouteSourceInvalid source)
          else (case route_origins routes of
                  Inl e \<Rightarrow> Inl e
                | Inr os \<Rightarrow> Inr (JoinHostPort (ToLower host) port # os)))"

definition AllowedOrigins :: "(string \<times> string) list \<Rightarrow> (browser_error, string list) result" where
  "AllowedOrigins routes = (case route_origins routes of Inl e \<Rightarrow> Inl e | Inr os \<Rightarrow> Inr (sort_names os))"

definition normalizedHosts :: "string list \<Rightarrow> string list" where
  "normalizedHosts hosts =
     sort_names (remdups (filter (\<lambda>h. h \<noteq> []) (map (\<lambda>h. ToLower (TrimSpace h)) hosts)))"

definition containsOrigin :: "string list \<Rightarrow> string \<Rightarrow> bool" where
  "containsOrigin origins wanted = list_ex (\<lambda>origin. origin = wanted) origins"

fun unique_origins :: "string list \<Rightarrow> (browser_error, string list) result" where
  "unique_origins [] = Inr []"
| "unique_origins (origin # origins) =
     (case SplitHostPort origin of
        Inl _ \<Rightarrow> Inl (BrowserOriginInvalid origin)
      | Inr (host, port) \<Rightarrow>
          if host = [] then Inl (BrowserOriginInvalid origin)
          else (case unique_origins origins of
                  Inl e \<Rightarrow> Inl e
                | Inr os \<Rightarrow> Inr (List.insert (JoinHostPort (ToLower host) port) os)))"

definition normalizedOrigins :: "string list \<Rightarrow> (browser_error, string list) result" where
  "normalizedOrigins origins = (case unique_origins origins of Inl e \<Rightarrow> Inl e | Inr os \<Rightarrow> Inr (sort_names os))"

definition canonicalHTTPSOrigin :: "url \<Rightarrow> string" where
  "canonicalHTTPSOrigin parsed =
     JoinHostPort (ToLower (u_Hostname parsed)) (if u_Port parsed = [] then ''443'' else u_Port parsed)"

definition originsToHosts :: "string list \<Rightarrow> string list" where
  "originsToHosts origins =
     normalizedHosts (map (\<lambda>origin. case SplitHostPort origin of Inl _ \<Rightarrow> [] | Inr (host, _) \<Rightarrow> host) origins)"

text \<open>\<open>strconv.ParseUint(port, 10, 16)\<close> succeeds.\<close>

definition parse_uint16 :: "string \<Rightarrow> bool" where
  "parse_uint16 s \<longleftrightarrow> s \<noteq> [] \<and> list_all is_digit s \<and> dec_val s < 65536"

definition validateLoopbackAddress :: "string \<Rightarrow> browser_error option" where
  "validateLoopbackAddress address =
     (case SplitHostPort address of
        Inl e \<Rightarrow> Some (ProxyAddressInvalid e)
      | Inr (host, port) \<Rightarrow>
          if \<not> loopback_host host then Some ProxyNotLoopback
          else if \<not> parse_uint16 port then Some (ProxyPortInvalid port)
          else None)"

definition validatePACListener :: "string \<Rightarrow> browser_error option" where
  "validatePACListener address =
     (case SplitHostPort address of
        Inl e \<Rightarrow> Some (PACAddressInvalid e)
      | Inr (host, _) \<Rightarrow> if \<not> loopback_host host then Some PACNotLoopback else None)"

subsection \<open>The script\<close>

text \<open>\<open>strconv.Quote\<close> on ASCII; the bytes of printable characters above stay as they are.\<close>

definition bslash :: string where "bslash = [CHR 0x5C]"
definition dq :: string where "dq = [CHR 0x22]"
definition newline :: string where "newline = [CHR 0x0A]"

definition strconv_quote_char :: "char \<Rightarrow> string" where
  "strconv_quote_char c =
     (if c = CHR 0x22 \<or> c = CHR 0x5C then [CHR 0x5C, c]
      else if c = CHR 7 then bslash @ ''a'' else if c = CHR 8 then bslash @ ''b''
      else if c = CHR 12 then bslash @ ''f'' else if c = CHR 10 then bslash @ ''n''
      else if c = CHR 13 then bslash @ ''r'' else if c = CHR 9 then bslash @ ''t''
      else if c = CHR 11 then bslash @ ''v''
      else if of_char c < (32 :: nat) \<or> c = CHR 0x7F then bslash @ ''x'' @ hex_digits 2 (of_char c)
      else [c])"

definition Quote :: "string \<Rightarrow> string" where
  "Quote s = dq @ concat (map strconv_quote_char s) @ dq"

definition pac_text :: "string \<Rightarrow> string list \<Rightarrow> string" where
  "pac_text proxyAddr origins =
     ''function effectivePort(url) {'' @ newline @
     ''  var match = url.match(/^https?:'' @ bslash @ ''/'' @ bslash @ ''/(?:'' @ bslash @ ''[[^'' @ bslash @
     '']]+'' @ bslash @ '']|[^'' @ bslash @ ''/:]+):([0-9]+)(?:'' @ bslash @ ''/|$)/i);'' @ newline @
     ''  if (match) { return match[1]; }'' @ newline @
     ''  return url.toLowerCase().indexOf('' @ dq @ ''https://'' @ dq @ '') === 0 ? '' @ dq @ ''443'' @ dq @
     '' : '' @ dq @ ''80'' @ dq @ '';'' @ newline @
     ''}'' @ newline @
     ''function FindProxyForURL(url, host) {'' @ newline @
     ''  host = host.toLowerCase();'' @ newline @
     ''  var origin = host + '' @ dq @ '':'' @ dq @ '' + effectivePort(url);'' @ newline @
     ''  if ('' @ join '' || '' (map (\<lambda>origin. ''origin === '' @ Quote origin) origins) @ '') {'' @ newline @
     ''    return '' @ Quote (''SOCKS5 '' @ proxyAddr) @ '';'' @ newline @
     ''  }'' @ newline @
     ''  return '' @ dq @ ''DIRECT'' @ dq @ '';'' @ newline @
     ''}'' @ newline"

definition BuildPAC :: "string \<Rightarrow> (string \<times> string) list \<Rightarrow> (browser_error, string) result" where
  "BuildPAC proxyAddr routes =
     (if routes = [] then Inl EmptyRouteList
      else (case validateLoopbackAddress proxyAddr of
              Some e \<Rightarrow> Inl e
            | None \<Rightarrow>
                (case AllowedOrigins routes of
                   Inl e \<Rightarrow> Inl e
                 | Inr origins \<Rightarrow> Inr (pac_text proxyAddr origins))))"

text \<open>
  The function the script defines. The regular expression takes, after the scheme, either a
  bracketed run or a run without slash and colon, then a colon, a run of digits and a slash or the
  end; its first alternative is tried first.
\<close>

definition port_digits :: "string \<Rightarrow> string option" where
  "port_digits s =
     (case s of
        [] \<Rightarrow> None
      | c # cs \<Rightarrow>
          let digits = takeWhile is_digit cs; rest = dropWhile is_digit cs
          in if c = CHR '':'' \<and> digits \<noteq> [] \<and> (rest = [] \<or> hd rest = CHR ''/'') then Some digits else None)"

definition match_bracketed :: "string \<Rightarrow> string option" where
  "match_bracketed s =
     (if s = [] \<or> hd s \<noteq> CHR ''['' then None
      else let run = takeWhile (\<lambda>c. c \<noteq> CHR '']'') (tl s); rest = dropWhile (\<lambda>c. c \<noteq> CHR '']'') (tl s)
           in if run = [] \<or> rest = [] then None else port_digits (tl rest))"

definition match_plain :: "string \<Rightarrow> string option" where
  "match_plain s =
     (if takeWhile (\<lambda>c. c \<noteq> CHR ''/'' \<and> c \<noteq> CHR '':'') s = [] then None
      else port_digits (dropWhile (\<lambda>c. c \<noteq> CHR ''/'' \<and> c \<noteq> CHR '':'') s))"

definition after_scheme :: "string \<Rightarrow> string option" where
  "after_scheme s =
     (if HasPrefix (ToLower s) ''https://'' then Some (drop 8 s)
      else if HasPrefix (ToLower s) ''http://'' then Some (drop 7 s)
      else None)"

definition effectivePort :: "string \<Rightarrow> string" where
  "effectivePort s =
     (case (case after_scheme s of
              None \<Rightarrow> None
            | Some rest \<Rightarrow> (case match_bracketed rest of Some p \<Rightarrow> Some p | None \<Rightarrow> match_plain rest)) of
        Some p \<Rightarrow> p
      | None \<Rightarrow> if HasPrefix (ToLower s) ''https://'' then ''443'' else ''80'')"

definition FindProxyForURL :: "string \<Rightarrow> string list \<Rightarrow> string \<Rightarrow> string \<Rightarrow> string" where
  "FindProxyForURL proxyAddr origins s host =
     (let origin = ToLower host @ '':'' @ effectivePort s
      in if list_ex (\<lambda>o'. origin = o') origins then ''SOCKS5 '' @ proxyAddr else ''DIRECT'')"

subsection \<open>The arguments of Edge\<close>

record LaunchConfig =
  lc_UserDataDir :: string
  lc_PACURL :: string
  lc_StartURL :: string
  lc_AllowedOrigins :: "string list"

definition edge_rules :: "string list \<Rightarrow> string list" where
  "edge_rules hosts = map (\<lambda>host. ''MAP '' @ host @ '' ~NOTFOUND'') hosts @ [''EXCLUDE localhost'']"

definition EdgeArgs :: "LaunchConfig \<Rightarrow> (browser_error, string list) result" where
  "EdgeArgs cfg =
     (if lc_UserDataDir cfg = [] then Inl UserDataDirRequired
      else if lc_PACURL cfg = [] then Inl PACURLRequired
      else (case url_Parse (lc_StartURL cfg) of
              None \<Rightarrow> Inl StartURLNotHTTPS
            | Some startURL \<Rightarrow>
                if u_scheme startURL \<noteq> ''https'' \<or> u_Hostname startURL = [] then Inl StartURLNotHTTPS
                else (case normalizedOrigins (lc_AllowedOrigins cfg) of
                        Inl _ \<Rightarrow> Inl AllowListEmpty
                      | Inr origins \<Rightarrow>
                          if origins = [] then Inl AllowListEmpty
                          else if \<not> containsOrigin origins (canonicalHTTPSOrigin startURL) then Inl StartURLNotAllowed
                          else Inr [''--user-data-dir='' @ lc_UserDataDir cfg,
                                    ''--proxy-pac-url='' @ lc_PACURL cfg,
                                    ''--host-resolver-rules='' @ join '', '' (edge_rules (originsToHosts origins)),
                                    ''--no-first-run'',
                                    lc_StartURL cfg])))"

subsection \<open>Finding and starting Edge\<close>

record edgeSearch =
  es_names :: "string list"
  es_paths :: "string list"

definition edgeSearchFor :: "string \<Rightarrow> string \<Rightarrow> (string \<Rightarrow> string) \<Rightarrow> edgeSearch" where
  "edgeSearchFor goos home getenv =
     (if goos = ''windows'' then
        \<lparr>es_names = [''msedge''],
         es_paths = map (\<lambda>root. Join [root, ''Microsoft'', ''Edge'', ''Application'', ''msedge.exe''])
           (filter (\<lambda>root. root \<noteq> []) [getenv ''PROGRAMFILES(X86)'', getenv ''PROGRAMFILES''])\<rparr>
      else if goos = ''darwin'' then
        (let bundle = Join [''Microsoft Edge.app'', ''Contents'', ''MacOS'', ''Microsoft Edge'']
         in \<lparr>es_names = [],
             es_paths = Join [''/Applications'', bundle] #
               (if home \<noteq> [] then [Join [home, ''Applications'', bundle]] else [])\<rparr>)
      else \<lparr>es_names = [''microsoft-edge'', ''microsoft-edge-stable''], es_paths = []\<rparr>)"

fun first_found :: "('a \<Rightarrow> 'b option) \<Rightarrow> 'a list \<Rightarrow> 'b option" where
  "first_found f [] = None"
| "first_found f (x # xs) = (case f x of Some y \<Rightarrow> Some y | None \<Rightarrow> first_found f xs)"

definition findEdgeIn ::
  "string \<Rightarrow> edgeSearch \<Rightarrow> (string \<Rightarrow> string option) \<Rightarrow> (string \<Rightarrow> bool) \<Rightarrow> (browser_error, string) result" where
  "findEdgeIn explicitPath search lookPath isFile =
     (if explicitPath \<noteq> [] then
        (if \<not> isFile explicitPath then Inl (EdgeNotFoundAt explicitPath) else Inr explicitPath)
      else (case first_found lookPath (es_names search) of
              Some path \<Rightarrow> Inr path
            | None \<Rightarrow>
                (case find isFile (es_paths search) of
                   Some path \<Rightarrow> Inr path
                 | None \<Rightarrow> Inl EdgeNotFound)))"

text \<open>The machine Edge runs on. A listener is the address it was bound to, or an error.\<close>

record browser_env =
  be_goos :: string
  be_home :: string
  be_getenv :: "string \<Rightarrow> string"
  be_lookPath :: "string \<Rightarrow> string option"
  be_isFile :: "string \<Rightarrow> bool"
  be_listen :: "string \<Rightarrow> (string, string) result"
  be_start :: "string \<Rightarrow> string list \<Rightarrow> string option"

definition FindEdge :: "browser_env \<Rightarrow> string \<Rightarrow> (browser_error, string) result" where
  "FindEdge b explicitPath =
     findEdgeIn explicitPath (edgeSearchFor (be_goos b) (be_home b) (be_getenv b)) (be_lookPath b) (be_isFile b)"

text \<open>The error of \<open>StartEdge\<close>, as the callback of the run wraps it.\<close>

definition StartEdge :: "browser_env \<Rightarrow> string \<Rightarrow> string list \<Rightarrow> string option" where
  "StartEdge b path args = map_option (\<lambda>e. ''start Edge: '' @ e) (be_start b path args)"

text \<open>A running server: its listener, and the answer of its only route.\<close>

record pac_server =
  ps_listener :: string
  ps_headers :: "(string \<times> string) list"
  ps_body :: string

definition StartPACServer :: "browser_env \<Rightarrow> string \<Rightarrow> string \<Rightarrow> (browser_error, pac_server \<times> string) result" where
  "StartPACServer b address pac =
     (case validatePACListener address of
        Some e \<Rightarrow> Inl e
      | None \<Rightarrow>
          (case be_listen b address of
             Inl e \<Rightarrow> Inl (PACBindFailed e)
           | Inr addr \<Rightarrow>
               Inr (\<lparr>ps_listener = addr,
                     ps_headers = [(''Content-Type'', ''application/x-ns-proxy-autoconfig''), (''Cache-Control'', ''no-store'')],
                     ps_body = pac\<rparr>,
                    ''http://'' @ addr @ ''/proxy.pac'')))"

subsection \<open>Running the browser\<close>

record BrowserOptions =
  bo_StartURL :: string
  bo_UserDataDir :: string
  bo_EdgePath :: string
  bo_PACAddr :: string

text \<open>
  What a run leaves: the error, the PAC server that was up while it lasted, and the command line
  Edge was started with. The callback is called once the READY line is out.
\<close>

record browser_run =
  br_error :: "browser_error option"
  br_server :: "pac_server option"
  br_edge :: "(string \<times> string list) option"
  br_trace :: "run_event list"
  br_disk :: disk

definition is_ready_line :: "run_event \<Rightarrow> bool" where
  "is_ready_line ev = (case ev of ReadyLine _ \<Rightarrow> True | _ \<Rightarrow> False)"

definition failed_run :: "browser_error \<Rightarrow> pac_server option \<Rightarrow> disk \<Rightarrow> browser_run" where
  "failed_run e srv d = \<lparr>br_error = Some e, br_server = srv, br_edge = None, br_trace = [], br_disk = d\<rparr>"

definition RunBrowser ::
  "browser_env \<Rightarrow> run_env \<Rightarrow> Config \<Rightarrow> BrowserOptions \<Rightarrow> disk \<Rightarrow> browser_run option" where
  "RunBrowser b v cfg opts d =
     (case BuildPAC (c_SOCKS5Addr cfg) (c_SOCKS5Routes cfg) of
        Inl e \<Rightarrow> Some (failed_run e None d)
      | Inr pac \<Rightarrow>
          (case AllowedOrigins (c_SOCKS5Routes cfg) of
             Inl e \<Rightarrow> Some (failed_run e None d)
           | Inr origins \<Rightarrow>
               (case StartPACServer b (bo_PACAddr opts) pac of
                  Inl e \<Rightarrow> Some (failed_run e None d)
                | Inr (srv, pacURL) \<Rightarrow>
                    (case FindEdge b (bo_EdgePath opts) of
                       Inl e \<Rightarrow> Some (failed_run e (Some srv) d)
                     | Inr path \<Rightarrow>
                         (case EdgeArgs \<lparr>lc_UserDataDir = bo_UserDataDir opts, lc_PACURL = pacURL,
                                  lc_StartURL = bo_StartURL opts, lc_AllowedOrigins = origins\<rparr> of
                            Inl e \<Rightarrow> Some (failed_run e (Some srv) d)
                          | Inr args \<Rightarrow>
                              (case run (v\<lparr>rv_onReady := Some (map_option (\<lambda>e. ''launch isolated browser: '' @ e)
                                            (StartEdge b path args))\<rparr>) (be_goos b) cfg d of
                                 None \<Rightarrow> None
                               | Some (err, tr, d1) \<Rightarrow>
                                   Some \<lparr>br_error = map_option BrowserRunFailed err, br_server = Some srv,
                                     br_edge = (if list_ex is_ready_line tr then Some (path, args) else None),
                                     br_trace = tr, br_disk = d1\<rparr>))))))"

subsection \<open>The origins that are allowed\<close>

text \<open>The pairs of host and port, in lower case, that the routes have as their sources.\<close>

definition route_pairs :: "(string \<times> string) list \<Rightarrow> (string \<times> string) set" where
  "route_pairs routes = {(ToLower h, p) | h p. \<exists>s \<in> fst ` set routes. SplitHostPort s = Inr (h, p)}"

lemma route_origins_set:
  "route_origins routes = Inr os \<Longrightarrow> set os = (\<lambda>(h, p). JoinHostPort h p) ` route_pairs routes"
proof (induction routes arbitrary: os)
  case Nil
  then show ?case by (simp add: route_pairs_def)
next
  case (Cons r routes)
  obtain src dst where r: "r = (src, dst)" by fastforce
  obtain h p os' where h: "SplitHostPort src = Inr (h, p)" "route_origins routes = Inr os'" "os = JoinHostPort (ToLower h) p # os'"
    using Cons.prems by (auto simp: r split: sum.splits if_splits)
  have "route_pairs (r # routes) = insert (ToLower h, p) (route_pairs routes)"
    using h(1) by (auto simp: route_pairs_def r)
  then show ?case using Cons.IH [OF h(2)] h(3) by simp
qed

lemma AllowedOrigins_set:
  "AllowedOrigins routes = Inr os \<Longrightarrow> set os = (\<lambda>(h, p). JoinHostPort h p) ` route_pairs routes"
  using route_origins_set [of routes] by (auto simp: AllowedOrigins_def split: sum.splits)

lemma to_lower_char_other:
  assumes "\<not> (65 \<le> (of_char d :: nat) \<and> of_char d \<le> (90 :: nat))" "\<not> (97 \<le> (of_char d :: nat) \<and> of_char d \<le> (122 :: nat))"
  shows "to_lower_char c = d \<longleftrightarrow> c = d"
proof (cases "65 \<le> (of_char c :: nat) \<and> of_char c \<le> (90 :: nat)")
  case True
  then have "of_char (to_lower_char c) = (of_char c :: nat) + 32" by (simp add: to_lower_char_def)
  then have "to_lower_char c \<noteq> d" "c \<noteq> d" using assms True by auto
  then show ?thesis by simp
next
  case False
  then show ?thesis by (auto simp: to_lower_char_def)
qed

lemma set_ToLower_other:
  "\<not> (65 \<le> (of_char d :: nat) \<and> of_char d \<le> (90 :: nat)) \<Longrightarrow> \<not> (97 \<le> (of_char d :: nat) \<and> of_char d \<le> (122 :: nat)) \<Longrightarrow>
   d \<in> set (ToLower s) \<longleftrightarrow> d \<in> set s"
  using to_lower_char_other [of d] by (force simp: ToLower_def)

lemma ToLower_marks [simp]:
  "CHR ''['' \<in> set (ToLower s) \<longleftrightarrow> CHR ''['' \<in> set s" "CHR '']'' \<in> set (ToLower s) \<longleftrightarrow> CHR '']'' \<in> set s"
  "CHR '':'' \<in> set (ToLower s) \<longleftrightarrow> CHR '':'' \<in> set s"
  by (simp_all add: set_ToLower_other)

lemma route_pairs_chars: "(h, p) \<in> route_pairs routes \<Longrightarrow> host_chars h \<and> port_chars p \<and> ToLower h = h"
  by (auto simp: route_pairs_def host_chars_def dest!: SplitHostPort_no_brackets)

lemma route_pairs_split: "(h, p) \<in> route_pairs routes \<Longrightarrow> SplitHostPort (JoinHostPort h p) = Inr (h, p)"
  by (simp add: SplitHostPort_JoinHostPort route_pairs_chars)

text \<open>Normalising the origins of the routes once more changes nothing.\<close>

lemma unique_origins_set:
  assumes "set os \<subseteq> (\<lambda>(h, p). JoinHostPort h p) ` route_pairs routes" "unique_origins os = Inr us"
  shows "set us = set os"
  using assms
proof (induction os arbitrary: us)
  case (Cons x os)
  obtain h p where x: "x = JoinHostPort h p" "(h, p) \<in> route_pairs routes" using Cons.prems(1) by auto
  have "SplitHostPort x = Inr (h, p)" "ToLower h = h" using x route_pairs_split route_pairs_chars by blast+
  then obtain us' where us: "unique_origins os = Inr us'" "us = List.insert x us'"
    using Cons.prems(2) x(1) by (auto split: sum.splits if_splits)
  have "set us' = set os" using Cons.IH [OF _ us(1)] Cons.prems(1) by simp
  then show ?case by (simp add: us(2))
qed simp

lemma JoinHostPort_inj:
  assumes "host_chars h" "port_chars p" "host_chars h'" "port_chars p'" "JoinHostPort h p = JoinHostPort h' p'"
  shows "h = h' \<and> p = p'"
proof -
  have "SplitHostPort (JoinHostPort h' p') = Inr (h, p)"
    using SplitHostPort_JoinHostPort [OF assms(1,2)] unfolding assms(5) .
  then show ?thesis using SplitHostPort_JoinHostPort [OF assms(3,4)] by simp
qed

subsection \<open>The arguments\<close>

lemma getScheme_dash: "getScheme (CHR ''-'' # s) = Some ([], CHR ''-'' # s)"
  by (simp add: getScheme_def is_alpha_def is_digit_def)

lemma set_path_scheme: "set_path p u = Some u' \<Longrightarrow> u_scheme u' = u_scheme u"
  by (auto simp: set_path_def split: option.splits if_splits)

lemma set_fragment_scheme: "set_fragment p u = Some u' \<Longrightarrow> u_scheme u' = u_scheme u"
  by (auto simp: set_fragment_def split: option.splits if_splits)

lemma parse_no_frag_scheme:
  assumes "parse_no_frag raw = Some u" "getScheme raw = Some ([], rest)"
  shows "u_scheme u = []"
  using assms by (auto simp: parse_no_frag_def Let_def empty_url_def dest!: set_path_scheme split: if_splits prod.splits option.splits)

lemma url_Parse_dash: "url_Parse (CHR ''-'' # s) = Some u \<Longrightarrow> u_scheme u = []"
proof -
  assume u: "url_Parse (CHR ''-'' # s) = Some u"
  obtain a frag b where c: "cut CHR ''#'' s = (a, frag, b)" by (metis prod.exhaust)
  then obtain r where "parse_no_frag (CHR ''-'' # a) = Some r" "u_scheme u = u_scheme r"
    using u by (auto simp: url_Parse_def dest: set_fragment_scheme split: option.splits if_splits)
  then show ?thesis using parse_no_frag_scheme [OF _ getScheme_dash] by metis
qed

lemma EdgeArgs_sound:
  assumes "EdgeArgs cfg = Inr args" "AllowedOrigins routes = Inr (lc_AllowedOrigins cfg)"
  obtains u rules where "url_Parse (lc_StartURL cfg) = Some u" "u_scheme u = ''https''" "u_Hostname u \<noteq> []"
    "canonicalHTTPSOrigin u \<in> (\<lambda>(h, p). JoinHostPort h p) ` route_pairs routes"
    "args = [''--user-data-dir='' @ lc_UserDataDir cfg, ''--proxy-pac-url='' @ lc_PACURL cfg,
       ''--host-resolver-rules='' @ rules, ''--no-first-run'', lc_StartURL cfg]"
proof -
  obtain u os where u: "url_Parse (lc_StartURL cfg) = Some u" "u_scheme u = ''https''" "u_Hostname u \<noteq> []"
    "unique_origins (lc_AllowedOrigins cfg) = Inr os" "canonicalHTTPSOrigin u \<in> set os"
    and args: "args = [''--user-data-dir='' @ lc_UserDataDir cfg, ''--proxy-pac-url='' @ lc_PACURL cfg,
       ''--host-resolver-rules='' @ join '', '' (edge_rules (originsToHosts (sort_names os))), ''--no-first-run'', lc_StartURL cfg]"
    using assms(1) by (auto simp: EdgeArgs_def normalizedOrigins_def containsOrigin_def list_ex_iff
        simp del: append.simps split: if_splits option.splits sum.splits)
  have "set os = (\<lambda>(h, p). JoinHostPort h p) ` route_pairs routes"
    using unique_origins_set [OF _ u(4), of routes] AllowedOrigins_set [OF assms(2)] by simp
  then show thesis using that [OF u(1-3) _ args] u(5) by simp
qed

subsection \<open>The script and the allow-list\<close>

text \<open>A URL as the browser hands it to the script: the port is there unless it is that of HTTPS.\<close>

definition https_url :: "string \<Rightarrow> int \<Rightarrow> string \<Rightarrow> string" where
  "https_url host port path =
     ''https://'' @ host @ (if port = 443 then [] else '':'' @ Itoa port) @ ''/'' @ path"

definition plain_host :: "string \<Rightarrow> bool" where
  "plain_host h \<longleftrightarrow> h \<noteq> [] \<and> CHR ''/'' \<notin> set h \<and> CHR '':'' \<notin> set h \<and> CHR ''['' \<notin> set h"

lemma after_scheme_https: "after_scheme (''https://'' @ s) = Some s"
proof -
  have "HasPrefix (ToLower (''https://'' @ s)) ''https://''" by (simp add: ToLower_def to_lower_char_def)
  then show ?thesis by (simp add: after_scheme_def)
qed

lemma match_plain_host:
  assumes "plain_host h" "c = CHR ''/'' \<or> c = CHR '':''"
  shows "match_plain (h @ c # s) = port_digits (c # s)" "match_bracketed (h @ c # s) = None"
proof -
  have "\<forall>x \<in> set h. x \<noteq> CHR ''/'' \<and> x \<noteq> CHR '':''" using assms(1) by (auto simp: plain_host_def)
  then have "takeWhile (\<lambda>c. c \<noteq> CHR ''/'' \<and> c \<noteq> CHR '':'') (h @ c # s) = h"
    "dropWhile (\<lambda>c. c \<noteq> CHR ''/'' \<and> c \<noteq> CHR '':'') (h @ c # s) = c # s"
    using assms(2) by (auto simp: takeWhile_append dropWhile_append)
  then show "match_plain (h @ c # s) = port_digits (c # s)" using assms(1) by (simp add: match_plain_def plain_host_def)
  have "hd (h @ c # s) \<noteq> CHR ''[''" using assms(1) by (cases h) (auto simp: plain_host_def)
  then show "match_bracketed (h @ c # s) = None" by (simp add: match_bracketed_def)
qed

lemma port_digits_Itoa: "0 \<le> n \<Longrightarrow> port_digits (CHR '':'' # Itoa n @ CHR ''/'' # s) = Some (Itoa n)"
proof -
  assume "0 \<le> n"
  then have d: "\<forall>c \<in> set (Itoa n). is_digit c" using Itoa_nonneg_digits by blast
  have "takeWhile is_digit (Itoa n @ CHR ''/'' # s) = Itoa n" "dropWhile is_digit (Itoa n @ CHR ''/'' # s) = CHR ''/'' # s"
    using d by (auto simp: takeWhile_append dropWhile_append is_digit_def)
  then show ?thesis by (simp add: port_digits_def)
qed

lemma effectivePort_https:
  assumes "plain_host h" "0 \<le> n"
  shows "effectivePort (https_url h n path) = Itoa n"
proof (cases "n = 443")
  case True
  have "HasPrefix (ToLower (''https://'' @ h @ CHR ''/'' # path)) ''https://''" by (simp add: ToLower_def to_lower_char_def)
  moreover have "port_digits (CHR ''/'' # path) = None" by (simp add: port_digits_def)
  moreover have "Itoa 443 = ''443''" by code_simp
  ultimately show ?thesis
    using match_plain_host [OF assms(1), of "CHR ''/''" path] after_scheme_https [of "h @ CHR ''/'' # path"] True
    by (simp add: effectivePort_def https_url_def)
next
  case False
  then show ?thesis
    using match_plain_host [OF assms(1), of "CHR '':''" "Itoa n @ CHR ''/'' # path"] assms(2)
      after_scheme_https [of "h @ CHR '':'' # Itoa n @ CHR ''/'' # path"]
    by (simp add: effectivePort_def https_url_def port_digits_Itoa)
qed

text \<open>Ports written as the allow-list writes them.\<close>

definition canonical_ports :: "(string \<times> string) list \<Rightarrow> bool" where
  "canonical_ports routes \<longleftrightarrow>
     (\<forall>src \<in> fst ` set routes. \<forall>h p n. SplitHostPort src = Inr (h, p) \<longrightarrow> Atoi p = Some n \<longrightarrow> p = Itoa n)"

lemma normalize_routes_dom:
  "normalize_routes routes M = Inr N \<Longrightarrow> canonical_ports routes \<Longrightarrow>
   dom N = dom M \<union> (\<lambda>(h, p). JoinHostPort h p) ` route_pairs routes"
proof (induction routes M rule: normalize_routes.induct)
  case (1 M)
  then show ?case by (simp add: route_pairs_def)
next
  case (2 src dst routes M)
  obtain k where k: "normalizeSOCKSAddress src = Inr k" "normalize_routes routes (M(k \<mapsto> dst)) = Inr N"
    using 2(2) by (auto split: sum.splits)
  obtain d where d: "normalizeSOCKSAddress dst = Inr d" using 2(2) k(1) by (auto split: sum.splits)
  obtain h p n where h: "SplitHostPort src = Inr (h, p)" "Atoi p = Some n" "k = JoinHostPort (ToLower h) (Itoa n)"
    using k(1) by (auto simp: normalizeSOCKSAddress_def split: sum.splits if_splits option.splits)
  have "p = Itoa n" using 2(3) h(1,2) by (simp add: canonical_ports_def)
  then have "route_pairs ((src, dst) # routes) = insert (ToLower h, Itoa n) (route_pairs routes)"
    using h(1) by (auto simp: route_pairs_def)
  moreover have "canonical_ports routes" using 2(3) by (simp add: canonical_ports_def)
  ultimately show ?case using 2(1) [OF k(1) d k(2)] h(3) by auto
qed

lemma FindProxyForURL_https:
  assumes "plain_host h" "0 \<le> n"
  shows "FindProxyForURL addr os (https_url h n path) h =
    (if JoinHostPort (ToLower h) (Itoa n) \<in> set os then ''SOCKS5 '' @ addr else ''DIRECT'')"
  using assms by (simp add: FindProxyForURL_def effectivePort_https JoinHostPort_def plain_host_def list_ex_iff)


definition sample_browser_routes :: "(string \<times> string) list" where
  "sample_browser_routes = [(''Git.Corp:443'', ''10.0.0.2:443''), (''wiki:8443'', ''10.0.0.3:443'')]"

lemma sample_browser_origins: "AllowedOrigins sample_browser_routes = Inr [''git.corp:443'', ''wiki:8443'']"
  by code_simp

lemma sample_browser_canonical: "canonical_ports sample_browser_routes"
proof -
  have "SplitHostPort ''Git.Corp:443'' = Inr (''Git.Corp'', ''443'')" "SplitHostPort ''wiki:8443'' = Inr (''wiki'', ''8443'')"
    "Atoi ''443'' = Some 443" "Atoi ''8443'' = Some 8443" "Itoa 443 = ''443''" "Itoa 8443 = ''8443''" by code_simp+
  then show ?thesis by (simp add: canonical_ports_def sample_browser_routes_def)
qed


text \<open>
  A port written with a leading zero passes every check of the routes; the allow-list resolves it,
  the script does not.
\<close>

lemma padded_port_goes_direct:
  "validateSOCKS5Routes [(''wiki:08443'', ''10.0.0.3:443'')] = None \<and>
   (case NewAllowlistSOCKSTarget [(''wiki:08443'', ''10.0.0.3:443'')] of Inl _ \<Rightarrow> False | Inr resolve \<Rightarrow> resolve ''wiki'' 8443 = Inr ''10.0.0.3:443'') \<and>
   (case AllowedOrigins [(''wiki:08443'', ''10.0.0.3:443'')] of Inl _ \<Rightarrow> False
    | Inr origins \<Rightarrow> FindProxyForURL ''127.0.0.1:1080'' origins ''https://wiki:8443/'' ''wiki'' = ''DIRECT'')"
  by code_simp

subsection \<open>What Edge is started with\<close>

definition loopback_endpoint :: "string \<Rightarrow> bool" where
  "loopback_endpoint addr \<longleftrightarrow> (case SplitHostPort addr of Inl _ \<Rightarrow> False | Inr (host, _) \<Rightarrow> loopback_host host)"

lemma BuildPAC_Inr:
  assumes "BuildPAC addr routes = Inr pac"
  shows "AllowedOrigins routes = Inr origins \<Longrightarrow> pac = pac_text addr origins" "loopback_endpoint addr"
  using assms
  by (auto simp: BuildPAC_def validateLoopbackAddress_def loopback_endpoint_def split: if_splits option.splits sum.splits)

lemma StartPACServer_Inr:
  assumes "StartPACServer b addr pac = Inr (srv, pacURL)"
  shows "pacURL = ''http://'' @ ps_listener srv @ ''/proxy.pac''" "ps_body srv = pac" "loopback_endpoint addr"
  using assms
  by (auto simp: StartPACServer_def validatePACListener_def loopback_endpoint_def split: if_splits option.splits sum.splits)

text \<open>
  C9: When Edge is started, its last argument is the start URL, an absolute HTTPS URL whose host and
  port are the source of one of the routes; it cannot be taken for an option, and every other
  argument is one the code wrote. The script it loads is the one for exactly those routes, and both
  the proxy it names and the server it is loaded from listen on loopback.
\<close>

theorem browser_launch_confined:
  assumes "RunBrowser b v cfg opts d = Some r" "br_edge r = Some (path, args)"
  shows "\<exists>u src dst h p pacURL rules srv origins.
    url_Parse (bo_StartURL opts) = Some u \<and> u_scheme u = ''https'' \<and> u_Hostname u \<noteq> [] \<and>
    (src, dst) \<in> set (c_SOCKS5Routes cfg) \<and> SplitHostPort src = Inr (h, p) \<and>
    canonicalHTTPSOrigin u = JoinHostPort (ToLower h) p \<and>
    args = [''--user-data-dir='' @ bo_UserDataDir opts, ''--proxy-pac-url='' @ pacURL,
      ''--host-resolver-rules='' @ rules, ''--no-first-run'', bo_StartURL opts] \<and> \<not> HasPrefix (bo_StartURL opts) ''-'' \<and>
    br_server r = Some srv \<and> pacURL = ''http://'' @ ps_listener srv @ ''/proxy.pac'' \<and>
    AllowedOrigins (c_SOCKS5Routes cfg) = Inr origins \<and> ps_body srv = pac_text (c_SOCKS5Addr cfg) origins \<and>
    loopback_endpoint (c_SOCKS5Addr cfg) \<and> loopback_endpoint (bo_PACAddr opts)"
proof -
  obtain pac origins srv pacURL where
    pac: "BuildPAC (c_SOCKS5Addr cfg) (c_SOCKS5Routes cfg) = Inr pac" and o1: "AllowedOrigins (c_SOCKS5Routes cfg) = Inr origins" and
    srv: "StartPACServer b (bo_PACAddr opts) pac = Inr (srv, pacURL)" "br_server r = Some srv" and
    args: "EdgeArgs \<lparr>lc_UserDataDir = bo_UserDataDir opts, lc_PACURL = pacURL, lc_StartURL = bo_StartURL opts,
      lc_AllowedOrigins = origins\<rparr> = Inr args"
    using assms by (auto simp: RunBrowser_def failed_run_def split: sum.splits prod.splits option.splits if_splits)
  obtain u rules where u: "url_Parse (bo_StartURL opts) = Some u" "u_scheme u = ''https''" "u_Hostname u \<noteq> []"
    "canonicalHTTPSOrigin u \<in> (\<lambda>(h, p). JoinHostPort h p) ` route_pairs (c_SOCKS5Routes cfg)"
    "args = [''--user-data-dir='' @ bo_UserDataDir opts, ''--proxy-pac-url='' @ pacURL,
       ''--host-resolver-rules='' @ rules, ''--no-first-run'', bo_StartURL opts]"
    by (rule EdgeArgs_sound [OF args, of "c_SOCKS5Routes cfg"]) (simp_all add: o1)
  obtain src dst h p where s: "(src, dst) \<in> set (c_SOCKS5Routes cfg)" "SplitHostPort src = Inr (h, p)"
    "canonicalHTTPSOrigin u = JoinHostPort (ToLower h) p"
    using u(4) by (auto simp: route_pairs_def)
  have dash: "\<not> HasPrefix (bo_StartURL opts) ''-''"
  proof
    assume "HasPrefix (bo_StartURL opts) ''-''"
    then obtain t where "bo_StartURL opts = CHR ''-'' # t" by (auto simp: HasPrefix_iff)
    then show False using url_Parse_dash u(1,2) by fastforce
  qed
  note pacs = StartPACServer_Inr [OF srv(1)] BuildPAC_Inr [OF pac]
  show ?thesis
    using u(1-3,5) s dash srv(2) o1 pacs by blast
qed

definition sample_browser_env :: browser_env where
  "sample_browser_env = \<lparr>be_goos = ''linux'', be_home = ''/h'', be_getenv = (\<lambda>_. []),
     be_lookPath = (\<lambda>n. if n = ''microsoft-edge-stable'' then Some ''/usr/bin/edge'' else None), be_isFile = (\<lambda>_. False),
     be_listen = (\<lambda>_. Inr ''127.0.0.1:9''), be_start = (\<lambda>_ _. None)\<rparr>"

definition sample_browser_options :: BrowserOptions where
  "sample_browser_options = \<lparr>bo_StartURL = ''https://WIKI:8443/x'', bo_UserDataDir = ''/u'', bo_EdgePath = [], bo_PACAddr = ''127.0.0.1:0''\<rparr>"

definition sample_browser_config :: Config where
  "sample_browser_config = quiet_config\<lparr>c_Target := [], c_SOCKS5Addr := ''127.0.0.1:1080'', c_SOCKS5Routes := sample_browser_routes\<rparr>"

definition sample_edge_args :: "string list" where
  "sample_edge_args = [''--user-data-dir=/u'', ''--proxy-pac-url=http://127.0.0.1:9/proxy.pac'',
     ''--host-resolver-rules=MAP git.corp ~NOTFOUND, MAP wiki ~NOTFOUND, EXCLUDE localhost'', ''--no-first-run'', ''https://WIKI:8443/x'']"

lemma sample_browser_run:
  "map_option br_edge (RunBrowser sample_browser_env quiet_env sample_browser_config sample_browser_options quiet_disk) =
     Some (Some (''/usr/bin/edge'', sample_edge_args))"
  by code_simp

theorem browser_launch_confined_witness:
  "\<exists>r u. RunBrowser sample_browser_env quiet_env sample_browser_config sample_browser_options quiet_disk = Some r \<and>
     br_edge r = Some (''/usr/bin/edge'', sample_edge_args) \<and> url_Parse ''https://WIKI:8443/x'' = Some u \<and> u_scheme u = ''https''"
proof -
  obtain r where r: "RunBrowser sample_browser_env quiet_env sample_browser_config sample_browser_options quiet_disk = Some r"
    "br_edge r = Some (''/usr/bin/edge'', sample_edge_args)" using sample_browser_run by (auto simp: map_option_eq_Some)
  from browser_launch_confined [OF r]
  have "\<exists>u. url_Parse (bo_StartURL sample_browser_options) = Some u \<and> u_scheme u = ''https''" by blast
  then show ?thesis using r by (simp add: sample_browser_options_def)
qed

end
