(* ===== verification/Browser_Cmd.thy ===== *)
theory Browser_Cmd
  imports Browser Connect
begin

text \<open>
  \<open>cmd/cli/browser.go\<close>: the command that resolves the configuration of a browser run and hands it to
  \<open>RunBrowser\<close>. It shares the key file, the profile and the merge with the connect command.
\<close>

subsection \<open>The command\<close>

text \<open>
  The flags, with \<open>None\<close> for \<open>--socks5\<close> and \<open>--verbose\<close> that were not given; the errors are those
  of the connect command and a few of its own.
\<close>

record browser_cli =
  bc_url :: string
  bc_userDataDir :: string
  bc_edgePath :: string
  bc_pacAddr :: string
  bc_socks5 :: "string option"
  bc_routes :: "string list"
  bc_authKeyFile :: string
  bc_profile :: string
  bc_controlURL :: string
  bc_hostname :: string
  bc_stateDir :: string
  bc_timeout :: int
  bc_dialTimeout :: int
  bc_config :: string
  bc_verbose :: "bool option"

datatype browser_cmd_error =
    BrowserNeedsKey
  | BrowserConnect connect_error
  | BrowserNoCredential string
  | BrowserMerge config_error
  | BrowserNeedsRoute
  | BrowserURLRequired

definition collectBrowserFlags ::
  "cmd_ctx \<Rightarrow> browser_cli \<Rightarrow> disk \<Rightarrow> (browser_cmd_error, FlagSet) result \<times> disk" where
  "collectBrowserFlags x c d =
     (let flags = zero_flags\<lparr>g_SOCKS5Addr := (case bc_socks5 c of None \<Rightarrow> [] | Some a \<Rightarrow> a),
            g_SOCKS5Routes := bc_routes c, g_AuthKeyFile := bc_authKeyFile c, g_ControlURL := bc_controlURL c,
            g_Hostname := bc_hostname c, g_StateDir := bc_stateDir c, g_Timeout := bc_timeout c,
            g_DialTimeout := bc_dialTimeout c, g_Config := bc_config c, g_Verbose := bc_verbose c\<rparr>
      in if bc_authKeyFile c = [] then (Inr flags, d)
         else (case readAuthKeyFile x (bc_authKeyFile c) d of
                 (Inl e, d1) \<Rightarrow> (Inl (BrowserConnect e), d1)
               | (Inr key, d1) \<Rightarrow> (Inr (flags\<lparr>g_AuthKey := key\<rparr>), d1)))"

definition browser_layer :: "PartialConfig \<Rightarrow> profileEntry \<Rightarrow> PartialConfig" where
  "browser_layer y selected =
     applyProfileRuntime (y\<lparr>y_ControlURL := fill (y_ControlURL y) (pe_ControlURL selected)\<rparr>) selected"

definition applyBrowserProfile ::
  "cmd_ctx \<Rightarrow> os_env \<Rightarrow> PartialConfig \<Rightarrow> FlagSet \<Rightarrow> string \<Rightarrow> disk \<Rightarrow>
   (browser_cmd_error, PartialConfig \<times> FlagSet) result \<times> disk" where
  "applyBrowserProfile x E y g profileName d =
     (if profileName = [] then (Inr (y, g), d)
      else (case loadCommandProfile x profileName d of
              (Inl e, d1) \<Rightarrow> (Inl (BrowserConnect e), d1)
            | (Inr selected, d1) \<Rightarrow>
                (if g_AuthKey g = [] then
                   (case loadBoundProfileCredential x E profileName selected g y d1 of
                      (Inl e, d2) \<Rightarrow> (Inl (BrowserConnect e), d2)
                    | (Inr key, d2) \<Rightarrow>
                        if key = [] then (Inl (BrowserNoCredential profileName), d2)
                        else (Inr (browser_layer y selected, g\<lparr>g_AuthKey := key\<rparr>), d2))
                 else (Inr (browser_layer y selected, g), d1))))"

definition warnIgnoredBrowserEnvCredential :: "os_env \<Rightarrow> string \<Rightarrow> string \<Rightarrow> bool" where
  "warnIgnoredBrowserEnvCredential E authKeyFile profileName \<longleftrightarrow>
     \<not> (profileName = [] \<or> authKeyFile \<noteq> [] \<or> Getenv E ''TS_AUTHKEY'' = [])"

definition defaultBrowserSOCKS :: string where "defaultBrowserSOCKS = ''127.0.0.1:1080''"

text \<open>The configuration, and whether the warning is printed.\<close>

definition finish_browser :: "os_env \<Rightarrow> PartialConfig \<Rightarrow> FlagSet \<Rightarrow> (browser_cmd_error, Config) result" where
  "finish_browser E y g =
     (let g1 = (if g_SOCKS5Addr g = [] \<and> y_SOCKS5Addr y = [] \<and> Getenv E ''TS_SOCKS5_ADDR'' = []
                then g\<lparr>g_SOCKS5Addr := defaultBrowserSOCKS\<rparr> else g)
      in case Merge E y g1 of
           Inl e \<Rightarrow> Inl (BrowserMerge e)
         | Inr cfg \<Rightarrow>
             if c_SOCKS5Addr cfg = [] \<or> c_SOCKS5Routes cfg = [] then Inl BrowserNeedsRoute else Inr cfg)"

definition resolveBrowserConfig ::
  "cmd_ctx \<Rightarrow> os_env \<Rightarrow> browser_cli \<Rightarrow> disk \<Rightarrow> (browser_cmd_error, Config \<times> bool) result \<times> disk" where
  "resolveBrowserConfig x E c d =
     (if bc_authKeyFile c = [] \<and> bc_profile c = [] then (Inl BrowserNeedsKey, d)
      else (case collectBrowserFlags x c d of
        (Inl e, d1) \<Rightarrow> (Inl e, d1)
      | (Inr g, d1) \<Rightarrow>
          (case envfile_Load (os_path x ''.env'') E d1 of
             (Inl e, d2) \<Rightarrow> (Inl (BrowserConnect (LoadEnvFile e)), d2)
           | (Inr E', d2) \<Rightarrow>
               (case LoadYAMLConfig (x_yaml x) (if g_Config g = [] then [] else os_path x (g_Config g)) d2 of
                  (Inl e, d3) \<Rightarrow> (Inl (BrowserConnect (LoadYAMLFile e)), d3)
                | (Inr y, d3) \<Rightarrow>
                    (case applyBrowserProfile x E' y g (bc_profile c) d3 of
                       (Inl e, d4) \<Rightarrow> (Inl e, d4)
                     | (Inr (y', g'), d4) \<Rightarrow>
                         (case finish_browser E' y' g' of
                            Inl e \<Rightarrow> (Inl e, d4)
                          | Inr cfg \<Rightarrow>
                              (Inr (cfg, warnIgnoredBrowserEnvCredential E' (bc_authKeyFile c) (bc_profile c)), d4)))))))"

definition defaultBrowserUserDataDir :: "os_env \<Rightarrow> string" where
  "defaultBrowserUserDataDir E =
     (if Getenv E ''LOCALAPPDATA'' \<noteq> [] then Join [Getenv E ''LOCALAPPDATA'', ''ts-bridge'', ''browser'']
      else Join [TempDir E, ''ts-bridge-browser''])"

text \<open>What the command hands to the browser runner.\<close>

definition runBrowser ::
  "cmd_ctx \<Rightarrow> os_env \<Rightarrow> browser_cli \<Rightarrow> disk \<Rightarrow>
   (browser_cmd_error, Config \<times> BrowserOptions \<times> bool) result \<times> disk" where
  "runBrowser x E c d =
     (case resolveBrowserConfig x E c d of
        (Inl e, d1) \<Rightarrow> (Inl e, d1)
      | (Inr (cfg, warned), d1) \<Rightarrow>
          (if bc_url c = [] then Inl BrowserURLRequired
           else (case lockCommandProfile x (bc_profile c) of
                   Some e \<Rightarrow> Inl (BrowserConnect e)
                 | None \<Rightarrow>
                     Inr (cfg, \<lparr>bo_StartURL = bc_url c, bo_UserDataDir = bc_userDataDir c,
                            bo_EdgePath = bc_edgePath c, bo_PACAddr = bc_pacAddr c\<rparr>, warned)), d1))"

subsection \<open>Whose key the browser uses\<close>

lemma collectBrowserFlags_Inr:
  assumes "collectBrowserFlags x c d = (Inr g, d1)"
  shows "files d1 = files d" "g_AuthKeyFile g = bc_authKeyFile c"
    "bc_authKeyFile c = [] \<Longrightarrow> g_AuthKey g = []"
    "bc_authKeyFile c \<noteq> [] \<Longrightarrow> fst (readAuthKeyFile x (bc_authKeyFile c) d) = Inr (g_AuthKey g) \<and> g_AuthKey g \<noteq> []"
proof -
  have key: "k \<noteq> []" if "readAuthKeyFile x f d = (Inr k, d2)" for f k d2
    using that by (auto simp: readAuthKeyFile_def Let_def split: prod.splits sum.splits option.splits if_splits)
  have "files d1 = files d \<and> g_AuthKeyFile g = bc_authKeyFile c \<and>
    (if bc_authKeyFile c = [] then g_AuthKey g = []
     else fst (readAuthKeyFile x (bc_authKeyFile c) d) = Inr (g_AuthKey g) \<and> g_AuthKey g \<noteq> [])"
  proof (cases "bc_authKeyFile c = []")
    case True
    then show ?thesis using assms by (auto simp: collectBrowserFlags_def Let_def zero_flags_def)
  next
    case False
    obtain r d2 where r: "readAuthKeyFile x (bc_authKeyFile c) d = (r, d2)" by fastforce
    then obtain k where k: "r = Inr k" using assms False by (cases r) (simp_all add: collectBrowserFlags_def Let_def)
    show ?thesis using assms False r key [OF r [unfolded k]] readAuthKeyFile_files [OF r]
      by (auto simp: collectBrowserFlags_def Let_def k)
  qed
  then show "files d1 = files d" "g_AuthKeyFile g = bc_authKeyFile c" "bc_authKeyFile c = [] \<Longrightarrow> g_AuthKey g = []"
    "bc_authKeyFile c \<noteq> [] \<Longrightarrow> fst (readAuthKeyFile x (bc_authKeyFile c) d) = Inr (g_AuthKey g) \<and> g_AuthKey g \<noteq> []"
    by (simp_all split: if_splits)
qed

lemma finish_browser_Inr:
  assumes "finish_browser E y g = Inr cfg"
  obtains g1 where "Merge E y g1 = Inr cfg" "g_AuthKey g1 = g_AuthKey g" "g_ControlURL g1 = g_ControlURL g"
    "c_SOCKS5Addr cfg \<noteq> []" "c_SOCKS5Routes cfg \<noteq> []"
proof -
  let ?g1 = "if g_SOCKS5Addr g = [] \<and> y_SOCKS5Addr y = [] \<and> Getenv E ''TS_SOCKS5_ADDR'' = []
                then g\<lparr>g_SOCKS5Addr := defaultBrowserSOCKS\<rparr> else g"
  have "Merge E y ?g1 = Inr cfg" "c_SOCKS5Addr cfg \<noteq> []" "c_SOCKS5Routes cfg \<noteq> []"
    using assms by (auto simp: finish_browser_def Let_def split: sum.splits if_splits)
  then show thesis using that [of ?g1] by simp
qed

lemma browser_layer_url: "y_ControlURL (browser_layer y sel) = fill (y_ControlURL y) (pe_ControlURL sel)"
  by (simp add: browser_layer_def applyProfileRuntime_def Let_def)

lemma resolveBrowserConfig_Inr:
  assumes "resolveBrowserConfig x E c d = (Inr (cfg, w), d')"
  obtains g d1 E' d2 y d3 y' g' d4 where "bc_authKeyFile c = [] \<Longrightarrow> bc_profile c \<noteq> []"
    "collectBrowserFlags x c d = (Inr g, d1)" "envfile_Load (os_path x ''.env'') E d1 = (Inr E', d2)"
    "LoadYAMLConfig (x_yaml x) (if g_Config g = [] then [] else os_path x (g_Config g)) d2 = (Inr y, d3)"
    "applyBrowserProfile x E' y g (bc_profile c) d3 = (Inr (y', g'), d4)" "finish_browser E' y' g' = Inr cfg"
  using assms by (auto simp: resolveBrowserConfig_def split: if_splits prod.splits sum.splits)

lemma resolveBrowserConfig_key:
  assumes "resolveBrowserConfig x E c d = (Inr (cfg, w), d')"
  shows "(bc_authKeyFile c \<noteq> [] \<longrightarrow> fst (readAuthKeyFile x (bc_authKeyFile c) d) = Inr (c_AuthKey cfg)) \<and>
    (bc_authKeyFile c = [] \<longrightarrow> (\<exists>data sel. store_data (x_store x) d = Some data \<and>
       map_of (Profiles data) (bc_profile c) = Some sel \<and> pe_Credential sel \<noteq> [] \<and>
       cred_view (x_creds x) d (pe_Credential sel) = Some (c_AuthKey cfg) \<and>
       SameControlURL (c_ControlURL cfg) (pe_ControlURL sel)))"
proof -
  obtain g d1 E' d2 y d3 y' g' d4 where p: "bc_authKeyFile c = [] \<Longrightarrow> bc_profile c \<noteq> []"
    and c: "collectBrowserFlags x c d = (Inr g, d1)" and e: "envfile_Load (os_path x ''.env'') E d1 = (Inr E', d2)"
    and l: "LoadYAMLConfig (x_yaml x) (if g_Config g = [] then [] else os_path x (g_Config g)) d2 = (Inr y, d3)"
    and a: "applyBrowserProfile x E' y g (bc_profile c) d3 = (Inr (y', g'), d4)" and f: "finish_browser E' y' g' = Inr cfg"
    using resolveBrowserConfig_Inr [OF assms] by metis
  obtain g1 where m: "Merge E' y' g1 = Inr cfg" "g_AuthKey g1 = g_AuthKey g'" "g_ControlURL g1 = g_ControlURL g'"
    using finish_browser_Inr [OF f] by metis
  have fl: "files d3 = files d"
    using collectBrowserFlags_Inr(1) [OF c] envfile_Load_files [OF e] LoadYAML_files [OF l] by simp
  show ?thesis
  proof (cases "bc_authKeyFile c = []")
    case True
    have ak: "g_AuthKey g = []" by (rule collectBrowserFlags_Inr(3) [OF c True])
    obtain sel d5 key where s: "loadCommandProfile x (bc_profile c) d3 = (Inr sel, d5)"
      and b: "loadBoundProfileCredential x E' (bc_profile c) sel g y d5 = (Inr key, d4)" "key \<noteq> []"
      and y': "y' = browser_layer y sel" "g' = g\<lparr>g_AuthKey := key\<rparr>"
      using a p [OF True] ak by (auto simp: applyBrowserProfile_def split: if_splits prod.splits sum.splits)
    have cr: "pe_Credential sel \<noteq> []" using b by (auto simp: loadBoundProfileCredential_def)
    have fl5: "files d5 = files d" using loadCommandProfile_entry(1) [OF s] fl by simp
    obtain data where "store_data (x_store x) d3 = Some data" "map_of (Profiles data) (bc_profile c) = Some sel"
      using loadCommandProfile_entry(2) [OF s p [OF True], of sel] by blast
    moreover have "cred_view (x_creds x) d (pe_Credential sel) = Some key"
      using loadBound_key(1) [OF b(1) cr] cred_view_files [OF fl5] by simp
    moreover have "SameControlURL (c_ControlURL cfg) (pe_ControlURL sel)"
      by (rule merged_plane [OF b(1) cr m(1)]) (simp_all add: y' m(3) browser_layer_url)
    moreover have "c_AuthKey cfg = key" using Merge_values(1) [OF m(1)] b(2) by (simp add: m(2) y'(2))
    ultimately show ?thesis using True cr store_data_files [OF fl] by auto
  next
    case False
    note k = collectBrowserFlags_Inr(4) [OF c False]
    have "g' = g" using a k by (auto simp: applyBrowserProfile_def split: if_splits prod.splits sum.splits)
    then have "c_AuthKey cfg = g_AuthKey g" using Merge_values(1) [OF m(1)] k by (simp add: m(2))
    then show ?thesis using k False by simp
  qed
qed

text \<open>
  C8: The browser never takes its key from the environment. When the command reaches its runner,
  the key is the one of the key file if one was named, and otherwise the one stored for the
  profile, which the run then uses with the control plane the profile declares; there is a
  SOCKS5 listener and at least one route.
\<close>

theorem browser_key_is_explicit:
  assumes "runBrowser x E c d = (Inr (cfg, opts, w), d')"
  shows "(bc_authKeyFile c \<noteq> [] \<longrightarrow> fst (readAuthKeyFile x (bc_authKeyFile c) d) = Inr (c_AuthKey cfg)) \<and>
    (bc_authKeyFile c = [] \<longrightarrow> (\<exists>data sel. store_data (x_store x) d = Some data \<and>
       map_of (Profiles data) (bc_profile c) = Some sel \<and> pe_Credential sel \<noteq> [] \<and>
       cred_view (x_creds x) d (pe_Credential sel) = Some (c_AuthKey cfg) \<and>
       SameControlURL (c_ControlURL cfg) (pe_ControlURL sel))) \<and>
    c_SOCKS5Addr cfg \<noteq> [] \<and> c_SOCKS5Routes cfg \<noteq> []"
proof -
  obtain w' d1 where r: "resolveBrowserConfig x E c d = (Inr (cfg, w'), d1)"
    using assms by (auto simp: runBrowser_def split: prod.splits sum.splits if_splits option.splits)
  obtain E' y' g' where "finish_browser E' y' g' = Inr cfg" by (rule resolveBrowserConfig_Inr [OF r])
  then have "c_SOCKS5Addr cfg \<noteq> []" "c_SOCKS5Routes cfg \<noteq> []" using finish_browser_Inr by metis+
  then show ?thesis using resolveBrowserConfig_key [OF r] by blast
qed

definition sample_browser_cli :: browser_cli where
  "sample_browser_cli = \<lparr>bc_url = ''https://wiki:8443/'', bc_userDataDir = ''/u'', bc_edgePath = [], bc_pacAddr = ''127.0.0.1:0'',
     bc_socks5 = None, bc_routes = [''wiki:8443=10.0.0.3:443''], bc_authKeyFile = [], bc_profile = ''a'', bc_controlURL = [],
     bc_hostname = [], bc_stateDir = [], bc_timeout = 0, bc_dialTimeout = 0, bc_config = [], bc_verbose = None\<rparr>"

definition sample_browser_flags :: FlagSet where
  "sample_browser_flags = zero_flags\<lparr>g_SOCKS5Routes := [''wiki:8443=10.0.0.3:443'']\<rparr>"

lemma sample_browser_applied:
  "fst (applyBrowserProfile sample_ctx key_env zero_partial sample_browser_flags ''a'' (h4\<lparr>tick := Suc (tick h4)\<rparr>)) =
     Inr (zero_partial\<lparr>y_ControlURL := ''https://x''\<rparr>, sample_browser_flags\<lparr>g_AuthKey := ''hskey-a''\<rparr>)"
  by code_simp

lemma sample_browser_finish:
  "map_sum id c_AuthKey (finish_browser key_env (zero_partial\<lparr>y_ControlURL := ''https://x''\<rparr>) (sample_browser_flags\<lparr>g_AuthKey := ''hskey-a''\<rparr>)) =
     Inr ''hskey-a''"
  by code_simp

lemma sample_runBrowser:
  "\<exists>cfg opts d'. runBrowser sample_ctx key_env sample_browser_cli h4 = (Inr (cfg, opts, True), d')"
proof -
  have e: "files h4 (os_path sample_ctx ''.env'') = None" "\<not> faults h4 (tick h4)" by code_simp+
  have c: "collectBrowserFlags sample_ctx sample_browser_cli h4 = (Inr sample_browser_flags, h4)"
    by (simp add: collectBrowserFlags_def sample_browser_cli_def sample_browser_flags_def zero_flags_def)
  obtain d1 where a: "applyBrowserProfile sample_ctx key_env zero_partial sample_browser_flags ''a'' (h4\<lparr>tick := Suc (tick h4)\<rparr>) =
      (Inr (zero_partial\<lparr>y_ControlURL := ''https://x''\<rparr>, sample_browser_flags\<lparr>g_AuthKey := ''hskey-a''\<rparr>), d1)"
    using sample_browser_applied
    by (cases "applyBrowserProfile sample_ctx key_env zero_partial sample_browser_flags ''a'' (h4\<lparr>tick := Suc (tick h4)\<rparr>)") simp
  obtain cfg where f: "finish_browser key_env (zero_partial\<lparr>y_ControlURL := ''https://x''\<rparr>)
      (sample_browser_flags\<lparr>g_AuthKey := ''hskey-a''\<rparr>) = Inr cfg"
    using sample_browser_finish
    by (cases "finish_browser key_env (zero_partial\<lparr>y_ControlURL := ''https://x''\<rparr>)
      (sample_browser_flags\<lparr>g_AuthKey := ''hskey-a''\<rparr>)") simp_all
  have l: "lockCommandProfile sample_ctx ''a'' = None" "g_Config sample_browser_flags = []"
    "warnIgnoredBrowserEnvCredential key_env [] ''a''" by code_simp+
  have "resolveBrowserConfig sample_ctx key_env sample_browser_cli h4 = (Inr (cfg, True), d1)"
    unfolding resolveBrowserConfig_def c using e a f l
    by (simp add: envfile_Load_missing LoadYAMLConfig_def sample_browser_cli_def)
  then show ?thesis using l(1) by (simp add: runBrowser_def sample_browser_cli_def)
qed

theorem browser_key_is_explicit_witness:
  "\<exists>cfg opts d'. runBrowser sample_ctx key_env sample_browser_cli h4 = (Inr (cfg, opts, True), d') \<and>
     cred_view ''/c'' h4 ''k'' = Some (c_AuthKey cfg)"
proof -
  obtain cfg opts d' where r: "runBrowser sample_ctx key_env sample_browser_cli h4 = (Inr (cfg, opts, True), d')"
    using sample_runBrowser by blast
  obtain data e where d: "store_data sample_store h4 = Some data" "map_of (Profiles data) ''a'' = Some e" "pe_Credential e = ''k''"
    using sample_history_end by (auto simp: map_option_eq_Some)
  have "\<exists>data sel. store_data sample_store h4 = Some data \<and> map_of (Profiles data) ''a'' = Some sel \<and>
       cred_view ''/c'' h4 (pe_Credential sel) = Some (c_AuthKey cfg)"
    using browser_key_is_explicit [OF r] by (auto simp: sample_browser_cli_def sample_ctx_def)
  then show ?thesis using r d by auto
qed

end
