(* ===== verification/Logging.thy ===== *)
theory Logging
  imports Profiles Go_Path "HOL-Library.AList" "HOL-Library.Multiset"
begin

text \<open>
  \<open>internal/logging/logging.go\<close>: the logger that writes text to the console and JSON to one file
  per day, the rotation, compression and clean-up of those files, and what the run command does
  with the logger. The log directory is an association list from base names to files; every other
  answer of the system during one operation (the clock, which calls fail) is a \<open>log_env\<close>, and
  gzip is a parameter. One process uses the directory.
\<close>

subsection \<open>The log directory\<close>

record log_file =
  lf_data :: string
  lf_mod :: int

type_synonym log_dir = "(string \<times> log_file) list"

text \<open>
  The clock in nanoseconds and the day it shows; which files can be opened for appending, read,
  created and removed; how many bytes a failing write stores (\<open>None\<close>: the write succeeds); what a
  failing compression leaves (\<open>None\<close>: it succeeds); whether the directory can be created and
  listed, and which of its entries have readable attributes.
\<close>

record log_env =
  le_now :: int
  le_today :: string
  le_open :: "string \<Rightarrow> bool"
  le_write :: "nat option"
  le_read :: "string \<Rightarrow> bool"
  le_create :: "string \<Rightarrow> bool"
  le_partial :: "string option"
  le_remove :: "string \<Rightarrow> bool"
  le_mkdir :: bool
  le_list :: bool
  le_info :: "string \<Rightarrow> bool"

datatype log_error = OpenLogFile | WriteLogFile | FileClosed | FileInvalid

definition open_append :: "log_env \<Rightarrow> string \<Rightarrow> log_dir \<Rightarrow> log_dir option" where
  "open_append e n d =
     (if \<not> le_open e n then None
      else if map_of d n = None then Some (AList.update n \<lparr>lf_data = [], lf_mod = le_now e\<rparr> d)
      else Some d)"

definition remove_file :: "log_env \<Rightarrow> string \<Rightarrow> log_dir \<Rightarrow> log_dir" where
  "remove_file e n d = (if le_remove e n then AList.delete n d else d)"

text \<open>Appending to an open file: the bytes stored, and none of them visible once its name is gone.\<close>

definition stored :: "log_env \<Rightarrow> string \<Rightarrow> string" where
  "stored e p = (case le_write e of None \<Rightarrow> p | Some k \<Rightarrow> take k p)"

definition append_file :: "log_env \<Rightarrow> string \<Rightarrow> string \<Rightarrow> log_dir \<Rightarrow> log_dir" where
  "append_file e n p d =
     (case map_of d n of
        None \<Rightarrow> d
      | Some f \<Rightarrow>
          if stored e p = [] then d
          else AList.update n \<lparr>lf_data = lf_data f @ stored e p, lf_mod = le_now e\<rparr> d)"

subsection \<open>The rotator\<close>

text \<open>An \<open>*os.File\<close> that is not nil, with the base name it was opened by.\<close>

datatype log_handle = OpenFile string | ClosedFile string

record FileRotator =
  rot_dir :: string
  rot_current :: "log_handle option"
  rot_currentDay :: string

definition NewFileRotator :: "string \<Rightarrow> FileRotator" where
  "NewFileRotator dir = \<lparr>rot_dir = dir, rot_current = None, rot_currentDay = []\<rparr>"

definition log_name :: "string \<Rightarrow> string" where
  "log_name day = ''ts-bridge-'' @ day @ ''.log''"

fun handle_name :: "log_handle \<Rightarrow> string" where
  "handle_name (OpenFile n) = n"
| "handle_name (ClosedFile n) = n"

definition close_handle :: "log_handle option \<Rightarrow> log_handle option" where
  "close_handle h = map_option (\<lambda>h. ClosedFile (handle_name h)) h"

definition CurrentPath :: "FileRotator \<Rightarrow> string" where
  "CurrentPath r = (case rot_current r of None \<Rightarrow> [] | Some h \<Rightarrow> Join [rot_dir r, handle_name h])"

text \<open>\<open>r.current.Write(p)\<close>: a nil file and a closed one answer with an error.\<close>

definition handle_Write :: "log_env \<Rightarrow> string \<Rightarrow> log_handle option \<Rightarrow> log_dir \<Rightarrow> (nat \<times> log_error option) \<times> log_dir" where
  "handle_Write e p h d =
     (case h of
        None \<Rightarrow> ((0, Some FileInvalid), d)
      | Some (ClosedFile n) \<Rightarrow> ((0, Some FileClosed), d)
      | Some (OpenFile n) \<Rightarrow>
          ((length (stored e p), if le_write e = None then None else Some WriteLogFile), append_file e n p d))"

definition rot_Write ::
  "log_env \<Rightarrow> string \<Rightarrow> FileRotator \<times> log_dir \<Rightarrow> (nat \<times> log_error option) \<times> FileRotator \<times> log_dir" where
  "rot_Write e p s =
     (let (r, d) = s; today = le_today e in
      if rot_current r = None \<or> rot_currentDay r \<noteq> today then
        let r1 = (if rot_current r \<noteq> None
                  then r\<lparr>rot_current := close_handle (rot_current r), rot_currentDay := []\<rparr> else r)
        in if rot_currentDay r1 \<noteq> today then
             (case open_append e (log_name today) d of
                None \<Rightarrow> ((0, Some OpenLogFile), r1, d)
              | Some d1 \<Rightarrow>
                  let r2 = r1\<lparr>rot_current := Some (OpenFile (log_name today)), rot_currentDay := today\<rparr>;
                      (res, d2) = handle_Write e p (rot_current r2) d1
                  in (res, r2, d2))
           else let (res, d1) = handle_Write e p (rot_current r1) d in (res, r1, d1)
      else let (res, d1) = handle_Write e p (rot_current r) d in (res, r, d1))"

definition gz_name :: "string \<Rightarrow> string" where
  "gz_name day = log_name day @ ''.gz''"

definition compress :: "(string \<Rightarrow> string) \<Rightarrow> log_env \<Rightarrow> string \<Rightarrow> log_dir \<Rightarrow> log_dir" where
  "compress gz e day d =
     (case map_of d (log_name day) of
        None \<Rightarrow> d
      | Some f \<Rightarrow>
          if \<not> le_read e (log_name day) \<or> \<not> le_create e (gz_name day) then d
          else (case le_partial e of
                  Some part \<Rightarrow> AList.update (gz_name day) \<lparr>lf_data = part, lf_mod = le_now e\<rparr> d
                | None \<Rightarrow>
                    remove_file e (log_name day)
                      (AList.update (gz_name day) \<lparr>lf_data = gz (lf_data f), lf_mod = le_now e\<rparr> d)))"

subsection \<open>Cleaning up\<close>

text \<open>The two loops that exchange entries until the newest comes first.\<close>

definition swap_at :: "nat \<Rightarrow> nat \<Rightarrow> 'a list \<Rightarrow> 'a list" where
  "swap_at i j xs = xs[i := xs ! j, j := xs ! i]"

function sort_inner :: "nat \<Rightarrow> nat \<Rightarrow> (string \<times> int) list \<Rightarrow> (string \<times> int) list" where
  "sort_inner i j logs =
     (if j < length logs
      then sort_inner i (Suc j) (if snd (logs ! i) < snd (logs ! j) then swap_at i j logs else logs)
      else logs)"
  by pat_completeness auto
termination by (relation "measure (\<lambda>(i, j, logs). length logs - j)") (auto simp: swap_at_def)

declare sort_inner.simps [simp del]

lemma length_swap_at [simp]: "length (swap_at i j xs) = length xs"
  by (simp add: swap_at_def)

lemma length_sort_inner [simp]: "length (sort_inner i j logs) = length logs"
  by (induction i j logs rule: sort_inner.induct) (subst sort_inner.simps, simp)

function sort_outer :: "nat \<Rightarrow> (string \<times> int) list \<Rightarrow> (string \<times> int) list" where
  "sort_outer i logs = (if i < length logs then sort_outer (Suc i) (sort_inner i (Suc i) logs) else logs)"
  by pat_completeness auto
termination by (relation "measure (\<lambda>(i, logs). length logs - i)") auto

declare sort_outer.simps [simp del]

definition log_entries :: "log_env \<Rightarrow> log_dir \<Rightarrow> (string \<times> int) list" where
  "log_entries e d =
     map (\<lambda>n. (n, lf_mod (the (map_of d n))))
       (filter (\<lambda>n. HasPrefix n ''ts-bridge-'' \<and> le_info e n) (sort_names (map fst d)))"

definition maxDays :: int where "maxDays = 7"
definition maxFiles :: nat where "maxFiles = 10"

text \<open>\<open>time.Sub\<close> stays within the 64 bits of a \<open>time.Duration\<close>.\<close>

definition time_Sub :: "int \<Rightarrow> int \<Rightarrow> int" where
  "time_Sub t u = max (- (2 ^ 63)) (min (2 ^ 63 - 1) (t - u))"

definition too_old :: "log_env \<Rightarrow> int \<Rightarrow> bool" where
  "too_old e t \<longleftrightarrow> maxDays * 24 * 3600000000000 < time_Sub (le_now e) t"

fun clean_loop :: "log_env \<Rightarrow> (string \<times> int) list \<Rightarrow> nat \<Rightarrow> log_dir \<Rightarrow> log_dir" where
  "clean_loop e [] gzCount d = d"
| "clean_loop e ((n, t) # logs) gzCount d =
     (let gzCount = (if HasSuffix n ''.gz'' then gzCount + 1 else gzCount)
      in if too_old e t then clean_loop e logs gzCount (remove_file e n d)
         else if HasSuffix n ''.gz'' \<and> maxFiles < gzCount then clean_loop e logs gzCount (remove_file e n d)
         else clean_loop e logs gzCount d)"

definition cleanup :: "log_env \<Rightarrow> log_dir \<Rightarrow> log_dir" where
  "cleanup e d = (if \<not> le_list e then d else clean_loop e (sort_outer 0 (log_entries e d)) 0 d)"

subsection \<open>Opening and closing\<close>

definition rot_Open ::
  "(string \<Rightarrow> string) \<Rightarrow> log_env \<Rightarrow> FileRotator \<times> log_dir \<Rightarrow> log_error option \<times> FileRotator \<times> log_dir" where
  "rot_Open gz e s =
     (let (r, d) = s; today = le_today e in
      if rot_current r \<noteq> None \<and> rot_currentDay r = today then (None, r, d)
      else
        let (r1, d1) = (if rot_current r \<noteq> None
                        then (r\<lparr>rot_current := close_handle (rot_current r)\<rparr>, compress gz e (rot_currentDay r) d)
                        else (r, d))
        in (case open_append e (log_name today) d1 of
              None \<Rightarrow> (Some OpenLogFile, r1, d1)
            | Some d2 \<Rightarrow>
                (None, r1\<lparr>rot_current := Some (OpenFile (log_name today)), rot_currentDay := today\<rparr>,
                 cleanup e d2)))"

definition rot_Close :: "(string \<Rightarrow> string) \<Rightarrow> log_env \<Rightarrow> FileRotator \<times> log_dir \<Rightarrow> FileRotator \<times> log_dir" where
  "rot_Close gz e s =
     (let (r, d) = s in
      if rot_current r \<noteq> None then (r\<lparr>rot_current := None\<rparr>, compress gz e (rot_currentDay r) d) else (r, d))"

subsection \<open>The logger\<close>

record log_config =
  lc_Verbose :: bool
  lc_LogFormat :: string
  lc_LogDir :: string

text \<open>The console's level, and the rotator behind the file logger when there is one.\<close>

record Logger =
  lg_console :: int
  lg_rot :: "FileRotator option"

definition LevelDebug :: int where "LevelDebug = - 4"
definition LevelInfo :: int where "LevelInfo = 0"
definition LevelWarn :: int where "LevelWarn = 4"

definition New_logger ::
  "(string \<Rightarrow> string) \<Rightarrow> log_env \<Rightarrow> log_config \<Rightarrow> log_dir \<Rightarrow> Logger \<times> log_dir" where
  "New_logger gz e cfg d =
     (let console = (if lc_Verbose cfg then LevelDebug else LevelWarn)
      in if lc_LogDir cfg = [] then (\<lparr>lg_console = console, lg_rot = None\<rparr>, d)
         else if \<not> le_mkdir e then (\<lparr>lg_console = console, lg_rot = None\<rparr>, d)
         else (case rot_Open gz e (NewFileRotator (lc_LogDir cfg), d) of
                 (Some _, _, d1) \<Rightarrow> (\<lparr>lg_console = console, lg_rot = None\<rparr>, d1)
               | (None, r, d1) \<Rightarrow> (\<lparr>lg_console = console, lg_rot = Some r\<rparr>, d1)))"

text \<open>
  A record with its level and its two encodings. The file logger takes every record from DEBUG
  upwards; \<open>Combined\<close> hands a record to each of its two handlers that is enabled at its level, and
  ignores their errors.
\<close>

record log_record =
  rec_level :: int
  rec_text :: string
  rec_json :: string

type_synonym log_state = "Logger \<times> string \<times> log_dir"

definition file_log :: "log_env \<Rightarrow> log_record \<Rightarrow> FileRotator \<Rightarrow> log_dir \<Rightarrow> FileRotator \<times> log_dir" where
  "file_log e m r d =
     (if LevelDebug \<le> rec_level m then snd (rot_Write e (rec_json m) (r, d)) else (r, d))"

definition Combined_log :: "log_env \<Rightarrow> log_record \<Rightarrow> log_state \<Rightarrow> log_state" where
  "Combined_log e m s =
     (let (l, out, d) = s; out1 = (if lg_console l \<le> rec_level m then out @ rec_text m else out)
      in case lg_rot l of
           None \<Rightarrow> (l, out1, d)
         | Some r \<Rightarrow> let (r1, d1) = file_log e m r d in (l\<lparr>lg_rot := Some r1\<rparr>, out1, d1))"

definition Close_logger :: "(string \<Rightarrow> string) \<Rightarrow> log_env \<Rightarrow> Logger \<Rightarrow> log_dir \<Rightarrow> Logger \<times> log_dir" where
  "Close_logger gz e l d =
     (case lg_rot l of
        None \<Rightarrow> (l, d)
      | Some r \<Rightarrow> let (r1, d1) = rot_Close gz e (r, d) in (l\<lparr>lg_rot := Some r1\<rparr>, d1))"

text \<open>
  What the run command hands to tsnet for its own records. \<open>None\<close> is the panic of a method called
  on the nil logger that \<open>File\<close> returns when there is no rotator.
\<close>

definition tsnetLogf :: "log_env \<Rightarrow> string \<Rightarrow> Logger option \<Rightarrow> log_dir \<Rightarrow> (Logger option \<times> log_dir) option" where
  "tsnetLogf e json inst d =
     (case inst of
        None \<Rightarrow> Some (None, d)
      | Some l \<Rightarrow>
          (case lg_rot l of
             None \<Rightarrow> None
           | Some r \<Rightarrow>
               let (r1, d1) = file_log e \<lparr>rec_level = LevelDebug, rec_text = [], rec_json = json\<rparr> r d
               in Some (Some (l\<lparr>lg_rot := Some r1\<rparr>), d1)))"

definition logDirFor :: "string \<Rightarrow> string \<Rightarrow> string \<Rightarrow> string" where
  "logDirFor goos home appData =
     (if goos = ''windows'' then Join [appData, ''ts-bridge'', ''logs'']
      else if goos = ''darwin'' then Join [home, ''Library'', ''Logs'', ''ts-bridge'']
      else Join [home, ''.local'', ''share'', ''ts-bridge'', ''logs''])"

definition InitLogger ::
  "(string \<Rightarrow> string) \<Rightarrow> log_env \<Rightarrow> string \<Rightarrow> string \<Rightarrow> string \<Rightarrow> bool \<Rightarrow> string \<Rightarrow> log_dir \<Rightarrow> Logger \<times> log_dir" where
  "InitLogger gz e goos home appData verbose logFormat d =
     New_logger gz e \<lparr>lc_Verbose = verbose, lc_LogFormat = logFormat, lc_LogDir = logDirFor goos home appData\<rparr> d"

subsection \<open>The exchange sort\<close>

abbreviation newest_first :: "(string \<times> int) list \<Rightarrow> bool" where
  "newest_first logs \<equiv> sorted_wrt (\<lambda>a b. snd b \<le> snd a) logs"

lemma mset_swap_at [simp]: "i < length xs \<Longrightarrow> j < length xs \<Longrightarrow> mset (swap_at i j xs) = mset xs"
  by (simp add: swap_at_def mset_swap)

lemma take_swap_at [simp]: "i < j \<Longrightarrow> take i (swap_at i j xs) = take i xs"
  by (simp add: swap_at_def)

lemma sort_inner_mset: "i < j \<Longrightarrow> mset (sort_inner i j xs) = mset xs \<and> take i (sort_inner i j xs) = take i xs"
proof (induction i j xs rule: sort_inner.induct)
  case (1 i j xs)
  then show ?case by (subst (1 2) sort_inner.simps) auto
qed

lemma sort_inner_greatest:
  assumes "i < j" "\<forall>k. i < k \<and> k < j \<and> k < length xs \<longrightarrow> snd (xs ! k) \<le> snd (xs ! i)"
  shows "\<forall>k. i < k \<and> k < length xs \<longrightarrow> snd (sort_inner i j xs ! k) \<le> snd (sort_inner i j xs ! i)"
  using assms
proof (induction i j xs rule: sort_inner.induct)
  case (1 i j xs)
  show ?case
  proof (cases "j < length xs")
    case True
    define ys where "ys = (if snd (xs ! i) < snd (xs ! j) then swap_at i j xs else xs)"
    have "\<forall>k. i < k \<and> k < Suc j \<and> k < length ys \<longrightarrow> snd (ys ! k) \<le> snd (ys ! i)"
      using 1(2,3) True by (fastforce simp: ys_def swap_at_def nth_list_update less_Suc_eq)
    then show ?thesis using 1(1) 1(2) True by (subst (1 2) sort_inner.simps) (simp add: ys_def)
  next
    case False
    then show ?thesis using 1(3) by (subst (1 2) sort_inner.simps) simp
  qed
qed

lemma drop_Suc_greatest:
  assumes "i < length xs" "\<forall>k. i < k \<and> k < length xs \<longrightarrow> snd (xs ! k) \<le> snd (xs ! i)" "b \<in> set (drop (Suc i) xs)"
  shows "snd b \<le> snd (xs ! i)"
proof -
  obtain k where "k < length (drop (Suc i) xs)" "b = drop (Suc i) xs ! k"
    using assms(3) by (metis in_set_conv_nth)
  then show ?thesis using assms(2) by simp
qed

lemma sort_outer_correct:
  assumes "newest_first (take i xs)" "\<forall>a \<in> set (take i xs). \<forall>b \<in> set (drop i xs). snd b \<le> snd a"
  shows "newest_first (sort_outer i xs) \<and> mset (sort_outer i xs) = mset xs"
  using assms
proof (induction i xs rule: sort_outer.induct)
  case (1 i xs)
  show ?case
  proof (cases "i < length xs")
    case True
    define ys where "ys = sort_inner i (Suc i) xs"
    have ys: "mset ys = mset xs" "take i ys = take i xs" "length ys = length xs"
      using sort_inner_mset [of i "Suc i" xs] by (simp_all add: ys_def)
    have "mset (take i ys) + mset (drop i ys) = mset (take i xs) + mset (drop i xs)"
      unfolding mset_append [symmetric] append_take_drop_id by (rule ys(1))
    then have "mset (drop i ys) = mset (drop i xs)" unfolding ys(2) by simp
    then have drop: "set (drop i ys) = set (drop i xs)" by (rule mset_eq_setD)
    have split: "drop i ys = ys ! i # drop (Suc i) ys" "take (Suc i) ys = take i ys @ [ys ! i]"
      using True ys(3) by (simp_all add: Cons_nth_drop_Suc take_Suc_conv_app_nth)
    have great: "\<forall>b \<in> set (drop (Suc i) ys). snd b \<le> snd (ys ! i)"
      using sort_inner_greatest [of i "Suc i" xs] True ys(3)
      by (intro ballI drop_Suc_greatest) (auto simp: ys_def)
    have upper: "\<forall>a \<in> set (take i ys). \<forall>b \<in> set (drop i ys). snd b \<le> snd a"
      using 1(3) unfolding drop ys(2) .
    then have "newest_first (take (Suc i) ys)" using 1(2) by (simp add: split sorted_wrt_append ys(2))
    moreover have "\<forall>a \<in> set (take (Suc i) ys). \<forall>b \<in> set (drop (Suc i) ys). snd b \<le> snd a"
      using upper great by (simp add: split)
    ultimately have "newest_first (sort_outer (Suc i) ys) \<and> mset (sort_outer (Suc i) ys) = mset ys"
      using 1(1) True by (simp add: ys_def)
    then show ?thesis using True ys(1) by (subst (1 2) sort_outer.simps) (simp add: ys_def)
  next
    case False
    then show ?thesis using 1(2) by (subst (1 2) sort_outer.simps) simp
  qed
qed

lemma sort_outer_newest_first: "newest_first (sort_outer 0 xs)" "mset (sort_outer 0 xs) = mset xs"
  using sort_outer_correct [of 0 xs] by simp_all

subsection \<open>What a clean-up removes\<close>

abbreviation is_gz :: "string \<Rightarrow> bool" where
  "is_gz n \<equiv> HasSuffix n ''.gz''"

abbreviation is_log :: "string \<Rightarrow> bool" where
  "is_log n \<equiv> HasPrefix n ''ts-bridge-''"

text \<open>The names the loop asks to be removed, and the directory it leaves.\<close>

fun doomed :: "log_env \<Rightarrow> (string \<times> int) list \<Rightarrow> nat \<Rightarrow> string set" where
  "doomed e [] g = {}"
| "doomed e ((n, t) # logs) g =
     (let g = (if is_gz n then g + 1 else g)
      in (if too_old e t \<or> is_gz n \<and> maxFiles < g then {n} else {}) \<union> doomed e logs g)"

lemma remove_file_filter: "remove_file e n d = filter (\<lambda>(m, f). \<not> (m = n \<and> le_remove e n)) d"
  by (auto simp: remove_file_def AList.delete_eq intro!: filter_cong)

lemma clean_loop_filter:
  "clean_loop e logs g d = filter (\<lambda>(m, f). \<not> (m \<in> doomed e logs g \<and> le_remove e m)) d"
  by (induction e logs g d rule: clean_loop.induct)
     (auto simp: Let_def remove_file_filter case_prod_beta intro!: filter_cong)

lemma too_old_mono: "too_old e t \<Longrightarrow> u \<le> t \<Longrightarrow> too_old e u"
  unfolding too_old_def time_Sub_def by linarith

lemma doomed_names: "doomed e logs g \<subseteq> fst ` set logs"
  by (induction e logs g rule: doomed.induct) (auto simp: Let_def)

lemma doomed_old: "(n, t) \<in> set logs \<Longrightarrow> too_old e t \<Longrightarrow> n \<in> doomed e logs g"
  by (induction e logs g rule: doomed.induct) (auto simp: Let_def)

text \<open>The compressed files that stay.\<close>

definition kept_gz :: "log_env \<Rightarrow> (string \<times> int) list \<Rightarrow> nat \<Rightarrow> (string \<times> int) list" where
  "kept_gz e logs g = filter (\<lambda>(n, t). is_gz n \<and> n \<notin> doomed e logs g) logs"

lemma kept_gz_Cons:
  assumes "n \<notin> fst ` set logs"
  shows "kept_gz e ((n, t) # logs) g =
    (if is_gz n \<and> \<not> too_old e t \<and> g < maxFiles then [(n, t)] else [])
      @ kept_gz e logs (if is_gz n then g + 1 else g)"
proof -
  let ?g = "if is_gz n then g + 1 else g"
  have n: "n \<notin> doomed e logs ?g" using assms doomed_names by fast
  have "filter (\<lambda>(m, u). is_gz m \<and> m \<notin> doomed e ((n, t) # logs) g) logs = kept_gz e logs ?g"
    unfolding kept_gz_def using assms by (intro filter_cong refl) (force simp: Let_def)
  then show ?thesis using n by (auto simp: kept_gz_def Let_def)
qed

lemma kept_gz_bound: "distinct (map fst logs) \<Longrightarrow> g + length (kept_gz e logs g) \<le> max maxFiles g"
proof (induction logs arbitrary: g)
  case (Cons x logs)
  obtain n t where x: "x = (n, t)" by fastforce
  have fresh: "n \<notin> fst ` set logs" and IH: "\<And>g. g + length (kept_gz e logs g) \<le> max maxFiles g"
    using Cons by (simp_all add: x)
  show ?case using IH [of g] IH [of "g + 1"] unfolding x kept_gz_Cons [OF fresh] by (auto simp: max_def split: if_splits)
qed (simp add: kept_gz_def)

text \<open>A young file that is removed leaves ten compressed files at least as new as it is.\<close>

lemma doomed_young:
  assumes "distinct (map fst logs)" "newest_first logs" "(n, t) \<in> set logs" "n \<in> doomed e logs g" "\<not> too_old e t"
  shows "is_gz n \<and> maxFiles \<le> g + length (filter (\<lambda>(m, u). t \<le> u) (kept_gz e logs g))"
  using assms
proof (induction logs arbitrary: g)
  case (Cons x logs)
  obtain m u where x: "x = (m, u)" by fastforce
  have fresh: "m \<notin> fst ` set logs" using Cons.prems(1) by (simp add: x)
  show ?case
  proof (cases "m = n")
    case True
    then have "u = t" using Cons.prems(3) fresh by (force simp: x)
    moreover have "n \<notin> doomed e logs h" for h using fresh True doomed_names by fast
    ultimately show ?thesis using Cons.prems(4,5) True by (auto simp: x Let_def split: if_splits)
  next
    case False
    then have n: "(n, t) \<in> set logs" "t \<le> u" using Cons.prems(2,3) by (auto simp: x)
    then have "\<not> too_old e u" using Cons.prems(5) too_old_mono by blast
    moreover have "is_gz n \<and> maxFiles \<le> h + length (filter (\<lambda>(m, u). t \<le> u) (kept_gz e logs h))"
      if "h = (if is_gz m then g + 1 else g)" for h
      using Cons.IH [of h] Cons.prems False n that by (auto simp: x Let_def split: if_splits)
    ultimately show ?thesis using n(2) unfolding x kept_gz_Cons [OF fresh] by auto
  qed
qed simp

lemma log_entries_iff:
  assumes "distinct (map fst d)"
  shows "(n, t) \<in> set (log_entries e d) \<longleftrightarrow> (\<exists>f. (n, f) \<in> set d \<and> t = lf_mod f) \<and> is_log n \<and> le_info e n"
proof -
  have f: "(n, f) \<in> set d \<longleftrightarrow> map_of d n = Some f" for f
    using assms by simp
  have "n \<in> fst ` set d \<longleftrightarrow> (\<exists>f. map_of d n = Some f)"
    by (metis map_of_eq_None_iff option.exhaust option.distinct(1))
  then show ?thesis unfolding f by (auto simp: log_entries_def)
qed

lemma map_of_filter_key: "map_of (filter (\<lambda>(m, f). P m) d) n = (if P n then map_of d n else None)"
  by (induction d) auto

lemma map_of_cleanup:
  "map_of (cleanup e d) n =
     (if le_list e \<and> n \<in> doomed e (sort_outer 0 (log_entries e d)) 0 \<and> le_remove e n then None else map_of d n)"
  by (simp add: cleanup_def clean_loop_filter map_of_filter_key)

lemma doomed_reason: "n \<in> doomed e logs g \<Longrightarrow> \<exists>t. (n, t) \<in> set logs \<and> (too_old e t \<or> is_gz n)"
  by (induction e logs g rule: doomed.induct) (auto simp: Let_def split: if_splits)

lemma set_sort_outer [simp]: "set (sort_outer 0 xs) = set xs"
  using sort_outer_newest_first(2) [of xs] by (rule mset_eq_setD)

lemma distinct_sort_outer: "distinct (map fst (sort_outer 0 xs)) \<longleftrightarrow> distinct (map fst xs)"
  by (metis mset_map mset_eq_imp_distinct_iff sort_outer_newest_first(2))

lemma distinct_log_entries: "distinct (map fst d) \<Longrightarrow> distinct (map fst (log_entries e d))"
  by (simp add: log_entries_def comp_def)

lemma cleanup_keeps_young:
  assumes "distinct (map fst d)" "\<not> is_gz n" "\<And>f. map_of d n = Some f \<Longrightarrow> \<not> too_old e (lf_mod f)"
  shows "map_of (cleanup e d) n = map_of d n"
proof -
  have "n \<notin> doomed e (sort_outer 0 (log_entries e d)) 0"
  proof
    assume "n \<in> doomed e (sort_outer 0 (log_entries e d)) 0"
    then obtain t where "(n, t) \<in> set (log_entries e d)" "too_old e t \<or> is_gz n"
      using doomed_reason set_sort_outer by metis
    then show False using assms by (auto simp: log_entries_iff)
  qed
  then show ?thesis by (simp add: map_of_cleanup)
qed

lemma distinct_cleanup [simp]: "distinct (map fst d) \<Longrightarrow> distinct (map fst (cleanup e d))"
  by (simp add: cleanup_def clean_loop_filter distinct_map_filter)

subsection \<open>The rotator keeps its file\<close>

definition content :: "log_dir \<Rightarrow> string \<Rightarrow> string" where
  "content d n = (case map_of d n of None \<Rightarrow> [] | Some f \<Rightarrow> lf_data f)"

text \<open>An open file is the log of the rotator's day and has its name in the directory.\<close>

definition rot_live :: "FileRotator \<times> log_dir \<Rightarrow> bool" where
  "rot_live s \<longleftrightarrow> distinct (map fst (snd s)) \<and>
     (\<forall>n. rot_current (fst s) = Some (OpenFile n) \<longrightarrow>
        n = log_name (rot_currentDay (fst s)) \<and> map_of (snd s) n \<noteq> None)"

lemma log_name_inj [simp]: "log_name a = log_name b \<longleftrightarrow> a = b"
  by (simp add: log_name_def)

lemma rot_live_new: "distinct (map fst d) \<Longrightarrow> rot_live (NewFileRotator dir, d)"
  by (simp add: rot_live_def NewFileRotator_def)

lemma rot_liveI:
  "distinct (map fst d) \<Longrightarrow> map_of d (log_name (rot_currentDay r)) \<noteq> None \<Longrightarrow>
   rot_current r = Some (OpenFile (log_name (rot_currentDay r))) \<Longrightarrow> rot_live (r, d)"
  by (auto simp: rot_live_def)

lemma close_handle_not_open [simp]: "close_handle h \<noteq> Some (OpenFile n)"
  by (cases h) (simp_all add: close_handle_def)

lemma open_append_Some:
  assumes "open_append e n d = Some d'" "distinct (map fst d)"
  shows "distinct (map fst d')" "map_of d' n \<noteq> None" "content d' n = content d n" "m \<noteq> n \<Longrightarrow> map_of d' m = map_of d m"
  using assms by (auto simp: open_append_def content_def update_conv' distinct_update split: if_splits)

lemma take_stored: "take (length (stored e p)) p = stored e p"
  by (simp add: stored_def min_def split: option.splits)

lemma append_file_map_of:
  assumes "map_of d n = Some f"
  shows "map_of (append_file e n p d) m =
    (if m = n then Some (if stored e p = [] then f else \<lparr>lf_data = lf_data f @ stored e p, lf_mod = le_now e\<rparr>)
     else map_of d m)"
  using assms by (simp add: append_file_def update_conv')

lemma distinct_append_file [simp]: "distinct (map fst d) \<Longrightarrow> distinct (map fst (append_file e n p d))"
  by (simp add: append_file_def distinct_update split: option.splits)

text \<open>What a write does, whatever fails, as a relation between what it returns and the log of its day.\<close>

definition appended :: "log_env \<Rightarrow> string \<Rightarrow> log_dir \<Rightarrow> nat \<times> log_error option \<Rightarrow> FileRotator \<times> log_dir \<Rightarrow> bool" where
  "appended e p d res s \<longleftrightarrow> rot_live s \<and>
     content (snd s) (log_name (le_today e)) = content d (log_name (le_today e)) @ take (fst res) p \<and>
     (\<forall>m. m \<noteq> log_name (le_today e) \<longrightarrow> map_of (snd s) m = map_of d m) \<and> (snd res = None \<longrightarrow> fst res = length p)"

lemma appended_nothing: "rot_live (r, d) \<Longrightarrow> appended e p d (0, Some err) (r, d)"
  by (simp add: appended_def)

lemma appended_written:
  assumes "rot_current r = Some (OpenFile (log_name (le_today e)))" "rot_currentDay r = le_today e"
    "distinct (map fst d)" "map_of d (log_name (le_today e)) \<noteq> None"
    "handle_Write e p (rot_current r) d = (res, d')"
  shows "appended e p d res (r, d')"
proof -
  let ?l = "log_name (le_today e)"
  obtain f where f: "map_of d ?l = Some f" using assms(4) by blast
  have d': "d' = append_file e ?l p d" and res: "res = (length (stored e p), if le_write e = None then None else Some WriteLogFile)"
    using assms(1,5) by (simp_all add: handle_Write_def)
  have "rot_live (r, d')" unfolding rot_live_def d' snd_conv fst_conv
    by (intro conjI distinct_append_file assms(3)) (simp add: assms(1,2) append_file_map_of [OF f])
  moreover have "content d' ?l = content d ?l @ stored e p"
    by (simp add: content_def d' append_file_map_of [OF f] f)
  moreover have "map_of d' m = map_of d m" if "m \<noteq> ?l" for m
    using that by (simp add: d' append_file_map_of [OF f])
  moreover have "snd res = None \<longrightarrow> fst res = length p" by (simp add: res stored_def)
  ultimately show ?thesis by (simp add: appended_def res take_stored)
qed

lemma rot_Write_other:
  assumes "rot_live (r1, d)" "\<And>n. rot_current r1 \<noteq> Some (OpenFile n)"
    "rot_currentDay r1 \<noteq> le_today e \<Longrightarrow> s =
       (case open_append e (log_name (le_today e)) d of
          None \<Rightarrow> ((0, Some OpenLogFile), r1, d)
        | Some d1 \<Rightarrow>
            let r2 = r1\<lparr>rot_current := Some (OpenFile (log_name (le_today e))), rot_currentDay := le_today e\<rparr>;
                (res, d2) = handle_Write e p (rot_current r2) d1
            in (res, r2, d2))"
    "rot_currentDay r1 = le_today e \<Longrightarrow> s = (let (res, d1) = handle_Write e p (rot_current r1) d in (res, r1, d1))"
  shows "appended e p d (fst s) (snd s)"
proof (cases "rot_currentDay r1 = le_today e")
  case True
  show ?thesis
  proof (cases "rot_current r1")
    case None
    then show ?thesis using assms(1,4) True by (simp add: handle_Write_def appended_nothing)
  next
    case (Some h)
    then show ?thesis using assms(1,2,4) True by (cases h) (simp_all add: handle_Write_def appended_nothing)
  qed
next
  case False
  let ?l = "log_name (le_today e)" and ?r2 = "r1\<lparr>rot_current := Some (OpenFile (log_name (le_today e))), rot_currentDay := le_today e\<rparr>"
  show ?thesis
  proof (cases "open_append e ?l d")
    case None
    then show ?thesis using assms(1,3) False by (simp add: appended_nothing)
  next
    case (Some d1)
    have "distinct (map fst d)" using assms(1) by (simp add: rot_live_def)
    note o1 = open_append_Some [OF Some this]
    obtain res d2 where w: "handle_Write e p (rot_current ?r2) d1 = (res, d2)" by fastforce
    have "appended e p d1 res (?r2, d2)" by (rule appended_written [OF _ _ o1(1,2) w]) simp_all
    then show ?thesis using assms(3) False Some w o1(3,4) by (simp add: appended_def)
  qed
qed

lemma rot_Write_appended:
  assumes "rot_live (r, d)"
  shows "appended e p d (fst (rot_Write e p (r, d))) (snd (rot_Write e p (r, d)))"
proof (cases "rot_current r = None \<or> rot_currentDay r \<noteq> le_today e")
  case True
  define r1 where "r1 = (if rot_current r \<noteq> None
    then r\<lparr>rot_current := close_handle (rot_current r), rot_currentDay := []\<rparr> else r)"
  have "rot_live (r1, d)" "\<And>n. rot_current r1 \<noteq> Some (OpenFile n)" using assms by (auto simp: rot_live_def r1_def)
  then show ?thesis
    by (rule rot_Write_other)
      (use True in \<open>simp_all only: rot_Write_def Let_def prod.case if_True if_False r1_def [symmetric] simp_thms\<close>)
next
  case False
  then obtain h where h: "rot_current r = Some h" "rot_currentDay r = le_today e" by (cases "rot_current r") auto
  obtain res d' where w: "handle_Write e p (rot_current r) d = (res, d')" by fastforce
  then have s: "rot_Write e p (r, d) = (res, r, d')" using False by (auto simp: rot_Write_def)
  show ?thesis
  proof (cases h)
    case (OpenFile n)
    then have "n = log_name (le_today e)" "map_of d n \<noteq> None" "distinct (map fst d)"
      using assms h unfolding rot_live_def by auto
    then show ?thesis using appended_written [OF _ h(2) _ _ w] h(1) OpenFile by (simp add: s)
  next
    case (ClosedFile n)
    then have "res = (0, Some FileClosed)" "d' = d" using w h(1) by (simp_all add: handle_Write_def)
    then show ?thesis using assms by (simp add: s appended_nothing)
  qed
qed

text \<open>Closing and opening keep the invariant too, as long as the log of the day is not an old one.\<close>

lemma distinct_remove_file [simp]: "distinct (map fst d) \<Longrightarrow> distinct (map fst (remove_file e n d))"
  by (simp add: remove_file_def distinct_delete)

lemma distinct_compress [simp]: "distinct (map fst d) \<Longrightarrow> distinct (map fst (compress gz e day d))"
  by (simp add: compress_def distinct_update split: option.splits)

lemma rot_Close_live: "rot_live s \<Longrightarrow> rot_live (rot_Close gz e s)"
  by (auto simp: rot_live_def rot_Close_def split: prod.splits)

lemma log_name_not_gz [simp]: "\<not> is_gz (log_name day)" "log_name day \<noteq> gz_name day'"
proof -
  show "\<not> is_gz (log_name day)" by (simp add: HasSuffix_def log_name_def)
  moreover have "is_gz (gz_name day')" by (simp add: HasSuffix_iff gz_name_def)
  ultimately show "log_name day \<noteq> gz_name day'" by metis
qed

lemma map_of_compress: "day \<noteq> day' \<Longrightarrow> map_of (compress gz e day d) (log_name day') = map_of d (log_name day')"
  by (auto simp: compress_def remove_file_def update_conv' delete_conv' split: option.splits)

lemma opened_kept:
  assumes "open_append e (log_name day) d = Some d'" "distinct (map fst d)"
    "\<And>f. map_of d (log_name day) = Some f \<Longrightarrow> \<not> too_old e (lf_mod f)"
  shows "map_of (cleanup e d') (log_name day) = map_of d' (log_name day)"
proof -
  note o = open_append_Some [OF assms(1,2)]
  have "\<not> too_old e (lf_mod f)" if "map_of d' (log_name day) = Some f" for f
  proof (cases "map_of d (log_name day)")
    case None
    then have "f = \<lparr>lf_data = [], lf_mod = le_now e\<rparr>"
      using assms(1) that by (auto simp: open_append_def update_conv' split: if_splits)
    then show ?thesis by (simp add: too_old_def time_Sub_def maxDays_def)
  next
    case (Some g)
    then have "d' = d" using assms(1) by (simp add: open_append_def split: if_splits)
    then show ?thesis using assms(3) that by simp
  qed
  then show ?thesis by (intro cleanup_keeps_young [OF o(1)]) simp_all
qed

lemma rot_Open_live:
  assumes "rot_live (r, d)" "rot_Open gz e (r, d) = (err, s)"
    "\<And>f. map_of d (log_name (le_today e)) = Some f \<Longrightarrow> \<not> too_old e (lf_mod f)"
  shows "rot_live s"
proof (cases "rot_current r \<noteq> None \<and> rot_currentDay r = le_today e")
  case True
  then show ?thesis using assms(1,2) by (simp add: rot_Open_def)
next
  case False
  define r1 where "r1 = (if rot_current r \<noteq> None then r\<lparr>rot_current := close_handle (rot_current r)\<rparr> else r)"
  define d1 where "d1 = (if rot_current r \<noteq> None then compress gz e (rot_currentDay r) d else d)"
  have d: "distinct (map fst d1)" using assms(1) by (simp add: rot_live_def d1_def)
  have "map_of d1 (log_name (le_today e)) = map_of d (log_name (le_today e))"
    using False by (auto simp: d1_def map_of_compress)
  then have young: "\<And>f. map_of d1 (log_name (le_today e)) = Some f \<Longrightarrow> \<not> too_old e (lf_mod f)" using assms(3) by simp
  have s: "(err, s) = (case open_append e (log_name (le_today e)) d1 of
      None \<Rightarrow> (Some OpenLogFile, r1, d1)
    | Some d2 \<Rightarrow> (None, r1\<lparr>rot_current := Some (OpenFile (log_name (le_today e))), rot_currentDay := le_today e\<rparr>, cleanup e d2))"
    using False unfolding assms(2) [symmetric] rot_Open_def Let_def r1_def d1_def
    by (cases "rot_current r") (simp_all split: option.splits)
  show ?thesis
  proof (cases "open_append e (log_name (le_today e)) d1")
    case None
    then show ?thesis using s d by (auto simp: rot_live_def r1_def)
  next
    case (Some d2)
    note o = open_append_Some [OF Some d] and keep = opened_kept [OF Some d young]
    have "rot_live (r1\<lparr>rot_current := Some (OpenFile (log_name (le_today e))), rot_currentDay := le_today e\<rparr>, cleanup e d2)"
      by (rule rot_liveI) (use o(1,2) in \<open>simp_all add: keep\<close>)
    then show ?thesis using s Some by simp
  qed
qed

subsection \<open>A sequence of writes\<close>

fun rot_Writes ::
  "(log_env \<times> string) list \<Rightarrow> FileRotator \<times> log_dir \<Rightarrow> (nat \<times> log_error option) list \<times> FileRotator \<times> log_dir" where
  "rot_Writes [] s = ([], s)"
| "rot_Writes ((e, p) # ops) s =
     (let (res, s1) = rot_Write e p s; (rs, s2) = rot_Writes ops s1 in (res # rs, s2))"

text \<open>The bytes of the writes of one day, as far as the results say they were taken.\<close>

definition taken :: "string \<Rightarrow> (log_env \<times> string) list \<Rightarrow> (nat \<times> log_error option) list \<Rightarrow> string" where
  "taken day ops rs =
     concat (map (\<lambda>((e, p), (n, err)). if le_today e = day then take n p else []) (zip ops rs))"

lemma rot_Writes_spec:
  assumes "rot_live s" "rot_Writes ops s = (rs, s')"
  shows "rot_live s' \<and> content (snd s') (log_name day) = content (snd s) (log_name day) @ taken day ops rs \<and>
    (\<forall>m. m \<notin> (\<lambda>(e, p). log_name (le_today e)) ` set ops \<longrightarrow> map_of (snd s') m = map_of (snd s) m) \<and>
    list_all2 (\<lambda>(e, p) (n, err). err = None \<longrightarrow> n = length p) ops rs"
  using assms
proof (induction ops arbitrary: s rs)
  case Nil
  then show ?case by (simp add: taken_def)
next
  case (Cons op ops)
  obtain e p where op: "op = (e, p)" by fastforce
  obtain r d where s: "s = (r, d)" by fastforce
  obtain n err s1 where w: "rot_Write e p s = ((n, err), s1)" by (metis prod.exhaust)
  obtain rs' where ws: "rot_Writes ops s1 = (rs', s')" "rs = (n, err) # rs'"
    using Cons.prems(2) by (auto simp: op w split: prod.splits)
  have a: "appended e p d (n, err) s1" using rot_Write_appended [of r d e p] Cons.prems(1) w by (simp add: s)
  then have "content (snd s1) (log_name day) = content d (log_name day) @ (if le_today e = day then take n p else [])"
    by (auto simp: appended_def content_def)
  moreover note IH = Cons.IH [OF _ ws(1)]
  ultimately show ?case using a by (auto simp: appended_def op s ws(2) taken_def)
qed

subsection \<open>A session of the run command\<close>

text \<open>The clock shows the day and no call fails.\<close>

definition working :: "string \<Rightarrow> log_env \<Rightarrow> bool" where
  "working day e \<longleftrightarrow> le_today e = day \<and> le_open e (log_name day) \<and> le_write e = None \<and> le_read e (log_name day) \<and>
     le_create e (gz_name day) \<and> le_partial e = None \<and> le_remove e (log_name day) \<and> le_mkdir e"

definition log_all :: "(log_env \<times> log_record) list \<Rightarrow> log_state \<Rightarrow> log_state" where
  "log_all ms s = fold (\<lambda>(e, m). Combined_log e m) ms s"

text \<open>The logger is made, used, and closed when the run is over: the console's output and the directory.\<close>

definition log_session ::
  "(string \<Rightarrow> string) \<Rightarrow> log_config \<Rightarrow> log_env \<Rightarrow> (log_env \<times> log_record) list \<Rightarrow> log_env \<Rightarrow> log_dir \<Rightarrow> string \<times> log_dir" where
  "log_session gz cfg e0 ms e1 d =
     (let (l, d1) = New_logger gz e0 cfg d; (l2, out, d2) = log_all ms (l, [], d1); (l3, d3) = Close_logger gz e1 l2 d2
      in (out, d3))"

abbreviation day_rotator :: "string \<Rightarrow> string \<Rightarrow> FileRotator" where
  "day_rotator dir day \<equiv> \<lparr>rot_dir = dir, rot_current = Some (OpenFile (log_name day)), rot_currentDay = day\<rparr>"

lemma New_logger_working:
  assumes "working day e" "lc_LogDir cfg \<noteq> []" "distinct (map fst d)"
    "\<And>f. map_of d (log_name day) = Some f \<Longrightarrow> \<not> too_old e (lf_mod f)"
  obtains d1 where "New_logger gz e cfg d =
      (\<lparr>lg_console = (if lc_Verbose cfg then LevelDebug else LevelWarn), lg_rot = Some (day_rotator (lc_LogDir cfg) day)\<rparr>, d1)"
    "rot_live (day_rotator (lc_LogDir cfg) day, d1)" "content d1 (log_name day) = content d (log_name day)"
proof -
  let ?l = "log_name day"
  obtain d2 where d2: "open_append e ?l d = Some d2"
    using assms(1) by (cases "map_of d ?l") (simp_all add: open_append_def working_def)
  note o2 = open_append_Some [OF d2 assms(3)]
  have keep: "map_of (cleanup e d2) ?l = map_of d2 ?l" by (rule opened_kept [OF d2 assms(3,4)])
  show thesis
  proof (rule that)
    show "New_logger gz e cfg d = (\<lparr>lg_console = (if lc_Verbose cfg then LevelDebug else LevelWarn),
        lg_rot = Some (day_rotator (lc_LogDir cfg) day)\<rparr>, cleanup e d2)"
      using assms(1,2) d2 by (simp add: New_logger_def rot_Open_def NewFileRotator_def working_def)
    show "rot_live (day_rotator (lc_LogDir cfg) day, cleanup e d2)"
      by (rule rot_liveI) (use o2(1) in \<open>simp_all add: keep o2(2)\<close>)
    show "content (cleanup e d2) ?l = content d ?l" using o2(3) by (simp add: content_def keep)
  qed
qed

text \<open>The records of a working day, one after the other.\<close>

lemma Combined_log_working:
  assumes "working day e" "lg_rot l = Some (day_rotator dir day)" "rot_live (day_rotator dir day, d)"
  obtains d1 where "Combined_log e m (l, out, d) = (l, out @ (if lg_console l \<le> rec_level m then rec_text m else []), d1)"
    "rot_live (day_rotator dir day, d1)"
    "content d1 (log_name day) = content d (log_name day) @ (if LevelDebug \<le> rec_level m then rec_json m else [])"
proof (cases "LevelDebug \<le> rec_level m")
  case True
  let ?r = "day_rotator dir day"
  obtain res d1 where w: "rot_Write e (rec_json m) (?r, d) = (res, ?r, d1)" and res: "snd res = None"
    using assms(1) by (auto simp: rot_Write_def handle_Write_def working_def)
  have a: "appended e (rec_json m) d res (?r, d1)" using rot_Write_appended [OF assms(3), of e "rec_json m"] w by simp
  have l: "l\<lparr>lg_rot := Some ?r\<rparr> = l" using assms(2) by (cases l) simp
  show thesis
  proof (rule that)
    show "Combined_log e m (l, out, d) = (l, out @ (if lg_console l \<le> rec_level m then rec_text m else []), d1)"
      using True w l by (simp add: Combined_log_def file_log_def assms(2))
    show "rot_live (?r, d1)" using a by (simp add: appended_def)
    show "content d1 (log_name day) = content d (log_name day) @ (if LevelDebug \<le> rec_level m then rec_json m else [])"
      using a True res assms(1) by (simp add: appended_def working_def)
  qed
next
  case False
  have "l\<lparr>lg_rot := Some (day_rotator dir day)\<rparr> = l" using assms(2) by (cases l) simp
  then show thesis using False assms that [of d] by (simp add: Combined_log_def file_log_def)
qed

definition console_text :: "int \<Rightarrow> (log_env \<times> log_record) list \<Rightarrow> string" where
  "console_text level ms = concat (map (\<lambda>(e, m). if level \<le> rec_level m then rec_text m else []) ms)"

definition file_text :: "(log_env \<times> log_record) list \<Rightarrow> string" where
  "file_text ms = concat (map (\<lambda>(e, m). if LevelDebug \<le> rec_level m then rec_json m else []) ms)"

lemma log_all_working:
  assumes "\<forall>(e, m) \<in> set ms. working day e" "lg_rot l = Some (day_rotator dir day)" "rot_live (day_rotator dir day, d)"
  shows "\<exists>d1. log_all ms (l, out, d) = (l, out @ console_text (lg_console l) ms, d1) \<and>
    rot_live (day_rotator dir day, d1) \<and> content d1 (log_name day) = content d (log_name day) @ file_text ms"
  using assms
proof (induction ms arbitrary: d out)
  case Nil
  then show ?case by (simp add: log_all_def console_text_def file_text_def)
next
  case (Cons em ms)
  obtain e m where em: "em = (e, m)" by fastforce
  have e: "working day e" "\<forall>(e, m) \<in> set ms. working day e" using Cons.prems(1) by (simp_all add: em)
  obtain d1 where d1: "Combined_log e m (l, out, d) = (l, out @ (if lg_console l \<le> rec_level m then rec_text m else []), d1)"
    "rot_live (day_rotator dir day, d1)"
    "content d1 (log_name day) = content d (log_name day) @ (if LevelDebug \<le> rec_level m then rec_json m else [])"
    using Combined_log_working [OF e(1) Cons.prems(2,3)] by metis
  show ?case using Cons.IH [OF e(2) Cons.prems(2) d1(2), of "out @ (if lg_console l \<le> rec_level m then rec_text m else [])"] d1(1,3)
    by (simp add: log_all_def em console_text_def file_text_def)
qed

lemma Close_logger_working:
  assumes "working day e" "lg_rot l = Some (day_rotator dir day)" "rot_live (day_rotator dir day, d)"
    "Close_logger gz e l d = (l', d')"
  shows "map_of d' (log_name day) = None" "content d' (gz_name day) = gz (content d (log_name day))"
    "distinct (map fst d')"
proof -
  obtain f where f: "map_of d (log_name day) = Some f" using assms(3) by (auto simp: rot_live_def)
  have d': "d' = AList.delete (log_name day) (AList.update (gz_name day) \<lparr>lf_data = gz (lf_data f), lf_mod = le_now e\<rparr> d)"
    using assms(1,2,4) f by (simp add: Close_logger_def rot_Close_def compress_def remove_file_def working_def)
  show "map_of d' (log_name day) = None" by (simp add: d' delete_conv')
  show "content d' (gz_name day) = gz (content d (log_name day))"
    using log_name_not_gz(2) [of day day, symmetric] by (simp add: d' delete_conv' update_conv' content_def f)
  show "distinct (map fst d')" using assms(3) by (simp add: d' rot_live_def distinct_update distinct_delete)
qed

lemma log_session_working:
  assumes "working day e0" "working day e1" "\<forall>(e, m) \<in> set ms. working day e" "lc_LogDir cfg \<noteq> []" "distinct (map fst d)"
    "\<And>f. map_of d (log_name day) = Some f \<Longrightarrow> \<not> too_old e0 (lf_mod f)"
    "log_session gz cfg e0 ms e1 d = (out, d')"
  shows "out = console_text (if lc_Verbose cfg then LevelDebug else LevelWarn) ms \<and> map_of d' (log_name day) = None \<and>
    content d' (gz_name day) = gz (content d (log_name day) @ file_text ms) \<and> distinct (map fst d')"
proof -
  let ?l = "\<lparr>lg_console = (if lc_Verbose cfg then LevelDebug else LevelWarn), lg_rot = Some (day_rotator (lc_LogDir cfg) day)\<rparr>"
  obtain d1 where n: "New_logger gz e0 cfg d = (?l, d1)" "rot_live (day_rotator (lc_LogDir cfg) day, d1)"
    "content d1 (log_name day) = content d (log_name day)"
    by (rule New_logger_working [OF assms(1,4,5,6)])
  obtain d2 where a: "log_all ms (?l, [], d1) = (?l, console_text (lg_console ?l) ms, d2)"
    "rot_live (day_rotator (lc_LogDir cfg) day, d2)" "content d2 (log_name day) = content d (log_name day) @ file_text ms"
    using log_all_working [OF assms(3) _ n(2), of ?l "[]"] n(3) by auto
  obtain l3 d3 where c: "Close_logger gz e1 ?l d2 = (l3, d3)" by fastforce
  have "out = console_text (lg_console ?l) ms" "d' = d3"
    using assms(7) by (simp_all add: log_session_def n(1) a(1) c)
  then show ?thesis using Close_logger_working [OF assms(2) _ a(2) c] a(3) by simp
qed

subsection \<open>Properties\<close>

text \<open>
  C18: Whatever fails, and however the days change between writes, a rotator appends to the file of
  each day exactly the bytes its results say were taken from the writes of that day, in their
  order; a write without an error was taken whole; no other file of the directory changes.
\<close>

theorem rotation_by_day:
  assumes "rot_live s" "rot_Writes ops s = (rs, s')"
  shows "rot_live s' \<and> content (snd s') (log_name day) = content (snd s) (log_name day) @ taken day ops rs \<and>
    (\<forall>m. m \<notin> (\<lambda>(e, p). log_name (le_today e)) ` set ops \<longrightarrow> map_of (snd s') m = map_of (snd s) m) \<and>
    list_all2 (\<lambda>(e, p) (n, err). err = None \<longrightarrow> n = length p) ops rs"
  using assms by (rule rot_Writes_spec)

definition sample_log_env :: "string \<Rightarrow> log_env" where
  "sample_log_env day = \<lparr>le_now = 0, le_today = day, le_open = (\<lambda>_. True), le_write = None, le_read = (\<lambda>_. True),
     le_create = (\<lambda>_. True), le_partial = None, le_remove = (\<lambda>_. True), le_mkdir = True, le_list = True, le_info = (\<lambda>_. True)\<rparr>"

definition sample_writes :: "(log_env \<times> string) list" where
  "sample_writes =
     [(sample_log_env ''2026-01-01'', ''a''), ((sample_log_env ''2026-01-02'')\<lparr>le_open := \<lambda>_. False\<rparr>, ''b''),
      (sample_log_env ''2026-01-02'', ''c''), ((sample_log_env ''2026-01-02'')\<lparr>le_write := Some 1\<rparr>, ''de'')]"

lemma sample_writes_results:
  "fst (rot_Writes sample_writes (NewFileRotator ''/logs'', [])) =
     [(1, None), (0, Some OpenLogFile), (1, None), (1, Some WriteLogFile)]"
  by code_simp

theorem rotation_by_day_witness:
  "content (snd (snd (rot_Writes sample_writes (NewFileRotator ''/logs'', [])))) ''ts-bridge-2026-01-02.log'' = ''cd''"
proof -
  obtain rs s' where w: "rot_Writes sample_writes (NewFileRotator ''/logs'', []) = (rs, s')" by (metis prod.exhaust)
  have rs: "rs = [(1, None), (0, Some OpenLogFile), (1, None), (1, Some WriteLogFile)]" using sample_writes_results by (simp add: w)
  have "rot_live (NewFileRotator ''/logs'', [])" by (rule rot_live_new) simp
  then have "content (snd s') (log_name ''2026-01-02'') = content [] (log_name ''2026-01-02'') @ taken ''2026-01-02'' sample_writes rs"
    using rotation_by_day [OF _ w, of "''2026-01-02''"] by simp
  moreover have "taken ''2026-01-02'' sample_writes rs = ''cd''" unfolding rs by code_simp
  ultimately show ?thesis by (simp add: w log_name_def content_def)
qed

abbreviation gz_logs :: "log_dir \<Rightarrow> (string \<times> log_file) set" where
  "gz_logs d \<equiv> {(n, f). (n, f) \<in> set d \<and> is_log n \<and> is_gz n}"

lemma set_cleanup:
  assumes "le_list e" "\<And>n. le_remove e n"
  shows "(n, f) \<in> set (cleanup e d) \<longleftrightarrow> (n, f) \<in> set d \<and> n \<notin> doomed e (sort_outer 0 (log_entries e d)) 0"
  using assms by (simp add: cleanup_def clean_loop_filter)

text \<open>The compressed logs that are left, counted among the entries the loop went over.\<close>

lemma gz_logs_cleanup:
  assumes "distinct (map fst d)" "le_list e" "\<And>n. le_info e n" "\<And>n. le_remove e n"
  shows "card {(m, g). (m, g) \<in> gz_logs (cleanup e d) \<and> P (lf_mod g)} =
    length (filter (\<lambda>(m, u). P u) (kept_gz e (sort_outer 0 (log_entries e d)) 0))"
proof -
  let ?ls = "sort_outer 0 (log_entries e d)" and ?A = "{(m, g). (m, g) \<in> gz_logs (cleanup e d) \<and> P (lf_mod g)}"
  have "distinct (map fst ?ls)" using distinct_log_entries [OF assms(1)] by (simp add: distinct_sort_outer)
  then have "distinct (filter (\<lambda>(m, u). P u) (kept_gz e ?ls 0))" by (simp add: kept_gz_def distinct_map)
  moreover have "inj_on (\<lambda>(n, f). (n, lf_mod f)) ?A"
    using eq_key_imp_eq_value [OF distinct_cleanup [OF assms(1), of e]] by (fastforce simp: inj_on_def)
  moreover have "(\<lambda>(n, f). (n, lf_mod f)) ` ?A = set (filter (\<lambda>(m, u). P u) (kept_gz e ?ls 0))"
    using assms(3) set_cleanup [OF assms(2,4)] by (auto simp: kept_gz_def log_entries_iff [OF assms(1)] image_iff)
  ultimately show ?thesis by (metis (no_types, lifting) card_image distinct_card)
qed

lemma gz_logs_bound:
  assumes "distinct (map fst d)" "le_list e" "\<And>n. le_info e n" "\<And>n. le_remove e n"
  shows "card {(m, g). (m, g) \<in> gz_logs (cleanup e d) \<and> P (lf_mod g)} \<le> 10"
proof -
  have "distinct (map fst (sort_outer 0 (log_entries e d)))"
    using distinct_log_entries [OF assms(1)] by (simp add: distinct_sort_outer)
  from kept_gz_bound [OF this, of 0 e] have "length (kept_gz e (sort_outer 0 (log_entries e d)) 0) \<le> 10"
    by (simp add: maxFiles_def)
  then show ?thesis unfolding gz_logs_cleanup [OF assms] by (rule le_trans [OF length_filter_le])
qed

lemma cleanup_removed:
  assumes "distinct (map fst d)" "le_list e" "\<And>n. le_info e n" "\<And>n. le_remove e n"
    "(n, f) \<in> set d" "(n, f) \<notin> set (cleanup e d)"
  shows "is_log n \<and> (too_old e (lf_mod f) \<or>
    is_gz n \<and> card {(m, g). (m, g) \<in> gz_logs (cleanup e d) \<and> lf_mod f \<le> lf_mod g} = 10)"
proof -
  let ?ls = "sort_outer 0 (log_entries e d)"
  have n: "n \<in> doomed e ?ls 0" using assms(5,6) set_cleanup [OF assms(2,4)] by simp
  have "n \<in> fst ` set ?ls" by (rule subsetD [OF doomed_names n])
  then have l: "is_log n" "(n, lf_mod f) \<in> set ?ls" using assms(3,5) by (auto simp: log_entries_iff [OF assms(1)])
  have ls: "distinct (map fst ?ls)" "newest_first ?ls"
    using distinct_log_entries [OF assms(1)] by (simp_all add: distinct_sort_outer sort_outer_newest_first)
  show ?thesis
  proof (cases "too_old e (lf_mod f)")
    case False
    note k = doomed_young [OF ls l(2) n False]
    have "card {(m, g). (m, g) \<in> gz_logs (cleanup e d) \<and> lf_mod f \<le> lf_mod g} = 10"
    proof (rule antisym)
      show "10 \<le> card {(m, g). (m, g) \<in> gz_logs (cleanup e d) \<and> lf_mod f \<le> lf_mod g}"
        using k unfolding gz_logs_cleanup [OF assms(1-4)] by (simp add: maxFiles_def)
    qed (rule gz_logs_bound [OF assms(1-4)])
    then show ?thesis using l(1) k by blast
  qed (use l(1) in simp)
qed

lemma too_old_iff: "too_old e t \<longleftrightarrow> 7 * 24 * 60 * 60 * 10 ^ 9 < le_now e - t"
  by (simp add: too_old_def time_Sub_def maxDays_def less_max_iff_disj)

text \<open>
  C19: After a clean-up in which no call fails, at most ten compressed logs are left and no log file
  is older than seven days; a file that is not a log stays; and a young file goes only when it is
  compressed and ten compressed logs that are at least as new stay.
\<close>

theorem cleanup_bounds:
  assumes "distinct (map fst d)" "le_list e" "\<And>n. le_info e n" "\<And>n. le_remove e n"
  shows "card (gz_logs (cleanup e d)) \<le> 10 \<and>
    (\<forall>(n, f) \<in> set (cleanup e d). is_log n \<longrightarrow> le_now e - lf_mod f \<le> 7 * 24 * 60 * 60 * 10 ^ 9) \<and>
    (\<forall>(n, f) \<in> set d - set (cleanup e d). is_log n \<and>
       (7 * 24 * 60 * 60 * 10 ^ 9 < le_now e - lf_mod f \<or>
        is_gz n \<and> card {(m, g). (m, g) \<in> gz_logs (cleanup e d) \<and> lf_mod f \<le> lf_mod g} = 10))"
proof (intro conjI)
  show "card (gz_logs (cleanup e d)) \<le> 10" using gz_logs_bound [OF assms, of "\<lambda>_. True"] by simp
  have "\<not> too_old e (lf_mod f)" if "(n, f) \<in> set (cleanup e d)" "is_log n" for n f
    using that doomed_old [of n "lf_mod f" "sort_outer 0 (log_entries e d)" e 0] set_cleanup [OF assms(2,4)] assms(3)
    by (simp add: log_entries_iff [OF assms(1)]) blast
  then show "\<forall>(n, f) \<in> set (cleanup e d). is_log n \<longrightarrow> le_now e - lf_mod f \<le> 7 * 24 * 60 * 60 * 10 ^ 9"
    unfolding too_old_iff not_less by blast
  show "\<forall>(n, f) \<in> set d - set (cleanup e d). is_log n \<and>
       (7 * 24 * 60 * 60 * 10 ^ 9 < le_now e - lf_mod f \<or>
        is_gz n \<and> card {(m, g). (m, g) \<in> gz_logs (cleanup e d) \<and> lf_mod f \<le> lf_mod g} = 10)"
    using cleanup_removed [OF assms] unfolding too_old_iff by blast
qed

definition sample_log_dir :: log_dir where
  "sample_log_dir = [(''ts-bridge-2025-12-01.log'', \<lparr>lf_data = ''old'', lf_mod = - (10 ^ 15)\<rparr>),
     (''notes.gz'', \<lparr>lf_data = ''mine'', lf_mod = - (10 ^ 15)\<rparr>)]"

theorem cleanup_bounds_witness:
  "card (gz_logs (cleanup (sample_log_env ''2026-01-02'') sample_log_dir)) \<le> 10 \<and>
   map fst (cleanup (sample_log_env ''2026-01-02'') sample_log_dir) = [''notes.gz'']"
proof -
  have "distinct (map fst sample_log_dir)" "le_list (sample_log_env ''2026-01-02'')"
    "\<And>n. le_info (sample_log_env ''2026-01-02'') n" "\<And>n. le_remove (sample_log_env ''2026-01-02'') n"
    by (simp_all add: sample_log_dir_def sample_log_env_def)
  from cleanup_bounds [OF this] have "card (gz_logs (cleanup (sample_log_env ''2026-01-02'') sample_log_dir)) \<le> 10"
    by (rule conjunct1)
  moreover have "map fst (cleanup (sample_log_env ''2026-01-02'') sample_log_dir) = [''notes.gz'']" by code_simp
  ultimately show ?thesis by blast
qed

text \<open>
  A second session of the same day finds no log and replaces the compressed file of the first: of
  two sessions the records of the second are all that is left.
\<close>

lemma second_session_replaces:
  assumes "working day e" "working day e'" "\<forall>(e, m) \<in> set ms. working day e" "\<forall>(e, m) \<in> set ms'. working day e"
    "lc_LogDir cfg \<noteq> []" "distinct (map fst d)" "map_of d (log_name day) = None"
    "log_session gz cfg e ms e' d = (out, d1)" "log_session gz cfg e ms' e' d1 = (out', d2)"
  shows "map_of d2 (log_name day) = None \<and> content d2 (gz_name day) = gz (file_text ms')"
proof -
  have "map_of d1 (log_name day) = None" "distinct (map fst d1)"
    using log_session_working [OF assms(1,2,3,5,6) _ assms(8)] assms(7) by simp_all
  then show ?thesis using log_session_working [OF assms(1,2,4,5) _ _ assms(9)] by (simp add: content_def)
qed

text \<open>Once closed, a rotator refuses every write of the same day, and opens a file again the day after.\<close>

lemma write_after_close:
  assumes "rot_current r \<noteq> None" "rot_currentDay r = le_today e"
  shows "rot_Write e p (rot_Close gz e' (r, d)) = ((0, Some FileInvalid), rot_Close gz e' (r, d))"
  using assms by (simp add: rot_Write_def rot_Close_def handle_Write_def)

text \<open>
  When the log directory cannot be made, or its file not be opened, the logger has no file logger,
  and the first record of tsnet panics. The format of the configuration changes nothing.
\<close>

lemma tsnet_record_panics:
  assumes "\<not> le_mkdir e" "New_logger gz e cfg d = (l, d')"
  shows "tsnetLogf e' json (Some l) d' = None"
  using assms by (auto simp: New_logger_def tsnetLogf_def Let_def split: if_splits)

lemma log_format_ignored: "New_logger gz e (cfg\<lparr>lc_LogFormat := fmt\<rparr>) d = New_logger gz e cfg d"
  by (simp add: New_logger_def)

end
