(* ===== verification/State_Dir_ACL.thy ===== *)
theory State_Dir_ACL
  imports State_Dir
begin

text \<open>
  \<open>internal/host/statedir_acl_linux.go\<close> and \<open>statedir_acl_other.go\<close>: the raw access list of a path,
  read in two calls of \<open>getxattr\<close>, the first for the size. What the kernel answers is an argument: the
  list may change between two calls. A successful second call gives the bytes it put in the buffer.
\<close>

datatype errno = ENODATA | ENOTSUP | ENOENT | ERANGE | OtherErrno nat

text \<open>The answers of one attempt: to the call for the size, and to the call with a buffer of that size.\<close>

record xattr_calls =
  xa_size :: "(errno, nat) result"
  xa_read :: "nat \<Rightarrow> (errno, octet list) result"

definition noACL :: "errno \<Rightarrow> bool" where
  "noACL e \<longleftrightarrow> e = ENODATA \<or> e = ENOTSUP \<or> e = ENOENT"

text \<open>The attempts that are left, and the number of the next one.\<close>

fun read_attempts :: "nat \<Rightarrow> nat \<Rightarrow> (nat \<Rightarrow> xattr_calls) \<Rightarrow> acl_answer" where
  "read_attempts 0 i calls = ACLFails"
| "read_attempts (Suc n) i calls =
     (case xa_size (calls i) of
        Inl e \<Rightarrow> if noACL e then NoACL else ACLFails
      | Inr sz \<Rightarrow>
          (case xa_read (calls i) sz of
             Inr buf \<Rightarrow> ACL buf
           | Inl e \<Rightarrow>
               if e = ERANGE then read_attempts n (Suc i) calls
               else if noACL e then NoACL else ACLFails))"

definition readAccessACL :: "(nat \<Rightarrow> xattr_calls) \<Rightarrow> acl_answer" where
  "readAccessACL calls = read_attempts 3 0 calls"

text \<open>\<open>nil\<close> off Linux, where the walk skips the lists.\<close>

definition readAccessACL_other :: "(string \<Rightarrow> acl_answer) option" where
  "readAccessACL_other = None"

text \<open>
  A path counts as one without a list only when the kernel said so, and a list is what one read
  gave; so every other failure reaches the walk, which refuses the path.
\<close>

lemma read_attempts_range:
  "read_attempts n i calls = NoACL \<Longrightarrow>
     \<exists>j < n. \<exists>e. noACL e \<and> (xa_size (calls (i + j)) = Inl e \<or> (\<exists>sz. xa_read (calls (i + j)) sz = Inl e))"
  "read_attempts n i calls = ACL raw \<Longrightarrow>
     \<exists>j < n. \<exists>sz. xa_size (calls (i + j)) = Inr sz \<and> xa_read (calls (i + j)) sz = Inr raw"
  by (induction n arbitrary: i) (fastforce simp: Ex_less_Suc2 split: sum.splits if_splits)+

lemma readAccessACL_sound:
  "readAccessACL calls = NoACL \<Longrightarrow>
     \<exists>j < 3. \<exists>e. noACL e \<and> (xa_size (calls j) = Inl e \<or> (\<exists>sz. xa_read (calls j) sz = Inl e))"
  "readAccessACL calls = ACL raw \<Longrightarrow> \<exists>j < 3. \<exists>sz. xa_size (calls j) = Inr sz \<and> xa_read (calls j) sz = Inr raw"
  using read_attempts_range [of 3 0 calls] by (simp_all add: readAccessACL_def)

text \<open>An attempt during which the list does not grow is enough, if it is among the first three.\<close>

lemma readAccessACL_stable:
  assumes "\<And>i. i < k \<Longrightarrow> \<exists>sz. xa_size (calls i) = Inr sz \<and> xa_read (calls i) sz = Inl ERANGE"
    "xa_size (calls k) = Inr sz" "xa_read (calls k) sz = Inr raw" "k < 3"
  shows "readAccessACL calls = ACL raw"
  using assms(1) [of 0] assms(1) [of 1] assms(2-4)
  by (cases k rule: nat.exhaust) (auto simp: readAccessACL_def numeral_3_eq_3 less_Suc_eq)

lemma readAccessACL_gives_up:
  assumes "\<And>i. i < 3 \<Longrightarrow> \<exists>sz. xa_size (calls i) = Inr sz \<and> xa_read (calls i) sz = Inl ERANGE"
  shows "readAccessACL calls = ACLFails"
  using assms [of 0] assms [of 1] assms [of 2] by (auto simp: readAccessACL_def numeral_3_eq_3 numeral_2_eq_2)

end
