(* ===== verification/State_Dir_Windows.thy ===== *)
theory State_Dir_Windows
  imports Prelude "HOL-Library.Word" "HOL-Library.Sublist"
begin

unbundle bit_operations_syntax

text \<open>
  \<open>internal/host/statedir_windows.go\<close>: the checks of a state directory and of a key file on Windows,
  and the creation of the directory. A cleaned absolute path is its volume and its components; the
  file system gives each path its kind and its security descriptor. What the Windows calls answer,
  errors included, is an argument. The property is stated over the access check of Windows, which
  walks the entries of an access list in order.
\<close>

subsection \<open>Security descriptors\<close>

datatype sid = LocalSystem | BuiltinAdministrators | CreatorOwner | OtherSid string

definition ACCESS_ALLOWED_ACE_TYPE :: nat where "ACCESS_ALLOWED_ACE_TYPE = 0"
definition ACCESS_DENIED_ACE_TYPE :: nat where "ACCESS_DENIED_ACE_TYPE = 1"
definition OBJECT_INHERIT_ACE :: "8 word" where "OBJECT_INHERIT_ACE = 1"
definition CONTAINER_INHERIT_ACE :: "8 word" where "CONTAINER_INHERIT_ACE = 2"
definition INHERIT_ONLY_ACE :: "8 word" where "INHERIT_ONLY_ACE = 8"
definition FILE_ALL_ACCESS :: "32 word" where "FILE_ALL_ACCESS = 0x1F01FF"

record ace =
  ace_type :: nat
  ace_flags :: "8 word"
  ace_mask :: "32 word"
  ace_sid :: sid

text \<open>\<open>None\<close> for the owner is an error, for the list an error or no list; an entry is \<open>None\<close> when it cannot be read.\<close>

record win_sd =
  sd_owner :: "sid option"
  sd_dacl :: "ace option list option"

type_synonym win_path = "string \<times> string list"

datatype win_kind = WinDir | WinFile | WinLink | WinOther

record win_node =
  wn_kind :: win_kind
  wn_sd :: win_sd

text \<open>The file system and the calls that fail; \<open>we_inherit\<close> is the descriptor a new directory gets.\<close>

record win_env =
  we_lstat :: "win_path \<Rightarrow> bool"
  we_getsd :: "win_path \<Rightarrow> bool"
  we_mkdir :: bool
  we_setsd :: bool
  we_sddl :: "string \<Rightarrow> win_sd option"
  we_inherit :: win_sd

type_synonym win_fs = "win_path \<rightharpoonup> win_node"

datatype lstat_result = LstatOK win_node | LstatNotExist | LstatError

definition Lstat :: "win_env \<Rightarrow> win_fs \<Rightarrow> win_path \<Rightarrow> lstat_result" where
  "Lstat e fs p =
     (if we_lstat e p then LstatError else case fs p of None \<Rightarrow> LstatNotExist | Some n \<Rightarrow> LstatOK n)"

definition win_Dir :: "win_path \<Rightarrow> win_path" where
  "win_Dir p = (fst p, butlast (snd p))"

datatype win_state_error =
    BehindLink win_path
  | WinLstat win_path
  | WinNotDirectory
  | WinNotRegular
  | ReadPermissions
  | ReadOwner
  | UntrustedOwner sid
  | NoDACL
  | ReadACE nat
  | UnsupportedACE nat
  | UntrustedAccess sid
  | CreateWinDir
  | ProtectWinDir

subsection \<open>The checks\<close>

definition trustedSID :: "sid \<Rightarrow> bool" where
  "trustedSID s \<longleftrightarrow> s = LocalSystem \<or> s = BuiltinAdministrators"

definition checkACE :: "ace \<Rightarrow> win_state_error option" where
  "checkACE a =
     (if ace_type a = ACCESS_DENIED_ACE_TYPE then None
      else if ace_type a \<noteq> ACCESS_ALLOWED_ACE_TYPE then Some (UnsupportedACE (ace_type a))
      else
        let inheritOnly = (ace_flags a AND INHERIT_ONLY_ACE \<noteq> 0)
        in if ace_mask a = 0 \<or> trustedSID (ace_sid a) \<or> inheritOnly \<and> ace_sid a = CreatorOwner then None
           else Some (UntrustedAccess (ace_sid a)))"

fun check_aces :: "nat \<Rightarrow> ace option list \<Rightarrow> win_state_error option" where
  "check_aces i [] = None"
| "check_aces i (a # as) =
     (case a of
        None \<Rightarrow> Some (ReadACE i)
      | Some ace \<Rightarrow> and_then (checkACE ace) (check_aces (Suc i) as))"

definition checkWindowsDACL :: "win_sd \<Rightarrow> win_state_error option" where
  "checkWindowsDACL sd =
     (case sd_owner sd of
        None \<Rightarrow> Some ReadOwner
      | Some owner \<Rightarrow>
          if \<not> trustedSID owner then Some (UntrustedOwner owner)
          else (case sd_dacl sd of
                  None \<Rightarrow> Some NoDACL
                | Some aces \<Rightarrow> check_aces 0 aces))"

text \<open>The walk to the root of the volume, over the components in reverse.\<close>

fun no_reparse :: "win_env \<Rightarrow> win_fs \<Rightarrow> string \<Rightarrow> string list \<Rightarrow> win_state_error option" where
  "no_reparse e fs vol rcs =
     (case Lstat e fs (vol, rev rcs) of
        LstatError \<Rightarrow> Some (WinLstat (vol, rev rcs))
      | LstatOK n \<Rightarrow>
          if wn_kind n = WinLink then Some (BehindLink (vol, rev rcs))
          else (case rcs of [] \<Rightarrow> None | c # cs \<Rightarrow> no_reparse e fs vol cs)
      | LstatNotExist \<Rightarrow> (case rcs of [] \<Rightarrow> None | c # cs \<Rightarrow> no_reparse e fs vol cs))"

declare no_reparse.simps [simp del]

definition checkNoReparse :: "win_env \<Rightarrow> win_fs \<Rightarrow> win_path \<Rightarrow> win_state_error option" where
  "checkNoReparse e fs p = no_reparse e fs (fst p) (rev (snd p))"

definition CheckStateDir_windows :: "win_env \<Rightarrow> win_fs \<Rightarrow> win_path \<Rightarrow> win_state_error option" where
  "CheckStateDir_windows e fs p =
     (case checkNoReparse e fs p of
        Some err \<Rightarrow> Some err
      | None \<Rightarrow>
          (case Lstat e fs p of
             LstatOK n \<Rightarrow>
               if wn_kind n \<noteq> WinDir then Some WinNotDirectory
               else if we_getsd e p then Some ReadPermissions
               else checkWindowsDACL (wn_sd n)
           | _ \<Rightarrow> Some (WinLstat p)))"

definition CheckSecretFile_windows :: "win_env \<Rightarrow> win_fs \<Rightarrow> win_path \<Rightarrow> win_state_error option" where
  "CheckSecretFile_windows e fs p =
     (case Lstat e fs p of
        LstatOK n \<Rightarrow>
          if wn_kind n \<noteq> WinFile then Some WinNotRegular
          else if we_getsd e p then Some ReadPermissions
          else checkWindowsDACL (wn_sd n)
      | _ \<Rightarrow> Some (WinLstat p))"

subsection \<open>Creating the directory\<close>

definition stateDirSDDL :: string where
  "stateDirSDDL = ''O:BAD:PAI(A;OICI;FA;;;SY)(A;OICI;FA;;;BA)''"

text \<open>\<open>os.MkdirAll\<close>: the missing directories from the root down; a file on the way is an error.\<close>

definition MkdirAll_windows :: "win_env \<Rightarrow> win_path \<Rightarrow> win_fs \<Rightarrow> win_fs option" where
  "MkdirAll_windows e p fs =
     (if we_mkdir e \<or> list_ex (\<lambda>cs. case fs (fst p, cs) of None \<Rightarrow> False | Some n \<Rightarrow> wn_kind n \<noteq> WinDir) (prefixes (snd p)) then None
      else Some (\<lambda>q. if fs q = None \<and> fst q = fst p \<and> prefix (snd q) (snd p)
                     then Some \<lparr>wn_kind = WinDir, wn_sd = we_inherit e\<rparr> else fs q))"

text \<open>The constant names a list, so a descriptor without one is taken for the error of reading it.\<close>

definition protectStateDir :: "win_env \<Rightarrow> win_path \<Rightarrow> win_fs \<Rightarrow> win_fs option" where
  "protectStateDir e p fs =
     (case we_sddl e stateDirSDDL of
        None \<Rightarrow> None
      | Some sd \<Rightarrow>
          if sd_owner sd = None \<or> sd_dacl sd = None \<or> we_setsd e then None
          else (case fs p of
                  None \<Rightarrow> None
                | Some n \<Rightarrow> Some (fs(p \<mapsto> n\<lparr>wn_sd := sd\<rparr>))))"

definition EnsureStateDir_windows :: "win_env \<Rightarrow> win_path \<Rightarrow> win_fs \<Rightarrow> win_state_error option \<times> win_fs" where
  "EnsureStateDir_windows e p fs =
     (case Lstat e fs p of
        LstatNotExist \<Rightarrow>
          (case checkNoReparse e fs (win_Dir p) of
             Some err \<Rightarrow> (Some err, fs)
           | None \<Rightarrow>
               (case MkdirAll_windows e p fs of
                  None \<Rightarrow> (Some CreateWinDir, fs)
                | Some fs1 \<Rightarrow>
                    (case protectStateDir e p fs1 of
                       None \<Rightarrow> (Some ProtectWinDir, fs1)
                     | Some fs2 \<Rightarrow> (CheckStateDir_windows e fs2 p, fs2))))
      | _ \<Rightarrow> (CheckStateDir_windows e fs p, fs))"

subsection \<open>The access check\<close>

text \<open>
  What a list grants to a token that holds the given identifiers: the entries are taken in order, a
  bit that was denied earlier is not granted later, an inherit-only entry does not apply. A file
  made in the directory gets the entries that files inherit, with its creator for CREATOR OWNER.
\<close>

fun granted :: "sid set \<Rightarrow> 32 word \<Rightarrow> ace list \<Rightarrow> 32 word" where
  "granted T denied [] = 0"
| "granted T denied (a # as) =
     (if ace_flags a AND INHERIT_ONLY_ACE \<noteq> 0 \<or> ace_sid a \<notin> T then granted T denied as
      else if ace_type a = ACCESS_ALLOWED_ACE_TYPE then (ace_mask a AND NOT denied) OR granted T denied as
      else if ace_type a = ACCESS_DENIED_ACE_TYPE then granted T (denied OR ace_mask a) as
      else granted T denied as)"

definition file_aces :: "sid \<Rightarrow> ace list \<Rightarrow> ace list" where
  "file_aces creator as =
     map (\<lambda>a. a\<lparr>ace_flags := 0, ace_sid := (if ace_sid a = CreatorOwner then creator else ace_sid a)\<rparr>)
       (filter (\<lambda>a. ace_flags a AND OBJECT_INHERIT_ACE \<noteq> 0) as)"

definition harmless :: "ace \<Rightarrow> bool" where
  "harmless a \<longleftrightarrow> checkACE a = None"

lemma check_aces_None: "check_aces i as = None \<longleftrightarrow> (\<exists>bs. as = map Some bs \<and> (\<forall>a \<in> set bs. harmless a))"
proof (induction as arbitrary: i)
  case (Cons a as)
  show ?case
  proof (cases a)
    case (Some ace)
    then show ?thesis using Cons.IH [of "Suc i"] by (auto simp: harmless_def Cons_eq_map_conv)
  qed auto
qed simp

text \<open>An entry that passes the check gives nothing to a token without a trusted identifier.\<close>

lemma harmless_allow:
  assumes "harmless a" "ace_type a = ACCESS_ALLOWED_ACE_TYPE" "ace_mask a \<noteq> 0"
  shows "trustedSID (ace_sid a) \<or> ace_flags a AND INHERIT_ONLY_ACE \<noteq> 0 \<and> ace_sid a = CreatorOwner"
  using assms by (auto simp: harmless_def checkACE_def Let_def ACCESS_ALLOWED_ACE_TYPE_def ACCESS_DENIED_ACE_TYPE_def split: if_splits)

lemma granted_nothing:
  "\<forall>a \<in> set as. ace_flags a AND INHERIT_ONLY_ACE = 0 \<longrightarrow> ace_type a = ACCESS_ALLOWED_ACE_TYPE \<longrightarrow> ace_sid a \<in> T \<longrightarrow> ace_mask a = 0 \<Longrightarrow>
   granted T denied as = 0"
  by (induction T denied as rule: granted.induct) auto

lemma harmless_granted:
  assumes "\<forall>a \<in> set as. harmless a" "\<forall>s \<in> T. \<not> trustedSID s"
  shows "granted T denied as = 0"
  by (rule granted_nothing) (use assms harmless_allow in blast)

lemma harmless_file_granted:
  assumes "\<forall>a \<in> set as. harmless a" "\<forall>s \<in> T. \<not> trustedSID s" "trustedSID creator"
  shows "granted T denied (file_aces creator as) = 0"
proof (rule granted_nothing, intro ballI impI)
  fix b assume "b \<in> set (file_aces creator as)" and b: "ace_type b = ACCESS_ALLOWED_ACE_TYPE" "ace_sid b \<in> T"
  then obtain a where a: "a \<in> set as" "ace_type a = ace_type b" "ace_mask b = ace_mask a"
    "ace_sid b = (if ace_sid a = CreatorOwner then creator else ace_sid a)"
    by (auto simp: file_aces_def)
  show "ace_mask b = 0"
  proof (rule ccontr)
    assume "ace_mask b \<noteq> 0"
    then have "trustedSID (ace_sid a) \<or> ace_sid a = CreatorOwner" using harmless_allow [of a] assms(1) a b(1) by auto
    then have "trustedSID (ace_sid b)" using a(4) assms(3) by (auto split: if_splits)
    then show False using b(2) assms(2) by blast
  qed
qed

lemma no_reparse_None:
  "no_reparse e fs vol rcs = None \<Longrightarrow> prefix cs (rev rcs) \<Longrightarrow> fs (vol, cs) = Some n \<Longrightarrow> wn_kind n \<noteq> WinLink"
proof (induction rcs)
  case Nil
  then show ?case by (auto simp: no_reparse.simps Lstat_def split: if_splits)
next
  case (Cons c rcs)
  have rest: "no_reparse e fs vol rcs = None" "fs (vol, rev (c # rcs)) = Some n \<Longrightarrow> wn_kind n \<noteq> WinLink"
    using Cons.prems(1) by (auto simp: no_reparse.simps [of e fs vol "c # rcs"] Lstat_def split: if_splits option.splits)
  from Cons.prems(2) have "cs = rev (c # rcs) \<or> prefix cs (rev rcs)" by simp
  then show ?case using rest Cons.IH Cons.prems(3) by auto
qed

lemma CheckStateDir_windows_None:
  assumes "CheckStateDir_windows e fs p = None"
  shows "\<exists>n owner as. fs p = Some n \<and> wn_kind n = WinDir \<and> sd_owner (wn_sd n) = Some owner \<and> trustedSID owner \<and>
    sd_dacl (wn_sd n) = Some (map Some as) \<and> (\<forall>a \<in> set as. harmless a)" "checkNoReparse e fs p = None"
proof -
  show "checkNoReparse e fs p = None" using assms by (auto simp: CheckStateDir_windows_def split: option.splits)
  then obtain n where n: "fs p = Some n" "wn_kind n = WinDir" "checkWindowsDACL (wn_sd n) = None"
    using assms by (auto simp: CheckStateDir_windows_def Lstat_def split: lstat_result.splits if_splits option.splits)
  then obtain owner aces where "sd_owner (wn_sd n) = Some owner" "trustedSID owner" "sd_dacl (wn_sd n) = Some aces" "check_aces 0 aces = None"
    by (auto simp: checkWindowsDACL_def split: option.splits if_splits)
  then show "\<exists>n owner as. fs p = Some n \<and> wn_kind n = WinDir \<and> sd_owner (wn_sd n) = Some owner \<and> trustedSID owner \<and>
    sd_dacl (wn_sd n) = Some (map Some as) \<and> (\<forall>a \<in> set as. harmless a)"
    using n check_aces_None [of 0 aces] by blast
qed

text \<open>
  C25: A state directory that Windows hosts accept is out of reach of everyone but SYSTEM and
  Administrators: it is a directory that one of them owns, no directory on the way to it is a link
  or a junction, and the access check of Windows grants a token without either identifier nothing,
  on the directory and on every file that one of them makes in it.
\<close>

theorem windows_state_dir_private:
  assumes "CheckStateDir_windows e fs p = None" "\<forall>s \<in> T. \<not> trustedSID s" "trustedSID creator"
  shows "(\<exists>n owner as. fs p = Some n \<and> wn_kind n = WinDir \<and> sd_owner (wn_sd n) = Some owner \<and> owner \<notin> T \<and>
       sd_dacl (wn_sd n) = Some (map Some as) \<and> granted T 0 as = 0 \<and> granted T 0 (file_aces creator as) = 0) \<and>
    (\<forall>cs n. prefix cs (snd p) \<longrightarrow> fs (fst p, cs) = Some n \<longrightarrow> wn_kind n \<noteq> WinLink)"
proof -
  obtain n owner as where n: "fs p = Some n" "wn_kind n = WinDir" "sd_owner (wn_sd n) = Some owner" "trustedSID owner"
    "sd_dacl (wn_sd n) = Some (map Some as)" "\<forall>a \<in> set as. harmless a"
    using CheckStateDir_windows_None(1) [OF assms(1)] by blast
  have "owner \<notin> T" using n(4) assms(2) by blast
  moreover have "granted T 0 as = 0" "granted T 0 (file_aces creator as) = 0"
    using harmless_granted [OF n(6) assms(2)] harmless_file_granted [OF n(6) assms(2,3)] by simp_all
  moreover have "\<forall>cs n. prefix cs (snd p) \<longrightarrow> fs (fst p, cs) = Some n \<longrightarrow> wn_kind n \<noteq> WinLink"
    using no_reparse_None [of e fs "fst p" "rev (snd p)"] CheckStateDir_windows_None(2) [OF assms(1)]
    by (simp add: checkNoReparse_def)
  ultimately show ?thesis using n by blast
qed

definition state_dir_sd :: win_sd where
  "state_dir_sd = \<lparr>sd_owner = Some BuiltinAdministrators,
     sd_dacl = Some (map (\<lambda>s. Some \<lparr>ace_type = ACCESS_ALLOWED_ACE_TYPE, ace_flags = OBJECT_INHERIT_ACE OR CONTAINER_INHERIT_ACE,
       ace_mask = FILE_ALL_ACCESS, ace_sid = s\<rparr>) [LocalSystem, BuiltinAdministrators])\<rparr>"

definition sample_win_env :: win_env where
  "sample_win_env = \<lparr>we_lstat = (\<lambda>_. False), we_getsd = (\<lambda>_. False), we_mkdir = False, we_setsd = False,
     we_sddl = (\<lambda>_. Some state_dir_sd), we_inherit = \<lparr>sd_owner = None, sd_dacl = None\<rparr>\<rparr>"

lemma sample_win_check: "CheckStateDir_windows sample_win_env [(''C:'', [''s'']) \<mapsto> \<lparr>wn_kind = WinDir, wn_sd = state_dir_sd\<rparr>] (''C:'', [''s'']) = None"
  by code_simp

theorem windows_state_dir_private_witness:
  "\<exists>as. sd_dacl state_dir_sd = Some (map Some as) \<and> granted {OtherSid ''S-1-1-0''} 0 as = 0"
proof -
  have "\<forall>s \<in> {OtherSid ''S-1-1-0''}. \<not> trustedSID s" "trustedSID LocalSystem" by (simp_all add: trustedSID_def)
  from windows_state_dir_private [OF sample_win_check this] show ?thesis by auto
qed

text \<open>
  A directory that did not exist, on a path without links, is created with the descriptor of the
  constant and then accepted, whatever it inherits.
\<close>

lemma no_reparse_extend:
  assumes "no_reparse e fs vol rcs = None" "\<And>cs. \<not> we_lstat e (vol, cs)" "\<And>cs n. fs' (vol, cs) = Some n \<Longrightarrow> wn_kind n = WinDir \<or> fs (vol, cs) = Some n"
  shows "no_reparse e fs' vol rcs = None"
  using assms(1)
proof (induction rcs)
  case Nil
  then show ?case using assms(2) assms(3) [of "[]"]
    by (auto simp: no_reparse.simps Lstat_def split: option.splits if_splits)
next
  case (Cons c rcs)
  have "no_reparse e fs vol rcs = None"
    using Cons.prems by (auto simp: no_reparse.simps [of e fs vol "c # rcs"] Lstat_def split: if_splits option.splits)
  then show ?case using Cons assms(2) assms(3) [of "rev (c # rcs)"]
    by (auto simp: no_reparse.simps [of e _ vol "c # rcs"] Lstat_def split: option.splits if_splits)
qed

lemma state_dir_sd_accepted: "checkWindowsDACL state_dir_sd = None"
  by code_simp

lemma EnsureStateDir_windows_creates:
  assumes "fs p = None" "snd p \<noteq> []" "checkNoReparse e fs (win_Dir p) = None"
    "\<And>q. \<not> we_lstat e q" "\<And>q. \<not> we_getsd e q" "\<not> we_mkdir e" "\<not> we_setsd e" "we_sddl e stateDirSDDL = Some state_dir_sd"
    "\<And>cs n. prefix cs (snd p) \<Longrightarrow> fs (fst p, cs) = Some n \<Longrightarrow> wn_kind n = WinDir"
  shows "\<exists>fs'. EnsureStateDir_windows e p fs = (None, fs') \<and> CheckStateDir_windows e fs' p = None"
proof -
  let ?fs1 = "\<lambda>q. if fs q = None \<and> fst q = fst p \<and> prefix (snd q) (snd p) then Some \<lparr>wn_kind = WinDir, wn_sd = we_inherit e\<rparr> else fs q"
  let ?fs2 = "?fs1(p \<mapsto> \<lparr>wn_kind = WinDir, wn_sd = state_dir_sd\<rparr>)"
  have "\<not> list_ex (\<lambda>cs. case fs (fst p, cs) of None \<Rightarrow> False | Some n \<Rightarrow> wn_kind n \<noteq> WinDir) (prefixes (snd p))"
    using assms(9) by (auto simp: list_ex_iff split: option.splits)
  then have m: "MkdirAll_windows e p fs = Some ?fs1" using assms(6) by (simp add: MkdirAll_windows_def)
  have "sd_owner state_dir_sd \<noteq> None" "sd_dacl state_dir_sd \<noteq> None" by (simp_all add: state_dir_sd_def)
  then have pr: "protectStateDir e p ?fs1 = Some ?fs2" using assms(1,7,8) by (simp add: protectStateDir_def)
  obtain c rcs where c: "rev (snd p) = c # rcs" using assms(2) by (cases "rev (snd p)") auto
  then have "rev (butlast (snd p)) = rcs" by (metis butlast_rev list.sel(3) rev_rev_ident)
  then have "no_reparse e fs (fst p) rcs = None" using assms(3) by (simp add: checkNoReparse_def win_Dir_def)
  then have "no_reparse e ?fs2 (fst p) rcs = None" by (rule no_reparse_extend) (use assms(4) in \<open>auto split: if_splits\<close>)
  moreover have "(fst p, rev (c # rcs)) = p" using c by (metis prod.collapse rev_rev_ident)
  ultimately have "checkNoReparse e ?fs2 p = None"
    unfolding checkNoReparse_def c using assms(4) by (subst no_reparse.simps) (simp add: Lstat_def)
  then have "CheckStateDir_windows e ?fs2 p = None"
    using assms(4,5) state_dir_sd_accepted by (simp add: CheckStateDir_windows_def Lstat_def)
  then show ?thesis using assms(1,3,4) m pr by (simp add: EnsureStateDir_windows_def Lstat_def)
qed

subsection \<open>Files of one user\<close>

text \<open>
  \<open>internal/secretfile/permissions_windows.go\<close>: a file or directory of the user gets a list with one
  entry. The user of the process token and the list that Windows builds from the entry are arguments.
\<close>

definition NO_INHERITANCE :: "32 word" where "NO_INHERITANCE = 0"
definition SUB_CONTAINERS_AND_OBJECTS_INHERIT :: "32 word" where "SUB_CONTAINERS_AND_OBJECTS_INHERIT = 3"
definition STANDARD_RIGHTS_REQUIRED :: "32 word" where "STANDARD_RIGHTS_REQUIRED = 0xF0000"
definition SYNCHRONIZE :: "32 word" where "SYNCHRONIZE = 0x100000"

definition fileAllAccess :: "32 word" where
  "fileAllAccess = STANDARD_RIGHTS_REQUIRED OR SYNCHRONIZE OR 0x1FF"

datatype access_mode = SET_ACCESS | GRANT_ACCESS | DENY_ACCESS

record explicit_access =
  ea_permissions :: "32 word"
  ea_mode :: access_mode
  ea_inheritance :: "32 word"
  ea_trustee :: sid

record harden_env =
  he_user :: "sid option"
  he_acl :: "explicit_access list \<Rightarrow> ace list option"
  he_set :: bool

datatype harden_error = ReadTokenUser | BuildACL | SetACL win_path

definition Harden_windows :: "harden_env \<Rightarrow> win_path \<Rightarrow> bool \<Rightarrow> win_fs \<Rightarrow> (harden_error, win_fs) result" where
  "Harden_windows e p directory fs =
     (case he_user e of
        None \<Rightarrow> Inl ReadTokenUser
      | Some user \<Rightarrow>
          let inheritance = (if directory then SUB_CONTAINERS_AND_OBJECTS_INHERIT else NO_INHERITANCE)
          in (case he_acl e [\<lparr>ea_permissions = fileAllAccess, ea_mode = SET_ACCESS, ea_inheritance = inheritance,
                              ea_trustee = user\<rparr>] of
                None \<Rightarrow> Inl BuildACL
              | Some acl \<Rightarrow>
                  if he_set e then Inl (SetACL p)
                  else (case fs p of
                          None \<Rightarrow> Inl (SetACL p)
                        | Some n \<Rightarrow> Inr (fs(p \<mapsto> n\<lparr>wn_sd := (wn_sd n)\<lparr>sd_dacl := Some (map Some acl)\<rparr>\<rparr>)))))"

lemma fileAllAccess_full: "fileAllAccess = FILE_ALL_ACCESS"
  by code_simp

text \<open>
  Windows builds one allow entry from one \<open>SET_ACCESS\<close> entry. Then the user has full access, and a
  token without the user's identifier none, on the path and on what is made in it.
\<close>

lemma Harden_windows_owner_only:
  assumes "Harden_windows e p directory fs = Inr fs'" "he_user e = Some user" "user \<noteq> CreatorOwner"
    "\<And>x. ea_mode x = SET_ACCESS \<Longrightarrow>
       he_acl e [x] = Some [\<lparr>ace_type = ACCESS_ALLOWED_ACE_TYPE, ace_flags = ucast (ea_inheritance x), ace_mask = ea_permissions x, ace_sid = ea_trustee x\<rparr>]"
  shows "\<exists>n as. fs' p = Some n \<and> sd_dacl (wn_sd n) = Some (map Some as) \<and>
    (\<forall>T. granted T 0 as = (if user \<in> T then FILE_ALL_ACCESS else 0)) \<and>
    (\<forall>T creator. granted T 0 (file_aces creator as) = (if directory \<and> user \<in> T then FILE_ALL_ACCESS else 0)) \<and>
    (\<forall>q. q \<noteq> p \<longrightarrow> fs' q = fs q)"
proof -
  let ?a = "\<lparr>ace_type = ACCESS_ALLOWED_ACE_TYPE, ace_flags = (if directory then 3 else 0), ace_mask = FILE_ALL_ACCESS, ace_sid = user\<rparr>"
  have flags: "ucast (if directory then SUB_CONTAINERS_AND_OBJECTS_INHERIT else NO_INHERITANCE) = (if directory then 3 else (0 :: 8 word))"
    by (simp add: SUB_CONTAINERS_AND_OBJECTS_INHERIT_def NO_INHERITANCE_def)
  obtain n where n: "fs p = Some n" "fs' = fs(p \<mapsto> n\<lparr>wn_sd := (wn_sd n)\<lparr>sd_dacl := Some (map Some [?a])\<rparr>\<rparr>)"
    using assms(1,2,4) flags by (auto simp: Harden_windows_def Let_def fileAllAccess_full split: if_splits option.splits)
  have bits: "(3 :: 8 word) AND INHERIT_ONLY_ACE = 0" "(3 :: 8 word) AND OBJECT_INHERIT_ACE \<noteq> 0" by code_simp+
  have "granted T 0 [?a] = (if user \<in> T then FILE_ALL_ACCESS else 0)" for T
    using bits by simp
  moreover have "granted T 0 (file_aces creator [?a]) = (if directory \<and> user \<in> T then FILE_ALL_ACCESS else 0)" for T creator
    using bits assms(3) by (simp add: file_aces_def)
  ultimately show ?thesis using n by (intro exI [of _ "n\<lparr>wn_sd := (wn_sd n)\<lparr>sd_dacl := Some (map Some [?a])\<rparr>\<rparr>"] exI [of _ "[?a]"]) simp
qed

end
