(* ===== verification/Control_Proxy.thy ===== *)
theory Control_Proxy
  imports Bootstrap
begin

text \<open>
  \<open>internal/bootstrapssh/control_proxy.go\<close> and \<open>ConfigureControlProxy\<close>: the local HTTP proxy through
  which the node reaches its control plane over the SSH tunnel. Its one client is the node; a
  request is dialled through the SOCKS listener of the tunnel. The events of a request are in the
  order of the handler; the two copies of a tunnelled connection run beside each other, so which of
  them ends first is an argument.
\<close>

subsection \<open>Events and errors\<close>

datatype proxy_event =
    Dialled string
  | UpstreamClosed
  | ClientTaken
  | ClientClosed
  | Replied nat string
  | Established
  | Forwarding string

datatype copy_error = CopyClosed | CopyEOF | CopyFailed string

datatype connect_proxy_error =
    DialUpstream string
  | NotHijackable
  | HijackFailed string
  | WriteEstablished string
  | FlushEstablished string
  | RelayFailed "string list"

record proxy_run =
  px_dial :: "string \<Rightarrow> string option"
  px_hijacker :: bool
  px_hijack :: "string option"
  px_write :: "string option"
  px_flush :: "string option"
  px_up :: "copy_error option"
  px_down :: "copy_error option"
  px_up_first :: bool
  px_forward :: "string option"

definition controlProxyCopyError :: "copy_error option \<Rightarrow> string option" where
  "controlProxyCopyError e = (case e of Some (CopyFailed m) \<Rightarrow> Some m | _ \<Rightarrow> None)"

text \<open>The goroutine that copies upwards closes the upstream; the handler then closes both.\<close>

definition relayControlProxy :: "proxy_run \<Rightarrow> connect_proxy_error option \<times> proxy_event list" where
  "relayControlProxy v =
     (let errs = List.map_filter controlProxyCopyError [px_down v, px_up v];
          down = [ClientClosed, UpstreamClosed]
      in (if errs = [] then None else Some (RelayFailed errs),
          if px_up_first v then UpstreamClosed # down else down @ [UpstreamClosed]))"

definition controlProxyConnect :: "proxy_run \<Rightarrow> string \<Rightarrow> connect_proxy_error option \<times> proxy_event list" where
  "controlProxyConnect v host =
     (case px_dial v host of
        Some e \<Rightarrow> (Some (DialUpstream e), [Replied 502 ''bootstrap SOCKS connection failed''])
      | None \<Rightarrow>
          if \<not> px_hijacker v then
            (Some NotHijackable, [Dialled host, Replied 505 ''bootstrap proxy requires HTTP/1 CONNECT'', UpstreamClosed])
          else (case px_hijack v of
                  Some e \<Rightarrow> (Some (HijackFailed e), [Dialled host, UpstreamClosed])
                | None \<Rightarrow>
                    (case px_write v of
                       Some e \<Rightarrow> (Some (WriteEstablished e), [Dialled host, ClientTaken, ClientClosed, UpstreamClosed])
                     | None \<Rightarrow>
                         (case px_flush v of
                            Some e \<Rightarrow> (Some (FlushEstablished e), [Dialled host, ClientTaken, ClientClosed, UpstreamClosed])
                          | None \<Rightarrow>
                              (case relayControlProxy v of
                                 (e, tr) \<Rightarrow> (e, [Dialled host, ClientTaken, Established] @ tr @ [ClientClosed, UpstreamClosed]))))))"

text \<open>A request answered: the reply chosen by the handler, carried out.\<close>

definition serveControlRequest :: "proxy_run \<Rightarrow> string \<Rightarrow> bool \<Rightarrow> url \<Rightarrow> proxy_event list" where
  "serveControlRequest v hostname isConnect u =
     (case controlProxyHandler hostname isConnect u of
        Denied \<Rightarrow> [Replied 403 ''bootstrap proxy destination denied'']
      | BadRequest \<Rightarrow> [Replied 400 ''bootstrap proxy requires an HTTP URL or CONNECT'']
      | Tunnelled host \<Rightarrow> snd (controlProxyConnect v host)
      | Forwarded host \<Rightarrow>
          (case px_forward v of
             None \<Rightarrow> [Forwarding host]
           | Some e \<Rightarrow> [Replied 502 ''bootstrap SOCKS forwarding failed'']))"

subsection \<open>Starting and configuring\<close>

datatype control_proxy_error = ProxyCanceled | BadControlHost | BadSOCKSDialer string | ProxyBind string | SetProxyFailed string

record start_env =
  se_ended :: bool
  se_dialer :: "string \<Rightarrow> string option"
  se_listen :: "(string, string) result"
  se_setProxy :: "string option"

text \<open>The address the proxy listens on and the host it serves.\<close>

definition startControlProxy :: "start_env \<Rightarrow> string \<Rightarrow> string \<Rightarrow> (control_proxy_error, string \<times> string) result" where
  "startControlProxy v controlURL socksAddr =
     (if se_ended v then Inl ProxyCanceled
      else (case controlHostname controlURL of
              None \<Rightarrow> Inl BadControlHost
            | Some hostname \<Rightarrow>
                (case se_dialer v socksAddr of
                   Some e \<Rightarrow> Inl (BadSOCKSDialer e)
                 | None \<Rightarrow>
                     (case se_listen v of
                        Inl e \<Rightarrow> Inl (ProxyBind e)
                      | Inr addr \<Rightarrow> Inr (addr, hostname)))))"

text \<open>The proxy function that was installed, with the proxy that then runs; an error closes the proxy.\<close>

record control_proxy =
  cp_addr :: string
  cp_host :: string
  cp_choice :: "url \<Rightarrow> proxy_choice"

definition ConfigureControlProxy ::
  "start_env \<Rightarrow> string \<Rightarrow> string \<Rightarrow> (url \<Rightarrow> string option) \<Rightarrow> (control_proxy_error, control_proxy) result" where
  "ConfigureControlProxy v controlURL socksAddr fallback =
     (case startControlProxy v controlURL socksAddr of
        Inl e \<Rightarrow> Inl e
      | Inr (addr, hostname) \<Rightarrow>
          (case controlProxyFunc controlURL addr fallback of
             None \<Rightarrow> Inl BadControlHost
           | Some proxyFor \<Rightarrow>
               (case se_setProxy v of
                  Some e \<Rightarrow> Inl (SetProxyFailed e)
                | None \<Rightarrow> Inr \<lparr>cp_addr = addr, cp_host = hostname, cp_choice = proxyFor\<rparr>)))"

subsection \<open>What the proxy does for a request\<close>

text \<open>Connections that are open after a list of events: upstream and client.\<close>

fun open_after :: "proxy_event list \<Rightarrow> bool \<times> bool \<Rightarrow> bool \<times> bool" where
  "open_after [] s = s"
| "open_after (ev # evs) (up, client) =
     open_after evs
       (case ev of Dialled _ \<Rightarrow> True | UpstreamClosed \<Rightarrow> False | _ \<Rightarrow> up,
        case ev of ClientTaken \<Rightarrow> True | ClientClosed \<Rightarrow> False | _ \<Rightarrow> client)"

lemma open_after_append [simp]: "open_after (xs @ ys) s = open_after ys (open_after xs s)"
  by (induction xs s rule: open_after.induct) simp_all

lemma relay_closes: "open_after (snd (relayControlProxy v)) s = (False, False)"
  by (cases s) (simp add: relayControlProxy_def Let_def)

lemma relay_no_dial: "Dialled h \<notin> set (snd (relayControlProxy v))" "Forwarding h \<notin> set (snd (relayControlProxy v))"
  by (simp_all add: relayControlProxy_def Let_def)

lemma relay_open [simp]: "relayControlProxy v = (e, tr) \<Longrightarrow> open_after tr s = (False, False)"
  using relay_closes [of v s] by simp

lemma connect_closes: "open_after (snd (controlProxyConnect v host)) (False, False) = (False, False)"
  by (auto simp: controlProxyConnect_def split: option.splits prod.splits)

lemma connect_dials:
  "Dialled h \<in> set (snd (controlProxyConnect v host)) \<Longrightarrow> h = host"
  "Forwarding h \<notin> set (snd (controlProxyConnect v host))"
  using relay_no_dial [of h v] by (auto simp: controlProxyConnect_def split: option.splits prod.splits if_splits)

text \<open>
  A request reaches the control plane or nothing: whatever is dialled or forwarded has the host of
  the control URL, every other destination is refused, and when the request is over no connection
  is left open.
\<close>

lemma serveControlRequest_confined:
  assumes "Dialled h \<in> set (serveControlRequest v hostname b u) \<or> Forwarding h \<in> set (serveControlRequest v hostname b u)"
  shows "h = u_host u \<and> EqualFold (u_Hostname u) hostname"
  using assms connect_dials [of h v "u_host u"]
  by (auto simp: serveControlRequest_def controlProxyHandler_def split: if_splits option.splits)

lemma serveControlRequest_closes: "open_after (serveControlRequest v hostname b u) (False, False) = (False, False)"
  by (auto simp: serveControlRequest_def connect_closes split: option.splits proxy_reply.splits)

lemma ConfigureControlProxy_serves:
  assumes "ConfigureControlProxy v controlURL socksAddr fallback = Inr cp"
  shows "controlHostname controlURL = Some (cp_host cp)"
    "cp_choice cp u = (if EqualFold (u_Hostname u) (cp_host cp) then ViaBootstrap (cp_addr cp) else Fallback (fallback u))"
  using assms
  by (auto simp: ConfigureControlProxy_def startControlProxy_def controlProxyFunc_def
      split: if_splits option.splits sum.splits prod.splits)

text \<open>
  What the node sends to the proxy the proxy serves, and to no other host: the function installed
  and the handler use the same host name.
\<close>

lemma control_proxy_confined:
  assumes "ConfigureControlProxy v controlURL socksAddr fallback = Inr cp"
  shows "cp_choice cp u = ViaBootstrap addr \<longleftrightarrow>
    addr = cp_addr cp \<and> serveControlRequest w (cp_host cp) b u \<noteq> [Replied 403 ''bootstrap proxy destination denied'']"
proof -
  have "snd (controlProxyConnect w host) \<noteq> [Replied 403 m]" for host m
    by (auto simp: controlProxyConnect_def split: option.splits prod.splits)
  then show ?thesis
    using ConfigureControlProxy_serves(2) [OF assms, of u]
    by (auto simp: serveControlRequest_def controlProxyHandler_def split: option.splits)
qed

end
