(* ===== verification/Command_Flags.thy ===== *)
theory Command_Flags
  imports Connect
begin

text \<open>
  The flags of \<open>connect\<close>: their declaration (\<open>newConnectCmd\<close>, and \<open>--verbose\<close> of \<open>NewRootCmd\<close>) and their
  collection (\<open>collectFlags\<close>) in \<open>cmd/cli\<close>. The flag library is an argument: what its getters return
  by name, one getter for each type, and which flags were passed. A getter of another type than
  the declared one returns the zero value with an error that the code ignores, so a flag that is
  read under a wrong name or type is lost silently; \<open>collectFlags_faithful\<close> excludes that.
\<close>

subsection \<open>Declaration and collection\<close>

datatype flag_value =
    VString string
  | VStrings "string list"
  | VDuration int
  | VInt64 int
  | VInt int
  | VBool bool

record pflags =
  pf_string :: "string \<Rightarrow> string"
  pf_strings :: "string \<Rightarrow> string list"
  pf_duration :: "string \<Rightarrow> int"
  pf_int64 :: "string \<Rightarrow> int"
  pf_int :: "string \<Rightarrow> int"
  pf_bool :: "string \<Rightarrow> bool"
  pf_changed :: "string \<Rightarrow> bool"

text \<open>Name and default; the constructor is the declared type.\<close>

definition newConnectCmd :: "(string \<times> flag_value) list" where
  "newConnectCmd =
    [(''target'', VString []),
     (''socks5'', VString []),
     (''route'', VStrings []),
     (''auth-key'', VString []),
     (''auth-key-file'', VString []),
     (''instance'', VString []),
     (''local-addr'', VString []),
     (''hostname'', VString []),
     (''state-dir'', VString []),
     (''control-url'', VString []),
     (''bootstrap-ssh'', VString []),
     (''bootstrap-socks-addr'', VString []),
     (''timeout'', VDuration 0),
     (''dial-timeout'', VDuration 0),
     (''idle-timeout'', VDuration 0),
     (''drain-timeout'', VDuration 0),
     (''max-conns'', VInt64 0),
     (''dial-retries'', VInt 0),
     (''dial-backoff-base'', VDuration 0),
     (''dial-backoff-max'', VDuration 0),
     (''health-addr'', VString []),
     (''health-allow-remote'', VBool False),
     (''log-format'', VString []),
     (''manual-mode'', VBool False),
     (''port-range'', VString []),
     (''reset'', VBool False),
     (''config'', VString []),
     (''profile'', VString []),
     (''quiet'', VBool False)]"

definition root_flags :: "(string \<times> flag_value) list" where
  "root_flags = [(''verbose'', VBool False)]"

definition collectChangedBool :: "pflags \<Rightarrow> string \<Rightarrow> bool option" where
  "collectChangedBool pf name = (if \<not> pf_changed pf name then None else Some (pf_bool pf name))"

definition collectVerboseFlag :: "pflags \<Rightarrow> bool option" where
  "collectVerboseFlag pf = collectChangedBool pf ''verbose''"

definition collectOptionalNumericFlags :: "pflags \<Rightarrow> FlagSet \<Rightarrow> FlagSet" where
  "collectOptionalNumericFlags pf fs =
     (let fs1 = (if pf_changed pf ''idle-timeout'' then fs\<lparr>g_IdleTimeout := Some (pf_duration pf ''idle-timeout'')\<rparr> else fs)
      in if pf_changed pf ''dial-retries'' then fs1\<lparr>g_DialRetries := Some (pf_int pf ''dial-retries'')\<rparr> else fs1)"

definition collectFlags :: "pflags \<Rightarrow> FlagSet" where
  "collectFlags pf =
     (let fs = zero_flags
          \<lparr>g_Target := pf_string pf ''target'',
           g_SOCKS5Addr := pf_string pf ''socks5'',
           g_SOCKS5Routes := pf_strings pf ''route'',
           g_AuthKey := pf_string pf ''auth-key'',
           g_AuthKeyFile := pf_string pf ''auth-key-file'',
           g_Instance := pf_string pf ''instance'',
           g_LocalAddr := pf_string pf ''local-addr'',
           g_Hostname := pf_string pf ''hostname'',
           g_StateDir := pf_string pf ''state-dir'',
           g_ControlURL := pf_string pf ''control-url'',
           g_BootstrapSSH := pf_string pf ''bootstrap-ssh'',
           g_BootstrapSOCKSAddr := pf_string pf ''bootstrap-socks-addr'',
           g_HealthAddr := pf_string pf ''health-addr'',
           g_HealthAllowRemote := collectChangedBool pf ''health-allow-remote'',
           g_LogFormat := pf_string pf ''log-format'',
           g_PortRange := pf_string pf ''port-range'',
           g_Config := pf_string pf ''config'',
           g_Timeout := pf_duration pf ''timeout'',
           g_DialTimeout := pf_duration pf ''dial-timeout'',
           g_DrainTimeout := pf_duration pf ''drain-timeout'',
           g_DialBackoffBase := pf_duration pf ''dial-backoff-base'',
           g_DialBackoffMax := pf_duration pf ''dial-backoff-max'',
           g_MaxConns := pf_int64 pf ''max-conns''\<rparr>;
          fs1 = collectOptionalNumericFlags pf fs
      in fs1\<lparr>g_Verbose := collectVerboseFlag pf, g_ManualMode := pf_bool pf ''manual-mode'', g_Reset := pf_bool pf ''reset''\<rparr>)"

subsection \<open>What the library promises\<close>

text \<open>
  A command line that the library accepted, as the flags it passes in order, each with a value of its
  declared type. A getter then returns the last value, or the default; a repeatable flag collects
  its values.
\<close>

fun last_value :: "(flag_value \<Rightarrow> 'a option) \<Rightarrow> 'a \<Rightarrow> (string \<times> flag_value) list \<Rightarrow> string \<Rightarrow> 'a" where
  "last_value val d [] n = d"
| "last_value val d ((m, v) # args) n =
     last_value val (if m = n then (case val v of Some x \<Rightarrow> x | None \<Rightarrow> d) else d) args n"

definition all_values :: "(string \<times> flag_value) list \<Rightarrow> string \<Rightarrow> string list" where
  "all_values args n = concat (map (\<lambda>(m, v). case v of VStrings xs \<Rightarrow> if m = n then xs else [] | _ \<Rightarrow> []) args)"

definition passed :: "(string \<times> flag_value) list \<Rightarrow> string \<Rightarrow> bool" where
  "passed args n \<longleftrightarrow> list_ex (\<lambda>a. fst a = n) args"

definition str_of :: "flag_value \<Rightarrow> string option" where "str_of v = (case v of VString s \<Rightarrow> Some s | _ \<Rightarrow> None)"
definition dur_of :: "flag_value \<Rightarrow> int option" where "dur_of v = (case v of VDuration s \<Rightarrow> Some s | _ \<Rightarrow> None)"
definition int64_of :: "flag_value \<Rightarrow> int option" where "int64_of v = (case v of VInt64 s \<Rightarrow> Some s | _ \<Rightarrow> None)"
definition int_of :: "flag_value \<Rightarrow> int option" where "int_of v = (case v of VInt s \<Rightarrow> Some s | _ \<Rightarrow> None)"
definition bool_of :: "flag_value \<Rightarrow> bool option" where "bool_of v = (case v of VBool s \<Rightarrow> Some s | _ \<Rightarrow> None)"

definition same_type :: "flag_value \<Rightarrow> flag_value \<Rightarrow> bool" where
  "same_type d v =
     (case d of VString _ \<Rightarrow> str_of v \<noteq> None | VStrings _ \<Rightarrow> (case v of VStrings _ \<Rightarrow> True | _ \<Rightarrow> False)
      | VDuration _ \<Rightarrow> dur_of v \<noteq> None | VInt64 _ \<Rightarrow> int64_of v \<noteq> None | VInt _ \<Rightarrow> int_of v \<noteq> None | VBool _ \<Rightarrow> bool_of v \<noteq> None)"

definition well_typed :: "(string \<times> flag_value) list \<Rightarrow> (string \<times> flag_value) list \<Rightarrow> bool" where
  "well_typed decls args = list_all (\<lambda>(n, v). case map_of decls n of None \<Rightarrow> False | Some d \<Rightarrow> same_type d v) args"

definition answers :: "(string \<times> flag_value) list \<Rightarrow> (string \<times> flag_value) list \<Rightarrow> pflags \<Rightarrow> bool" where
  "answers decls args pf =
     list_all (\<lambda>(n, d). pf_changed pf n = passed args n \<and>
       (case d of
          VString s \<Rightarrow> pf_string pf n = last_value str_of s args n
        | VStrings xs \<Rightarrow> pf_strings pf n = (if passed args n then all_values args n else xs)
        | VDuration x \<Rightarrow> pf_duration pf n = last_value dur_of x args n
        | VInt64 x \<Rightarrow> pf_int64 pf n = last_value int64_of x args n
        | VInt x \<Rightarrow> pf_int pf n = last_value int_of x args n
        | VBool b \<Rightarrow> pf_bool pf n = last_value bool_of b args n)) decls"

subsection \<open>What a flag means\<close>

text \<open>The field that each flag sets, and nothing else.\<close>

definition set_string :: "string \<Rightarrow> string \<Rightarrow> FlagSet \<Rightarrow> FlagSet" where
  "set_string n s g =
     (if n = ''target'' then g\<lparr>g_Target := s\<rparr>
      else if n = ''socks5'' then g\<lparr>g_SOCKS5Addr := s\<rparr>
      else if n = ''auth-key'' then g\<lparr>g_AuthKey := s\<rparr>
      else if n = ''auth-key-file'' then g\<lparr>g_AuthKeyFile := s\<rparr>
      else if n = ''instance'' then g\<lparr>g_Instance := s\<rparr>
      else if n = ''local-addr'' then g\<lparr>g_LocalAddr := s\<rparr>
      else if n = ''hostname'' then g\<lparr>g_Hostname := s\<rparr>
      else if n = ''state-dir'' then g\<lparr>g_StateDir := s\<rparr>
      else if n = ''control-url'' then g\<lparr>g_ControlURL := s\<rparr>
      else if n = ''bootstrap-ssh'' then g\<lparr>g_BootstrapSSH := s\<rparr>
      else if n = ''bootstrap-socks-addr'' then g\<lparr>g_BootstrapSOCKSAddr := s\<rparr>
      else if n = ''health-addr'' then g\<lparr>g_HealthAddr := s\<rparr>
      else if n = ''log-format'' then g\<lparr>g_LogFormat := s\<rparr>
      else if n = ''port-range'' then g\<lparr>g_PortRange := s\<rparr>
      else if n = ''config'' then g\<lparr>g_Config := s\<rparr>
      else g)"

definition set_duration :: "string \<Rightarrow> int \<Rightarrow> FlagSet \<Rightarrow> FlagSet" where
  "set_duration n x g =
     (if n = ''timeout'' then g\<lparr>g_Timeout := x\<rparr>
      else if n = ''dial-timeout'' then g\<lparr>g_DialTimeout := x\<rparr>
      else if n = ''idle-timeout'' then g\<lparr>g_IdleTimeout := Some x\<rparr>
      else if n = ''drain-timeout'' then g\<lparr>g_DrainTimeout := x\<rparr>
      else if n = ''dial-backoff-base'' then g\<lparr>g_DialBackoffBase := x\<rparr>
      else if n = ''dial-backoff-max'' then g\<lparr>g_DialBackoffMax := x\<rparr>
      else g)"

definition set_bool :: "string \<Rightarrow> bool \<Rightarrow> FlagSet \<Rightarrow> FlagSet" where
  "set_bool n b g =
     (if n = ''health-allow-remote'' then g\<lparr>g_HealthAllowRemote := Some b\<rparr>
      else if n = ''verbose'' then g\<lparr>g_Verbose := Some b\<rparr>
      else if n = ''manual-mode'' then g\<lparr>g_ManualMode := b\<rparr>
      else if n = ''reset'' then g\<lparr>g_Reset := b\<rparr>
      else g)"

definition set_flag :: "string \<times> flag_value \<Rightarrow> FlagSet \<Rightarrow> FlagSet" where
  "set_flag a g =
     (case a of (n, v) \<Rightarrow>
       (case v of
          VString s \<Rightarrow> set_string n s g
        | VStrings xs \<Rightarrow> if n = ''route'' then g\<lparr>g_SOCKS5Routes := g_SOCKS5Routes g @ xs\<rparr> else g
        | VDuration x \<Rightarrow> set_duration n x g
        | VInt64 x \<Rightarrow> if n = ''max-conns'' then g\<lparr>g_MaxConns := x\<rparr> else g
        | VInt x \<Rightarrow> if n = ''dial-retries'' then g\<lparr>g_DialRetries := Some x\<rparr> else g
        | VBool b \<Rightarrow> set_bool n b g))"

text \<open>A field that one flag sets: after a command line it holds the flag's last value.\<close>

locale flag_field =
  fixes get :: "FlagSet \<Rightarrow> 'a"
    and flag :: string
    and val :: "flag_value \<Rightarrow> 'a option"
  assumes get_set: "get (set_flag (m, v) g) = (if m = flag then (case val v of Some x \<Rightarrow> x | None \<Rightarrow> get g) else get g)"
begin

lemma field_value: "get (fold set_flag args g) = last_value val (get g) args flag"
proof (induction args arbitrary: g)
  case (Cons a args)
  then show ?case by (cases a) (simp add: get_set)
qed simp

end

lemmas set_flag_defs = set_flag_def set_string_def set_duration_def set_bool_def str_of_def dur_of_def int64_of_def int_of_def bool_of_def

definition opt_of :: "(flag_value \<Rightarrow> 'a option) \<Rightarrow> flag_value \<Rightarrow> 'a option option" where
  "opt_of val v = map_option Some (val v)"

interpretation flag_target: flag_field g_Target "''target''" str_of
  by unfold_locales (simp add: set_flag_defs opt_of_def split: flag_value.split)

interpretation flag_socks5: flag_field g_SOCKS5Addr "''socks5''" str_of
  by unfold_locales (simp add: set_flag_defs opt_of_def split: flag_value.split)

interpretation flag_auth_key: flag_field g_AuthKey "''auth-key''" str_of
  by unfold_locales (simp add: set_flag_defs opt_of_def split: flag_value.split)

interpretation flag_auth_key_file: flag_field g_AuthKeyFile "''auth-key-file''" str_of
  by unfold_locales (simp add: set_flag_defs opt_of_def split: flag_value.split)

interpretation flag_instance: flag_field g_Instance "''instance''" str_of
  by unfold_locales (simp add: set_flag_defs opt_of_def split: flag_value.split)

interpretation flag_local_addr: flag_field g_LocalAddr "''local-addr''" str_of
  by unfold_locales (simp add: set_flag_defs opt_of_def split: flag_value.split)

interpretation flag_hostname: flag_field g_Hostname "''hostname''" str_of
  by unfold_locales (simp add: set_flag_defs opt_of_def split: flag_value.split)

interpretation flag_state_dir: flag_field g_StateDir "''state-dir''" str_of
  by unfold_locales (simp add: set_flag_defs opt_of_def split: flag_value.split)

interpretation flag_control_url: flag_field g_ControlURL "''control-url''" str_of
  by unfold_locales (simp add: set_flag_defs opt_of_def split: flag_value.split)

interpretation flag_bootstrap_ssh: flag_field g_BootstrapSSH "''bootstrap-ssh''" str_of
  by unfold_locales (simp add: set_flag_defs opt_of_def split: flag_value.split)

interpretation flag_bootstrap_socks_addr: flag_field g_BootstrapSOCKSAddr "''bootstrap-socks-addr''" str_of
  by unfold_locales (simp add: set_flag_defs opt_of_def split: flag_value.split)

interpretation flag_health_addr: flag_field g_HealthAddr "''health-addr''" str_of
  by unfold_locales (simp add: set_flag_defs opt_of_def split: flag_value.split)

interpretation flag_log_format: flag_field g_LogFormat "''log-format''" str_of
  by unfold_locales (simp add: set_flag_defs opt_of_def split: flag_value.split)

interpretation flag_port_range: flag_field g_PortRange "''port-range''" str_of
  by unfold_locales (simp add: set_flag_defs opt_of_def split: flag_value.split)

interpretation flag_config: flag_field g_Config "''config''" str_of
  by unfold_locales (simp add: set_flag_defs opt_of_def split: flag_value.split)

interpretation flag_timeout: flag_field g_Timeout "''timeout''" dur_of
  by unfold_locales (simp add: set_flag_defs opt_of_def split: flag_value.split)

interpretation flag_dial_timeout: flag_field g_DialTimeout "''dial-timeout''" dur_of
  by unfold_locales (simp add: set_flag_defs opt_of_def split: flag_value.split)

interpretation flag_drain_timeout: flag_field g_DrainTimeout "''drain-timeout''" dur_of
  by unfold_locales (simp add: set_flag_defs opt_of_def split: flag_value.split)

interpretation flag_dial_backoff_base: flag_field g_DialBackoffBase "''dial-backoff-base''" dur_of
  by unfold_locales (simp add: set_flag_defs opt_of_def split: flag_value.split)

interpretation flag_dial_backoff_max: flag_field g_DialBackoffMax "''dial-backoff-max''" dur_of
  by unfold_locales (simp add: set_flag_defs opt_of_def split: flag_value.split)

interpretation flag_max_conns: flag_field g_MaxConns "''max-conns''" int64_of
  by unfold_locales (simp add: set_flag_defs opt_of_def split: flag_value.split)

interpretation flag_manual_mode: flag_field g_ManualMode "''manual-mode''" bool_of
  by unfold_locales (simp add: set_flag_defs opt_of_def split: flag_value.split)

interpretation flag_reset: flag_field g_Reset "''reset''" bool_of
  by unfold_locales (simp add: set_flag_defs opt_of_def split: flag_value.split)

interpretation flag_idle_timeout: flag_field g_IdleTimeout "''idle-timeout''" "opt_of dur_of"
  by unfold_locales (simp add: set_flag_defs opt_of_def split: flag_value.split)

interpretation flag_dial_retries: flag_field g_DialRetries "''dial-retries''" "opt_of int_of"
  by unfold_locales (simp add: set_flag_defs opt_of_def split: flag_value.split)

interpretation flag_health_allow_remote: flag_field g_HealthAllowRemote "''health-allow-remote''" "opt_of bool_of"
  by unfold_locales (simp add: set_flag_defs opt_of_def split: flag_value.split)

interpretation flag_verbose: flag_field g_Verbose "''verbose''" "opt_of bool_of"
  by unfold_locales (simp add: set_flag_defs opt_of_def split: flag_value.split)

lemmas flag_fields = flag_target.field_value flag_socks5.field_value flag_auth_key.field_value
  flag_auth_key_file.field_value flag_instance.field_value flag_local_addr.field_value
  flag_hostname.field_value flag_state_dir.field_value flag_control_url.field_value
  flag_bootstrap_ssh.field_value flag_bootstrap_socks_addr.field_value flag_health_addr.field_value
  flag_log_format.field_value flag_port_range.field_value flag_config.field_value flag_timeout.field_value
  flag_dial_timeout.field_value flag_drain_timeout.field_value flag_dial_backoff_base.field_value
  flag_dial_backoff_max.field_value flag_max_conns.field_value flag_manual_mode.field_value
  flag_reset.field_value flag_idle_timeout.field_value flag_dial_retries.field_value
  flag_health_allow_remote.field_value flag_verbose.field_value

lemma routes_value: "g_SOCKS5Routes (fold set_flag args g) = g_SOCKS5Routes g @ all_values args ''route''"
proof (induction args arbitrary: g)
  case (Cons a args)
  then show ?case by (cases a) (simp add: set_flag_defs all_values_def split: flag_value.split)
qed (simp add: all_values_def)

lemma profile_key_untouched: "g_ProfileAuthKey (fold set_flag args g) = g_ProfileAuthKey g"
proof (induction args arbitrary: g)
  case (Cons a args)
  then show ?case by (cases a) (simp add: set_flag_defs split: flag_value.split)
qed simp

definition typed_for :: "(flag_value \<Rightarrow> 'a option) \<Rightarrow> string \<Rightarrow> (string \<times> flag_value) list \<Rightarrow> bool" where
  "typed_for val n args = list_all (\<lambda>(m, v). m = n \<longrightarrow> val v \<noteq> None) args"

lemma last_value_Some: "typed_for val n args \<Longrightarrow> last_value (opt_of val) (Some d) args n = Some (last_value val d args n)"
proof (induction args arbitrary: d)
  case (Cons a args)
  then show ?case by (cases a) (auto simp: opt_of_def typed_for_def)
qed simp

lemma last_value_None:
  "typed_for val n args \<Longrightarrow> last_value (opt_of val) None args n = (if passed args n then Some (last_value val d args n) else None)"
proof (induction args arbitrary: d)
  case (Cons a args)
  then have "typed_for val n args" by (simp add: typed_for_def)
  moreover obtain m v where a: "a = (m, v)" by fastforce
  moreover have "m = n \<Longrightarrow> \<exists>x. val v = Some x" using Cons.prems a by (auto simp: typed_for_def)
  ultimately show ?case using Cons.IH last_value_Some [of val n args]
    by (auto simp: opt_of_def [of val v] passed_def)
qed (simp add: passed_def)

lemma all_values_not_passed: "\<not> passed args n \<Longrightarrow> all_values args n = []"
  by (induction args) (auto simp: passed_def all_values_def split: flag_value.split)

lemma well_typed_for:
  assumes "well_typed decls args" "map_of decls n = Some d" "\<And>v. same_type d v \<Longrightarrow> val v \<noteq> None"
  shows "typed_for val n args"
  using assms(1) unfolding well_typed_def typed_for_def list_all_iff
  by (auto split: option.splits) (use assms(2,3) in fastforce)

lemmas connect_decls = newConnectCmd_def root_flags_def

lemma connect_optional_typed:
  assumes "well_typed (newConnectCmd @ root_flags) args"
  shows "typed_for dur_of ''idle-timeout'' args" "typed_for int_of ''dial-retries'' args"
    "typed_for bool_of ''health-allow-remote'' args" "typed_for bool_of ''verbose'' args"
  by (rule well_typed_for [OF assms], simp add: connect_decls, simp add: same_type_def)+

text \<open>
  Every flag of \<open>connect\<close> is read under its declared name and type and reaches its own field and no
  other: what is collected from a command line is the result of setting, in order, the field of
  each flag that was passed, starting from no flags at all. So a flag that is not passed leaves no
  trace, and the layers below decide; a flag that is passed as zero or false counts as passed where
  zero means something (retries, idle timeout, verbosity, remote health).
\<close>

lemma collectFlags_faithful:
  assumes "well_typed (newConnectCmd @ root_flags) args" "answers (newConnectCmd @ root_flags) args pf"
  shows "collectFlags pf = fold set_flag args zero_flags"
proof (rule FlagSet.equality)
qed (use assms(2) last_value_None [OF connect_optional_typed(1) [OF assms(1)], of 0]
      last_value_None [OF connect_optional_typed(2) [OF assms(1)], of 0]
      last_value_None [OF connect_optional_typed(3) [OF assms(1)], of False]
      last_value_None [OF connect_optional_typed(4) [OF assms(1)], of False] all_values_not_passed
    in \<open>simp_all add: collectFlags_def collectOptionalNumericFlags_def collectVerboseFlag_def collectChangedBool_def
      Let_def flag_fields routes_value profile_key_untouched answers_def connect_decls zero_flags_def\<close>)

text \<open>
  With the layers of \<open>Merge\<close>: a number of retries on the command line is used, zero included; without
  one the environment decides, then the YAML file, then the default of three.
\<close>

lemma dial_retries_steps:
  "c_DialRetries (applyFlags g c) = opt_or (c_DialRetries c) (g_DialRetries g)"
  "c_DialRetries (applyEnv E c) = applyEnvParsed E ''TS_DIAL_RETRIES'' Atoi (\<lambda>n. 0 \<le> n) (c_DialRetries c)"
  "c_DialRetries (applyYAML y c) = if_pos (c_DialRetries c) (y_DialRetries y)"
  "c_DialRetries defaults = 3"
  by (simp_all add: layer_defs)

lemma dial_retries_layers:
  assumes "well_typed (newConnectCmd @ root_flags) args" "answers (newConnectCmd @ root_flags) args pf"
    and "Merge E y (collectFlags pf) = Inr cfg"
  shows "c_DialRetries cfg =
    (if passed args ''dial-retries'' then last_value int_of 0 args ''dial-retries''
     else applyEnvParsed E ''TS_DIAL_RETRIES'' Atoi (\<lambda>n. 0 \<le> n) (if 0 < y_DialRetries y then y_DialRetries y else 3))"
proof -
  have "g_DialRetries (collectFlags pf) = last_value (opt_of int_of) None args ''dial-retries''"
    using flag_dial_retries.field_value [of args zero_flags] by (simp add: collectFlags_faithful [OF assms(1,2)] zero_flags_def)
  then have g: "g_DialRetries (collectFlags pf) = (if passed args ''dial-retries'' then Some (last_value int_of 0 args ''dial-retries'') else None)"
    using last_value_None [OF connect_optional_typed(2) [OF assms(1)], of 0] by simp
  have "c_DialRetries cfg = c_DialRetries (layered E y (collectFlags pf))"
    using core_fields(5) [OF Merge_core [OF assms(3)]] by simp
  also have "\<dots> = opt_or (applyEnvParsed E ''TS_DIAL_RETRIES'' Atoi (\<lambda>n. 0 \<le> n) (if_pos 3 (y_DialRetries y))) (g_DialRetries (collectFlags pf))"
    unfolding layered_def Let_def dial_retries_steps(1) by (simp add: dial_retries_steps(2-))
  finally show ?thesis using g by (simp add: opt_or_def if_pos_def)
qed

text \<open>The hypotheses hold of a library that keeps its promise, here on two flags.\<close>

definition sample_args :: "(string \<times> flag_value) list" where
  "sample_args = [(''dial-retries'', VInt 5), (''target'', VString ''h:22''), (''dial-retries'', VInt 0)]"

definition sample_pflags :: pflags where
  "sample_pflags = \<lparr>pf_string = last_value str_of [] sample_args, pf_strings = all_values sample_args,
     pf_duration = last_value dur_of 0 sample_args, pf_int64 = last_value int64_of 0 sample_args,
     pf_int = last_value int_of 0 sample_args, pf_bool = last_value bool_of False sample_args, pf_changed = passed sample_args\<rparr>"

lemma collectFlags_sample: "collectFlags sample_pflags = zero_flags\<lparr>g_Target := ''h:22'', g_DialRetries := Some 0\<rparr>"
proof -
  have "well_typed (newConnectCmd @ root_flags) sample_args" "answers (newConnectCmd @ root_flags) sample_args sample_pflags"
    by (simp_all add: well_typed_def answers_def connect_decls sample_args_def sample_pflags_def same_type_def passed_def
        all_values_def str_of_def dur_of_def int64_of_def int_of_def bool_of_def)
  from collectFlags_faithful [OF this] show ?thesis
    by (simp add: sample_args_def set_flag_defs)
qed

end
