(* ===== verification/Linux_Laws.thy ===== *)
theory Linux_Laws
  imports Host_Entry
begin

text \<open>
  What host setup and host check on Linux promise together: a converged host is left alone, the
  only commands setup runs on the firewall are the ones listed here, and on an iptables host a
  change is followed by a check that passes.
\<close>

subsection \<open>A converged host\<close>

definition all_ok :: "SetupStep list \<Rightarrow> bool" where
  "all_ok steps \<longleftrightarrow> (\<forall>s \<in> set steps. st_Outcome s = OutcomeOK)"

lemma xrdpUnmet_outcome:
  "xrdpUnmet x oc = Some s \<Longrightarrow> st_Outcome s = OutcomeFailed \<or> st_Outcome s = oc"
  by (auto simp: xrdpUnmet_def split: if_splits)

lemma xrdpUnmet_None: "xrdpUnmet x oc = None \<longleftrightarrow> xrdpUnmet x oc' = None"
  by (simp add: xrdpUnmet_def)

lemma xrdpCheckStep_ok:
  assumes "st_Outcome (xrdpCheckStep x) = OutcomeOK"
  shows "xrdpUnmet x oc = None \<and> x_enabled x \<and> x_active x"
proof -
  have "xrdpUnmet x OutcomeUnverified = None"
  proof (cases "xrdpUnmet x OutcomeUnverified")
    case (Some s)
    then show ?thesis using assms xrdpUnmet_outcome [OF Some] by (auto simp: xrdpCheckStep_def)
  qed
  then show ?thesis using assms xrdpUnmet_None [of x oc] by (auto simp: xrdpCheckStep_def split: if_splits)
qed

lemma xrdpSetupStep_converged:
  "st_Outcome (xrdpCheckStep (readXRDP r st)) = OutcomeOK \<Longrightarrow>
     \<exists>s. xrdpSetupStep r st = (s, st) \<and> st_Outcome s = OutcomeOK"
  using xrdpCheckStep_ok [of "readXRDP r st" OutcomeFailed] by (auto simp: xrdpSetupStep_def Let_def)

lemma firewallCheckStep_ok:
  assumes "st_Outcome (firewallCheckStep read port) = OutcomeOK"
  shows "fr_state read = rulePresent \<and> \<not> inactiveUFWDecides read \<and> \<not> iptLegacy read \<and> extraCopies read = 0"
  using assms
  by (auto simp: firewallCheckStep_def ufwInactiveStep_def firewallBlockedStep_def iptLegacyCheckStep_def
      firewallCopiesStep_def firewallReadStep_def Let_def split: if_splits prod.splits)

lemma firewallSetupStep_converged:
  "st_Outcome (firewallCheckStep (readLinuxFirewall r port st) port) = OutcomeOK \<Longrightarrow>
     \<exists>s. firewallSetupStep r port st = (s, st) \<and> st_Outcome s = OutcomeOK"
  using firewallCheckStep_ok [of "readLinuxFirewall r port st" port] by (auto simp: firewallSetupStep_def Let_def)

lemma xrdpPortRead_reported:
  "xrdpPortRead r declared st = (l, s, inc) \<Longrightarrow> inc \<or> st_Outcome s = OutcomeOK \<or> s = zeroStep"
  by (auto simp: xrdpPortRead_def split: prod.splits option.splits listener_error.splits file_error.splits if_splits)

lemma port_setup_converged:
  assumes "all_ok (port_check cfg r st)"
  shows "\<exists>ss. port_setup cfg r st = (ss, st) \<and> all_ok ss"
proof (cases "hc_PortDeclared cfg")
  case True
  obtain l s inc where x: "xrdpPortRead r (linuxPort cfg) st = (l, s, inc)" by (metis prod_cases3)
  have "st_Outcome s \<noteq> OutcomeChanged \<and> (inc \<longrightarrow> st_Outcome s = OutcomeOK)"
    using assms True x xrdpPortRead_reported [OF x] by (auto simp: port_check_def xrdpPortCheckStep_def all_ok_def zeroStep_def split: if_splits)
  then show ?thesis using True x by (auto simp: port_setup_def xrdpPortSetupStep_def all_ok_def)
qed (simp add: port_setup_def all_ok_def)

text \<open>
  C27: a second run on a converged host changes nothing. When every step of host check on Linux
  is ok, host setup runs no command at all on that machine, whatever the tools would do, and
  every step it reports is ok.
\<close>

theorem converged_host_untouched:
  assumes "all_ok (cr_Steps (checkFor Quote ''linux'' cfg r st))" and "setupFor Quote ''linux'' cfg r act st = (res, st')"
  shows "st' = st \<and> all_ok (sr_Steps res)"
proof -
  have steps: "cr_Steps (checkFor Quote ''linux'' cfg r st) = [tailscaleStep (tailscaleIP r st), xrdpCheckStep (readXRDP r st)] @
      port_check cfg r st @ [firewallCheckStep (readLinuxFirewall r (linuxPort cfg) st) (linuxPort cfg)]"
    by (simp add: checkFor_def checkLinux_def deriveLegacy_steps Let_def)
  have ok: "st_Outcome (tailscaleStep (tailscaleIP r st)) = OutcomeOK" "st_Outcome (xrdpCheckStep (readXRDP r st)) = OutcomeOK"
    "all_ok (port_check cfg r st)" "st_Outcome (firewallCheckStep (readLinuxFirewall r (linuxPort cfg) st) (linuxPort cfg)) = OutcomeOK"
    using assms(1) unfolding steps by (simp_all add: all_ok_def)
  obtain s1 where s1: "xrdpSetupStep r st = (s1, st)" "st_Outcome s1 = OutcomeOK" using xrdpSetupStep_converged [OF ok(2)] by blast
  obtain s2 where s2: "port_setup cfg r st = (s2, st)" "all_ok s2" using port_setup_converged [OF ok(3)] by blast
  obtain s3 where s3: "firewallSetupStep r (linuxPort cfg) st = (s3, st)" "st_Outcome s3 = OutcomeOK"
    using firewallSetupStep_converged [OF ok(4)] by blast
  from assms(2) s1(1) s2(1) s3(1) have "st' = st \<and> sr_Steps res = s1 # s2 @ [s3, tailscaleIPStep r st]"
    by (auto simp: setupFor_def setupLinux_def Let_def)
  then show ?thesis using s1(2) s2(2) s3(2) ok(1) by (auto simp: all_ok_def tailscaleIPStep_def)
qed

subsection \<open>The commands of firewall setup\<close>

fun run_all :: "'s Runner \<Rightarrow> string list list \<Rightarrow> 's \<Rightarrow> 's" where
  "run_all r [] st = st"
| "run_all r (c # cs) st = run_all r cs (snd (r_Run r c st))"

lemma run_all_append: "run_all r (cs @ ds) st = run_all r ds (run_all r cs st)"
  by (induction cs arbitrary: st) auto

lemma delete_copies_runs:
  "delete_copies r port n st = (e, st') \<Longrightarrow> \<exists>k \<le> n. st' = run_all r (replicate k (backendIPT # iptablesDelete port)) st"
proof (induction n arbitrary: st)
  case (Suc n)
  obtain e1 st1 where c: "r_Run r (backendIPT # iptablesDelete port) st = (e1, st1)" by fastforce
  show ?case
  proof (cases e1)
    case None
    then obtain k where "k \<le> n" "st' = run_all r (replicate k (backendIPT # iptablesDelete port)) st1"
      using Suc.IH [of st1] Suc.prems c by auto
    then show ?thesis using c by (intro exI [of _ "Suc k"]) simp
  next
    case (Some x)
    then show ?thesis using Suc.prems c by (intro exI [of _ 1]) simp
  qed
qed auto

definition legacy_commands :: "firewallRead \<Rightarrow> int \<Rightarrow> nat \<Rightarrow> string list list" where
  "legacy_commands read port k =
     (if fr_scoped read then [] else [backendIPT # iptablesAppend port]) @ replicate k (backendIPT # iptablesDelete port)"

lemma iptLegacySetupStep_runs:
  assumes "iptLegacySetupStep r read port st = (step, st')"
  shows "\<exists>k \<le> fr_copies read. st' = run_all r (legacy_commands read port k) st"
proof -
  obtain e1 st1 where a: "(if fr_scoped read then (None, st) else r_Run r (backendIPT # iptablesAppend port) st) = (e1, st1)" by fastforce
  have r1: "st1 = run_all r (if fr_scoped read then [] else [backendIPT # iptablesAppend port]) st"
    using a by (auto split: if_splits)
  obtain e2 st2 where d: "delete_copies r port (fr_copies read) st1 = (e2, st2)" by fastforce
  consider "st' = st1" | "st' = st2"
    using assms a d by (auto simp: iptLegacySetupStep_def split: option.splits if_splits)
  then show ?thesis
  proof cases
    case 1
    then show ?thesis using r1 by (intro exI [of _ 0]) (simp add: legacy_commands_def)
  next
    case 2
    then show ?thesis using delete_copies_runs [OF d] r1 by (auto simp: legacy_commands_def run_all_append)
  qed
qed

lemma not_elevated_unknown: "\<not> r_Elevated r st \<Longrightarrow> fr_state (readLinuxFirewall r port st) = ruleUnknown"
  by (simp add: readLinuxFirewall_def no_read_def)

text \<open>
  what setup may do to a firewall. Setup runs a command only as root, on rules it could read,
  and then one of these: the allow for the port through the tool that manages the host when no
  rule decides the port; ufw's allow when ufw is inactive and nothing admits the port; or, when
  unscoped allows are found, the rule scoped to the tailnet interface unless a scoped rule is
  there, followed by deletions of the exact rule old versions wrote, at most one per copy. It
  never deletes or reorders another rule and never touches a port that a deny blocks.
\<close>

lemma firewall_setup_commands:
  assumes "firewallSetupStep r port st = (step, st')" and "read = readLinuxFirewall r port st"
  shows "st' = st \<or>
    r_Elevated r st \<and>
      (fr_state read = ruleAbsent \<and> st' = run_all r [add_rule read port] st \<or>
       fr_state read = ruleAbsent \<and> fr_ufwInactive read \<and> st' = run_all r [[''ufw'', ''allow'', Itoa port @ ''/tcp'']] st \<or>
       iptLegacy read \<and> (\<exists>k \<le> fr_copies read. st' = run_all r (legacy_commands read port k) st))"
proof (cases "inactiveUFWDecides read")
  case True
  then have e: "r_Elevated r st" "fr_ufwInactive read"
    using not_elevated_unknown [of r st port] assms(2) by (auto simp: inactiveUFWDecides_def split: if_splits)
  have "ufwInactiveSetupStep r read port st = (step, st')"
    using assms True by (simp add: firewallSetupStep_def Let_def)
  then have "st' = st \<or> snd (ufwInactiveState read port) \<and> st' = snd (r_Run r [backendUFW, ''allow'', Itoa port @ ''/tcp''] st)"
    by (auto simp: ufwInactiveSetupStep_def split: prod.splits option.splits if_splits)
  moreover have "fr_state read = ruleAbsent" if "snd (ufwInactiveState read port)"
    using that True by (cases "fr_state read") (auto simp: ufwInactiveState_def inactiveUFWDecides_def split: if_splits)
  ultimately show ?thesis using e by (auto simp: backendUFW_def)
next
  case False
  show ?thesis
  proof (cases "fr_state read")
    case rulePresent
    then have e: "r_Elevated r st" using not_elevated_unknown [of r st port] assms(2) by auto
    show ?thesis
      using assms rulePresent False e iptLegacySetupStep_runs [of r read port st step st']
      by (auto simp: firewallSetupStep_def Let_def split: if_splits)
  next
    case ruleAbsent
    then have e: "r_Elevated r st" using not_elevated_unknown [of r st port] assms(2) by auto
    show ?thesis
      using assms ruleAbsent False e by (auto simp: firewallSetupStep_def Let_def split: prod.splits option.splits)
  qed (use assms False in \<open>auto simp: firewallSetupStep_def Let_def split: prod.splits\<close>)
qed

subsection \<open>Words of a printed rule\<close>

definition printable :: "string \<Rightarrow> bool" where
  "printable w \<longleftrightarrow> w \<noteq> [] \<and> (\<forall>c \<in> set w. graphic c \<and> c \<noteq> CHR 0x22)"

lemma Fields_join: "\<forall>w \<in> set ws. printable w \<Longrightarrow> Fields (join '' '' ws) = ws"
  by (rule Fields_join_blank) (auto simp: printable_def)

lemma blank_quoted_id: "CHR 0x22 \<notin> set s \<Longrightarrow> blank_quoted s = s"
  by (induction s) auto

lemma set_join: "c \<in> set (join sep ws) \<Longrightarrow> c \<in> set sep \<or> (\<exists>w \<in> set ws. c \<in> set w)"
  by (induction ws rule: induct_list012) auto

lemma rule_words_join: "\<forall>w \<in> set ws. printable w \<Longrightarrow> rule_words (join '' '' ws) = ws"
  unfolding rule_words_def using Fields_join set_join [of "CHR 0x22" "'' ''" ws]
  by (subst blank_quoted_id) (auto simp: printable_def)

subsection \<open>The first rule that decides\<close>

lemma first_decision_append:
  "first_decision f (xs @ ys) = (if fst (first_decision f xs) = ruleAbsent \<and> (\<forall>x \<in> set xs. f x = None)
     then first_decision f ys else first_decision f xs)" 
  by (induction xs) (auto split: option.splits)

lemma first_decision_absent:
  "\<forall>x v. f x = Some v \<longrightarrow> fst v \<noteq> ruleAbsent \<Longrightarrow> fst (first_decision f xs) = ruleAbsent \<longleftrightarrow> (\<forall>x \<in> set xs. f x = None)"
  by (induction xs) (auto split: option.splits)

text \<open>Rules that never block may be put back without closing what the others admit.\<close>

lemma first_decision_filter_present:
  assumes "fst (first_decision f (filter P xs)) = rulePresent"
    and "\<forall>x v. \<not> P x \<longrightarrow> f x = Some v \<longrightarrow> fst v = rulePresent"
  shows "fst (first_decision f xs) = rulePresent"
  using assms by (induction xs) (auto split: option.splits if_splits)

lemma ipt_line_verdict: "ipt_line l port = Some v \<Longrightarrow> fst v = rulePresent \<or> fst v = ruleBlocked"
  by (auto simp: ipt_line_def Let_def split: if_splits)

lemma walk_verdict: "fst (first_decision (\<lambda>l. ipt_line l port) ls) \<in> {ruleAbsent, rulePresent, ruleBlocked}"
  using ipt_line_verdict [of _ port] by (induction ls) (auto split: option.splits)

lemma ipt_absent: "fst (first_decision (\<lambda>l. ipt_line l port) ls) = ruleAbsent \<longleftrightarrow> (\<forall>l \<in> set ls. ipt_line l port = None)"
  using ipt_line_verdict [of _ port] by (intro first_decision_absent) fastforce

lemma ipt_line_accept: "iptFlag (rule_words l) ''-j'' = ''ACCEPT'' \<Longrightarrow> ipt_line l port = Some v \<Longrightarrow> fst v = rulePresent"
  by (auto simp: ipt_line_def Let_def split: if_splits)

lemma portListHas_Nil: "\<not> portListHas [] port"
proof -
  have "Atoi [] = None" by code_simp
  then show ?thesis by (simp add: portListHas_def port_item_has_def)
qed

lemma iptFlag_present: "iptFlag f flag \<noteq> [] \<Longrightarrow> flag \<in> set f"
  by (auto simp: iptFlag_def slices_Index_def split: option.splits dest!: index_of_SomeD)

lemma iptPortCovers_matches: "iptPortCovers f port \<Longrightarrow> iptMatchesPort f port"
proof -
  assume c: "iptPortCovers f port"
  then obtain flag where "flag \<in> set iptDestPortFlags" "portListHas (iptFlag f flag) port"
    by (auto simp: iptPortCovers_def list_ex_iff)
  moreover from this have "iptFlag f flag \<noteq> []" using portListHas_Nil by auto
  ultimately have "flag \<in> set f" "flag \<in> set iptPortFlags" by (simp_all add: iptFlag_present iptPortFlags_def)
  then show ?thesis using c by (auto simp: iptMatchesPort_def list_ex_iff)
qed

lemma unscoped_decides: "unscoped_line port l \<Longrightarrow> ipt_line l port = Some (rulePresent, [])"
  using iptPortCovers_matches [of "rule_words l" port] by (auto simp: unscoped_line_def ipt_line_def Let_def)

subsection \<open>The rules setup writes\<close>

definition legacy_text :: "int \<Rightarrow> string" where "legacy_text port = join '' '' (iptPrinted (iptablesLegacy port))"
definition scoped_text :: "int \<Rightarrow> string" where "scoped_text port = join '' '' (iptPrinted (iptablesAppend port))"

lemma Itoa_word: "valid_port p \<Longrightarrow> \<not> is_digit c \<Longrightarrow> Itoa p \<noteq> c # w \<and> c # w \<noteq> Itoa p"
  using Itoa_nonneg_digits [of p c] list.set_intros(1) [of c w] by (metis int_one_le_iff_zero_less less_le valid_port_def)

lemma legacy_words: "iptPrinted (iptablesLegacy port) =
    [''-A'', ''INPUT'', ''-p'', ''tcp'', ''-m'', ''tcp'', ''--dport'', Itoa port, ''-j'', ''ACCEPT'']"
  by (simp add: iptPrinted_def iptablesLegacy_def slices_Index_def Let_def)

lemma scoped_words: "iptPrinted (iptablesAppend port) =
    [''-A'', ''INPUT'', ''-i'', ''tailscale0'', ''-p'', ''tcp'', ''-m'', ''tcp'', ''--dport'', Itoa port, ''-j'', ''ACCEPT'']"
  by (simp add: iptPrinted_def iptablesAppend_def tailnetInterface_def slices_Index_def Let_def)

lemma printable_Itoa: "valid_port port \<Longrightarrow> printable (Itoa port)"
  using Itoa_graphic [of port] Itoa_nonneg_digits [of port "CHR 0x22"] by (auto simp: printable_def valid_port_def is_digit_def)

lemma printable_words: "list_all printable [''-A'', ''INPUT'', ''-i'', ''tailscale0'', ''-p'', ''tcp'', ''-m'', ''--dport'', ''-j'', ''ACCEPT'']"
  by (simp add: printable_def graphic_def)

lemma written_words:
  assumes "valid_port port"
  shows "rule_words (scoped_text port) = iptPrinted (iptablesAppend port)" "Fields (scoped_text port) = iptPrinted (iptablesAppend port)"
    "rule_words (legacy_text port) = iptPrinted (iptablesLegacy port)" "Fields (legacy_text port) = iptPrinted (iptablesLegacy port)"
proof -
  have "\<forall>w \<in> set (iptPrinted (iptablesAppend port)). printable w" "\<forall>w \<in> set (iptPrinted (iptablesLegacy port)). printable w"
    using printable_words printable_Itoa [OF assms] by (simp_all add: scoped_words legacy_words)
  then show "rule_words (scoped_text port) = iptPrinted (iptablesAppend port)" "Fields (scoped_text port) = iptPrinted (iptablesAppend port)"
    "rule_words (legacy_text port) = iptPrinted (iptablesLegacy port)" "Fields (legacy_text port) = iptPrinted (iptablesLegacy port)"
    unfolding scoped_text_def legacy_text_def by (simp_all add: rule_words_join Fields_join)
qed

lemma portListHas_Itoa: "valid_port port \<Longrightarrow> portListHas (Itoa port) port"
proof -
  assume v: "valid_port port"
  then have "CHR '','' \<notin> set (Itoa port)" "CHR '':'' \<notin> set (Itoa port)"
    using Itoa_no_char [of port] by (auto simp: valid_port_def is_digit_def)
  then show ?thesis
    using v by (simp add: portListHas_def port_item_has_def split_on_absent cut_absent Atoi_Itoa valid_port_int64)
qed

lemma scoped_rule:
  assumes "valid_port port"
  shows "ipt_line (scoped_text port) port = Some (rulePresent, [])" "\<not> unscoped_line port (scoped_text port)"
    "\<not> is_legacy port (scoped_text port)"
proof -
  note w = written_words [OF assms] and n = Itoa_word [OF assms]
  have flags: "iptFlag (iptPrinted (iptablesAppend port)) ''-p'' = ''tcp''"
    "iptFlag (iptPrinted (iptablesAppend port)) ''--dport'' = Itoa port"
    "iptFlag (iptPrinted (iptablesAppend port)) ''-j'' = ''ACCEPT''"
    using n by (simp_all add: scoped_words iptFlag_def slices_Index_def is_digit_def)
  have "\<not> iptLoopback (iptPrinted (iptablesAppend port))"
    using n by (simp add: scoped_words iptLoopback_def upt_rec iptLoopbackScope_def is_digit_def)
  moreover have "iptPortCovers (iptPrinted (iptablesAppend port)) port"
    using portListHas_Itoa [OF assms] by (simp add: iptPortCovers_def iptDestPortFlags_def flags)
  ultimately show "ipt_line (scoped_text port) port = Some (rulePresent, [])"
    using iptPortCovers_matches by (simp add: ipt_line_def w flags Let_def) (simp add: scoped_words)
  show "\<not> unscoped_line port (scoped_text port)"
    by (simp add: unscoped_line_def w Let_def) (simp add: scoped_words iptHasScope_def iptScopeFlags_def)
  show "\<not> is_legacy port (scoped_text port)" by (simp add: is_legacy_def w) (simp add: scoped_words legacy_words)
qed

lemma legacy_rule:
  assumes "valid_port port"
  shows "ipt_line (legacy_text port) port = Some (rulePresent, [])" and "unscoped_line port (legacy_text port)"
proof -
  note w = written_words [OF assms] and n = Itoa_word [OF assms]
  have flags: "iptFlag (iptPrinted (iptablesLegacy port)) ''-p'' = ''tcp''"
    "iptFlag (iptPrinted (iptablesLegacy port)) ''--dport'' = Itoa port"
    "iptFlag (iptPrinted (iptablesLegacy port)) ''-j'' = ''ACCEPT''"
    using n by (simp_all add: legacy_words iptFlag_def slices_Index_def is_digit_def)
  have "\<not> iptLoopback (iptPrinted (iptablesLegacy port))"
    using n by (simp add: legacy_words iptLoopback_def upt_rec iptLoopbackScope_def is_digit_def)
  moreover have "iptPortCovers (iptPrinted (iptablesLegacy port)) port"
    using portListHas_Itoa [OF assms] by (simp add: iptPortCovers_def iptDestPortFlags_def flags)
  ultimately show "ipt_line (legacy_text port) port = Some (rulePresent, [])" "unscoped_line port (legacy_text port)"
    using iptPortCovers_matches n
    by (simp_all add: ipt_line_def unscoped_line_def w flags Let_def)
      (simp_all add: legacy_words iptHasScope_def iptScopeFlags_def is_digit_def)
qed

subsection \<open>A host with iptables\<close>

text \<open>
  What is relied on of iptables itself: \<open>-S INPUT\<close> prints the chain, one rule per line without
  blanks around it and with closed quotes, \<open>-A\<close> adds the rule at the end as \<open>-S\<close> prints it, and
  \<open>-D\<close> deletes the first rule that is equal; there is no ts-input chain and no nft.
\<close>

definition chain_text :: "string list \<Rightarrow> string" where
  "chain_text ls = concat (map (\<lambda>l. l @ [NL]) ls)"

definition plain_rule :: "int \<Rightarrow> string \<Rightarrow> bool" where
  "plain_rule port l \<longleftrightarrow> NL \<notin> set l \<and> unbreak False False l = (l, False) \<and> TrimSpace l = l \<and> \<not> iptTSInputJump l \<and>
     \<not> qualified_jump l \<and> (is_legacy port l \<longrightarrow> l = legacy_text port)"

definition iptables_host :: "'s Runner \<Rightarrow> ('s \<Rightarrow> string list) \<Rightarrow> ('s \<Rightarrow> bool) \<Rightarrow> int \<Rightarrow> bool" where
  "iptables_host r chain ok port \<longleftrightarrow>
     (\<forall>st. ok st \<longrightarrow> list_all (plain_rule port) (chain st) \<and> r_Elevated r st \<and>
        \<not> r_LookPath r backendUFW st \<and> r_LookPath r backendIPT st \<and> \<not> r_LookPath r ''nft'' st \<and>
        r_Output r [backendIPT, ''-S'', ''INPUT''] st = (chain_text (chain st), None) \<and>
        (\<exists>e. snd (r_Output r [backendIPT, ''-S'', tsInputChain] st) = Some e \<and>
           chainMissing e ''No chain/target/match by that name'') \<and>
        (\<forall>st'. r_Run r (backendIPT # iptablesAppend port) st = (None, st') \<longrightarrow>
           ok st' \<and> chain st' = chain st @ [scoped_text port]) \<and>
        (\<forall>st'. r_Run r (backendIPT # iptablesDelete port) st = (None, st') \<longrightarrow>
           ok st' \<and> chain st' = remove1 (legacy_text port) (chain st)))"

lemma unbreak_append:
  "(e \<longrightarrow> q) \<Longrightarrow> snd (unbreak q e xs) = False \<Longrightarrow>
   unbreak q e (xs @ ys) = (fst (unbreak q e xs) @ fst (unbreak False False ys), snd (unbreak False False ys))"
  by (induction xs arbitrary: q e) (auto simp: Let_def NL_def split: prod.splits if_splits)

lemma unbreak_chain: "list_all (plain_rule port) ls \<Longrightarrow> unbreak False False (chain_text ls) = (chain_text ls, False)"
proof (induction ls)
  case (Cons l ls)
  have "unbreak False False (l @ NL # chain_text ls) = (l @ fst (unbreak False False (NL # chain_text ls)), snd (unbreak False False (NL # chain_text ls)))"
    using unbreak_append [of False False l] Cons.prems by (simp add: plain_rule_def)
  then show ?case using Cons by (simp add: chain_text_def Let_def NL_def)
qed (simp add: chain_text_def)

lemma split_chain: "list_all (plain_rule port) ls \<Longrightarrow> split_on NL (chain_text ls) = ls @ [[]]"
  by (induction ls) (auto simp: chain_text_def plain_rule_def split_on_append)

lemma empty_line: "rule_words [] = []" "Fields [] = []" "ipt_line [] port = None" "\<not> qualified_jump []" "\<not> iptTSInputJump []"
  "\<not> is_legacy port []" "\<not> unscoped_line port []"
proof -
  show w: "rule_words [] = []" "Fields [] = []" by code_simp+
  show "ipt_line [] port = None" "\<not> qualified_jump []" "\<not> unscoped_line port []"
    by (simp_all add: ipt_line_def qualified_jump_def unscoped_line_def w Let_def)
  show "\<not> iptTSInputJump []" "\<not> is_legacy port []" by (simp_all add: iptTSInputJump_def tsInputJump_def is_legacy_def w legacy_words)
qed

lemma decide_chain:
  assumes "list_all (plain_rule port) ls"
  shows "iptablesDecide (chain_text ls) port = first_decision (\<lambda>l. ipt_line l port) ls"
proof -
  have "first_decision (\<lambda>l. ipt_line l port) (ls @ [[]]) = first_decision (\<lambda>l. ipt_line l port) ls" for ls
    by (induction ls) (auto simp: empty_line split: option.splits)
  then show ?thesis by (simp add: iptablesDecide_def split_chain [OF assms])
qed

lemma host_read:
  assumes "iptables_host r chain ok port" and "ok st"
  shows "readLinuxFirewall r port st = decided_read (chain_text (chain st)) (chain_text (chain st)) port"
proof -
  let ?t = "chain_text (chain st)"
  have h: "list_all (plain_rule port) (chain st)" "r_Elevated r st" "\<not> r_LookPath r backendUFW st" "r_LookPath r backendIPT st"
    "\<not> r_LookPath r ''nft'' st" "r_Output r [backendIPT, ''-S'', ''INPUT''] st = (?t, None)"
    using assms unfolding iptables_host_def by blast+
  obtain e where e: "snd (r_Output r [backendIPT, ''-S'', tsInputChain] st) = Some e" "chainMissing e ''No chain/target/match by that name''"
    using assms unfolding iptables_host_def by blast
  have i: "iptRules ?t = ?t" by (simp add: iptRules_def unbreak_chain [OF h(1)])
  have lines: "\<forall>l \<in> set (split_on NL ?t). \<not> qualified_jump l \<and> \<not> iptTSInputJump l"
    unfolding split_chain [OF h(1)] using h(1) by (auto simp: list_all_iff plain_rule_def empty_line)
  then have dw: "dropWhile (\<lambda>l. \<not> qualified_jump l) (split_on NL ?t) = []" by (simp add: dropWhile_eq_Nil_conv)
  have b: "iptBeforeQualifiedJump ?t = (?t, [])" unfolding iptBeforeQualifiedJump_def Let_def dw by simp
  have w: "walked_rules r ?t st = Inr (?t, False)" using lines by (auto simp: walked_rules_def list_ex_iff)
  have n: "tsInputUnreached r port st = None"
    using e h(5) by (auto simp: tsInputUnreached_def tsInputInNFT_def split: prod.splits)
  show ?thesis
    using h(2-6) by (simp add: readLinuxFirewall_def readIptables_def i b w n Let_def)
qed

lemma chain_read:
  assumes "list_all (plain_rule port) ls" and "read = decided_read (chain_text ls) (chain_text ls) port"
  shows "fr_state read = fst (first_decision (\<lambda>l. ipt_line l port) ls)" "fr_backend read = backendIPT" "\<not> fr_ufwInactive read"
    "fr_copies read = length (filter (is_legacy port) ls)"
    "fr_foreign read = filter (\<lambda>l. \<not> is_legacy port l) (filter (unscoped_line port) ls)"
    "fr_scoped read \<longleftrightarrow> fst (first_decision (\<lambda>l. ipt_line l port) ls) = rulePresent \<and>
       fst (first_decision (\<lambda>l. ipt_line l port)
         (filter (\<lambda>l. \<not> (l \<in> set (filter (unscoped_line port) ls) \<or> iptAcceptOffTailnet l)) ls)) = rulePresent"
proof -
  note s = split_chain [OF assms(1)] and d = decide_chain [OF assms(1)]
  have trim: "map TrimSpace (filter P ls) = filter P ls" for P
    using assms(1) by (induction ls) (auto simp: plain_rule_def)
  have u: "iptUnscoped (chain_text ls) port = filter (unscoped_line port) ls"
    by (simp add: iptUnscoped_def s empty_line trim)
  let ?P = "\<lambda>l. \<not> (l \<in> set (filter (unscoped_line port) ls) \<or> iptAcceptOffTailnet l)"
  let ?Q = "\<lambda>l. \<not> (TrimSpace l \<in> set (filter (unscoped_line port) ls) \<or> iptAcceptOffTailnet l)"
  have off: "\<not> iptAcceptOffTailnet []" by (simp add: iptAcceptOffTailnet_def empty_line iptFlag_def slices_Index_def Let_def)
  have f: "filter ?Q (ls @ [[]]) = filter ?P ls @ [[]]"
  proof -
    have "filter ?Q ls = filter ?P ls"
      using assms(1) by (intro filter_cong) (auto simp: list_all_iff plain_rule_def)
    moreover have "?Q []" using off by (simp add: empty_line)
    ultimately show ?thesis by simp
  qed
  have nl: "\<forall>l \<in> set (filter ?P ls @ [[]]). NL \<notin> set l" using assms(1) by (auto simp: list_all_iff plain_rule_def)
  have "split_on NL (join [NL] (filter ?P ls @ [[]])) = filter ?P ls @ [[]]" by (rule split_on_join) (use nl in auto)
  moreover have "first_decision (\<lambda>l. ipt_line l port) (xs @ [[]]) = first_decision (\<lambda>l. ipt_line l port) xs" for xs
    by (induction xs) (auto simp: empty_line split: option.splits)
  ultimately have c: "iptablesCovers (join [NL] (filter ?Q (ls @ [[]]))) port \<longleftrightarrow>
      fst (first_decision (\<lambda>l. ipt_line l port) (filter ?P ls)) = rulePresent"
    unfolding f by (simp add: iptablesCovers_def iptablesDecide_def)
  note defs = assms(2) decided_read_def d s u iptUnscopedRead_def iptLegacyCopies_def no_read_def empty_line
  show "fr_state read = fst (first_decision (\<lambda>l. ipt_line l port) ls)" "fr_backend read = backendIPT" "\<not> fr_ufwInactive read"
    "fr_copies read = length (filter (is_legacy port) ls)"
    "fr_foreign read = filter (\<lambda>l. \<not> is_legacy port l) (filter (unscoped_line port) ls)"
    by (simp_all add: defs Let_def case_prod_beta)
  show "fr_scoped read \<longleftrightarrow> fst (first_decision (\<lambda>l. ipt_line l port) ls) = rulePresent \<and>
       fst (first_decision (\<lambda>l. ipt_line l port) (filter ?P ls)) = rulePresent"
    unfolding c [symmetric] by (simp add: defs Let_def case_prod_beta)
qed

lemma remove1_all:
  "(remove1 x ^^ length (filter (\<lambda>y. y = x) xs)) xs = filter (\<lambda>y. y \<noteq> x) xs"
proof (induction xs)
  case (Cons y ys)
  have "(remove1 x ^^ n) (y # zs) = y # (remove1 x ^^ n) zs" if "y \<noteq> x" for n zs
    using that by (induction n) auto
  then show ?case using Cons by (auto simp: funpow_swap1)
qed simp

lemma delete_copies_chain:
  assumes "iptables_host r chain ok port" and "delete_copies r port n st = (None, st')" and "ok st"
  shows "ok st' \<and> chain st' = (remove1 (legacy_text port) ^^ n) (chain st)"
  using assms(2,3)
proof (induction n arbitrary: st)
  case (Suc n)
  obtain st1 where c: "r_Run r (backendIPT # iptablesDelete port) st = (None, st1)" "delete_copies r port n st1 = (None, st')"
    using Suc.prems(1) by (auto split: prod.splits option.splits)
  then have "ok st1 \<and> chain st1 = remove1 (legacy_text port) (chain st)"
    using assms(1) Suc.prems(2) unfolding iptables_host_def by blast
  then show ?case using Suc.IH [OF c(2)] by (simp add: funpow_swap1)
qed simp

lemma legacy_iff:
  assumes "list_all (plain_rule port) ls" and "valid_port port" and "l \<in> set ls"
  shows "is_legacy port l \<longleftrightarrow> l = legacy_text port"
  using assms written_words(4) [OF assms(2)] by (auto simp: list_all_iff plain_rule_def is_legacy_def)

lemma legacy_filter:
  assumes "list_all (plain_rule port) ls" and "valid_port port"
  shows "filter (is_legacy port) ls = filter (\<lambda>l. l = legacy_text port) ls"
    "filter (\<lambda>l. \<not> is_legacy port l) ls = filter (\<lambda>l. l \<noteq> legacy_text port) ls"
  using legacy_iff [OF assms] by (auto intro: filter_cong)

lemma converged_chain:
  assumes "iptables_host r chain ok port" and "ok st"
    and "fst (first_decision (\<lambda>l. ipt_line l port) (chain st)) = rulePresent"
    and "\<forall>l \<in> set (chain st). \<not> is_legacy port l \<and> \<not> unscoped_line port l"
  shows "st_Outcome (firewallCheckStep (readLinuxFirewall r port st) port) = OutcomeOK"
proof -
  have p: "list_all (plain_rule port) (chain st)" using assms(1,2) unfolding iptables_host_def by blast
  note c = chain_read [OF p refl]
  have "filter (is_legacy port) (chain st) = []" "filter (unscoped_line port) (chain st) = []" using assms(4) by (auto simp: filter_empty_conv)
  then show ?thesis
    unfolding host_read [OF assms(1,2)] firewallCheckStep_def
    using c assms(3) by (simp add: inactiveUFWDecides_def iptLegacy_def extraCopies_def firewallReadStep_def Let_def)
qed

text \<open>The chain after a change: every rule but the copies, and the scoped rule unless one was there.\<close>

lemma changed_chain:
  assumes h: "iptables_host r chain ok port" and "ok st" and v: "valid_port port"
    and s: "firewallSetupStep r port st = (step, st')" and "st_Outcome step = OutcomeChanged"
  shows "ok st' \<and> (\<forall>l \<in> set (chain st). unscoped_line port l \<longrightarrow> is_legacy port l) \<and>
    (\<exists>scoped. chain st' = filter (\<lambda>l. \<not> is_legacy port l) (chain st) @ (if scoped then [] else [scoped_text port]) \<and>
       (scoped \<longrightarrow> fr_scoped (readLinuxFirewall r port st)))"
proof -
  define read where "read = readLinuxFirewall r port st"
  have p: "list_all (plain_rule port) (chain st)" using h assms(2) unfolding iptables_host_def by blast
  have rd: "read = decided_read (chain_text (chain st)) (chain_text (chain st)) port" unfolding read_def by (rule host_read [OF h assms(2)])
  note c = chain_read [OF p rd] and leg = legacy_filter [OF p v]
  have app: "ok x \<and> chain x = chain st @ [scoped_text port]" if "r_Run r (backendIPT # iptablesAppend port) st = (None, x)" for x
    using h assms(2) that unfolding iptables_host_def by blast
  have ni: "\<not> inactiveUFWDecides read" using c(3) by (simp add: inactiveUFWDecides_def)
  have nb: "fr_backend read \<noteq> backendUFW" by (simp add: c(2) backendIPT_def backendUFW_def)
  consider (absent) "fr_state read = ruleAbsent" "r_Run r (backendIPT # iptablesAppend port) st = (None, st')"
    | (legacy) "iptLegacySetupStep r read port st = (step, st')"
    using s assms(5) ni nb
    by (cases "fr_state read")
      (auto simp: firewallSetupStep_def read_def [symmetric] add_rule_def firewallCopiesStep_def firewallBlockedStep_def Let_def
        split: if_splits prod.splits option.splits)
  then show ?thesis
  proof cases
    case absent
    have none: "\<forall>l \<in> set (chain st). ipt_line l port = None"
      using absent(1) c(1) ipt_absent [of port "chain st"] by simp
    have nl: "l \<in> set (chain st) \<Longrightarrow> \<not> is_legacy port l" for l
      using none legacy_iff [OF p v] legacy_rule(1) [OF v] by force
    then have "filter (\<lambda>l. \<not> is_legacy port l) (chain st) = chain st" by simp
    moreover have "\<not> unscoped_line port l" if "l \<in> set (chain st)" for l
      using none unscoped_decides [of port l] that by auto
    ultimately show ?thesis using app [OF absent(2)] by (intro conjI exI [of _ False]) auto
  next
    case legacy
    obtain st1 where a: "(if fr_scoped read then (None, st) else r_Run r (backendIPT # iptablesAppend port) st) = (None, st1)"
      and d: "delete_copies r port (fr_copies read) st1 = (None, st')" and f: "fr_foreign read = []"
      using legacy assms(5) by (auto simp: iptLegacySetupStep_def split: if_splits prod.splits option.splits)
    let ?new = "if fr_scoped read then [] else [scoped_text port]"
    have k: "ok st1 \<and> chain st1 = chain st @ ?new" using a app assms(2) by (auto split: if_splits)
    have ns: "scoped_text port \<noteq> legacy_text port"
      using scoped_rule(3) [OF v] written_words(4) [OF v] by (auto simp: is_legacy_def)
    have n: "fr_copies read = length (filter (\<lambda>l. l = legacy_text port) (chain st1))" using c(4) k ns by (simp add: leg)
    have "chain st' = filter (\<lambda>l. l \<noteq> legacy_text port) (chain st1)"
      using delete_copies_chain [OF h d] k remove1_all [of "legacy_text port" "chain st1"] n by simp
    then have "chain st' = filter (\<lambda>l. \<not> is_legacy port l) (chain st) @ ?new" using k ns by (simp add: leg)
    moreover have "\<forall>l \<in> set (chain st). unscoped_line port l \<longrightarrow> is_legacy port l"
      using f c(5) by (auto simp: filter_empty_conv)
    moreover have "ok st'" using delete_copies_chain [OF h d] k by simp
    ultimately show ?thesis unfolding read_def [symmetric] by blast
  qed
qed

text \<open>The walk over the chain without its legacy rules, and over that chain with the scoped rule appended.\<close>

lemma rest_not_blocked:
  assumes "list_all (plain_rule port) ls" "fst (iptablesDecide (iptWithoutLegacy (chain_text ls) port) port) \<noteq> ruleBlocked"
  shows "fst (first_decision (\<lambda>l. ipt_line l port) (filter (\<lambda>l. \<not> is_legacy port l) ls)) \<noteq> ruleBlocked"
proof -
  let ?D = "\<lambda>l. ipt_line l port" and ?rest = "filter (\<lambda>l. \<not> is_legacy port l) ls"
  have "join [NL] (filter (\<lambda>l. \<not> is_legacy port l) (ls @ [[]])) = join [NL] (?rest @ [[]])" by (simp add: empty_line)
  moreover have "split_on NL (join [NL] (?rest @ [[]])) = ?rest @ [[]]"
    using assms(1) by (intro split_on_join) (auto simp: list_all_iff plain_rule_def)
  moreover have "first_decision ?D (xs @ [[]]) = first_decision ?D xs" for xs
    by (induction xs) (auto simp: empty_line split: option.splits)
  ultimately show ?thesis using assms(2) by (simp add: iptWithoutLegacy_def iptablesDecide_def split_chain [OF assms(1)])
qed

lemma scoped_appended_present:
  assumes "valid_port port" "fst (first_decision (\<lambda>l. ipt_line l port) rest) \<noteq> ruleBlocked"
  shows "fst (first_decision (\<lambda>l. ipt_line l port) (rest @ [scoped_text port])) = rulePresent"
proof -
  let ?D = "\<lambda>l. ipt_line l port"
  have one: "first_decision ?D [scoped_text port] = (rulePresent, [])" using scoped_rule(1) [OF assms(1)] by simp
  have e: "first_decision ?D (rest @ [scoped_text port]) =
      (if fst (first_decision ?D rest) = ruleAbsent \<and> (\<forall>x \<in> set rest. ?D x = None) then (rulePresent, []) else first_decision ?D rest)"
    by (rule first_decision_append [of ?D rest "[scoped_text port]", unfolded one])
  consider "fst (first_decision ?D rest) = ruleAbsent" | "fst (first_decision ?D rest) = rulePresent"
    using assms(2) walk_verdict [of port rest] by blast
  then show ?thesis
  proof cases
    case 1
    then have "\<forall>x \<in> set rest. ?D x = None" using ipt_absent by blast
    with 1 show ?thesis unfolding e by simp
  qed (simp add: e)
qed

lemma scoped_read_present:
  assumes "iptables_host r chain ok port" "ok st" "valid_port port" "fr_scoped (readLinuxFirewall r port st)"
  shows "fst (first_decision (\<lambda>l. ipt_line l port) (filter (\<lambda>l. \<not> is_legacy port l) (chain st))) = rulePresent"
proof -
  let ?D = "\<lambda>l. ipt_line l port" and ?rest = "filter (\<lambda>l. \<not> is_legacy port l) (chain st)"
  let ?P = "\<lambda>l. \<not> (l \<in> set (filter (unscoped_line port) (chain st)) \<or> iptAcceptOffTailnet l)"
  have p: "list_all (plain_rule port) (chain st)" using assms(1,2) unfolding iptables_host_def by blast
  have "fst (first_decision ?D (filter ?P (chain st))) = rulePresent"
    using assms(4) chain_read(6) [OF p refl] unfolding host_read [OF assms(1,2)] by simp
  moreover have "filter ?P (chain st) = filter ?P ?rest"
    using legacy_iff [OF p assms(3)] legacy_rule(2) [OF assms(3)] by (auto simp: filter_filter intro!: filter_cong)
  ultimately have "fst (first_decision ?D (filter ?P ?rest)) = rulePresent" by simp
  then show ?thesis
    by (rule first_decision_filter_present)
      (auto simp: iptAcceptOffTailnet_def Let_def dest: ipt_line_accept unscoped_decides)
qed

text \<open>
  C28: setup on an iptables host converges. When firewall setup reports a change, and no deny
  decides the port once the unscoped copies of old versions are gone, the check that follows is
  ok: the port is admitted, no unscoped allow for it is left, and every other rule is still
  there, in its order. The premise about denies is needed, as the lemma after it shows.
\<close>

theorem firewall_setup_converges:
  assumes "iptables_host r chain ok port" and "ok st" and "valid_port port"
    and "firewallSetupStep r port st = (step, st')" and "st_Outcome step = OutcomeChanged"
    and "fst (iptablesDecide (iptWithoutLegacy (chain_text (chain st)) port) port) \<noteq> ruleBlocked"
  shows "st_Outcome (firewallCheckStep (readLinuxFirewall r port st') port) = OutcomeOK \<and>
    (\<forall>l \<in> set (chain st'). \<not> unscoped_line port l) \<and>
    (\<exists>new. chain st' = filter (\<lambda>l. \<not> is_legacy port l) (chain st) @ new \<and> set new \<subseteq> {scoped_text port})"
proof -
  let ?D = "\<lambda>l. ipt_line l port" and ?rest = "filter (\<lambda>l. \<not> is_legacy port l) (chain st)"
  have p: "list_all (plain_rule port) (chain st)" using assms(1,2) unfolding iptables_host_def by blast
  obtain scoped where ok: "ok st'" and un: "\<forall>l \<in> set (chain st). unscoped_line port l \<longrightarrow> is_legacy port l"
    and c: "chain st' = ?rest @ (if scoped then [] else [scoped_text port])"
    and sc: "scoped \<longrightarrow> fr_scoped (readLinuxFirewall r port st)"
    using changed_chain [OF assms(1-5)] by blast
  have lines: "\<forall>l \<in> set (chain st'). \<not> is_legacy port l \<and> \<not> unscoped_line port l"
    using un scoped_rule(2,3) [OF assms(3)] unfolding c by auto
  have "fst (first_decision ?D (chain st')) = rulePresent"
    using sc scoped_read_present [OF assms(1-3)] scoped_appended_present [OF assms(3) rest_not_blocked [OF p assms(6)]]
    by (simp add: c)
  then have "st_Outcome (firewallCheckStep (readLinuxFirewall r port st') port) = OutcomeOK"
    by (rule converged_chain [OF assms(1) ok _ lines])
  moreover have "\<forall>l \<in> set (chain st'). \<not> unscoped_line port l" using lines by blast
  moreover have "set (if scoped then [] else [scoped_text port]) \<subseteq> {scoped_text port}" by simp
  ultimately show ?thesis using c by blast
qed

text \<open>A machine that does what is relied on, with an xrdp that runs and a tailnet address.\<close>

definition service_answers :: "(string list \<times> string) list" where
  "service_answers = [([''tailscale'', ''ip'', ''-4''], ''100.64.0.1''), ([''systemctl'', ''is-enabled'', ''xrdp''], ''enabled''),
     ([''systemctl'', ''is-active'', ''xrdp''], ''active'')]"

definition ipt_machine :: "int \<Rightarrow> string list Runner" where
  "ipt_machine port =
     \<lparr>r_Run = (\<lambda>cmd ls.
        if cmd = backendIPT # iptablesAppend port then (None, ls @ [scoped_text port])
        else if cmd = backendIPT # iptablesDelete port \<and> legacy_text port \<in> set ls then (None, remove1 (legacy_text port) ls)
        else (Some ''exit status 1'', ls)),
      r_Output = (\<lambda>cmd ls.
        if cmd = [backendIPT, ''-S'', ''INPUT''] then (chain_text ls, None)
        else (case map_of service_answers cmd of
                Some out \<Rightarrow> (out, None)
              | None \<Rightarrow> ([], Some (CmdError ''exit status 1'' (Some ''iptables: No chain/target/match by that name.''))))),
      r_LookPath = (\<lambda>name _. name = backendIPT \<or> name = ''systemctl''), r_Elevated = (\<lambda>_. True),
      r_ReadFile = (\<lambda>_ _. Inl (FileMissing ''gone'')), r_WriteFile = (\<lambda>_ _ ls. (Some ''refused'', ls))\<rparr>"

definition ipt_no_act :: "string list \<Rightarrow> string list \<Rightarrow> (string \<times> cmd_error option) \<times> string list" where
  "ipt_no_act cmd ls = (([], Some (CmdError ''exit status 1'' None)), ls)"

lemma plain_scoped: "plain_rule 3389 (scoped_text 3389)" and plain_legacy: "plain_rule 3389 (legacy_text 3389)"
  by code_simp+

lemma ipt_machine_host: "iptables_host (ipt_machine 3389) (\<lambda>ls. ls) (list_all (plain_rule 3389)) 3389"
proof -
  have "chainMissing (CmdError ''exit status 1'' (Some ''iptables: No chain/target/match by that name.'')) ''No chain/target/match by that name''"
    by code_simp
  moreover have "list_all (plain_rule 3389) (remove1 x ls)" if "list_all (plain_rule 3389) ls" for x ls
    using that set_remove1_subset [of x ls] by (auto simp: list_all_iff)
  moreover have "iptablesDelete 3389 \<noteq> iptablesAppend 3389" by (simp add: iptablesDelete_def iptablesAppend_def)
  ultimately show ?thesis
    using plain_scoped
    by (auto simp: iptables_host_def ipt_machine_def backendIPT_def backendUFW_def tsInputChain_def service_answers_def split: if_splits)
qed

lemma valid_3389: "valid_port 3389" by (simp add: valid_port_def)

lemma ipt_machine_runs:
  "r_Run (ipt_machine p) (backendIPT # iptablesAppend p) ls = (None, ls @ [scoped_text p])"
  "legacy_text p \<in> set ls \<Longrightarrow> r_Run (ipt_machine p) (backendIPT # iptablesDelete p) ls = (None, remove1 (legacy_text p) ls)"
  by (simp_all add: ipt_machine_def iptablesDelete_def iptablesAppend_def)

lemma legacy_read:
  assumes "list_all (plain_rule 3389) (legacy_text 3389 # ls)" and "filter (is_legacy 3389) ls = []" "filter (unscoped_line 3389) ls = []"
    and "fst (first_decision (\<lambda>l. ipt_line l 3389) (filter (\<lambda>l. \<not> iptAcceptOffTailnet l) ls)) \<noteq> rulePresent"
    and "read = readLinuxFirewall (ipt_machine 3389) 3389 (legacy_text 3389 # ls)"
  shows "fr_state read = rulePresent" "fr_copies read = 1" "fr_foreign read = []" "\<not> fr_scoped read" "iptLegacy read" "\<not> inactiveUFWDecides read"
proof -
  have rd: "read = decided_read (chain_text (legacy_text 3389 # ls)) (chain_text (legacy_text 3389 # ls)) 3389"
    unfolding assms(5) by (rule host_read [OF ipt_machine_host assms(1)])
  note c = chain_read [OF assms(1) rd] and l = legacy_rule [OF valid_3389]
  have leg: "is_legacy 3389 (legacy_text 3389)" using written_words(4) [OF valid_3389] by (simp add: is_legacy_def)
  have f: "filter (unscoped_line 3389) (legacy_text 3389 # ls) = [legacy_text 3389]" using l(2) assms(3) by simp
  have nl: "l \<in> set ls \<Longrightarrow> l \<noteq> legacy_text 3389" for l using assms(3) l(2) by (auto simp: filter_empty_conv)
  have g: "filter (\<lambda>l. \<not> (l \<in> set [legacy_text 3389] \<or> iptAcceptOffTailnet l)) (legacy_text 3389 # ls) = filter (\<lambda>l. \<not> iptAcceptOffTailnet l) ls"
    using nl by (auto intro: filter_cong)
  show s: "fr_state read = rulePresent" "fr_copies read = 1" "fr_foreign read = []" using c(1,4,5) l(1) assms(2) leg f by simp_all
  show "\<not> fr_scoped read" using c(6) assms(4) unfolding f g by simp
  show "iptLegacy read" "\<not> inactiveUFWDecides read" using s c(2,3) by (simp_all add: iptLegacy_def inactiveUFWDecides_def)
qed

lemma legacy_setup:
  assumes "list_all (plain_rule 3389) (legacy_text 3389 # ls)" and "filter (is_legacy 3389) ls = []" "filter (unscoped_line 3389) ls = []"
    and "fst (first_decision (\<lambda>l. ipt_line l 3389) (filter (\<lambda>l. \<not> iptAcceptOffTailnet l) ls)) \<noteq> rulePresent"
  shows "\<exists>step. firewallSetupStep (ipt_machine 3389) 3389 (legacy_text 3389 # ls) = (step, ls @ [scoped_text 3389]) \<and>
    st_Outcome step = OutcomeChanged"
  using legacy_read [OF assms refl]
  by (simp add: firewallSetupStep_def iptLegacySetupStep_def ipt_machine_runs Let_def)

theorem firewall_setup_converges_witness:
  "st_Outcome (firewallCheckStep (readLinuxFirewall (ipt_machine 3389) 3389 [scoped_text 3389]) 3389) = OutcomeOK"
proof -
  obtain step where s: "firewallSetupStep (ipt_machine 3389) 3389 [legacy_text 3389] = (step, [scoped_text 3389])" "st_Outcome step = OutcomeChanged"
    using legacy_setup [of "[]"] plain_legacy by auto
  have "is_legacy 3389 (legacy_text 3389)" using written_words(4) [OF valid_3389] by (simp add: is_legacy_def)
  moreover have "list_all (plain_rule 3389) [legacy_text 3389]" using plain_legacy by simp
  ultimately have "fst (iptablesDecide (iptWithoutLegacy (chain_text [legacy_text 3389]) 3389) 3389) \<noteq> ruleBlocked"
    by (simp add: iptWithoutLegacy_def iptablesDecide_def split_chain empty_line)
  with firewall_setup_converges [OF ipt_machine_host _ valid_3389 s] plain_legacy show ?thesis by simp
qed

text \<open>
  A deny after the old copy: setup appends the scoped rule behind the deny, deletes the copy and
  reports a change, and the port that was open is closed.
\<close>

lemma drop_rule:
  "plain_rule 3389 ''-A INPUT -j DROP''" "ipt_line ''-A INPUT -j DROP'' 3389 = Some (ruleBlocked, ''-A INPUT -j DROP'')"
  "\<not> unscoped_line 3389 ''-A INPUT -j DROP''" "\<not> is_legacy 3389 ''-A INPUT -j DROP''" "\<not> iptAcceptOffTailnet ''-A INPUT -j DROP''"
  by code_simp+

lemma setup_can_close_the_port:
  "\<exists>step. firewallSetupStep (ipt_machine 3389) 3389 [legacy_text 3389, ''-A INPUT -j DROP''] =
     (step, [''-A INPUT -j DROP'', scoped_text 3389]) \<and> st_Outcome step = OutcomeChanged \<and>
   fr_state (readLinuxFirewall (ipt_machine 3389) 3389 [legacy_text 3389, ''-A INPUT -j DROP'']) = rulePresent \<and>
   fr_state (readLinuxFirewall (ipt_machine 3389) 3389 [''-A INPUT -j DROP'', scoped_text 3389]) = ruleBlocked"
proof -
  have a: "list_all (plain_rule 3389) (legacy_text 3389 # [''-A INPUT -j DROP''])" "list_all (plain_rule 3389) [''-A INPUT -j DROP'', scoped_text 3389]"
    using plain_legacy plain_scoped drop_rule by simp_all
  have b: "fr_state (readLinuxFirewall (ipt_machine 3389) 3389 (d # ls)) = ruleBlocked"
    if l: "list_all (plain_rule 3389) (d # ls)" and d: "ipt_line d 3389 = Some (ruleBlocked, x)" for d x ls
  proof -
    have "readLinuxFirewall (ipt_machine 3389) 3389 (d # ls) = decided_read (chain_text (d # ls)) (chain_text (d # ls)) 3389"
      by (rule host_read [OF ipt_machine_host l])
    from chain_read(1) [OF l this] d show ?thesis by simp
  qed
  have "fr_state (readLinuxFirewall (ipt_machine 3389) 3389 [''-A INPUT -j DROP'', scoped_text 3389]) = ruleBlocked"
    by (rule b [OF a(2) drop_rule(2)])
  then show ?thesis
    using legacy_setup [OF a(1)] legacy_read(1) [OF a(1) _ _ _ refl] by (simp add: drop_rule)
qed

theorem converged_host_untouched_witness:
  "all_ok (sr_Steps (fst (setupFor (\<lambda>s. s) ''linux'' host_defaults (ipt_machine 3389) ipt_no_act [scoped_text 3389])))"
proof -
  let ?r = "ipt_machine 3389" and ?ls = "[scoped_text 3389]"
  have fw: "st_Outcome (firewallCheckStep (readLinuxFirewall ?r 3389 ?ls) 3389) = OutcomeOK"
    using converged_chain [OF ipt_machine_host, of ?ls] plain_scoped scoped_rule [OF valid_3389] by simp
  have trims: "TrimSpace ''enabled'' = ''enabled''" "TrimSpace ''active'' = ''active''" "TrimSpace ''100.64.0.1'' = ''100.64.0.1''" by code_simp+
  have x: "st_Outcome (xrdpCheckStep (readXRDP ?r ?ls)) = OutcomeOK"
    by (simp add: readXRDP_def ipt_machine_def service_answers_def backendIPT_def trims xrdp_off_def xrdpCheckStep_def xrdpUnmet_def Let_def)
  have t: "st_Outcome (tailscaleStep (tailscaleIP ?r ?ls)) = OutcomeOK"
    by (simp add: tailscaleIP_def ipt_machine_def service_answers_def backendIPT_def trims tailscaleStep_def)
  have port: "linuxPort host_defaults = 3389" "\<not> hc_PortDeclared host_defaults"
    by (simp_all add: linuxPort_def host_defaults_def defaultRDPPort_def)
  have "all_ok (cr_Steps (checkFor (\<lambda>s. s) ''linux'' host_defaults ?r ?ls))"
    using fw x t port by (simp add: all_ok_def checkFor_def checkLinux_def deriveLegacy_steps port_check_def Let_def)
  from converged_host_untouched [OF this, of ipt_no_act "fst (setupFor (\<lambda>s. s) ''linux'' host_defaults ?r ipt_no_act ?ls)" "snd (setupFor (\<lambda>s. s) ''linux'' host_defaults ?r ipt_no_act ?ls)"]
  show ?thesis by simp
qed

end
