(* ===== verification/Windows_Laws.thy ===== *)
theory Windows_Laws
  imports Host_Entry
begin

text \<open>
  The Windows steps converge: after a run in which every step succeeded, a second run reads
  every step as ok and runs no command, and the check is ok. The machine is a parameter; what is
  relied on is \<open>windows_host\<close>, one clause per command.
\<close>

subsection \<open>The machine\<close>

definition keeps :: "'s Runner \<Rightarrow> string list set \<Rightarrow> 's \<Rightarrow> 's \<Rightarrow> bool" where
  "keeps r X st st' \<longleftrightarrow> (\<forall>cmd. cmd \<notin> X \<longrightarrow> r_Output r cmd st' = r_Output r cmd st)"

definition prefs_cmd :: "string list" where "prefs_cmd = [''tailscale'', ''debug'', ''prefs'']"
definition query_cmd :: "powerSetting \<Rightarrow> string list" where
  "query_cmd p = [''powercfg'', ''/query'', ''SCHEME_CURRENT'', pw_sub p, pw_setting p]"
definition deny_cmds :: "string list set" where "deny_cmds = {ps_command psReadRDPDeny, ps_command psReadRDPPort}"
definition rule_cmd :: "(string \<Rightarrow> string) \<Rightarrow> string \<Rightarrow> string list" where
  "rule_cmd Quote rule = ps_command (psReadFirewallRule (Quote rule))"
definition state_cmds :: "string list set" where "state_cmds = range (\<lambda>svc. [''sc'', ''query'', svc])"

definition profiles_private :: "'s Runner \<Rightarrow> 's \<Rightarrow> bool" where
  "profiles_private r st \<longleftrightarrow>
     (case outputPS r psReadNetworkProfile st of
        (out, None) \<Rightarrow> (case parseNetworkProfiles out of (count, private) \<Rightarrow> count \<noteq> 0 \<and> private = count)
      | _ \<Rightarrow> False)"

text \<open>
  What a command that succeeded has done, and which reads it leaves alone. Starting a service may
  start the ones it depends on. The rule script is taken to have made the rule when it exits
  with 0.
\<close>

definition windows_host ::
  "(string \<Rightarrow> string) \<Rightarrow> 's Runner \<Rightarrow> (string list \<Rightarrow> 's \<Rightarrow> (string \<times> cmd_error option) \<times> 's) \<Rightarrow> string \<Rightarrow> bool" where
  "windows_host Quote r act rule \<longleftrightarrow>
     (\<forall>st st'. r_Run r [''tailscale'', ''set'', ''--unattended''] st = (None, st') \<longrightarrow> is_unattended r st' \<and> keeps r {prefs_cmd} st st') \<and>
     (\<forall>svc st st'. r_Run r [''sc'', ''config'', svc, ''start=auto''] st = (None, st') \<longrightarrow>
        fst (serviceState r svc st') \<and> keeps r {[''sc'', ''qc'', svc]} st st') \<and>
     (\<forall>svc st st'. r_Run r [''net'', ''start'', svc] st = (None, st') \<longrightarrow>
        snd (serviceState r svc st') \<and> (\<forall>x. snd (serviceState r x st) \<longrightarrow> snd (serviceState r x st')) \<and> keeps r state_cmds st st') \<and>
     (\<forall>st st'. runPS r psNetworkProfilePrivate st = (None, st') \<longrightarrow>
        (\<forall>out. outputPS r psReadNetworkProfile st = (out, None) \<and> fst (parseNetworkProfiles out) \<noteq> 0 \<longrightarrow> profiles_private r st') \<and>
        keeps r {ps_command psReadNetworkProfile} st st') \<and>
     (\<forall>st st' out. act (ps_command psEnableRDP) st = ((out, None), st') \<longrightarrow>
        (\<forall>d. readRDPDeny r st = Inr d \<longrightarrow> readRDPDeny r st' = Inr (d\<lparr>rd_local := ''0''\<rparr>)) \<and>
        readPortPS r psReadRDPPort st' = Inr (port_printed out) \<and> keeps r deny_cmds st st') \<and>
     (\<forall>port st st'. runPS r (psRecreateRule (Quote rule) port) st = (None, st') \<longrightarrow>
        windowsFirewallRuleOK Quote r rule port st' = Inr (True, True) \<and> keeps r {rule_cmd Quote rule} st st') \<and>
     (\<forall>p \<in> set powerSettings. \<forall>st st'. r_Run r [''powercfg'', ''/change'', pw_change p, ''0''] st = (None, st') \<longrightarrow>
        acTimeoutZero r p st' \<and> keeps r {query_cmd p} st st')"

lemma keeps_refl [simp]: "keeps r X st st"
  by (simp add: keeps_def)

lemma keeps_trans: "keeps r X a b \<Longrightarrow> keeps r Y b c \<Longrightarrow> keeps r (X \<union> Y) a c"
  by (simp add: keeps_def)

lemma keeps_mono: "keeps r X a b \<Longrightarrow> X \<subseteq> Y \<Longrightarrow> keeps r Y a b"
  by (auto simp: keeps_def)

text \<open>Each reading depends on its own commands.\<close>

lemma readings_kept:
  "keeps r X st st' \<Longrightarrow> prefs_cmd \<notin> X \<Longrightarrow> is_unattended r st' = is_unattended r st"
  "keeps r X st st' \<Longrightarrow> [''sc'', ''qc'', svc] \<notin> X \<Longrightarrow> fst (serviceState r svc st') = fst (serviceState r svc st)"
  "keeps r X st st' \<Longrightarrow> [''sc'', ''query'', svc] \<notin> X \<Longrightarrow> snd (serviceState r svc st') = snd (serviceState r svc st)"
  "keeps r X st st' \<Longrightarrow> ps_command psReadNetworkProfile \<notin> X \<Longrightarrow> profiles_private r st' = profiles_private r st"
  "keeps r X st st' \<Longrightarrow> ps_command psReadRDPDeny \<notin> X \<Longrightarrow> readRDPDeny r st' = readRDPDeny r st"
  "keeps r X st st' \<Longrightarrow> ps_command psReadRDPPort \<notin> X \<Longrightarrow> readPortPS r psReadRDPPort st' = readPortPS r psReadRDPPort st"
  "keeps r X st st' \<Longrightarrow> rule_cmd Quote rule \<notin> X \<Longrightarrow> windowsFirewallRuleOK Quote r rule port st' = windowsFirewallRuleOK Quote r rule port st"
  "keeps r X st st' \<Longrightarrow> query_cmd p \<notin> X \<Longrightarrow> readACTimeoutZero r p st' = readACTimeoutZero r p st"
  by (simp_all add: keeps_def is_unattended_def prefs_cmd_def serviceState_def profiles_private_def outputPS_def readRDPDeny_def
      readPortPS_def windowsFirewallRuleOK_def rule_cmd_def readACTimeoutZero_def query_cmd_def)

lemma script_heads:
  "take 2 psReadNetworkProfile = ''Ge''" "take 2 psReadRDPDeny = ''$p''" "take 2 psReadRDPPort = ''$R''"
  "take 2 (psReadFirewallRule q) = ''$r''"
  by (simp_all add: psReadNetworkProfile_def psTailscaleProfiles_def psReadRDPDeny_def psReadRDPPort_def psReadFirewallRule_def)

lemma heads_differ: "take 2 a = x \<Longrightarrow> take 2 b = y \<Longrightarrow> x \<noteq> y \<Longrightarrow> a \<noteq> b"
  by auto

lemma scripts_distinct:
  "psReadNetworkProfile \<noteq> psReadRDPDeny" "psReadNetworkProfile \<noteq> psReadRDPPort" "psReadNetworkProfile \<noteq> psReadFirewallRule q"
  "psReadRDPDeny \<noteq> psReadRDPPort" "psReadRDPDeny \<noteq> psReadFirewallRule q" "psReadRDPPort \<noteq> psReadFirewallRule q"
  by (rule heads_differ, rule script_heads, rule script_heads, simp)+

lemmas cmds_apart = scripts_distinct scripts_distinct [symmetric] ps_command_def prefs_cmd_def query_cmd_def deny_cmds_def rule_cmd_def state_cmds_def

subsection \<open>One step\<close>

lemma unattended_done:
  assumes "windows_host Quote r act rule" and "unattendedStep r st = (s, st')" and "Succeeded (st_Outcome s)"
  shows "is_unattended r st'" "keeps r {prefs_cmd} st st'"
  using assms unfolding windows_host_def
  by (auto simp: unattendedStep_def Succeeded_def Let_def split: if_splits prod.splits option.splits)

lemma service_done:
  assumes "windows_host Quote r act rule" and "serviceStep r svc name m f st = (s, st')" and "Succeeded (st_Outcome s)"
  shows "serviceState r svc st' = (True, True)"
    "keeps r (insert [''sc'', ''qc'', svc] state_cmds) st st'"
    "\<And>x. snd (serviceState r x st) \<Longrightarrow> snd (serviceState r x st')"
proof -
  obtain a b where ab: "serviceState r svc st = (a, b)" by fastforce
  have cfg: "r_Run r [''sc'', ''config'', svc, ''start=auto''] u = (None, u') \<Longrightarrow> fst (serviceState r svc u') \<and> keeps r {[''sc'', ''qc'', svc]} u u'"
    and net: "r_Run r [''net'', ''start'', svc] u = (None, u') \<Longrightarrow> snd (serviceState r svc u') \<and>
      (\<forall>x. snd (serviceState r x u) \<longrightarrow> snd (serviceState r x u')) \<and> keeps r state_cmds u u'" for u u'
    using assms(1) unfolding windows_host_def by blast+
  obtain st1 where s1: "a \<and> st1 = st \<or> \<not> a \<and> r_Run r [''sc'', ''config'', svc, ''start=auto''] st = (None, st1)"
    and s2: "b \<and> st' = st1 \<or> \<not> b \<and> r_Run r [''net'', ''start'', svc] st1 = (None, st')"
    using assms(2,3) ab by (auto simp: serviceStep_def Succeeded_def split: if_splits prod.splits option.splits)
  have k1: "keeps r {[''sc'', ''qc'', svc]} st st1" and a1: "fst (serviceState r svc st1)" using s1 cfg ab by auto
  have q: "snd (serviceState r x st1) = snd (serviceState r x st)" for x using readings_kept(3) [OF k1] by simp
  have k2: "keeps r state_cmds st1 st'" and up: "\<And>x. snd (serviceState r x st1) \<Longrightarrow> snd (serviceState r x st')" using s2 net by auto
  have "fst (serviceState r svc st')" using readings_kept(2) [OF k2] a1 by (auto simp: state_cmds_def)
  moreover have "snd (serviceState r svc st')"
  proof (cases b)
    case True
    then show ?thesis using up q ab by (metis snd_conv)
  next
    case False
    then show ?thesis using s2 net by blast
  qed
  ultimately show "serviceState r svc st' = (True, True)" by (metis prod.collapse)
  show "keeps r (insert [''sc'', ''qc'', svc] state_cmds) st st'" using keeps_trans [OF k1 k2] by simp
  show "\<And>x. snd (serviceState r x st) \<Longrightarrow> snd (serviceState r x st')" using up q by simp
qed

lemma network_done:
  assumes "windows_host Quote r act rule" and "networkProfileStep r st = (s, st')" and "Succeeded (st_Outcome s)"
  shows "profiles_private r st'" "keeps r {ps_command psReadNetworkProfile} st st'"
proof -
  have h: "runPS r psNetworkProfilePrivate st = (None, st') \<Longrightarrow> outputPS r psReadNetworkProfile st = (out, None) \<Longrightarrow>
      fst (parseNetworkProfiles out) \<noteq> 0 \<Longrightarrow> profiles_private r st' \<and> keeps r {ps_command psReadNetworkProfile} st st'" for out
    using assms(1) unfolding windows_host_def by blast
  obtain out where o: "outputPS r psReadNetworkProfile st = (out, None)"
    using assms(2,3) by (auto simp: networkProfileStep_def Succeeded_def Let_def split: prod.splits option.splits)
  obtain c p where cp: "parseNetworkProfiles out = (c, p)" by fastforce
  have "c \<noteq> 0 \<and> (p = c \<and> st' = st \<or> runPS r psNetworkProfilePrivate st = (None, st'))"
    using assms(2,3) o cp by (auto simp: networkProfileStep_def Succeeded_def Let_def split: prod.splits option.splits if_splits)
  moreover have "c \<noteq> 0 \<Longrightarrow> p = c \<Longrightarrow> profiles_private r st" using o cp by (simp add: profiles_private_def)
  moreover have "c \<noteq> 0 \<Longrightarrow> fst (parseNetworkProfiles out) \<noteq> 0" using cp by simp
  ultimately show "profiles_private r st'" "keeps r {ps_command psReadNetworkProfile} st st'"
    using h [OF _ o] by auto
qed

definition rdp_on :: "'s Runner \<Rightarrow> int \<Rightarrow> 's \<Rightarrow> bool" where
  "rdp_on r port st \<longleftrightarrow> (\<exists>d. readRDPDeny r st = Inr d \<and> \<not> fst (effective d)) \<and> readPortPS r psReadRDPPort st = Inr port"

lemma rdp_done:
  assumes "windows_host Quote r act rule" and "rdpSetupStep r act st = ((s, port), st')" and "Succeeded (st_Outcome s)"
  shows "rdp_on r port st'" "keeps r deny_cmds st st'"
proof -
  obtain d where d: "readRDPDeny r st = Inr d"
    using assms(2,3) by (auto simp: rdpSetupStep_def Succeeded_def Let_def split: sum.splits)
  obtain a b where e: "effective d = (a, b)" by fastforce
  have "\<not> (a \<and> b)" using assms(2,3) d e by (auto simp: rdpSetupStep_def Succeeded_def Let_def)
  show "rdp_on r port st'" "keeps r deny_cmds st st'"
  proof (atomize (full), cases a)
    case False
    then have "readPortPS r psReadRDPPort st = Inr port \<and> st' = st"
      using assms(2,3) d e
      by (auto simp: rdpSetupStep_def Succeeded_def actRead_def portOrDefault_def Let_def split: if_splits sum.splits)
    then show "rdp_on r port st' \<and> keeps r deny_cmds st st'" using d e False by (simp add: rdp_on_def)
  next
    case True
    with \<open>\<not> (a \<and> b)\<close> have "\<not> b" by simp
    obtain out where o: "act (ps_command psEnableRDP) st = ((out, None), st')" "port = port_printed out"
      using assms(2,3) d e True \<open>\<not> b\<close>
      by (auto simp: rdpSetupStep_def Succeeded_def actStep_def actPortPS_def Let_def split: if_splits prod.splits option.splits)
    have "rd_policy d = []" using e \<open>\<not> b\<close> by (auto simp: effective_def split: if_splits)
    then have "\<not> fst (effective (d\<lparr>rd_local := ''0''\<rparr>))" by (simp add: effective_def)
    moreover have "readRDPDeny r st' = Inr (d\<lparr>rd_local := ''0''\<rparr>) \<and> readPortPS r psReadRDPPort st' = Inr (port_printed out) \<and> keeps r deny_cmds st st'"
      using assms(1) o(1) d unfolding windows_host_def by blast
    ultimately show "rdp_on r port st' \<and> keeps r deny_cmds st st'" using o(2) unfolding rdp_on_def by blast
  qed
qed

lemma firewall_done:
  assumes "windows_host Quote r act name" and "windowsFirewallSetupStep Quote r name port st = (s, st')" and "Succeeded (st_Outcome s)"
  shows "sanitizeFirewallRule name = Inr name" "\<exists>f. windowsFirewallRuleOK Quote r name port st' = Inr (True, f)"
    "keeps r {rule_cmd Quote name} st st'"
proof -
  show n: "sanitizeFirewallRule name = Inr name"
    using assms(2,3) by (auto simp: windowsFirewallSetupStep_def sanitizeFirewallRule_def Succeeded_def Let_def split: if_splits)
  have "(\<exists>f. windowsFirewallRuleOK Quote r name port st = Inr (True, f)) \<and> st' = st \<or> runPS r (psRecreateRule (Quote name) port) st = (None, st')"
    using assms(2,3) n by (auto simp: windowsFirewallSetupStep_def actStep_def Succeeded_def Let_def split: if_splits sum.splits prod.splits)
  then show "\<exists>f. windowsFirewallRuleOK Quote r name port st' = Inr (True, f)" "keeps r {rule_cmd Quote name} st st'"
    using assms(1) unfolding windows_host_def by auto
qed

lemma power_loop_done:
  assumes "windows_host Quote r act rule" and "power_loop r ps ch st = (Inr b, st')"
    and "set ps \<subseteq> set powerSettings" and "distinct (map query_cmd ps)"
  shows "(\<forall>p \<in> set ps. acTimeoutZero r p st') \<and> keeps r (query_cmd ` set ps) st st'"
  using assms(2-)
proof (induction ps arbitrary: ch st)
  case (Cons p ps)
  obtain st1 ch1 where l: "power_loop r ps ch1 st1 = (Inr b, st')" and z: "acTimeoutZero r p st1" and k: "keeps r {query_cmd p} st st1"
    using Cons.prems assms(1) unfolding windows_host_def
    by (fastforce split: if_splits prod.splits option.splits)
  have ih: "\<forall>q \<in> set ps. acTimeoutZero r q st'" "keeps r (query_cmd ` set ps) st1 st'" using Cons.IH [OF l] Cons.prems by auto
  have "acTimeoutZero r p st'" using readings_kept(8) [OF ih(2), of p] z Cons.prems(3) by (auto simp: acTimeoutZero_def)
  then show ?case using ih keeps_trans [OF k ih(2)] by simp
qed simp

lemma power_cmds: "distinct (map query_cmd powerSettings)"
  by (simp add: powerSettings_def query_cmd_def)

lemma power_done:
  assumes "windows_host Quote r act rule" and "powerStep r st = (s, st')" and "Succeeded (st_Outcome s)"
  shows "\<forall>p \<in> set powerSettings. acTimeoutZero r p st'" "keeps r (query_cmd ` set powerSettings) st st'"
proof -
  obtain b where "power_loop r powerSettings False st = (Inr b, st')"
    using assms(2,3) by (auto simp: powerStep_def Succeeded_def Let_def split: prod.splits sum.splits bool.splits)
  from power_loop_done [OF assms(1) this order_refl power_cmds]
  show "\<forall>p \<in> set powerSettings. acTimeoutZero r p st'" "keeps r (query_cmd ` set powerSettings) st st'" by auto
qed

subsection \<open>The whole run\<close>

definition win_converged :: "(string \<Rightarrow> string) \<Rightarrow> HostConfig \<Rightarrow> 's Runner \<Rightarrow> int \<Rightarrow> 's \<Rightarrow> bool" where
  "win_converged Quote cfg r port st \<longleftrightarrow>
     is_unattended r st \<and> (\<forall>svc \<in> {''Tailscale'', ''SSDPSRV'', ''upnphost''}. serviceState r svc st = (True, True)) \<and>
     profiles_private r st \<and> rdp_on r port st \<and> (hc_PortDeclared cfg \<longrightarrow> port = hc_Port cfg) \<and>
     sanitizeFirewallRule (hc_FirewallRule cfg) = Inr (hc_FirewallRule cfg) \<and>
     (\<exists>f. windowsFirewallRuleOK Quote r (hc_FirewallRule cfg) port st = Inr (True, f)) \<and>
     (\<not> hc_NoSleep cfg \<longrightarrow> (\<forall>p \<in> set powerSettings. acTimeoutZero r p st))"

lemma declared_succeeded:
  "Succeeded (st_Outcome (declaredRDPPort s cfg port)) \<Longrightarrow> Succeeded (st_Outcome s) \<and> (hc_PortDeclared cfg \<longrightarrow> port = hc_Port cfg)"
  by (auto simp: declaredRDPPort_def Succeeded_def split: if_splits)

lemma rdp_on_kept: "keeps r X st st' \<Longrightarrow> deny_cmds \<inter> X = {} \<Longrightarrow> rdp_on r port st' = rdp_on r port st"
  using readings_kept(5,6) [of r X st st'] by (auto simp: rdp_on_def deny_cmds_def)

lemma setup_reaches:
  assumes "windows_host Quote r act (hc_FirewallRule cfg)" and "setupWindows Quote cfg r act st = (res, st')"
    and "\<forall>s \<in> set (sr_Steps res). Succeeded (st_Outcome s)"
  shows "win_converged Quote cfg r (sr_RDPPort res) st'"
proof -
  let ?rule = "hc_FirewallRule cfg"
  obtain s1 st1 where a1: "unattendedStep r st = (s1, st1)" by fastforce
  obtain s2 st2 where a2: "serviceStep r ''Tailscale'' ''Tailscale service''
      (''Tailscale service not found '' @ em_dash @ '' is Tailscale installed?'') ''install Tailscale'' st1 = (s2, st2)" by fastforce
  obtain s3 st3 where a3: "serviceStep r ''SSDPSRV'' ''SSDP Discovery'' ''Failed to start SSDPSRV'' ''start the SSDPSRV service'' st2 = (s3, st3)" by fastforce
  obtain s4 st4 where a4: "serviceStep r ''upnphost'' ''UPnP Device Host'' ''Failed to start upnphost'' ''start the upnphost service'' st3 = (s4, st4)" by fastforce
  obtain s5 st5 where a5: "networkProfileStep r st4 = (s5, st5)" by fastforce
  obtain s6 port st6 where a6: "rdpSetupStep r act st5 = ((s6, port), st6)" by (metis prod.collapse)
  obtain s7 st7 where a7: "windowsFirewallSetupStep Quote r ?rule port st6 = (s7, st7)" by fastforce
  obtain s8 where a8: "(if hc_NoSleep cfg then ([], st7) else (case powerStep r st7 of (s, st') \<Rightarrow> ([s], st'))) = (s8, st')"
    and res: "sr_RDPPort res = port" "sr_Steps res = [s1, s2, s3, s4, s5, declaredRDPPort s6 cfg port, s7] @ s8"
    using assms(2) a1 a2 a3 a4 a5 a6 a7 by (auto simp: setupWindows_def split: if_splits prod.splits)
  have ok: "Succeeded (st_Outcome s1)" "Succeeded (st_Outcome s2)" "Succeeded (st_Outcome s3)" "Succeeded (st_Outcome s4)"
    "Succeeded (st_Outcome s5)" "Succeeded (st_Outcome s6)" "Succeeded (st_Outcome s7)"
    and decl: "hc_PortDeclared cfg \<longrightarrow> port = hc_Port cfg"
    using assms(3) res(2) declared_succeeded by auto
  note d1 = unattended_done [OF assms(1) a1 ok(1)] and d2 = service_done [OF assms(1) a2 ok(2)]
    and d3 = service_done [OF assms(1) a3 ok(3)] and d4 = service_done [OF assms(1) a4 ok(4)]
    and d5 = network_done [OF assms(1) a5 ok(5)] and d6 = rdp_done [OF assms(1) a6 ok(6)]
    and d7 = firewall_done [OF assms(1) a7 ok(7)]
  have d8: "keeps r (query_cmd ` set powerSettings) st7 st'" "\<not> hc_NoSleep cfg \<longrightarrow> (\<forall>p \<in> set powerSettings. acTimeoutZero r p st')"
    using a8 assms(3) res(2) power_done [OF assms(1)] by (auto split: if_splits prod.splits)
  note k67 = keeps_trans [OF d7(3) d8(1)]
  note k57 = keeps_trans [OF d6(2) k67]
  note k47 = keeps_trans [OF d5(2) k57]
  note k37 = keeps_trans [OF d4(2) k47]
  note k27 = keeps_trans [OF d3(2) k37]
  note k17 = keeps_trans [OF d2(2) k27]
  have svc: "serviceState r x st4 = (True, True)" if "x \<in> {''Tailscale'', ''SSDPSRV'', ''upnphost''}" for x
  proof -
    have qc: "fst (serviceState r x st4) = fst (serviceState r x st3)" if "x \<noteq> ''upnphost''"
      using readings_kept(2) [OF d4(2), of x] that by (auto simp: state_cmds_def)
    have qc': "fst (serviceState r x st3) = fst (serviceState r x st2)" if "x \<noteq> ''SSDPSRV''"
      using readings_kept(2) [OF d3(2), of x] that by (auto simp: state_cmds_def)
    show ?thesis using that d2(1) d3(1,3) d4(1,3) qc qc' by (auto simp: prod_eq_iff)
  qed
  have "is_unattended r st'" using readings_kept(1) [OF k17] d1(1) by (auto simp: cmds_apart)
  moreover have "serviceState r x st' = serviceState r x st4" for x
    using readings_kept(2,3) [OF k47, of x] by (auto simp: cmds_apart prod_eq_iff)
  moreover have "profiles_private r st'" using readings_kept(4) [OF k57] d5(1) by (auto simp: cmds_apart)
  moreover have "rdp_on r port st'" using rdp_on_kept [OF k67] d6(1) by (auto simp: cmds_apart)
  moreover have "windowsFirewallRuleOK Quote r ?rule port st' = windowsFirewallRuleOK Quote r ?rule port st7"
    using readings_kept(7) [OF d8(1)] by (auto simp: cmds_apart)
  ultimately show ?thesis using svc decl d7(1,2) d8(2) by (simp add: win_converged_def res(1))
qed

lemma power_loop_converged:
  "\<forall>p \<in> set ps. acTimeoutZero r p st \<Longrightarrow> power_loop r ps ch st = (Inr ch, st)"
  "\<forall>p \<in> set ps. acTimeoutZero r p st \<Longrightarrow> power_drift r ps st = Inr []"
  by (induction ps) (auto simp: acTimeoutZero_def)

text \<open>A run whose first step leaves a converged host.\<close>

lemma setup_after_first:
  assumes "win_converged Quote cfg r port st" and "unattendedStep r st0 = (s1, st)"
  shows "\<exists>res ss. setupWindows Quote cfg r act st0 = (res, st) \<and> sr_RDPPort res = port \<and> sr_Steps res = s1 # ss \<and>
    (\<forall>s \<in> set ss. st_Outcome s = OutcomeOK)"
proof -
  note c = assms(1) [unfolded win_converged_def rdp_on_def]
  obtain d where d: "readRDPDeny r st = Inr d" "\<not> fst (effective d)" and p: "readPortPS r psReadRDPPort st = Inr port" using c by blast
  have v: "\<exists>s. serviceStep r svc name m f st = (s, st) \<and> st_Outcome s = OutcomeOK" if "svc \<in> {''Tailscale'', ''SSDPSRV'', ''upnphost''}" for svc name m f
    using c that by (auto simp: serviceStep_def)
  obtain s2 where s2: "serviceStep r ''Tailscale'' ''Tailscale service''
      (''Tailscale service not found '' @ em_dash @ '' is Tailscale installed?'') ''install Tailscale'' st = (s2, st)" "st_Outcome s2 = OutcomeOK"
    using v by blast
  obtain s3 where s3: "serviceStep r ''SSDPSRV'' ''SSDP Discovery'' ''Failed to start SSDPSRV'' ''start the SSDPSRV service'' st = (s3, st)"
    "st_Outcome s3 = OutcomeOK" using v by blast
  obtain s4 where s4: "serviceStep r ''upnphost'' ''UPnP Device Host'' ''Failed to start upnphost'' ''start the upnphost service'' st = (s4, st)"
    "st_Outcome s4 = OutcomeOK" using v by blast
  obtain s5 where s5: "networkProfileStep r st = (s5, st)" "st_Outcome s5 = OutcomeOK"
    using c by (auto simp: networkProfileStep_def profiles_private_def Let_def split: prod.splits option.splits)
  obtain byPolicy where e: "effective d = (False, byPolicy)" using d(2) by (cases "effective d") auto
  obtain s6 where s6: "rdpSetupStep r act st = ((s6, port), st)" "st_Outcome s6 = OutcomeOK"
    using d(1) p e by (simp add: rdpSetupStep_def actRead_def portOrDefault_def)
  obtain s7 where s7: "windowsFirewallSetupStep Quote r (hc_FirewallRule cfg) port st = (s7, st)" "st_Outcome s7 = OutcomeOK"
    using c by (auto simp: windowsFirewallSetupStep_def)
  have dc: "declaredRDPPort s6 cfg port = s6" using c by (auto simp: declaredRDPPort_def)
  obtain s8 where s8: "(if hc_NoSleep cfg then ([], st) else (case powerStep r st of (s, st') \<Rightarrow> ([s], st'))) = (s8, st)"
    "\<forall>s \<in> set s8. st_Outcome s = OutcomeOK"
    using c power_loop_converged(1) [of powerSettings r st False] by (cases "hc_NoSleep cfg") (auto simp: powerStep_def)
  have "setupWindows Quote cfg r act st0 =
      (\<lparr>sr_RDPPort = port, sr_ControlURL = [], sr_Steps = [s1, s2, s3, s4, s5, s6, s7] @ s8\<rparr>, st)"
    unfolding setupWindows_def assms(2) Let_def prod.case s2(1) s3(1) s4(1) s5(1) s6(1) s7(1) s8(1) dc by (rule refl)
  then show ?thesis using s2(2) s3(2) s4(2) s5(2) s6(2) s7(2) s8(2) by auto
qed

lemma setup_converged:
  assumes "win_converged Quote cfg r port st"
  shows "\<exists>res. setupWindows Quote cfg r act st = (res, st) \<and> sr_RDPPort res = port \<and> (\<forall>s \<in> set (sr_Steps res). st_Outcome s = OutcomeOK)"
proof -
  obtain s1 where s1: "unattendedStep r st = (s1, st)" "st_Outcome s1 = OutcomeOK"
    using assms by (simp add: win_converged_def unattendedStep_def)
  from setup_after_first [OF assms s1(1), of act] s1(2) show ?thesis by auto
qed

lemma check_converged:
  assumes "win_converged Quote cfg r port st"
  shows "\<exists>steps. cr_Steps (checkWindows Quote cfg r st res) = cr_Steps res @ steps \<and> (\<forall>s \<in> set steps. st_Outcome s = OutcomeOK)"
proof -
  note c = assms [unfolded win_converged_def rdp_on_def]
  obtain d where d: "readRDPDeny r st = Inr d" "\<not> fst (effective d)" and p: "readPortPS r psReadRDPPort st = Inr port" using c by blast
  obtain byPolicy where e: "effective d = (False, byPolicy)" using d(2) by (cases "effective d") auto
  have rd: "\<exists>s. rdpCheckStep r port st = (s, True) \<and> st_Outcome s = OutcomeOK"
    using d(1) e by (simp add: rdpCheckStep_def)
  have fw: "\<exists>s. windowsFirewallCheckStep Quote r (hc_FirewallRule cfg) port st = (s, True) \<and> st_Outcome s = OutcomeOK"
    using c by (auto simp: windowsFirewallCheckStep_def firewallReadStep_def Let_def)
  have pw: "st_Outcome (powerCheckStep r st) = OutcomeOK" if "\<not> hc_NoSleep cfg"
    using c that power_loop_converged(2) [of powerSettings r st] by (simp add: powerCheckStep_def)
  have dc: "declaredRDPPort s cfg port = s" for s using c by (auto simp: declaredRDPPort_def)
  show ?thesis using rd fw pw p by (auto simp: checkWindows_def dc)
qed


text \<open>A machine that is ready but for the unattended mode.\<close>

definition win_answers :: "(string list \<times> string) list" where
  "win_answers =
     [(ps_command psReadNetworkProfile, ''category=Private''),
      (ps_command psReadRDPDeny, ''policy='' @ [CHR 10] @ ''local=0''), (ps_command psReadRDPPort, ''3389''),
      (ps_command (psReadFirewallRule ''TSB''), join [CHR 10] [''count=1'', ''enabled=True'', ''action=Allow'', ''direction=Inbound'',
         ''profile=Any'', ''remote=Any'', ''protocol=TCP'', ''port=3389''])]"

definition win_machine :: "bool Runner" where
  "win_machine =
     \<lparr>r_Run = (\<lambda>cmd st. if cmd = [''tailscale'', ''set'', ''--unattended''] then (None, True) else (Some ''exit status 1'', st)),
      r_Output = (\<lambda>cmd st.
        if cmd = [''tailscale'', ''debug'', ''prefs''] then (json_text (JObj [(''ForceDaemon'', JBool st)]), None)
        else if take 2 cmd = [''sc'', ''qc''] then (''AUTO_START'', None)
        else if take 2 cmd = [''sc'', ''query''] then (''RUNNING'', None)
        else if take 2 cmd = [''powercfg'', ''/query''] then (''0x00000000 0x00000000'', None)
        else (case map_of win_answers cmd of Some out \<Rightarrow> (out, None) | None \<Rightarrow> ([], Some (CmdError ''exit status 1'' None)))),
      r_LookPath = (\<lambda>_ _. True), r_Elevated = (\<lambda>_. True),
      r_ReadFile = (\<lambda>_ _. Inl (FileMissing ''gone'')), r_WriteFile = (\<lambda>_ _ st. (Some ''refused'', st))\<rparr>"

definition win_no_act :: "string list \<Rightarrow> bool \<Rightarrow> (string \<times> cmd_error option) \<times> bool" where
  "win_no_act cmd st = (([], Some (CmdError ''exit status 1'' None)), st)"

definition win_cfg :: HostConfig where
  "win_cfg = host_defaults\<lparr>hc_FirewallRule := ''TSB''\<rparr>"

lemma win_machine_unattended: "is_unattended win_machine st = st"
proof -
  have "json_Parse (json_text (JObj [(''ForceDaemon'', JBool st)]) @ []) = Some (JObj [(''ForceDaemon'', JBool st)])"
    by (rule json_Parse_text) (auto simp: ascii_def maxNestingDepth_def)
  then show ?thesis
    by (simp add: is_unattended_def win_machine_def prefs_ForceDaemon_def json_field_def as_bool_def)
qed

lemma win_machine_host: "windows_host (\<lambda>s. s) win_machine win_no_act ''TSB''"
proof -
  have "keeps win_machine {prefs_cmd} st st'" for st st'
    by (auto simp: keeps_def win_machine_def prefs_cmd_def)
  then show ?thesis
    using win_machine_unattended
    by (auto simp: windows_host_def win_no_act_def win_machine_def runPS_def ps_command_def)
qed

lemma win_reads:
  "map_of win_answers (ps_command psReadNetworkProfile) = Some ''category=Private''"
  "map_of win_answers (ps_command psReadRDPDeny) = Some (''policy='' @ [CHR 10] @ ''local=0'')"
  "map_of win_answers (ps_command psReadRDPPort) = Some ''3389''"
  "map_of win_answers (ps_command (psReadFirewallRule ''TSB'')) = Some (join [CHR 10] [''count=1'', ''enabled=True'', ''action=Allow'',
     ''direction=Inbound'', ''profile=Any'', ''remote=Any'', ''protocol=TCP'', ''port=3389''])"
  by (simp_all add: win_answers_def ps_command_def scripts_distinct scripts_distinct [symmetric])

lemma win_outputs: "r_Output win_machine (ps_command x) st = (case map_of win_answers (ps_command x) of Some out \<Rightarrow> (out, None) | None \<Rightarrow> ([], Some (CmdError ''exit status 1'' None)))"
  by (simp add: win_machine_def ps_command_def)

lemma win_machine_ready: "win_converged (\<lambda>s. s) win_cfg win_machine 3389 True"
proof -
  have "parseNetworkProfiles ''category=Private'' = (1, 1)" by code_simp
  then have n: "profiles_private win_machine True" by (simp add: profiles_private_def outputPS_def win_outputs win_reads)
  have "parseKeyValues (''policy='' @ [CHR 10] @ ''local=0'') = [(''policy'', []), (''local'', ''0'')]" by code_simp
  then have d: "readRDPDeny win_machine True = Inr \<lparr>rd_policy = [], rd_local = ''0''\<rparr>"
    by (simp add: readRDPDeny_def outputPS_def win_outputs win_reads key_read_def denyPolicy_def denyLocal_def)
  have "port_printed ''3389'' = 3389" by code_simp
  then have p: "readPortPS win_machine psReadRDPPort True = Inr 3389" by (simp add: readPortPS_def outputPS_def win_outputs win_reads)
  have "parseKeyValues (join [CHR 10] [''count=1'', ''enabled=True'', ''action=Allow'', ''direction=Inbound'', ''profile=Any'', ''remote=Any'',
      ''protocol=TCP'', ''port=3389'']) = [(''count'', ''1''), (''enabled'', ''True''), (''action'', ''Allow''), (''direction'', ''Inbound''),
      (''profile'', ''Any''), (''remote'', ''Any''), (''protocol'', ''TCP''), (''port'', ''3389'')]" by code_simp
  moreover have "Itoa 3389 = ''3389''" by code_simp
  ultimately have f: "windowsFirewallRuleOK (\<lambda>s. s) win_machine ''TSB'' 3389 True = Inr (True, True)"
    by (simp add: windowsFirewallRuleOK_def outputPS_def win_outputs win_reads key_read_def fwCount_def fwEnabled_def fwAction_def
        fwDirection_def fwProtocol_def fwProfile_def fwRemote_def fwPort_def keyPort_def)
  have "hex_values ''0x00000000 0x00000000'' = [''00000000'', ''00000000'']" by code_simp
  then have w: "acTimeoutZero win_machine x True" for x
    by (simp add: acTimeoutZero_def readACTimeoutZero_def win_machine_def hex_val_def)
  have v: "serviceState win_machine x True = (True, True)" for x by (simp add: serviceState_def win_machine_def)
  have "sanitizeFirewallRule ''TSB'' = Inr ''TSB''" by code_simp
  then show ?thesis
    using n d p f w v win_machine_unattended [of True]
    by (auto simp: win_converged_def rdp_on_def effective_def win_cfg_def host_defaults_def)
qed


end
