(* ===== verification/Spec2Isabelle.thy ===== *)
theory Spec2Isabelle
  imports Init_Laws Discover Health Host_Cmd Host_Init Run_Bridge Browser_Cmd Logging State_Dir_ACL State_Dir_Windows Control_Proxy Command_Flags Linux_Laws Windows_Laws
    Config_Laws Transitions Socks5
begin

text \<open>
  ts-bridge is a Go program that makes one port, or a set of routes, of a machine in a tailnet
  reachable on a local port, and that prepares and serves the machine at the other end. This
  development models it in HOL, file by file, and proves what makes it correct. Sources are named
  by their path under \<open>src/\<close>.

  \<^bold>\<open>The program.\<close> A client runs \<open>connect\<close>: configuration is merged from flags, environment, \<open>.env\<close>
  and YAML, a profile may add a control plane and a managed key, and the bridge starts a tailnet
  node, listens locally and copies bytes between accepted connections and dialled ones, in TCP or
  SOCKS5 mode, optionally reaching the control plane through an SSH child. \<open>init\<close>, \<open>import\<close>, \<open>auth\<close>
  and \<open>discover\<close> write the files that \<open>connect\<close> reads; \<open>status\<close> asks the health endpoint of a running
  bridge; \<open>browser\<close> opens a browser whose traffic to the routes goes through it. A host runs
  \<open>host setup\<close> and \<open>host check\<close>, lists of steps over the operating system, and \<open>host serve\<close>, which
  joins the tailnet and publishes declared services.

  \<^bold>\<open>How Go is modelled.\<close> A function is a HOL function. Errors are values: \<open>'e option\<close> for an \<open>error\<close>,
  \<open>'e + 'a\<close> for a value and an error (\<open>Prelude\<close>). State is passed explicitly. Files live on a
  \<open>disk\<close> (\<open>Secret_File\<close>) whose every system call may fail, so a theorem about a disk holds for
  every pattern of failures. Concurrent goroutines are step relations with a step for each access
  to shared state (\<open>Telemetry\<close>, \<open>Serve_Health\<close>) or sequences of events (\<open>Proxy\<close>, \<open>Socks5\<close>). Strings
  are byte strings; \<open>int\<close> is unbounded except where the code can overflow, where \<open>wrap64\<close> is
  written out. Commands of the operating system and libraries that are not part of the
  repository (YAML, tsnet, the HTTP transport, \<open>tailscale-client-go\<close>) and gzip are
  arguments, with what the code relies on as hypotheses.

  \<^bold>\<open>Theories, bottom up.\<close>
  \<^item> \<open>Prelude\<close>, \<open>Go_Strings\<close>, \<open>Go_Strconv\<close>, \<open>Go_Path\<close>, \<open>Go_Net\<close>, \<open>Go_Time\<close>, \<open>Go_Url\<close>, \<open>Go_Json\<close>: the part of
    Go's library that the program uses, with the lemmas the components share (splitting and
    joining, decimal numbers, host and port, URL parsing and printing, JSON read back from its
    encoding).
  \<^item> \<open>Telemetry\<close> (\<open>internal/telemetry\<close>): the counters; the compare-and-swap claim of a connection slot
    never exceeds the limit and alone refines the atomic claim.
  \<^item> \<open>Reconnect\<close>, \<open>Proxy\<close>, \<open>Socks5\<close> (\<open>internal/proxy\<close>): the retrying dialer returns the first decisive
    outcome within its budget; the accept loops keep the limit and exact counters; bytes are
    accounted; a SOCKS5 client reaches allowed routes only.
  \<^item> \<open>Control_Url\<close>, \<open>Descriptor\<close>, \<open>Secret_File\<close>, \<open>Credential\<close>, \<open>Profiles\<close>, \<open>Transitions\<close> (\<open>internal/controlurl\<close>,
    \<open>internal/profile\<close>, \<open>internal/secretfile\<close>, \<open>internal/credential\<close>): atomic replacement of secret
    files, the two stores, and binding and unbinding of credentials. Every history of commands,
    with any failures, keeps profiles that share a key on one control plane; a bind is all or
    nothing; an unbind never leaves a dangling reference.
  \<^item> \<open>Instance\<close>, \<open>Bridge_Config\<close>, \<open>Config_Laws\<close>, \<open>Env_File\<close> (\<open>internal/config\<close>): the layers and every
    validation; \<open>Merge\<close> is sound, respects precedence and listens on loopback by default.
  \<^item> \<open>Connect\<close>, \<open>Command_Flags\<close>, \<open>Auth_Cmd\<close>, \<open>Init_Cmd\<close>, \<open>Init_Laws\<close>, \<open>Env_Update\<close>, \<open>Discover\<close> (\<open>cmd/cli\<close>,
    \<open>internal/discover\<close>): the client commands. Each flag of \<open>connect\<close> reaches its own field; what \<open>init\<close> and \<open>auth set\<close> write is what \<open>connect\<close> uses; a managed key is
    sent to its own control plane; \<open>discover\<close> sends each API key to the control plane it is for
    and keeps the variables of a \<open>.env\<close> file.
  \<^item> \<open>Bootstrap\<close>, \<open>Control_Proxy\<close> (\<open>internal/bootstrapssh\<close>): the SSH child: its arguments cannot be injected
    into, it sees no secrets, and an error never leaves it running; the proxy over its tunnel
    serves the control plane only.
  \<^item> \<open>Health\<close>, \<open>Signals\<close>, \<open>Run_Bridge\<close> (\<open>internal/health\<close>, \<open>cmd/cli/status.go\<close>, \<open>signal.go\<close>, \<open>run.go\<close>): the
    life of a bridge: its resources are released in order on every path; \<open>status\<close> shows the
    counters of the bridge; \<open>ERROR\<close> lines are read back whole.
  \<^item> \<open>Host_Step\<close>, \<open>Host_File\<close>, \<open>Host_Config\<close>, \<open>Xrdp_Port\<close>, \<open>Firewall_Rules\<close>, \<open>Linux_Host\<close>, \<open>Linux_Laws\<close>,
    \<open>Windows_Host\<close>, \<open>Windows_Laws\<close>, \<open>Host_Entry\<close>, \<open>State_Dir\<close>, \<open>State_Dir_ACL\<close>, \<open>State_Dir_Windows\<close>
    (\<open>internal/host\<close>): the host file and its validation, the steps of both systems and the checks of a state directory. A converged host
    is left alone; a successful setup is followed by a check that is ok; an accepted state
    directory cannot be replaced by anyone but root, and on Windows not be read by anyone but
    SYSTEM and Administrators.
  \<^item> \<open>Serve_Health\<close>, \<open>Serve_Node\<close>, \<open>Host_Cmd\<close>, \<open>Host_Init\<close> (\<open>internal/serve\<close>, \<open>cmd/cli/host*.go\<close>): readiness is true
    after every interleaving of its reporters, the supervisor has one tunnel, \<open>host serve\<close>
    publishes exactly the declared services, \<open>host check\<close> sees what it publishes, and
    \<open>host init\<close> leaves a file that loads.
  \<^item> \<open>Logging\<close> (\<open>internal/logging\<close>): the rotator keeps one file per day with exactly the bytes it took,
    whatever fails; a clean-up keeps ten compressed logs and a week; a session leaves its records
    compressed.
  \<^item> \<open>Browser\<close>, \<open>Browser_Cmd\<close> (\<open>internal/browser\<close>, \<open>cmd/cli/browser*.go\<close>): a browser is opened on an allowed
    route only, its proxy script agrees with the allow-list of the SOCKS5 listener, and its key is
    one given for it.

  \<^bold>\<open>Interfaces.\<close> Where components meet through a contract, the contract is a locale and the model's own
  definitions are interpretations of it: \<open>slot_counter\<close> (a claim and its release, \<open>Telemetry\<close>),
  \<open>byte_counter\<close> (\<open>Proxy\<close>, for both directions), \<open>target_resolver\<close> (\<open>Socks5\<close>, direct and allow-list),
  \<open>flag_field\<close> (\<open>Command_Flags\<close>, one for each flag), \<open>atomic_rename\<close> (\<open>Secret_File\<close>), \<open>key_store\<close> (\<open>Credential\<close>), \<open>layered_field\<close> (\<open>Config_Laws\<close>, one for
  each layered setting), \<open>machine\<close> (\<open>Host_Step\<close>, what a step may rely on of its runner) and
  \<open>readiness\<close> (\<open>Serve_Health\<close>).

  \<^bold>\<open>Bounds and fuel.\<close> No loop is cut short. Loops that the code bounds carry its bound: 40 links in a
  path, 10000 names for a temporary file, 10000 levels of JSON, five attempts to remove a state
  directory, the retries of the dialer. Loops over input are recursive functions with a measure.
  A wait that may last for ever (the lock of the profile store, the SSH child) is the value
  \<open>None\<close>; the properties of a run are about the runs that return.

  \<^bold>\<open>Not modelled.\<close> The cobra commands (help, and the declaration of flags but for \<open>connect\<close>), logging calls and the handlers
  of \<open>log/slog\<close>; the bytes that the control proxy copies between its two connections;
  system calls, whose answers the model takes as arguments: file locks, extended attributes,
  process containment, the Windows security API, elevation; the stream of node
  states that tsnet produces. Their parts are listed in the manifest with the reason.
\<close>

end
